(* ===== verification/Go_Prelude.thy ===== *)
theory Go_Prelude
  imports Complex_Main "HOL-Library.Word"
begin

text \<open>
  Prelude of the development: what the components take from the Go language and its standard
  library, and the generic lemmas their proofs share.

  \<^item> Go strings are byte sequences, and so is \<^typ>\<open>string\<close>.  The functions of package
    \<^verbatim>\<open>strings\<close> that the source calls are given with the same argument order.  Case folding is the
    ASCII part of \<^verbatim>\<open>ToLower\<close> and \<^verbatim>\<open>EqualFold\<close>.
  \<^item> A Go map is a partial function; \<^verbatim>\<open>delete(m, k)\<close> is the update with \<^term>\<open>None\<close>.
  \<^item> An operation that returns \<^verbatim>\<open>(T, error)\<close> is a sum whose left side is the error.
  \<^item> \<^verbatim>\<open>time.Time\<close> is an instant counted in nanoseconds; \<^verbatim>\<open>time.Now()\<close> is an argument of the
    operation that reads the clock.
\<close>

named_theorems go_string "equations and facts about the modelled part of package strings"
named_theorems inv_intro "an operation preserves the invariant of its component"

type_synonym instant = int
type_synonym duration = int

section \<open>Package strings\<close>

text \<open>\<^verbatim>\<open>strings.Split(s, sep)\<close> for a separator of one byte.\<close>

fun strings_Split :: "string \<Rightarrow> char \<Rightarrow> string list" where
  "strings_Split [] c = [[]]"
| "strings_Split (x # xs) c =
     (if x = c then [] # strings_Split xs c
      else (case strings_Split xs c of [] \<Rightarrow> [[x]] | p # ps \<Rightarrow> (x # p) # ps))"

text \<open>\<^verbatim>\<open>strings.Join(parts, sep)\<close> for a separator of one byte.\<close>

fun strings_Join :: "string list \<Rightarrow> char \<Rightarrow> string" where
  "strings_Join [] c = []"
| "strings_Join [p] c = p"
| "strings_Join (p # q # ps) c = p @ c # strings_Join (q # ps) c"

definition strings_HasPrefix :: "string \<Rightarrow> string \<Rightarrow> bool" where
  "strings_HasPrefix s p \<longleftrightarrow> take (length p) s = p"

definition strings_HasSuffix :: "string \<Rightarrow> string \<Rightarrow> bool" where
  "strings_HasSuffix s p \<longleftrightarrow> length p \<le> length s \<and> drop (length s - length p) s = p"

definition strings_TrimPrefix :: "string \<Rightarrow> string \<Rightarrow> string" where
  "strings_TrimPrefix s p = (if strings_HasPrefix s p then drop (length p) s else s)"

fun strings_Contains :: "string \<Rightarrow> string \<Rightarrow> bool" where
  "strings_Contains [] t = (t = [])"
| "strings_Contains (x # xs) t = (strings_HasPrefix (x # xs) t \<or> strings_Contains xs t)"

definition ascii_lower :: "char \<Rightarrow> char" where
  "ascii_lower c = (let n = of_char c :: nat in if 65 \<le> n \<and> n \<le> 90 then char_of (n + 32) else c)"

definition ascii_upper :: "char \<Rightarrow> char" where
  "ascii_upper c = (let n = of_char c :: nat in if 97 \<le> n \<and> n \<le> 122 then char_of (n - 32) else c)"

definition strings_ToLower :: "string \<Rightarrow> string" where
  "strings_ToLower s = map ascii_lower s"

definition strings_EqualFold :: "string \<Rightarrow> string \<Rightarrow> bool" where
  "strings_EqualFold s t \<longleftrightarrow> strings_ToLower s = strings_ToLower t"

lemma strings_Split_not_Nil [simp, go_string]: "strings_Split s c \<noteq> []"
  by (induction s c rule: strings_Split.induct) (auto split: list.splits)

lemma strings_Split_Join [go_string]: "strings_Join (strings_Split s c) c = s"
proof (induction s c rule: strings_Split.induct)
  case (1 c)
  show ?case by simp
next
  case (2 x xs c)
  obtain p ps where split: "strings_Split xs c = p # ps"
    by (cases "strings_Split xs c") (use strings_Split_not_Nil in auto)
  show ?case
  proof (cases "x = c")
    case True
    with 2 split show ?thesis by simp
  next
    case False
    with 2 split show ?thesis by (cases ps) simp_all
  qed
qed

lemma strings_Split_no_sep [go_string]: "p \<in> set (strings_Split s c) \<Longrightarrow> c \<notin> set p"
proof (induction s c arbitrary: p rule: strings_Split.induct)
  case (1 c)
  then show ?case by simp
next
  case (2 x xs c)
  then show ?case by (auto split: if_splits list.splits)
qed

lemma strings_Split_id [go_string]: "c \<notin> set s \<Longrightarrow> strings_Split s c = [s]"
  by (induction s) auto

lemma strings_Split_append [go_string]:
  "c \<notin> set p \<Longrightarrow> strings_Split (p @ c # s) c = p # strings_Split s c"
  by (induction p) auto

lemma strings_TrimPrefix_append [simp, go_string]: "strings_TrimPrefix (p @ s) p = s"
  by (simp add: strings_TrimPrefix_def strings_HasPrefix_def)

lemma strings_EqualFold_refl [simp]: "strings_EqualFold s s"
  by (simp add: strings_EqualFold_def)

section \<open>Maps\<close>

text \<open>Two maps that are inverse to each other: the index that a pool keeps in both directions.\<close>

definition maps_inverse :: "('a \<rightharpoonup> 'b) \<Rightarrow> ('b \<rightharpoonup> 'a) \<Rightarrow> bool" where
  "maps_inverse m w \<longleftrightarrow> (\<forall>a b. m a = Some b \<longleftrightarrow> w b = Some a)"

lemma maps_inverse_empty [simp]: "maps_inverse Map.empty Map.empty"
  by (simp add: maps_inverse_def)

lemma maps_inverseD: "maps_inverse m w \<Longrightarrow> m a = Some b \<Longrightarrow> w b = Some a"
  by (simp add: maps_inverse_def)

lemma maps_inverseD': "maps_inverse m w \<Longrightarrow> w b = Some a \<Longrightarrow> m a = Some b"
  by (simp add: maps_inverse_def)

lemma maps_inverse_insert:
  "maps_inverse m w \<Longrightarrow> m a = None \<Longrightarrow> w b = None \<Longrightarrow> maps_inverse (m(a \<mapsto> b)) (w(b \<mapsto> a))"
proof -
  assume inv: "maps_inverse m w" and "m a = None" "w b = None"
  then have "m x \<noteq> Some b" "w y \<noteq> Some a" for x y
    unfolding maps_inverse_def by (metis option.distinct(1))+
  with inv show ?thesis unfolding maps_inverse_def by auto
qed

lemma maps_inverse_inj:
  "maps_inverse m w \<Longrightarrow> w b = Some a \<Longrightarrow> w c = Some a \<Longrightarrow> b = c"
  unfolding maps_inverse_def by (metis option.inject)

lemma maps_inverse_delete:
  "maps_inverse m w \<Longrightarrow> w b = Some a \<Longrightarrow> maps_inverse (m(a := None)) (w(b := None))"
proof -
  assume inv: "maps_inverse m w" and b: "w b = Some a"
  show ?thesis
    unfolding maps_inverse_def
  proof (intro allI)
    fix x y
    consider "x = a" | "x \<noteq> a" "y = b" | "x \<noteq> a" "y \<noteq> b" by blast
    then show "((m(a := None)) x = Some y) = ((w(b := None)) y = Some x)"
    proof cases
      case 1
      then show ?thesis using maps_inverse_inj [OF inv b, of y] by auto
    next
      case 2
      then show ?thesis using maps_inverseD [OF inv, of x b] b by auto
    next
      case 3
      have "(m x = Some y) = (w y = Some x)" using inv by (simp add: maps_inverse_def)
      with 3 show ?thesis by simp
    qed
  qed
qed

section \<open>Lists\<close>

lemma set_tlD: "x \<in> set (tl xs) \<Longrightarrow> x \<in> set xs"
  by (cases xs) auto


lemma find_SomeD: "find P xs = Some x \<Longrightarrow> x \<in> set xs \<and> P x"
  by (auto simp: find_Some_iff)

end
