(* ===== verification/Port_Allocator.thy ===== *)
theory Port_Allocator
  imports Go_Prelude
begin

text \<open>
  \<^verbatim>\<open>src/internal/supervisor/port_allocator.go\<close>: the pool of TCP ports, one block of ten per
  device.  Ports are Go \<^verbatim>\<open>int\<close>s; the configuration bounds both ends of the range by 65535
  (\<^verbatim>\<open>src/internal/config/config.go\<close>), so the additions do not overflow and the ports are
  mathematical integers here.  Every method holds the mutex for its whole body.
\<close>

record PortAllocator =
  pa_minPort :: int
  pa_maxPort :: int
  pa_used :: "int \<rightharpoonup> string"
  pa_bySerial :: "string \<rightharpoonup> int"

datatype port_error =
    MinNotBelowMax int int
  | PoolExhausted int int nat

definition NewPortAllocator :: "int \<Rightarrow> int \<Rightarrow> port_error + PortAllocator" where
  "NewPortAllocator minPort maxPort =
     (if minPort \<ge> maxPort then Inl (MinNotBelowMax minPort maxPort)
      else Inr \<lparr>pa_minPort = minPort, pa_maxPort = maxPort,
                pa_used = Map.empty, pa_bySerial = Map.empty\<rparr>)"

text \<open>The loop \<^verbatim>\<open>for port := minPort; port <= maxPort; port += 10\<close> of \<^verbatim>\<open>Allocate\<close>.\<close>

function find_free :: "(int \<rightharpoonup> string) \<Rightarrow> int \<Rightarrow> int \<Rightarrow> int option" where
  "find_free used maxPort port =
     (if port \<le> maxPort
      then (case used port of None \<Rightarrow> Some port | Some _ \<Rightarrow> find_free used maxPort (port + 10))
      else None)"
  by pat_completeness auto
termination
  by (relation "measure (\<lambda>(used, maxPort, port). nat (maxPort - port + 1))") auto

declare find_free.simps [simp del]

definition Allocate :: "PortAllocator \<Rightarrow> string \<Rightarrow> (port_error + int) \<times> PortAllocator" where
  "Allocate pa serial =
     (case pa_bySerial pa serial of
        Some port \<Rightarrow> (Inr port, pa)
      | None \<Rightarrow>
          (case find_free (pa_used pa) (pa_maxPort pa) (pa_minPort pa) of
             Some port \<Rightarrow>
               (Inr port, pa\<lparr>pa_used := (pa_used pa)(port \<mapsto> serial),
                             pa_bySerial := (pa_bySerial pa)(serial \<mapsto> port)\<rparr>)
           | None \<Rightarrow>
               (Inl (PoolExhausted (pa_minPort pa) (pa_maxPort pa) (card (dom (pa_used pa)))), pa)))"

definition Free :: "PortAllocator \<Rightarrow> string \<Rightarrow> PortAllocator" where
  "Free pa serial =
     (case pa_bySerial pa serial of
        None \<Rightarrow> pa
      | Some port \<Rightarrow> pa\<lparr>pa_used := (pa_used pa)(port := None),
                         pa_bySerial := (pa_bySerial pa)(serial := None)\<rparr>)"

definition PortFor :: "PortAllocator \<Rightarrow> string \<Rightarrow> int" where
  "PortFor pa serial = (case pa_bySerial pa serial of None \<Rightarrow> 0 | Some port \<Rightarrow> port)"

section \<open>The interface of a port pool\<close>

text \<open>
  What the device supervisors rely on, stated over the lookup \<^term>\<open>port_of\<close>: a serial keeps
  its port until it frees it, two serials never hold the same port, and no call for one serial
  touches the port of another.
\<close>

locale port_pool =
  fixes alloc :: "'p \<Rightarrow> string \<Rightarrow> ('e + int) \<times> 'p"
    and release :: "'p \<Rightarrow> string \<Rightarrow> 'p"
    and port_of :: "'p \<Rightarrow> string \<Rightarrow> int option"
    and in_range :: "'p \<Rightarrow> int \<Rightarrow> bool"
    and invar :: "'p \<Rightarrow> bool"
  assumes invar_alloc: "invar p \<Longrightarrow> invar (snd (alloc p s))"
    and invar_release: "invar p \<Longrightarrow> invar (release p s)"
    and alloc_ok: "invar p \<Longrightarrow> fst (alloc p s) = Inr q \<Longrightarrow> port_of (snd (alloc p s)) s = Some q"
    and alloc_err: "invar p \<Longrightarrow> fst (alloc p s) = Inl e \<Longrightarrow> snd (alloc p s) = p \<and> port_of p s = None"
    and alloc_held: "invar p \<Longrightarrow> port_of p s = Some q \<Longrightarrow> alloc p s = (Inr q, p)"
    and alloc_frame: "invar p \<Longrightarrow> t \<noteq> s \<Longrightarrow> port_of (snd (alloc p s)) t = port_of p t"
    and release_self: "invar p \<Longrightarrow> port_of (release p s) s = None"
    and release_frame: "invar p \<Longrightarrow> t \<noteq> s \<Longrightarrow> port_of (release p s) t = port_of p t"
    and port_range: "invar p \<Longrightarrow> port_of p s = Some q \<Longrightarrow> in_range p q"
    and port_spaced: "invar p \<Longrightarrow> port_of p s = Some q \<Longrightarrow> port_of p t = Some q' \<Longrightarrow> s \<noteq> t \<Longrightarrow>
      \<bar>q - q'\<bar> \<ge> 10"
begin

lemma port_unique: "invar p \<Longrightarrow> port_of p s = Some q \<Longrightarrow> port_of p t = Some q \<Longrightarrow> s = t"
  using port_spaced [of p s q t q] by fastforce

lemma alloc_idem:
  assumes "invar p" "fst (alloc p s) = Inr q"
  shows "alloc (snd (alloc p s)) s = (Inr q, snd (alloc p s))"
  by (rule alloc_held [OF invar_alloc [OF assms(1)] alloc_ok [OF assms]])

lemma blocks_disjoint:
  assumes "invar p" "port_of p s = Some q" "port_of p t = Some q'" "s \<noteq> t"
  shows "{q ..< q + 10} \<inter> {q' ..< q' + 10} = {}"
  using port_spaced [OF assms] by auto

text \<open>
  The ports derived from a base port by an offset.  Two devices never share one as long as all
  bases lie within a window narrower than the distance of any two offsets.
\<close>

lemma derived_disjoint:
  assumes "invar p" "port_of p s = Some q" "port_of p t = Some q'" "s \<noteq> t"
    and window: "\<bar>q - q'\<bar> < 990"
    and small: "0 \<le> b" "b < 10" "0 \<le> d" "d < 10"
  shows "q + (1000 * a + b) \<noteq> q' + (1000 * c + d)"
proof
  assume eq: "q + (1000 * a + b) = q' + (1000 * c + d)"
  consider "a = c" | "a + 1 \<le> c" | "c + 1 \<le> a" by linarith
  then show False
    using eq port_spaced [OF assms(1-4)] window small by cases linarith+
qed

end

section \<open>The invariant of the allocator\<close>

definition slot :: "PortAllocator \<Rightarrow> int \<Rightarrow> bool" where
  "slot pa port \<longleftrightarrow> pa_minPort pa \<le> port \<and> port \<le> pa_maxPort pa \<and> (port - pa_minPort pa) mod 10 = 0"

definition pa_inv :: "PortAllocator \<Rightarrow> bool" where
  "pa_inv pa \<longleftrightarrow> maps_inverse (pa_used pa) (pa_bySerial pa) \<and>
     (\<forall>port s. pa_used pa port = Some s \<longrightarrow> slot pa port)"

lemma find_free_Some:
  "find_free used maxPort port = Some q \<Longrightarrow>
     used q = None \<and> port \<le> q \<and> q \<le> maxPort \<and> (q - port) mod 10 = 0"
proof (induction used maxPort port rule: find_free.induct)
  case (1 used maxPort port)
  show ?case
  proof (cases "port \<le> maxPort \<and> used port \<noteq> None")
    case True
    with "1.prems" have "find_free used maxPort (port + 10) = Some q"
      by (auto simp: find_free.simps [of used maxPort port])
    with "1.IH" True have "used q = None \<and> port + 10 \<le> q \<and> q \<le> maxPort \<and> (q - (port + 10)) mod 10 = 0"
      by auto
    moreover from this have "(q - (port + 10)) mod 10 = 0" by simp
    then have "(q - port) mod 10 = 0" by presburger
    ultimately show ?thesis by simp
  next
    case False
    with "1.prems" show ?thesis
      by (auto simp: find_free.simps [of used maxPort port] split: if_splits)
  qed
qed

lemma find_free_None:
  "find_free used maxPort port = None \<Longrightarrow> port \<le> q \<Longrightarrow> q \<le> maxPort \<Longrightarrow> (q - port) mod 10 = 0 \<Longrightarrow>
     used q \<noteq> None"
proof (induction used maxPort port rule: find_free.induct)
  case (1 used maxPort port)
  from "1.prems" have taken: "port \<le> maxPort" "used port \<noteq> None"
    and rest: "find_free used maxPort (port + 10) = None"
    by (auto simp: find_free.simps [of used maxPort port] split: if_splits option.splits)
  show ?case
  proof (cases "q = port")
    case True
    with taken show ?thesis by simp
  next
    case False
    with "1.prems"(2,4) have "port + 10 \<le> q" "(q - (port + 10)) mod 10 = 0" by presburger+
    with "1.IH" taken rest "1.prems"(3) show ?thesis by auto
  qed
qed

lemma slot_Allocate [simp]: "slot (snd (Allocate pa s)) = slot pa"
  by (auto simp: slot_def Allocate_def fun_eq_iff split: option.splits)

lemma slot_Free [simp]: "slot (Free pa s) = slot pa"
  by (auto simp: slot_def Free_def fun_eq_iff split: option.splits)

lemma pa_inv_New: "NewPortAllocator mn mx = Inr pa \<Longrightarrow> pa_inv pa"
  by (auto simp: NewPortAllocator_def pa_inv_def split: if_splits)

lemma pa_inv_Allocate [inv_intro]:
  assumes "pa_inv pa"
  shows "pa_inv (snd (Allocate pa s))"
proof (cases "pa_bySerial pa s")
  case (Some p)
  with assms show ?thesis by (simp add: Allocate_def)
next
  case None
  note fresh = None
  show ?thesis
  proof (cases "find_free (pa_used pa) (pa_maxPort pa) (pa_minPort pa)")
    case None
    with assms fresh show ?thesis by (simp add: Allocate_def)
  next
    case (Some q)
    from find_free_Some [OF Some] have "pa_used pa q = None" "slot pa q"
      by (auto simp: slot_def)
    with assms fresh Some show ?thesis
      by (auto simp: pa_inv_def Allocate_def slot_def intro: maps_inverse_insert)
  qed
qed

lemma pa_inv_Free [inv_intro]: "pa_inv pa \<Longrightarrow> pa_inv (Free pa s)"
  by (auto simp: pa_inv_def Free_def slot_def intro: maps_inverse_delete split: option.splits)

lemma pa_inv_spaced:
  assumes inv: "pa_inv pa" and s: "pa_bySerial pa s = Some q" and t: "pa_bySerial pa t = Some q'"
    and neq: "s \<noteq> t"
  shows "\<bar>q - q'\<bar> \<ge> 10"
proof -
  from inv s t have "pa_used pa q = Some s" "pa_used pa q' = Some t"
    by (auto simp: pa_inv_def maps_inverse_def)
  with inv neq have "q \<noteq> q'" "slot pa q" "slot pa q'"
    by (auto simp: pa_inv_def)
  then show ?thesis unfolding slot_def by presburger
qed

interpretation pool: port_pool Allocate Free pa_bySerial slot pa_inv
proof unfold_locales
  fix pa :: PortAllocator and s assume "pa_inv pa" then show "pa_inv (snd (Allocate pa s))" by (rule inv_intro)
next
  fix pa :: PortAllocator and s assume "pa_inv pa" then show "pa_inv (Free pa s)" by (rule inv_intro)
next
  fix pa s t q q'
  assume "pa_inv pa" "pa_bySerial pa s = Some q" "pa_bySerial pa t = Some q'" "s \<noteq> t"
  then show "\<bar>q - q'\<bar> \<ge> 10" by (rule pa_inv_spaced)
next
  fix pa s q assume "pa_inv pa" "pa_bySerial pa s = Some q"
  then show "slot pa q" by (auto simp: pa_inv_def maps_inverse_def)
qed (auto simp: Allocate_def Free_def split: option.splits)

section \<open>Every history of calls\<close>

datatype port_call = CallAllocate string | CallFree string

fun pa_step :: "PortAllocator \<Rightarrow> port_call \<Rightarrow> PortAllocator" where
  "pa_step pa (CallAllocate s) = snd (Allocate pa s)"
| "pa_step pa (CallFree s) = Free pa s"

definition pa_run :: "PortAllocator \<Rightarrow> port_call list \<Rightarrow> PortAllocator" where
  "pa_run pa cs = foldl pa_step pa cs"

lemma pa_run_simps [simp]:
  "pa_run pa [] = pa" "pa_run pa (c # cs) = pa_run (pa_step pa c) cs"
  by (simp_all add: pa_run_def)

lemma pa_inv_run: "pa_inv pa \<Longrightarrow> pa_inv (pa_run pa cs)"
proof (induction cs arbitrary: pa)
  case (Cons c cs)
  have "pa_inv (pa_step pa c)" using Cons.prems by (cases c) (auto intro: inv_intro)
  with Cons.IH show ?case by simp
qed simp

lemma slot_step [simp]: "slot (pa_step pa c) = slot pa"
  by (cases c) auto

lemma slot_run [simp]: "slot (pa_run pa cs) = slot pa"
  by (induction cs arbitrary: pa) auto

text \<open>
  C5. After any sequence of allocations and frees on a new pool, the ports held by two different
  devices are at least ten apart, and each lies in the configured range on the grid of ten that
  starts at \<^verbatim>\<open>minPort\<close>: the ten-port blocks of two devices never overlap.
\<close>

theorem ports_never_overlap:
  assumes new: "NewPortAllocator mn mx = Inr pa"
    and s: "pa_bySerial (pa_run pa cs) s = Some p"
    and t: "pa_bySerial (pa_run pa cs) t = Some q"
    and neq: "s \<noteq> t"
  shows "{p ..< p + 10} \<inter> {q ..< q + 10} = {} \<and> mn \<le> p \<and> p \<le> mx \<and> (p - mn) mod 10 = 0"
proof -
  have inv: "pa_inv (pa_run pa cs)" by (rule pa_inv_run [OF pa_inv_New [OF new]])
  have "slot pa p" using pool.port_range [OF inv s] by simp
  with new have "mn \<le> p \<and> p \<le> mx \<and> (p - mn) mod 10 = 0"
    by (auto simp: slot_def NewPortAllocator_def split: if_splits)
  with pool.blocks_disjoint [OF inv s t neq] show ?thesis by simp
qed

theorem ports_never_overlap_witness:
  "\<exists>pa. NewPortAllocator 7400 7700 = Inr pa \<and>
     (let r = pa_run pa [CallAllocate ''a'', CallAllocate ''b'']
      in pa_bySerial r ''a'' = Some 7400 \<and> pa_bySerial r ''b'' = Some 7410 \<and>
         {7400 ..< 7400 + 10} \<inter> {7410 ..< 7410 + 10 :: int} = {})"
proof -
  let ?pa = "\<lparr>pa_minPort = 7400, pa_maxPort = 7700, pa_used = Map.empty, pa_bySerial = Map.empty\<rparr>"
  let ?r = "pa_run ?pa [CallAllocate ''a'', CallAllocate ''b'']"
  have new: "NewPortAllocator 7400 7700 = Inr ?pa" by (simp add: NewPortAllocator_def)
  have a: "pa_bySerial ?r ''a'' = Some 7400" and b: "pa_bySerial ?r ''b'' = Some 7410"
    by (simp_all add: Allocate_def find_free.simps)
  from ports_never_overlap [OF new a b] new a b show ?thesis by auto
qed

text \<open>
  \<^verbatim>\<open>Allocate\<close> fails only for a device without a port, and only when every slot of the range
  is taken; it then leaves the pool as it was.  Conversely, when some slot is free it succeeds.
\<close>

theorem Allocate_fails_iff_exhausted:
  assumes "pa_inv pa"
  shows "(\<exists>e. fst (Allocate pa s) = Inl e) \<longleftrightarrow>
    pa_bySerial pa s = None \<and> (\<forall>port. slot pa port \<longrightarrow> pa_used pa port \<noteq> None)"
proof -
  have "(\<forall>port. slot pa port \<longrightarrow> pa_used pa port \<noteq> None) \<longleftrightarrow>
      find_free (pa_used pa) (pa_maxPort pa) (pa_minPort pa) = None"
  proof
    assume all: "\<forall>port. slot pa port \<longrightarrow> pa_used pa port \<noteq> None"
    show "find_free (pa_used pa) (pa_maxPort pa) (pa_minPort pa) = None"
    proof (rule ccontr)
      assume "find_free (pa_used pa) (pa_maxPort pa) (pa_minPort pa) \<noteq> None"
      then obtain q where "find_free (pa_used pa) (pa_maxPort pa) (pa_minPort pa) = Some q" by auto
      from find_free_Some [OF this] all show False by (auto simp: slot_def)
    qed
  next
    assume "find_free (pa_used pa) (pa_maxPort pa) (pa_minPort pa) = None"
    then show "\<forall>port. slot pa port \<longrightarrow> pa_used pa port \<noteq> None"
      using find_free_None by (auto simp: slot_def)
  qed
  then show ?thesis by (auto simp: Allocate_def split: option.splits)
qed

theorem Allocate_fails_iff_exhausted_witness:
  "let pa = \<lparr>pa_minPort = 10, pa_maxPort = 15, pa_used = [10 \<mapsto> ''a''], pa_bySerial = [''a'' \<mapsto> 10]\<rparr>
   in pa_inv pa \<and> (\<exists>e. fst (Allocate pa ''b'') = Inl e) \<and>
      (\<forall>port. slot pa port \<longrightarrow> pa_used pa port \<noteq> None)"
proof -
  let ?pa = "\<lparr>pa_minPort = 10, pa_maxPort = 15, pa_used = [10 \<mapsto> ''a''], pa_bySerial = [''a'' \<mapsto> 10]\<rparr>"
  have inv: "pa_inv ?pa" by (auto simp: pa_inv_def slot_def maps_inverse_def)
  have "\<exists>e. fst (Allocate ?pa ''b'') = Inl e" by (simp add: Allocate_def find_free.simps)
  with inv Allocate_fails_iff_exhausted [OF inv, of "''b''"] show ?thesis by simp
qed

end
