(* ===== verification/H264.thy ===== *)
theory H264
  imports Go_Prelude "HOL-Library.Monad_Syntax" "HOL-Library.Signed_Division"
begin

unbundle bit_operations_syntax

text \<open>
  \<^verbatim>\<open>src/internal/stream/h264.go\<close>: splitting an Annex-B byte stream into NAL units, AVCC framing,
  the Exp-Golomb bit reader and the parser of sequence parameter sets.  Bytes are 8-bit words and
  Go's \<^verbatim>\<open>uint\<close> is a 64-bit word, so shifts, additions and conversions wrap as they do in Go.
  \<^verbatim>\<open>readUE\<close> loops until it reads a one bit and \<^verbatim>\<open>readBit\<close> yields zeros past the end of the data,
  so the loop may not end: the reader and the parser are option-valued, and \<^term>\<open>None\<close> is a call
  that does not return.
\<close>

type_synonym byte = "8 word"
type_synonym uint64 = "64 word"

section \<open>NAL units\<close>

definition nalNonIDR :: byte where "nalNonIDR = 1"
definition nalIDR :: byte where "nalIDR = 5"
definition nalSEI :: byte where "nalSEI = 6"
definition nalSPS :: byte where "nalSPS = 7"
definition nalPPS :: byte where "nalPPS = 8"
definition nalAUD :: byte where "nalAUD = 9"

lemmas nal_defs = nalNonIDR_def nalIDR_def nalSEI_def nalSPS_def nalPPS_def nalAUD_def

definition nalType :: "byte \<Rightarrow> byte" where
  "nalType b = b AND 0x1F"

text \<open>The closure \<^verbatim>\<open>findStart\<close>: the length of the start code at \<^term>\<open>i\<close>, if there is one.\<close>

definition findStart :: "byte list \<Rightarrow> nat \<Rightarrow> nat option" where
  "findStart data i =
     (let n = length data in
      if i + 3 < n \<and> data ! i = 0 \<and> data ! (i + 1) = 0 \<and> data ! (i + 2) = 0 \<and> data ! (i + 3) = 1
      then Some 4
      else if i + 2 < n \<and> data ! i = 0 \<and> data ! (i + 1) = 0 \<and> data ! (i + 2) = 1
      then Some 3
      else None)"

definition slice :: "nat \<Rightarrow> nat \<Rightarrow> 'a list \<Rightarrow> 'a list" where
  "slice a b xs = drop a (take b xs)"

lemma findStart_pos: "findStart data i = Some k \<Longrightarrow> 0 < k"
  by (auto simp: findStart_def Let_def split: if_splits)

text \<open>The loop of \<^verbatim>\<open>annexBSplit\<close>; \<^verbatim>\<open>start = -1\<close> is \<^term>\<open>None\<close>.\<close>

function annexB_loop ::
  "byte list \<Rightarrow> nat \<Rightarrow> nat option \<Rightarrow> byte list list \<Rightarrow> nat option \<times> byte list list" where
  "annexB_loop data i start units =
     (if i < length data then
        (case findStart data i of
           Some skip \<Rightarrow>
             annexB_loop data (i + skip) (Some (i + skip))
               (case start of
                  Some s \<Rightarrow> if i > s then units @ [slice s i data] else units
                | None \<Rightarrow> units)
         | None \<Rightarrow> annexB_loop data (i + 1) start units)
      else (start, units))"
  by pat_completeness auto
termination
  by (relation "measure (\<lambda>(data, i, start, units). length data - i)") (auto dest: findStart_pos)

declare annexB_loop.simps [simp del]

definition annexBSplit :: "byte list \<Rightarrow> byte list list" where
  "annexBSplit data =
     (case annexB_loop data 0 None [] of
        (Some s, units) \<Rightarrow> if s < length data then units @ [drop s data] else units
      | (None, units) \<Rightarrow> units)"

section \<open>AVCC framing\<close>

text \<open>\<^verbatim>\<open>binary.BigEndian.PutUint32\<close> and \<^verbatim>\<open>binary.BigEndian.Uint32\<close>.\<close>

definition PutUint32 :: "32 word \<Rightarrow> byte list" where
  "PutUint32 v = [ucast (drop_bit 24 v), ucast (drop_bit 16 v), ucast (drop_bit 8 v), ucast v]"

definition Uint32 :: "byte list \<Rightarrow> 32 word" where
  "Uint32 b = ucast (b ! 3) OR push_bit 8 (ucast (b ! 2)) OR push_bit 16 (ucast (b ! 1)) OR
     push_bit 24 (ucast (b ! 0))"

definition avccWrap :: "byte list \<Rightarrow> byte list" where
  "avccWrap nal = PutUint32 (word_of_nat (length nal)) @ nal"

definition in_mdat :: "byte list \<Rightarrow> bool" where
  "in_mdat nal \<longleftrightarrow> nal \<noteq> [] \<and>
     \<not> (nalType (hd nal) = nalSPS \<or> nalType (hd nal) = nalPPS \<or> nalType (hd nal) = nalSEI \<or>
        nalType (hd nal) = nalAUD)"

fun frameToAVCC_loop :: "byte list list \<Rightarrow> byte list \<Rightarrow> byte list" where
  "frameToAVCC_loop [] out = out"
| "frameToAVCC_loop (nal # nals) out =
     frameToAVCC_loop nals (if in_mdat nal then out @ avccWrap nal else out)"

definition frameToAVCC :: "byte list \<Rightarrow> byte list" where
  "frameToAVCC annexB = frameToAVCC_loop (annexBSplit annexB) []"

fun extractSPSPPS_loop ::
  "byte list list \<Rightarrow> byte list option \<times> byte list option \<Rightarrow> byte list option \<times> byte list option" where
  "extractSPSPPS_loop [] acc = acc"
| "extractSPSPPS_loop (nal # nals) (sps, pps) =
     extractSPSPPS_loop nals
       (if nal = [] then (sps, pps)
        else if nalType (hd nal) = nalSPS then (if sps = None then Some nal else sps, pps)
        else if nalType (hd nal) = nalPPS then (sps, if pps = None then Some nal else pps)
        else (sps, pps))"

definition extractSPSPPS :: "byte list \<Rightarrow> byte list option \<times> byte list option" where
  "extractSPSPPS annexB = extractSPSPPS_loop (annexBSplit annexB) (None, None)"

text \<open>\<^verbatim>\<open>isKeyFrame\<close> of \<^verbatim>\<open>stream.go\<close>: any IDR, SPS or PPS unit in the buffer.\<close>

fun isKeyFrame_loop :: "byte list list \<Rightarrow> bool" where
  "isKeyFrame_loop [] = False"
| "isKeyFrame_loop (nal # nals) =
     (if nal \<noteq> [] \<and> (nalType (hd nal) = nalIDR \<or> nalType (hd nal) = nalSPS \<or> nalType (hd nal) = nalPPS)
      then True else isKeyFrame_loop nals)"

definition isKeyFrame :: "byte list \<Rightarrow> bool" where
  "isKeyFrame annexB = isKeyFrame_loop (annexBSplit annexB)"

section \<open>The bit reader\<close>

record bitReader =
  br_data :: "byte list"
  br_bytePos :: nat
  br_bitPos :: nat

definition readBit :: "bitReader \<Rightarrow> uint64 \<times> bitReader" where
  "readBit r =
     (if br_bytePos r \<ge> length (br_data r) then (0, r)
      else
        let bit = drop_bit (7 - br_bitPos r) (br_data r ! br_bytePos r) AND 1;
            r1 = r\<lparr>br_bitPos := br_bitPos r + 1\<rparr>;
            r2 = (if br_bitPos r1 = 8 then r1\<lparr>br_bitPos := 0, br_bytePos := br_bytePos r1 + 1\<rparr> else r1)
        in (ucast bit, r2))"

fun readBits_loop :: "nat \<Rightarrow> uint64 \<Rightarrow> bitReader \<Rightarrow> uint64 \<times> bitReader" where
  "readBits_loop 0 val r = (val, r)"
| "readBits_loop (Suc n) val r =
     (case readBit r of (b, r') \<Rightarrow> readBits_loop n (push_bit 1 val OR b) r')"

definition readBits :: "nat \<Rightarrow> bitReader \<Rightarrow> uint64 \<times> bitReader" where
  "readBits n r = readBits_loop n 0 r"

partial_function (option) readUE_zeros :: "bitReader \<Rightarrow> nat \<Rightarrow> (nat \<times> bitReader) option" where
  "readUE_zeros r zeroCount =
     (case readBit r of (b, r') \<Rightarrow>
        if b = 0 then readUE_zeros r' (zeroCount + 1) else Some (zeroCount, r'))"

definition readUE :: "bitReader \<Rightarrow> (uint64 \<times> bitReader) option" where
  "readUE r = do {
     (zeroCount, r) \<leftarrow> readUE_zeros r 0;
     if zeroCount = 0 then Some (0, r)
     else (case readBits zeroCount r of (val, r) \<Rightarrow> Some (push_bit zeroCount 1 - 1 + val, r)) }"

text \<open>Both halves fit in 63 bits, so the conversion to \<^verbatim>\<open>int\<close> is exact.\<close>

definition readSE :: "bitReader \<Rightarrow> (int \<times> bitReader) option" where
  "readSE r = do {
     (val, r) \<leftarrow> readUE r;
     if val mod 2 = 0 then Some (- uint (val div 2), r) else Some (uint ((val + 1) div 2), r) }"

section \<open>Sequence parameter sets\<close>

fun strip_emulation :: "byte list \<Rightarrow> byte list" where
  "strip_emulation [] = []"
| "strip_emulation (a # xs) =
     (if length xs \<ge> 2 \<and> a = 0 \<and> xs ! 0 = 0 \<and> xs ! 1 = 3 then a # xs ! 0 # strip_emulation (drop 2 xs)
      else a # strip_emulation xs)"

definition high_profile :: "byte \<Rightarrow> bool" where
  "high_profile p \<longleftrightarrow> p \<in> {100, 110, 122, 244, 44, 83, 86, 118, 128, 138, 139, 144}"

text \<open>Go's \<^verbatim>\<open>int\<close> addition wraps at 64 bits and its \<^verbatim>\<open>%\<close> takes the sign of the dividend.\<close>

definition int64 :: "int \<Rightarrow> int" where
  "int64 x = sint (word_of_int x :: 64 word)"

fun scaling_list :: "nat \<Rightarrow> int \<Rightarrow> int \<Rightarrow> bitReader \<Rightarrow> bitReader option" where
  "scaling_list 0 lastScale nextScale r = Some r"
| "scaling_list (Suc j) lastScale nextScale r =
     (if nextScale \<noteq> 0 then do {
        (deltaScale, r) \<leftarrow> readSE r;
        let nextScale = int64 (int64 (lastScale + deltaScale) + 256) smod 256;
        scaling_list j (if nextScale \<noteq> 0 then nextScale else lastScale) nextScale r }
      else scaling_list j lastScale nextScale r)"

text \<open>\<^term>\<open>scaling_matrix m i\<close> runs the loop over the lists \<^term>\<open>i\<close>, \<dots>, \<^term>\<open>i + m - 1\<close>.\<close>

fun scaling_matrix :: "nat \<Rightarrow> nat \<Rightarrow> bitReader \<Rightarrow> bitReader option" where
  "scaling_matrix 0 i r = Some r"
| "scaling_matrix (Suc m) i r =
     (case readBit r of (present, r) \<Rightarrow>
        if present \<noteq> 0 then do {
          r \<leftarrow> scaling_list (if i \<ge> 6 then 64 else 16) 8 8 r;
          scaling_matrix m (i + 1) r }
        else scaling_matrix m (i + 1) r)"

definition high_profile_fields :: "bitReader \<Rightarrow> bitReader option" where
  "high_profile_fields r = do {
     (chromaFormatIdc, r) \<leftarrow> readUE r;
     let r = (if chromaFormatIdc = 3 then snd (readBit r) else r);
     (_, r) \<leftarrow> readUE r;
     (_, r) \<leftarrow> readUE r;
     let r = snd (readBit r);
     let (seqScalingMatrixPresentFlag, r) = readBit r;
     if seqScalingMatrixPresentFlag \<noteq> 0 then scaling_matrix (if chromaFormatIdc \<noteq> 3 then 8 else 12) 0 r
     else Some r }"

fun skipUE :: "nat \<Rightarrow> bitReader \<Rightarrow> bitReader option" where
  "skipUE 0 r = Some r"
| "skipUE (Suc n) r = do { (_, r) \<leftarrow> readUE r; skipUE n r }"

definition pic_order_fields :: "bitReader \<Rightarrow> bitReader option" where
  "pic_order_fields r = do {
     (picOrderCntType, r) \<leftarrow> readUE r;
     if picOrderCntType = 0 then do { (_, r) \<leftarrow> readUE r; Some r }
     else if picOrderCntType = 1 then do {
       let r = snd (readBit r);
       (_, r) \<leftarrow> readUE r;
       (_, r) \<leftarrow> readUE r;
       (numRefFramesInPicOrderCntCycle, r) \<leftarrow> readUE r;
       skipUE (unat numRefFramesInPicOrderCntCycle) r }
     else Some r }"

definition crop_fields :: "bitReader \<Rightarrow> ((uint64 \<times> uint64 \<times> uint64 \<times> uint64) \<times> bitReader) option" where
  "crop_fields r = do {
     let (frameCroppingFlag, r) = readBit r;
     if frameCroppingFlag \<noteq> 0 then do {
       (cropLeft, r) \<leftarrow> readUE r;
       (cropRight, r) \<leftarrow> readUE r;
       (cropTop, r) \<leftarrow> readUE r;
       (cropBottom, r) \<leftarrow> readUE r;
       Some ((cropLeft, cropRight, cropTop, cropBottom), r) }
     else Some ((0, 0, 0, 0), r) }"

text \<open>From \<^verbatim>\<open>pic_width_in_mbs_minus1\<close> to the end of the function.\<close>

definition parse_dimensions :: "bitReader \<Rightarrow> (16 word \<times> 16 word) option" where
  "parse_dimensions r = do {
     (picWidthInMbsMinus1, r) \<leftarrow> readUE r;
     (picHeightInMapUnitsMinus1, r) \<leftarrow> readUE r;
     let (frameMbsOnlyFlag, r) = readBit r;
     let r = (if frameMbsOnlyFlag = 0 then snd (readBit r) else r);
     let r = snd (readBit r);
     ((cropLeft, cropRight, cropTop, cropBottom), r) \<leftarrow> crop_fields r;
     let width = (ucast ((picWidthInMbsMinus1 + 1) * 16) :: 16 word);
     let height = (ucast ((picHeightInMapUnitsMinus1 + 1) * 16) :: 16 word);
     let height = (if frameMbsOnlyFlag = 0 then height * 2 else height);
     Some (width - ucast ((cropLeft + cropRight) * 2), height - ucast ((cropTop + cropBottom) * 2)) }"

definition parseSPS :: "byte list \<Rightarrow> (16 word \<times> 16 word) option" where
  "parseSPS sps =
     (let data = strip_emulation sps in
      if length data < 5 then Some (0, 0)
      else do {
        let r = \<lparr>br_data = drop 4 data, br_bytePos = 0, br_bitPos = 0\<rparr>;
        let profileIdc = data ! 1;
        (_, r) \<leftarrow> readUE r;
        r \<leftarrow> (if high_profile profileIdc then high_profile_fields r else Some r);
        (_, r) \<leftarrow> readUE r;
        r \<leftarrow> pic_order_fields r;
        (_, r) \<leftarrow> readUE r;
        parse_dimensions (snd (readBit r)) })"

section \<open>Bit streams\<close>

text \<open>
  The abstraction of a reader is the list of bits it has not read.  \<^verbatim>\<open>readBit\<close> takes the head of
  that list, and yields zero for ever once the list is empty.
\<close>

definition byte_bits :: "byte \<Rightarrow> bool list" where
  "byte_bits b = map (\<lambda>i. bit b (7 - i)) [0..<8]"

definition bits_of :: "bitReader \<Rightarrow> bool list" where
  "bits_of r = drop (br_bitPos r) (concat (map byte_bits (drop (br_bytePos r) (br_data r))))"

definition br_ok :: "bitReader \<Rightarrow> bool" where
  "br_ok r \<longleftrightarrow> br_bitPos r < 8 \<and> (br_bytePos r \<ge> length (br_data r) \<longrightarrow> br_bitPos r = 0)"

lemma length_byte_bits [simp]: "length (byte_bits b) = 8"
  by (simp add: byte_bits_def)

lemma bits_of_Nil_iff: "br_ok r \<Longrightarrow> bits_of r = [] \<longleftrightarrow> br_bytePos r \<ge> length (br_data r)"
  by (cases "drop (br_bytePos r) (br_data r)") (auto simp: bits_of_def br_ok_def)

lemma and_1_drop_bit: "drop_bit k (b :: byte) AND 1 = of_bool (bit b k)"
  by (simp add: and_one_eq mod_2_eq_odd bit_iff_odd_drop_bit)

lemma readBit_end: "br_ok r \<Longrightarrow> bits_of r = [] \<Longrightarrow> readBit r = (0, r)"
  by (simp add: bits_of_Nil_iff readBit_def)

lemma readBit_refines:
  assumes ok: "br_ok r" and bits: "bits_of r = b # bs"
  obtains r' where "readBit r = (of_bool b, r')" "bits_of r' = bs" "br_ok r'"
proof -
  let ?i = "br_bytePos r" and ?j = "br_bitPos r"
  have i: "?i < length (br_data r)" and j: "?j < 8"
    using ok bits bits_of_Nil_iff [OF ok] by (auto simp: br_ok_def)
  let ?x = "br_data r ! ?i" and ?rest = "concat (map byte_bits (drop (?i + 1) (br_data r)))"
  have d: "drop ?i (br_data r) = ?x # drop (?i + 1) (br_data r)"
    using i by (simp add: Cons_nth_drop_Suc)
  have "bits_of r = drop ?j (byte_bits ?x) @ ?rest"
    using d j by (simp add: bits_of_def)
  also have "drop ?j (byte_bits ?x) = bit ?x (7 - ?j) # drop (?j + 1) (byte_bits ?x)"
    using j by (simp add: byte_bits_def Cons_nth_drop_Suc [symmetric])
  finally have b: "b = bit ?x (7 - ?j)" and bs: "bs = drop (?j + 1) (byte_bits ?x) @ ?rest"
    using bits by auto
  let ?r1 = "r\<lparr>br_bitPos := ?j + 1\<rparr>"
  let ?r' = "if ?j + 1 = 8 then ?r1\<lparr>br_bitPos := 0, br_bytePos := ?i + 1\<rparr> else ?r1"
  have "readBit r = (of_bool b, ?r')"
    using i b by (simp add: readBit_def Let_def and_1_drop_bit)
  moreover have "bits_of ?r' = bs"
    using d bs j by (simp add: bits_of_def)
  moreover have "br_ok ?r'"
    using i j by (auto simp: br_ok_def)
  ultimately show ?thesis by (rule that)
qed

fun nat_of_bits :: "bool list \<Rightarrow> nat" where
  "nat_of_bits [] = 0"
| "nat_of_bits (b # bs) = of_bool b * 2 ^ length bs + nat_of_bits bs"

lemma push_or_bit: "push_bit 1 (v :: uint64) OR of_bool b = 2 * v + of_bool b"
proof -
  have "push_bit 1 v OR of_bool b = push_bit 1 v + of_bool b"
    by (rule disjunctive_add [symmetric]) (auto simp: bit_simps bit_0)
  then show ?thesis by (simp add: push_bit_eq_mult)
qed

lemma readBits_loop_refines:
  assumes "br_ok r" "bits_of r = bs @ rest"
  shows "\<exists>r'. readBits_loop (length bs) v r = (v * 2 ^ length bs + word_of_nat (nat_of_bits bs), r') \<and>
    bits_of r' = rest \<and> br_ok r'"
  using assms
proof (induction bs arbitrary: r v)
  case Nil
  then show ?case by simp
next
  case (Cons b bs)
  from Cons.prems have hd: "bits_of r = b # (bs @ rest)" by simp
  obtain r1 where r1: "readBit r = (of_bool b, r1)" "bits_of r1 = bs @ rest" "br_ok r1"
    by (rule readBit_refines [OF Cons.prems(1) hd])
  have "readBits_loop (length (b # bs)) v r = readBits_loop (length bs) (2 * v + of_bool b) r1"
    by (simp only: length_Cons readBits_loop.simps r1(1) prod.case push_or_bit)
  with Cons.IH [OF r1(3,2), of "2 * v + of_bool b"] show ?case
    by (auto simp: algebra_simps)
qed

lemma readBits_refines:
  "br_ok r \<Longrightarrow> bits_of r = bs @ rest \<Longrightarrow>
     \<exists>r'. readBits (length bs) r = (word_of_nat (nat_of_bits bs), r') \<and> bits_of r' = rest \<and> br_ok r'"
  using readBits_loop_refines [of r bs rest 0] by (simp add: readBits_def)

lemma readUE_zeros_refines:
  assumes "br_ok r" "bits_of r = replicate k False @ True # rest"
  shows "\<exists>r'. readUE_zeros r z = Some (z + k, r') \<and> bits_of r' = rest \<and> br_ok r'"
  using assms
proof (induction k arbitrary: r z)
  case 0
  then have "bits_of r = True # rest" by simp
  then obtain r1 where "readBit r = (1, r1)" "bits_of r1 = rest" "br_ok r1"
    using readBit_refines [OF "0.prems"(1)] by (metis of_bool_eq(2))
  then show ?case by (subst readUE_zeros.simps) auto
next
  case (Suc k)
  then have "bits_of r = False # (replicate k False @ True # rest)" by simp
  then obtain r1 where r1: "readBit r = (0, r1)" "bits_of r1 = replicate k False @ True # rest" "br_ok r1"
    using readBit_refines [OF Suc.prems(1)] by (metis of_bool_eq(1))
  from Suc.IH [OF r1(3,2), of "z + 1"] r1(1) show ?case
    by (subst readUE_zeros.simps) auto
qed

lemma readUE_zeros_Some:
  assumes "readUE_zeros r z = Some y"
  shows "br_ok r \<longrightarrow> True \<in> set (bits_of r)"
proof (rule readUE_zeros.raw_induct [where P = "\<lambda>r z y. br_ok r \<longrightarrow> True \<in> set (bits_of r)", OF _ assms])
  fix f r z y
  assume IH: "\<And>r z y. f r z = Some y \<Longrightarrow> br_ok r \<longrightarrow> True \<in> set (bits_of r)"
    and eq: "(case readBit r of (b, r') \<Rightarrow> if b = 0 then f r' (z + 1) else Some (z, r')) = Some y"
  show "br_ok r \<longrightarrow> True \<in> set (bits_of r)"
  proof
    assume ok: "br_ok r"
    show "True \<in> set (bits_of r)"
    proof (cases "bits_of r")
      case Nil
      with eq readBit_end [OF ok] have "f r (z + 1) = Some y" by simp
      from IH [OF this] ok show ?thesis by simp
    next
      case (Cons b bs)
      obtain r1 where r1: "readBit r = (of_bool b, r1)" "bits_of r1 = bs" "br_ok r1"
        by (rule readBit_refines [OF ok Cons])
      with eq IH [of r1 "z + 1"] Cons show ?thesis by (cases b) auto
    qed
  qed
qed

lemma first_True: "True \<in> set bs \<Longrightarrow> \<exists>k rest. bs = replicate k False @ True # rest"
proof (induction bs)
  case (Cons b bs)
  show ?case
  proof (cases b)
    case True
    then have "b # bs = replicate 0 False @ True # bs" by simp
    then show ?thesis by blast
  next
    case False
    with Cons obtain k rest where "bs = replicate k False @ True # rest" by auto
    with False have "b # bs = replicate (Suc k) False @ True # rest" by simp
    then show ?thesis by blast
  qed
qed simp

section \<open>Exp-Golomb codes\<close>

text \<open>The code of the H.264 standard: \<open>v + 1\<close> in binary behind as many zeros as it has bits after the first.\<close>

fun to_bin :: "nat \<Rightarrow> bool list" where
  "to_bin n = (if n = 0 then [] else to_bin (n div 2) @ [odd n])"

declare to_bin.simps [simp del]

definition ue_encode :: "nat \<Rightarrow> bool list" where
  "ue_encode v = replicate (length (to_bin (v + 1)) - 1) False @ to_bin (v + 1)"

lemma nat_of_bits_append: "nat_of_bits (xs @ ys) = nat_of_bits xs * 2 ^ length ys + nat_of_bits ys"
  by (induction xs) (auto simp: algebra_simps power_add)

lemma nat_of_to_bin: "nat_of_bits (to_bin n) = n"
proof (induction n rule: to_bin.induct)
  case (1 n)
  then show ?case
    by (subst to_bin.simps) (auto simp: nat_of_bits_append, presburger)
qed

lemma to_bin_True: "0 < n \<Longrightarrow> \<exists>bs. to_bin n = True # bs"
proof (induction n rule: to_bin.induct)
  case (1 n)
  show ?case
  proof (cases "n div 2 = 0")
    case True
    with "1.prems" have "n = 1" by auto
    then show ?thesis by (subst to_bin.simps) (simp add: to_bin.simps [of 0])
  next
    case False
    with 1 obtain bs where "to_bin (n div 2) = True # bs" by auto
    with "1.prems" show ?thesis by (simp add: to_bin.simps [of n])
  qed
qed

lemma ue_encode_shape:
  obtains k bs where "ue_encode v = replicate k False @ True # bs" "length bs = k" "2 ^ k + nat_of_bits bs = v + 1"
proof -
  obtain bs where bs: "to_bin (v + 1) = True # bs" using to_bin_True [of "v + 1"] by auto
  then have "ue_encode v = replicate (length bs) False @ True # bs" by (simp add: ue_encode_def)
  moreover have "2 ^ length bs + nat_of_bits bs = v + 1" using nat_of_to_bin [of "v + 1"] bs by simp
  ultimately show ?thesis using that by blast
qed

lemma readUE_refines:
  assumes ok: "br_ok r" and bits: "bits_of r = ue_encode v @ rest"
  obtains r' where "readUE r = Some (word_of_nat v, r')" "bits_of r' = rest" "br_ok r'"
proof -
  obtain k bs where enc: "ue_encode v = replicate k False @ True # bs" "length bs = k"
    and val: "2 ^ k + nat_of_bits bs = v + 1"
    by (rule ue_encode_shape)
  have "bits_of r = replicate k False @ True # (bs @ rest)" using bits enc by simp
  from readUE_zeros_refines [OF ok this, of 0] obtain r1
    where r1: "readUE_zeros r 0 = Some (k, r1)" "bits_of r1 = bs @ rest" "br_ok r1" by auto
  from readBits_refines [OF r1(3,2)] enc(2) obtain r2
    where r2: "readBits k r1 = (word_of_nat (nat_of_bits bs), r2)" "bits_of r2 = rest" "br_ok r2" by auto
  show ?thesis
  proof (cases "k = 0")
    case True
    with enc val r1 have "readUE r = Some (word_of_nat v, r1)" "bits_of r1 = rest" by (auto simp: readUE_def)
    with r1 that show ?thesis by blast
  next
    case False
    have "push_bit k 1 - 1 + (word_of_nat (nat_of_bits bs) :: uint64) = word_of_nat (2 ^ k + nat_of_bits bs) - 1"
      by (simp add: push_bit_eq_mult)
    also have "\<dots> = word_of_nat v" by (simp add: val)
    finally have "readUE r = Some (word_of_nat v, r2)" using False r1 r2 by (simp add: readUE_def)
    with r2 that show ?thesis by blast
  qed
qed

lemma readUE_None_iff: "br_ok r \<Longrightarrow> readUE r = None \<longleftrightarrow> True \<notin> set (bits_of r)"
proof -
  assume ok: "br_ok r"
  have "readUE r = None \<longleftrightarrow> readUE_zeros r 0 = None"
    by (auto simp: readUE_def bind_eq_None_conv split: prod.splits)
  also have "\<dots> \<longleftrightarrow> True \<notin> set (bits_of r)"
  proof
    assume "readUE_zeros r 0 = None"
    then show "True \<notin> set (bits_of r)"
      using first_True [of "bits_of r"] readUE_zeros_refines [OF ok, of _ _ 0] by fastforce
  next
    assume "True \<notin> set (bits_of r)"
    then show "readUE_zeros r 0 = None"
      using readUE_zeros_Some [of r 0] ok by (cases "readUE_zeros r 0") auto
  qed
  finally show ?thesis .
qed

text \<open>
  \<^verbatim>\<open>readUE\<close> decodes the Exp-Golomb code of every value, modulo the 64 bits of Go's \<^verbatim>\<open>uint\<close>,
  and leaves exactly the bits behind the code unread.
\<close>

theorem readUE_roundtrip:
  assumes "br_ok r" and "bits_of r = ue_encode v @ rest"
  shows "\<exists>r'. readUE r = Some (word_of_nat v, r') \<and> bits_of r' = rest"
  by (rule readUE_refines [OF assms]) blast

theorem readUE_roundtrip_witness:
  "let r = \<lparr>br_data = [40], br_bytePos = 0, br_bitPos = 0\<rparr>
   in br_ok r \<and> bits_of r = ue_encode 4 @ [False, False, False] \<and>
      (\<exists>r'. readUE r = Some (word_of_nat 4, r') \<and> bits_of r' = [False, False, False])"
proof -
  let ?r = "\<lparr>br_data = [40], br_bytePos = 0, br_bitPos = 0\<rparr>"
  have ok: "br_ok ?r" by (simp add: br_ok_def)
  have bits: "bits_of ?r = ue_encode 4 @ [False, False, False]"
    by (simp add: bits_of_def byte_bits_def ue_encode_def to_bin.simps bit_iff_odd_drop_bit drop_bit_eq_div upt_rec)
  from ok bits readUE_roundtrip [OF ok bits] show ?thesis by simp
qed

text \<open>
  \<^verbatim>\<open>readUE\<close> returns exactly when a one bit is left to read: on a reader whose remaining bits
  are all zero, in particular on one that is at its end, the loop never ends.
\<close>

theorem readUE_returns_iff:
  "br_ok r \<Longrightarrow> (\<exists>v r'. readUE r = Some (v, r')) \<longleftrightarrow> True \<in> set (bits_of r)"
  using readUE_None_iff [of r] by (cases "readUE r") auto

theorem readUE_returns_iff_witness:
  "let r = \<lparr>br_data = [0, 0], br_bytePos = 0, br_bitPos = 0\<rparr>
   in br_ok r \<and> \<not> (\<exists>v r'. readUE r = Some (v, r'))"
proof -
  let ?r = "\<lparr>br_data = [0, 0], br_bytePos = 0, br_bitPos = 0\<rparr>"
  have ok: "br_ok ?r" by (simp add: br_ok_def)
  have "True \<notin> set (bits_of ?r)" by (simp add: bits_of_def byte_bits_def)
  with ok readUE_returns_iff [OF ok] show ?thesis by simp
qed

section \<open>Parsing a sequence parameter set\<close>

text \<open>
  The fields of an SPS of a profile without chroma fields and with picture order count type 0, in
  the order of the standard, and their bits.
\<close>

record SPS_fields =
  sps_id :: nat
  sps_log2_frame_num :: nat
  sps_log2_poc_lsb :: nat
  sps_ref_frames :: nat
  sps_gaps :: bool
  sps_width_mbs :: nat
  sps_height_mbs :: nat
  sps_mbaff :: "bool option"
  sps_direct8x8 :: bool
  sps_crop :: "(nat \<times> nat \<times> nat \<times> nat) option"

definition sps_tail :: "SPS_fields \<Rightarrow> bool list" where
  "sps_tail f =
     (case sps_mbaff f of None \<Rightarrow> [True] | Some b \<Rightarrow> [False, b]) @ [sps_direct8x8 f] @
     (case sps_crop f of None \<Rightarrow> [False]
      | Some (l, r, t, b) \<Rightarrow> True # ue_encode l @ ue_encode r @ ue_encode t @ ue_encode b)"

definition sps_encode :: "SPS_fields \<Rightarrow> bool list" where
  "sps_encode f =
     ue_encode (sps_id f) @ ue_encode (sps_log2_frame_num f) @ ue_encode 0 @
     ue_encode (sps_log2_poc_lsb f) @ ue_encode (sps_ref_frames f) @ [sps_gaps f] @
     ue_encode (sps_width_mbs f) @ ue_encode (sps_height_mbs f) @ sps_tail f"

definition sps_dimensions :: "SPS_fields \<Rightarrow> int \<times> int" where
  "sps_dimensions f =
     (let (l, r, t, b) = (case sps_crop f of None \<Rightarrow> (0, 0, 0, 0) | Some c \<Rightarrow> c);
          h = 16 * (int (sps_height_mbs f) + 1)
      in (16 * (int (sps_width_mbs f) + 1) - 2 * (int l + int r),
          (if sps_mbaff f = None then h else 2 * h) - 2 * (int t + int b)))"

lemma crop_fields_refines:
  assumes ok: "br_ok r"
    and bits: "bits_of r = (case c of None \<Rightarrow> [False]
      | Some (a, b, c, d) \<Rightarrow> True # ue_encode a @ ue_encode b @ ue_encode c @ ue_encode d) @ rest"
  shows "\<exists>r'. crop_fields r = Some (case c of None \<Rightarrow> (0, 0, 0, 0)
      | Some (a, b, c, d) \<Rightarrow> (word_of_nat a, word_of_nat b, word_of_nat c, word_of_nat d), r')"
proof (cases c)
  case None
  with bits have "bits_of r = False # rest" by simp
  then obtain r0 where "readBit r = (0, r0)"
    using readBit_refines [OF ok] by (metis of_bool_eq(1))
  with None show ?thesis by (simp add: crop_fields_def)
next
  case (Some q)
  obtain a b c' d where q: "q = (a, b, c', d)" by (cases q)
  with bits Some have "bits_of r = True # ue_encode a @ ue_encode b @ ue_encode c' @ ue_encode d @ rest" by simp
  then obtain r0 where r0: "readBit r = (1, r0)"
      "bits_of r0 = ue_encode a @ ue_encode b @ ue_encode c' @ ue_encode d @ rest" "br_ok r0"
    using readBit_refines [OF ok] by (metis of_bool_eq(2))
  obtain r1 where r1: "readUE r0 = Some (word_of_nat a, r1)"
      "bits_of r1 = ue_encode b @ ue_encode c' @ ue_encode d @ rest" "br_ok r1"
    by (rule readUE_refines [OF r0(3,2)])
  obtain r2 where r2: "readUE r1 = Some (word_of_nat b, r2)" "bits_of r2 = ue_encode c' @ ue_encode d @ rest" "br_ok r2"
    by (rule readUE_refines [OF r1(3,2)])
  obtain r3 where r3: "readUE r2 = Some (word_of_nat c', r3)" "bits_of r3 = ue_encode d @ rest" "br_ok r3"
    by (rule readUE_refines [OF r2(3,2)])
  obtain r4 where "readUE r3 = Some (word_of_nat d, r4)"
    by (rule readUE_refines [OF r3(3,2)])
  with r0 r1 r2 r3 Some q show ?thesis by (simp add: crop_fields_def)
qed

lemma ucast_of_nat_16: "(ucast (word_of_int k :: uint64) :: 16 word) = word_of_int k"
  by (simp add: ucast_eq uint_word_of_int word_of_int_eq_iff take_bit_eq_mod mod_mod_cancel)

lemma pic_order_fields_refines:
  assumes "br_ok r" "bits_of r = ue_encode 0 @ ue_encode v @ rest"
  obtains r' where "pic_order_fields r = Some r'" "bits_of r' = rest" "br_ok r'"
proof -
  obtain r1 where r1: "readUE r = Some (word_of_nat 0, r1)" "bits_of r1 = ue_encode v @ rest" "br_ok r1"
    by (rule readUE_refines [OF assms])
  obtain r2 where "readUE r1 = Some (word_of_nat v, r2)" "bits_of r2 = rest" "br_ok r2"
    by (rule readUE_refines [OF r1(3,2)])
  with r1 show ?thesis using that by (simp add: pic_order_fields_def)
qed

text \<open>The flag \<^verbatim>\<open>frame_mbs_only_flag\<close> with the bit that follows it when it is zero.\<close>

lemma frame_flag_refines:
  assumes "br_ok r" "bits_of r = (case m of None \<Rightarrow> [True] | Some b \<Rightarrow> [False, b]) @ rest"
  obtains r1 where "fst (readBit r) = of_bool (m = None)"
    "(if fst (readBit r) = 0 then snd (readBit (snd (readBit r))) else snd (readBit r)) = r1"
    "bits_of r1 = rest" "br_ok r1"
proof (cases m)
  case None
  with assms have bits: "bits_of r = True # rest" by simp
  obtain r1 where "readBit r = (of_bool True, r1)" "bits_of r1 = rest" "br_ok r1"
    by (rule readBit_refines [OF assms(1) bits])
  with None show ?thesis using that by simp
next
  case (Some b)
  with assms have bits: "bits_of r = False # b # rest" by simp
  obtain r1 where r1: "readBit r = (of_bool False, r1)" "bits_of r1 = b # rest" "br_ok r1"
    by (rule readBit_refines [OF assms(1) bits])
  obtain r2 where "readBit r1 = (of_bool b, r2)" "bits_of r2 = rest" "br_ok r2"
    by (rule readBit_refines [OF r1(3,2)])
  with r1 Some show ?thesis using that by simp
qed

lemma dim_16:
  "(ucast ((word_of_nat w + 1) * 16 :: uint64) :: 16 word) = word_of_int (16 * (int w + 1))"
  "(ucast ((word_of_nat a + word_of_nat b) * 2 :: uint64) :: 16 word) = word_of_int (2 * (int a + int b))"
proof -
  have "(word_of_nat w + 1) * 16 = (word_of_int (16 * (int w + 1)) :: uint64)" by simp
  then show "(ucast ((word_of_nat w + 1) * 16 :: uint64) :: 16 word) = word_of_int (16 * (int w + 1))"
    by (simp only: ucast_of_nat_16)
  have "(word_of_nat a + word_of_nat b) * 2 = (word_of_int (2 * (int a + int b)) :: uint64)" by simp
  then show "(ucast ((word_of_nat a + word_of_nat b) * 2 :: uint64) :: 16 word) = word_of_int (2 * (int a + int b))"
    by (simp only: ucast_of_nat_16)
qed

lemma parse_dimensions_refines:
  assumes ok: "br_ok r"
    and bits: "bits_of r = ue_encode (sps_width_mbs f) @ ue_encode (sps_height_mbs f) @ sps_tail f @ rest"
  shows "parse_dimensions r = Some (map_prod word_of_int word_of_int (sps_dimensions f))"
proof -
  obtain r1 where r1: "readUE r = Some (word_of_nat (sps_width_mbs f), r1)"
      "bits_of r1 = ue_encode (sps_height_mbs f) @ sps_tail f @ rest" "br_ok r1"
    by (rule readUE_refines [OF ok bits])
  obtain r2 where r2: "readUE r1 = Some (word_of_nat (sps_height_mbs f), r2)" "bits_of r2 = sps_tail f @ rest" "br_ok r2"
    by (rule readUE_refines [OF r1(3,2)])
  let ?crop = "(case sps_crop f of None \<Rightarrow> [False]
      | Some (l, r, t, b) \<Rightarrow> True # ue_encode l @ ue_encode r @ ue_encode t @ ue_encode b) @ rest"
  have b2: "bits_of r2 = (case sps_mbaff f of None \<Rightarrow> [True] | Some b \<Rightarrow> [False, b]) @ sps_direct8x8 f # ?crop"
    using r2(2) by (simp add: sps_tail_def)
  obtain r3 where flag: "fst (readBit r2) = of_bool (sps_mbaff f = None)"
      and r3: "(if fst (readBit r2) = 0 then snd (readBit (snd (readBit r2))) else snd (readBit r2)) = r3"
      and b3: "bits_of r3 = sps_direct8x8 f # ?crop" "br_ok r3"
    by (rule frame_flag_refines [OF r2(3) b2])
  obtain r4 where r4: "readBit r3 = (of_bool (sps_direct8x8 f), r4)" and b4: "bits_of r4 = ?crop" "br_ok r4"
    by (rule readBit_refines [OF b3(2,1)])
  obtain a b c d where crop: "(case sps_crop f of None \<Rightarrow> (0, 0, 0, 0) | Some c \<Rightarrow> c) = (a, b, c, d)"
    by (metis prod_cases4)
  from crop_fields_refines [OF b4(2,1)] crop
  obtain r5 where r5: "crop_fields r4 = Some ((word_of_nat a, word_of_nat b, word_of_nat c, word_of_nat d), r5)"
    by (cases "sps_crop f") auto
  let ?h = "word_of_int (16 * (int (sps_height_mbs f) + 1)) :: 16 word"
  have "parse_dimensions r = Some (word_of_int (16 * (int (sps_width_mbs f) + 1)) - word_of_int (2 * (int a + int b)),
      (if sps_mbaff f \<noteq> None then ?h * 2 else ?h) - word_of_int (2 * (int c + int d)))"
    unfolding dim_16 [symmetric] using flag r3 r4 r5
    by (cases "sps_mbaff f"; cases "readBit r2") (simp_all add: parse_dimensions_def Let_def r1(1) r2(1))
  then show ?thesis by (auto simp: sps_dimensions_def crop algebra_simps)
qed



text \<open>
  A parameter set of a length that passes the check, but whose payload holds only zeros, makes
  \<^verbatim>\<open>parseSPS\<close> loop for ever: it reads past the end of the data and never returns.
\<close>

theorem parseSPS_hangs_on_zeros:
  assumes strip: "strip_emulation sps = nal # profile # flags # level # replicate (Suc n) 0"
  shows "parseSPS sps = None"
proof -
  let ?r = "\<lparr>br_data = replicate (Suc n) 0, br_bytePos = 0, br_bitPos = 0\<rparr>"
  have "br_ok ?r" by (simp add: br_ok_def)
  moreover have "True \<notin> set (bits_of ?r)" by (auto simp: bits_of_def byte_bits_def)
  ultimately have "readUE ?r = None" by (simp add: readUE_None_iff)
  with strip show ?thesis by (simp add: parseSPS_def Let_def)
qed

theorem parseSPS_hangs_on_zeros_witness: "parseSPS [0x67, 66, 0, 30, 0] = None"
proof -
  have "strip_emulation [0x67, 66, 0, 30, 0] = 0x67 # 66 # 0 # 30 # replicate (Suc 0) 0" by simp
  then show ?thesis by (rule parseSPS_hangs_on_zeros)
qed

end
