(* ===== verification/H264_Framing.thy ===== *)
theory H264_Framing
  imports H264
begin

text \<open>
  What the framing functions of \<^verbatim>\<open>h264.go\<close> guarantee: \<^verbatim>\<open>annexBSplit\<close>, an index loop over the
  buffer, computes the same units as a recursion over the remaining bytes; it takes apart what start
  codes put together; and the AVCC form of a frame decodes to the units that belong in it.
\<close>

section \<open>A reference for annexBSplit\<close>

definition start_code :: "byte list \<Rightarrow> nat option" where
  "start_code xs = (if take 4 xs = [0, 0, 0, 1] then Some 4 else if take 3 xs = [0, 0, 1] then Some 3 else None)"

definition flush :: "byte list option \<Rightarrow> byte list list" where
  "flush cur = (case cur of Some u \<Rightarrow> if u = [] then [] else [u] | None \<Rightarrow> [])"

fun split_ref :: "byte list option \<Rightarrow> byte list \<Rightarrow> byte list list" where
  "split_ref cur [] = flush cur"
| "split_ref cur (x # xs) =
     (case start_code (x # xs) of
        Some k \<Rightarrow> flush cur @ split_ref (Some []) (drop (k - 1) xs)
      | None \<Rightarrow> split_ref (map_option (\<lambda>u. u @ [x]) cur) xs)"

lemma take_Suc_drop:
  "take (Suc n) (drop i xs) = a # ys \<longleftrightarrow> i < length xs \<and> xs ! i = a \<and> take n (drop (Suc i) xs) = ys"
proof (cases "i < length xs")
  case True
  then have "drop i xs = xs ! i # drop (Suc i) xs" by (simp add: Cons_nth_drop_Suc)
  with True show ?thesis by simp
qed simp

lemma take_drop_nth4:
  "take 4 (drop i xs) = [a, b, c, d] \<longleftrightarrow>
     i + 3 < length xs \<and> xs ! i = a \<and> xs ! (i + 1) = b \<and> xs ! (i + 2) = c \<and> xs ! (i + 3) = d"
  by (auto simp: numeral_eq_Suc take_Suc_drop)

lemma take_drop_nth3:
  "take 3 (drop i xs) = [a, b, c] \<longleftrightarrow> i + 2 < length xs \<and> xs ! i = a \<and> xs ! (i + 1) = b \<and> xs ! (i + 2) = c"
  by (auto simp: numeral_eq_Suc take_Suc_drop)

lemma findStart_start_code: "findStart data i = start_code (drop i data)"
  unfolding findStart_def start_code_def take_drop_nth4 take_drop_nth3 Let_def by simp

lemma start_code_bounds: "start_code xs = Some k \<Longrightarrow> 0 < k \<and> k \<le> length xs"
  using take_drop_nth4 [of 0 xs 0 0 0 1] take_drop_nth3 [of 0 xs 0 0 1]
  by (auto simp: start_code_def split: if_splits)

lemma slice_snoc: "s \<le> i \<Longrightarrow> i < length xs \<Longrightarrow> slice s (Suc i) xs = slice s i xs @ [xs ! i]"
  by (simp add: slice_def take_Suc_conv_app_nth)

lemma slice_eq_Nil: "s \<le> i \<Longrightarrow> i \<le> length xs \<Longrightarrow> slice s i xs = [] \<longleftrightarrow> \<not> s < i"
  by (auto simp: slice_def)

definition finish :: "byte list \<Rightarrow> nat option \<times> byte list list \<Rightarrow> byte list list" where
  "finish data res = (case res of
     (Some s, units) \<Rightarrow> if s < length data then units @ [drop s data] else units
   | (None, units) \<Rightarrow> units)"

lemma annexB_loop_ref:
  assumes "i \<le> length data" "\<And>s. start = Some s \<Longrightarrow> s \<le> i"
  shows "finish data (annexB_loop data i start units) =
    units @ split_ref (map_option (\<lambda>s. slice s i data) start) (drop i data)"
  using assms
proof (induction data i start units rule: annexB_loop.induct)
  case (1 data i start units)
  show ?case
  proof (cases "i < length data")
    case False
    with "1.prems" have "i = length data" by simp
    with "1.prems"(2) show ?thesis
      by (auto simp: annexB_loop.simps [of data "length data"] finish_def flush_def slice_def split: option.splits)
  next
    case True
    then have dr: "drop i data = data ! i # drop (Suc i) data" by (simp add: Cons_nth_drop_Suc)
    show ?thesis
    proof (cases "findStart data i")
      case (Some k)
      then have code: "start_code (drop i data) = Some k" by (simp add: findStart_start_code)
      then have k: "0 < k" "i + k \<le> length data" using start_code_bounds [OF code] True by auto
      let ?u = "case start of Some s \<Rightarrow> if i > s then units @ [slice s i data] else units | None \<Rightarrow> units"
      have "finish data (annexB_loop data i start units) = ?u @ split_ref (Some []) (drop (i + k) data)"
        using "1.IH"(2) [OF True Some] k Some True by (simp add: annexB_loop.simps [of data i] slice_def)
      moreover have "?u = units @ flush (map_option (\<lambda>s. slice s i data) start)"
        using "1.prems" True slice_eq_Nil [of _ i data] by (auto simp: flush_def split: option.splits)
      moreover have "drop (k - 1) (drop (Suc i) data) = drop (i + k) data" using k by (simp add: add.commute)
      ultimately show ?thesis using code dr by simp
    next
      case None
      then have code: "start_code (drop i data) = None" by (simp add: findStart_start_code)
      have "finish data (annexB_loop data i start units) =
          units @ split_ref (map_option (\<lambda>s. slice s (i + 1) data) start) (drop (i + 1) data)"
        using "1.IH"(1) [OF True None] "1.prems" True None
        by (simp add: annexB_loop.simps [of data i]) (metis le_Suc_eq)
      moreover have "map_option (\<lambda>s. slice s (i + 1) data) start =
          map_option (\<lambda>u. u @ [data ! i]) (map_option (\<lambda>s. slice s i data) start)"
        using "1.prems" True by (auto simp: slice_snoc option.map_comp comp_def intro!: option.map_cong)
      ultimately show ?thesis using code dr by simp
    qed
  qed
qed

lemma annexBSplit_ref: "annexBSplit data = split_ref None data"
  using annexB_loop_ref [of 0 data None "[]"] by (simp add: annexBSplit_def finish_def)

section \<open>Splitting a joined stream\<close>

fun has_code :: "byte list \<Rightarrow> bool" where
  "has_code [] = False"
| "has_code (x # xs) = (start_code (x # xs) \<noteq> None \<or> has_code xs)"

text \<open>A unit with the four-byte start code in front.\<close>

definition annexB_unit :: "byte list \<Rightarrow> byte list" where
  "annexB_unit u = [0, 0, 0, 1] @ u"

lemma split_ref_code: "split_ref cur ([0, 0, 0, 1] @ xs) = flush cur @ split_ref (Some []) xs"
  by (simp add: start_code_def)

lemma start_code_append_code:
  "start_code (x # u) = None \<Longrightarrow> start_code (x # u @ 0 # 0 # 0 # xs) = None"
  by (cases u; cases "tl u"; cases "tl (tl u)") (auto simp: start_code_def split: if_splits)

lemma split_ref_unit:
  "\<not> has_code u \<Longrightarrow> split_ref (Some acc) (u @ [0, 0, 0, 1] @ xs) = flush (Some (acc @ u)) @ split_ref (Some []) xs"
proof (induction u arbitrary: acc)
  case Nil
  then show ?case by (simp add: start_code_def)
next
  case (Cons x u)
  then have "start_code (x # u @ 0 # 0 # 0 # 1 # xs) = None"
    using start_code_append_code [of x u "1 # xs"] by simp
  with Cons show ?case by simp
qed

lemma split_ref_last: "\<not> has_code u \<Longrightarrow> split_ref (Some acc) u = flush (Some (acc @ u))"
  by (induction u arbitrary: acc) auto

lemma split_ref_join:
  "\<forall>u \<in> set us. u \<noteq> [] \<and> \<not> has_code u \<Longrightarrow> \<not> has_code v \<Longrightarrow>
     split_ref (Some []) (v @ concat (map annexB_unit us)) = flush (Some v) @ us"
proof (induction us arbitrary: v)
  case Nil
  then show ?case using split_ref_last [of v "[]"] by simp
next
  case (Cons u us)
  have "v @ concat (map annexB_unit (u # us)) = v @ [0, 0, 0, 1] @ (u @ concat (map annexB_unit us))"
    by (simp add: annexB_unit_def)
  then have "split_ref (Some []) (v @ concat (map annexB_unit (u # us))) =
      flush (Some v) @ split_ref (Some []) (u @ concat (map annexB_unit us))"
    using split_ref_unit [OF Cons.prems(2), of "[]"] by (simp only: append_Nil)
  with Cons show ?case by (simp add: flush_def)
qed

text \<open>
  \<^verbatim>\<open>annexBSplit\<close> inverts the framing: units that are not empty and hold no start code, each
  sent behind a start code, come back as they are and in the same order.
\<close>

theorem annexBSplit_join:
  assumes "\<forall>u \<in> set us. u \<noteq> [] \<and> \<not> has_code u"
  shows "annexBSplit (concat (map annexB_unit us)) = us"
proof (cases us)
  case Nil
  then show ?thesis by (simp add: annexBSplit_ref flush_def)
next
  case (Cons u vs)
  have "concat (map annexB_unit us) = [0, 0, 0, 1] @ (u @ concat (map annexB_unit vs))"
    using Cons by (simp add: annexB_unit_def)
  then have "annexBSplit (concat (map annexB_unit us)) = split_ref (Some []) (u @ concat (map annexB_unit vs))"
    unfolding annexBSplit_ref by (simp only: split_ref_code) (simp add: flush_def)
  with assms Cons split_ref_join [of vs u] show ?thesis by (simp add: flush_def)
qed

theorem annexBSplit_join_witness:
  "annexBSplit ([0, 0, 0, 1, 0x67, 66, 0] @ [0, 0, 0, 1, 0x68, 1] @ [0, 0, 0, 1, 0x65, 0, 0, 2]) =
     [[0x67, 66, 0], [0x68, 1], [0x65, 0, 0, 2]]"
proof -
  have h: "\<forall>u \<in> set [[0x67, 66, 0], [0x68, 1], [0x65, 0, 0, 2]]. u \<noteq> [] \<and> \<not> has_code u"
    by (simp add: start_code_def)
  show ?thesis using h annexBSplit_join [OF h] by (simp add: annexB_unit_def)
qed

text \<open>Every unit that the splitter returns is non-empty, free of start codes, and part of the buffer.\<close>

definition clean :: "byte list \<Rightarrow> byte list \<Rightarrow> bool" where
  "clean acc xs \<longleftrightarrow> (\<forall>p < length acc. start_code (drop p acc @ xs) = None)"

lemma start_code_append: "start_code (xs @ ys) = None \<Longrightarrow> start_code xs = None"
  by (auto simp: start_code_def take_append split: if_splits)

lemma has_code_iff: "has_code u \<longleftrightarrow> (\<exists>p < length u. start_code (drop p u) \<noteq> None)"
proof (induction u)
  case (Cons x u)
  have "(\<exists>p < length (x # u). start_code (drop p (x # u)) \<noteq> None) \<longleftrightarrow>
      start_code (x # u) \<noteq> None \<or> (\<exists>p < length u. start_code (drop p u) \<noteq> None)"
    by (simp only: length_Cons Ex_less_Suc2 drop_0 drop_Suc_Cons)
  with Cons show ?case by simp
qed simp

lemma clean_no_code: "clean acc xs \<Longrightarrow> \<not> has_code acc"
  using start_code_append by (fastforce simp: clean_def has_code_iff)

lemma clean_snoc: "clean acc (x # xs) \<Longrightarrow> start_code (x # xs) = None \<Longrightarrow> clean (acc @ [x]) xs"
  by (auto simp: clean_def less_Suc_eq)

lemma split_ref_units:
  assumes "\<And>acc. cur = Some acc \<Longrightarrow> clean acc xs" "u \<in> set (split_ref cur xs)"
  shows "u \<noteq> [] \<and> \<not> has_code u \<and> length u \<le> length xs + (case cur of None \<Rightarrow> 0 | Some acc \<Rightarrow> length acc)"
  using assms
proof (induction cur xs rule: split_ref.induct)
  case (1 cur)
  then show ?case by (auto simp: flush_def clean_no_code split: option.splits if_splits)
next
  case (2 cur x xs)
  show ?case
  proof (cases "start_code (x # xs)")
    case None
    with "2.prems" "2.IH"(1) clean_snoc show ?thesis by (fastforce split: option.splits)
  next
    case (Some k)
    with "2.prems"(2) consider "u \<in> set (flush cur)" | "u \<in> set (split_ref (Some []) (drop (k - 1) xs))" by auto
    then show ?thesis
    proof cases
      case 1
      with "2.prems"(1) show ?thesis by (auto simp: flush_def clean_no_code split: option.splits if_splits)
    next
      case 2
      with "2.IH"(2) [OF Some] have "u \<noteq> [] \<and> \<not> has_code u \<and> length u \<le> length (drop (k - 1) xs)"
        by (simp add: clean_def)
      then show ?thesis by (auto split: option.splits)
    qed
  qed
qed

lemma annexBSplit_units:
  "u \<in> set (annexBSplit data) \<Longrightarrow> u \<noteq> [] \<and> \<not> has_code u \<and> length u \<le> length data"
  using split_ref_units [of None data u] by (simp add: annexBSplit_ref)

section \<open>AVCC\<close>

lemma Uint32_PutUint32: "Uint32 (PutUint32 v) = v"
proof (rule bit_word_eqI)
  fix n :: nat
  assume n: "n < LENGTH(32)"
  consider "n < 8" | "8 \<le> n" "n < 16" | "16 \<le> n" "n < 24" | "24 \<le> n" by linarith
  then show "bit (Uint32 (PutUint32 v)) n = bit v n"
    using n by cases (auto simp: Uint32_def PutUint32_def bit_simps)
qed

lemma length_PutUint32 [simp]: "length (PutUint32 v) = 4"
  by (simp add: PutUint32_def)

text \<open>A decoder for the AVCC form: four bytes of length, then that many bytes, until the end.\<close>

function avcc_parse :: "byte list \<Rightarrow> byte list list option" where
  "avcc_parse bs =
     (if bs = [] then Some []
      else if length bs < 4 then None
      else let n = unat (Uint32 (take 4 bs)); body = drop 4 bs in
        if length body < n then None
        else map_option ((#) (take n body)) (avcc_parse (drop n body)))"
  by pat_completeness auto
termination
  by (relation "measure length") auto

declare avcc_parse.simps [simp del]

lemma avcc_parse_wrap:
  "length u < 2 ^ 32 \<Longrightarrow> avcc_parse (avccWrap u @ bs) = map_option ((#) u) (avcc_parse bs)"
proof -
  assume "length u < 2 ^ 32"
  then have "unat (Uint32 (take 4 (avccWrap u @ bs))) = length u"
    by (simp add: avccWrap_def Uint32_PutUint32 unat_of_nat)
  moreover have "avccWrap u @ bs \<noteq> []" "drop 4 (avccWrap u @ bs) = u @ bs" "\<not> length (avccWrap u @ bs) < 4"
    by (auto simp: avccWrap_def PutUint32_def)
  ultimately show ?thesis by (simp only: avcc_parse.simps [of "avccWrap u @ bs"] Let_def if_False) simp
qed

lemma avcc_parse_concat:
  "\<forall>u \<in> set us. length u < 2 ^ 32 \<Longrightarrow> avcc_parse (concat (map avccWrap us)) = Some us"
  by (induction us) (auto simp: avcc_parse_wrap avcc_parse.simps [of "[]"])

lemma frameToAVCC_loop_eq: "frameToAVCC_loop ns out = out @ concat (map avccWrap (filter in_mdat ns))"
  by (induction ns arbitrary: out) auto

text \<open>
  The AVCC form of a frame shorter than 4 GiB decodes to the NAL units of the frame in their
  order, without the parameter sets, SEI and delimiter units.
\<close>

theorem frameToAVCC_decodes:
  assumes "length annexB < 2 ^ 32"
  shows "avcc_parse (frameToAVCC annexB) = Some (filter in_mdat (annexBSplit annexB))"
proof -
  have "\<forall>u \<in> set (filter in_mdat (annexBSplit annexB)). length u < 2 ^ 32"
    using assms annexBSplit_units [of _ annexB] by (fastforce intro: le_less_trans)
  then show ?thesis by (simp add: frameToAVCC_def frameToAVCC_loop_eq avcc_parse_concat)
qed

theorem frameToAVCC_decodes_witness:
  "let f = [0, 0, 0, 1, 0x67, 66, 0, 0, 1, 0x65, 9, 9] in
   length f < 2 ^ 32 \<and> avcc_parse (frameToAVCC f) = Some [[0x65, 9, 9]]"
proof -
  have "annexBSplit [0, 0, 0, 1, 0x67, 66, 0, 0, 1, 0x65, 9, 9] = [[0x67, 66], [0x65, 9, 9]]"
    by (simp add: annexBSplit_ref start_code_def flush_def)
  then show ?thesis
    using frameToAVCC_decodes [of "[0, 0, 0, 1, 0x67, 66, 0, 0, 1, 0x65, 9, 9]"]
    by (simp add: in_mdat_def nalType_def nal_defs)
qed

end
