(* ===== verification/Domain.thy ===== *)
theory Domain
  imports Go_Prelude
begin

text \<open>
  The entities of \<^verbatim>\<open>src/internal/domain\<close>: devices, providers, users, groups, API keys, tracker
  events and the sentinel errors.  A field keeps its Go name behind a prefix that names its
  struct.  Go's named string types (\<^verbatim>\<open>UserRole\<close>, \<^verbatim>\<open>DeviceStatus\<close>, \<^verbatim>\<open>EventType\<close>) are open: any
  string can occur in them, so they stay strings here and the constants are their known values.
\<close>

section \<open>auth.go\<close>

type_synonym UserRole = string

definition RoleAdmin :: UserRole where "RoleAdmin = ''admin''"
definition RoleGroupAdmin :: UserRole where "RoleGroupAdmin = ''group_admin''"
definition RoleUser :: UserRole where "RoleUser = ''user''"
definition RoleViewer :: UserRole where "RoleViewer = ''viewer''"

record User =
  user_ID :: string
  user_Email :: string
  user_PasswordHash :: string
  user_Role :: UserRole
  user_AuthProvider :: string
  user_CreatedAt :: instant
  user_UpdatedAt :: instant

record Group =
  group_ID :: string
  group_Name :: string
  group_Description :: string
  group_CreatedAt :: instant
  group_ExpiresAt :: "instant option"

record ApiKey =
  key_ID :: string
  key_UserID :: string
  key_Name :: string
  key_TokenHash :: string
  key_CreatedAt :: instant
  key_ExpiresAt :: "instant option"

section \<open>device.go\<close>

type_synonym DeviceStatus = string

definition StatusOnline :: DeviceStatus where "StatusOnline = ''online''"
definition StatusOffline :: DeviceStatus where "StatusOffline = ''offline''"
definition StatusUnauthorized :: DeviceStatus where "StatusUnauthorized = ''unauthorized''"

record DisplayInfo =
  disp_Density :: int
  disp_Fps :: int
  disp_Height :: int
  disp_Rotation :: int
  disp_Size :: real
  disp_Width :: int
  disp_XDPI :: real
  disp_YDPI :: real

record BatteryInfo =
  bat_Level :: int
  bat_IsCharging :: bool
  bat_Health :: string

record NetworkInfo =
  net_Connected :: bool
  net_WiFiSSID :: string
  net_IP :: string
  net_MobileData :: bool
  net_Airplane :: bool

record DeviceInfo =
  info_Model :: string
  info_MarketName :: string
  info_Manufacturer :: string
  info_AndroidVersion :: string
  info_SDKVersion :: int
  info_CPUABI :: string
  info_RAMMB :: int
  info_StorageMB :: int

text \<open>Of the slices that come from JSON, \<^term>\<open>None\<close> is \<^verbatim>\<open>nil\<close>.\<close>

record FileNode =
  fn_Name :: string
  fn_IsDirectory :: bool
  fn_Size :: int
  fn_Path :: string

record FileSystemInfo =
  fs_Root :: string
  fs_Files :: "FileNode list option"

record DeviceTelemetry =
  tel_Status :: DeviceStatus
  tel_Battery :: BatteryInfo
  tel_Network :: NetworkInfo
  tel_FileSystem :: FileSystemInfo
  tel_InstalledBrowsers :: "string list option"

record Device =
  dev_Serial :: string
  dev_Platform :: string
  dev_ProviderIP :: string
  dev_Info :: DeviceInfo
  dev_Display :: DisplayInfo
  dev_State :: DeviceTelemetry
  dev_ConnectedAt :: instant
  dev_LastSeen :: instant

section \<open>events.go, provider.go, errors.go\<close>

type_synonym EventType = string

definition EventConnected :: EventType where "EventConnected = ''connected''"
definition EventDisconnected :: EventType where "EventDisconnected = ''disconnected''"
definition EventUnauthorized :: EventType where "EventUnauthorized = ''unauthorized''"
definition EventOffline :: EventType where "EventOffline = ''offline''"

record DeviceEvent =
  ev_Serial :: string
  ev_Type :: EventType
  ev_Device :: "Device option"
  ev_Timestamp :: instant

record Provider =
  prov_ID :: string
  prov_Name :: string
  prov_Host :: string
  prov_IP :: string
  prov_Version :: string
  prov_MinPort :: int
  prov_MaxPort :: int

text \<open>The sentinel errors; the argument is the serial that the wrapping call adds.\<close>

datatype domain_error =
    ErrDeviceNotFound string
  | ErrDeviceAlreadyRegistered string
  | ErrADBUnavailable
  | ErrPropertyFetchTimeout
  | ErrCoordinatorUnreachable
  | ErrStreamAlreadyActive
  | ErrStreamNotActive
  | ErrInvalidConfig

lemmas role_defs = RoleAdmin_def RoleGroupAdmin_def RoleUser_def RoleViewer_def
lemmas event_defs = EventConnected_def EventDisconnected_def EventUnauthorized_def EventOffline_def

section \<open>The DeviceRegistry interface of interfaces.go\<close>

text \<open>
  What a client of \<^verbatim>\<open>domain.DeviceRegistry\<close> relies on.  The state is seen through \<^verbatim>\<open>Get\<close>
  alone: the laws say how each operation changes the answers of \<^verbatim>\<open>Get\<close>, that an error leaves
  them as they are, and what \<^verbatim>\<open>List\<close> and \<^verbatim>\<open>Count\<close> report.
\<close>

locale device_registry =
  fixes empty_reg :: 'r
    and reg_add :: "'r \<Rightarrow> Device \<Rightarrow> domain_error option \<times> 'r"
    and reg_remove :: "'r \<Rightarrow> string \<Rightarrow> domain_error option \<times> 'r"
    and reg_get :: "'r \<Rightarrow> string \<Rightarrow> domain_error + Device"
    and reg_list :: "'r \<Rightarrow> Device set"
    and reg_count :: "'r \<Rightarrow> nat"
    and invar :: "'r \<Rightarrow> bool"
  assumes invar_empty: "invar empty_reg"
    and get_empty: "reg_get empty_reg s = Inl (ErrDeviceNotFound s)"
    and invar_add: "invar r \<Longrightarrow> invar (snd (reg_add r d))"
    and invar_remove: "invar r \<Longrightarrow> invar (snd (reg_remove r s))"
    and add_new: "invar r \<Longrightarrow> reg_get r (dev_Serial d) = Inl e \<Longrightarrow>
      fst (reg_add r d) = None \<and> reg_get (snd (reg_add r d)) (dev_Serial d) = Inr d"
    and add_dup: "invar r \<Longrightarrow> reg_get r (dev_Serial d) = Inr d' \<Longrightarrow>
      reg_add r d = (Some (ErrDeviceAlreadyRegistered (dev_Serial d)), r)"
    and add_other: "invar r \<Longrightarrow> s \<noteq> dev_Serial d \<Longrightarrow> reg_get (snd (reg_add r d)) s = reg_get r s"
    and remove_known: "invar r \<Longrightarrow> reg_get r s = Inr d \<Longrightarrow>
      fst (reg_remove r s) = None \<and> reg_get (snd (reg_remove r s)) s = Inl (ErrDeviceNotFound s)"
    and remove_unknown: "invar r \<Longrightarrow> reg_get r s = Inl e \<Longrightarrow>
      reg_remove r s = (Some (ErrDeviceNotFound s), r)"
    and remove_other: "invar r \<Longrightarrow> s \<noteq> s' \<Longrightarrow> reg_get (snd (reg_remove r s)) s' = reg_get r s'"
    and get_err: "reg_get r s = Inl e \<Longrightarrow> e = ErrDeviceNotFound s"
    and list_get: "invar r \<Longrightarrow> reg_list r = {d. \<exists>s. reg_get r s = Inr d}"
    and count_list: "invar r \<Longrightarrow> reg_count r = card (reg_list r) \<and> finite (reg_list r)"
    and get_serial: "invar r \<Longrightarrow> reg_get r s = Inr d \<Longrightarrow> dev_Serial d = s"
begin

lemma add_then_remove:
  assumes "invar r" "reg_get r (dev_Serial d) = Inl e"
  shows "reg_get (snd (reg_remove (snd (reg_add r d)) (dev_Serial d))) s = reg_get r s"
proof (cases "s = dev_Serial d")
  case True
  have "reg_get (snd (reg_add r d)) (dev_Serial d) = Inr d"
    using add_new [OF assms] by simp
  from remove_known [OF invar_add [OF assms(1)] this] show ?thesis
    using get_err [OF assms(2)] assms(2) True by simp
next
  case False
  then show ?thesis
    using remove_other [OF invar_add [OF assms(1)], of "dev_Serial d" s d]
      add_other [OF assms(1) False] by simp
qed

lemma re_add_fails:
  assumes "invar r" "fst (reg_add r d) = None"
  shows "fst (reg_add (snd (reg_add r d)) d) = Some (ErrDeviceAlreadyRegistered (dev_Serial d))"
proof (cases "reg_get r (dev_Serial d)")
  case (Inl e)
  then show ?thesis
    using add_new [OF assms(1) Inl] add_dup [OF invar_add [OF assms(1)]] by (metis fst_conv)
next
  case (Inr d')
  then show ?thesis using add_dup [OF assms(1) Inr] assms(2) by simp
qed

lemma count_add:
  assumes "invar r" "fst (reg_add r d) = None"
  shows "reg_count (snd (reg_add r d)) = Suc (reg_count r)"
proof -
  obtain e where e: "reg_get r (dev_Serial d) = Inl e"
    using assms add_dup by (cases "reg_get r (dev_Serial d)") auto
  have new: "reg_list (snd (reg_add r d)) = insert d (reg_list r)"
    unfolding list_get [OF assms(1)] list_get [OF invar_add [OF assms(1)]]
    using add_new [OF assms(1) e] add_other [OF assms(1)] e
    by (auto; metis Inl_Inr_False Inr_inject)
  have "d \<notin> reg_list r"
    using e get_serial [OF assms(1)] by (auto simp: list_get [OF assms(1)])
  then show ?thesis
    using count_list [OF assms(1)] count_list [OF invar_add [OF assms(1)], of d] new by simp
qed

end

end
