(* ===== verification/Registry.thy ===== *)
theory Registry
  imports Domain
begin

text \<open>
  \<^verbatim>\<open>src/internal/registry/registry.go\<close>: the in-memory store of connected devices.  Every method
  holds the mutex for its whole body, so one call is one step on the map.  \<^verbatim>\<open>List\<close> ranges over
  a Go map, whose order is unspecified: its result is the set of the registered devices.
\<close>

record Registry =
  reg_devices :: "string \<rightharpoonup> Device"

definition New_Registry :: Registry where
  "New_Registry = \<lparr>reg_devices = Map.empty\<rparr>"

definition Add :: "Registry \<Rightarrow> Device \<Rightarrow> domain_error option \<times> Registry" where
  "Add r device =
     (case reg_devices r (dev_Serial device) of
        Some _ \<Rightarrow> (Some (ErrDeviceAlreadyRegistered (dev_Serial device)), r)
      | None \<Rightarrow> (None, r\<lparr>reg_devices := (reg_devices r)(dev_Serial device \<mapsto> device)\<rparr>))"

definition Remove :: "Registry \<Rightarrow> string \<Rightarrow> domain_error option \<times> Registry" where
  "Remove r serial =
     (case reg_devices r serial of
        None \<Rightarrow> (Some (ErrDeviceNotFound serial), r)
      | Some _ \<Rightarrow> (None, r\<lparr>reg_devices := (reg_devices r)(serial := None)\<rparr>))"

definition Get :: "Registry \<Rightarrow> string \<Rightarrow> domain_error + Device" where
  "Get r serial =
     (case reg_devices r serial of
        None \<Rightarrow> Inl (ErrDeviceNotFound serial)
      | Some d \<Rightarrow> Inr d)"

definition List_devices :: "Registry \<Rightarrow> Device set" where
  "List_devices r = ran (reg_devices r)"

definition Count :: "Registry \<Rightarrow> nat" where
  "Count r = card (dom (reg_devices r))"

text \<open>The invariant: finitely many entries, each under the serial of its device.\<close>

definition reg_inv :: "Registry \<Rightarrow> bool" where
  "reg_inv r \<longleftrightarrow> finite (dom (reg_devices r)) \<and>
     (\<forall>s d. reg_devices r s = Some d \<longrightarrow> dev_Serial d = s)"

lemmas registry_defs = Add_def Remove_def Get_def List_devices_def Count_def New_Registry_def

lemma reg_inv_New [simp]: "reg_inv New_Registry"
  by (simp add: reg_inv_def New_Registry_def)

lemma reg_inv_Add [inv_intro]: "reg_inv r \<Longrightarrow> reg_inv (snd (Add r d))"
  by (auto simp: reg_inv_def Add_def split: option.splits)

lemma reg_inv_Remove [inv_intro]: "reg_inv r \<Longrightarrow> reg_inv (snd (Remove r s))"
  by (auto simp: reg_inv_def Remove_def split: option.splits)

lemma reg_devices_inj: "reg_inv r \<Longrightarrow> inj_on (\<lambda>s. the (reg_devices r s)) (dom (reg_devices r))"
  by (auto simp: reg_inv_def inj_on_def) metis

lemma ran_as_image: "ran m = (\<lambda>k. the (m k)) ` dom m"
  by (auto simp: ran_def dom_def image_iff) (metis option.sel)

lemma Count_card: "reg_inv r \<Longrightarrow> Count r = card (List_devices r) \<and> finite (List_devices r)"
  unfolding Count_def List_devices_def ran_as_image
  by (simp add: card_image [OF reg_devices_inj]) (simp add: reg_inv_def)

interpretation reg: device_registry New_Registry Add Remove Get List_devices Count reg_inv
proof unfold_locales
  show "reg_inv New_Registry" by simp
next
  fix s show "Get New_Registry s = Inl (ErrDeviceNotFound s)"
    by (simp add: registry_defs)
next
  fix r :: Registry and d assume "reg_inv r" then show "reg_inv (snd (Add r d))" by (rule inv_intro)
next
  fix r :: Registry and s assume "reg_inv r" then show "reg_inv (snd (Remove r s))" by (rule inv_intro)
next
  fix r :: Registry assume "reg_inv r"
  then show "Count r = card (List_devices r) \<and> finite (List_devices r)" by (rule Count_card)
qed (auto simp: registry_defs reg_inv_def ran_def split: option.splits)

end
