(* ===== verification/Stream_Manager.thy ===== *)
theory Stream_Manager
  imports H264_Framing Registry
begin

text \<open>
  \<^verbatim>\<open>src/internal/stream/stream.go\<close>: the per-device capture sessions and the loop that turns the
  scrcpy byte stream into the frames sent to viewers.

  \<^item> A viewer's channel is an identifier with a bounded buffer; a send in a \<^verbatim>\<open>select\<close> with a
    \<^verbatim>\<open>default\<close> branch is dropped when the buffer is full.
  \<^item> What the operating system and \<^verbatim>\<open>adb\<close> answer to one call of \<^verbatim>\<open>StartCapture\<close> or \<^verbatim>\<open>StopCapture\<close> is
    the argument \<^verbatim>\<open>os_results\<close>; what the calls leave on the host (port forwards, scrcpy processes,
    listening sockets) is the record \<^verbatim>\<open>Host\<close>.
  \<^item> The capture goroutine of a session is running, has exited (its deferred cleanup done, the
    channel \<^verbatim>\<open>done\<close> closed), or is stuck inside \<^verbatim>\<open>parseSPS\<close>.  A running goroutine exits once its
    context is cancelled, so \<^verbatim>\<open>StopCapture\<close> returns for the first two and waits for ever for the third.
  \<^item> The sizes of the HTTP handlers' work (\<^verbatim>\<open>/upload\<close>, \<^verbatim>\<open>/ws\<close>, \<^verbatim>\<open>/state\<close>) are not part of this theory.
\<close>

section \<open>Viewers\<close>

record gestureState =
  gs_startX :: real
  gs_startY :: real
  gs_endX :: real
  gs_endY :: real
  gs_startTime :: instant
  gs_isSwipe :: bool

datatype capture = Running | Exited | Stuck

type_synonym chan_id = nat

record viewer =
  vw_cap :: nat
  vw_buf :: "byte list list"

record streamState =
  ss_serial :: string
  ss_port :: int
  ss_capture :: capture
  ss_gopCache :: "byte list list"
  ss_controlConn :: bool
  ss_videoWidth :: "16 word"
  ss_videoHeight :: "16 word"
  ss_clients :: "chan_id \<rightharpoonup> viewer"
  ss_gesture :: gestureState
  ss_wdaClient :: "int option"
  ss_logicalWidth :: real
  ss_logicalHeight :: real

definition new_stream :: "string \<Rightarrow> int \<Rightarrow> streamState" where
  "new_stream serial port =
     \<lparr>ss_serial = serial, ss_port = port, ss_capture = Running, ss_gopCache = [], ss_controlConn = False,
      ss_videoWidth = 0, ss_videoHeight = 0, ss_clients = Map.empty,
      ss_gesture = \<lparr>gs_startX = 0, gs_startY = 0, gs_endX = 0, gs_endY = 0, gs_startTime = 0, gs_isSwipe = False\<rparr>,
      ss_wdaClient = None, ss_logicalWidth = 0, ss_logicalHeight = 0\<rparr>"

definition addClientAndGetCache ::
  "streamState \<Rightarrow> chan_id \<Rightarrow> nat \<Rightarrow> byte list list \<times> streamState" where
  "addClientAndGetCache s ch cap =
     (ss_gopCache s, s\<lparr>ss_clients := (ss_clients s)(ch \<mapsto> \<lparr>vw_cap = cap, vw_buf = []\<rparr>)\<rparr>)"

definition removeClient :: "streamState \<Rightarrow> chan_id \<Rightarrow> streamState" where
  "removeClient s ch = s\<lparr>ss_clients := (ss_clients s)(ch := None)\<rparr>"

text \<open>The non-blocking send \<^verbatim>\<open>select { case ch <- chunk: default: }\<close>.\<close>

definition try_send :: "byte list \<Rightarrow> viewer \<Rightarrow> viewer" where
  "try_send chunk v = (if length (vw_buf v) < vw_cap v then v\<lparr>vw_buf := vw_buf v @ [chunk]\<rparr> else v)"

definition broadcast :: "streamState \<Rightarrow> byte list \<Rightarrow> streamState" where
  "broadcast s chunk = s\<lparr>ss_clients := (\<lambda>ch. map_option (try_send chunk) (ss_clients s ch))\<rparr>"

section \<open>The capture loop\<close>

record mux =
  mx_seqNum :: "32 word"
  mx_sps :: "byte list option"
  mx_pps :: "byte list option"
  mx_stream :: streamState

text \<open>
  One frame: the body of the loop of \<^verbatim>\<open>readAndMux\<close> once the frame is read.  \<^term>\<open>None\<close> is a frame
  whose parameter set makes \<^verbatim>\<open>parseSPS\<close> loop.
\<close>

definition take_params :: "mux \<Rightarrow> byte list option \<Rightarrow> byte list option \<Rightarrow> mux option" where
  "take_params m newSPS newPPS =
     (case (newSPS, newPPS) of
        (Some sps, Some pps) \<Rightarrow> do {
          (trackWidth, trackHeight) \<leftarrow> parseSPS sps;
          Some (m\<lparr>mx_sps := Some sps, mx_pps := Some pps,
                  mx_stream := (mx_stream m)\<lparr>ss_videoWidth := trackWidth, ss_videoHeight := trackHeight\<rparr>\<rparr>) }
      | _ \<Rightarrow> Some m)"

definition with_params :: "byte list \<Rightarrow> byte list \<Rightarrow> byte list \<Rightarrow> byte list" where
  "with_params sps pps frameData = [0, 0, 0, 1] @ sps @ [0, 0, 0, 1] @ pps @ frameData"

definition cache_frame :: "bool \<Rightarrow> byte list \<Rightarrow> byte list list \<Rightarrow> byte list list" where
  "cache_frame isKey frameData gop =
     (if isKey then [frameData] else if gop \<noteq> [] then gop @ [frameData] else gop)"

definition mux_frame :: "mux \<Rightarrow> byte list \<Rightarrow> mux option" where
  "mux_frame m frameData =
     (case extractSPSPPS frameData of (newSPS, newPPS) \<Rightarrow> do {
        m \<leftarrow> take_params m newSPS newPPS;
        case (mx_sps m, mx_pps m) of
          (Some sps, Some pps) \<Rightarrow>
            (let isKey = isKeyFrame frameData;
                 m = m\<lparr>mx_seqNum := mx_seqNum m + 1\<rparr>;
                 frameData = (if isKey \<and> (newSPS = None \<or> newPPS = None)
                              then with_params sps pps frameData else frameData);
                 s = mx_stream m;
                 s = s\<lparr>ss_gopCache := cache_frame isKey frameData (ss_gopCache s)\<rparr>
             in Some (m\<lparr>mx_stream := broadcast s frameData\<rparr>))
        | _ \<Rightarrow> Some m })"

text \<open>
  The loop over the socket: \<^term>\<open>input\<close> is what the socket still delivers before its end, and
  \<^term>\<open>cancel_after\<close> the number of frames after which the context is seen cancelled.
\<close>

function readAndMux :: "mux \<Rightarrow> nat option \<Rightarrow> byte list \<Rightarrow> mux option" where
  "readAndMux m cancel_after input =
     (if cancel_after = Some 0 then Some m
      else if length input < 12 then Some m
      else
        let size = unat (Uint32 (drop 8 (take 12 input)));
            rest = drop 12 input;
            next_cancel = map_option (\<lambda>k. k - 1) cancel_after
        in if size = 0 then readAndMux m next_cancel rest
           else if length rest < size then Some m
           else (case mux_frame m (take size rest) of
                   None \<Rightarrow> None
                 | Some m' \<Rightarrow> readAndMux m' next_cancel (drop size rest)))"
  by pat_completeness auto
termination
  by (relation "measure (\<lambda>(m, c, input). length input)") auto

declare readAndMux.simps [simp del]

section \<open>Capture sessions\<close>

record Host =
  h_forwards :: "(string \<times> int) set"
  h_procs :: "string set"
  h_listen :: "int set"

record Manager =
  m_streams :: "string \<rightharpoonup> streamState"

definition NewManager :: Manager where
  "NewManager = \<lparr>m_streams = Map.empty\<rparr>"

record os_results =
  os_forward :: bool
  os_start :: bool
  os_listen :: bool
  os_forwardRemove :: bool

datatype stream_error = ErrAdbForward | ErrStartServer | ErrListen int

definition adbForwardRemove :: "os_results \<Rightarrow> string \<Rightarrow> int \<Rightarrow> Host \<Rightarrow> Host" where
  "adbForwardRemove os serial local h =
     (if os_forwardRemove os then h\<lparr>h_forwards := h_forwards h - {(serial, local)}\<rparr> else h)"

definition kill_server :: "string \<Rightarrow> Host \<Rightarrow> Host" where
  "kill_server serial h = h\<lparr>h_procs := h_procs h - {serial}\<rparr>"

definition startIOSCaptureLocked ::
  "os_results \<Rightarrow> Manager \<Rightarrow> Host \<Rightarrow> string \<Rightarrow> int \<Rightarrow> stream_error option \<times> Manager \<times> Host" where
  "startIOSCaptureLocked os m h serial port =
     (if \<not> os_listen os \<or> port \<in> h_listen h then (Some (ErrListen port), m, h)
      else (None,
            m\<lparr>m_streams := (m_streams m)(serial \<mapsto> (new_stream serial port)\<lparr>ss_wdaClient := Some (port + 3000)\<rparr>)\<rparr>,
            h\<lparr>h_listen := insert port (h_listen h)\<rparr>))"

definition StartCapture ::
  "os_results \<Rightarrow> Registry \<Rightarrow> Manager \<Rightarrow> Host \<Rightarrow> string \<Rightarrow> int \<Rightarrow> stream_error option \<times> Manager \<times> Host" where
  "StartCapture os reg m h serial port =
     (case m_streams m serial of
        Some _ \<Rightarrow> (None, m, h)
      | None \<Rightarrow>
          if (case Get reg serial of Inr device \<Rightarrow> strings_EqualFold (dev_Platform device) ''ios'' | Inl _ \<Rightarrow> False)
          then startIOSCaptureLocked os m h serial port
          else
            (let localVideoPort = port + 2000 in
             if \<not> os_forward os then (Some ErrAdbForward, m, h)
             else let h = h\<lparr>h_forwards := insert (serial, localVideoPort) (h_forwards h)\<rparr> in
             if \<not> os_start os then (Some ErrStartServer, m, adbForwardRemove os serial localVideoPort h)
             else let h = h\<lparr>h_procs := insert serial (h_procs h)\<rparr> in
             if \<not> os_listen os \<or> port \<in> h_listen h
             then (Some (ErrListen port), m, adbForwardRemove os serial localVideoPort (kill_server serial h))
             else (None, m\<lparr>m_streams := (m_streams m)(serial \<mapsto> new_stream serial port)\<rparr>,
                   h\<lparr>h_listen := insert port (h_listen h)\<rparr>)))"

text \<open>The deferred calls of the capture goroutine.\<close>

definition capture_cleanup :: "os_results \<Rightarrow> streamState \<Rightarrow> Host \<Rightarrow> Host" where
  "capture_cleanup os s h =
     (let h = h\<lparr>h_listen := h_listen h - {ss_port s}\<rparr> in
      if ss_wdaClient s \<noteq> None then h
      else adbForwardRemove os (ss_serial s) (ss_port s + 2000) (kill_server (ss_serial s) h))"

text \<open>The goroutine leaves on its own: the socket closed, or it never connected.\<close>

definition capture_exit :: "os_results \<Rightarrow> Manager \<Rightarrow> Host \<Rightarrow> string \<Rightarrow> Manager \<times> Host" where
  "capture_exit os m h serial =
     (case m_streams m serial of
        Some s \<Rightarrow>
          if ss_capture s = Running
          then (m\<lparr>m_streams := (m_streams m)(serial \<mapsto> s\<lparr>ss_capture := Exited\<rparr>)\<rparr>, capture_cleanup os s h)
          else (m, h)
      | None \<Rightarrow> (m, h))"

definition StopCapture :: "os_results \<Rightarrow> Manager \<Rightarrow> Host \<Rightarrow> string \<Rightarrow> (Manager \<times> Host) option" where
  "StopCapture os m h serial =
     (case m_streams m serial of
        None \<Rightarrow> Some (m, h)
      | Some s \<Rightarrow>
          let m = m\<lparr>m_streams := (m_streams m)(serial := None)\<rparr> in
          (case ss_capture s of
             Running \<Rightarrow> Some (m, capture_cleanup os s h)
           | Exited \<Rightarrow> Some (m, h)
           | Stuck \<Rightarrow> None))"

definition IsCapturing :: "Manager \<Rightarrow> string \<Rightarrow> bool" where
  "IsCapturing m serial \<longleftrightarrow> m_streams m serial \<noteq> None"

text \<open>Feeding a session's socket: the goroutine runs the loop, and gets stuck or exits at its end.\<close>

definition capture_input :: "os_results \<Rightarrow> Manager \<Rightarrow> Host \<Rightarrow> string \<Rightarrow> byte list \<Rightarrow> Manager \<times> Host" where
  "capture_input os m h serial input =
     (case m_streams m serial of
        Some s \<Rightarrow>
          if ss_capture s = Running then
            (case readAndMux \<lparr>mx_seqNum = 0, mx_sps = None, mx_pps = None, mx_stream = s\<rparr> None input of
               None \<Rightarrow> (m\<lparr>m_streams := (m_streams m)(serial \<mapsto> s\<lparr>ss_capture := Stuck\<rparr>)\<rparr>, h)
             | Some x \<Rightarrow> capture_exit os (m\<lparr>m_streams := (m_streams m)(serial \<mapsto> mx_stream x)\<rparr>) h serial)
          else (m, h)
      | None \<Rightarrow> (m, h))"

section \<open>The StreamManager interface of interfaces.go\<close>

text \<open>What the device supervisor relies on, stated over \<^verbatim>\<open>IsCapturing\<close>.\<close>

locale stream_manager =
  fixes start :: "'m \<Rightarrow> string \<Rightarrow> int \<Rightarrow> 'e option \<times> 'm"
    and stop :: "'m \<Rightarrow> string \<Rightarrow> 'm option"
    and capturing :: "'m \<Rightarrow> string \<Rightarrow> bool"
  assumes start_ok: "fst (start m s p) = None \<Longrightarrow> capturing (snd (start m s p)) s"
    and start_err: "fst (start m s p) = Some e \<Longrightarrow> capturing (snd (start m s p)) t = capturing m t"
    and start_frame: "t \<noteq> s \<Longrightarrow> capturing (snd (start m s p)) t = capturing m t"
    and start_active: "capturing m s \<Longrightarrow> start m s p = (None, m)"
    and stop_ok: "stop m s = Some m' \<Longrightarrow> \<not> capturing m' s"
    and stop_frame: "stop m s = Some m' \<Longrightarrow> t \<noteq> s \<Longrightarrow> capturing m' t = capturing m t"
    and stop_idle: "\<not> capturing m s \<Longrightarrow> stop m s = Some m"
begin

lemma start_mono: "capturing m t \<Longrightarrow> capturing (snd (start m s p)) t"
  using start_ok [of m s p] start_err [of m s p] start_frame [of t s m p] by (cases "fst (start m s p)") force+

lemma start_idem: "fst (start m s p) = None \<Longrightarrow> start (snd (start m s p)) s q = (None, snd (start m s p))"
  by (rule start_active [OF start_ok])

lemma start_stop:
  assumes "\<not> capturing m s" "stop (snd (start m s p)) s = Some m'"
  shows "capturing m' t = capturing m t"
  using assms stop_ok [OF assms(2)] stop_frame [OF assms(2)] start_frame [of t s m p] by (cases "t = s") auto

lemma stop_twice: "stop m s = Some m' \<Longrightarrow> stop m' s = Some m'"
  by (rule stop_idle [OF stop_ok])

end

lemmas capture_defs = StartCapture_def startIOSCaptureLocked_def StopCapture_def IsCapturing_def Let_def

definition start_capture :: "os_results \<Rightarrow> Registry \<Rightarrow> Manager \<times> Host \<Rightarrow> string \<Rightarrow> int \<Rightarrow> stream_error option \<times> Manager \<times> Host" where
  "start_capture os reg mh serial port = StartCapture os reg (fst mh) (snd mh) serial port"

definition stop_capture :: "os_results \<Rightarrow> Manager \<times> Host \<Rightarrow> string \<Rightarrow> (Manager \<times> Host) option" where
  "stop_capture os mh serial = StopCapture os (fst mh) (snd mh) serial"

definition is_capturing :: "Manager \<times> Host \<Rightarrow> string \<Rightarrow> bool" where
  "is_capturing mh serial = IsCapturing (fst mh) serial"

interpretation stm: stream_manager "start_capture os reg" "stop_capture os" is_capturing for os reg
  by unfold_locales
    (auto simp: start_capture_def stop_capture_def is_capturing_def capture_defs
      split: option.splits if_splits sum.splits capture.splits)

section \<open>Resources on the host\<close>

text \<open>
  A \<^verbatim>\<open>StartCapture\<close> that fails registers no session and leaves nothing on the host: the port
  forward is removed and the scrcpy process killed on every error path, whichever step failed.
\<close>

theorem StartCapture_error_no_leak:
  assumes "StartCapture os reg m h serial port = (Some e, m', h')"
    and "os_forwardRemove os" and "(serial, port + 2000) \<notin> h_forwards h" and "serial \<notin> h_procs h"
  shows "m' = m \<and> h' = h"
  using assms
  by (cases h) (auto simp: StartCapture_def startIOSCaptureLocked_def adbForwardRemove_def kill_server_def Let_def
      split: option.splits if_splits sum.splits)

theorem StartCapture_error_no_leak_witness:
  "let os = \<lparr>os_forward = True, os_start = True, os_listen = False, os_forwardRemove = True\<rparr>;
       h = \<lparr>h_forwards = {}, h_procs = {}, h_listen = {}\<rparr>
   in StartCapture os New_Registry NewManager h ''d1'' 7400 = (Some (ErrListen 7400), NewManager, h)"
proof -
  let ?os = "\<lparr>os_forward = True, os_start = True, os_listen = False, os_forwardRemove = True\<rparr>"
  let ?h = "\<lparr>h_forwards = {}, h_procs = {}, h_listen = {}\<rparr>"
  obtain m' h' where r: "StartCapture ?os New_Registry NewManager ?h ''d1'' 7400 = (Some (ErrListen 7400), m', h')"
    by (simp add: StartCapture_def NewManager_def New_Registry_def Get_def Let_def)
  from StartCapture_error_no_leak [OF r] r show ?thesis by simp
qed

lemma start_stop_restores:
  assumes start: "StartCapture os reg m h serial port = (None, m', h')"
    and idle: "\<not> IsCapturing m serial"
    and fresh: "os_forwardRemove os" "(serial, port + 2000) \<notin> h_forwards h" "serial \<notin> h_procs h"
  shows "StopCapture os m' h' serial = Some (m, h)"
proof -
  have "m_streams m serial = None" using idle by (simp add: IsCapturing_def)
  with start fresh show ?thesis
    by (cases m; cases h)
      (auto simp: StartCapture_def startIOSCaptureLocked_def StopCapture_def new_stream_def capture_cleanup_def
        adbForwardRemove_def kill_server_def Let_def fun_upd_idem split: if_splits sum.splits)
qed

text \<open>
  Starting a capture and stopping it again gives back every port forward, process and
  listening socket that the start took.
\<close>

theorem start_stop_restores_host:
  assumes "StartCapture os reg m h serial port = (None, m', h')"
    and "\<not> IsCapturing m serial"
    and "os_forwardRemove os" "(serial, port + 2000) \<notin> h_forwards h" "serial \<notin> h_procs h"
  shows "StopCapture os m' h' serial = Some (m, h)"
  using assms by (rule start_stop_restores)

theorem start_stop_restores_host_witness:
  "let os = \<lparr>os_forward = True, os_start = True, os_listen = True, os_forwardRemove = True\<rparr>;
       h = \<lparr>h_forwards = {}, h_procs = {}, h_listen = {}\<rparr>
   in \<exists>m' h'. StartCapture os New_Registry NewManager h ''d1'' 7400 = (None, m', h') \<and>
        h_listen h' = {7400} \<and> StopCapture os m' h' ''d1'' = Some (NewManager, h)"
proof -
  let ?os = "\<lparr>os_forward = True, os_start = True, os_listen = True, os_forwardRemove = True\<rparr>"
  let ?h = "\<lparr>h_forwards = {}, h_procs = {}, h_listen = {}\<rparr>"
  obtain m' h' where r: "StartCapture ?os New_Registry NewManager ?h ''d1'' 7400 = (None, m', h')"
      and l: "h_listen h' = {7400}"
    by (simp add: StartCapture_def NewManager_def New_Registry_def Get_def Let_def)
  from start_stop_restores_host [OF r] have "StopCapture ?os m' h' ''d1'' = Some (NewManager, ?h)"
    by (simp add: IsCapturing_def NewManager_def)
  with r l show ?thesis by auto
qed

section \<open>The group-of-pictures cache\<close>

definition param_unit :: "byte \<Rightarrow> byte list \<Rightarrow> bool" where
  "param_unit t u \<longleftrightarrow> u \<noteq> [] \<and> \<not> has_code u \<and> nalType (hd u) = t"

definition has_params :: "byte list \<Rightarrow> bool" where
  "has_params f \<longleftrightarrow> (\<exists>sps pps. extractSPSPPS f = (Some sps, Some pps))"

text \<open>A viewer that joins receives the cache first: it must open with a frame a decoder can start from.\<close>

definition gop_inv :: "byte list list \<Rightarrow> bool" where
  "gop_inv gop \<longleftrightarrow> gop = [] \<or>
     (has_params (hd gop) \<and> isKeyFrame (hd gop) \<and> (\<forall>f \<in> set (tl gop). \<not> isKeyFrame f))"

definition mux_inv :: "mux \<Rightarrow> bool" where
  "mux_inv m \<longleftrightarrow> (\<forall>u. mx_sps m = Some u \<longrightarrow> param_unit nalSPS u) \<and>
     (\<forall>u. mx_pps m = Some u \<longrightarrow> param_unit nalPPS u) \<and> gop_inv (ss_gopCache (mx_stream m))"

lemma isKeyFrame_loop_iff:
  "isKeyFrame_loop ns \<longleftrightarrow> (\<exists>n \<in> set ns. n \<noteq> [] \<and> nalType (hd n) \<in> {nalIDR, nalSPS, nalPPS})"
  by (induction ns) auto

lemma extract_loop_SPS:
  "fst (extractSPSPPS_loop ns (sps, pps)) =
     (if sps \<noteq> None then sps else find (\<lambda>n. n \<noteq> [] \<and> nalType (hd n) = nalSPS) ns)"
  by (induction ns "(sps, pps)" arbitrary: sps pps rule: extractSPSPPS_loop.induct) (auto simp: nal_defs)

lemma extract_loop_PPS:
  "snd (extractSPSPPS_loop ns (sps, pps)) =
     (if pps \<noteq> None then pps else find (\<lambda>n. n \<noteq> [] \<and> nalType (hd n) = nalPPS) ns)"
  by (induction ns "(sps, pps)" arbitrary: sps pps rule: extractSPSPPS_loop.induct) (auto simp: nal_defs)

lemma extract_eq:
  "extractSPSPPS f = (find (\<lambda>n. n \<noteq> [] \<and> nalType (hd n) = nalSPS) (annexBSplit f),
     find (\<lambda>n. n \<noteq> [] \<and> nalType (hd n) = nalPPS) (annexBSplit f))"
  by (simp add: extractSPSPPS_def prod_eq_iff extract_loop_SPS extract_loop_PPS)

lemma extract_units:
  "extractSPSPPS f = (Some sps, p) \<Longrightarrow> param_unit nalSPS sps"
  "extractSPSPPS f = (q, Some pps) \<Longrightarrow> param_unit nalPPS pps"
  using annexBSplit_units by (auto simp: extract_eq param_unit_def dest!: find_SomeD)

lemma has_params_iff:
  "has_params f \<longleftrightarrow> (\<exists>n \<in> set (annexBSplit f). n \<noteq> [] \<and> nalType (hd n) = nalSPS) \<and>
     (\<exists>n \<in> set (annexBSplit f). n \<noteq> [] \<and> nalType (hd n) = nalPPS)"
  by (simp add: has_params_def extract_eq not_None_eq [symmetric] find_None_iff del: not_None_eq)
    (metis find_None_iff not_Some_eq)

lemma split_ref_first: "\<exists>u us. split_ref (Some (v # acc)) xs = (v # u) # us"
proof (induction xs arbitrary: acc)
  case (Cons x xs)
  show ?case
  proof (cases "start_code (x # xs)")
    case None
    with Cons.IH [of "acc @ [x]"] show ?thesis by simp
  qed (simp add: flush_def)
qed (simp add: flush_def)

lemma nalType_0: "nalType 0 = 0"
  by (simp add: nalType_def)

lemma with_params_units:
  assumes sps: "param_unit nalSPS sps" and pps: "param_unit nalPPS pps"
  shows "\<exists>u us. annexBSplit (with_params sps pps f) = sps # (hd pps # u) # us"
proof -
  obtain p ps where p: "pps = p # ps" and "nalType p = nalPPS" using pps by (cases pps) (auto simp: param_unit_def)
  then have "p \<noteq> 0" using nalType_0 by (auto simp: nal_defs)
  then have "split_ref (Some []) (pps @ f) = split_ref (Some [p]) (ps @ f)"
    using p by (simp add: start_code_def)
  moreover have "annexBSplit (with_params sps pps f) = sps # split_ref (Some []) (pps @ f)"
    using split_ref_code [of None "sps @ [0, 0, 0, 1] @ pps @ f"] split_ref_unit [of sps "[]" "pps @ f"] sps
    by (simp add: annexBSplit_ref with_params_def flush_def param_unit_def)
  ultimately show ?thesis using split_ref_first [of p "[]" "ps @ f"] p by auto
qed

lemma with_params_ok:
  assumes "param_unit nalSPS sps" "param_unit nalPPS pps"
  shows "has_params (with_params sps pps f)" "isKeyFrame (with_params sps pps f)"
  using with_params_units [OF assms, of f] assms
  by (auto simp: has_params_iff isKeyFrame_def isKeyFrame_loop_iff param_unit_def)

lemma gop_inv_cache:
  assumes "gop_inv gop" "isKey \<Longrightarrow> has_params f \<and> isKeyFrame f" "\<not> isKey \<Longrightarrow> \<not> isKeyFrame f"
  shows "gop_inv (cache_frame isKey f gop)"
  using assms by (cases gop) (auto simp: gop_inv_def cache_frame_def)

lemma take_params_inv:
  assumes inv: "mux_inv m" and ex: "extractSPSPPS f = (a, b)" and t: "take_params m a b = Some m'"
  shows "mux_inv m' \<and> ss_clients (mx_stream m') = ss_clients (mx_stream m)"
  using inv t extract_units(1) [of f] extract_units(2) [of f] ex
  by (auto simp: take_params_def mux_inv_def bind_eq_Some_conv split: option.splits)

lemma mux_frame_inv:
  assumes inv: "mux_inv m" and f: "mux_frame m f = Some m'"
  shows "mux_inv m'"
proof -
  obtain a b where ex: "extractSPSPPS f = (a, b)" by fastforce
  with f obtain m1 where m1: "take_params m a b = Some m1"
    by (auto simp: mux_frame_def bind_eq_Some_conv)
  with take_params_inv [OF inv ex] have inv1: "mux_inv m1" by simp
  show ?thesis
  proof (cases "mx_sps m1 = None \<or> mx_pps m1 = None")
    case True
    with f ex m1 inv1 show ?thesis by (auto simp: mux_frame_def split: option.splits)
  next
    case False
    then obtain sps pps where ps: "mx_sps m1 = Some sps" "mx_pps m1 = Some pps" by auto
    define g where "g = (if isKeyFrame f \<and> (a = None \<or> b = None) then with_params sps pps f else f)"
    have units: "param_unit nalSPS sps" "param_unit nalPPS pps" using inv1 ps by (auto simp: mux_inv_def)
    have "gop_inv (cache_frame (isKeyFrame f) g (ss_gopCache (mx_stream m1)))"
    proof (rule gop_inv_cache)
      show "gop_inv (ss_gopCache (mx_stream m1))" using inv1 by (simp add: mux_inv_def)
      show "isKeyFrame f \<Longrightarrow> has_params g \<and> isKeyFrame g"
        using with_params_ok [OF units, of f] ex by (auto simp: g_def has_params_def)
      show "\<not> isKeyFrame f \<Longrightarrow> \<not> isKeyFrame g" by (simp add: g_def)
    qed
    moreover have "m' = m1\<lparr>mx_seqNum := mx_seqNum m1 + 1, mx_stream := broadcast ((mx_stream m1)\<lparr>ss_gopCache :=
        cache_frame (isKeyFrame f) g (ss_gopCache (mx_stream m1))\<rparr>) g\<rparr>"
      using f ex m1 ps by (simp add: mux_frame_def Let_def g_def)
    ultimately show ?thesis using inv1 by (simp add: mux_inv_def broadcast_def)
  qed
qed

lemma readAndMux_inv: "mux_inv m \<Longrightarrow> readAndMux m c input = Some m' \<Longrightarrow> mux_inv m'"
proof (induction m c input rule: readAndMux.induct)
  case (1 m c input)
  show ?case
  proof (cases "c = Some 0 \<or> length input < 12")
    case True
    with "1.prems" show ?thesis by (auto simp: readAndMux.simps [of m c input] split: if_splits)
  next
    case False
    with 1 mux_frame_inv show ?thesis
      by (auto simp: readAndMux.simps [of m c input] Let_def split: if_splits option.splits)
  qed
qed


text \<open>A parameter frame (SPS, PPS) and a key frame without them: the cache holds the key frame with both in front.\<close>

lemma params_then_key:
  "readAndMux \<lparr>mx_seqNum = 0, mx_sps = None, mx_pps = None, mx_stream = new_stream ''d1'' 7400\<rparr> None
     ([0, 0, 0, 0, 0, 0, 0, 0, 0, 0, 0, 13] @ [0, 0, 0, 1, 0x67, 66, 0, 0, 0, 1, 0x68, 1, 1] @
      [0, 0, 0, 0, 0, 0, 0, 0, 0, 0, 0, 6] @ [0, 0, 0, 1, 0x65, 9]) \<noteq> None"
  by (simp add: readAndMux.simps Uint32_def mux_frame_def extract_eq annexBSplit_ref start_code_def flush_def
      nalType_def nal_defs take_params_def parseSPS_def Let_def)


section \<open>A capture that cannot be stopped\<close>

text \<open>
  If the first frame of a session carries a parameter set on which \<^verbatim>\<open>parseSPS\<close> loops, the
  capture goroutine is lost: every later \<^verbatim>\<open>StopCapture\<close> for that device waits for ever, while the
  manager still reports the device as capturing and refuses to start it anew.
\<close>

theorem stuck_capture_blocks_stop:
  assumes running: "m_streams m serial = Some s" "ss_capture s = Running"
    and frame: "length hdr = 12" "unat (Uint32 (drop 8 hdr)) = length frame" "frame \<noteq> []"
    and loops: "extractSPSPPS frame = (Some sps, Some pps)" "parseSPS sps = None"
    and input: "capture_input os m h serial (hdr @ frame @ rest) = (m', h')"
  shows "StopCapture os' m' h' serial = None \<and> IsCapturing m' serial \<and>
    StartCapture os' reg m' h' serial port = (None, m', h')"
proof -
  have "mux_frame m0 frame = None" for m0
    using loops by (simp add: mux_frame_def take_params_def)
  then have "readAndMux m0 None (hdr @ frame @ rest) = None" for m0
    using frame by (simp add: readAndMux.simps [of m0 None "hdr @ frame @ rest"] Let_def)
  with running input have "m_streams m' serial = Some (s\<lparr>ss_capture := Stuck\<rparr>)"
    by (auto simp: capture_input_def)
  then show ?thesis by (simp add: capture_defs)
qed

theorem stuck_capture_blocks_stop_witness:
  "let s = new_stream ''d1'' 7400; m = \<lparr>m_streams = [''d1'' \<mapsto> s]\<rparr>;
       os = \<lparr>os_forward = True, os_start = True, os_listen = True, os_forwardRemove = True\<rparr>;
       h = \<lparr>h_forwards = {}, h_procs = {}, h_listen = {}\<rparr>;
       frame = [0, 0, 0, 1, 0x67, 66, 0, 30, 0, 0, 0, 0, 1, 0x68, 1]
   in StopCapture os (fst (capture_input os m h ''d1'' ([0, 0, 0, 0, 0, 0, 0, 0, 0, 0, 0, 15] @ frame @ [])))
        (snd (capture_input os m h ''d1'' ([0, 0, 0, 0, 0, 0, 0, 0, 0, 0, 0, 15] @ frame @ []))) ''d1'' = None"
proof -
  let ?s = "new_stream ''d1'' 7400" let ?m = "\<lparr>m_streams = [''d1'' \<mapsto> ?s]\<rparr>"
  let ?os = "\<lparr>os_forward = True, os_start = True, os_listen = True, os_forwardRemove = True\<rparr>"
  let ?h = "\<lparr>h_forwards = {}, h_procs = {}, h_listen = {}\<rparr>"
  let ?frame = "[0, 0, 0, 1, 0x67, 66, 0, 30, 0, 0, 0, 0, 1, 0x68, 1] :: byte list"
  let ?hdr = "[0, 0, 0, 0, 0, 0, 0, 0, 0, 0, 0, 15] :: byte list"
  have 1: "m_streams ?m ''d1'' = Some ?s" "ss_capture ?s = Running" by (simp_all add: new_stream_def)
  have 2: "length ?hdr = 12" "unat (Uint32 (drop 8 ?hdr)) = length ?frame" "?frame \<noteq> []"
    by (simp_all add: Uint32_def)
  have 3: "extractSPSPPS ?frame = (Some [0x67, 66, 0, 30, 0], Some [0x68, 1])"
    by (simp add: extract_eq annexBSplit_ref start_code_def flush_def nalType_def nal_defs)
  have 4: "parseSPS [0x67, 66, 0, 30, 0] = None"
  proof -
    have "readUE \<lparr>br_data = [0], br_bytePos = 0, br_bitPos = 0\<rparr> = None"
      by (simp add: readUE_None_iff br_ok_def bits_of_def byte_bits_def)
    then show ?thesis by (simp add: parseSPS_def Let_def)
  qed
  show ?thesis
    using stuck_capture_blocks_stop [OF 1 2 3 4 prod.collapse [symmetric]] by (simp add: Let_def)
qed

end
