(* ===== verification/Device_Supervisor.thy ===== *)
theory Device_Supervisor
  imports Port_Allocator Stream_Manager
begin

text \<open>
  \<^verbatim>\<open>src/internal/supervisor/state.go\<close>, \<^verbatim>\<open>device_supervisor.go\<close>: the lifecycle of one connected
  device.  What the supervisors of all devices share (the port pool, the event channel, the stream
  manager with its host, the background deletions of WebDriverAgent sessions) is the record \<^verbatim>\<open>Env\<close>.
  Each method holds the device's mutex for its whole body, so a call is one step on the pair of the
  device's record and the shared part.

  \<^verbatim>\<open>Run\<close> is split at the point where it waits: \<^verbatim>\<open>Run_start\<close> up to \<open>dsCtx.Done()\<close>, and
  \<^verbatim>\<open>teardown\<close> after it.  The field \<^verbatim>\<open>ds_phase\<close> tells how far \<^verbatim>\<open>Run\<close> is: not entered yet
  (\<^verbatim>\<open>ds.cancel\<close> is nil), waiting, or returned (\<^verbatim>\<open>ds.done\<close> closed).  Stopping the agent and the iOS worker
  waits for their own goroutines, which end when their context does; those calls return.
  An operation that waits for ever is \<^term>\<open>None\<close>.
\<close>

section \<open>state.go\<close>

datatype DeviceState = StateIdle | StateClaimed | StateBusy | StateReleasing

fun DeviceState_String :: "DeviceState \<Rightarrow> string" where
  "DeviceState_String StateIdle = ''idle''"
| "DeviceState_String StateClaimed = ''claimed''"
| "DeviceState_String StateBusy = ''busy''"
| "DeviceState_String StateReleasing = ''releasing''"

definition IsTerminal :: "DeviceState \<Rightarrow> bool" where
  "IsTerminal s = False"

record SupervisorEvent =
  se_Serial :: string
  se_OldState :: DeviceState
  se_NewState :: DeviceState
  se_SessionID :: string
  se_Device :: "Device option"

section \<open>device_supervisor.go\<close>

datatype phase = NotStarted | Serving | Finished

record DeviceSupervisor =
  ds_device :: Device
  ds_providerID :: string
  ds_state :: DeviceState
  ds_sessionID :: string
  ds_port :: int
  ds_agt :: "int option"
  ds_iosWorker :: "int option"
  ds_wdaClient :: "int option"
  ds_phase :: phase

definition eventBufferSize :: nat where "eventBufferSize = 128"

record Env =
  env_ports :: PortAllocator
  env_events :: "SupervisorEvent list"
  env_streams :: "Manager \<times> Host"
  env_deletes :: "int list"

datatype sup_error =
    NotIdle string DeviceState
  | StartCaptureFailed stream_error
  | NotClaimed string DeviceState
  | NoSupervisor string

definition newDeviceSupervisor :: "Device \<Rightarrow> string \<Rightarrow> DeviceSupervisor" where
  "newDeviceSupervisor device providerID =
     \<lparr>ds_device = device, ds_providerID = providerID, ds_state = StateIdle, ds_sessionID = '''',
      ds_port = 0, ds_agt = None, ds_iosWorker = None, ds_wdaClient = None, ds_phase = NotStarted\<rparr>"

definition emit :: "SupervisorEvent \<Rightarrow> Env \<Rightarrow> Env" where
  "emit e env = (if length (env_events env) < eventBufferSize then env\<lparr>env_events := env_events env @ [e]\<rparr> else env)"

definition serial_of :: "DeviceSupervisor \<Rightarrow> string" where
  "serial_of ds = dev_Serial (ds_device ds)"

definition Run_start :: "DeviceSupervisor \<Rightarrow> Env \<Rightarrow> DeviceSupervisor \<times> Env" where
  "Run_start ds env =
     (case Allocate (env_ports env) (serial_of ds) of
        (Inl _, ports) \<Rightarrow> (ds\<lparr>ds_phase := Finished\<rparr>, env\<lparr>env_ports := ports\<rparr>)
      | (Inr port, ports) \<Rightarrow>
          (let ds = ds\<lparr>ds_port := port, ds_phase := Serving\<rparr>;
               ds = (if strings_EqualFold (dev_Platform (ds_device ds)) ''ios''
                     then ds\<lparr>ds_iosWorker := Some (port + 3000), ds_wdaClient := Some (port + 3000)\<rparr>
                     else ds\<lparr>ds_agt := Some (port + 3000)\<rparr>)
           in (ds, env\<lparr>env_ports := ports\<rparr>)))"

text \<open>The goroutine that forwards the agent's telemetry.\<close>

definition telemetry :: "DeviceSupervisor \<Rightarrow> Device \<Rightarrow> Env \<Rightarrow> Env" where
  "telemetry ds dev env =
     emit \<lparr>se_Serial = serial_of ds, se_OldState = ds_state ds, se_NewState = ds_state ds,
           se_SessionID = ds_sessionID ds, se_Device = Some dev\<rparr> env"

definition Claim :: "os_results \<Rightarrow> Registry \<Rightarrow> string \<Rightarrow> DeviceSupervisor \<Rightarrow> Env \<Rightarrow>
    (sup_error + string) \<times> DeviceSupervisor \<times> Env" where
  "Claim os reg newID ds env =
     (if ds_state ds \<noteq> StateIdle then (Inl (NotIdle (serial_of ds) (ds_state ds)), ds, env)
      else
        (case start_capture os reg (env_streams env) (serial_of ds) (ds_port ds) of
           (Some e, streams) \<Rightarrow> (Inl (StartCaptureFailed e), ds, env\<lparr>env_streams := streams\<rparr>)
         | (None, streams) \<Rightarrow>
             (Inr newID, ds\<lparr>ds_state := StateClaimed, ds_sessionID := newID\<rparr>,
              emit \<lparr>se_Serial = serial_of ds, se_OldState = ds_state ds, se_NewState = StateClaimed,
                    se_SessionID = newID, se_Device = None\<rparr> (env\<lparr>env_streams := streams\<rparr>))))"

definition Activate :: "DeviceSupervisor \<Rightarrow> Env \<Rightarrow> sup_error option \<times> DeviceSupervisor \<times> Env" where
  "Activate ds env =
     (if ds_state ds \<noteq> StateClaimed then (Some (NotClaimed (serial_of ds) (ds_state ds)), ds, env)
      else (None, ds\<lparr>ds_state := StateBusy\<rparr>,
            emit \<lparr>se_Serial = serial_of ds, se_OldState = ds_state ds, se_NewState = StateBusy,
                  se_SessionID = ds_sessionID ds, se_Device = None\<rparr> env))"

definition bg_delete :: "int option \<Rightarrow> Env \<Rightarrow> Env" where
  "bg_delete c env = (case c of None \<Rightarrow> env | Some port \<Rightarrow> env\<lparr>env_deletes := env_deletes env @ [port]\<rparr>)"

definition Release :: "os_results \<Rightarrow> DeviceSupervisor \<Rightarrow> Env \<Rightarrow> (DeviceSupervisor \<times> Env) option" where
  "Release os ds env =
     (if ds_state ds = StateIdle \<or> ds_state ds = StateReleasing then Some (ds, env)
      else
        let old = ds_state ds;
            ds = ds\<lparr>ds_state := StateReleasing\<rparr>;
            ds = (if ds_sessionID ds \<noteq> '''' then ds\<lparr>ds_sessionID := ''''\<rparr> else ds)
        in (case stop_capture os (env_streams env) (serial_of ds) of
              None \<Rightarrow> None
            | Some streams \<Rightarrow>
                let env = bg_delete (ds_wdaClient ds) (env\<lparr>env_streams := streams\<rparr>);
                    ds = ds\<lparr>ds_state := StateIdle\<rparr>
                in Some (ds, emit \<lparr>se_Serial = serial_of ds, se_OldState = old, se_NewState = StateIdle,
                                   se_SessionID = '''', se_Device = None\<rparr> env)))"

definition teardown :: "os_results \<Rightarrow> DeviceSupervisor \<Rightarrow> Env \<Rightarrow> (DeviceSupervisor \<times> Env) option" where
  "teardown os ds env =
     (let wdaClient = ds_wdaClient ds;
          ds = ds\<lparr>ds_agt := None, ds_iosWorker := None, ds_wdaClient := None\<rparr>;
          ds = (if ds_sessionID ds \<noteq> '''' then ds\<lparr>ds_sessionID := ''''\<rparr> else ds);
          env = bg_delete wdaClient env
      in (case stop_capture os (env_streams env) (serial_of ds) of
            None \<Rightarrow> None
          | Some streams \<Rightarrow>
              Some (ds, env\<lparr>env_streams := streams, env_ports := Free (env_ports env) (serial_of ds)\<rparr>)))"

text \<open>
  \<^verbatim>\<open>Stop\<close>: cancel, if \<^verbatim>\<open>Run\<close> has stored the cancel function yet, and wait for \<^verbatim>\<open>done\<close>.  Before
  \<^verbatim>\<open>Run\<close> is entered there is nothing to cancel, and \<^verbatim>\<open>Run\<close> then waits on a context that only the
  shutdown of the provider ends.
\<close>

definition Stop :: "os_results \<Rightarrow> DeviceSupervisor \<Rightarrow> Env \<Rightarrow> (DeviceSupervisor \<times> Env) option" where
  "Stop os ds env =
     (case ds_phase ds of
        NotStarted \<Rightarrow> None
      | Serving \<Rightarrow> map_option (\<lambda>(ds, env). (ds\<lparr>ds_phase := Finished\<rparr>, env)) (teardown os ds env)
      | Finished \<Rightarrow> Some (ds, env))"

section \<open>The lifecycle\<close>

text \<open>The transitions that \<^verbatim>\<open>state.go\<close> draws, and the self-loops of telemetry events.\<close>

fun legal :: "DeviceState \<Rightarrow> DeviceState \<Rightarrow> bool" where
  "legal StateIdle StateClaimed = True"
| "legal StateClaimed StateBusy = True"
| "legal StateClaimed StateIdle = True"
| "legal StateBusy StateIdle = True"
| "legal a b = (a = b)"

text \<open>
  The invariant of one supervisor against the shared part: a session id exactly while claimed or
  busy, the stream registered then, and while \<^verbatim>\<open>Run\<close> waits the port of the pool is the device's.
\<close>

definition in_session :: "DeviceSupervisor \<Rightarrow> bool" where
  "in_session ds \<longleftrightarrow> ds_state ds = StateClaimed \<or> ds_state ds = StateBusy"

definition ds_inv :: "DeviceSupervisor \<Rightarrow> Env \<Rightarrow> bool" where
  "ds_inv ds env \<longleftrightarrow>
     ds_state ds \<noteq> StateReleasing \<and>
     (ds_sessionID ds \<noteq> '''' \<longleftrightarrow> in_session ds) \<and>
     (in_session ds \<longrightarrow> is_capturing (env_streams env) (serial_of ds)) \<and>
     (ds_phase ds = Serving \<longrightarrow> pa_bySerial (env_ports env) (serial_of ds) = Some (ds_port ds))"

definition events_ok :: "Env \<Rightarrow> bool" where
  "events_ok env \<longleftrightarrow> length (env_events env) \<le> eventBufferSize \<and>
     (\<forall>e \<in> set (env_events env). legal (se_OldState e) (se_NewState e))"

lemma emit_simps [simp]:
  "env_ports (emit e env) = env_ports env" "env_streams (emit e env) = env_streams env"
  "env_deletes (emit e env) = env_deletes env"
  by (simp_all add: emit_def)

lemma bg_delete_simps [simp]:
  "env_ports (bg_delete c env) = env_ports env" "env_streams (bg_delete c env) = env_streams env"
  "env_events (bg_delete c env) = env_events env"
  by (simp_all add: bg_delete_def split: option.splits)

lemma events_ok_emit: "events_ok env \<Longrightarrow> legal (se_OldState e) (se_NewState e) \<Longrightarrow> events_ok (emit e env)"
  by (auto simp: events_ok_def emit_def)

lemma events_ok_cong: "env_events env = env_events env' \<Longrightarrow> events_ok env = events_ok env'"
  by (simp add: events_ok_def)

lemma serial_of_simps [simp]:
  "serial_of (ds\<lparr>ds_state := a\<rparr>) = serial_of ds" "serial_of (ds\<lparr>ds_sessionID := b\<rparr>) = serial_of ds"
  "serial_of (ds\<lparr>ds_port := p\<rparr>) = serial_of ds" "serial_of (ds\<lparr>ds_phase := q\<rparr>) = serial_of ds"
  "serial_of (ds\<lparr>ds_agt := c\<rparr>) = serial_of ds" "serial_of (ds\<lparr>ds_iosWorker := c\<rparr>) = serial_of ds"
  "serial_of (ds\<lparr>ds_wdaClient := c\<rparr>) = serial_of ds"
  by (simp_all add: serial_of_def)

text \<open>The guarded assignment of the empty session id is the assignment.\<close>

lemma clear_session: "(if ds_sessionID ds \<noteq> '''' then ds\<lparr>ds_sessionID := ''''\<rparr> else ds) = ds\<lparr>ds_sessionID := ''''\<rparr>"
  by simp

lemma Claim_cases:
  assumes "Claim os reg newID ds env = (res, ds', env')"
  obtains (not_idle) "ds_state ds \<noteq> StateIdle" "res = Inl (NotIdle (serial_of ds) (ds_state ds))" "ds' = ds" "env' = env"
  | (failed) e where "ds_state ds = StateIdle" "res = Inl (StartCaptureFailed e)" "ds' = ds"
      "fst (start_capture os reg (env_streams env) (serial_of ds) (ds_port ds)) = Some e"
      "env' = env\<lparr>env_streams := snd (start_capture os reg (env_streams env) (serial_of ds) (ds_port ds))\<rparr>"
  | (claimed) "ds_state ds = StateIdle" "res = Inr newID" "ds' = ds\<lparr>ds_state := StateClaimed, ds_sessionID := newID\<rparr>"
      "fst (start_capture os reg (env_streams env) (serial_of ds) (ds_port ds)) = None"
      "env' = emit \<lparr>se_Serial = serial_of ds, se_OldState = StateIdle, se_NewState = StateClaimed,
         se_SessionID = newID, se_Device = None\<rparr>
         (env\<lparr>env_streams := snd (start_capture os reg (env_streams env) (serial_of ds) (ds_port ds))\<rparr>)"
proof (cases "ds_state ds = StateIdle")
  case False
  with assms show ?thesis by (intro not_idle) (auto simp: Claim_def)
next
  case True
  obtain r st where r: "start_capture os reg (env_streams env) (serial_of ds) (ds_port ds) = (r, st)"
    by (rule prod.exhaust)
  show ?thesis
  proof (cases r)
    case None
    with assms True r show ?thesis by (intro claimed) (auto simp: Claim_def)
  next
    case (Some e)
    with assms True r show ?thesis by (intro failed [of e]) (auto simp: Claim_def)
  qed
qed

lemma Release_cases:
  assumes "Release os ds env = Some (ds', env')"
  obtains (idle) "ds_state ds = StateIdle \<or> ds_state ds = StateReleasing" "ds' = ds" "env' = env"
  | (released) streams where "ds_state ds = StateClaimed \<or> ds_state ds = StateBusy"
      "stop_capture os (env_streams env) (serial_of ds) = Some streams"
      "ds' = ds\<lparr>ds_state := StateIdle, ds_sessionID := ''''\<rparr>"
      "env' = emit \<lparr>se_Serial = serial_of ds, se_OldState = ds_state ds, se_NewState = StateIdle,
         se_SessionID = '''', se_Device = None\<rparr> (bg_delete (ds_wdaClient ds) (env\<lparr>env_streams := streams\<rparr>))"
proof (cases "ds_state ds = StateIdle \<or> ds_state ds = StateReleasing")
  case True
  with assms show ?thesis by (intro idle) (auto simp: Release_def)
next
  case False
  then have "ds_state ds = StateClaimed \<or> ds_state ds = StateBusy" by (cases "ds_state ds") auto
  moreover from False assms obtain streams where
    st: "stop_capture os (env_streams env) (serial_of ds) = Some streams"
    unfolding Release_def clear_session
    by (cases "stop_capture os (env_streams env) (serial_of ds)") (auto simp: Let_def)
  ultimately show ?thesis using assms False unfolding Release_def clear_session
    by (intro released [of streams]) (auto simp: Let_def)
qed

lemma teardown_cases:
  assumes "teardown os ds env = Some (ds', env')"
  obtains streams where "stop_capture os (env_streams env) (serial_of ds) = Some streams"
    "ds' = ds\<lparr>ds_agt := None, ds_iosWorker := None, ds_wdaClient := None, ds_sessionID := ''''\<rparr>"
    "env_streams env' = streams" "env_ports env' = Free (env_ports env) (serial_of ds)"
    "env_events env' = env_events env"
proof -
  from assms obtain streams where st: "stop_capture os (env_streams env) (serial_of ds) = Some streams"
    unfolding teardown_def clear_session
    by (cases "stop_capture os (env_streams env) (serial_of ds)") (auto simp: Let_def)
  with assms show ?thesis unfolding teardown_def clear_session
    by (intro that [of streams]) (auto simp: Let_def)
qed

section \<open>Each operation against the invariant\<close>

text \<open>An operation for one device leaves the stream and the port of every other device alone.\<close>

definition env_frame :: "string \<Rightarrow> Env \<Rightarrow> Env \<Rightarrow> bool" where
  "env_frame serial env env' \<longleftrightarrow>
     (\<forall>t. t \<noteq> serial \<longrightarrow>
        is_capturing (env_streams env') t = is_capturing (env_streams env) t \<and>
        pa_bySerial (env_ports env') t = pa_bySerial (env_ports env) t)"

definition env_ok :: "Env \<Rightarrow> bool" where
  "env_ok env \<longleftrightarrow> pa_inv (env_ports env) \<and> events_ok env"

lemma env_ok_emit:
  "env_ok env \<Longrightarrow> legal (se_OldState e) (se_NewState e) \<Longrightarrow> env_ok (emit e env)"
  by (simp add: env_ok_def events_ok_emit)

lemma env_ok_streams [simp]: "env_ok (env\<lparr>env_streams := st\<rparr>) = env_ok env"
  by (simp add: env_ok_def events_ok_def)

lemma env_ok_deletes [simp]: "env_ok (bg_delete c env) = env_ok env"
  by (simp add: env_ok_def events_ok_def)

lemma Claim_inv:
  assumes inv: "ds_inv ds env" "env_ok env" and new: "newID \<noteq> ''''"
    and c: "Claim os reg newID ds env = (res, ds', env')"
  shows "ds_inv ds' env' \<and> env_ok env' \<and> env_frame (serial_of ds) env env' \<and> serial_of ds' = serial_of ds"
  using c
proof (cases rule: Claim_cases)
  case not_idle
  with inv show ?thesis by (simp add: env_frame_def)
next
  case (failed e)
  then show ?thesis
    using inv stm.start_err [of os reg _ _ _ e] stm.start_frame [of _ "serial_of ds" os reg]
    by (simp add: ds_inv_def env_frame_def)
next
  case claimed
  then show ?thesis
    using inv new stm.start_ok [of os reg] stm.start_frame [of _ "serial_of ds" os reg]
    by (auto simp: ds_inv_def in_session_def env_frame_def intro!: env_ok_emit)
qed

lemma Activate_inv:
  assumes inv: "ds_inv ds env" "env_ok env" and a: "Activate ds env = (res, ds', env')"
  shows "ds_inv ds' env' \<and> env_ok env' \<and> env_frame (serial_of ds) env env' \<and> serial_of ds' = serial_of ds"
  using assms by (auto simp: Activate_def ds_inv_def in_session_def env_frame_def intro!: env_ok_emit split: if_splits)

lemma Release_inv:
  assumes inv: "ds_inv ds env" "env_ok env" and r: "Release os ds env = Some (ds', env')"
  shows "ds_inv ds' env' \<and> env_ok env' \<and> env_frame (serial_of ds) env env' \<and> serial_of ds' = serial_of ds"
  using r
proof (cases rule: Release_cases)
  case idle
  with inv show ?thesis by (simp add: env_frame_def)
next
  case (released st)
  then show ?thesis
    using inv stm.stop_ok [OF released(2)] stm.stop_frame [OF released(2)]
    by (auto simp: ds_inv_def in_session_def env_frame_def intro!: env_ok_emit)
qed

lemma Run_start_inv:
  assumes inv: "ds_inv ds env" "env_ok env" and ns: "ds_phase ds = NotStarted"
    and r: "Run_start ds env = (ds', env')"
  shows "ds_inv ds' env' \<and> env_ok env' \<and> env_frame (serial_of ds) env env' \<and> serial_of ds' = serial_of ds"
proof -
  let ?p = "env_ports env" and ?s = "serial_of ds"
  have pinv: "pa_inv ?p" using inv by (simp add: env_ok_def)
  have env': "env' = env\<lparr>env_ports := snd (Allocate ?p ?s)\<rparr>"
    using r by (auto simp: Run_start_def Let_def split: prod.splits sum.splits)
  then have ok: "env_ok env' \<and> env_frame ?s env env'"
    using inv pool.invar_alloc [OF pinv] pool.alloc_frame [OF pinv]
    by (auto simp: env_ok_def events_ok_def env_frame_def)
  show ?thesis
  proof (cases "fst (Allocate ?p ?s)")
    case (Inl e)
    with r have ds': "ds' = ds\<lparr>ds_phase := Finished\<rparr>"
      by (auto simp: Run_start_def split: prod.splits)
    with ok env' inv ns pool.alloc_err [OF pinv Inl] show ?thesis by (auto simp: ds_inv_def in_session_def)
  next
    case (Inr port)
    with r have ds': "ds_port ds' = port \<and> ds_phase ds' = Serving \<and> ds_state ds' = ds_state ds \<and>
        ds_sessionID ds' = ds_sessionID ds \<and> serial_of ds' = serial_of ds"
      by (auto simp: Run_start_def Let_def split: prod.splits)
    with ok env' inv pool.alloc_ok [OF pinv Inr] show ?thesis by (auto simp: ds_inv_def in_session_def)
  qed
qed

lemma Stop_inv:
  assumes inv: "ds_inv ds env" "env_ok env" and s: "Stop os ds env = Some (ds', env')"
  shows "env_ok env' \<and> env_frame (serial_of ds) env env' \<and>
    (ds_phase ds = Serving \<longrightarrow> pa_bySerial (env_ports env') (serial_of ds) = None \<and>
       \<not> is_capturing (env_streams env') (serial_of ds))"
proof (cases "ds_phase ds")
  case NotStarted
  with s show ?thesis by (simp add: Stop_def)
next
  case Finished
  with s inv show ?thesis by (auto simp: Stop_def ds_inv_def env_frame_def)
next
  case Serving
  with s obtain ds1 where t: "teardown os ds env = Some (ds1, env')" by (auto simp: Stop_def)
  have pinv: "pa_inv (env_ports env)" using inv by (simp add: env_ok_def)
  from t obtain st where st: "stop_capture os (env_streams env) (serial_of ds) = Some st"
    and env': "env_streams env' = st" "env_ports env' = Free (env_ports env) (serial_of ds)" "env_events env' = env_events env"
    by (rule teardown_cases)
  show ?thesis
    using inv env' stm.stop_ok [OF st] stm.stop_frame [OF st] pool.release_self [OF pinv] pool.release_frame [OF pinv]
      pool.invar_release [OF pinv]
    by (auto simp: env_ok_def env_frame_def events_ok_cong [of env' env])
qed

end
