(* ===== verification/Supervisor.thy ===== *)
theory Supervisor
  imports Device_Supervisor
begin

text \<open>
  \<^verbatim>\<open>src/internal/supervisor/supervisor.go\<close>: the table of device supervisors, and the step relation
  of a whole provider: calls from outside, the start of the \<^verbatim>\<open>Run\<close> goroutines, telemetry, frames
  arriving from devices and captures ending, in any interleaving.
\<close>

record Supervisor =
  sup_providerID :: string
  sup_devices :: "string \<rightharpoonup> DeviceSupervisor"
  sup_env :: Env

definition New_Supervisor :: "string \<Rightarrow> int \<Rightarrow> int \<Rightarrow> port_error + Supervisor" where
  "New_Supervisor providerID minPort maxPort =
     (case NewPortAllocator minPort maxPort of
        Inl e \<Rightarrow> Inl e
      | Inr ports \<Rightarrow> Inr \<lparr>sup_providerID = providerID, sup_devices = Map.empty,
          sup_env = \<lparr>env_ports = ports, env_events = [],
            env_streams = (NewManager, \<lparr>h_forwards = {}, h_procs = {}, h_listen = {}\<rparr>), env_deletes = []\<rparr>\<rparr>)"

definition OnDeviceConnected :: "Supervisor \<Rightarrow> Device \<Rightarrow> Supervisor" where
  "OnDeviceConnected s device =
     (case sup_devices s (dev_Serial device) of
        Some _ \<Rightarrow> s
      | None \<Rightarrow> s\<lparr>sup_devices := (sup_devices s)(dev_Serial device \<mapsto> newDeviceSupervisor device (sup_providerID s))\<rparr>)"

text \<open>The goroutine \<^verbatim>\<open>go ds.Run(ctx)\<close> gets to run.\<close>

definition run_device :: "Supervisor \<Rightarrow> string \<Rightarrow> Supervisor" where
  "run_device s serial =
     (case sup_devices s serial of
        Some ds \<Rightarrow>
          if ds_phase ds = NotStarted
          then (case Run_start ds (sup_env s) of (ds', env) \<Rightarrow>
                  s\<lparr>sup_devices := (sup_devices s)(serial \<mapsto> ds'), sup_env := env\<rparr>)
          else s
      | None \<Rightarrow> s)"

definition OnDeviceDisconnected :: "os_results \<Rightarrow> Supervisor \<Rightarrow> string \<Rightarrow> Supervisor option" where
  "OnDeviceDisconnected os s serial =
     (case sup_devices s serial of
        None \<Rightarrow> Some s
      | Some ds \<Rightarrow>
          (let s = s\<lparr>sup_devices := (sup_devices s)(serial := None)\<rparr> in
           case Stop os ds (sup_env s) of
             None \<Rightarrow> None
           | Some (_, env) \<Rightarrow> Some (s\<lparr>sup_env := env\<rparr>)))"

definition get :: "Supervisor \<Rightarrow> string \<Rightarrow> sup_error + DeviceSupervisor" where
  "get s serial = (case sup_devices s serial of None \<Rightarrow> Inl (NoSupervisor serial) | Some ds \<Rightarrow> Inr ds)"

definition put :: "Supervisor \<Rightarrow> string \<Rightarrow> DeviceSupervisor \<times> Env \<Rightarrow> Supervisor" where
  "put s serial p = s\<lparr>sup_devices := (sup_devices s)(serial \<mapsto> fst p), sup_env := snd p\<rparr>"

definition Supervisor_Claim ::
  "os_results \<Rightarrow> Registry \<Rightarrow> string \<Rightarrow> Supervisor \<Rightarrow> string \<Rightarrow> (sup_error + string) \<times> Supervisor" where
  "Supervisor_Claim os reg newID s serial =
     (case get s serial of
        Inl e \<Rightarrow> (Inl e, s)
      | Inr ds \<Rightarrow> (case Claim os reg newID ds (sup_env s) of (res, p) \<Rightarrow> (res, put s serial p)))"

definition Supervisor_Activate :: "Supervisor \<Rightarrow> string \<Rightarrow> sup_error option \<times> Supervisor" where
  "Supervisor_Activate s serial =
     (case get s serial of
        Inl e \<Rightarrow> (Some e, s)
      | Inr ds \<Rightarrow> (case Activate ds (sup_env s) of (res, p) \<Rightarrow> (res, put s serial p)))"

definition Supervisor_Release :: "os_results \<Rightarrow> Supervisor \<Rightarrow> string \<Rightarrow> (sup_error option \<times> Supervisor) option" where
  "Supervisor_Release os s serial =
     (case get s serial of
        Inl e \<Rightarrow> Some (Some e, s)
      | Inr ds \<Rightarrow> map_option (\<lambda>p. (None, put s serial p)) (Release os ds (sup_env s)))"

definition StateOf :: "Supervisor \<Rightarrow> string \<Rightarrow> sup_error + DeviceState" where
  "StateOf s serial = (case get s serial of Inl e \<Rightarrow> Inl e | Inr ds \<Rightarrow> Inr (ds_state ds))"

definition PortOf :: "Supervisor \<Rightarrow> string \<Rightarrow> sup_error + int" where
  "PortOf s serial = (case get s serial of Inl e \<Rightarrow> Inl e | Inr ds \<Rightarrow> Inr (ds_port ds))"

definition WDAClient :: "Supervisor \<Rightarrow> string \<Rightarrow> sup_error + int option" where
  "WDAClient s serial = (case get s serial of Inl e \<Rightarrow> Inl e | Inr ds \<Rightarrow> Inr (ds_wdaClient ds))"

definition Agent :: "Supervisor \<Rightarrow> string \<Rightarrow> int option" where
  "Agent s serial = (case sup_devices s serial of None \<Rightarrow> None | Some ds \<Rightarrow> ds_agt ds)"

text \<open>\<^verbatim>\<open>StopAll\<close>; the argument is the order in which Go ranged over the table.\<close>

fun StopAll :: "os_results \<Rightarrow> Supervisor \<Rightarrow> string list \<Rightarrow> Supervisor option" where
  "StopAll os s [] = Some s"
| "StopAll os s (serial # serials) =
     (case OnDeviceDisconnected os s serial of None \<Rightarrow> None | Some s' \<Rightarrow> StopAll os s' serials)"

section \<open>The step relation\<close>

text \<open>
  A disconnection whose \<^verbatim>\<open>Stop\<close> waits for ever has still taken the device out of the table
  (\<^verbatim>\<open>disconnect_stuck\<close>), and the \<^verbatim>\<open>Run\<close> it waits for may allocate a port afterwards
  (\<^verbatim>\<open>orphan_run\<close>, allowed for any serial).
\<close>

inductive sup_step :: "Supervisor \<Rightarrow> Supervisor \<Rightarrow> bool" where
  connect: "sup_step s (OnDeviceConnected s device)"
| run: "sup_step s (run_device s serial)"
| disconnect: "OnDeviceDisconnected os s serial = Some s' \<Longrightarrow> sup_step s s'"
| disconnect_stuck: "sup_devices s serial = Some ds \<Longrightarrow> Stop os ds (sup_env s) = None \<Longrightarrow>
    sup_step s (s\<lparr>sup_devices := (sup_devices s)(serial := None)\<rparr>)"
| orphan_run: "sup_step s (s\<lparr>sup_env := (sup_env s)\<lparr>env_ports := snd (Allocate (env_ports (sup_env s)) serial)\<rparr>\<rparr>)"
| claim: "newID \<noteq> '''' \<Longrightarrow> sup_step s (snd (Supervisor_Claim os reg newID s serial))"
| activate: "sup_step s (snd (Supervisor_Activate s serial))"
| release: "Supervisor_Release os s serial = Some (res, s') \<Longrightarrow> sup_step s s'"
| telemetry: "sup_devices s serial = Some ds \<Longrightarrow> sup_step s (s\<lparr>sup_env := telemetry ds dev (sup_env s)\<rparr>)"
| frames: "sup_step s (s\<lparr>sup_env := (sup_env s)\<lparr>env_streams :=
    capture_input os (fst (env_streams (sup_env s))) (snd (env_streams (sup_env s))) serial input\<rparr>\<rparr>)"
| capture_end: "sup_step s (s\<lparr>sup_env := (sup_env s)\<lparr>env_streams :=
    capture_exit os (fst (env_streams (sup_env s))) (snd (env_streams (sup_env s))) serial\<rparr>\<rparr>)"
| consume: "sup_step s (s\<lparr>sup_env := (sup_env s)\<lparr>env_events := tl (env_events (sup_env s))\<rparr>\<rparr>)"

inductive sup_reachable :: "Supervisor \<Rightarrow> bool" where
  start: "New_Supervisor providerID minPort maxPort = Inr s \<Longrightarrow> sup_reachable s"
| step: "sup_reachable s \<Longrightarrow> sup_step s s' \<Longrightarrow> sup_reachable s'"

definition sup_inv :: "Supervisor \<Rightarrow> bool" where
  "sup_inv s \<longleftrightarrow> env_ok (sup_env s) \<and>
     (\<forall>serial ds. sup_devices s serial = Some ds \<longrightarrow> serial_of ds = serial \<and> ds_inv ds (sup_env s))"

lemma sup_invD:
  "sup_inv s \<Longrightarrow> sup_devices s serial = Some ds \<Longrightarrow> serial_of ds = serial \<and> ds_inv ds (sup_env s) \<and> env_ok (sup_env s)"
  by (simp add: sup_inv_def)

lemma ds_inv_frame:
  "ds_inv ds env \<Longrightarrow> env_frame t env env' \<Longrightarrow> serial_of ds \<noteq> t \<Longrightarrow> ds_inv ds env'"
  by (simp add: ds_inv_def env_frame_def)

lemma sup_inv_put:
  assumes inv: "sup_inv s" and d: "sup_devices s serial = Some ds"
    and new: "ds_inv ds' env' \<and> env_ok env' \<and> env_frame serial (sup_env s) env' \<and> serial_of ds' = serial"
  shows "sup_inv (put s serial (ds', env'))"
proof -
  have "ds_inv e env'" if "sup_devices s t = Some e" "t \<noteq> serial" for t e
    using inv that new ds_inv_frame by (fastforce simp: sup_inv_def)
  with inv new d show ?thesis by (auto simp: sup_inv_def put_def)
qed

lemma sup_inv_remove:
  assumes inv: "sup_inv s" and env: "env_ok env'" "env_frame serial (sup_env s) env'"
  shows "sup_inv (s\<lparr>sup_devices := (sup_devices s)(serial := None), sup_env := env'\<rparr>)"
proof -
  have "ds_inv e env'" if "sup_devices s t = Some e" "t \<noteq> serial" for t e
    using inv that env ds_inv_frame by (fastforce simp: sup_inv_def)
  with inv env show ?thesis by (auto simp: sup_inv_def)
qed

text \<open>Changes of the shared part that no device can see.\<close>

lemma sup_inv_env:
  assumes inv: "sup_inv s" and ok: "env_ok env'"
    and "\<And>t. is_capturing (env_streams (sup_env s)) t \<Longrightarrow> is_capturing (env_streams env') t"
    and "\<And>t p. pa_bySerial (env_ports (sup_env s)) t = Some p \<Longrightarrow> pa_bySerial (env_ports env') t = Some p"
  shows "sup_inv (s\<lparr>sup_env := env'\<rparr>)"
proof -
  have "ds_inv ds env'" if "ds_inv ds (sup_env s)" for ds
    using that assms by (simp add: ds_inv_def)
  with inv ok show ?thesis by (simp add: sup_inv_def)
qed

lemma capture_keeps:
  "is_capturing (capture_exit os m h serial) t = is_capturing (m, h) t"
  "is_capturing (capture_input os m h serial input) t = is_capturing (m, h) t"
  by (auto simp: is_capturing_def IsCapturing_def capture_exit_def capture_input_def split: option.splits)

lemma env_frame_refl [simp]: "env_frame t env env"
  by (simp add: env_frame_def)

lemma legal_refl: "legal a a"
  by (cases a) simp_all

section \<open>Every step keeps the invariant\<close>

lemma sup_inv_New: "New_Supervisor providerID minPort maxPort = Inr s \<Longrightarrow> sup_inv s"
  by (auto simp: New_Supervisor_def sup_inv_def env_ok_def events_ok_def intro: pa_inv_New split: sum.splits)

lemma sup_inv_connect [inv_intro]: "sup_inv s \<Longrightarrow> sup_inv (OnDeviceConnected s device)"
  by (auto simp: OnDeviceConnected_def sup_inv_def newDeviceSupervisor_def serial_of_def ds_inv_def in_session_def
      split: option.splits)

lemma sup_inv_run [inv_intro]:
  assumes "sup_inv s"
  shows "sup_inv (run_device s serial)"
proof (cases "\<exists>ds. sup_devices s serial = Some ds \<and> ds_phase ds = NotStarted")
  case False
  with assms show ?thesis by (auto simp: run_device_def split: option.splits)
next
  case True
  then obtain ds where ds: "sup_devices s serial = Some ds" "ds_phase ds = NotStarted" by blast
  obtain ds' env' where r: "Run_start ds (sup_env s) = (ds', env')" by (rule prod.exhaust)
  have "sup_inv (put s serial (ds', env'))"
    using sup_inv_put [OF assms ds(1)] Run_start_inv [OF _ _ ds(2) r] sup_invD [OF assms ds(1)] by auto
  with ds r show ?thesis by (simp add: run_device_def put_def)
qed

lemma sup_inv_disconnect [inv_intro]:
  assumes "sup_inv s" "OnDeviceDisconnected os s serial = Some s'"
  shows "sup_inv s'"
proof (cases "sup_devices s serial")
  case None
  with assms show ?thesis by (simp add: OnDeviceDisconnected_def)
next
  case (Some ds)
  then obtain ds' env' where st: "Stop os ds (sup_env s) = Some (ds', env')"
    and s': "s' = s\<lparr>sup_devices := (sup_devices s)(serial := None), sup_env := env'\<rparr>"
    using assms(2) by (auto simp: OnDeviceDisconnected_def split: option.splits)
  show ?thesis
    using Stop_inv [OF _ _ st] sup_invD [OF assms(1) Some] sup_inv_remove [OF assms(1)] s' by auto
qed

lemma sup_inv_claim [inv_intro]:
  assumes "sup_inv s" "newID \<noteq> ''''"
  shows "sup_inv (snd (Supervisor_Claim os reg newID s serial))"
proof (cases "sup_devices s serial")
  case None
  with assms show ?thesis by (simp add: Supervisor_Claim_def get_def)
next
  case (Some ds)
  obtain res ds' env' where c: "Claim os reg newID ds (sup_env s) = (res, ds', env')" by (rule prod_cases3)
  have "sup_inv (put s serial (ds', env'))"
    using sup_inv_put [OF assms(1) Some] Claim_inv [OF _ _ assms(2) c] sup_invD [OF assms(1) Some] by auto
  with Some c show ?thesis by (simp add: Supervisor_Claim_def get_def)
qed

lemma sup_inv_activate [inv_intro]:
  assumes "sup_inv s"
  shows "sup_inv (snd (Supervisor_Activate s serial))"
proof (cases "sup_devices s serial")
  case None
  with assms show ?thesis by (simp add: Supervisor_Activate_def get_def)
next
  case (Some ds)
  obtain res ds' env' where a: "Activate ds (sup_env s) = (res, ds', env')" by (rule prod_cases3)
  have "sup_inv (put s serial (ds', env'))"
    using sup_inv_put [OF assms Some] Activate_inv [OF _ _ a] sup_invD [OF assms Some] by auto
  with Some a show ?thesis by (simp add: Supervisor_Activate_def get_def)
qed

lemma sup_inv_release [inv_intro]:
  assumes "sup_inv s" "Supervisor_Release os s serial = Some (res, s')"
  shows "sup_inv s'"
proof (cases "sup_devices s serial")
  case None
  with assms show ?thesis by (simp add: Supervisor_Release_def get_def)
next
  case (Some ds)
  with assms(2) obtain ds' env' where r: "Release os ds (sup_env s) = Some (ds', env')"
    and s': "s' = put s serial (ds', env')" by (auto simp: Supervisor_Release_def get_def)
  show ?thesis
    using sup_inv_put [OF assms(1) Some] Release_inv [OF _ _ r] sup_invD [OF assms(1) Some] s' by auto
qed

lemma sup_inv_allocate:
  assumes "sup_inv s"
  shows "sup_inv (s\<lparr>sup_env := (sup_env s)\<lparr>env_ports := snd (Allocate (env_ports (sup_env s)) serial)\<rparr>\<rparr>)"
proof (rule sup_inv_env [OF assms])
  have inv: "pa_inv (env_ports (sup_env s))" "events_ok (sup_env s)" using assms by (auto simp: sup_inv_def env_ok_def)
  then show "env_ok ((sup_env s)\<lparr>env_ports := snd (Allocate (env_ports (sup_env s)) serial)\<rparr>)"
    by (simp add: env_ok_def events_ok_def pa_inv_Allocate)
  show "pa_bySerial (env_ports ((sup_env s)\<lparr>env_ports := snd (Allocate (env_ports (sup_env s)) serial)\<rparr>)) t = Some p"
    if "pa_bySerial (env_ports (sup_env s)) t = Some p" for t p
    using that pool.alloc_held [OF inv(1) that] pool.alloc_frame [OF inv(1), of t serial] by (cases "t = serial") auto
qed simp

lemma sup_inv_step [inv_intro]: "sup_step s s' \<Longrightarrow> sup_inv s \<Longrightarrow> sup_inv s'"
proof (induction rule: sup_step.induct)
  case (disconnect_stuck s serial ds os)
  then show ?case by (simp add: sup_inv_def)
next
  case (telemetry s serial ds dev)
  then show ?case
    by (intro sup_inv_env) (auto simp: telemetry_def sup_inv_def intro!: env_ok_emit legal_refl)
next
  case (frames s os serial input)
  then show ?case by (intro sup_inv_env) (simp_all add: capture_keeps sup_inv_def)
next
  case (capture_end s os serial)
  then show ?case by (intro sup_inv_env) (simp_all add: capture_keeps sup_inv_def)
next
  case (consume s)
  then show ?case
    by (intro sup_inv_env) (auto simp: sup_inv_def env_ok_def events_ok_def dest: set_tlD)
qed (auto intro: inv_intro sup_inv_allocate)

lemma sup_inv_reachable: "sup_reachable s \<Longrightarrow> sup_inv s"
  by (induction rule: sup_reachable.induct) (auto intro: sup_inv_New sup_inv_step)

section \<open>What every reachable provider guarantees\<close>


text \<open>
  In every reachable state, two supervised devices that are being served have disjoint blocks of
  ten ports, inside the configured range.
\<close>

theorem reachable_ports_disjoint:
  assumes "sup_reachable s"
    and "sup_devices s serial = Some ds" "ds_phase ds = Serving"
    and "sup_devices s serial' = Some ds'" "ds_phase ds' = Serving"
    and "serial \<noteq> serial'"
  shows "{ds_port ds ..< ds_port ds + 10} \<inter> {ds_port ds' ..< ds_port ds' + 10} = {} \<and>
    slot (env_ports (sup_env s)) (ds_port ds)"
proof -
  have inv: "sup_inv s" by (rule sup_inv_reachable [OF assms(1)])
  have p: "pa_inv (env_ports (sup_env s))" using inv by (simp add: sup_inv_def env_ok_def)
  have s1: "pa_bySerial (env_ports (sup_env s)) serial = Some (ds_port ds)"
    using sup_invD [OF inv assms(2)] assms(3) by (auto simp: ds_inv_def)
  have s2: "pa_bySerial (env_ports (sup_env s)) serial' = Some (ds_port ds')"
    using sup_invD [OF inv assms(4)] assms(5) by (auto simp: ds_inv_def)
  show ?thesis
    using pool.blocks_disjoint [OF p s1 s2 assms(6)] pool.port_range [OF p s1] by simp
qed

text \<open>A small provider: one range of twenty ports, devices \<^verbatim>\<open>d1\<close> and \<^verbatim>\<open>d2\<close>.\<close>

definition ex_os :: os_results where
  "ex_os = \<lparr>os_forward = True, os_start = True, os_listen = True, os_forwardRemove = True\<rparr>"

definition ex_device :: "string \<Rightarrow> string \<Rightarrow> Device" where
  "ex_device serial platform = \<lparr>dev_Serial = serial, dev_Platform = platform, dev_ProviderIP = '''',
     dev_Info = \<lparr>info_Model = '''', info_MarketName = '''', info_Manufacturer = '''', info_AndroidVersion = '''',
       info_SDKVersion = 0, info_CPUABI = '''', info_RAMMB = 0, info_StorageMB = 0\<rparr>,
     dev_Display = \<lparr>disp_Density = 0, disp_Fps = 0, disp_Height = 0, disp_Rotation = 0, disp_Size = 0, disp_Width = 0,
       disp_XDPI = 0, disp_YDPI = 0\<rparr>,
     dev_State = \<lparr>tel_Status = StatusOnline,
       tel_Battery = \<lparr>bat_Level = 0, bat_IsCharging = False, bat_Health = ''''\<rparr>,
       tel_Network = \<lparr>net_Connected = False, net_WiFiSSID = '''', net_IP = '''', net_MobileData = False, net_Airplane = False\<rparr>,
       tel_FileSystem = \<lparr>fs_Root = '''', fs_Files = None\<rparr>, tel_InstalledBrowsers = None\<rparr>,
     dev_ConnectedAt = 0, dev_LastSeen = 0\<rparr>"

definition ex_provider :: "int \<Rightarrow> Supervisor" where
  "ex_provider maxPort = (case New_Supervisor ''p1'' 7400 maxPort of Inr s \<Rightarrow> s | Inl _ \<Rightarrow> undefined)"

text \<open>Both devices connected and started, \<^verbatim>\<open>d1\<close> claimed.\<close>

definition ex_two :: "int \<Rightarrow> Supervisor" where
  "ex_two maxPort =
     snd (Supervisor_Claim ex_os New_Registry ''sess-1''
       (run_device (run_device
          (OnDeviceConnected (OnDeviceConnected (ex_provider maxPort) (ex_device ''d1'' ''android'')) (ex_device ''d2'' ''ios''))
          ''d1'') ''d2'') ''d1'')"

lemma ex_provider_reachable: "7400 < maxPort \<Longrightarrow> sup_reachable (ex_provider maxPort)"
  unfolding ex_provider_def
  by (rule sup_reachable.start [of "''p1''" 7400 maxPort]) (simp add: New_Supervisor_def NewPortAllocator_def)

lemma ex_two_reachable: "7400 < maxPort \<Longrightarrow> sup_reachable (ex_two maxPort)"
  unfolding ex_two_def
  by (intro sup_reachable.step [OF _ sup_step.claim] sup_reachable.step [OF _ sup_step.run]
      sup_reachable.step [OF _ sup_step.connect] ex_provider_reachable) simp_all

lemmas ex_defs = ex_two_def ex_provider_def ex_device_def ex_os_def New_Supervisor_def NewPortAllocator_def
  OnDeviceConnected_def run_device_def Run_start_def newDeviceSupervisor_def serial_of_def Supervisor_Claim_def
  Allocate_def find_free.simps get_def put_def Claim_def start_capture_def StartCapture_def NewManager_def
  New_Registry_def Get_def emit_def eventBufferSize_def strings_EqualFold_def strings_ToLower_def ascii_lower_def

lemma ex_two_d1:
  "\<exists>ds. sup_devices (ex_two 7420) ''d1'' = Some ds \<and> ds_state ds = StateClaimed \<and> ds_sessionID ds = ''sess-1'' \<and>
     ds_phase ds = Serving \<and> ds_port ds = 7400"
  by (simp add: ex_defs Let_def)

lemma ex_two_d2:
  "\<exists>ds. sup_devices (ex_two 7420) ''d2'' = Some ds \<and> ds_phase ds = Serving \<and> ds_port ds = 7410"
  by (simp add: ex_defs Let_def)


theorem reachable_ports_disjoint_witness:
  "\<exists>ds ds'. sup_devices (ex_two 7420) ''d1'' = Some ds \<and> sup_devices (ex_two 7420) ''d2'' = Some ds' \<and>
     {ds_port ds ..< ds_port ds + 10} \<inter> {ds_port ds' ..< ds_port ds' + 10} = {}"
proof -
  obtain ds where d1: "sup_devices (ex_two 7420) ''d1'' = Some ds" "ds_phase ds = Serving" using ex_two_d1 by auto
  obtain ds' where d2: "sup_devices (ex_two 7420) ''d2'' = Some ds'" "ds_phase ds' = Serving" using ex_two_d2 by auto
  from reachable_ports_disjoint [OF ex_two_reachable d1 d2] d1 d2 show ?thesis by simp
qed

section \<open>Exclusive sessions\<close>

lemma Claim_in_session:
  "ds_state ds \<noteq> StateIdle \<Longrightarrow> Claim os reg newID ds env = (Inl (NotIdle (serial_of ds) (ds_state ds)), ds, env)"
  by (simp add: Claim_def)

text \<open>The session id of one device across one operation of its supervisor.\<close>

definition same_session :: "DeviceSupervisor \<Rightarrow> DeviceSupervisor option \<Rightarrow> bool" where
  "same_session ds d \<longleftrightarrow> (case d of None \<Rightarrow> True | Some ds' \<Rightarrow> ds_sessionID ds' = ds_sessionID ds \<or> ds_sessionID ds' = '''')"

lemma same_session_self [simp]: "same_session ds (Some ds)" "same_session ds None"
  by (simp_all add: same_session_def)

lemma run_device_session:
  "sup_devices s serial = Some ds \<Longrightarrow> same_session ds (sup_devices (run_device s t) serial)"
  by (auto simp: run_device_def same_session_def Run_start_def Let_def split: option.splits prod.splits sum.splits)

lemma step_same_session:
  "sup_step s s' \<Longrightarrow> sup_devices s serial = Some ds \<Longrightarrow> ds_state ds \<noteq> StateIdle \<Longrightarrow>
     same_session ds (sup_devices s' serial)"
proof (induction rule: sup_step.induct)
  case (connect s device)
  then show ?case by (auto simp: OnDeviceConnected_def split: option.splits)
next
  case (run s t)
  then show ?case by (simp add: run_device_session)
next
  case (disconnect os s t s')
  then show ?case by (auto simp: OnDeviceDisconnected_def Let_def split: option.splits)
next
  case (claim newID s os reg t)
  then show ?case
    by (cases "sup_devices s t"; cases "t = serial")
      (auto simp: Supervisor_Claim_def get_def Claim_in_session put_def split: prod.splits)
next
  case (activate s t)
  then show ?case
    by (cases "sup_devices s t"; cases "t = serial")
      (auto simp: Supervisor_Activate_def get_def Activate_def put_def same_session_def split: prod.splits)
next
  case (release os s t res s')
  then show ?case
    by (cases "sup_devices s t"; cases "t = serial")
      (auto simp: Supervisor_Release_def get_def put_def same_session_def elim!: Release_cases)
qed auto

text \<open>
  C1. Sessions are exclusive.  While a device of a reachable provider is in a session, every claim is
  refused with the device's state in the error and changes nothing, and no step of the provider replaces
  the session by another one: the id stays, or the device goes back to no session, or it is gone.
\<close>

theorem sessions_exclusive:
  assumes "sup_reachable s" and "sup_devices s serial = Some ds" and "ds_sessionID ds \<noteq> ''''"
  shows "fst (Supervisor_Claim os reg newID s serial) = Inl (NotIdle serial (ds_state ds)) \<and>
    sup_env (snd (Supervisor_Claim os reg newID s serial)) = sup_env s \<and>
    sup_devices (snd (Supervisor_Claim os reg newID s serial)) = sup_devices s \<and>
    (\<forall>s' ds'. sup_step s s' \<and> sup_devices s' serial = Some ds' \<longrightarrow>
      ds_sessionID ds' = ds_sessionID ds \<or> ds_sessionID ds' = '''')"
proof -
  have inv: "serial_of ds = serial" "ds_inv ds (sup_env s)"
    using sup_invD [OF sup_inv_reachable [OF assms(1)] assms(2)] by auto
  then have busy: "ds_state ds \<noteq> StateIdle" using assms(3) by (auto simp: ds_inv_def in_session_def)
  show ?thesis
    using assms(2) busy inv step_same_session [OF _ assms(2) busy]
    by (fastforce simp: Supervisor_Claim_def get_def Claim_in_session put_def same_session_def)
qed

theorem sessions_exclusive_witness:
  "fst (Supervisor_Claim ex_os New_Registry ''sess-2'' (ex_two 7420) ''d1'') = Inl (NotIdle ''d1'' StateClaimed)"
proof -
  obtain ds where d1: "sup_devices (ex_two 7420) ''d1'' = Some ds" "ds_sessionID ds \<noteq> ''''" "ds_state ds = StateClaimed"
    using ex_two_d1 by auto
  show ?thesis using sessions_exclusive [OF ex_two_reachable d1(1,2)] d1(3) by simp
qed


section \<open>Claim then release, connect then disconnect\<close>

lemma stop_after_start:
  assumes start: "start_capture os reg streams serial port = (None, streams')"
    and idle: "\<not> is_capturing streams serial"
    and fresh: "os_forwardRemove os" "(serial, port + 2000) \<notin> h_forwards (snd streams)" "serial \<notin> h_procs (snd streams)"
  shows "stop_capture os streams' serial = Some streams"
  using start_stop_restores [of os reg "fst streams" "snd streams" serial port "fst streams'" "snd streams'"] assms
  by (simp add: start_capture_def stop_capture_def is_capturing_def)

text \<open>
  A claim followed by a release gives back everything: the release returns, the device's record
  is what it was before the claim, the stream manager and the host (port forwards, scrcpy processes,
  listening sockets) and the port pool are as before, and the events announce idle to claimed to idle
  whenever the event channel has room for both.
\<close>

theorem claim_release_restores:
  assumes claim: "Claim os reg newID ds env = (Inr sid, ds1, env1)"
    and quiet: "ds_sessionID ds = ''''" "\<not> IsCapturing (fst (env_streams env)) (serial_of ds)"
    and fresh: "os_forwardRemove os" "(serial_of ds, ds_port ds + 2000) \<notin> h_forwards (snd (env_streams env))"
      "serial_of ds \<notin> h_procs (snd (env_streams env))"
  shows "\<exists>env2. Release os ds1 env1 = Some (ds, env2) \<and> env_streams env2 = env_streams env \<and>
    env_ports env2 = env_ports env \<and>
    (length (env_events env) + 2 \<le> eventBufferSize \<longrightarrow>
      map (\<lambda>e. (se_OldState e, se_NewState e)) (env_events env2) =
      map (\<lambda>e. (se_OldState e, se_NewState e)) (env_events env) @ [(StateIdle, StateClaimed), (StateClaimed, StateIdle)])"
  using claim
proof (cases rule: Claim_cases)
  case claimed
  obtain streams' where st: "start_capture os reg (env_streams env) (serial_of ds) (ds_port ds) = (None, streams')"
    using claimed(4) by (cases "start_capture os reg (env_streams env) (serial_of ds) (ds_port ds)") auto
  have stop: "stop_capture os streams' (serial_of ds) = Some (env_streams env)"
    using stop_after_start [OF st] quiet fresh by (simp add: is_capturing_def)
  have ds: "ds\<lparr>ds_state := StateIdle, ds_sessionID := ''''\<rparr> = ds"
    using quiet(1) claimed(1) by (cases ds) simp
  show ?thesis
    using claimed st stop ds quiet(1) unfolding Release_def clear_session
    by (auto simp: Let_def emit_def eventBufferSize_def)
qed auto

theorem claim_release_restores_witness:
  "let ds = (newDeviceSupervisor (ex_device ''d1'' ''android'') ''p1'')\<lparr>ds_port := 7400\<rparr>;
       env = sup_env (ex_provider 7420);
       c = Claim ex_os New_Registry ''sess-1'' ds env
   in fst c = Inr ''sess-1'' \<and> (\<exists>env2. Release ex_os (fst (snd c)) (snd (snd c)) = Some (ds, env2) \<and>
        env_streams env2 = env_streams env)"
proof -
  let ?ds = "(newDeviceSupervisor (ex_device ''d1'' ''android'') ''p1'')\<lparr>ds_port := 7400\<rparr>"
  let ?env = "sup_env (ex_provider 7420)"
  obtain ds1 env1 where c: "Claim ex_os New_Registry ''sess-1'' ?ds ?env = (Inr ''sess-1'', ds1, env1)"
    by (simp add: ex_defs Let_def)
  have pre: "ds_sessionID ?ds = ''''" "\<not> IsCapturing (fst (env_streams ?env)) (serial_of ?ds)" "os_forwardRemove ex_os"
    "(serial_of ?ds, ds_port ?ds + 2000) \<notin> h_forwards (snd (env_streams ?env))"
    "serial_of ?ds \<notin> h_procs (snd (env_streams ?env))"
    by (simp_all add: ex_defs IsCapturing_def)
  obtain env2 where "Release ex_os ds1 env1 = Some (?ds, env2)" "env_streams env2 = env_streams ?env"
    using claim_release_restores [OF c pre] by blast
  with c show ?thesis by (simp add: Let_def)
qed




section \<open>Devices whose Run has ended or not begun\<close>

text \<open>
  A device for which no port was left stays in the table with port 0 and can still be claimed; its
  \<^verbatim>\<open>Run\<close> has already returned, so disconnecting it runs no teardown: the device is gone and its stream
  stays registered.
\<close>

theorem no_port_device_leaks_stream:
  assumes d: "sup_devices s serial = Some ds" and idle: "ds_phase ds = NotStarted" "ds_state ds = StateIdle" "serial_of ds = serial"
    and full: "fst (Allocate (env_ports (sup_env s)) serial) = Inl e"
    and ok: "fst (Supervisor_Claim os reg newID (run_device s serial) serial) = Inr sid"
  shows "\<exists>s'. OnDeviceDisconnected os (snd (Supervisor_Claim os reg newID (run_device s serial) serial)) serial = Some s' \<and>
    sup_devices s' serial = None \<and> IsCapturing (fst (env_streams (sup_env s'))) serial"
proof -
  let ?ds = "ds\<lparr>ds_phase := Finished\<rparr>" and ?s = "run_device s serial"
  have run: "sup_devices ?s serial = Some ?ds"
    using d idle full by (auto simp: run_device_def Run_start_def split: prod.splits sum.splits)
  obtain res ds1 env1 where c: "Claim os reg newID ?ds (sup_env ?s) = (res, ds1, env1)" by (rule prod_cases3)
  with ok run have res: "res = Inr sid" by (simp add: Supervisor_Claim_def get_def)
  from c have fin: "ds_phase ds1 = Finished" and cap: "is_capturing (env_streams env1) serial"
    using res stm.start_ok [of os reg "env_streams (sup_env ?s)" serial "ds_port ds"] idle(3)
    by (auto elim!: Claim_cases)
  show ?thesis
    using c run fin cap by (simp add: Supervisor_Claim_def get_def put_def OnDeviceDisconnected_def Stop_def is_capturing_def)
qed

definition ex_full :: Supervisor where
  "ex_full = OnDeviceConnected (run_device (OnDeviceConnected (ex_provider 7409) (ex_device ''d1'' ''android'')) ''d1'')
     (ex_device ''d2'' ''android'')"

theorem no_port_device_leaks_stream_witness:
  "\<exists>s'. OnDeviceDisconnected ex_os (snd (Supervisor_Claim ex_os New_Registry ''sess'' (run_device ex_full ''d2'') ''d2'')) ''d2''
      = Some s' \<and> sup_devices s' ''d2'' = None \<and> IsCapturing (fst (env_streams (sup_env s'))) ''d2''"
proof -
  obtain ds where d: "sup_devices ex_full ''d2'' = Some ds" "ds_phase ds = NotStarted" "ds_state ds = StateIdle" "serial_of ds = ''d2''"
    by (simp add: ex_full_def ex_defs Let_def)
  have full: "fst (Allocate (env_ports (sup_env ex_full)) ''d2'') = Inl (PoolExhausted 7400 7409 1)"
    by (simp add: ex_full_def ex_defs Let_def)
  have ok: "fst (Supervisor_Claim ex_os New_Registry ''sess'' (run_device ex_full ''d2'') ''d2'') = Inr ''sess''"
    by (simp add: ex_full_def ex_defs Let_def)
  from no_port_device_leaks_stream [OF d full ok] show ?thesis .
qed

text \<open>
  A disconnection that arrives before the device's \<^verbatim>\<open>Run\<close> goroutine was scheduled never returns:
  there is no cancel function to call yet, and \<^verbatim>\<open>Run\<close> then waits on the provider's own context.
\<close>

lemma disconnect_before_run_blocks:
  assumes "sup_devices s (dev_Serial device) = None"
  shows "OnDeviceDisconnected os (OnDeviceConnected s device) (dev_Serial device) = None"
  using assms by (simp add: OnDeviceConnected_def OnDeviceDisconnected_def newDeviceSupervisor_def Stop_def)

end
