(* ===== verification/Go_Text.thy ===== *)
theory Go_Text
  imports Go_Prelude "HOL-Library.Multiset"
begin

text \<open>
  More of the Go standard library: decimal numbers (\<^verbatim>\<open>strconv\<close>, the verb \<^verbatim>\<open>%d\<close> of \<^verbatim>\<open>fmt.Sprintf\<close> and
  \<^verbatim>\<open>fmt.Sscanf\<close>), the searching and trimming functions of \<^verbatim>\<open>strings\<close>, \<^verbatim>\<open>sort.Slice\<close>, slicing with its
  run-time check, and the wrap-around of \<^verbatim>\<open>int\<close> on a 64-bit machine.
\<close>

section \<open>Numbers\<close>

definition int64 :: "int \<Rightarrow> int" where
  "int64 i = signed_take_bit 63 i"

lemma int64_id: "- (2 ^ 63) \<le> i \<Longrightarrow> i < 2 ^ 63 \<Longrightarrow> int64 i = i"
  by (simp add: int64_def signed_take_bit_int_eq_self)

definition digit_value :: "char \<Rightarrow> int option" where
  "digit_value c = (let n = of_char c :: int in if 48 \<le> n \<and> n \<le> 57 then Some (n - 48) else None)"

fun digits_value :: "int \<Rightarrow> string \<Rightarrow> int option" where
  "digits_value acc [] = Some acc"
| "digits_value acc (c # cs) = (case digit_value c of None \<Rightarrow> None | Some v \<Rightarrow> digits_value (10 * acc + v) cs)"

text \<open>\<^verbatim>\<open>strconv.Atoi\<close>, for a 64-bit \<^verbatim>\<open>int\<close>: an optional sign and decimal digits.\<close>

definition strconv_Atoi :: "string \<Rightarrow> int option" where
  "strconv_Atoi s =
     (let (neg, ds) = (case s of [] \<Rightarrow> (False, []) | c # cs \<Rightarrow>
            if c = CHR ''-'' then (True, cs) else if c = CHR ''+'' then (False, cs) else (False, s))
      in if ds = [] then None
         else (case digits_value 0 ds of
                 None \<Rightarrow> None
               | Some v \<Rightarrow>
                   let v = (if neg then - v else v)
                   in if - (2 ^ 63) \<le> v \<and> v < 2 ^ 63 then Some v else None))"

definition strconv_ParseBool :: "string \<Rightarrow> bool option" where
  "strconv_ParseBool s =
     (if s \<in> {''1'', ''t'', ''T'', ''true'', ''TRUE'', ''True''} then Some True
      else if s \<in> {''0'', ''f'', ''F'', ''false'', ''FALSE'', ''False''} then Some False
      else None)"

fun nat_string :: "nat \<Rightarrow> string" where
  "nat_string n = (if n < 10 then [char_of (48 + n)] else nat_string (n div 10) @ [char_of (48 + n mod 10)])"

declare nat_string.simps [simp del]

definition int_string :: "int \<Rightarrow> string" where
  "int_string i = (if i < 0 then CHR ''-'' # nat_string (nat (- i)) else nat_string (nat i))"

section \<open>Package strings\<close>

definition is_space :: "char \<Rightarrow> bool" where
  "is_space c = (let n = of_char c :: nat in n = 32 \<or> (9 \<le> n \<and> n \<le> 13))"

definition trim_right :: "(char \<Rightarrow> bool) \<Rightarrow> string \<Rightarrow> string" where
  "trim_right P s = rev (dropWhile P (rev s))"

text \<open>\<^verbatim>\<open>strings.TrimSpace\<close>, with the ASCII white space.\<close>

definition strings_TrimSpace :: "string \<Rightarrow> string" where
  "strings_TrimSpace s = trim_right is_space (dropWhile is_space s)"

definition strings_Trim :: "string \<Rightarrow> string \<Rightarrow> string" where
  "strings_Trim s cutset = trim_right (\<lambda>c. c \<in> set cutset) (dropWhile (\<lambda>c. c \<in> set cutset) s)"

text \<open>\<^verbatim>\<open>strings.Index\<close> and \<^verbatim>\<open>strings.LastIndex\<close> of one byte; \<^verbatim>\<open>-1\<close> is \<^term>\<open>None\<close>.\<close>

fun strings_Index :: "string \<Rightarrow> char \<Rightarrow> nat option" where
  "strings_Index [] c = None"
| "strings_Index (x # xs) c = (if x = c then Some 0 else map_option Suc (strings_Index xs c))"

definition strings_LastIndex :: "string \<Rightarrow> char \<Rightarrow> nat option" where
  "strings_LastIndex s c = map_option (\<lambda>i. length s - 1 - i) (strings_Index (rev s) c)"

text \<open>\<^verbatim>\<open>strings.SplitN(s, sep, 2)\<close> for a separator of one byte.\<close>

definition strings_SplitN2 :: "string \<Rightarrow> char \<Rightarrow> string list" where
  "strings_SplitN2 s c = (case strings_Index s c of None \<Rightarrow> [s] | Some i \<Rightarrow> [take i s, drop (Suc i) s])"

text \<open>\<^verbatim>\<open>strings.ToUpper\<close> of a single byte: a byte outside ASCII is not valid UTF-8 and becomes U+FFFD.\<close>

definition upper_byte :: "char \<Rightarrow> string" where
  "upper_byte c = (if (of_char c :: nat) < 128 then [ascii_upper c] else [CHR 0xEF, CHR 0xBF, CHR 0xBD])"

text \<open>The slice \<^verbatim>\<open>s[i:j]\<close>, for \<^verbatim>\<open>j\<close> not beyond the end: the program panics when \<^verbatim>\<open>i > j\<close>.\<close>

definition slice :: "'a list \<Rightarrow> nat \<Rightarrow> nat \<Rightarrow> 'a list option" where
  "slice s i j = (if i \<le> j \<and> j \<le> length s then Some (take (j - i) (drop i s)) else None)"

lemma strings_HasPrefix_append [simp, go_string]: "strings_HasPrefix (p @ s) p"
  by (simp add: strings_HasPrefix_def)

lemma strings_HasSuffix_append [simp, go_string]: "strings_HasSuffix (s @ p) p"
  by (simp add: strings_HasSuffix_def)

lemma strings_HasSuffix_Cons [simp, go_string]: "strings_HasSuffix s t \<Longrightarrow> strings_HasSuffix (c # s) t"
  by (auto simp: strings_HasSuffix_def Suc_diff_le)

lemma strings_HasSuffix_length: "strings_HasSuffix s t \<Longrightarrow> length t \<le> length s"
  by (simp add: strings_HasSuffix_def)

lemma strings_Join_Split [go_string]:
  "ps \<noteq> [] \<Longrightarrow> (\<And>p. p \<in> set ps \<Longrightarrow> c \<notin> set p) \<Longrightarrow> strings_Split (strings_Join ps c) c = ps"
  by (induction ps c rule: strings_Join.induct) (auto simp: go_string)

section \<open>The verb \<open>%d\<close> of fmt.Sscanf\<close>

text \<open>
  Blanks before the number are skipped, except a line break; then an optional sign and at least one digit;
  the value must be an \<^verbatim>\<open>int64\<close>.
\<close>

definition is_digit :: "char \<Rightarrow> bool" where
  "is_digit c \<longleftrightarrow> digit_value c \<noteq> None"

definition scan_blank :: "char \<Rightarrow> bool" where
  "scan_blank c \<longleftrightarrow> is_space c \<and> c \<noteq> CHR 0x0A"

definition scan_int :: "string \<Rightarrow> (int \<times> string) option" where
  "scan_int s =
     (let s = dropWhile scan_blank s;
          (neg, ds) = (case s of [] \<Rightarrow> (False, []) | c # cs \<Rightarrow>
            if c = CHR ''-'' then (True, cs) else if c = CHR ''+'' then (False, cs) else (False, s));
          num = takeWhile is_digit ds
      in if num = [] then None
         else (case digits_value 0 num of
                 None \<Rightarrow> None
               | Some v \<Rightarrow>
                   let v = (if neg then - v else v)
                   in if - (2 ^ 63) \<le> v \<and> v < 2 ^ 63 then Some (v, drop (length num) ds) else None))"

text \<open>The literal characters of the format must be the next characters of the input.\<close>

definition scan_lit :: "string \<Rightarrow> string \<Rightarrow> string option" where
  "scan_lit lit s = (if strings_HasPrefix s lit then Some (drop (length lit) s) else None)"

section \<open>sort.Slice\<close>

text \<open>
  \<^verbatim>\<open>sort.Slice(x, less)\<close> is not stable, so the model leaves open which of the sorted permutations it
  makes: the sorting function is an argument, and \<^verbatim>\<open>slice_sort\<close> is what the documentation of the package
  promises.  Insertion sort, which the implementation uses for up to twelve elements, keeps the promise.
\<close>

definition strict_weak :: "('a \<Rightarrow> 'a \<Rightarrow> bool) \<Rightarrow> bool" where
  "strict_weak lt \<longleftrightarrow>
     (\<forall>x y. lt x y \<longrightarrow> \<not> lt y x) \<and> (\<forall>x y z. \<not> lt x y \<longrightarrow> \<not> lt y z \<longrightarrow> \<not> lt x z)"

lemma strict_weak_asym: "strict_weak lt \<Longrightarrow> lt x y \<Longrightarrow> \<not> lt y x"
  unfolding strict_weak_def by blast

lemma strict_weak_trans: "strict_weak lt \<Longrightarrow> \<not> lt x y \<Longrightarrow> \<not> lt y z \<Longrightarrow> \<not> lt x z"
  unfolding strict_weak_def by blast

lemma strict_weak_key: "strict_weak (\<lambda>x y. f x < (f y :: 'b :: linorder))"
  by (auto simp: strict_weak_def)

locale slice_sort =
  fixes Slice :: "('a \<Rightarrow> 'a \<Rightarrow> bool) \<Rightarrow> 'a list \<Rightarrow> 'a list"
  assumes perm: "mset (Slice lt xs) = mset xs"
    and ordered: "strict_weak lt \<Longrightarrow> sorted_wrt (\<lambda>x y. \<not> lt y x) (Slice lt xs)"
begin

lemma set_Slice [simp]: "set (Slice lt xs) = set xs"
  using perm [of lt xs] by (metis set_mset_mset)

lemma length_Slice [simp]: "length (Slice lt xs) = length xs"
  using perm [of lt xs] by (metis size_mset)

lemma Slice_Nil [simp]: "Slice lt [] = []"
  using perm [of lt "[]"] by simp

lemma Slice_head:
  assumes "strict_weak lt" "Slice lt xs = y # ys"
  shows "y \<in> set xs" "x \<in> set xs \<Longrightarrow> \<not> lt x y"
proof -
  have set: "set xs = insert y (set ys)" using set_Slice [of lt xs] assms(2) by simp
  then show "y \<in> set xs" by simp
  have "\<not> lt y y" using strict_weak_asym [OF assms(1)] by blast
  moreover have "\<not> lt z y" if "z \<in> set ys" for z
    using ordered [OF assms(1), of xs] that unfolding assms(2) by simp
  ultimately show "x \<in> set xs \<Longrightarrow> \<not> lt x y" unfolding set by blast
qed

end

fun insert_slice :: "('a \<Rightarrow> 'a \<Rightarrow> bool) \<Rightarrow> 'a \<Rightarrow> 'a list \<Rightarrow> 'a list" where
  "insert_slice lt x [] = [x]"
| "insert_slice lt x (y # ys) = (if lt y x then y # insert_slice lt x ys else x # y # ys)"

definition insertionSort :: "('a \<Rightarrow> 'a \<Rightarrow> bool) \<Rightarrow> 'a list \<Rightarrow> 'a list" where
  "insertionSort lt xs = foldr (insert_slice lt) xs []"

lemma mset_insert_slice [simp]: "mset (insert_slice lt x ys) = add_mset x (mset ys)"
  by (induction ys) auto

lemma sorted_insert_slice:
  assumes "strict_weak lt" "sorted_wrt (\<lambda>x y. \<not> lt y x) ys"
  shows "sorted_wrt (\<lambda>x y. \<not> lt y x) (insert_slice lt x ys)"
  using assms(2)
proof (induction ys)
  case Nil
  then show ?case by simp
next
  case (Cons y ys)
  have set: "set (insert_slice lt x ys) = insert x (set ys)"
    by (induction ys) auto
  show ?case
  proof (cases "lt y x")
    case True
    then have "\<not> lt x y" by (rule strict_weak_asym [OF assms(1)])
    with True Cons set show ?thesis by simp
  next
    case False
    then have "\<not> lt z x" if "z \<in> set ys" for z
      using Cons.prems that strict_weak_trans [OF assms(1), of z y x] by simp
    with False Cons.prems show ?thesis by simp
  qed
qed

interpretation insertion: slice_sort insertionSort
proof
  fix lt :: "'a \<Rightarrow> 'a \<Rightarrow> bool" and xs :: "'a list"
  show "mset (insertionSort lt xs) = mset xs"
    unfolding insertionSort_def by (induction xs) auto
  show "sorted_wrt (\<lambda>x y. \<not> lt y x) (insertionSort lt xs)" if "strict_weak lt"
    unfolding insertionSort_def by (induction xs) (auto intro: sorted_insert_slice [OF that])
qed

text \<open>Text that neither begins nor ends with white space is its own \<^verbatim>\<open>TrimSpace\<close>.\<close>

lemma strings_TrimSpace_id [go_string]:
  "s \<noteq> [] \<Longrightarrow> \<not> is_space (hd s) \<Longrightarrow> \<not> is_space (last s) \<Longrightarrow> strings_TrimSpace s = s"
  using dropWhile_eq_self_iff [of is_space s] dropWhile_eq_self_iff [of is_space "rev s"]
  by (simp add: strings_TrimSpace_def trim_right_def hd_rev)

end
