(* ===== verification/Go_Strings.thy ===== *)
theory Go_Strings
  imports Go_Text
begin

text \<open>
  The rest of what the code uses of Go's text packages: searching for substrings, \<^verbatim>\<open>strings.ReplaceAll\<close> and
  \<^verbatim>\<open>strings.Fields\<close>; regular expressions with the leftmost-first choice of \<^verbatim>\<open>regexp\<close>; and the decoding of JSON
  values into the fields of a struct.
\<close>

section \<open>Package strings\<close>

fun strings_IndexStr :: "string \<Rightarrow> string \<Rightarrow> nat option" where
  "strings_IndexStr [] t = (if t = [] then Some 0 else None)"
| "strings_IndexStr (x # xs) t = (if strings_HasPrefix (x # xs) t then Some 0 else map_option Suc (strings_IndexStr xs t))"

fun strings_LastIndexStr :: "string \<Rightarrow> string \<Rightarrow> nat option" where
  "strings_LastIndexStr [] t = (if t = [] then Some 0 else None)"
| "strings_LastIndexStr (x # xs) t =
     (case strings_LastIndexStr xs t of
        Some i \<Rightarrow> Some (Suc i)
      | None \<Rightarrow> if strings_HasPrefix (x # xs) t then Some 0 else None)"

text \<open>\<^verbatim>\<open>strings.ReplaceAll\<close> for a text to replace that is not empty.\<close>

function strings_ReplaceAll :: "string \<Rightarrow> string \<Rightarrow> string \<Rightarrow> string" where
  "strings_ReplaceAll [] old new = []"
| "strings_ReplaceAll (x # xs) old new =
     (if old \<noteq> [] \<and> strings_HasPrefix (x # xs) old then new @ strings_ReplaceAll (drop (length old - 1) xs) old new
      else x # strings_ReplaceAll xs old new)"
  by pat_completeness auto
termination
  by (relation "measure (\<lambda>(s, old, new). length s)") auto

lemma strings_ReplaceAll_char [go_string]:
  "strings_ReplaceAll s [c] new = concat (map (\<lambda>x. if x = c then new else [x]) s)"
  by (induction s) (auto simp: strings_HasPrefix_def)

fun fields_from :: "string \<Rightarrow> string \<Rightarrow> string list" where
  "fields_from w [] = (if w = [] then [] else [w])"
| "fields_from w (c # cs) =
     (if is_space c then (if w = [] then fields_from [] cs else w # fields_from [] cs) else fields_from (w @ [c]) cs)"

definition strings_Fields :: "string \<Rightarrow> string list" where
  "strings_Fields s = fields_from [] s"

text \<open>\<^verbatim>\<open>strings.SplitN(s, sep, 2)\<close>.\<close>

definition strings_SplitN2Str :: "string \<Rightarrow> string \<Rightarrow> string list" where
  "strings_SplitN2Str s t = (case strings_IndexStr s t of None \<Rightarrow> [s] | Some i \<Rightarrow> [take i s, drop (i + length t) s])"

lemma strings_Contains_Index: "strings_Contains s t \<longleftrightarrow> strings_IndexStr s t \<noteq> None"
  by (induction s) (auto simp: strings_HasPrefix_def)

lemma fields_from_word: "\<not> (\<exists>c \<in> set v. is_space c) \<Longrightarrow> fields_from w (v @ s) = fields_from (w @ v) s"
  by (induction v arbitrary: w) auto

lemma strings_Fields_Cons [go_string]:
  "v \<noteq> [] \<Longrightarrow> \<not> (\<exists>c \<in> set v. is_space c) \<Longrightarrow> is_space c \<Longrightarrow> strings_Fields (v @ c # s) = v # strings_Fields s"
  unfolding strings_Fields_def by (simp add: fields_from_word)

lemma strings_Fields_single [go_string]:
  "v \<noteq> [] \<Longrightarrow> \<not> (\<exists>c \<in> set v. is_space c) \<Longrightarrow> strings_Fields v = [v]"
  unfolding strings_Fields_def using fields_from_word [of v "[]" "[]"] by simp

lemma dropWhile_hd: "s \<noteq> [] \<Longrightarrow> \<not> P (hd s) \<Longrightarrow> dropWhile P s = s"
  by (cases s) auto

lemma trim_right_append_drop:
  "(\<And>c. c \<in> set t \<Longrightarrow> P c) \<Longrightarrow> trim_right P (s @ t) = trim_right P s"
  unfolding trim_right_def rev_append by (subst dropWhile_append2) auto

lemma trim_right_append_keep: "t \<noteq> [] \<Longrightarrow> \<not> P (last t) \<Longrightarrow> trim_right P (s @ t) = s @ t"
  by (simp add: trim_right_def dropWhile_hd hd_rev)

lemma of_char_int: "(of_char c :: int) = int (of_char c)"
  by (cases c) simp

lemma digit_value_char: "m < 10 \<Longrightarrow> digit_value (char_of (48 + m :: nat)) = Some (int m)"
  by (simp add: digit_value_def Let_def of_char_int)

lemma int_string_digits: "c \<in> set (nat_string n) \<Longrightarrow> is_digit c"
proof (induction n arbitrary: c rule: nat_string.induct)
  case (1 n)
  have d: "is_digit (char_of (48 + m))" if "m < 10" for m :: nat
    using that by (simp add: is_digit_def digit_value_char)
  from 1 show ?case
    using d [of n] d [of "n mod 10"] by (subst (asm) (2) nat_string.simps) (auto split: if_splits)
qed

lemma nat_string_not_Nil [simp]: "nat_string n \<noteq> []"
  by (subst nat_string.simps) simp

lemma digits_value_append:
  "digits_value a (s @ t) = (case digits_value a s of None \<Rightarrow> None | Some v \<Rightarrow> digits_value v t)"
  by (induction s arbitrary: a) (auto split: option.splits)

lemma digits_value_nat_string: "digits_value 0 (nat_string n) = Some (int n)"
proof (induction n rule: nat_string.induct)
  case (1 n)
  show ?case
  proof (cases "n < 10")
    case True
    then show ?thesis by (subst nat_string.simps) (simp add: digit_value_char)
  next
    case False
    have "10 * int (n div 10) + int (n mod 10) = int n" by presburger
    with False 1 show ?thesis by (subst nat_string.simps) (simp add: digit_value_char digits_value_append)
  qed
qed

lemma digit_not_sign: "is_digit c \<Longrightarrow> c \<noteq> CHR ''-'' \<and> c \<noteq> CHR ''+'' \<and> \<not> is_space c"
  by (auto simp: is_digit_def digit_value_def is_space_def Let_def of_char_int split: if_splits)

lemma strconv_Atoi_nat_string: "int n < 2 ^ 63 \<Longrightarrow> strconv_Atoi (nat_string n) = Some (int n)"
proof -
  assume n: "int n < 2 ^ 63"
  obtain c cs where s: "nat_string n = c # cs" by (cases "nat_string n") auto
  have "c \<noteq> CHR ''-'' \<and> c \<noteq> CHR ''+''"
    using int_string_digits [of c n] s digit_not_sign by simp
  with n digits_value_nat_string [of n] show ?thesis by (simp add: strconv_Atoi_def s)
qed

lemma strconv_Atoi_int_string: "- (2 ^ 63) \<le> i \<Longrightarrow> i < 2 ^ 63 \<Longrightarrow> strconv_Atoi (int_string i) = Some i"
proof (cases "i < 0")
  case True
  assume "- (2 ^ 63) \<le> i"
  with True digits_value_nat_string [of "nat (- i)"] show ?thesis
    by (simp add: strconv_Atoi_def int_string_def)
next
  case False
  assume "i < 2 ^ 63"
  with False strconv_Atoi_nat_string [of "nat i"] show ?thesis by (simp add: int_string_def)
qed

section \<open>Package regexp\<close>

text \<open>
  The forms that occur in the source.  The matches of an expression at the beginning of a text are listed in
  the order in which \<^verbatim>\<open>regexp\<close> prefers them; each gives the matched text, the submatches of the groups, and the
  rest.  \<^verbatim>\<open>FindStringSubmatch\<close> takes the first match at the leftmost position that has one.
\<close>

datatype regex =
  REmpty
| RChar "char \<Rightarrow> bool"
| RMany bool "char \<Rightarrow> bool"
| RSeq regex regex
| ROpt regex
| RGroup regex

fun runs :: "(char \<Rightarrow> bool) \<Rightarrow> string \<Rightarrow> (string \<times> string) list" where
  "runs P [] = [([], [])]"
| "runs P (c # cs) = (if P c then map (\<lambda>(a, b). (c # a, b)) (runs P cs) else []) @ [([], c # cs)]"

primrec rmatches :: "regex \<Rightarrow> string \<Rightarrow> (string \<times> string list \<times> string) list" where
  "rmatches REmpty s = [([], [], s)]"
| "rmatches (RChar P) s = (case s of [] \<Rightarrow> [] | c # cs \<Rightarrow> if P c then [([c], [], cs)] else [])"
| "rmatches (RMany greedy P) s = map (\<lambda>(a, b). (a, [], b)) (if greedy then runs P s else rev (runs P s))"
| "rmatches (RSeq r q) s =
     concat (map (\<lambda>(a, as, t). map (\<lambda>(b, bs, u). (a @ b, as @ bs, u)) (rmatches q t)) (rmatches r s))"
| "rmatches (ROpt r) s = rmatches r s @ [([], [], s)]"
| "rmatches (RGroup r) s = map (\<lambda>(a, as, t). (a, a # as, t)) (rmatches r s)"

fun FindStringSubmatch :: "regex \<Rightarrow> string \<Rightarrow> string list option" where
  "FindStringSubmatch r [] = (case rmatches r [] of [] \<Rightarrow> None | (a, as, t) # _ \<Rightarrow> Some (a # as))"
| "FindStringSubmatch r (c # s) =
     (case rmatches r (c # s) of [] \<Rightarrow> FindStringSubmatch r s | (a, as, t) # _ \<Rightarrow> Some (a # as))"

definition rlit :: "string \<Rightarrow> regex" where
  "rlit s = foldr (\<lambda>c r. RSeq (RChar (\<lambda>x. x = c)) r) s REmpty"

text \<open>A literal under \<^verbatim>\<open>(?i)\<close>.\<close>

definition rlit_fold :: "string \<Rightarrow> regex" where
  "rlit_fold s = foldr (\<lambda>c r. RSeq (RChar (\<lambda>x. ascii_lower x = ascii_lower c)) r) s REmpty"

definition rseq :: "regex list \<Rightarrow> regex" where
  "rseq rs = foldr RSeq rs REmpty"

text \<open>\<^verbatim>\<open>\s\<close> and \<^verbatim>\<open>\d\<close>, once or more, and \<^verbatim>\<open>\s*\<close>.\<close>

definition re_space :: "char \<Rightarrow> bool" where
  "re_space c = (let n = of_char c :: nat in n = 32 \<or> n = 9 \<or> n = 10 \<or> n = 12 \<or> n = 13)"

definition rplus :: "(char \<Rightarrow> bool) \<Rightarrow> regex" where
  "rplus P = RSeq (RChar P) (RMany True P)"

definition rspaces :: regex where "rspaces = RMany True re_space"

section \<open>Package encoding/json\<close>

text \<open>
  A JSON document is the value it denotes; a number keeps its literal.  \<^verbatim>\<open>json.Unmarshal\<close> into a struct takes
  the members one after the other: a name is compared with the field's without regard to case, \<^verbatim>\<open>null\<close> leaves
  the field as it is, and a value of another type is an error.  A decoder takes the value of the field so far.
\<close>

datatype json =
  JNull
| JBool bool
| JNumber string
| JString string
| JArray "json list"
| JObject "(string \<times> json) list"

type_synonym 'a decoder = "'a \<Rightarrow> json \<Rightarrow> 'a option"

fun dec_string :: "string decoder" where
  "dec_string old (JString s) = Some s"
| "dec_string old JNull = Some old"
| "dec_string old _ = None"

fun dec_bool :: "bool decoder" where
  "dec_bool old (JBool b) = Some b"
| "dec_bool old JNull = Some old"
| "dec_bool old _ = None"

fun dec_int :: "int decoder" where
  "dec_int old (JNumber lit) = strconv_Atoi lit"
| "dec_int old JNull = Some old"
| "dec_int old _ = None"

fun dec_raw :: "json option decoder" where
  "dec_raw old v = Some (Some v)"

text \<open>A slice: \<^verbatim>\<open>null\<close> makes it \<^verbatim>\<open>nil\<close>, which is \<^term>\<open>None\<close>.\<close>

fun dec_elems :: "'a \<Rightarrow> 'a decoder \<Rightarrow> json list \<Rightarrow> 'a list option" where
  "dec_elems zero dec [] = Some []"
| "dec_elems zero dec (v # vs) =
     (case dec zero v of None \<Rightarrow> None | Some x \<Rightarrow> map_option ((#) x) (dec_elems zero dec vs))"

fun dec_slice :: "'a \<Rightarrow> 'a decoder \<Rightarrow> 'a list option decoder" where
  "dec_slice zero dec old (JArray vs) = map_option Some (dec_elems zero dec vs)"
| "dec_slice zero dec old JNull = Some None"
| "dec_slice zero dec old _ = None"

fun members :: "string \<Rightarrow> 'a decoder \<Rightarrow> 'a \<Rightarrow> (string \<times> json) list \<Rightarrow> 'a option" where
  "members name dec old [] = Some old"
| "members name dec old ((k, v) # kvs) =
     (if strings_EqualFold k name then (case dec old v of None \<Rightarrow> None | Some x \<Rightarrow> members name dec x kvs)
      else members name dec old kvs)"

text \<open>The field of a struct that was zero before.\<close>

fun field :: "string \<Rightarrow> 'a decoder \<Rightarrow> 'a \<Rightarrow> json \<Rightarrow> 'a option" where
  "field name dec zero (JObject kvs) = members name dec zero kvs"
| "field name dec zero JNull = Some zero"
| "field name dec zero _ = None"

section \<open>strconv.Quote\<close>

text \<open>The verb \<^verbatim>\<open>%q\<close>.  Bytes beyond ASCII are taken to be part of printable characters.\<close>

definition hex_digit :: "nat \<Rightarrow> char" where
  "hex_digit n = (if n < 10 then char_of (48 + n) else char_of (87 + n))"

definition quote_char :: "char \<Rightarrow> string" where
  "quote_char c =
     (let n = of_char c :: nat in
      if n = 34 \<or> n = 92 then [CHR 0x5C, c]
      else if n = 7 then [CHR 0x5C, CHR ''a'']
      else if n = 8 then [CHR 0x5C, CHR ''b'']
      else if n = 12 then [CHR 0x5C, CHR ''f'']
      else if n = 10 then [CHR 0x5C, CHR ''n'']
      else if n = 13 then [CHR 0x5C, CHR ''r'']
      else if n = 9 then [CHR 0x5C, CHR ''t'']
      else if n = 11 then [CHR 0x5C, CHR ''v'']
      else if n < 32 \<or> n = 127 then [CHR 0x5C, CHR ''x'', hex_digit (n div 16), hex_digit (n mod 16)]
      else [c])"

definition strconv_Quote :: "string \<Rightarrow> string" where
  "strconv_Quote s = CHR 0x22 # concat (map quote_char s) @ [CHR 0x22]"

end
