(* ===== verification/Device_Agent.thy ===== *)
theory Device_Agent
  imports Domain Go_Strings
begin

text \<open>
  \<^verbatim>\<open>src/internal/agent\<close>: the bridge to one device.  The application on the device connects back over a
  WebSocket; its messages update the device's record and answer commands.  A JSON message is the value it
  denotes, or \<^term>\<open>None\<close> when it is not JSON.

  \<^verbatim>\<open>SendCommand\<close> lets go of its locks while it waits, so it is split at these points, and all commands in
  flight with the messages that arrive are a step relation.  A channel is a number; those of responses hold
  one payload.
\<close>

section \<open>types.go and the state\<close>

record CommandResult =
  cr_Output :: string
  cr_ExitCode :: int

definition ErrAgentStopped :: string where
  "ErrAgentStopped = ''agent: already stopped''"

record Agent =
  ag_serial :: string
  ag_port :: int
  ag_device :: Device
  ag_stopped :: bool
  ag_wsConn :: "nat option"
  ag_StateUpdates :: "Device list"
  ag_closed :: bool
  ag_pending :: "string \<rightharpoonup> nat"
  ag_chans :: "nat \<Rightarrow> json option"
  ag_made :: nat
  ag_launches :: "string list"

definition New_Agent :: "Device \<Rightarrow> int \<Rightarrow> Agent" where
  "New_Agent device port =
     \<lparr>ag_serial = dev_Serial device, ag_port = port, ag_device = device, ag_stopped = False, ag_wsConn = None,
      ag_StateUpdates = [], ag_closed = False, ag_pending = Map.empty, ag_chans = Map.empty, ag_made = 0, ag_launches = []\<rparr>"

definition state_updates_cap :: nat where "state_updates_cap = 4"

section \<open>Messages from the device\<close>

text \<open>\<^verbatim>\<open>handleWS\<close>: the connection is stored, its messages are handled, and at its end it is taken out again.\<close>

definition handleWS_open :: "nat \<Rightarrow> Agent \<Rightarrow> Agent" where
  "handleWS_open conn a = a\<lparr>ag_wsConn := Some conn\<rparr>"

definition handleWS_close :: "nat \<Rightarrow> Agent \<Rightarrow> Agent" where
  "handleWS_close conn a = (if ag_wsConn a = Some conn then a\<lparr>ag_wsConn := None\<rparr> else a)"

text \<open>An absent payload is an empty \<^verbatim>\<open>RawMessage\<close>, which is not JSON.\<close>

definition payload_field :: "string \<Rightarrow> 'a decoder \<Rightarrow> 'a \<Rightarrow> json option \<Rightarrow> 'a option" where
  "payload_field name dec zero payload = (case payload of None \<Rightarrow> None | Some v \<Rightarrow> field name dec zero v)"

text \<open>The identifier of a response, with its payload.\<close>

definition response_of :: "string \<Rightarrow> json option \<Rightarrow> (string \<times> json) option" where
  "response_of type payload =
     (if strings_HasSuffix type ''_RESPONSE'' then
        (case (payload_field ''id'' dec_string '''' payload, payload) of
           (Some i, Some v) \<Rightarrow> if i \<noteq> '''' then Some (i, v) else None
         | _ \<Rightarrow> None)
      else None)"

definition deliver :: "string \<Rightarrow> json \<Rightarrow> Agent \<Rightarrow> Agent" where
  "deliver i v a =
     (case ag_pending a i of
        None \<Rightarrow> a
      | Some ch \<Rightarrow>
          (let a = a\<lparr>ag_pending := (ag_pending a)(i := None)\<rparr> in
           case ag_chans a ch of
             None \<Rightarrow> a\<lparr>ag_chans := (ag_chans a)(ch := Some v)\<rparr>
           | Some _ \<Rightarrow> a))"

definition update_state :: "(DeviceTelemetry \<Rightarrow> DeviceTelemetry) \<Rightarrow> Device \<Rightarrow> Device" where
  "update_state f d = d\<lparr>dev_State := f (dev_State d)\<rparr>"

definition dec_FileNode :: "FileNode decoder" where
  "dec_FileNode old v =
     (case (field ''name'' dec_string (fn_Name old) v, field ''isDirectory'' dec_bool (fn_IsDirectory old) v,
            field ''size'' dec_int (fn_Size old) v, field ''path'' dec_string (fn_Path old) v) of
        (Some n, Some d, Some sz, Some p) \<Rightarrow> Some \<lparr>fn_Name = n, fn_IsDirectory = d, fn_Size = sz, fn_Path = p\<rparr>
      | _ \<Rightarrow> None)"

text \<open>The device after a message that changes its state; \<^term>\<open>None\<close> is \<^verbatim>\<open>updated == false\<close>.\<close>

definition telemetry_update :: "string \<Rightarrow> json option \<Rightarrow> Device \<Rightarrow> Device option" where
  "telemetry_update type payload d =
     (if type = ''BATTERY_CHANGED'' then
        (case (payload_field ''level'' dec_int 0 payload, payload_field ''charging'' dec_bool False payload) of
           (Some l, Some c) \<Rightarrow>
             Some (update_state (\<lambda>s. s\<lparr>tel_Battery := (tel_Battery s)\<lparr>bat_Level := l, bat_IsCharging := c\<rparr>\<rparr>) d)
         | _ \<Rightarrow> None)
      else if type = ''NETWORK_CONNECTED'' then
        (case (payload_field ''network'' dec_string '''' payload, payload_field ''ssid'' dec_string '''' payload) of
           (Some n, Some ssid) \<Rightarrow>
             Some (update_state (\<lambda>s. s\<lparr>tel_Network := (tel_Network s)\<lparr>net_Connected := True,
               net_WiFiSSID := if n = ''wifi'' \<and> ssid \<noteq> '''' then ssid else n\<rparr>\<rparr>) d)
         | _ \<Rightarrow> None)
      else if type = ''NETWORK_DISCONNECTED'' then
        Some (update_state (\<lambda>s. s\<lparr>tel_Network := (tel_Network s)\<lparr>net_Connected := False, net_WiFiSSID := ''''\<rparr>\<rparr>) d)
      else if type = ''FILE_SYSTEM_STRUCTURE'' then
        (case (payload_field ''root'' dec_string '''' payload,
               payload_field ''files'' (dec_slice \<lparr>fn_Name = '''', fn_IsDirectory = False, fn_Size = 0, fn_Path = ''''\<rparr> dec_FileNode) None payload) of
           (Some r, Some fs) \<Rightarrow> Some (update_state (\<lambda>s. s\<lparr>tel_FileSystem := \<lparr>fs_Root = r, fs_Files = fs\<rparr>\<rparr>) d)
         | _ \<Rightarrow> None)
      else if type = ''INSTALLED_BROWSERS'' then
        (case payload_field ''browsers'' (dec_slice '''' dec_string) None payload of
           Some bs \<Rightarrow> Some (update_state (\<lambda>s. s\<lparr>tel_InstalledBrowsers := bs\<rparr>) d)
         | None \<Rightarrow> None)
      else None)"

text \<open>A package that was installed or updated is launched by a goroutine of its own.\<close>

definition launch_of :: "string \<Rightarrow> json option \<Rightarrow> string list" where
  "launch_of type payload =
     (if type = ''PACKAGE_INSTALLED'' \<or> type = ''PACKAGE_UPDATED'' then
        (case (payload_field ''packageName'' dec_string '''' payload, payload_field ''action'' dec_string '''' payload) of
           (Some p, Some _) \<Rightarrow> if p \<noteq> '''' then [p] else []
         | _ \<Rightarrow> [])
      else [])"

text \<open>Sending on \<^verbatim>\<open>StateUpdates\<close> panics once \<^verbatim>\<open>Stop\<close> has closed it, and drops the snapshot when it is full.\<close>

definition publish :: "Device \<Rightarrow> Agent \<Rightarrow> Agent option" where
  "publish d a =
     (if ag_closed a then None
      else if length (ag_StateUpdates a) < state_updates_cap then Some (a\<lparr>ag_StateUpdates := ag_StateUpdates a @ [d]\<rparr>)
      else Some a)"

definition handleIncomingEvent :: "instant \<Rightarrow> json option \<Rightarrow> Agent \<Rightarrow> Agent option" where
  "handleIncomingEvent now data a =
     (case data of
        None \<Rightarrow> Some a
      | Some msg \<Rightarrow>
          (case (field ''type'' dec_string '''' msg, field ''payload'' dec_raw None msg) of
             (Some type, Some payload) \<Rightarrow>
               (let a = (case response_of type payload of None \<Rightarrow> a | Some (i, v) \<Rightarrow> deliver i v a);
                    a = a\<lparr>ag_launches := ag_launches a @ launch_of type payload\<rparr>
                in case telemetry_update type payload (ag_device a) of
                     None \<Rightarrow> Some a
                   | Some d \<Rightarrow> (let d = d\<lparr>dev_LastSeen := now\<rparr> in publish d (a\<lparr>ag_device := d\<rparr>)))
           | _ \<Rightarrow> Some a))"

section \<open>Shell commands\<close>

text \<open>\<open>shell\<close> is the method of the interface \<^verbatim>\<open>adb.Client\<close>: the serial and the command line.\<close>

type_synonym 's adb_shell = "string \<Rightarrow> string \<Rightarrow> 's \<Rightarrow> (string + string) \<times> 's"

definition exit_marker :: string where "exit_marker = ''EXIT:''"

definition parseExitCode :: "string \<Rightarrow> string \<times> int" where
  "parseExitCode output =
     (case strings_LastIndexStr output exit_marker of
        None \<Rightarrow> (output, - 1)
      | Some i \<Rightarrow>
          (case strconv_Atoi (strings_TrimSpace (drop (i + length exit_marker) output)) of
             None \<Rightarrow> (take i output, - 1)
           | Some code \<Rightarrow> (strings_TrimSpace (take i output), code)))"

definition Shell :: "'s adb_shell \<Rightarrow> string \<Rightarrow> Agent \<Rightarrow> 's \<Rightarrow> (string + CommandResult) \<times> 's" where
  "Shell shell cmd a s =
     (if ag_stopped a then (Inl ErrAgentStopped, s)
      else (case shell (ag_serial a) cmd s of
              (Inl e, s) \<Rightarrow> (Inl (''agent: shell '' @ strconv_Quote cmd @ '': '' @ e), s)
            | (Inr out, s) \<Rightarrow> (Inr \<lparr>cr_Output = out, cr_ExitCode = 0\<rparr>, s)))"

definition ShellWithExitCode :: "'s adb_shell \<Rightarrow> string \<Rightarrow> Agent \<Rightarrow> 's \<Rightarrow> (string + CommandResult) \<times> 's" where
  "ShellWithExitCode shell cmd a s =
     (case Shell shell (cmd @ ''; echo EXIT:$?'') a s of
        (Inl e, s) \<Rightarrow> (Inl e, s)
      | (Inr r, s) \<Rightarrow> (case parseExitCode (cr_Output r) of (clean, code) \<Rightarrow> (Inr \<lparr>cr_Output = clean, cr_ExitCode = code\<rparr>, s)))"

section \<open>Commands to the application on the device\<close>

text \<open>Up to the registration of the response channel; \<open>cmdID\<close> is the new UUID.\<close>

definition SendCommand_register :: "string \<Rightarrow> Agent \<Rightarrow> (string + nat) \<times> Agent" where
  "SendCommand_register cmdID a =
     (if ag_stopped a then (Inl ''agent stopped'', a)
      else if ag_wsConn a = None then (Inl ''agent WebSocket connection not active'', a)
      else (let ch = ag_made a in
            (Inr ch, a\<lparr>ag_made := Suc ch, ag_chans := (ag_chans a)(ch := None), ag_pending := (ag_pending a)(cmdID \<mapsto> ch)\<rparr>)))"

text \<open>The write, with its outcome; the result is the error with which the call returns.\<close>

definition SendCommand_write :: "string option \<Rightarrow> Agent \<Rightarrow> string option" where
  "SendCommand_write written a =
     (if ag_wsConn a = None then Some ''agent WebSocket disconnected''
      else (case written of None \<Rightarrow> None | Some e \<Rightarrow> Some (''websocket write: '' @ e)))"

text \<open>The \<^verbatim>\<open>select\<close>: a payload can be taken when there is one, the other cases are ready at any time.\<close>

datatype wake = Response | CtxDone string | After string

definition SendCommand_select :: "wake \<Rightarrow> nat \<Rightarrow> Agent \<Rightarrow> (string + json) option" where
  "SendCommand_select w ch a =
     (case w of
        Response \<Rightarrow> map_option Inr (ag_chans a ch)
      | CtxDone e \<Rightarrow> Some (Inl e)
      | After msg \<Rightarrow> Some (Inl msg))"

text \<open>The deferred function.\<close>

definition SendCommand_return :: "string \<Rightarrow> Agent \<Rightarrow> Agent" where
  "SendCommand_return cmdID a = a\<lparr>ag_pending := (ag_pending a)(cmdID := None)\<rparr>"

section \<open>The end\<close>

definition Stop_agent :: "Agent \<Rightarrow> Agent" where
  "Stop_agent a = a\<lparr>ag_stopped := True, ag_closed := True\<rparr>"

type_synonym 's exec = "string list \<Rightarrow> 's \<Rightarrow> (string option \<times> string) \<times> 's"

definition sp :: "string list \<Rightarrow> string" where
  "sp ws = strings_Join ws (CHR '' '')"

definition runADB :: "'s exec \<Rightarrow> string list \<Rightarrow> 's \<Rightarrow> string option \<times> 's" where
  "runADB exec args s =
     (case exec args s of
        ((None, out), s) \<Rightarrow> (None, s)
      | ((Some e, out), s) \<Rightarrow> (Some (''adb '' @ sp args @ '': '' @ e @ '' (output: '' @ strings_TrimSpace out @ '')''), s))"

definition agent_teardown :: "'s exec \<Rightarrow> Agent \<Rightarrow> 's \<Rightarrow> 's" where
  "agent_teardown exec a s =
     snd (runADB exec [''-s'', ag_serial a, ''reverse'', ''--remove'', ''tcp:'' @ int_string (ag_port a)] s)"

text \<open>
  The end of \<^verbatim>\<open>Run\<close>: after a cancellation the tunnel is removed and the connection that is open is closed, which ends
  its \<^verbatim>\<open>handleWS\<close>; the server ends on its own with an error.  The result has the error, the connection that was closed and
  the host.
\<close>

datatype run_end = Cancelled | ServerEnds string

definition Agent_Run_end :: "'s exec \<Rightarrow> run_end \<Rightarrow> Agent \<Rightarrow> 's \<Rightarrow> string option \<times> nat option \<times> 's" where
  "Agent_Run_end exec e a s =
     (case e of
        Cancelled \<Rightarrow> (None, ag_wsConn a, agent_teardown exec a s)
      | ServerEnds err \<Rightarrow> (if err = ''http: Server closed'' then None else Some err, None, s))"

section \<open>agent\_deploy.go\<close>

definition packageName :: string where "packageName = ''com.protean.agent''"

definition serviceID :: string where
  "serviceID = ''com.protean.agent/com.protean.agent.services.ProteanAccessibilityService''"

definition services_value :: "string \<Rightarrow> string" where
  "services_value existing =
     (if existing = ''null'' \<or> existing = '''' then serviceID
      else if \<not> strings_Contains existing ''com.protean.agent'' then existing @ '':'' @ serviceID
      else existing)"

definition enable_accessibility :: "'s exec \<Rightarrow> string \<Rightarrow> 's \<Rightarrow> 's" where
  "enable_accessibility exec serial s =
     (case exec [''-s'', serial, ''shell'', ''settings'', ''get'', ''secure'', ''enabled_accessibility_services''] s of
        ((e, out), s) \<Rightarrow>
          (let val = (case e of None \<Rightarrow> services_value (strings_TrimSpace out) | Some _ \<Rightarrow> serviceID);
               s = snd (exec [''-s'', serial, ''shell'', ''settings'', ''put'', ''secure'', ''enabled_accessibility_services'', val] s)
           in snd (exec [''-s'', serial, ''shell'', ''settings'', ''put'', ''secure'', ''accessibility_enabled'', ''1''] s)))"

definition DeployAgent :: "'s exec \<Rightarrow> string \<Rightarrow> int \<Rightarrow> 's \<Rightarrow> string option \<times> 's" where
  "DeployAgent exec serial port s =
     (case exec [''-s'', serial, ''shell'', ''pm'', ''path'', packageName] s of
        ((_, out), s) \<Rightarrow>
          (case (if out = '''' then exec [''-s'', serial, ''install'', ''-r'', ''-g'', ''assets/protean-agent.apk''] s
                 else ((None, ''''), s)) of
             ((Some e, _), s) \<Rightarrow> (Some (''failed to install agent: '' @ e), s)
           | ((None, _), s) \<Rightarrow>
               (case exec [''-s'', serial, ''reverse'', ''tcp:'' @ int_string port, ''tcp:'' @ int_string port] s of
                  ((Some e, _), s) \<Rightarrow> (Some (''failed to setup adb reverse: '' @ e), s)
                | ((None, _), s) \<Rightarrow>
                    (case exec [''-s'', serial, ''shell'', ''am'', ''start-foreground-service'', ''-a'', ''com.protean.agent.START'',
                        ''-e'', ''serial'', serial, ''-e'', ''port'', int_string port] s of
                       ((Some e, _), s) \<Rightarrow> (Some (''failed to start agent service: '' @ e), s)
                     | ((None, _), s) \<Rightarrow> (None, enable_accessibility exec serial s)))))"

section \<open>Exit codes\<close>

lemma LastIndexStr_none: "m \<noteq> [] \<Longrightarrow> hd m \<notin> set s \<Longrightarrow> strings_LastIndexStr s m = None"
  by (induction s) (auto simp: strings_HasPrefix_def neq_Nil_conv)

lemma LastIndexStr_append: "strings_LastIndexStr t m = Some 0 \<Longrightarrow> strings_LastIndexStr (p @ t) m = Some (length p)"
  by (induction p) auto

lemma int_string_chars: "c \<in> set (int_string i) \<Longrightarrow> c = CHR ''-'' \<or> is_digit c"
  by (auto simp: int_string_def dest: int_string_digits split: if_splits)

lemma int_string_not_Nil [simp]: "int_string i \<noteq> []"
  by (simp add: int_string_def)

lemma int_string_no_space: "c \<in> set (int_string i) \<Longrightarrow> \<not> is_space c"
  using int_string_chars [of c i] digit_not_sign by (auto simp: is_space_def)

lemma TrimSpace_int_string [simp]: "strings_TrimSpace (int_string i) = int_string i"
  using int_string_no_space [of "hd (int_string i)" i] int_string_no_space [of "last (int_string i)" i]
  by (intro strings_TrimSpace_id) simp_all

lemma LastIndex_marker: "strings_LastIndexStr (exit_marker @ int_string i) exit_marker = Some 0"
proof -
  have "strings_LastIndexStr (int_string i) exit_marker = None"
    by (intro LastIndexStr_none) (auto simp: exit_marker_def is_digit_def digit_value_def dest: int_string_chars)
  then show ?thesis by (simp add: exit_marker_def strings_HasPrefix_def)
qed

lemma TrimSpace_exit:
  "strings_TrimSpace (out @ exit_marker @ int_string i @ [CHR 0x0A]) = dropWhile is_space out @ exit_marker @ int_string i"
proof -
  have keep: "dropWhile is_space (out @ exit_marker @ int_string i) = dropWhile is_space out @ exit_marker @ int_string i"
    by (cases "\<forall>c \<in> set out. is_space c") (auto simp: exit_marker_def is_space_def dropWhile_append1 dropWhile_append2)
  have last: "\<not> is_space (last (int_string i))" using int_string_no_space [of "last (int_string i)" i] by simp
  have "dropWhile is_space (out @ exit_marker @ int_string i @ [CHR 0x0A]) =
      dropWhile is_space (out @ exit_marker @ int_string i) @ [CHR 0x0A]"
    by (cases "\<forall>c \<in> set out. is_space c") (auto simp: exit_marker_def is_space_def dropWhile_append1 dropWhile_append2)
  then show ?thesis unfolding strings_TrimSpace_def keep
    using trim_right_append_drop [of "[CHR 0x0A]" is_space "dropWhile is_space out @ exit_marker @ int_string i"]
      trim_right_append_keep [of "int_string i" is_space "dropWhile is_space out @ exit_marker"] last
    by (simp add: is_space_def)
qed

text \<open>
  Whatever a command prints, its exit code is the one the shell reported: when the device's answer is the
  trimmed output of the command followed by the line of the \<^verbatim>\<open>echo\<close> that was appended, the result is the
  trimmed output of the command alone, with that code, even if the command itself prints the marker.
\<close>

theorem exit_code_roundtrip:
  assumes "\<not> ag_stopped a" "- (2 ^ 63) \<le> code" "code < 2 ^ 63"
    and "shell (ag_serial a) (cmd @ ''; echo EXIT:$?'') s =
      (Inr (strings_TrimSpace (out @ ''EXIT:'' @ int_string code @ [CHR 0x0A])), s')"
  shows "ShellWithExitCode shell cmd a s = (Inr \<lparr>cr_Output = strings_TrimSpace out, cr_ExitCode = code\<rparr>, s')"
proof -
  let ?o = "dropWhile is_space out @ exit_marker @ int_string code"
  have "strings_LastIndexStr ?o exit_marker = Some (length (dropWhile is_space out))"
    by (intro LastIndexStr_append LastIndex_marker)
  then have "parseExitCode ?o = (strings_TrimSpace (dropWhile is_space out), code)"
    using assms(2,3) by (simp add: parseExitCode_def strconv_Atoi_int_string)
  moreover have "strings_TrimSpace (dropWhile is_space out) = strings_TrimSpace out"
    by (simp add: strings_TrimSpace_def)
  ultimately show ?thesis
    using assms(1,4) TrimSpace_exit [of out code] by (simp add: ShellWithExitCode_def Shell_def exit_marker_def)
qed

section \<open>Commands in flight\<close>

text \<open>
  All calls of \<^verbatim>\<open>SendCommand\<close> on one agent.  A running call is known by its identifier, with its channel and
  whether it has written its message.  Identifiers are UUIDs: none is used twice.  What was received and what
  was returned is kept for the statement.
\<close>

record AgentSys =
  sys_agent :: Agent
  sys_running :: "string \<rightharpoonup> nat \<times> bool"
  sys_used :: "string set"
  sys_received :: "(string \<times> json) set"
  sys_returned :: "(string \<times> (string + json)) set"

definition returns :: "string \<Rightarrow> string + json \<Rightarrow> AgentSys \<Rightarrow> AgentSys" where
  "returns i r s = s\<lparr>sys_agent := SendCommand_return i (sys_agent s), sys_running := (sys_running s)(i := None),
     sys_returned := insert (i, r) (sys_returned s)\<rparr>"

definition received_by :: "json option \<Rightarrow> (string \<times> json) set" where
  "received_by data =
     (case data of
        None \<Rightarrow> {}
      | Some msg \<Rightarrow>
          (case (field ''type'' dec_string '''' msg, field ''payload'' dec_raw None msg) of
             (Some type, Some payload) \<Rightarrow> set_option (response_of type payload)
           | _ \<Rightarrow> {}))"

inductive agent_step :: "AgentSys \<Rightarrow> AgentSys \<Rightarrow> bool" where
  send: "i \<notin> sys_used s \<Longrightarrow> SendCommand_register i (sys_agent s) = (Inr ch, a) \<Longrightarrow>
    agent_step s (s\<lparr>sys_agent := a, sys_running := (sys_running s)(i \<mapsto> (ch, False)), sys_used := insert i (sys_used s)\<rparr>)"
| refused: "i \<notin> sys_used s \<Longrightarrow> SendCommand_register i (sys_agent s) = (Inl e, a) \<Longrightarrow>
    agent_step s (s\<lparr>sys_agent := a, sys_used := insert i (sys_used s), sys_returned := insert (i, Inl e) (sys_returned s)\<rparr>)"
| writes: "sys_running s i = Some (ch, False) \<Longrightarrow> SendCommand_write w (sys_agent s) = None \<Longrightarrow>
    agent_step s (s\<lparr>sys_running := (sys_running s)(i \<mapsto> (ch, True))\<rparr>)"
| write_fails: "sys_running s i = Some (ch, False) \<Longrightarrow> SendCommand_write w (sys_agent s) = Some e \<Longrightarrow>
    agent_step s (returns i (Inl e) s)"
| wakes: "sys_running s i = Some (ch, True) \<Longrightarrow> SendCommand_select w ch (sys_agent s) = Some r \<Longrightarrow>
    agent_step s (returns i r s)"
| message: "handleIncomingEvent now data (sys_agent s) = Some a \<Longrightarrow>
    agent_step s (s\<lparr>sys_agent := a, sys_received := sys_received s \<union> received_by data\<rparr>)"
| connect: "agent_step s (s\<lparr>sys_agent := handleWS_open conn (sys_agent s)\<rparr>)"
| disconnect: "agent_step s (s\<lparr>sys_agent := handleWS_close conn (sys_agent s)\<rparr>)"
| stop: "agent_step s (s\<lparr>sys_agent := Stop_agent (sys_agent s)\<rparr>)"
| consume: "agent_step s (s\<lparr>sys_agent := (sys_agent s)\<lparr>ag_StateUpdates := tl (ag_StateUpdates (sys_agent s))\<rparr>\<rparr>)"

inductive agent_reachable :: "AgentSys \<Rightarrow> bool" where
  start: "agent_reachable \<lparr>sys_agent = New_Agent d port, sys_running = Map.empty, sys_used = {}, sys_received = {}, sys_returned = {}\<rparr>"
| step: "agent_reachable s \<Longrightarrow> agent_step s s' \<Longrightarrow> agent_reachable s'"

text \<open>
  A pending identifier is that of a running call and leads to its channel, which is still empty; channels of
  different calls differ; what lies in a channel was received for the call that waits on it.
\<close>

definition chan_inv :: "AgentSys \<Rightarrow> bool" where
  "chan_inv s \<longleftrightarrow>
     (\<forall>i ch. ag_pending (sys_agent s) i = Some ch \<longrightarrow> ag_chans (sys_agent s) ch = None \<and> (\<exists>w. sys_running s i = Some (ch, w))) \<and>
     (\<forall>i j ch w v. sys_running s i = Some (ch, w) \<longrightarrow> sys_running s j = Some (ch, v) \<longrightarrow> i = j) \<and>
     (\<forall>i ch w. sys_running s i = Some (ch, w) \<longrightarrow> ch < ag_made (sys_agent s) \<and> i \<in> sys_used s \<and>
        (ag_pending (sys_agent s) i = Some ch \<or> (\<exists>v. ag_chans (sys_agent s) ch = Some v))) \<and>
     (\<forall>i ch w v. sys_running s i = Some (ch, w) \<longrightarrow> ag_chans (sys_agent s) ch = Some v \<longrightarrow> (i, v) \<in> sys_received s) \<and>
     (\<forall>i v. (i, Inr v) \<in> sys_returned s \<longrightarrow> (i, v) \<in> sys_received s) \<and>
     length (ag_StateUpdates (sys_agent s)) \<le> state_updates_cap"

lemma chan_invD:
  assumes "chan_inv s"
  shows "ag_pending (sys_agent s) i = Some ch \<Longrightarrow> ag_chans (sys_agent s) ch = None \<and> (\<exists>w. sys_running s i = Some (ch, w))"
    and "sys_running s i = Some (ch, w) \<Longrightarrow> sys_running s j = Some (ch, v) \<Longrightarrow> i = j"
    and "sys_running s i = Some (ch, w) \<Longrightarrow> ch < ag_made (sys_agent s) \<and> i \<in> sys_used s"
    and "sys_running s i = Some (ch, w) \<Longrightarrow> ag_pending (sys_agent s) i = Some ch \<or> (\<exists>v. ag_chans (sys_agent s) ch = Some v)"
    and "sys_running s i = Some (ch, w) \<Longrightarrow> ag_chans (sys_agent s) ch = Some u \<Longrightarrow> (i, u) \<in> sys_received s"
    and "(i, Inr u) \<in> sys_returned s \<Longrightarrow> (i, u) \<in> sys_received s"
    and "length (ag_StateUpdates (sys_agent s)) \<le> state_updates_cap"
  using assms unfolding chan_inv_def by blast+

lemma chan_invI:
  assumes "\<And>i ch. ag_pending (sys_agent s) i = Some ch \<Longrightarrow> ag_chans (sys_agent s) ch = None \<and> (\<exists>w. sys_running s i = Some (ch, w))"
    and "\<And>i j ch w v. sys_running s i = Some (ch, w) \<Longrightarrow> sys_running s j = Some (ch, v) \<Longrightarrow> i = j"
    and "\<And>i ch w. sys_running s i = Some (ch, w) \<Longrightarrow> ch < ag_made (sys_agent s) \<and> i \<in> sys_used s"
    and "\<And>i ch w. sys_running s i = Some (ch, w) \<Longrightarrow> ag_pending (sys_agent s) i = Some ch \<or> (\<exists>v. ag_chans (sys_agent s) ch = Some v)"
    and "\<And>i ch w v. sys_running s i = Some (ch, w) \<Longrightarrow> ag_chans (sys_agent s) ch = Some v \<Longrightarrow> (i, v) \<in> sys_received s"
    and "\<And>i v. (i, Inr v) \<in> sys_returned s \<Longrightarrow> (i, v) \<in> sys_received s"
    and "length (ag_StateUpdates (sys_agent s)) \<le> state_updates_cap"
  shows "chan_inv s"
  unfolding chan_inv_def using assms by (intro conjI allI impI) auto

text \<open>The fields of the agent that the invariant reads.\<close>

definition same_chans :: "Agent \<Rightarrow> Agent \<Rightarrow> bool" where
  "same_chans a b \<longleftrightarrow> ag_pending a = ag_pending b \<and> ag_chans a = ag_chans b \<and> ag_made a = ag_made b \<and>
     length (ag_StateUpdates b) \<le> max (length (ag_StateUpdates a)) state_updates_cap"

lemma chan_inv_same:
  "chan_inv s \<Longrightarrow> same_chans (sys_agent s) a \<Longrightarrow> R \<supseteq> sys_received s \<Longrightarrow> chan_inv (s\<lparr>sys_agent := a, sys_received := R\<rparr>)"
  unfolding chan_inv_def same_chans_def by (simp; blast?)

lemma chan_inv_returns:
  assumes inv: "chan_inv s" and r: "\<And>v. r = Inr v \<Longrightarrow> (i, v) \<in> sys_received s"
  shows "chan_inv (returns i r s)"
  unfolding chan_inv_def
proof (intro conjI allI impI)
  fix j ch
  assume "ag_pending (sys_agent (returns i r s)) j = Some ch"
  then have "j \<noteq> i" "ag_pending (sys_agent s) j = Some ch"
    by (auto simp: returns_def SendCommand_return_def split: if_splits)
  with chan_invD(1) [OF inv] show "ag_chans (sys_agent (returns i r s)) ch = None"
    and "\<exists>w. sys_running (returns i r s) j = Some (ch, w)" by (fastforce simp: returns_def SendCommand_return_def)+
qed (use chan_invD [OF inv] r in \<open>auto simp: returns_def SendCommand_return_def split: if_splits\<close>)

lemma chan_inv_send:
  assumes inv: "chan_inv s" and new: "i \<notin> sys_used s" and reg: "SendCommand_register i (sys_agent s) = (Inr ch, a)"
  shows "chan_inv (s\<lparr>sys_agent := a, sys_running := (sys_running s)(i \<mapsto> (ch, False)), sys_used := insert i (sys_used s)\<rparr>)"
proof -
  have a: "ch = ag_made (sys_agent s)" "a = (sys_agent s)\<lparr>ag_made := Suc ch, ag_chans := (ag_chans (sys_agent s))(ch := None),
      ag_pending := (ag_pending (sys_agent s))(i \<mapsto> ch)\<rparr>"
    using reg by (auto simp: SendCommand_register_def Let_def split: if_splits)
  have old: "k < ch \<and> j \<noteq> i" if "sys_running s j = Some (k, w)" for j k w
    using chan_invD(3) [OF inv that] new a(1) by auto
  have pend: "k < ch" if "ag_pending (sys_agent s) j = Some k" for j k
    using chan_invD(1) [OF inv that] old by blast
  have "ag_chans a k = None \<and> (\<exists>w. ((sys_running s)(i \<mapsto> (ch, False))) j = Some (k, w))" if "ag_pending a j = Some k" for j k
  proof (cases "j = i")
    case True
    with that show ?thesis by (auto simp: a(2))
  next
    case False
    with that have "ag_pending (sys_agent s) j = Some k" by (simp add: a(2))
    with False chan_invD(1) [OF inv this] pend [OF this] show ?thesis by (simp add: a(2))
  qed
  with chan_invD [OF inv] old show ?thesis
    unfolding chan_inv_def by (intro conjI allI impI) (fastforce simp: a(2) less_Suc_eq split: if_splits)+
qed

lemma chan_inv_deliver:
  assumes inv: "chan_inv s" and R: "sys_received s \<subseteq> R" "(i, v) \<in> R"
  shows "chan_inv (s\<lparr>sys_agent := deliver i v (sys_agent s), sys_received := R\<rparr>)"
proof (cases "ag_pending (sys_agent s) i")
  case None
  then show ?thesis using chan_inv_same [OF inv _ R(1), of "sys_agent s"] by (simp add: deliver_def same_chans_def)
next
  case (Some ch)
  from chan_invD(1) [OF inv Some] obtain w where ch: "ag_chans (sys_agent s) ch = None" "sys_running s i = Some (ch, w)" by blast
  have only: "j = i" if "sys_running s j = Some (ch, u)" for j u using chan_invD(2) [OF inv that ch(2)] .
  have pend: "k \<noteq> ch" if "ag_pending (sys_agent s) j = Some k" "j \<noteq> i" for j k
    using chan_invD(1) [OF inv that(1)] only that(2) by blast
  have d: "deliver i v (sys_agent s) = (sys_agent s)\<lparr>ag_pending := (ag_pending (sys_agent s))(i := None),
      ag_chans := (ag_chans (sys_agent s))(ch := Some v)\<rparr>"
    using Some ch by (simp add: deliver_def)
  show ?thesis
  proof (rule chan_invI, goal_cases)
    case (1 j k)
    then show ?case using chan_invD(1) [OF inv, of j k] pend [of j k] by (auto simp: d split: if_splits)
  next
    case (2 j k l w v)
    then show ?case using chan_invD(2) [OF inv] by simp
  next
    case (3 j k w)
    then show ?case using chan_invD(3) [OF inv] by (simp add: d)
  next
    case (4 j k w)
    then show ?case using chan_invD(4) [OF inv, of j k w] ch(2) by (auto simp: d)
  next
    case (5 j k w u)
    then show ?case using only [of j w] R chan_invD(5) [OF inv, of j k w u] by (auto simp: d split: if_splits)
  next
    case (6 j u)
    then show ?case using chan_invD(6) [OF inv] R by auto
  next
    case 7
    then show ?case using chan_invD(7) [OF inv] by (simp add: d)
  qed
qed

lemma publish_same: "publish d a = Some b \<Longrightarrow> same_chans a b"
  by (auto simp: publish_def same_chans_def split: if_splits)

lemma same_chans_update: "same_chans (a\<lparr>ag_launches := l, ag_device := d\<rparr>) b \<Longrightarrow> same_chans a b"
  by (simp add: same_chans_def)

lemma same_chans_simps [simp]:
  "same_chans a (a\<lparr>ag_launches := l\<rparr>)" "same_chans a (handleWS_open conn a)" "same_chans a (handleWS_close conn a)"
  "same_chans a (Stop_agent a)" "same_chans a (a\<lparr>ag_StateUpdates := tl (ag_StateUpdates a)\<rparr>)" "same_chans a a"
  by (auto simp: same_chans_def handleWS_open_def handleWS_close_def Stop_agent_def)

lemma handleIncomingEvent_chans:
  assumes "handleIncomingEvent now data a = Some b"
  shows "received_by data = {} \<and> same_chans a b \<or> (\<exists>i v. received_by data = {(i, v)} \<and> same_chans (deliver i v a) b)"
proof (cases data)
  case None
  with assms show ?thesis by (simp add: handleIncomingEvent_def received_by_def)
next
  case (Some msg)
  show ?thesis
  proof (cases "field ''type'' dec_string '''' msg = None \<or> field ''payload'' dec_raw None msg = None")
    case True
    with assms Some show ?thesis by (auto simp: handleIncomingEvent_def received_by_def split: option.splits)
  next
    case False
    then obtain ty p where f: "field ''type'' dec_string '''' msg = Some ty" "field ''payload'' dec_raw None msg = Some p" by auto
    let ?c = "case response_of ty p of None \<Rightarrow> a | Some (i, v) \<Rightarrow> deliver i v a"
    have "same_chans ?c b"
      using assms Some f by (auto simp: handleIncomingEvent_def Let_def split: option.splits dest!: publish_same intro: same_chans_update)
    with Some f show ?thesis by (cases "response_of ty p") (auto simp: received_by_def)
  qed
qed

lemma agent_step_inv: "agent_step s s' \<Longrightarrow> chan_inv s \<Longrightarrow> chan_inv s'"
proof (induction rule: agent_step.induct)
  case (send i s ch a)
  then show ?case by (intro chan_inv_send)
next
  case (refused i s e a)
  then have "a = sys_agent s" by (auto simp: SendCommand_register_def Let_def split: if_splits)
  with refused show ?case unfolding chan_inv_def by auto
next
  case (writes s i ch w)
  then show ?case by (intro chan_invI) (auto dest: chan_invD split: if_splits)
next
  case (write_fails s i ch w e)
  then show ?case by (intro chan_inv_returns) auto
next
  case (wakes s i ch w r)
  then show ?case
    by (intro chan_inv_returns) (auto simp: SendCommand_select_def split: wake.splits intro: chan_invD(5))
next
  case (message now data s a)
  from handleIncomingEvent_chans [OF message(1)] show ?case
  proof (elim disjE exE conjE)
    fix i v
    assume r: "received_by data = {(i, v)}" and same: "same_chans (deliver i v (sys_agent s)) a"
    have "chan_inv (s\<lparr>sys_agent := deliver i v (sys_agent s), sys_received := sys_received s \<union> received_by data\<rparr>)"
      using r by (intro chan_inv_deliver [OF message(2)]) auto
    from chan_inv_same [OF this, of a] same show ?thesis by simp
  qed (use chan_inv_same [OF message(2), of a "sys_received s"] in simp)
next
  case (connect s conn)
  then show ?case using chan_inv_same [OF connect, of "handleWS_open conn (sys_agent s)" "sys_received s"] by simp
next
  case (disconnect s conn)
  then show ?case using chan_inv_same [OF disconnect, of "handleWS_close conn (sys_agent s)" "sys_received s"] by simp
next
  case (stop s)
  then show ?case using chan_inv_same [OF stop, of "Stop_agent (sys_agent s)" "sys_received s"] by simp
next
  case (consume s)
  then show ?case
    using chan_inv_same [OF consume, of "(sys_agent s)\<lparr>ag_StateUpdates := tl (ag_StateUpdates (sys_agent s))\<rparr>" "sys_received s"]
    by simp
qed

lemma agent_reachable_inv: "agent_reachable s \<Longrightarrow> chan_inv s"
proof (induction rule: agent_reachable.induct)
  case (start d port)
  then show ?case by (simp add: chan_inv_def New_Agent_def)
next
  case (step s s')
  then show ?case by (blast intro: agent_step_inv)
qed

text \<open>
  C7. Over every interleaving of commands, messages, reconnections and the end of the agent: a command returns a
  payload only if a response with its own identifier carried it; nothing stays registered for a command that
  has returned; and the first response for a waiting command is the payload its \<^verbatim>\<open>select\<close> can take.
\<close>

theorem responses_reach_their_command:
  assumes "agent_reachable s"
  shows "((i, Inr v) \<in> sys_returned s \<longrightarrow> (i, v) \<in> sys_received s) \<and>
    (ag_pending (sys_agent s) i \<noteq> None \<longrightarrow> sys_running s i \<noteq> None) \<and>
    (\<forall>ch w now data a u. sys_running s i = Some (ch, w) \<longrightarrow> ag_pending (sys_agent s) i \<noteq> None \<longrightarrow>
       received_by data = {(i, u)} \<longrightarrow> handleIncomingEvent now data (sys_agent s) = Some a \<longrightarrow>
       SendCommand_select Response ch a = Some (Inr u))"
proof -
  note inv = agent_reachable_inv [OF assms]
  have "SendCommand_select Response ch a = Some (Inr u)"
    if *: "sys_running s i = Some (ch, w)" "ag_pending (sys_agent s) i \<noteq> None" "received_by data = {(i, u)}"
      and h: "handleIncomingEvent now data (sys_agent s) = Some a" for ch w now data a u
  proof -
    from *(2) obtain k where k: "ag_pending (sys_agent s) i = Some k" by blast
    with chan_invD(1) [OF inv this] *(1) have "k = ch" "ag_chans (sys_agent s) ch = None" by auto
    with k have "ag_chans (deliver i u (sys_agent s)) ch = Some u" by (simp add: deliver_def)
    moreover have "same_chans (deliver i u (sys_agent s)) a"
      using handleIncomingEvent_chans [OF h] *(3) by auto
    ultimately show ?thesis by (simp add: same_chans_def SendCommand_select_def)
  qed
  then show ?thesis using chan_invD(1,6) [OF inv] by (metis not_None_eq)
qed

definition ex_agent_device :: Device where
  "ex_agent_device =
     \<lparr>dev_Serial = ''emulator-5554'', dev_Platform = ''android'', dev_ProviderIP = '''',
      dev_Info = \<lparr>info_Model = '''', info_MarketName = '''', info_Manufacturer = '''', info_AndroidVersion = '''', info_SDKVersion = 0,
        info_CPUABI = '''', info_RAMMB = 0, info_StorageMB = 0\<rparr>,
      dev_Display = \<lparr>disp_Density = 0, disp_Fps = 0, disp_Height = 0, disp_Rotation = 0, disp_Size = 0, disp_Width = 0, disp_XDPI = 0, disp_YDPI = 0\<rparr>,
      dev_State = \<lparr>tel_Status = StatusOnline, tel_Battery = \<lparr>bat_Level = 0, bat_IsCharging = False, bat_Health = ''''\<rparr>,
        tel_Network = \<lparr>net_Connected = False, net_WiFiSSID = '''', net_IP = '''', net_MobileData = False, net_Airplane = False\<rparr>,
        tel_FileSystem = \<lparr>fs_Root = '''', fs_Files = None\<rparr>, tel_InstalledBrowsers = None\<rparr>,
      dev_ConnectedAt = 0, dev_LastSeen = 0\<rparr>"

definition ex_payload :: json where
  "ex_payload = JObject [(''id'', JString ''c1''), (''success'', JBool True)]"

definition ex_message :: json where
  "ex_message = JObject [(''type'', JString ''TAP_RESPONSE''), (''payload'', ex_payload)]"

definition ex_sys :: AgentSys where
  "ex_sys = \<lparr>sys_agent = handleWS_open 7 (New_Agent ex_agent_device 10400), sys_running = Map.empty, sys_used = {},
     sys_received = {}, sys_returned = {}\<rparr>"

theorem responses_reach_their_command_witness:
  "\<exists>s. agent_reachable s \<and> (''c1'', Inr ex_payload) \<in> sys_returned s \<and> (''c1'', ex_payload) \<in> sys_received s"
proof -
  let ?a = "snd (SendCommand_register ''c1'' (sys_agent ex_sys))"
  let ?s = "ex_sys\<lparr>sys_agent := ?a, sys_running := [''c1'' \<mapsto> (0, True)], sys_used := {''c1''}\<rparr>"
  have "agent_reachable ex_sys"
    using agent_reachable.step [OF agent_reachable.start [of ex_agent_device 10400] agent_step.connect [of _ 7]] by (simp add: ex_sys_def)
  from agent_reachable.step [OF this agent_step.send [of "''c1''" ex_sys 0 ?a]]
  have "agent_reachable (ex_sys\<lparr>sys_agent := ?a, sys_running := [''c1'' \<mapsto> (0, False)], sys_used := {''c1''}\<rparr>)"
    by (simp add: ex_sys_def SendCommand_register_def handleWS_open_def New_Agent_def)
  from agent_reachable.step [OF this agent_step.writes [of _ "''c1''" 0 None]]
  have s: "agent_reachable ?s"
    by (simp add: ex_sys_def SendCommand_register_def handleWS_open_def New_Agent_def SendCommand_write_def)
  have r: "received_by (Some ex_message) = {(''c1'', ex_payload)}"
    by (simp add: received_by_def ex_message_def ex_payload_def response_of_def payload_field_def strings_EqualFold_def
        strings_ToLower_def ascii_lower_def strings_HasSuffix_def)
  obtain b where b: "handleIncomingEvent 1 (Some ex_message) (sys_agent ?s) = Some b"
    by (simp add: handleIncomingEvent_def ex_message_def strings_EqualFold_def strings_ToLower_def ascii_lower_def telemetry_update_def Let_def)
  have sel: "SendCommand_select Response 0 b = Some (Inr ex_payload)"
    using responses_reach_their_command [OF s, of "''c1''"] r b
    by (simp add: ex_sys_def SendCommand_register_def handleWS_open_def New_Agent_def, blast)
  from agent_reachable.step [OF s agent_step.message [OF b]]
  have m: "agent_reachable (?s\<lparr>sys_agent := b, sys_received := {(''c1'', ex_payload)}\<rparr>)" using r by (simp add: ex_sys_def)
  from agent_reachable.step [OF this agent_step.wakes [of _ "''c1''" 0 Response "Inr ex_payload"]] sel
  have "agent_reachable (returns ''c1'' (Inr ex_payload) (?s\<lparr>sys_agent := b, sys_received := {(''c1'', ex_payload)}\<rparr>))" by simp
  with responses_reach_their_command [OF this, of "''c1''" ex_payload] show ?thesis
    by (intro exI [of _ "returns ''c1'' (Inr ex_payload) (?s\<lparr>sys_agent := b, sys_received := {(''c1'', ex_payload)}\<rparr>)"])
      (simp add: returns_def)
qed

definition ex_shell :: "unit adb_shell" where
  "ex_shell serial cmd s = (Inr (strings_TrimSpace (''EXIT:0 is printed, '' @ ''EXIT:'' @ int_string 127 @ [CHR 0x0A])), s)"

theorem exit_code_roundtrip_witness:
  "ShellWithExitCode ex_shell ''nope'' (New_Agent ex_agent_device 10400) () =
     (Inr \<lparr>cr_Output = strings_TrimSpace ''EXIT:0 is printed, '', cr_ExitCode = 127\<rparr>, ())"
  using exit_code_roundtrip [of "New_Agent ex_agent_device 10400" 127 ex_shell "''nope''" "()" "''EXIT:0 is printed, ''" "()"]
  by (simp add: New_Agent_def ex_shell_def)

end
