(* ===== verification/Shell_Words.thy ===== *)
theory Shell_Words
  imports Go_Strings
begin

text \<open>
  What the code that builds command lines relies on of the shell of a device.  A shell is a parameter: a
  function from a command line to the words of the simple command it is, if it is one.  \<^verbatim>\<open>shell_words\<close> is what
  the standard promises of lines whose words are made of literal characters, characters behind a backslash and
  strings in single quotes.  \<^verbatim>\<open>split_words\<close> is a shell that keeps the promise.
\<close>

section \<open>Quoting\<close>

datatype piece = Plain char | Escaped char | Quoted string

definition quote_mark :: char where "quote_mark = CHR 0x27"
definition backslash :: char where "backslash = CHR 0x5C"

text \<open>Characters that mean themselves outside quotes, wherever they stand in a word.\<close>

definition literal_char :: "char \<Rightarrow> bool" where
  "literal_char c =
     (let n = of_char c :: nat in
      (48 \<le> n \<and> n \<le> 57) \<or> (65 \<le> n \<and> n \<le> 90) \<or> (97 \<le> n \<and> n \<le> 122) \<or> 128 \<le> n \<or>
      c \<in> {CHR ''_'', CHR ''-'', CHR ''.'', CHR ''/'', CHR '':'', CHR '','', CHR ''+'', CHR ''@'', CHR ''%'', CHR ''=''})"

fun piece_ok :: "piece \<Rightarrow> bool" where
  "piece_ok (Plain c) = literal_char c"
| "piece_ok (Escaped c) = (c \<noteq> CHR 0x0A \<and> c \<noteq> CHR 0x00)"
| "piece_ok (Quoted s) = (quote_mark \<notin> set s \<and> CHR 0x00 \<notin> set s)"

fun render_piece :: "piece \<Rightarrow> string" where
  "render_piece (Plain c) = [c]"
| "render_piece (Escaped c) = [backslash, c]"
| "render_piece (Quoted s) = quote_mark # s @ [quote_mark]"

fun piece_value :: "piece \<Rightarrow> string" where
  "piece_value (Plain c) = [c]"
| "piece_value (Escaped c) = [c]"
| "piece_value (Quoted s) = s"

definition render_word :: "piece list \<Rightarrow> string" where
  "render_word w = concat (map render_piece w)"

definition word_value :: "piece list \<Rightarrow> string" where
  "word_value w = concat (map piece_value w)"

definition reserved :: "string list" where
  "reserved = [''if'', ''then'', ''else'', ''elif'', ''fi'', ''do'', ''done'', ''case'', ''esac'', ''while'', ''until'', ''for'', ''in'',
     ''function'', ''select'', ''time'']"

text \<open>The first word must neither be reserved nor an assignment.\<close>

definition words_ok :: "piece list list \<Rightarrow> bool" where
  "words_ok ws \<longleftrightarrow> ws \<noteq> [] \<and> (\<forall>w \<in> set ws. w \<noteq> [] \<and> (\<forall>p \<in> set w. piece_ok p)) \<and>
     Plain (CHR ''='') \<notin> set (hd ws) \<and> render_word (hd ws) \<notin> set reserved"

definition shell_words :: "(string \<Rightarrow> string list option) \<Rightarrow> bool" where
  "shell_words sh \<longleftrightarrow>
     (\<forall>ws. words_ok ws \<longrightarrow> sh (strings_Join (map render_word ws) (CHR '' '')) = Some (map word_value ws))"

definition plain :: "string \<Rightarrow> piece list" where
  "plain s = map Plain s"

lemma plain_simps [simp]: "render_word (plain s) = s" "word_value (plain s) = s"
  by (induction s) (auto simp: plain_def render_word_def word_value_def)

lemma shell_wordsD:
  "shell_words sh \<Longrightarrow> words_ok ws \<Longrightarrow> sh (strings_Join (map render_word ws) (CHR '' '')) = Some (map word_value ws)"
  by (simp add: shell_words_def)

section \<open>A shell that keeps the promise\<close>

definition add_to :: "string option \<Rightarrow> string \<Rightarrow> string option" where
  "add_to cur s = Some ((case cur of None \<Rightarrow> [] | Some w \<Rightarrow> w) @ s)"

function split_from :: "string option \<Rightarrow> string \<Rightarrow> string list option" where
  "split_from cur [] = Some (case cur of None \<Rightarrow> [] | Some w \<Rightarrow> [w])"
| "split_from cur (c # cs) =
     (if c = CHR '' '' then
        (case cur of None \<Rightarrow> split_from None cs | Some w \<Rightarrow> map_option ((#) w) (split_from None cs))
      else if c = quote_mark then
        (case strings_Index cs quote_mark of
           None \<Rightarrow> None
         | Some i \<Rightarrow> split_from (add_to cur (take i cs)) (drop (Suc i) cs))
      else if c = backslash then (if cs = [] then None else split_from (add_to cur [hd cs]) (tl cs))
      else if literal_char c then split_from (add_to cur [c]) cs
      else None)"
  by pat_completeness auto
termination
  by (relation "measure (\<lambda>(cur, s). length s)") auto

definition split_words :: "string \<Rightarrow> string list option" where
  "split_words s = split_from None s"

lemma literal_char_simps: "literal_char c \<Longrightarrow> c \<noteq> CHR '' '' \<and> c \<noteq> quote_mark \<and> c \<noteq> backslash"
  by (auto simp: literal_char_def quote_mark_def backslash_def Let_def)

lemma strings_Index_append: "c \<notin> set s \<Longrightarrow> strings_Index (s @ c # t) c = Some (length s)"
  by (induction s) auto

lemma add_to_add_to [simp]: "add_to (add_to cur s) t = add_to cur (s @ t)"
  by (simp add: add_to_def)

lemma split_from_piece: "piece_ok p \<Longrightarrow> split_from cur (render_piece p @ s) = split_from (add_to cur (piece_value p)) s"
  by (cases p) (auto dest: literal_char_simps simp: quote_mark_def backslash_def strings_Index_append)

lemma split_from_word:
  "w \<noteq> [] \<Longrightarrow> (\<And>p. p \<in> set w \<Longrightarrow> piece_ok p) \<Longrightarrow> split_from cur (render_word w @ s) = split_from (add_to cur (word_value w)) s"
proof (induction w arbitrary: cur)
  case (Cons p w)
  show ?case
  proof (cases "w = []")
    case True
    with Cons.prems split_from_piece [of p cur s] show ?thesis by (simp add: render_word_def word_value_def)
  next
    case False
    with Cons split_from_piece [of p cur "render_word w @ s"] show ?thesis by (simp add: render_word_def word_value_def)
  qed
qed simp

lemma split_from_words:
  "(\<And>w. w \<in> set ws \<Longrightarrow> w \<noteq> [] \<and> (\<forall>p \<in> set w. piece_ok p)) \<Longrightarrow>
   split_from None (strings_Join (map render_word ws) (CHR '' '')) = Some (map word_value ws)"
proof (induction ws rule: induct_list012)
  case 1
  then show ?case by simp
next
  case (2 w)
  with split_from_word [of w None "[]"] show ?case by (simp add: add_to_def)
next
  case (3 w v ws)
  then have "split_from None (strings_Join (map render_word (v # ws)) (CHR '' '')) = Some (map word_value (v # ws))" by auto
  moreover have "w \<noteq> []" "\<And>p. p \<in> set w \<Longrightarrow> piece_ok p" using 3(3) by auto
  note split_from_word [OF this, of None "CHR '' '' # strings_Join (map render_word (v # ws)) (CHR '' '')"]
  ultimately show ?case by (simp add: add_to_def)
qed

lemma split_words_ok: "shell_words split_words"
  unfolding shell_words_def split_words_def words_ok_def by (auto intro: split_from_words)

end
