(* ===== verification/Script_DSL.thy ===== *)
theory Script_DSL
  imports Go_Text
begin

text \<open>
  The data of the automation packages: \<^verbatim>\<open>src/internal/automation/dsl/dsl.go\<close> (the XML dump of a screen, the
  tree of UI elements, scripts and their steps) and the report types of \<^verbatim>\<open>runner.go\<close>.

  A pointer into a tree is the root with the path of child indices, so two pointers are equal when root
  and path are.  A pointer to a node of a parsed document also carries the number of the \<^verbatim>\<open>xml.Unmarshal\<close>
  call that allocated the document: nodes of two calls are never the same, even for equal input.
  \<^verbatim>\<open>float64\<close> values are real numbers; rounding is not modelled.
\<close>

type_synonym float64 = real

section \<open>The dump\<close>

record XMLAttrs =
  xa_Index :: string
  xa_Text :: string
  xa_ResourceID :: string
  xa_Class :: string
  xa_Package :: string
  xa_ContentDesc :: string
  xa_Bounds :: string
  xa_Clickable :: string
  xa_Enabled :: string
  xa_Focusable :: string
  xa_Focused :: string
  xa_Scrollable :: string
  xa_LongClickable :: string
  xa_Checkable :: string
  xa_Checked :: string
  xa_Selected :: string

datatype XMLNode = XMLNode (xn: XMLAttrs) (xn_Nodes: "XMLNode list")

text \<open>The \<^verbatim>\<open>Rotation\<close> of a hierarchy is read nowhere.\<close>

record UIHierarchy =
  uh_Nodes :: "XMLNode list"

text \<open>\<^verbatim>\<open>*XMLNode\<close>: the document, the path in it, and the node there.\<close>

record XMLRef =
  xr_doc :: nat
  xr_path :: "nat list"
  xr_node :: XMLNode

definition same_node :: "XMLRef \<Rightarrow> XMLRef \<Rightarrow> bool" where
  "same_node r s \<longleftrightarrow> xr_doc r = xr_doc s \<and> xr_path r = xr_path s"

section \<open>The element tree\<close>

record ElementQuery =
  eq_ResourceID :: string
  eq_ContentDesc :: string
  eq_Text :: string
  eq_Class :: string
  eq_XPath :: string

record Rect =
  Left :: int
  Top :: int
  Right :: int
  Bottom :: int

record UIAttrs =
  ue_Package :: string
  ue_ResourceID :: string
  ue_Text :: string
  ue_ContentDesc :: string
  ue_Class :: string
  ue_Bounds :: Rect
  ue_Clickable :: bool
  ue_Enabled :: bool
  ue_Focusable :: bool
  ue_Focused :: bool
  ue_Checked :: bool
  ue_Selected :: bool
  ue_LongClickable :: bool
  ue_Checkable :: bool
  ue_Scrollable :: bool
  ue_XMLRef :: "XMLRef option"

datatype UIElement = UIElement (ue: UIAttrs) (ue_Children: "UIElement list")

definition zero_attrs :: UIAttrs where
  "zero_attrs =
     \<lparr>ue_Package = '''', ue_ResourceID = '''', ue_Text = '''', ue_ContentDesc = '''', ue_Class = '''',
      ue_Bounds = \<lparr>Left = 0, Top = 0, Right = 0, Bottom = 0\<rparr>, ue_Clickable = False, ue_Enabled = False,
      ue_Focusable = False, ue_Focused = False, ue_Checked = False, ue_Selected = False, ue_LongClickable = False,
      ue_Checkable = False, ue_Scrollable = False, ue_XMLRef = None\<rparr>"

text \<open>\<^verbatim>\<open>*UIElement\<close>: an element of a tree, with what its \<^verbatim>\<open>Parent\<close> and \<^verbatim>\<open>Children\<close> point to.\<close>

type_synonym ElRef = "UIElement \<times> nat list"

fun subtree :: "UIElement \<Rightarrow> nat list \<Rightarrow> UIElement" where
  "subtree el [] = el"
| "subtree el (i # p) = (if i < length (ue_Children el) then subtree (ue_Children el ! i) p else el)"

definition deref :: "ElRef \<Rightarrow> UIAttrs" where
  "deref r = ue (subtree (fst r) (snd r))"

definition Parent :: "ElRef \<Rightarrow> ElRef option" where
  "Parent r = (if snd r = [] then None else Some (fst r, butlast (snd r)))"

definition Children :: "ElRef \<Rightarrow> ElRef list" where
  "Children r = map (\<lambda>i. (fst r, snd r @ [i])) [0..<length (ue_Children (subtree (fst r) (snd r)))]"

text \<open>The paths of a tree in the order of \<^verbatim>\<open>FlattenTree\<close>: a node, then its children from left to right.\<close>

fun tree_paths :: "UIElement \<Rightarrow> nat list list"
  and forest_paths :: "nat \<Rightarrow> UIElement list \<Rightarrow> nat list list" where
  "tree_paths (UIElement a cs) = [] # forest_paths 0 cs"
| "forest_paths k [] = []"
| "forest_paths k (c # cs) = map ((#) k) (tree_paths c) @ forest_paths (Suc k) cs"

definition FlattenTree :: "ElRef \<Rightarrow> ElRef list" where
  "FlattenTree r = map (\<lambda>p. (fst r, snd r @ p)) (tree_paths (subtree (fst r) (snd r)))"

section \<open>Scripts\<close>

record Locator =
  loc_Strategy :: string
  loc_Value :: string
  loc_Confidence :: int
  loc_X :: float64
  loc_Y :: float64

record AnchorContext =
  anc_SiblingText :: string
  anc_ParentID :: string
  anc_ParentClass :: string

record LaunchParams =
  lp_Package :: string

record TerminateParams =
  tp_Package :: string

record ClickParams =
  cp_Target :: "ElRef option"
  cp_Locators :: "Locator list"
  cp_Anchor :: "AnchorContext option"
  cp_ResourceID :: string
  cp_ContentDesc :: string
  cp_Text :: string
  cp_Class :: string
  cp_XPath :: string
  cp_X :: "float64 option"
  cp_Y :: "float64 option"

record InputParams =
  ip_Text :: string
  ip_Target :: "ElRef option"
  ip_Variable :: string
  ip_ResourceID :: string
  ip_ContentDesc :: string
  ip_Class :: string
  ip_XPath :: string
  ip_X :: "float64 option"
  ip_Y :: "float64 option"

record SwipeParams =
  sp_StartX :: float64
  sp_StartY :: float64
  sp_EndX :: float64
  sp_EndY :: float64
  sp_DurationMs :: int

record WaitParams =
  wp_Target :: "ElRef option"
  wp_Condition :: string
  wp_TimeoutMs :: int
  wp_ResourceID :: string
  wp_ContentDesc :: string
  wp_Text :: string
  wp_Class :: string
  wp_XPath :: string

record AssertParams =
  ap_Target :: "ElRef option"
  ap_Condition :: string
  ap_Value :: string
  ap_TimeoutMs :: int
  ap_ResourceID :: string
  ap_ContentDesc :: string
  ap_Text :: string
  ap_Class :: string
  ap_XPath :: string

record ExistsCondition =
  ec_ResourceID :: string
  ec_ContentDesc :: string
  ec_Text :: string
  ec_Class :: string
  ec_XPath :: string
  ec_Target :: "ElRef option"

record IfCondition =
  ic_Exists :: "ExistsCondition option"

datatype Step = Step
  (st_Launch: "LaunchParams option")
  (st_Terminate: "TerminateParams option")
  (st_Click: "ClickParams option")
  (st_Input: "InputParams option")
  (st_Swipe: "SwipeParams option")
  (st_Wait: "WaitParams option")
  (st_Assert: "AssertParams option")
  (st_If: "IfCondition option")
  (st_Then: "Step list")
  (st_Else: "Step list")
  (st_DelayMs: int)

record Script =
  scr_Variables :: "string \<rightharpoonup> string"
  scr_Steps :: "Step list"

section \<open>Reports of runner.go\<close>

record StepResult =
  str_Index :: int
  str_Action :: string
  str_Success :: bool
  str_DurationMs :: int
  str_Error :: string
  str_Screenshot :: "8 word list"

record Report =
  rep_StartTime :: instant
  rep_EndTime :: instant
  rep_DurationMs :: int
  rep_TotalSteps :: int
  rep_PassedSteps :: int
  rep_Success :: bool
  rep_Results :: "StepResult list"

section \<open>Paths in a tree\<close>

fun valid_path :: "UIElement \<Rightarrow> nat list \<Rightarrow> bool" where
  "valid_path el [] = True"
| "valid_path el (i # p) = (i < length (ue_Children el) \<and> valid_path (ue_Children el ! i) p)"

lemma subtree_append: "valid_path el p \<Longrightarrow> subtree el (p @ q) = subtree (subtree el p) q"
  by (induction el p rule: valid_path.induct) auto

lemma valid_path_append [simp]: "valid_path el (p @ q) \<longleftrightarrow> valid_path el p \<and> valid_path (subtree el p) q"
  by (induction el p rule: valid_path.induct) auto

lemma valid_path_butlast: "valid_path el p \<Longrightarrow> valid_path el (butlast p)"
  by (metis append_butlast_last_id butlast.simps(1) valid_path_append)

lemma set_tree_paths:
  "p \<in> set (tree_paths el) \<longleftrightarrow> valid_path el p"
  "p \<in> set (forest_paths k cs) \<longleftrightarrow> (\<exists>i q. p = (k + i) # q \<and> i < length cs \<and> valid_path (cs ! i) q)"
proof (induction el and k cs arbitrary: p and p rule: tree_paths_forest_paths.induct)
  case (1 a cs)
  show ?case by (cases p) (auto simp: 1)
next
  case (2 k)
  show ?case by simp
next
  case (3 k c cs)
  have ex: "(\<exists>i. P i) \<longleftrightarrow> P 0 \<or> (\<exists>i. P (Suc i))" for P :: "nat \<Rightarrow> bool"
    by (metis not0_implies_Suc)
  have "p \<in> set (forest_paths k (c # cs)) \<longleftrightarrow>
      (\<exists>q. p = k # q \<and> valid_path c q) \<or> (\<exists>i q. p = (Suc k + i) # q \<and> i < length cs \<and> valid_path (cs ! i) q)"
    by (auto simp: 3)
  then show ?case by (subst ex) auto
qed

lemma set_FlattenTree:
  "valid_path tree p \<Longrightarrow> set (FlattenTree (tree, p)) = {(tree, q) |q. valid_path tree q \<and> (\<exists>s. q = p @ s)}"
  by (auto simp: FlattenTree_def set_tree_paths)

lemma mem_FlattenTree_root: "r \<in> set (FlattenTree (tree, [])) \<longleftrightarrow> fst r = tree \<and> valid_path tree (snd r)"
  using set_FlattenTree [of tree "[]"] by (cases r) auto

end
