(* ===== verification/Wda.thy ===== *)
theory Wda
  imports Go_Text Script_DSL
begin

text \<open>
  \<^verbatim>\<open>src/internal/wda\<close>: the client of WebDriverAgent.  The server is a parameter: a function from a request to
  its answer.  The mutex of the client is part of its state, and Go's mutexes are not reentrant, so a call may
  block: the first component of a result is \<^term>\<open>None\<close> when the call never returns, and the state is then what
  the other goroutines see from there on.
\<close>

section \<open>client.go\<close>

text \<open>The bodies that are sent, as data; \<^verbatim>\<open>json.Marshal\<close> of each of them succeeds.\<close>

datatype pointer_action =
  PointerMove int float64 float64
| PointerDown
| PointerUp
| Pause int

datatype wda_body =
  NoBody
| SessionBody
| SettingsBody
| Actions "pointer_action list"
| BundleID string
| OpenURLBody string
| Keys "string list"
| ButtonName string

text \<open>
  The answer of \<^verbatim>\<open>httpClient.Do\<close>: an error, or a status with the body that was read and the error that ended
  the reading, if one did.
\<close>

datatype http_answer = DoFailed string | Answer int string "string option"

type_synonym 's wda_server = "string \<Rightarrow> string \<Rightarrow> wda_body \<Rightarrow> 's \<Rightarrow> http_answer \<times> 's"

record Client =
  wc_baseURL :: string
  wc_sessionID :: string
  wc_locked :: bool

definition NewClient :: "int \<Rightarrow> Client" where
  "NewClient port = \<lparr>wc_baseURL = ''http://127.0.0.1:'' @ int_string port, wc_sessionID = '''', wc_locked = False\<rparr>"

text \<open>What the client state becomes by a call, and the result if the call returns.\<close>

type_synonym ('r, 's) wda_call = "Client \<Rightarrow> 's \<Rightarrow> 'r option \<times> Client \<times> 's"

definition SetSessionID :: "string \<Rightarrow> (unit, 's) wda_call" where
  "SetSessionID i c s = (if wc_locked c then (None, c, s) else (Some (), c\<lparr>wc_sessionID := i\<rparr>, s))"

definition SessionID :: "(string, 's) wda_call" where
  "SessionID c s = (if wc_locked c then (None, c, s) else (Some (wc_sessionID c), c, s))"

definition session_lost :: "int \<Rightarrow> string \<Rightarrow> bool" where
  "session_lost code bodyStr \<longleftrightarrow>
     code = 404 \<and> (strings_Contains bodyStr ''Session does not exist'' \<or> strings_Contains bodyStr ''invalid session id'')"

text \<open>\<open>decode\<close> is \<^verbatim>\<open>json.Unmarshal\<close> into \<^verbatim>\<open>responseVal\<close>; for a \<^verbatim>\<open>nil\<close> value there is none and the body is not read.\<close>

definition Request ::
  "'s wda_server \<Rightarrow> string \<Rightarrow> string \<Rightarrow> wda_body \<Rightarrow> (string \<Rightarrow> string + 'r) option \<Rightarrow> (string + 'r option, 's) wda_call" where
  "Request srv verb path body decode c s =
     (case srv verb (wc_baseURL c @ path) body s of
        (DoFailed e, s) \<Rightarrow> (Some (Inl (''wda client: execute request: '' @ e)), c, s)
      | (Answer code bodyStr readErr, s) \<Rightarrow>
          if code < 200 \<or> code \<ge> 300 then
            (let err = Inl (''wda client: server returned status '' @ int_string code @ '': '' @ bodyStr) in
             if session_lost code bodyStr then
               (if wc_locked c then (None, c, s) else (Some err, c\<lparr>wc_sessionID := ''''\<rparr>, s))
             else (Some err, c, s))
          else
            (case decode of
               None \<Rightarrow> (Some (Inr None), c, s)
             | Some dec \<Rightarrow>
                 (case readErr of
                    Some e \<Rightarrow> (Some (Inl (''wda client: read response body: '' @ e)), c, s)
                  | None \<Rightarrow>
                      (case dec bodyStr of
                         Inl e \<Rightarrow> (Some (Inl (''wda client: unmarshal response: '' @ e @ '' (raw: '' @ bodyStr @ '')'')), c, s)
                       | Inr v \<Rightarrow> (Some (Inr (Some v)), c, s)))))"

section \<open>session.go\<close>

definition lock :: "Client \<Rightarrow> Client" where
  "lock c = c\<lparr>wc_locked := True\<rparr>"

definition unlock :: "Client \<Rightarrow> Client" where
  "unlock c = c\<lparr>wc_locked := False\<rparr>"

text \<open>The deferred unlock runs when the body returns.\<close>

definition with_lock :: "('r, 's) wda_call \<Rightarrow> ('r, 's) wda_call" where
  "with_lock body c s =
     (if wc_locked c then (None, c, s)
      else (case body (lock c) s of
              (None, c, s) \<Rightarrow> (None, c, s)
            | (Some r, c, s) \<Rightarrow> (Some r, unlock c, s)))"

definition createSessionLocked :: "(string \<Rightarrow> string + string) \<Rightarrow> 's wda_server \<Rightarrow> (string + string, 's) wda_call" where
  "createSessionLocked decode srv c s =
     (case Request srv ''POST'' ''/session'' SessionBody (Some decode) c s of
        (None, c, s) \<Rightarrow> (None, c, s)
      | (Some (Inl e), c, s) \<Rightarrow> (Some (Inl (''failed to create WDA session: '' @ e)), c, s)
      | (Some (Inr v), c, s) \<Rightarrow>
          (let i = (case v of Some i \<Rightarrow> i | None \<Rightarrow> ''''); c = c\<lparr>wc_sessionID := i\<rparr> in
           case Request srv ''POST'' (''/session/'' @ i @ ''/settings'') SettingsBody (None :: (string \<Rightarrow> string + unit) option) c s of
             (None, c, s) \<Rightarrow> (None, c, s)
           | (Some _, c, s) \<Rightarrow> (Some (Inr i), c, s)))"

definition CreateSession :: "(string \<Rightarrow> string + string) \<Rightarrow> 's wda_server \<Rightarrow> (string + string, 's) wda_call" where
  "CreateSession decode srv = with_lock (createSessionLocked decode srv)"

definition EnsureSession :: "(string \<Rightarrow> string + string) \<Rightarrow> 's wda_server \<Rightarrow> (string option, 's) wda_call" where
  "EnsureSession decode srv c s =
     (if wc_locked c then (None, c, s)
      else if wc_sessionID c \<noteq> '''' then (Some None, c, s)
      else with_lock (\<lambda>c s.
        if wc_sessionID c \<noteq> '''' then (Some None, c, s)
        else (case createSessionLocked decode srv c s of
                (None, c, s) \<Rightarrow> (None, c, s)
              | (Some (Inl e), c, s) \<Rightarrow> (Some (Some e), c, s)
              | (Some (Inr _), c, s) \<Rightarrow> (Some None, c, s))) c s)"

definition DeleteSession :: "'s wda_server \<Rightarrow> (string option, 's) wda_call" where
  "DeleteSession srv =
     with_lock (\<lambda>c s.
       if wc_sessionID c = '''' then (Some None, c, s)
       else (case Request srv ''DELETE'' (''/session/'' @ wc_sessionID c) NoBody (None :: (string \<Rightarrow> string + unit) option) c s of
               (None, c, s) \<Rightarrow> (None, c, s)
             | (Some (Inl e), c', s) \<Rightarrow> (Some (Some (''failed to delete WDA session '' @ wc_sessionID c' @ '': '' @ e)), c', s)
             | (Some (Inr _), c, s) \<Rightarrow> (Some None, c\<lparr>wc_sessionID := ''''\<rparr>, s)))"

definition Status :: "(string \<Rightarrow> string + bool) \<Rightarrow> 's wda_server \<Rightarrow> (string + bool, 's) wda_call" where
  "Status decode srv c s =
     (case Request srv ''GET'' ''/status'' NoBody (Some decode) c s of
        (None, c, s) \<Rightarrow> (None, c, s)
      | (Some (Inl e), c, s) \<Rightarrow> (Some (Inl (''WDA status check failed: '' @ e)), c, s)
      | (Some (Inr v), c, s) \<Rightarrow> (Some (Inr (v = Some True)), c, s))"

definition GetWindowSize ::
  "(string \<Rightarrow> string + float64 \<times> float64) \<Rightarrow> 's wda_server \<Rightarrow> (string + float64 \<times> float64, 's) wda_call" where
  "GetWindowSize decode srv c s =
     (if wc_sessionID c = '''' then (Some (Inl ''wda window size: WDA session not active''), c, s)
      else (case Request srv ''GET'' (''/session/'' @ wc_sessionID c @ ''/window/size'') NoBody (Some decode) c s of
              (None, c, s) \<Rightarrow> (None, c, s)
            | (Some (Inl e), c, s) \<Rightarrow> (Some (Inl (''failed to get window size: '' @ e)), c, s)
            | (Some (Inr v), c, s) \<Rightarrow> (Some (Inr (case v of Some wh \<Rightarrow> wh | None \<Rightarrow> (0, 0))), c, s)))"

section \<open>touch.go, keyboard.go, app.go and screenshot.go\<close>

text \<open>A command of a session: the error without a session, the path below the session, the body, and the prefix of an error.\<close>

definition session_command :: "'s wda_server \<Rightarrow> string \<Rightarrow> string \<Rightarrow> wda_body \<Rightarrow> string \<Rightarrow> (string option, 's) wda_call" where
  "session_command srv inactive path body failed c s =
     (if wc_sessionID c = '''' then (Some (Some inactive), c, s)
      else (case Request srv ''POST'' (''/session/'' @ wc_sessionID c @ path) body (None :: (string \<Rightarrow> string + unit) option) c s of
              (None, c, s) \<Rightarrow> (None, c, s)
            | (Some (Inl e), c, s) \<Rightarrow> (Some (Some (failed @ e)), c, s)
            | (Some (Inr _), c, s) \<Rightarrow> (Some None, c, s)))"

definition Tap :: "'s wda_server \<Rightarrow> float64 \<Rightarrow> float64 \<Rightarrow> (string option, 's) wda_call" where
  "Tap srv x y =
     session_command srv ''wda tap: WDA session not active'' ''/actions''
       (Actions [PointerMove 0 x y, PointerDown, Pause 50, PointerUp]) ''wda tap failed: ''"

text \<open>\<^verbatim>\<open>int(durationSec * 1000)\<close> drops the fraction.\<close>

definition swipe_ms :: "float64 \<Rightarrow> int" where
  "swipe_ms durationSec =
     (let ms = (if durationSec * 1000 \<ge> 0 then \<lfloor>durationSec * 1000\<rfloor> else \<lceil>durationSec * 1000\<rceil>) in if ms \<le> 0 then 200 else ms)"

definition Swipe :: "'s wda_server \<Rightarrow> float64 \<Rightarrow> float64 \<Rightarrow> float64 \<Rightarrow> float64 \<Rightarrow> float64 \<Rightarrow> (string option, 's) wda_call" where
  "Swipe srv x1 y1 x2 y2 durationSec =
     session_command srv ''wda swipe: WDA session not active'' ''/actions''
       (Actions [PointerMove 0 x1 y1, PointerDown, PointerMove (swipe_ms durationSec) x2 y2, PointerUp]) ''wda swipe failed: ''"

definition SwipeAndHold ::
  "'s wda_server \<Rightarrow> float64 \<Rightarrow> float64 \<Rightarrow> float64 \<Rightarrow> float64 \<Rightarrow> float64 \<Rightarrow> int \<Rightarrow> (string option, 's) wda_call" where
  "SwipeAndHold srv x1 y1 x2 y2 durationSec holdDurationMs =
     session_command srv ''wda swipe and hold: WDA session not active'' ''/actions''
       (Actions [PointerMove 0 x1 y1, PointerDown, PointerMove (swipe_ms durationSec) x2 y2, Pause holdDurationMs, PointerUp])
       ''wda swipe and hold failed: ''"

text \<open>\<open>runes\<close> is the decoding of a string into code points, each encoded again.\<close>

definition SendKeys :: "(string \<Rightarrow> string list) \<Rightarrow> 's wda_server \<Rightarrow> string \<Rightarrow> (string option, 's) wda_call" where
  "SendKeys runes srv text =
     session_command srv ''wda keyboard: WDA session not active'' ''/wda/keys'' (Keys (runes text)) ''wda keyboard send keys failed: ''"

definition PressButton :: "(string \<Rightarrow> string) \<Rightarrow> 's wda_server \<Rightarrow> string \<Rightarrow> (string option, 's) wda_call" where
  "PressButton quote srv name =
     session_command srv ''wda button: WDA session not active'' ''/wda/pressButton'' (ButtonName name)
       (''wda press button '' @ quote name @ '' failed: '')"

definition LaunchApp :: "'s wda_server \<Rightarrow> string \<Rightarrow> (string option, 's) wda_call" where
  "LaunchApp srv bundleID =
     session_command srv ''wda app: session not active'' ''/wda/apps/launch'' (BundleID bundleID)
       (''failed to launch app '' @ bundleID @ '' via WDA: '')"

definition TerminateApp :: "'s wda_server \<Rightarrow> string \<Rightarrow> (string option, 's) wda_call" where
  "TerminateApp srv bundleID =
     session_command srv ''wda app: session not active'' ''/wda/apps/terminate'' (BundleID bundleID)
       (''failed to terminate app '' @ bundleID @ '' via WDA: '')"

definition OpenURL :: "'s wda_server \<Rightarrow> string \<Rightarrow> (string option, 's) wda_call" where
  "OpenURL srv urlStr =
     session_command srv ''wda app: session not active'' ''/url'' (OpenURLBody urlStr)
       (''failed to open URL '' @ urlStr @ '' via WDA: '')"

definition Screenshot ::
  "(string \<Rightarrow> string + string) \<Rightarrow> (string \<Rightarrow> string + 8 word list) \<Rightarrow> 's wda_server \<Rightarrow> (string + 8 word list, 's) wda_call" where
  "Screenshot decode base64 srv c s =
     (let urlPath = (if wc_sessionID c \<noteq> '''' then ''/session/'' @ wc_sessionID c @ ''/screenshot'' else ''/screenshot'') in
      case Request srv ''GET'' urlPath NoBody (Some decode) c s of
        (None, c, s) \<Rightarrow> (None, c, s)
      | (Some (Inl e), c, s) \<Rightarrow> (Some (Inl (''wda screenshot request failed: '' @ e)), c, s)
      | (Some (Inr v), c, s) \<Rightarrow>
          (case base64 (case v of Some x \<Rightarrow> x | None \<Rightarrow> '''') of
             Inl e \<Rightarrow> (Some (Inl (''failed to decode WDA screenshot base64 response: '' @ e)), c, s)
           | Inr img \<Rightarrow> (Some (Inr img), c, s)))"

section \<open>The mutex\<close>

lemma Request_lock:
  "Request srv verb path body decode c s = (r, c', s') \<Longrightarrow>
   wc_locked c' = wc_locked c \<and> (r = None \<longrightarrow> wc_locked c \<and> c' = c) \<and> (wc_locked c \<longrightarrow> c' = c)"
  by (auto simp: Request_def Let_def split: prod.splits http_answer.splits if_splits option.splits sum.splits)

lemma session_command_lock:
  "session_command srv inactive path body failed c s = (r, c', s') \<Longrightarrow>
   wc_locked c' = wc_locked c \<and> (r = None \<longrightarrow> wc_locked c)"
  by (auto simp: session_command_def split: if_splits prod.splits option.splits sum.splits dest: Request_lock)

lemma createSessionLocked_lock:
  "createSessionLocked decode srv c s = (r, c', s') \<Longrightarrow> wc_locked c' = wc_locked c"
  by (auto simp: createSessionLocked_def Let_def split: prod.splits option.splits sum.splits dest!: Request_lock)

lemma with_lock_returns:
  "with_lock body c s = (Some r, c', s') \<Longrightarrow> \<not> wc_locked c \<and> \<not> wc_locked c'"
  by (auto simp: with_lock_def unlock_def split: if_splits prod.splits option.splits)

text \<open>
  A call that needs the mutex leaves it free when it returns.  But the two calls that hold it while they
  talk to the server do not return when the server no longer knows the session: the answer makes the client
  take the mutex again.  From then on every call that needs the mutex blocks, whatever the server answers.
\<close>

theorem lost_session_blocks_client:
  assumes free: "\<not> wc_locked c" and session: "wc_sessionID c \<noteq> ''''"
    and gone: "srv ''DELETE'' (wc_baseURL c @ ''/session/'' @ wc_sessionID c) NoBody s = (Answer 404 bodyStr e, s')"
      "strings_Contains bodyStr ''Session does not exist''"
  shows "DeleteSession srv c s = (None, lock c, s') \<and>
    fst (EnsureSession decode srv' (lock c) s'') = None \<and> fst (DeleteSession srv' (lock c) s'') = None \<and>
    fst (SessionID (lock c) s'') = None \<and>
    (\<forall>r c' t t'. DeleteSession srv' c t = (Some r, c', t') \<longrightarrow> \<not> wc_locked c') \<and>
    (\<forall>r c' t t'. EnsureSession decode srv' c t = (Some r, c', t') \<longrightarrow> \<not> wc_locked c')"
proof -
  have "DeleteSession srv c s = (None, lock c, s')"
    using free session gone by (simp add: DeleteSession_def with_lock_def lock_def Request_def session_lost_def)
  moreover have "\<not> wc_locked c'" if "DeleteSession srv' c t = (Some r, c', t')" for r c' t t'
    using that unfolding DeleteSession_def by (rule with_lock_returns [THEN conjunct2])
  moreover have "\<not> wc_locked c'" if "EnsureSession decode srv' c t = (Some r, c', t')" for r c' t t'
    using that free unfolding EnsureSession_def by (auto split: if_splits dest: with_lock_returns)
  moreover have "fst (EnsureSession decode srv' (lock c) s'') = None" by (simp add: EnsureSession_def lock_def)
  moreover have "fst (DeleteSession srv' (lock c) s'') = None" by (simp add: DeleteSession_def with_lock_def lock_def)
  moreover have "fst (SessionID (lock c) s'') = None" by (simp add: SessionID_def lock_def)
  ultimately show ?thesis by blast
qed

definition ex_client :: Client where
  "ex_client = (NewClient 10400)\<lparr>wc_sessionID := ''S1''\<rparr>"

definition ex_restarted :: "unit wda_server" where
  "ex_restarted verb url body s = (Answer 404 ''{value: {error: Session does not exist}}'' None, s)"

theorem lost_session_blocks_client_witness:
  "DeleteSession ex_restarted ex_client () = (None, lock ex_client, ()) \<and>
   fst (EnsureSession (\<lambda>_. Inr ''S2'') ex_restarted (lock ex_client) ()) = None"
proof -
  have "strings_Contains ''{value: {error: Session does not exist}}'' ''Session does not exist''" by code_simp
  with lost_session_blocks_client [of ex_client ex_restarted "()" "''{value: {error: Session does not exist}}''" None "()" "\<lambda>_. Inr ''S2''" ex_restarted "()"]
  show ?thesis by (simp add: ex_client_def NewClient_def ex_restarted_def)
qed

end
