(* ===== verification/Locator.thy ===== *)
theory Locator
  imports Script_DSL
begin

text \<open>
  \<^verbatim>\<open>src/internal/automation/locator\<close>: from the XML dump of a screen to the element that a recorded target,
  a locator, a query or a touch point stands for, and back to locators.

  The record \<^verbatim>\<open>ui_lib\<close> holds what comes from Go's library: \<^verbatim>\<open>xml.Unmarshal\<close>, the printing of coordinates,
  and \<^verbatim>\<open>sort.Slice\<close> at the three types it is used with.  A function that calls \<^verbatim>\<open>xml.Unmarshal\<close> takes the
  number of its first call; a further call in it has the next number.  An expression that can panic has a
  result of type \<^verbatim>\<open>outcome\<close>.
\<close>

datatype 'a outcome = Panic | Return 'a

type_synonym candidate = "ElRef \<times> int"

record ui_lib =
  ul_Unmarshal :: "string \<Rightarrow> string + UIHierarchy"
  ul_coordinates :: "float64 \<Rightarrow> float64 \<Rightarrow> string"
  ul_sort_matches :: "(candidate \<Rightarrow> candidate \<Rightarrow> bool) \<Rightarrow> candidate list \<Rightarrow> candidate list"
  ul_sort_elements :: "(ElRef \<Rightarrow> ElRef \<Rightarrow> bool) \<Rightarrow> ElRef list \<Rightarrow> ElRef list"
  ul_sort_locators :: "(Locator \<Rightarrow> Locator \<Rightarrow> bool) \<Rightarrow> Locator list \<Rightarrow> Locator list"

section \<open>locator_tree.go\<close>

text \<open>\<^verbatim>\<open>fmt.Sscanf(s, "[%d,%d][%d,%d]", ...)\<close>: the numbers read before a mismatch are kept.\<close>

definition zero_rect :: Rect where
  "zero_rect = \<lparr>Left = 0, Top = 0, Right = 0, Bottom = 0\<rparr>"

definition scan_field :: "string \<Rightarrow> string \<Rightarrow> (int \<times> string) option" where
  "scan_field lit s = (case scan_lit lit s of None \<Rightarrow> None | Some s \<Rightarrow> scan_int s)"

definition ParseBounds :: "string \<Rightarrow> Rect \<times> bool" where
  "ParseBounds s =
     (case scan_field ''['' s of
        None \<Rightarrow> (zero_rect, False)
      | Some (x0, s) \<Rightarrow>
          (case scan_field '','' s of
             None \<Rightarrow> (zero_rect\<lparr>Left := x0\<rparr>, False)
           | Some (y0, s) \<Rightarrow>
               (case scan_field '']['' s of
                  None \<Rightarrow> (zero_rect\<lparr>Left := x0, Top := y0\<rparr>, False)
                | Some (x1, s) \<Rightarrow>
                    (case scan_field '','' s of
                       None \<Rightarrow> (zero_rect\<lparr>Left := x0, Top := y0, Right := x1\<rparr>, False)
                     | Some (y1, s) \<Rightarrow>
                         (\<lparr>Left = x0, Top = y0, Right = x1, Bottom = y1\<rparr>, scan_lit '']'' s \<noteq> None)))))"

definition node_attrs :: "nat \<Rightarrow> nat list \<Rightarrow> XMLNode \<Rightarrow> UIAttrs" where
  "node_attrs doc p n =
     (let a = xn n in
      \<lparr>ue_Package = xa_Package a, ue_ResourceID = xa_ResourceID a, ue_Text = xa_Text a, ue_ContentDesc = xa_ContentDesc a,
       ue_Class = xa_Class a, ue_Bounds = fst (ParseBounds (xa_Bounds a)), ue_Clickable = (xa_Clickable a = ''true''),
       ue_Enabled = (xa_Enabled a = ''true''), ue_Focusable = (xa_Focusable a = ''true''), ue_Focused = (xa_Focused a = ''true''),
       ue_Checked = (xa_Checked a = ''true''), ue_Selected = (xa_Selected a = ''true''),
       ue_LongClickable = (xa_LongClickable a = ''true''), ue_Checkable = (xa_Checkable a = ''true''),
       ue_Scrollable = (xa_Scrollable a = ''true''), ue_XMLRef = Some \<lparr>xr_doc = doc, xr_path = p, xr_node = n\<rparr>\<rparr>)"

fun convertXMLToUIElement :: "nat \<Rightarrow> nat list \<Rightarrow> XMLNode \<Rightarrow> UIElement"
  and convert_nodes :: "nat \<Rightarrow> nat list \<Rightarrow> nat \<Rightarrow> XMLNode list \<Rightarrow> UIElement list" where
  "convertXMLToUIElement doc p (XMLNode a ns) = UIElement (node_attrs doc p (XMLNode a ns)) (convert_nodes doc p 0 ns)"
| "convert_nodes doc p k [] = []"
| "convert_nodes doc p k (n # ns) = convertXMLToUIElement doc (p @ [k]) n # convert_nodes doc p (Suc k) ns"

definition bounds_union :: "UIElement list \<Rightarrow> Rect" where
  "bounds_union cs =
     fold (\<lambda>c b. let r = ue_Bounds (ue c) in
       \<lparr>Left = (if Left r < Left b then Left r else Left b), Top = (if Top r < Top b then Top r else Top b),
        Right = (if Right r > Right b then Right r else Right b), Bottom = (if Bottom r > Bottom b then Bottom r else Bottom b)\<rparr>)
     cs \<lparr>Left = 99999, Top = 99999, Right = 0, Bottom = 0\<rparr>"

definition ParseXMLTree :: "ui_lib \<Rightarrow> nat \<Rightarrow> string \<Rightarrow> string + UIElement" where
  "ParseXMLTree lib doc xmlData =
     (case ul_Unmarshal lib xmlData of
        Inl e \<Rightarrow> Inl (''failed to parse UI XML: '' @ e)
      | Inr h \<Rightarrow>
          (case uh_Nodes h of
             [] \<Rightarrow> Inl ''empty UI hierarchy''
           | [n] \<Rightarrow> Inr (convertXMLToUIElement doc [0] n)
           | ns \<Rightarrow>
               let children = convert_nodes doc [] 0 ns
               in Inr (UIElement (zero_attrs\<lparr>ue_Class := ''hierarchy'', ue_Bounds := bounds_union children\<rparr>) children)))"

section \<open>locator_scoring.go\<close>

definition scroll_containers :: "string list" where
  "scroll_containers = [''androidx.recyclerview.widget.RecyclerView'', ''android.widget.ListView'', ''android.widget.GridView'',
     ''android.widget.ScrollView'', ''android.widget.HorizontalScrollView'', ''androidx.viewpager.widget.ViewPager'',
     ''androidx.viewpager2.widget.ViewPager2'']"

definition IsScrollContainerClass :: "string \<Rightarrow> bool" where
  "IsScrollContainerClass cls = list_ex (\<lambda>c. cls = c \<or> strings_HasSuffix cls c) scroll_containers"

definition containers :: "string list" where
  "containers = [''android.widget.FrameLayout'', ''android.widget.LinearLayout'', ''android.widget.RelativeLayout'',
     ''android.view.ViewGroup'', ''android.view.View'', ''androidx.recyclerview.widget.RecyclerView'', ''android.widget.ScrollView'',
     ''android.widget.HorizontalScrollView'', ''android.widget.ListView'', ''androidx.viewpager.widget.ViewPager'',
     ''androidx.viewpager2.widget.ViewPager2'', ''androidx.constraintlayout.widget.ConstraintLayout'',
     ''androidx.coordinatorlayout.widget.CoordinatorLayout'', ''androidx.appcompat.widget.LinearLayoutCompat'',
     ''android.widget.GridLayout'', ''android.widget.TableLayout'', ''android.widget.TableRow'']"

definition IsContainerClass :: "string \<Rightarrow> bool" where
  "IsContainerClass cls = list_ex (\<lambda>c. cls = c \<or> strings_HasSuffix cls c) containers"

definition rect_area :: "Rect \<Rightarrow> int" where
  "rect_area b = int64 (int64 (Right b - Left b) * int64 (Bottom b - Top b))"

text \<open>\<^verbatim>\<open>int(screenWidth * screenHeight)\<close>: the product is taken in \<^verbatim>\<open>int32\<close>.\<close>

definition screen_area :: "32 word \<Rightarrow> 32 word \<Rightarrow> int" where
  "screen_area w h = sint (w * h)"

text \<open>The quotient of a positive number by zero is infinite.\<close>

definition ratio_above :: "int \<Rightarrow> int \<Rightarrow> real \<Rightarrow> bool" where
  "ratio_above a b t = (if b = 0 then a > 0 else real_of_int a / real_of_int b > t)"

definition class_bonus :: "string \<Rightarrow> int" where
  "class_bonus cls =
     (if cls = ''android.widget.Button'' then 30
      else if cls = ''android.widget.ImageButton'' then 30
      else if cls = ''android.widget.Switch'' \<or> cls = ''android.widget.ToggleButton'' then 30
      else if cls = ''android.widget.CheckBox'' then 25
      else if cls = ''android.widget.RadioButton'' then 25
      else if cls = ''android.widget.EditText'' then 25
      else if cls = ''android.widget.TextView'' then 10
      else if cls = ''android.widget.ImageView'' then 5
      else 0)"

definition container_penalty :: "string \<Rightarrow> int" where
  "container_penalty cls =
     (if IsScrollContainerClass cls then 200 else if IsContainerClass cls then 80
      else if cls = ''android.view.View'' then 120 else 0)"

definition area_penalty :: "Rect \<Rightarrow> 32 word \<Rightarrow> 32 word \<Rightarrow> int" where
  "area_penalty b screenWidth screenHeight =
     (let area = rect_area b; screenArea = screen_area screenWidth screenHeight in
      if sint screenWidth > 0 \<and> sint screenHeight > 0 \<and> area > 0 then
        (if ratio_above area screenArea 0.5 then 150
         else if ratio_above area screenArea 0.2 then 80
         else if ratio_above area screenArea 0.05 then 30 else 0)
      else 0)"

definition ScoreActionableNode :: "UIAttrs \<Rightarrow> 32 word \<Rightarrow> 32 word \<Rightarrow> int" where
  "ScoreActionableNode node screenWidth screenHeight =
     (if ue_Clickable node then 100 else 0) + (if ue_Enabled node then 50 else 0) +
     (if ue_ResourceID node \<noteq> '''' then 20 else 0) + (if ue_Text node \<noteq> '''' then 15 else 0) +
     (if ue_ContentDesc node \<noteq> '''' then 15 else 0) + class_bonus (ue_Class node) -
     container_penalty (ue_Class node) - area_penalty (ue_Bounds node) screenWidth screenHeight"

definition ScoreNode :: "XMLNode \<Rightarrow> 32 word \<Rightarrow> 32 word \<Rightarrow> int" where
  "ScoreNode node screenWidth screenHeight =
     (let a = xn node in
      ScoreActionableNode (zero_attrs\<lparr>ue_Class := xa_Class a, ue_Clickable := (xa_Clickable a = ''true''),
        ue_Enabled := (xa_Enabled a = ''true''), ue_ResourceID := xa_ResourceID a, ue_Text := xa_Text a,
        ue_ContentDesc := xa_ContentDesc a, ue_Bounds := fst (ParseBounds (xa_Bounds a))\<rparr>) screenWidth screenHeight)"

text \<open>The conversion of a \<^verbatim>\<open>float64\<close> to an \<^verbatim>\<open>int\<close> drops the fraction.\<close>

definition truncate :: "float64 \<Rightarrow> int" where
  "truncate r = (if r \<ge> 0 then \<lfloor>r\<rfloor> else \<lceil>r\<rceil>)"

definition pixel :: "float64 \<Rightarrow> 32 word \<Rightarrow> int" where
  "pixel x width = truncate (x * real_of_int (sint width))"

definition in_rect :: "int \<Rightarrow> int \<Rightarrow> Rect \<Rightarrow> bool" where
  "in_rect px py b \<longleftrightarrow> \<not> (px < Left b \<or> px > Right b \<or> py < Top b \<or> py > Bottom b)"

text \<open>The walk of \<^verbatim>\<open>FindBestElementAt\<close>: it does not enter an element that misses the point.\<close>

fun hit_paths :: "int \<Rightarrow> int \<Rightarrow> UIElement \<Rightarrow> nat list list"
  and hit_children :: "int \<Rightarrow> int \<Rightarrow> nat \<Rightarrow> UIElement list \<Rightarrow> nat list list" where
  "hit_paths px py (UIElement a cs) = (if in_rect px py (ue_Bounds a) then [] # hit_children px py 0 cs else [])"
| "hit_children px py k [] = []"
| "hit_children px py k (c # cs) = map ((#) k) (hit_paths px py c) @ hit_children px py (Suc k) cs"

definition is_actionable :: "ElRef \<Rightarrow> bool" where
  "is_actionable r =
     (let a = deref r;
          isListItem = (case Parent r of None \<Rightarrow> False | Some q \<Rightarrow> IsScrollContainerClass (ue_Class (deref q)))
      in ue_Clickable a \<or> ue_Focusable a \<or> ue_LongClickable a \<or> isListItem)"

function first_actionable :: "ElRef \<Rightarrow> ElRef option" where
  "first_actionable r =
     (if is_actionable r then Some r
      else if snd r = [] then None else first_actionable (fst r, butlast (snd r)))"
  by pat_completeness auto
termination by (relation "measure (\<lambda>r. length (snd r))") auto

declare first_actionable.simps [simp del]

fun collect_actionable :: "ElRef list \<Rightarrow> ElRef list \<Rightarrow> ElRef list" where
  "collect_actionable acc [] = acc"
| "collect_actionable acc (c # cs) =
     (case first_actionable c of
        Some r \<Rightarrow> collect_actionable (if r \<in> set acc then acc else acc @ [r]) cs
      | None \<Rightarrow> collect_actionable acc cs)"

definition better_click :: "32 word \<Rightarrow> 32 word \<Rightarrow> ElRef \<Rightarrow> ElRef \<Rightarrow> bool" where
  "better_click width height r s =
     (let scoreI = ScoreActionableNode (deref r) width height; scoreJ = ScoreActionableNode (deref s) width height in
      if scoreI \<noteq> scoreJ then scoreI > scoreJ else rect_area (ue_Bounds (deref r)) < rect_area (ue_Bounds (deref s)))"

definition FindBestElementAt :: "ui_lib \<Rightarrow> UIElement \<Rightarrow> float64 \<Rightarrow> float64 \<Rightarrow> 32 word \<Rightarrow> 32 word \<Rightarrow> ElRef option" where
  "FindBestElementAt lib tree x y width height =
     (let candidates = map (\<lambda>p. (tree, p)) (hit_paths (pixel x width) (pixel y height) tree);
          actionable = collect_actionable [] candidates;
          actionable = (if actionable = [] then candidates else actionable)
      in if candidates = [] then None
         else (case ul_sort_elements lib (better_click width height) actionable of [] \<Rightarrow> None | r # _ \<Rightarrow> Some r))"

definition step_prefix :: string where "step_prefix = ''node[@index='' @ [CHR 0x27]"
definition step_suffix :: string where "step_suffix = CHR 0x27 # '']''"

definition index_part :: "string \<Rightarrow> string" where
  "index_part idx = step_prefix @ idx @ step_suffix"

fun index_step :: "XMLRef option \<Rightarrow> string" where
  "index_step (Some x) = index_part (xa_Index (xn (xr_node x)))"
| "index_step None = ''node''"

definition buildXPathForElement :: "ElRef \<Rightarrow> string" where
  "buildXPathForElement r =
     ''/hierarchy/'' @ strings_Join (map (\<lambda>k. index_step (ue_XMLRef (deref (fst r, take k (snd r))))) [0..<Suc (length (snd r))]) (CHR ''/'')"

definition FindBestNodeAt :: "ui_lib \<Rightarrow> nat \<Rightarrow> string \<Rightarrow> float64 \<Rightarrow> float64 \<Rightarrow> 32 word \<Rightarrow> 32 word \<Rightarrow> (XMLRef \<times> string) option" where
  "FindBestNodeAt lib doc xmlData x y width height =
     (case ParseXMLTree lib doc xmlData of
        Inl _ \<Rightarrow> None
      | Inr tree \<Rightarrow>
          (case FindBestElementAt lib tree x y width height of
             None \<Rightarrow> None
           | Some el \<Rightarrow> (case ue_XMLRef (deref el) of None \<Rightarrow> None | Some x \<Rightarrow> Some (x, buildXPathForElement el))))"

section \<open>locator.go\<close>

definition id_suffix :: "string \<Rightarrow> string \<Rightarrow> bool" where
  "id_suffix s i = strings_HasSuffix s ('':id/'' @ i)"

definition siblings_with :: "ElRef \<Rightarrow> string \<Rightarrow> bool" where
  "siblings_with r text =
     (case Parent r of None \<Rightarrow> False | Some q \<Rightarrow> list_ex (\<lambda>c. c \<noteq> r \<and> ue_Text (deref c) = text) (Children q))"

definition identity_score :: "UIAttrs \<Rightarrow> UIAttrs \<Rightarrow> int" where
  "identity_score t c =
     (if ue_ResourceID t \<noteq> '''' then
        (if ue_ResourceID c \<noteq> '''' \<and> (ue_ResourceID t = ue_ResourceID c \<or> id_suffix (ue_ResourceID t) (ue_ResourceID c) \<or>
             id_suffix (ue_ResourceID c) (ue_ResourceID t)) then 100 else - 50)
      else 0) +
     (if ue_Text t \<noteq> '''' then (if ue_Text c = ue_Text t then 80 else - 50) else 0) +
     (if ue_ContentDesc t \<noteq> '''' then (if ue_ContentDesc c = ue_ContentDesc t then 80 else - 50) else 0) +
     (if ue_Class t \<noteq> '''' \<and> ue_Class c = ue_Class t then 20 else 0) +
     (if ue_Bounds t = ue_Bounds c then 30 else 0)"

definition sibling_score :: "ElRef \<Rightarrow> ElRef \<Rightarrow> AnchorContext option \<Rightarrow> int" where
  "sibling_score target cand anchor =
     (case anchor of
        Some a \<Rightarrow> if anc_SiblingText a \<noteq> '''' \<and> siblings_with cand (anc_SiblingText a) then 50 else 0
      | None \<Rightarrow>
          (case Parent target of
             None \<Rightarrow> 0
           | Some q \<Rightarrow>
               50 * int (length (filter (\<lambda>s. s \<noteq> target \<and> ue_Text (deref s) \<noteq> '''' \<and> siblings_with cand (ue_Text (deref s))) (Children q)))))"

definition parent_score :: "ElRef \<Rightarrow> ElRef \<Rightarrow> AnchorContext option \<Rightarrow> int" where
  "parent_score target cand anchor =
     (case anchor of
        Some a \<Rightarrow>
          (case Parent cand of
             None \<Rightarrow> 0
           | Some q \<Rightarrow>
               (if anc_ParentClass a \<noteq> '''' \<and> ue_Class (deref q) = anc_ParentClass a then 20 else 0) +
               (if anc_ParentID a \<noteq> '''' \<and> (ue_ResourceID (deref q) = anc_ParentID a \<or> id_suffix (ue_ResourceID (deref q)) (anc_ParentID a) \<or>
                    id_suffix (anc_ParentID a) (ue_ResourceID (deref q))) then 40 else 0))
      | None \<Rightarrow>
          (case (Parent target, Parent cand) of
             (Some p, Some q) \<Rightarrow> if ue_Class (deref p) = ue_Class (deref q) then 30 else 0
           | _ \<Rightarrow> 0))"

definition MatchScore :: "ElRef \<Rightarrow> ElRef \<Rightarrow> AnchorContext option \<Rightarrow> int" where
  "MatchScore target cand anchor =
     identity_score (deref target) (deref cand) + sibling_score target cand anchor + parent_score target cand anchor"

definition abs_int :: "int \<Rightarrow> int" where
  "abs_int x = (if x < 0 then int64 (- x) else x)"

definition area_diff :: "ElRef \<Rightarrow> ElRef \<Rightarrow> int" where
  "area_diff target r = abs_int (int64 (rect_area (ue_Bounds (deref r)) - rect_area (ue_Bounds (deref target))))"

definition better_match :: "ElRef \<Rightarrow> candidate \<Rightarrow> candidate \<Rightarrow> bool" where
  "better_match target m n =
     (if snd m \<noteq> snd n then snd m > snd n else area_diff target (fst m) < area_diff target (fst n))"

definition ResolveElement :: "ui_lib \<Rightarrow> ElRef option \<Rightarrow> ElRef option \<Rightarrow> AnchorContext option \<Rightarrow> string + (ElRef \<times> int)" where
  "ResolveElement lib liveTree target anchor =
     (case (liveTree, target) of
        (Some live, Some target) \<Rightarrow>
          (let matches = filter (\<lambda>m. snd m > 0) (map (\<lambda>c. (c, MatchScore target c anchor)) (FlattenTree live)) in
           case ul_sort_matches lib (better_match target) matches of
             [] \<Rightarrow> Inl ''no matches found for target element''
           | best # _ \<Rightarrow> if snd best < 20 then Inl (''best match score '' @ int_string (snd best) @ '' is below threshold'') else Inr best)
      | _ \<Rightarrow> Inl ''nil liveTree or target element'')"

section \<open>locator_legacy.go\<close>

text \<open>Depth-first search for the first node with a property, from the pointer to a node down.\<close>

fun first_node :: "(XMLAttrs \<Rightarrow> bool) \<Rightarrow> nat \<Rightarrow> nat list \<Rightarrow> XMLNode \<Rightarrow> XMLRef option"
  and first_in_nodes :: "(XMLAttrs \<Rightarrow> bool) \<Rightarrow> nat \<Rightarrow> nat list \<Rightarrow> nat \<Rightarrow> XMLNode list \<Rightarrow> XMLRef option" where
  "first_node P doc p (XMLNode a ns) =
     (if P a then Some \<lparr>xr_doc = doc, xr_path = p, xr_node = XMLNode a ns\<rparr> else first_in_nodes P doc p 0 ns)"
| "first_in_nodes P doc p k [] = None"
| "first_in_nodes P doc p k (n # ns) =
     (case first_node P doc (p @ [k]) n of Some r \<Rightarrow> Some r | None \<Rightarrow> first_in_nodes P doc p (Suc k) ns)"

definition matchesQuery :: "XMLAttrs \<Rightarrow> ElementQuery \<Rightarrow> bool" where
  "matchesQuery node query =
     (if eq_ResourceID query \<noteq> '''' then xa_ResourceID node = eq_ResourceID query \<or> id_suffix (xa_ResourceID node) (eq_ResourceID query)
      else if eq_ContentDesc query \<noteq> '''' then xa_ContentDesc node = eq_ContentDesc query
      else if eq_Text query \<noteq> '''' then xa_Text node = eq_Text query \<or> strings_Contains (xa_Text node) (eq_Text query)
      else if eq_Class query \<noteq> '''' then xa_Class node = eq_Class query
      else False)"

definition SearchNode :: "nat \<Rightarrow> nat list \<Rightarrow> XMLNode \<Rightarrow> ElementQuery \<Rightarrow> XMLRef option" where
  "SearchNode doc p node query = first_node (\<lambda>a. matchesQuery a query) doc p node"

definition findNodeByFocus :: "nat \<Rightarrow> nat list \<Rightarrow> XMLNode \<Rightarrow> XMLRef option" where
  "findNodeByFocus doc p node = first_node (\<lambda>a. xa_Focused a = ''true'') doc p node"

definition findNodeByClass :: "nat \<Rightarrow> nat list \<Rightarrow> XMLNode \<Rightarrow> string \<Rightarrow> XMLRef option" where
  "findNodeByClass doc p node className = first_node (\<lambda>a. xa_Class a = className) doc p node"

text \<open>The loop over the top-level nodes that stops at the first result.\<close>

fun first_root :: "(nat list \<Rightarrow> XMLNode \<Rightarrow> XMLRef option) \<Rightarrow> nat \<Rightarrow> XMLNode list \<Rightarrow> XMLRef option" where
  "first_root f k [] = None"
| "first_root f k (n # ns) = (case f [k] n of Some r \<Rightarrow> Some r | None \<Rightarrow> first_root f (Suc k) ns)"

definition FindFocusedOrEditTextNode :: "ui_lib \<Rightarrow> nat \<Rightarrow> string \<Rightarrow> string + XMLRef" where
  "FindFocusedOrEditTextNode lib doc xmlData =
     (case ul_Unmarshal lib xmlData of
        Inl e \<Rightarrow> Inl e
      | Inr h \<Rightarrow>
          (case first_root (findNodeByFocus doc) 0 (uh_Nodes h) of
             Some r \<Rightarrow> Inr r
           | None \<Rightarrow>
               (case first_root (\<lambda>p n. findNodeByClass doc p n ''android.widget.EditText'') 0 (uh_Nodes h) of
                  Some r \<Rightarrow> Inr r
                | None \<Rightarrow> Inl ''no focused or EditText node found in UI hierarchy'')))"

definition FindElement :: "ui_lib \<Rightarrow> nat \<Rightarrow> string \<Rightarrow> ElementQuery \<Rightarrow> 32 word \<Rightarrow> 32 word \<Rightarrow> string + (float64 \<times> float64)" where
  "FindElement lib doc xmlData query width height =
     (if sint width \<le> 0 \<or> sint height \<le> 0 then Inl ''invalid screen dimensions''
      else (case ParseXMLTree lib doc xmlData of
              Inl e \<Rightarrow> Inl e
            | Inr tree \<Rightarrow>
                let target = (UIElement (zero_attrs\<lparr>ue_ResourceID := eq_ResourceID query, ue_ContentDesc := eq_ContentDesc query,
                      ue_Text := eq_Text query, ue_Class := eq_Class query\<rparr>) [], [])
                in (case ResolveElement lib (Some (tree, [])) (Some target) None of
                      Inl e \<Rightarrow> Inl e
                    | Inr (best, _) \<Rightarrow>
                        let b = ue_Bounds (deref best) in
                        Inr (real_of_int (int64 (Left b + Right b)) / 2 / real_of_int (sint width),
                             real_of_int (int64 (Top b + Bottom b)) / 2 / real_of_int (sint height)))))"

section \<open>locator_xpath.go\<close>

fun all_nodes :: "nat \<Rightarrow> nat list \<Rightarrow> XMLNode \<Rightarrow> XMLRef list"
  and all_in_nodes :: "nat \<Rightarrow> nat list \<Rightarrow> nat \<Rightarrow> XMLNode list \<Rightarrow> XMLRef list" where
  "all_nodes doc p (XMLNode a ns) = \<lparr>xr_doc = doc, xr_path = p, xr_node = XMLNode a ns\<rparr> # all_in_nodes doc p 0 ns"
| "all_in_nodes doc p k [] = []"
| "all_in_nodes doc p k (n # ns) = all_nodes doc (p @ [k]) n @ all_in_nodes doc p (Suc k) ns"

definition collectAll :: "nat \<Rightarrow> UIHierarchy \<Rightarrow> (XMLAttrs \<Rightarrow> bool) \<Rightarrow> XMLRef list" where
  "collectAll doc h P = filter (\<lambda>r. P (xn (xr_node r))) (all_in_nodes doc [] 0 (uh_Nodes h))"

fun find_index :: "string \<Rightarrow> nat \<Rightarrow> XMLNode list \<Rightarrow> (nat \<times> XMLNode) option" where
  "find_index idx k [] = None"
| "find_index idx k (n # ns) = (if xa_Index (xn n) = idx then Some (k, n) else find_index idx (Suc k) ns)"

fun walk_steps :: "nat \<Rightarrow> nat list \<Rightarrow> XMLNode list \<Rightarrow> string list \<Rightarrow> XMLRef option outcome" where
  "walk_steps doc p nodes [] = Return None"
| "walk_steps doc p nodes (part # parts) =
     (if \<not> strings_HasPrefix part step_prefix \<or> \<not> strings_HasSuffix part step_suffix then Return None
      else (case slice part (length step_prefix) (length part - length step_suffix) of
              None \<Rightarrow> Panic
            | Some idx \<Rightarrow>
                (case find_index idx 0 nodes of
                   None \<Rightarrow> Return None
                 | Some (k, n) \<Rightarrow>
                     if parts = [] then Return (Some \<lparr>xr_doc = doc, xr_path = p @ [k], xr_node = n\<rparr>)
                     else walk_steps doc (p @ [k]) (xn_Nodes n) parts)))"

text \<open>The form \<^verbatim>\<open>(...)[k]\<close>: the expression in the parentheses and the index.\<close>

definition indexed_xpath :: "string \<Rightarrow> string \<times> int" where
  "indexed_xpath xpath =
     (if strings_HasPrefix xpath ''('' then
        (case strings_LastIndex xpath (CHR '')'') of
           None \<Rightarrow> (xpath, 1)
         | Some lastClose \<Rightarrow>
             let suffix = drop (Suc lastClose) xpath in
             if lastClose < length xpath - 1 \<and> strings_HasPrefix suffix ''['' \<and> strings_HasSuffix suffix '']'' then
               (case scan_int (butlast (tl suffix)) of
                  None \<Rightarrow> (xpath, 1)
                | Some (k, _) \<Rightarrow> (tl (take lastClose xpath), k))
             else (xpath, 1))
      else (xpath, 1))"

text \<open>The class and the attribute test of \<^verbatim>\<open>//class[@attr='value']\<close>.\<close>

definition attribute_test :: "string \<Rightarrow> (string \<times> (string \<times> string) option) outcome" where
  "attribute_test s =
     (case strings_Index s (CHR ''['') of
        None \<Rightarrow> Return (s, None)
      | Some b \<Rightarrow>
          (case slice s (Suc b) (length s - 1) of
             None \<Rightarrow> Panic
           | Some attrExpr \<Rightarrow>
               Return (take b s,
                 if strings_HasPrefix attrExpr ''@'' then
                   (case strings_SplitN2 (strings_TrimPrefix attrExpr ''@'') (CHR ''='') of
                      [name, val] \<Rightarrow> Some (strings_TrimSpace name, strings_Trim (strings_TrimSpace val) [CHR 0x27, CHR 0x22])
                    | _ \<Rightarrow> None)
                 else None)))"

definition node_passes :: "string \<Rightarrow> (string \<times> string) option \<Rightarrow> XMLAttrs \<Rightarrow> bool" where
  "node_passes className attr n =
     (if className \<noteq> '''' \<and> className \<noteq> ''*'' \<and> className \<noteq> ''node'' \<and> xa_Class n \<noteq> className then False
      else (case attr of
              None \<Rightarrow> True
            | Some (name, val) \<Rightarrow>
                if name = ''resource-id'' then xa_ResourceID n = val \<or> id_suffix (xa_ResourceID n) val
                else if name = ''content-desc'' then xa_ContentDesc n = val
                else if name = ''text'' then xa_Text n = val \<or> strings_Contains (xa_Text n) val
                else if name = ''class'' then xa_Class n = val
                else if name = ''index'' then xa_Index n = val
                else False))"

definition EvaluateXPath :: "nat \<Rightarrow> UIHierarchy \<Rightarrow> string \<Rightarrow> XMLRef option outcome" where
  "EvaluateXPath doc h xpath =
     (if xpath = '''' then Return None
      else
        (let (xpath, targetIdx) = indexed_xpath (strings_TrimSpace xpath) in
         if strings_HasPrefix xpath ''/hierarchy/'' then
           walk_steps doc [] (uh_Nodes h) (strings_Split (strings_TrimPrefix xpath ''/hierarchy/'') (CHR ''/''))
         else if strings_HasPrefix xpath ''//'' then
           (case attribute_test (strings_TrimPrefix xpath ''//'') of
              Panic \<Rightarrow> Panic
            | Return (className, attr) \<Rightarrow>
                let matches = collectAll doc h (node_passes className attr) in
                Return (if 1 \<le> targetIdx \<and> targetIdx \<le> int (length matches) then Some (matches ! nat (targetIdx - 1)) else None))
         else Return None))"

definition FindByLocator :: "ui_lib \<Rightarrow> nat \<Rightarrow> string \<Rightarrow> Locator \<Rightarrow> AnchorContext option \<Rightarrow> (string + XMLRef) outcome" where
  "FindByLocator lib doc xmlData loc anchor =
     (case ParseXMLTree lib doc xmlData of
        Inl e \<Rightarrow> Return (Inl e)
      | Inr tree \<Rightarrow>
          (let resolve = (\<lambda>a. Return (case ResolveElement lib (Some (tree, [])) (Some (UIElement a [], [])) anchor of
                 Inl e \<Rightarrow> Inl e
               | Inr (best, _) \<Rightarrow>
                   (case ue_XMLRef (deref best) of None \<Rightarrow> Inl ''no matching XMLRef node found'' | Some x \<Rightarrow> Inr x)))
           in if loc_Strategy loc = ''resourceId'' then resolve (zero_attrs\<lparr>ue_ResourceID := loc_Value loc\<rparr>)
              else if loc_Strategy loc = ''text'' then resolve (zero_attrs\<lparr>ue_Text := loc_Value loc\<rparr>)
              else if loc_Strategy loc = ''contentDesc'' then resolve (zero_attrs\<lparr>ue_ContentDesc := loc_Value loc\<rparr>)
              else if loc_Strategy loc = ''class'' then resolve (zero_attrs\<lparr>ue_Class := loc_Value loc\<rparr>)
              else if loc_Strategy loc = ''xpath'' then
                (let missed = Inl (''xpath locator matched nothing: '' @ loc_Value loc) in
                 case ul_Unmarshal lib xmlData of
                   Inl _ \<Rightarrow> Return missed
                 | Inr h \<Rightarrow>
                     (case EvaluateXPath (Suc doc) h (loc_Value loc) of
                        Panic \<Rightarrow> Panic
                      | Return (Some r) \<Rightarrow> Return (Inr r)
                      | Return None \<Rightarrow> Return missed))
              else Return (Inl (''unknown locator strategy: '' @ loc_Strategy loc))))"

section \<open>locator_generation.go\<close>

definition findFirstTextNode :: "nat \<Rightarrow> nat list \<Rightarrow> XMLNode \<Rightarrow> XMLRef option" where
  "findFirstTextNode doc p node = first_node (\<lambda>a. xa_Text a \<noteq> '''') doc p node"

text \<open>The text of the first node with a text, below one of the siblings of the \<^verbatim>\<open>i\<close>-th child.\<close>

fun sibling_text :: "nat \<Rightarrow> nat \<Rightarrow> XMLNode list \<Rightarrow> string" where
  "sibling_text i j [] = ''''"
| "sibling_text i j (n # ns) =
     (if j = i then sibling_text i (Suc j) ns
      else if xa_Text (xn n) \<noteq> '''' then xa_Text (xn n)
      else (case findFirstTextNode 0 [] n of
              Some r \<Rightarrow> xa_Text (xn (xr_node r))
            | None \<Rightarrow> sibling_text i (Suc j) ns))"

definition looks_like :: "XMLAttrs \<Rightarrow> XMLAttrs \<Rightarrow> bool" where
  "looks_like c t \<longleftrightarrow> xa_Bounds c = xa_Bounds t \<and> xa_Class c = xa_Class t \<and> xa_ResourceID c = xa_ResourceID t \<and> xa_Text c = xa_Text t"

fun findParentAndSiblingsInNode :: "XMLAttrs \<Rightarrow> XMLNode \<Rightarrow> AnchorContext option"
  and parent_in_children :: "XMLAttrs \<Rightarrow> XMLAttrs \<Rightarrow> XMLNode list \<Rightarrow> nat \<Rightarrow> XMLNode list \<Rightarrow> AnchorContext option" where
  "findParentAndSiblingsInNode t (XMLNode a ns) = parent_in_children t a ns 0 ns"
| "parent_in_children t a all i [] = None"
| "parent_in_children t a all i (c # cs) =
     (if looks_like (xn c) t
      then Some \<lparr>anc_SiblingText = sibling_text i 0 all, anc_ParentID = xa_ResourceID a, anc_ParentClass = xa_Class a\<rparr>
      else (case findParentAndSiblingsInNode t c of
              Some x \<Rightarrow> Some x
            | None \<Rightarrow> parent_in_children t a all (Suc i) cs))"

fun findParentAndSiblings :: "XMLAttrs \<Rightarrow> XMLNode list \<Rightarrow> AnchorContext option" where
  "findParentAndSiblings t [] = None"
| "findParentAndSiblings t (n # ns) =
     (case findParentAndSiblingsInNode t n of Some x \<Rightarrow> Some x | None \<Rightarrow> findParentAndSiblings t ns)"

definition ExtractAnchor :: "ui_lib \<Rightarrow> string \<Rightarrow> XMLRef option \<Rightarrow> AnchorContext option" where
  "ExtractAnchor lib xmlData targetNode =
     (case targetNode of
        None \<Rightarrow> None
      | Some t \<Rightarrow>
          (case ul_Unmarshal lib xmlData of
             Inl _ \<Rightarrow> None
           | Inr h \<Rightarrow>
               (case findParentAndSiblings (xn (xr_node t)) (uh_Nodes h) of
                  None \<Rightarrow> None
                | Some a \<Rightarrow> if anc_SiblingText a = '''' \<and> anc_ParentID a = '''' then None else Some a)))"

definition countMatching :: "UIHierarchy \<Rightarrow> (XMLAttrs \<Rightarrow> bool) \<Rightarrow> nat" where
  "countMatching h P = length (collectAll 0 h P)"

fun findXPath :: "XMLRef \<Rightarrow> nat \<Rightarrow> nat list \<Rightarrow> XMLNode \<Rightarrow> string \<Rightarrow> string option"
  and findXPath_nodes :: "XMLRef \<Rightarrow> nat \<Rightarrow> nat list \<Rightarrow> nat \<Rightarrow> XMLNode list \<Rightarrow> string \<Rightarrow> string option" where
  "findXPath target doc p (XMLNode a ns) path =
     (if same_node \<lparr>xr_doc = doc, xr_path = p, xr_node = XMLNode a ns\<rparr> target then Some path
      else findXPath_nodes target doc p 0 ns path)"
| "findXPath_nodes target doc p k [] path = None"
| "findXPath_nodes target doc p k (n # ns) path =
     (case findXPath target doc (p @ [k]) n (path @ ''/'' @ index_part (xa_Index (xn n))) of
        Some x \<Rightarrow> Some x
      | None \<Rightarrow> findXPath_nodes target doc p (Suc k) ns path)"

definition coordinate_locator :: "string \<Rightarrow> float64 \<Rightarrow> float64 \<Rightarrow> Locator" where
  "coordinate_locator val x y = \<lparr>loc_Strategy = ''coordinates'', loc_Value = val, loc_Confidence = 10, loc_X = x, loc_Y = y\<rparr>"

definition selector :: "string \<Rightarrow> string \<Rightarrow> int \<Rightarrow> Locator" where
  "selector strategy val confidence = \<lparr>loc_Strategy = strategy, loc_Value = val, loc_Confidence = confidence, loc_X = 0, loc_Y = 0\<rparr>"

definition candidate_locators :: "UIHierarchy \<Rightarrow> nat \<Rightarrow> XMLRef \<Rightarrow> Locator \<Rightarrow> Locator list" where
  "candidate_locators h doc targetNode coords =
     (let a = xn (xr_node targetNode) in
      (if xa_ResourceID a \<noteq> '''' then
         [selector ''resourceId'' (xa_ResourceID a)
            (if IsContainerClass (xa_Class a) \<and> \<not> (xa_Text a \<noteq> '''' \<or> xa_ContentDesc a \<noteq> '''') then 20
             else if countMatching h (\<lambda>n. xa_ResourceID n = xa_ResourceID a) = 1 then 100 else 40)]
       else []) @
      (if xa_Text a \<noteq> '''' then
         [selector ''text'' (xa_Text a) (if countMatching h (\<lambda>n. xa_Text n = xa_Text a) = 1 then 95 else 60)]
       else []) @
      (if xa_ContentDesc a \<noteq> '''' then
         [selector ''contentDesc'' (xa_ContentDesc a) (if countMatching h (\<lambda>n. xa_ContentDesc n = xa_ContentDesc a) = 1 then 90 else 55)]
       else []) @
      (if xa_Class a \<noteq> '''' then [selector ''class'' (xa_Class a) 30] else []) @
      (case findXPath_nodes targetNode doc [] 0 (uh_Nodes h) ''/hierarchy'' of
         None \<Rightarrow> []
       | Some v \<Rightarrow> [selector ''xpath'' v 20]) @
      [coords])"

definition GenerateLocators :: "ui_lib \<Rightarrow> nat \<Rightarrow> string \<Rightarrow> XMLRef option \<Rightarrow> float64 \<Rightarrow> float64 \<Rightarrow> Locator list" where
  "GenerateLocators lib doc xmlData targetNode x y =
     (let coords = coordinate_locator (ul_coordinates lib x y) x y in
      case targetNode of
        None \<Rightarrow> [coords]
      | Some t \<Rightarrow>
          (case ul_Unmarshal lib xmlData of
             Inl _ \<Rightarrow> [coords]
           | Inr h \<Rightarrow>
               ul_sort_locators lib (\<lambda>k l. loc_Confidence k > loc_Confidence l) (candidate_locators h doc t coords)))"

end
