(* ===== verification/Automation_Driver.thy ===== *)
theory Automation_Driver
  imports Locator
begin

text \<open>
  The ground on which the automation code runs: the \<^verbatim>\<open>Driver\<close> interface of
  \<^verbatim>\<open>src/internal/domain/automation.go\<close>, contexts, the clock, and loops.

  A run takes the world (the state of the device behind the driver, the clock, and the count of
  \<^verbatim>\<open>xml.Unmarshal\<close> calls) to a result and the new world.  It is \<^term>\<open>None\<close> when it never returns, and
  \<^verbatim>\<open>Some Panic\<close> when it panics.  Only driver calls and waiting take time; a driver call takes any natural
  number of nanoseconds.  A context is known by the instant at which it ends, if it does, and by its error.
\<close>

section \<open>The world and the interface\<close>

record 'd World =
  w_dev :: 'd
  w_clock :: instant
  w_docs :: nat

record Context =
  ctx_end :: "instant option"
  ctx_error :: string

type_synonym ('r, 'd) run = "'d World \<Rightarrow> ('r \<times> 'd World) outcome option"

type_synonym ('r, 'd) call = "instant \<Rightarrow> 'd \<Rightarrow> 'r \<times> 'd \<times> nat"

record AppInfo =
  app_PackageName :: string
  app_Activity :: string

text \<open>The errors of calls without another result are options; of the others, the left of a sum.\<close>

record 'd Driver =
  dr_Launch :: "Context \<Rightarrow> string \<Rightarrow> (string option, 'd) call"
  dr_Terminate :: "Context \<Rightarrow> string \<Rightarrow> (string option, 'd) call"
  dr_Tap :: "Context \<Rightarrow> float64 \<Rightarrow> float64 \<Rightarrow> (string option, 'd) call"
  dr_Swipe :: "Context \<Rightarrow> float64 \<Rightarrow> float64 \<Rightarrow> float64 \<Rightarrow> float64 \<Rightarrow> int \<Rightarrow> (string option, 'd) call"
  dr_Input :: "Context \<Rightarrow> string \<Rightarrow> (string option, 'd) call"
  dr_Screenshot :: "Context \<Rightarrow> (string + 8 word list, 'd) call"
  dr_DumpUI :: "Context \<Rightarrow> (string + string, 'd) call"
  dr_CurrentApp :: "Context \<Rightarrow> (string + AppInfo, 'd) call"
  dr_Install :: "Context \<Rightarrow> string \<Rightarrow> (string option, 'd) call"
  dr_Uninstall :: "Context \<Rightarrow> string \<Rightarrow> (string option, 'd) call"
  dr_ScreenSize :: "Context \<Rightarrow> (string + 32 word \<times> 32 word, 'd) call"

definition Background :: Context where
  "Background = \<lparr>ctx_end = None, ctx_error = ''''\<rparr>"

definition ended :: "Context \<Rightarrow> instant \<Rightarrow> bool" where
  "ended ctx t \<longleftrightarrow> (case ctx_end ctx of None \<Rightarrow> False | Some u \<Rightarrow> u \<le> t)"

section \<open>Runs\<close>

definition ret :: "'r \<Rightarrow> ('r, 'd) run" where
  "ret r w = Some (Return (r, w))"

definition panic :: "('r, 'd) run" where
  "panic w = Some Panic"

definition andThen :: "('r, 'd) run \<Rightarrow> ('r \<Rightarrow> ('s, 'd) run) \<Rightarrow> ('s, 'd) run" where
  "andThen m f w =
     (case m w of None \<Rightarrow> None | Some Panic \<Rightarrow> Some Panic | Some (Return (r, w')) \<Rightarrow> f r w')"

definition perform :: "('r, 'd) call \<Rightarrow> ('r, 'd) run" where
  "perform f w =
     (let (r, d, n) = f (w_clock w) (w_dev w)
      in Some (Return (r, w\<lparr>w_dev := d, w_clock := w_clock w + int n\<rparr>)))"

text \<open>\<^verbatim>\<open>time.Now()\<close>, \<^verbatim>\<open>ctx.Err()\<close>, \<^verbatim>\<open>time.Sleep(d)\<close>, and a number for the next document.\<close>

definition Now :: "(instant, 'd) run" where
  "Now w = Some (Return (w_clock w, w))"

definition ctx_Err :: "Context \<Rightarrow> (string option, 'd) run" where
  "ctx_Err ctx w = Some (Return (if ended ctx (w_clock w) then Some (ctx_error ctx) else None, w))"

definition Sleep :: "duration \<Rightarrow> (unit, 'd) run" where
  "Sleep d w = Some (Return ((), w\<lparr>w_clock := w_clock w + max d 0\<rparr>))"

text \<open>A function of the locator package makes at most two calls of \<^verbatim>\<open>xml.Unmarshal\<close>.\<close>

definition fresh_doc :: "(nat, 'd) run" where
  "fresh_doc w = Some (Return (w_docs w, w\<lparr>w_docs := w_docs w + 2\<rparr>))"

text \<open>
  \<^verbatim>\<open>select { case <-ctx.Done(): ... case <-time.After(d): ... }\<close>: the result tells whether the context ended
  first.  When both happen at the same instant the program may take either; the model takes the context.
\<close>

definition wait_or_done :: "Context \<Rightarrow> duration \<Rightarrow> (bool, 'd) run" where
  "wait_or_done ctx d w =
     (let t = w_clock w + max d 0 in
      case ctx_end ctx of
        Some u \<Rightarrow>
          if u \<le> t then Some (Return (True, w\<lparr>w_clock := max (w_clock w) u\<rparr>))
          else Some (Return (False, w\<lparr>w_clock := t\<rparr>))
      | None \<Rightarrow> Some (Return (False, w\<lparr>w_clock := t\<rparr>)))"

text \<open>\<^verbatim>\<open>for { ... }\<close>: the body gives a result when it leaves the loop.\<close>

partial_function (option) forever :: "'s \<Rightarrow> ('s \<Rightarrow> ('r + 's, 'd) run) \<Rightarrow> 'd World \<Rightarrow> ('r \<times> 'd World) outcome option" where
  "forever s body w =
     (case body s w of
        None \<Rightarrow> None
      | Some res \<Rightarrow>
          (case res of
             Panic \<Rightarrow> Some Panic
           | Return rw \<Rightarrow>
               (case fst rw of
                  Inl r \<Rightarrow> Some (Return (r, snd rw))
                | Inr s' \<Rightarrow> forever s' body (snd rw))))"

abbreviation millisecond :: int where "millisecond \<equiv> 1000000"

section \<open>Runs that return\<close>

text \<open>
  A run is \<open>timely\<close> when it returns or panics in every world, and does not turn back the clock.  The
  rules below follow the structure of a program.
\<close>

definition timely :: "('r, 'd) run \<Rightarrow> bool" where
  "timely m \<longleftrightarrow> (\<forall>w. m w = Some Panic \<or> (\<exists>r w'. m w = Some (Return (r, w')) \<and> w_clock w \<le> w_clock w'))"

named_theorems timely_intros

lemma timelyD: "timely m \<Longrightarrow> m w = Some Panic \<or> (\<exists>r w'. m w = Some (Return (r, w')) \<and> w_clock w \<le> w_clock w')"
  by (simp add: timely_def)

lemma timely_returns: "timely m \<Longrightarrow> m w \<noteq> None"
  using timelyD [of m w] by auto

lemma timely_Return: "timely m \<Longrightarrow> m w = Some (Return (r, w')) \<Longrightarrow> w_clock w \<le> w_clock w'"
  using timelyD [of m w] by auto

lemma timely_ret [timely_intros]: "timely (ret r)"
  by (simp add: timely_def ret_def)

lemma timely_panic [timely_intros]: "timely panic"
  by (simp add: timely_def panic_def)

lemma timely_perform [timely_intros]: "timely (perform f)"
  by (simp add: timely_def perform_def case_prod_unfold Let_def)

lemma timely_Now [timely_intros]: "timely Now"
  by (simp add: timely_def Now_def)

lemma timely_ctx_Err [timely_intros]: "timely (ctx_Err ctx)"
  by (simp add: timely_def ctx_Err_def)

lemma timely_Sleep [timely_intros]: "timely (Sleep d)"
  by (simp add: timely_def Sleep_def)

lemma timely_fresh_doc [timely_intros]: "timely fresh_doc"
  by (simp add: timely_def fresh_doc_def)

lemma timely_wait_or_done [timely_intros]: "timely (wait_or_done ctx d)"
  by (auto simp: timely_def wait_or_done_def Let_def split: option.splits)

lemma timely_andThen [timely_intros]: "timely m \<Longrightarrow> (\<And>r. timely (f r)) \<Longrightarrow> timely (andThen m f)"
proof -
  assume m: "timely m" and f: "\<And>r. timely (f r)"
  show ?thesis
    unfolding timely_def
  proof
    fix w
    from timelyD [OF m, of w]
    show "andThen m f w = Some Panic \<or> (\<exists>r w'. andThen m f w = Some (Return (r, w')) \<and> w_clock w \<le> w_clock w')"
    proof (elim disjE exE conjE)
      fix r w'
      assume "m w = Some (Return (r, w'))" "w_clock w \<le> w_clock w'"
      with timelyD [OF f, of r w'] show ?thesis by (fastforce simp: andThen_def)
    qed (simp add: andThen_def)
  qed
qed

lemma timely_if [timely_intros]: "(b \<Longrightarrow> timely m) \<Longrightarrow> (\<not> b \<Longrightarrow> timely n) \<Longrightarrow> timely (if b then m else n)"
  by simp

lemma timely_option [timely_intros]:
  "(v = None \<Longrightarrow> timely m) \<Longrightarrow> (\<And>x. v = Some x \<Longrightarrow> timely (f x)) \<Longrightarrow> timely (case v of None \<Rightarrow> m | Some x \<Rightarrow> f x)"
  by (cases v) simp_all

lemma timely_sum [timely_intros]:
  "(\<And>x. timely (f x)) \<Longrightarrow> (\<And>y. timely (g y)) \<Longrightarrow> timely (case s of Inl x \<Rightarrow> f x | Inr y \<Rightarrow> g y)"
  by (cases s) simp_all

lemma timely_outcome [timely_intros]:
  "timely m \<Longrightarrow> (\<And>x. timely (f x)) \<Longrightarrow> timely (case v of Panic \<Rightarrow> m | Return x \<Rightarrow> f x)"
  by (cases v) simp_all

lemma timely_prod [timely_intros]: "(\<And>x y. timely (f x y)) \<Longrightarrow> timely (case p of (x, y) \<Rightarrow> f x y)"
  by (cases p) simp

lemma timely_Let [timely_intros]: "(\<And>x. timely (f x)) \<Longrightarrow> timely (Let e f)"
  by simp

text \<open>A loop returns when every round that goes on lasts at least one nanosecond and there is a deadline for rounds that go on.\<close>

lemma forever_timely:
  assumes body: "\<And>s. timely (body s)"
    and advance: "\<And>s s' w w'. body s w = Some (Return (Inr s', w')) \<Longrightarrow> w_clock w < w_clock w' \<and> w_clock w \<le> limit"
  shows "timely (forever s body)"
  unfolding timely_def
proof
  fix w
  show "forever s body w = Some Panic \<or> (\<exists>r w'. forever s body w = Some (Return (r, w')) \<and> w_clock w \<le> w_clock w')"
  proof (induction "nat (limit + 1 - w_clock w)" arbitrary: s w rule: less_induct)
    case less
    consider "body s w = Some Panic" | r w' where "body s w = Some (Return (Inl r, w'))" "w_clock w \<le> w_clock w'"
      | s' w' where "body s w = Some (Return (Inr s', w'))" "w_clock w \<le> w_clock w'"
      using timelyD [OF body, of s w] by (metis sum.exhaust)
    then show ?case
    proof cases
      case 3
      with advance [OF 3(1)] less [of w' s'] show ?thesis
        by (subst (1 2) forever.simps) (simp, fastforce)
    qed (simp_all add: forever.simps)
  qed
qed

text \<open>A loop whose rounds all go on does not return.\<close>

lemma forever_hangs:
  assumes start: "goes_on s w" and goes: "\<And>s w. goes_on s w \<Longrightarrow> \<exists>s' w'. body s w = Some (Return (Inr s', w')) \<and> goes_on s' w'"
  shows "forever s body w = None"
proof -
  have "b = body \<longrightarrow> \<not> goes_on s w" if "forever s b w = Some y" for s b w y
    using that
  proof (induction rule: forever.raw_induct [rotated, consumes 1, case_names step])
    case (step loop s b w y)
    show ?case
    proof (intro impI notI)
      assume "b = body" "goes_on s w"
      with goes [of s w] obtain s' w' where "b s w = Some (Return (Inr s', w'))" "goes_on s' w'" by blast
      with step \<open>b = body\<close> show False by auto
    qed
  qed
  with start show ?thesis by (metis not_None_eq)
qed

text \<open>What holds of the result of a loop: an invariant of the rounds, and what a round that ends yields.\<close>

lemma forever_partial:
  assumes start: "holds s w" and res: "forever s body w = Some (Return (r, w'))"
    and goes: "\<And>s w s' w'. holds s w \<Longrightarrow> body s w = Some (Return (Inr s', w')) \<Longrightarrow> holds s' w'"
    and ends: "\<And>s w r w'. holds s w \<Longrightarrow> body s w = Some (Return (Inl r, w')) \<Longrightarrow> post r w'"
  shows "post r w'"
proof -
  have "b = body \<longrightarrow> holds s w \<longrightarrow> (\<forall>r w'. y = Return (r, w') \<longrightarrow> post r w')" if "forever s b w = Some y" for s b w y
    using that
  proof (induction rule: forever.raw_induct [rotated, consumes 1, case_names step])
    case (step loop s b w y)
    show ?case
    proof (intro impI allI)
      fix r w'
      assume *: "b = body" "holds s w" "y = Return (r, w')"
      with step(2) obtain x v where body: "body s w = Some (Return (x, v))" by (auto split: option.splits outcome.splits)
      show "post r w'"
      proof (cases x)
        case (Inl q)
        with * body step(2) ends [of s w q v] show ?thesis by simp
      next
        case (Inr t)
        with * body goes [of s w t v] have "holds t v" by simp
        with Inr * body step(2) step(1) [of t b v y] show ?thesis by simp
      qed
    qed
  qed
  with start res show ?thesis by blast
qed

end
