(* ===== verification/IOS_Driver.thy ===== *)
theory IOS_Driver
  imports Wda Automation_Driver
begin

text \<open>
  \<^verbatim>\<open>src/internal/automation/ios_driver.go\<close>: the driver of iOS devices, over the WebDriverAgent client.  As there,
  the first component of a result is \<^term>\<open>None\<close> when the call never returns.  The conversions of JSON bodies and
  of text are a record of functions.
\<close>

record wda_lib =
  wl_session :: "string \<Rightarrow> string + string"
  wl_size :: "string \<Rightarrow> string + float64 \<times> float64"
  wl_value :: "string \<Rightarrow> string + string"
  wl_base64 :: "string \<Rightarrow> string + 8 word list"
  wl_runes :: "string \<Rightarrow> string list"

definition wda_ret :: "'r \<Rightarrow> ('r, 's) wda_call" where
  "wda_ret r c s = (Some r, c, s)"

definition wda_bind :: "('r, 's) wda_call \<Rightarrow> ('r \<Rightarrow> ('q, 's) wda_call) \<Rightarrow> ('q, 's) wda_call" where
  "wda_bind m f c s = (case m c s of (None, c, s) \<Rightarrow> (None, c, s) | (Some r, c, s) \<Rightarrow> f r c s)"

section \<open>The driver\<close>

definition NewIOSDriver :: "int \<Rightarrow> Client" where
  "NewIOSDriver wdaPort = NewClient wdaPort"

definition ensureSession :: "wda_lib \<Rightarrow> 's wda_server \<Rightarrow> (string option, 's) wda_call" where
  "ensureSession lib srv = EnsureSession (wl_session lib) srv"

definition with_session :: "wda_lib \<Rightarrow> 's wda_server \<Rightarrow> (string \<Rightarrow> 'r) \<Rightarrow> ('r, 's) wda_call \<Rightarrow> ('r, 's) wda_call" where
  "with_session lib srv fail m =
     wda_bind (ensureSession lib srv) (\<lambda>e. case e of Some e \<Rightarrow> wda_ret (fail e) | None \<Rightarrow> m)"

definition Launch :: "wda_lib \<Rightarrow> 's wda_server \<Rightarrow> string \<Rightarrow> (string option, 's) wda_call" where
  "Launch lib srv appID = with_session lib srv Some (LaunchApp srv appID)"

definition Terminate :: "wda_lib \<Rightarrow> 's wda_server \<Rightarrow> string \<Rightarrow> (string option, 's) wda_call" where
  "Terminate lib srv appID = with_session lib srv Some (TerminateApp srv appID)"

text \<open>An error of the size request is not reported: the size is then that of an iPhone 14.\<close>

definition ScreenSize :: "wda_lib \<Rightarrow> 's wda_server \<Rightarrow> (string + 32 word \<times> 32 word, 's) wda_call" where
  "ScreenSize lib srv =
     with_session lib srv Inl
       (wda_bind SessionID (\<lambda>i.
          wda_bind (Request srv ''GET'' (''/session/'' @ i @ ''/window/size'') NoBody (Some (wl_size lib))) (\<lambda>r.
            wda_ret (Inr (case r of
                Inl _ \<Rightarrow> (390, 844)
              | Inr None \<Rightarrow> (0, 0)
              | Inr (Some (w, h)) \<Rightarrow> (word_of_int (Locator.truncate w), word_of_int (Locator.truncate h)))))))"

definition Tap :: "wda_lib \<Rightarrow> 's wda_server \<Rightarrow> float64 \<Rightarrow> float64 \<Rightarrow> (string option, 's) wda_call" where
  "Tap lib srv x y =
     with_session lib srv Some
       (wda_bind (ScreenSize lib srv) (\<lambda>size.
          case size of
            Inl e \<Rightarrow> wda_ret (Some e)
          | Inr (w, h) \<Rightarrow> Wda.Tap srv (x * real_of_int (sint w)) (y * real_of_int (sint h))))"

definition Swipe :: "wda_lib \<Rightarrow> 's wda_server \<Rightarrow> float64 \<Rightarrow> float64 \<Rightarrow> float64 \<Rightarrow> float64 \<Rightarrow> int \<Rightarrow> (string option, 's) wda_call" where
  "Swipe lib srv startX startY endX endY durationMs =
     with_session lib srv Some
       (wda_bind (ScreenSize lib srv) (\<lambda>size.
          case size of
            Inl e \<Rightarrow> wda_ret (Some e)
          | Inr (w, h) \<Rightarrow>
              (let durationSec = real_of_int durationMs / 1000;
                   durationSec = (if durationSec \<le> 0 then 1 / 2 else durationSec)
               in Wda.Swipe srv (startX * real_of_int (sint w)) (startY * real_of_int (sint h))
                    (endX * real_of_int (sint w)) (endY * real_of_int (sint h)) durationSec)))"

definition Input :: "wda_lib \<Rightarrow> 's wda_server \<Rightarrow> string \<Rightarrow> (string option, 's) wda_call" where
  "Input lib srv text = with_session lib srv Some (SendKeys (wl_runes lib) srv text)"

definition Screenshot :: "wda_lib \<Rightarrow> 's wda_server \<Rightarrow> (string + 8 word list, 's) wda_call" where
  "Screenshot lib srv = with_session lib srv Inl (Wda.Screenshot (wl_value lib) (wl_base64 lib) srv)"

definition value_or_empty :: "string option \<Rightarrow> string" where
  "value_or_empty v = (case v of None \<Rightarrow> '''' | Some x \<Rightarrow> x)"

definition DumpUI :: "wda_lib \<Rightarrow> 's wda_server \<Rightarrow> (string + string, 's) wda_call" where
  "DumpUI lib srv =
     with_session lib srv Inl
       (wda_bind SessionID (\<lambda>i.
          wda_bind (Request srv ''GET'' (''/session/'' @ i @ ''/source?format=xml'') NoBody (Some (wl_value lib))) (\<lambda>r.
            case r of
              Inr v \<Rightarrow> wda_ret (Inr (value_or_empty v))
            | Inl e \<Rightarrow>
                wda_bind (Request srv ''GET'' ''/source?format=xml'' NoBody (Some (wl_value lib))) (\<lambda>r.
                  case r of
                    Inr v \<Rightarrow> wda_ret (Inr (value_or_empty v))
                  | Inl fbErr \<Rightarrow> wda_ret (Inl (''wda source request failed: '' @ e @ '' (fallback error: '' @ fbErr @ '')''))))))"

definition CurrentApp :: AppInfo where
  "CurrentApp = \<lparr>app_PackageName = ''com.apple.springboard'', app_Activity = ''SpringBoard''\<rparr>"

definition Install :: "string \<Rightarrow> (string option, 's) wda_call" where
  "Install path = wda_ret None"

definition Uninstall :: "string \<Rightarrow> (string option, 's) wda_call" where
  "Uninstall appID = wda_ret None"

section \<open>Calls that return\<close>

text \<open>A call is \<open>nonblocking\<close> when it returns from every client whose mutex is free, and leaves it free.\<close>

definition nonblocking :: "('r, 's) wda_call \<Rightarrow> bool" where
  "nonblocking m \<longleftrightarrow> (\<forall>c s. \<not> wc_locked c \<longrightarrow> (\<exists>r c' s'. m c s = (Some r, c', s') \<and> \<not> wc_locked c'))"

named_theorems nonblocking_intros

lemma nonblocking_ret [nonblocking_intros]: "nonblocking (wda_ret r)"
  by (simp add: nonblocking_def wda_ret_def)

lemma nonblocking_bind [nonblocking_intros]: "nonblocking m \<Longrightarrow> (\<And>r. nonblocking (f r)) \<Longrightarrow> nonblocking (wda_bind m f)"
proof -
  assume m: "nonblocking m" and f: "\<And>r. nonblocking (f r)"
  show ?thesis
    unfolding nonblocking_def
  proof (intro allI impI)
    fix c :: Client and s
    assume "\<not> wc_locked c"
    with m obtain r c' s' where "m c s = (Some r, c', s')" "\<not> wc_locked c'" unfolding nonblocking_def by blast
    with f [of r] show "\<exists>r c' s'. wda_bind m f c s = (Some r, c', s') \<and> \<not> wc_locked c'"
      by (simp add: nonblocking_def wda_bind_def)
  qed
qed

lemma nonblocking_if [nonblocking_intros]: "(b \<Longrightarrow> nonblocking m) \<Longrightarrow> (\<not> b \<Longrightarrow> nonblocking n) \<Longrightarrow> nonblocking (if b then m else n)"
  by simp

lemma nonblocking_option [nonblocking_intros]:
  "nonblocking m \<Longrightarrow> (\<And>x. nonblocking (f x)) \<Longrightarrow> nonblocking (case v of None \<Rightarrow> m | Some x \<Rightarrow> f x)"
  by (cases v) simp_all

lemma nonblocking_sum [nonblocking_intros]:
  "(\<And>x. nonblocking (f x)) \<Longrightarrow> (\<And>y. nonblocking (g y)) \<Longrightarrow> nonblocking (case v of Inl x \<Rightarrow> f x | Inr y \<Rightarrow> g y)"
  by (cases v) simp_all

lemma nonblocking_prod [nonblocking_intros]: "(\<And>x y. nonblocking (f x y)) \<Longrightarrow> nonblocking (case p of (x, y) \<Rightarrow> f x y)"
  by (cases p) simp

lemma nonblocking_Let [nonblocking_intros]: "(\<And>x. nonblocking (f x)) \<Longrightarrow> nonblocking (Let e f)"
  by simp

lemma nonblockingI:
  assumes "\<And>c s r c' s'. \<not> wc_locked c \<Longrightarrow> m c s = (r, c', s') \<Longrightarrow> r \<noteq> None \<and> \<not> wc_locked c'"
  shows "nonblocking m"
  unfolding nonblocking_def using assms by (metis not_None_eq prod_cases3)

lemma nonblocking_Request [nonblocking_intros]: "nonblocking (Request srv verb path body decode)"
  by (rule nonblockingI) (auto dest: Request_lock)

lemma nonblocking_SessionID [nonblocking_intros]: "nonblocking SessionID"
  by (simp add: nonblocking_def SessionID_def)

lemma nonblocking_session_command [nonblocking_intros]: "nonblocking (session_command srv inactive path body failed)"
  by (rule nonblockingI) (auto dest: session_command_lock)

lemma nonblocking_Screenshot [nonblocking_intros]: "nonblocking (Wda.Screenshot decode base64 srv)"
  by (rule nonblockingI)
    (auto simp: Wda.Screenshot_def Let_def split: prod.splits option.splits sum.splits if_splits dest!: Request_lock)

lemmas wda_commands = Wda.Tap_def Wda.Swipe_def SendKeys_def LaunchApp_def TerminateApp_def OpenURL_def PressButton_def

text \<open>The requests that are sent with the mutex held: their answers must not be that the session is unknown.\<close>

definition sessions_accepted :: "'s wda_server \<Rightarrow> bool" where
  "sessions_accepted srv \<longleftrightarrow>
     (\<forall>url s code b e s'. srv ''POST'' url SessionBody s = (Answer code b e, s') \<longrightarrow> \<not> session_lost code b) \<and>
     (\<forall>url s code b e s'. srv ''POST'' url SettingsBody s = (Answer code b e, s') \<longrightarrow> \<not> session_lost code b)"

lemma sessions_acceptedD:
  "sessions_accepted srv \<Longrightarrow> srv ''POST'' url SessionBody s = (Answer code b e, s') \<Longrightarrow> \<not> session_lost code b"
  "sessions_accepted srv \<Longrightarrow> srv ''POST'' url SettingsBody s = (Answer code b e, s') \<Longrightarrow> \<not> session_lost code b"
  unfolding sessions_accepted_def by blast+

lemma Request_not_lost:
  assumes "\<And>code b e s'. srv verb (wc_baseURL c @ path) body s = (Answer code b e, s') \<Longrightarrow> \<not> session_lost code b"
  shows "fst (Request srv verb path body decode c s) \<noteq> None"
  using assms by (fastforce simp: Request_def Let_def split: prod.splits http_answer.splits if_splits option.splits sum.splits)

lemma session_lost_small: "200 \<le> code \<and> code < 300 \<Longrightarrow> \<not> session_lost code b"
  by (simp add: session_lost_def)

lemma createSessionLocked_returns:
  assumes "sessions_accepted srv"
  shows "fst (createSessionLocked decode srv c s) \<noteq> None"
proof -
  obtain r c' s' where first: "Request srv ''POST'' ''/session'' SessionBody (Some decode) c s = (r, c', s')" by (rule prod_cases3)
  from first have "r \<noteq> None"
    using Request_not_lost [of srv "''POST''" c "''/session''" SessionBody s "Some decode", OF sessions_acceptedD(1) [OF assms]] by simp
  then obtain v where v: "r = Some v" by blast
  have settings: "fst (Request srv ''POST'' path SettingsBody (None :: (string \<Rightarrow> string + unit) option) d t) \<noteq> None" for path d t
    by (rule Request_not_lost [OF sessions_acceptedD(2) [OF assms]])
  show ?thesis
  proof (cases v)
    case (Inl e)
    with first v show ?thesis by (simp add: createSessionLocked_def)
  next
    case (Inr u)
    let ?i = "case u of Some i \<Rightarrow> i | None \<Rightarrow> ''''"
    obtain q d t where q: "Request srv ''POST'' (''/session/'' @ ?i @ ''/settings'') SettingsBody (None :: (string \<Rightarrow> string + unit) option)
        (c'\<lparr>wc_sessionID := ?i\<rparr>) s' = (q, d, t)" by (rule prod_cases3)
    with settings [of "''/session/'' @ ?i @ ''/settings''" "c'\<lparr>wc_sessionID := ?i\<rparr>" s'] obtain z where "q = Some z" by auto
    with first v Inr q show ?thesis by (simp add: createSessionLocked_def Let_def)
  qed
qed

lemma nonblocking_ensureSession [nonblocking_intros]:
  assumes "sessions_accepted srv"
  shows "nonblocking (ensureSession lib srv)"
proof (rule nonblockingI)
  fix c s r c' s'
  assume free: "\<not> wc_locked c" and e: "ensureSession lib srv c s = (r, c', s')"
  show "r \<noteq> None \<and> \<not> wc_locked c'"
  proof (cases "wc_sessionID c = ''''")
    case False
    with free e show ?thesis by (auto simp: ensureSession_def EnsureSession_def)
  next
    case True
    obtain q d t where q: "createSessionLocked (wl_session lib) srv (lock c) s = (q, d, t)" by (rule prod_cases3)
    with createSessionLocked_returns [OF assms, of "wl_session lib" "lock c" s] obtain v where "q = Some v" by auto
    with q True free e show ?thesis
      by (cases v) (auto simp: ensureSession_def EnsureSession_def with_lock_def lock_def unlock_def)
  qed
qed

lemma nonblocking_with_session [nonblocking_intros]:
  "sessions_accepted srv \<Longrightarrow> nonblocking m \<Longrightarrow> nonblocking (with_session lib srv fail m)"
  unfolding with_session_def by (intro nonblocking_intros)

lemma nonblocking_ScreenSize [nonblocking_intros]: "sessions_accepted srv \<Longrightarrow> nonblocking (ScreenSize lib srv)"
  unfolding ScreenSize_def by (intro nonblocking_intros)

text \<open>
  As long as the server does not answer the creation of a session with \<^emph>\<open>no such session\<close>, every operation of
  the driver returns from a client whose mutex is free and leaves it free, whatever the server answers to
  anything else.
\<close>

theorem ios_driver_returns:
  assumes "sessions_accepted srv"
  shows "nonblocking (Launch lib srv appID) \<and> nonblocking (Terminate lib srv appID) \<and> nonblocking (Tap lib srv x y) \<and>
    nonblocking (Swipe lib srv x y x' y' ms) \<and> nonblocking (Input lib srv txt) \<and> nonblocking (Screenshot lib srv) \<and>
    nonblocking (DumpUI lib srv) \<and> nonblocking (ScreenSize lib srv)"
  unfolding Launch_def Terminate_def Tap_def Swipe_def Input_def Screenshot_def DumpUI_def wda_commands
  by (intro conjI nonblocking_intros assms)

definition ex_wda_lib :: wda_lib where
  "ex_wda_lib = \<lparr>wl_session = (\<lambda>_. Inr ''S2''), wl_size = (\<lambda>_. Inr (390, 844)), wl_value = Inr, wl_base64 = (\<lambda>_. Inr []),
     wl_runes = map (\<lambda>c. [c])\<rparr>"

text \<open>A server that was restarted: it knows no session but makes new ones.\<close>

definition ex_wda_server :: "bool wda_server" where
  "ex_wda_server verb url body known =
     (if body = SessionBody then (Answer 200 ''{}'' None, True)
      else if known then (Answer 200 ''{}'' None, known)
      else (Answer 404 ''invalid session id'' None, known))"

lemma ex_wda_server_accepts: "sessions_accepted (\<lambda>verb url body known. if body = SettingsBody then (Answer 200 ''{}'' None, known) else ex_wda_server verb url body known)"
  by (simp add: sessions_accepted_def ex_wda_server_def session_lost_def)

theorem ios_driver_returns_witness:
  "nonblocking (Tap ex_wda_lib (\<lambda>verb url body known. if body = SettingsBody then (Answer 200 ''{}'' None, known) else ex_wda_server verb url body known) (1/2) (1/2))"
  using ios_driver_returns [OF ex_wda_server_accepts] by blast

text \<open>
  When the server has lost the session, the next tap is not made: it fails with an error, but the client
  forgets the session, so that the call after it creates a new one.
\<close>

theorem tap_after_lost_session:
  assumes free: "\<not> wc_locked c" and session: "wc_sessionID c \<noteq> ''''"
    and lost: "srv ''GET'' (wc_baseURL c @ ''/session/'' @ wc_sessionID c @ ''/window/size'') NoBody s = (Answer 404 b e, s')"
      "strings_Contains b ''invalid session id''"
    and made: "srv ''POST'' (wc_baseURL c @ ''/session'') SessionBody s' = (Answer 200 b' None, s'')" "wl_session lib b' = Inr i"
      "srv ''POST'' (wc_baseURL c @ ''/session/'' @ i @ ''/settings'') SettingsBody s'' = (Answer 200 b'' None, s3)"
  shows "Tap lib srv x y c s = (Some (Some ''wda tap: WDA session not active''), c\<lparr>wc_sessionID := ''''\<rparr>, s') \<and>
    ensureSession lib srv (c\<lparr>wc_sessionID := ''''\<rparr>) s' = (Some None, c\<lparr>wc_sessionID := i\<rparr>, s3)"
proof
  have ens: "ensureSession lib srv c s = (Some None, c, s)"
    using free session by (simp add: ensureSession_def EnsureSession_def)
  have "ScreenSize lib srv c s = (Some (Inr (390, 844)), c\<lparr>wc_sessionID := ''''\<rparr>, s')"
    using free lost ens
    by (simp add: ScreenSize_def with_session_def wda_bind_def wda_ret_def SessionID_def Request_def session_lost_def)
  with ens show "Tap lib srv x y c s = (Some (Some ''wda tap: WDA session not active''), c\<lparr>wc_sessionID := ''''\<rparr>, s')"
    by (simp add: Tap_def with_session_def wda_bind_def wda_ret_def Wda.Tap_def session_command_def)
  show "ensureSession lib srv (c\<lparr>wc_sessionID := ''''\<rparr>) s' = (Some None, c\<lparr>wc_sessionID := i\<rparr>, s3)"
    using free made
    by (simp add: ensureSession_def EnsureSession_def with_lock_def lock_def unlock_def createSessionLocked_def Request_def)
qed

theorem tap_after_lost_session_witness:
  "Tap ex_wda_lib ex_wda_server (1/2) (1/2) ex_client False = (Some (Some ''wda tap: WDA session not active''), ex_client\<lparr>wc_sessionID := ''''\<rparr>, False) \<and>
   ensureSession ex_wda_lib ex_wda_server (ex_client\<lparr>wc_sessionID := ''''\<rparr>) False = (Some None, ex_client\<lparr>wc_sessionID := ''S2''\<rparr>, True)"
  by (rule tap_after_lost_session [where b = "''invalid session id''" and b' = "''{}''" and b'' = "''{}''"])
    (simp_all add: ex_client_def NewClient_def ex_wda_server_def ex_wda_lib_def strings_HasPrefix_def)

end
