(* ===== verification/Device_Control.thy ===== *)
theory Device_Control
  imports Device_Agent Shell_Words IOS_Driver
begin

text \<open>
  The control events that a provider executes: \<^verbatim>\<open>src/internal/grpc/android_control.go\<close> and \<^verbatim>\<open>ios_control.go\<close>.
  \<^verbatim>\<open>lastX\<close>, \<^verbatim>\<open>lastY\<close> and \<^verbatim>\<open>touchDownTime\<close>, which the handlers change through pointers, are the record \<^verbatim>\<open>Gesture\<close>; the
  zero time is \<^term>\<open>None\<close>.  An error of a handler is the message of its gRPC status.
\<close>

section \<open>Events\<close>

datatype touch_action = TouchDown | TouchMove | TouchUp | TouchOther int

datatype control_event =
  TouchEvent touch_action "32 word" "32 word"
| KeyEvent bool "32 word"
| TextEvent string
| RotateEvent "32 word"
| ShellEvent string
| NoEvent

record ControlResponse =
  cp_Success :: bool
  cp_Message :: string
  cp_Shell :: "(string \<times> 32 word) option"

definition response :: "bool \<Rightarrow> string \<Rightarrow> ControlResponse" where
  "response ok msg = \<lparr>cp_Success = ok, cp_Message = msg, cp_Shell = None\<rparr>"

abbreviation accepted :: ControlResponse where "accepted \<equiv> response True ''''"

record Gesture =
  g_lastX :: "32 word"
  g_lastY :: "32 word"
  g_down :: "instant option"

definition new_gesture :: Gesture where
  "new_gesture = \<lparr>g_lastX = 0, g_lastY = 0, g_down = None\<rparr>"

definition abs32 :: "32 word \<Rightarrow> 32 word" where
  "abs32 v = (if v <s 0 then - v else v)"

text \<open>\<^verbatim>\<open>time.Since\<close> in milliseconds; since the zero time it is the longest duration there is.\<close>

definition since_ms :: "instant \<Rightarrow> Gesture \<Rightarrow> int" where
  "since_ms now g = (case g_down g of None \<Rightarrow> (2 ^ 63 - 1) div 1000000 | Some t \<Rightarrow> (now - t) div 1000000)"

definition is_tap :: "instant \<Rightarrow> Gesture \<Rightarrow> 32 word \<Rightarrow> 32 word \<Rightarrow> bool" where
  "is_tap now g x y \<longleftrightarrow> since_ms now g < 250 \<and> abs32 (g_lastX g - x) <s 10 \<and> abs32 (g_lastY g - y) <s 10"

definition int32_string :: "32 word \<Rightarrow> string" where
  "int32_string w = int_string (sint w)"

section \<open>android\_control.go\<close>

definition shell_response :: "string + CommandResult \<Rightarrow> ControlResponse" where
  "shell_response r = (case r of Inl e \<Rightarrow> response False e | Inr _ \<Rightarrow> accepted)"

definition tap_line :: "32 word \<Rightarrow> 32 word \<Rightarrow> string" where
  "tap_line x y = ''input tap '' @ int32_string x @ '' '' @ int32_string y"

definition swipe_line :: "32 word \<Rightarrow> 32 word \<Rightarrow> 32 word \<Rightarrow> 32 word \<Rightarrow> int \<Rightarrow> string" where
  "swipe_line x1 y1 x2 y2 ms =
     ''input swipe '' @ sp [int32_string x1, int32_string y1, int32_string x2, int32_string y2, int_string ms]"

definition text_line :: "string \<Rightarrow> string" where
  "text_line t = ''input text '' @ [quote_mark] @ strings_ReplaceAll t [quote_mark] [quote_mark, backslash, quote_mark, quote_mark] @ [quote_mark]"

definition rotation_val :: "32 word \<Rightarrow> int" where
  "rotation_val r = (if r = 90 then 1 else if r = 180 then 2 else if r = 270 then 3 else 0)"

definition handleAndroidControl ::
  "'s adb_shell \<Rightarrow> instant \<Rightarrow> Agent option \<Rightarrow> string \<Rightarrow> control_event \<Rightarrow> Gesture \<Rightarrow> 's \<Rightarrow>
   (string + ControlResponse option) \<times> Gesture \<times> 's" where
  "handleAndroidControl shell now agent serial event g s =
     (case agent of
        None \<Rightarrow> (Inl (''no active agent session found for device '' @ serial), g, s)
      | Some agt \<Rightarrow>
          (let run = (\<lambda>cmd. case Shell shell cmd agt s of (r, s) \<Rightarrow> (Inr (Some (shell_response r)), g, s)) in
           case event of
             TouchEvent TouchDown x y \<Rightarrow> (Inr (Some accepted), \<lparr>g_lastX = x, g_lastY = y, g_down = Some now\<rparr>, s)
           | TouchEvent TouchMove x y \<Rightarrow> (Inr (Some accepted), g\<lparr>g_lastX := x, g_lastY := y\<rparr>, s)
           | TouchEvent TouchUp x y \<Rightarrow>
               if is_tap now g x y then run (tap_line x y)
               else run (swipe_line (g_lastX g) (g_lastY g) x y (if since_ms now g = 0 then 100 else since_ms now g))
           | TouchEvent (TouchOther _) x y \<Rightarrow> (Inr None, g, s)
           | KeyEvent down code \<Rightarrow> if down then run (''input keyevent '' @ int32_string code) else (Inr (Some accepted), g, s)
           | TextEvent t \<Rightarrow> run (text_line t)
           | RotateEvent r \<Rightarrow>
               run (''settings put system accelerometer_rotation 0 && settings put system user_rotation '' @ int_string (rotation_val r))
           | ShellEvent cmd \<Rightarrow>
               (case ShellWithExitCode shell cmd agt s of
                  (Inl e, s) \<Rightarrow> (Inr (Some (response False e)), g, s)
                | (Inr r, s) \<Rightarrow>
                    (Inr (Some \<lparr>cp_Success = True, cp_Message = '''', cp_Shell = Some (cr_Output r, word_of_int (cr_ExitCode r))\<rparr>), g, s))
           | NoEvent \<Rightarrow> (Inr None, g, s)))"

section \<open>ios\_control.go\<close>

text \<open>A call on a client that may be \<^verbatim>\<open>nil\<close>: using it then panics.\<close>

type_synonym ('r, 's) nil_call = "Client option \<Rightarrow> 's \<Rightarrow> 'r outcome option \<times> Client option \<times> 's"

definition on_client :: "('r, 's) wda_call \<Rightarrow> ('r, 's) nil_call" where
  "on_client m c s =
     (case c of
        None \<Rightarrow> (Some Panic, None, s)
      | Some c \<Rightarrow> (case m c s of (None, c, s) \<Rightarrow> (None, Some c, s) | (Some r, c, s) \<Rightarrow> (Some (Return r), Some c, s)))"

definition nil_ret :: "'r \<Rightarrow> ('r, 's) nil_call" where
  "nil_ret r c s = (Some (Return r), c, s)"

definition nil_bind :: "('r, 's) nil_call \<Rightarrow> ('r \<Rightarrow> ('q, 's) nil_call) \<Rightarrow> ('q, 's) nil_call" where
  "nil_bind m f c s =
     (case m c s of
        (None, c, s) \<Rightarrow> (None, c, s)
      | (Some Panic, c, s) \<Rightarrow> (Some Panic, c, s)
      | (Some (Return r), c, s) \<Rightarrow> f r c s)"

type_synonym 's goios_run = "string \<Rightarrow> string list \<Rightarrow> 's \<Rightarrow> (string + string) \<times> 's"

definition answer :: "string \<Rightarrow> string \<Rightarrow> string option \<Rightarrow> ControlResponse" where
  "answer failed msg e = (case e of Some e \<Rightarrow> response False (failed @ e) | None \<Rightarrow> response True msg)"

definition ensured :: "wda_lib \<Rightarrow> 's wda_server \<Rightarrow> (ControlResponse, 's) nil_call \<Rightarrow> (ControlResponse, 's) nil_call" where
  "ensured lib srv m =
     nil_bind (on_client (EnsureSession (wl_session lib) srv)) (\<lambda>e. case e of Some e \<Rightarrow> nil_ret (response False e) | None \<Rightarrow> m)"

definition touch_up :: "wda_lib \<Rightarrow> 's wda_server \<Rightarrow> instant \<Rightarrow> Gesture \<Rightarrow> 32 word \<Rightarrow> 32 word \<Rightarrow> (ControlResponse, 's) nil_call" where
  "touch_up lib srv now g x y =
     ensured lib srv
       (if is_tap now g x y then
          nil_bind (on_client (Wda.Tap srv (real_of_int (sint x)) (real_of_int (sint y)))) (\<lambda>e. nil_ret (answer '''' '''' e))
        else
          (let d = real_of_int (since_ms now g) / 1000; d = (if d \<le> 0 then 1 / 2 else d) in
           nil_bind (on_client (Wda.Swipe srv (real_of_int (sint (g_lastX g))) (real_of_int (sint (g_lastY g)))
               (real_of_int (sint x)) (real_of_int (sint y)) d)) (\<lambda>e. nil_ret (answer '''' '''' e))))"

definition homescreen :: "'s wda_server \<Rightarrow> (string option, 's) wda_call" where
  "homescreen srv =
     wda_bind (Request srv ''POST'' ''/wda/homescreen'' NoBody (None :: (string \<Rightarrow> string + unit) option)) (\<lambda>r.
       wda_ret (case r of Inl e \<Rightarrow> Some e | Inr _ \<Rightarrow> None))"

definition key_down :: "wda_lib \<Rightarrow> 's wda_server \<Rightarrow> 32 word \<Rightarrow> (ControlResponse, 's) nil_call" where
  "key_down lib srv code =
     ensured lib srv
       (if code = 3 then nil_bind (on_client (homescreen srv)) (\<lambda>e. nil_ret (answer '''' '''' e))
        else if code = 24 then nil_bind (on_client (PressButton strconv_Quote srv ''volumeup'')) (\<lambda>e. nil_ret (answer '''' '''' e))
        else if code = 25 then nil_bind (on_client (PressButton strconv_Quote srv ''volumedown'')) (\<lambda>e. nil_ret (answer '''' '''' e))
        else if code = 164 then nil_bind (on_client (PressButton strconv_Quote srv ''mute'')) (\<lambda>_. nil_ret accepted)
        else nil_ret accepted)"

text \<open>The intents that open a page of the settings: the key in the command, the URL, and the message.\<close>

definition settings_pages :: "(string \<times> string \<times> string) list" where
  "settings_pages =
     [(''android.settings.LOCALE_SETTINGS'', ''App-Prefs:root=General&path=INTERNATIONAL'', ''Language settings opened''),
      (''android.settings.WIFI_SETTINGS'', ''App-Prefs:root=WIFI'', ''WiFi settings opened''),
      (''android.settings.MANAGE_APPLICATIONS_SETTINGS'', ''App-Prefs:root=General&path=STORAGE_AND_BACKUP'', ''Storage settings opened''),
      (''android.settings.APPLICATION_DEVELOPMENT_SETTINGS'', ''App-Prefs:root=DEVELOPER'', ''Developer settings opened'')]"

definition open_page :: "'s wda_server \<Rightarrow> string \<Rightarrow> string \<Rightarrow> (ControlResponse, 's) nil_call" where
  "open_page srv url msg =
     nil_bind (on_client (OpenURL srv url)) (\<lambda>e.
       case e of
         None \<Rightarrow> nil_ret (response True msg)
       | Some _ \<Rightarrow> nil_bind (on_client (LaunchApp srv ''com.apple.Preferences'')) (\<lambda>e. nil_ret (answer ''failed to open Settings: '' msg e)))"

definition url_of :: "string \<Rightarrow> string" where
  "url_of urlPart =
     strings_TrimSpace
       (if strings_HasPrefix urlPart [CHR 0x22] then hd (strings_SplitN2 (drop 1 urlPart) (CHR 0x22))
        else if strings_HasPrefix urlPart [CHR 0x27] then hd (strings_SplitN2 (drop 1 urlPart) (CHR 0x27))
        else (case strings_Fields urlPart of [] \<Rightarrow> '''' | w # _ \<Rightarrow> w))"

definition start_intent :: "'s wda_server \<Rightarrow> string \<Rightarrow> (ControlResponse, 's) nil_call" where
  "start_intent srv cmd =
     (if strings_Contains cmd ''android.settings.SETTINGS'' then
        nil_bind (on_client (LaunchApp srv ''com.apple.Preferences'')) (\<lambda>e. nil_ret (answer ''failed to launch Settings: '' ''Settings launched'' e))
      else if strings_Contains cmd ''market://details?'' then
        nil_bind (on_client (LaunchApp srv ''com.apple.AppStore'')) (\<lambda>e. nil_ret (answer ''failed to launch App Store: '' ''App Store launched'' e))
      else
        (case find (\<lambda>(key, _, _). strings_Contains cmd key) settings_pages of
           Some (_, url, msg) \<Rightarrow> open_page srv url msg
         | None \<Rightarrow>
             (case strings_SplitN2Str cmd ''-d '' of
                [_, urlPart] \<Rightarrow>
                  (let url = url_of urlPart in
                   nil_bind (on_client (OpenURL srv url)) (\<lambda>e. nil_ret (answer ''failed to open URL: '' (''Opened URL: '' @ url) e)))
              | _ \<Rightarrow> nil_ret (response False (''Unsupported intent action for iOS: '' @ cmd)))))"

definition ios_shell :: "wda_lib \<Rightarrow> 's goios_run \<Rightarrow> 's wda_server \<Rightarrow> string \<Rightarrow> string \<Rightarrow> (ControlResponse, 's) nil_call" where
  "ios_shell lib goios srv serial command =
     (let cmd = strings_TrimSpace command in
      if cmd = '''' then nil_ret (response False ''Empty command'')
      else if cmd = ''reboot'' then
        (\<lambda>c s. case goios serial [''reboot''] s of
            (Inl e, s) \<Rightarrow> nil_ret (response False (''reboot failed: '' @ e)) c s
          | (Inr _, s) \<Rightarrow> nil_ret (response True ''Reboot initiated'') c s)
      else if strings_HasPrefix cmd ''am start '' then ensured lib srv (start_intent srv cmd)
      else nil_ret (response False (''Command '' @ strconv_Quote cmd @ '' is not supported on iOS'')))"

text \<open>The result is the response and the gesture; the client of the supervisor may be missing or \<^verbatim>\<open>nil\<close>.\<close>

definition handleIOSControl ::
  "wda_lib \<Rightarrow> 's goios_run \<Rightarrow> 's wda_server \<Rightarrow> instant \<Rightarrow> string + unit \<Rightarrow> string \<Rightarrow> control_event \<Rightarrow> Gesture \<Rightarrow>
   ((string + ControlResponse option) \<times> Gesture, 's) nil_call" where
  "handleIOSControl lib goios srv now client serial event g =
     (case client of
        Inl e \<Rightarrow> nil_ret (Inl (''failed to get WDA client for iOS device '' @ serial @ '': '' @ e), g)
      | Inr _ \<Rightarrow>
          (let out = (\<lambda>m. nil_bind m (\<lambda>r. nil_ret (Inr (Some r), g))) in
           case event of
             TouchEvent TouchDown x y \<Rightarrow> nil_ret (Inr (Some accepted), \<lparr>g_lastX = x, g_lastY = y, g_down = Some now\<rparr>)
           | TouchEvent TouchMove x y \<Rightarrow> nil_ret (Inr (Some accepted), g\<lparr>g_lastX := x, g_lastY := y\<rparr>)
           | TouchEvent TouchUp x y \<Rightarrow> out (touch_up lib srv now g x y)
           | TouchEvent (TouchOther _) x y \<Rightarrow> nil_ret (Inr None, g)
           | KeyEvent down code \<Rightarrow> if down then out (key_down lib srv code) else nil_ret (Inr (Some accepted), g)
           | TextEvent t \<Rightarrow>
               out (ensured lib srv (nil_bind (on_client (SendKeys (wl_runes lib) srv t)) (\<lambda>e. nil_ret (answer '''' '''' e))))
           | RotateEvent r \<Rightarrow> nil_ret (Inr (Some accepted), g)
           | ShellEvent cmd \<Rightarrow> out (ios_shell lib goios srv serial cmd)
           | NoEvent \<Rightarrow> nil_ret (Inr None, g)))"

section \<open>Text is one word\<close>

text \<open>The quoting of \<^verbatim>\<open>text_line\<close>: quoted stretches, and the quote marks behind a backslash in between.\<close>

fun quoted_text :: "string \<Rightarrow> piece list" where
  "quoted_text [] = [Quoted []]"
| "quoted_text (c # cs) =
     (if c = quote_mark then Quoted [] # Escaped c # quoted_text cs
      else (case quoted_text cs of Quoted s # ps \<Rightarrow> Quoted (c # s) # ps | ps \<Rightarrow> ps))"

lemma quoted_text_head: "\<exists>s ps. quoted_text t = Quoted s # ps"
  by (induction t) auto

lemma quoted_text_facts:
  "render_word (quoted_text t) = quote_mark # strings_ReplaceAll t [quote_mark] [quote_mark, backslash, quote_mark, quote_mark] @ [quote_mark] \<and>
   word_value (quoted_text t) = t \<and> (CHR 0x00 \<notin> set t \<longrightarrow> (\<forall>p \<in> set (quoted_text t). piece_ok p))"
proof (induction t)
  case Nil
  show ?case by (simp add: render_word_def word_value_def)
next
  case (Cons c cs)
  obtain s ps where h: "quoted_text cs = Quoted s # ps" using quoted_text_head by blast
  have body: "render_piece (Quoted (c # s)) @ render_word ps = quote_mark # c # tl (render_word (Quoted s # ps))"
    by (simp add: render_word_def)
  show ?case
  proof (cases "c = quote_mark")
    case True
    with Cons show ?thesis by (auto simp: render_word_def word_value_def strings_ReplaceAll_char quote_mark_def)
  next
    case False
    with Cons h body show ?thesis by (auto simp: render_word_def word_value_def strings_ReplaceAll_char)
  qed
qed

text \<open>
  C34. A text event on an Android device runs one shell command, and whatever the text contains (quote marks,
  blanks, operators, line breaks; a string sent over gRPC ends before a zero byte), a shell that follows the
  standard takes that line as the command \<^verbatim>\<open>input\<close> with the two arguments \<^verbatim>\<open>text\<close> and the text itself.
\<close>

theorem remote_text_is_one_word:
  assumes sh: "shell_words sh" and t: "CHR 0x00 \<notin> set t"
  shows "handleAndroidControl shell now (Some agt) serial (TextEvent t) g s =
      (case Shell shell (text_line t) agt s of (r, s') \<Rightarrow> (Inr (Some (shell_response r)), g, s')) \<and>
    sh (text_line t) = Some [''input'', ''text'', t]"
proof
  show "handleAndroidControl shell now (Some agt) serial (TextEvent t) g s =
      (case Shell shell (text_line t) agt s of (r, s') \<Rightarrow> (Inr (Some (shell_response r)), g, s'))"
    by (simp add: handleAndroidControl_def)
  have "quoted_text t \<noteq> []" using quoted_text_head [of t] by auto
  with quoted_text_facts [of t] t have "words_ok [plain ''input'', plain ''text'', quoted_text t]"
    by (auto simp: words_ok_def plain_def literal_char_def reserved_def render_word_def)
  from shell_wordsD [OF sh this] quoted_text_facts [of t]
  show "sh (text_line t) = Some [''input'', ''text'', t]"
    by (simp add: text_line_def)
qed

theorem remote_text_is_one_word_witness:
  "split_words (text_line ''it's; rm -rf $HOME'') = Some [''input'', ''text'', ''it's; rm -rf $HOME'']"
  using remote_text_is_one_word [OF split_words_ok, of "''it's; rm -rf $HOME''" ex_shell 0 "New_Agent ex_agent_device 10400"]
  by simp

end
