(* ===== verification/Android_Driver.thy ===== *)
theory Android_Driver
  imports Automation_Driver Shell_Words
begin

text \<open>
  \<^verbatim>\<open>src/internal/automation/android_driver.go\<close>: the driver of Android devices.  It runs the \<^verbatim>\<open>adb\<close> program (the
  parameter \<open>adb\<close>: the arguments to the error, standard output and standard error of the process) and, when
  there is an agent, first tries its \<^verbatim>\<open>SendCommand\<close> (the parameter \<open>send\<close>).  The screen size is read once and kept
  in the driver.  \<^verbatim>\<open>float32\<close> values are real numbers, as \<^verbatim>\<open>float64\<close> ones are.
\<close>

section \<open>Calls one after the other\<close>

definition call_ret :: "'r \<Rightarrow> ('r, 'd) call" where
  "call_ret r t d = (r, d, 0)"

definition call_bind :: "('r, 'd) call \<Rightarrow> ('r \<Rightarrow> ('q, 'd) call) \<Rightarrow> ('q, 'd) call" where
  "call_bind m f t d =
     (case m t d of (r, d', n) \<Rightarrow> (case f r (t + int n) d' of (q, d'', k) \<Rightarrow> (q, d'', n + k)))"

definition call_map :: "('r \<Rightarrow> 'q) \<Rightarrow> ('r, 'd) call \<Rightarrow> ('q, 'd) call" where
  "call_map f m t d = (case m t d of (r, d', n) \<Rightarrow> (f r, d', n))"

section \<open>The driver\<close>

record 's AndroidDriver =
  ad_width :: "32 word"
  ad_height :: "32 word"
  ad_dev :: 's

definition NewAndroidDriver :: "'s \<Rightarrow> 's AndroidDriver" where
  "NewAndroidDriver s = \<lparr>ad_width = 0, ad_height = 0, ad_dev = s\<rparr>"

type_synonym 's adb_cmd = "Context \<Rightarrow> string list \<Rightarrow> (string option \<times> string \<times> string, 's) call"

datatype command_payload =
  NoPayload
| TapPayload float64 float64
| SwipePayload float64 float64 float64 float64 int
| InputPayload string

type_synonym 's send_command = "Context \<Rightarrow> string \<Rightarrow> command_payload \<Rightarrow> duration \<Rightarrow> (string + json, 's) call"

definition on_dev :: "('r, 's) call \<Rightarrow> ('r, 's AndroidDriver) call" where
  "on_dev m t d = (case m t (ad_dev d) of (r, s, n) \<Rightarrow> (r, d\<lparr>ad_dev := s\<rparr>, n))"

definition execute :: "'s adb_cmd \<Rightarrow> string \<Rightarrow> Context \<Rightarrow> string list \<Rightarrow> (string + string, 's AndroidDriver) call" where
  "execute adb serial ctx args =
     call_map (\<lambda>(err, out, errOut).
         case err of
           Some e \<Rightarrow> Inl (''adb command execution failed: '' @ e @ '' (output: '' @ strings_TrimSpace (out @ CHR 0x0A # errOut) @ '')'')
         | None \<Rightarrow> Inr (strings_TrimSpace out))
       (on_dev (adb ctx (''-s'' # serial # args)))"

text \<open>\<^verbatim>\<open>strconv.ParseInt(s, 10, 32)\<close> of decimal digits: a number out of range gives the largest one.\<close>

definition ParseInt32 :: "string \<Rightarrow> 32 word" where
  "ParseInt32 ds = (case digits_value 0 ds of None \<Rightarrow> 0 | Some v \<Rightarrow> word_of_int (min v (2 ^ 31 - 1)))"

definition size_re :: regex where
  "size_re = rseq [rlit ''size:'', rspaces, RGroup (rplus is_digit), rlit ''x'', RGroup (rplus is_digit)]"

definition resolveDimensions :: "'s adb_cmd \<Rightarrow> string \<Rightarrow> Context \<Rightarrow> (string + 32 word \<times> 32 word, 's AndroidDriver) call" where
  "resolveDimensions adb serial ctx t d =
     (if 0 <s ad_width d \<and> 0 <s ad_height d then (Inr (ad_width d, ad_height d), d, 0)
      else (case execute adb serial ctx [''shell'', ''wm'', ''size''] t d of
              (Inl e, d, n) \<Rightarrow> (Inl (''failed to get screen size: '' @ e), d, n)
            | (Inr out, d, n) \<Rightarrow>
                (case FindStringSubmatch size_re out of
                   Some [_, w, h] \<Rightarrow>
                     (Inr (ParseInt32 w, ParseInt32 h), d\<lparr>ad_width := ParseInt32 w, ad_height := ParseInt32 h\<rparr>, n)
                 | _ \<Rightarrow> (Inl (''invalid screen size output from wm size: '' @ out), d, n))))"

definition no_result :: "string \<Rightarrow> string + string \<Rightarrow> string option" where
  "no_result prefix r = (case r of Inl e \<Rightarrow> Some (prefix @ e) | Inr _ \<Rightarrow> None)"

definition Launch :: "'s adb_cmd \<Rightarrow> string \<Rightarrow> Context \<Rightarrow> string \<Rightarrow> (string option, 's AndroidDriver) call" where
  "Launch adb serial ctx appID =
     call_map (no_result ''launch app: '')
       (execute adb serial ctx [''shell'', ''monkey'', ''-p'', appID, ''-c'', ''android.intent.category.LAUNCHER'', ''1''])"

definition Terminate :: "'s adb_cmd \<Rightarrow> string \<Rightarrow> Context \<Rightarrow> string \<Rightarrow> (string option, 's AndroidDriver) call" where
  "Terminate adb serial ctx appID =
     call_map (no_result ''terminate app: '') (execute adb serial ctx [''shell'', ''am'', ''force-stop'', appID])"

text \<open>
  The answer of the agent: done, an error to return, or neither, and then \<^verbatim>\<open>adb\<close> is used.  The answer of a
  command that dumps the screen also has the dump.
\<close>

datatype agent_reply = Done string | Refused string | Unclear

definition reply_of :: "string + json \<Rightarrow> agent_reply" where
  "reply_of r =
     (case r of
        Inl _ \<Rightarrow> Unclear
      | Inr v \<Rightarrow>
          (case (field ''success'' dec_bool False v, field ''error'' dec_string '''' v) of
             (Some ok, Some e) \<Rightarrow> if ok then Done '''' else if e \<noteq> '''' then Refused e else Unclear
           | _ \<Rightarrow> Unclear))"

definition dump_reply_of :: "string + json \<Rightarrow> agent_reply" where
  "dump_reply_of r =
     (case r of
        Inl _ \<Rightarrow> Unclear
      | Inr v \<Rightarrow>
          (case (field ''success'' dec_bool False v, field ''xml'' dec_string '''' v, field ''error'' dec_string '''' v) of
             (Some ok, Some x, Some e) \<Rightarrow> if ok then Done x else if e \<noteq> '''' then Refused e else Unclear
           | _ \<Rightarrow> Unclear))"

abbreviation second :: int where "second \<equiv> 1000000000"

text \<open>The gesture through the agent, when there is one and the size is known.\<close>

definition agent_gesture :: "'s adb_cmd \<Rightarrow> 's send_command option \<Rightarrow> string \<Rightarrow> Context \<Rightarrow> string \<Rightarrow>
    (32 word \<times> 32 word \<Rightarrow> command_payload) \<Rightarrow> duration \<Rightarrow> (agent_reply, 's AndroidDriver) call" where
  "agent_gesture adb agt serial ctx command payload timeout =
     (case agt of
        None \<Rightarrow> call_ret Unclear
      | Some send \<Rightarrow>
          call_bind (resolveDimensions adb serial ctx) (\<lambda>size.
            case size of
              Inl _ \<Rightarrow> call_ret Unclear
            | Inr wh \<Rightarrow> call_map reply_of (on_dev (send ctx command (payload wh) timeout))))"

definition scaled :: "float64 \<Rightarrow> 32 word \<Rightarrow> float64" where
  "scaled x w = x * real_of_int (sint w)"

definition Tap :: "'s adb_cmd \<Rightarrow> 's send_command option \<Rightarrow> string \<Rightarrow> Context \<Rightarrow> float64 \<Rightarrow> float64 \<Rightarrow>
    (string option, 's AndroidDriver) call" where
  "Tap adb agt serial ctx x y =
     call_bind (agent_gesture adb agt serial ctx ''TAP'' (\<lambda>(w, h). TapPayload (scaled x w) (scaled y h)) (5 * second)) (\<lambda>reply.
       case reply of
         Done _ \<Rightarrow> call_ret None
       | Refused e \<Rightarrow> call_ret (Some (''agent tap error: '' @ e))
       | Unclear \<Rightarrow>
           call_bind (resolveDimensions adb serial ctx) (\<lambda>size.
             case size of
               Inl e \<Rightarrow> call_ret (Some e)
             | Inr (w, h) \<Rightarrow>
                 (let absX = int_string (pixel x w); absY = int_string (pixel y h)
                  in call_map (no_result (''tap at ('' @ absX @ '', '' @ absY @ ''): ''))
                       (execute adb serial ctx [''shell'', ''input'', ''tap'', absX, absY]))))"

definition Swipe :: "'s adb_cmd \<Rightarrow> 's send_command option \<Rightarrow> string \<Rightarrow> Context \<Rightarrow> float64 \<Rightarrow> float64 \<Rightarrow> float64 \<Rightarrow> float64 \<Rightarrow> int \<Rightarrow>
    (string option, 's AndroidDriver) call" where
  "Swipe adb agt serial ctx startX startY endX endY durationMs =
     call_bind (agent_gesture adb agt serial ctx ''SWIPE''
         (\<lambda>(w, h). SwipePayload (scaled startX w) (scaled startY h) (scaled endX w) (scaled endY h) durationMs) (10 * second)) (\<lambda>reply.
       case reply of
         Done _ \<Rightarrow> call_ret None
       | Refused e \<Rightarrow> call_ret (Some (''agent swipe error: '' @ e))
       | Unclear \<Rightarrow>
           call_bind (resolveDimensions adb serial ctx) (\<lambda>size.
             case size of
               Inl e \<Rightarrow> call_ret (Some e)
             | Inr (w, h) \<Rightarrow>
                 (let x1 = int_string (pixel startX w); y1 = int_string (pixel startY h);
                      x2 = int_string (pixel endX w); y2 = int_string (pixel endY h)
                  in call_map (no_result (''swipe from ('' @ x1 @ '', '' @ y1 @ '') to ('' @ x2 @ '', '' @ y2 @ ''): ''))
                       (execute adb serial ctx ([''shell'', ''input'', ''swipe'', x1, y1, x2, y2] @
                          (if durationMs > 0 then [int_string durationMs] else []))))))"

text \<open>The chain of \<^verbatim>\<open>ReplaceAll\<close> calls: the blank first, then every character of the list behind a backslash.\<close>

definition escaped_chars :: "char list" where
  "escaped_chars = [CHR 0x5C, CHR 0x22, CHR 0x60, CHR ''$'', CHR ''&'', CHR ''|'', CHR '';'', CHR ''<'', CHR ''>'', CHR ''('', CHR '')'']"

definition escape_text :: "string \<Rightarrow> string" where
  "escape_text text = fold (\<lambda>c s. strings_ReplaceAll s [c] [CHR 0x5C, c]) escaped_chars (strings_ReplaceAll text '' '' ''%s'')"

definition Input :: "'s adb_cmd \<Rightarrow> 's send_command option \<Rightarrow> string \<Rightarrow> Context \<Rightarrow> string \<Rightarrow> (string option, 's AndroidDriver) call" where
  "Input adb agt serial ctx text =
     call_bind (case agt of
         None \<Rightarrow> call_ret Unclear
       | Some send \<Rightarrow> call_map reply_of (on_dev (send ctx ''INPUT'' (InputPayload text) (5 * second)))) (\<lambda>reply.
       case reply of
         Done _ \<Rightarrow> call_ret None
       | Refused e \<Rightarrow> call_ret (Some (''agent input error: '' @ e))
       | Unclear \<Rightarrow> call_map (no_result ''input text: '') (execute adb serial ctx [''shell'', ''input'', ''text'', escape_text text]))"

text \<open>The bytes of the image are those of the standard output.\<close>

definition Screenshot :: "'s adb_cmd \<Rightarrow> string \<Rightarrow> Context \<Rightarrow> (string + 8 word list, 's AndroidDriver) call" where
  "Screenshot adb serial ctx =
     call_map (\<lambda>(err, out, errOut).
         case err of
           Some e \<Rightarrow> Inl (''screenshot failed: '' @ e @ '' (stderr: '' @ strings_TrimSpace errOut @ '')'')
         | None \<Rightarrow> Inr (map (\<lambda>c. of_char c) out))
       (on_dev (adb ctx [''-s'', serial, ''exec-out'', ''screencap'', ''-p'']))"

definition WithTimeout :: "Context \<Rightarrow> duration \<Rightarrow> instant \<Rightarrow> Context" where
  "WithTimeout ctx d t =
     (case ctx_end ctx of
        Some u \<Rightarrow> if u \<le> t + d then ctx else \<lparr>ctx_end = Some (t + d), ctx_error = ''context deadline exceeded''\<rparr>
      | None \<Rightarrow> \<lparr>ctx_end = Some (t + d), ctx_error = ''context deadline exceeded''\<rparr>)"

definition remotePath :: string where "remotePath = ''/data/local/tmp/uidump.xml''"

definition DumpUI :: "'s adb_cmd \<Rightarrow> 's send_command option \<Rightarrow> string \<Rightarrow> Context \<Rightarrow> (string + string, 's AndroidDriver) call" where
  "DumpUI adb agt serial ctx =
     call_bind (case agt of
         None \<Rightarrow> call_ret Unclear
       | Some send \<Rightarrow> call_map dump_reply_of (on_dev (send ctx ''DUMP_UI'' NoPayload (10 * second)))) (\<lambda>reply.
       case reply of
         Done x \<Rightarrow> call_ret (Inr x)
       | Refused e \<Rightarrow> call_ret (Inl (''agent dump UI error: '' @ e))
       | Unclear \<Rightarrow>
           call_bind (execute adb serial ctx [''shell'', ''uiautomator'', ''dump'', remotePath]) (\<lambda>made.
             case made of
               Inl e \<Rightarrow> call_ret (Inl (''dump UI: failed to generate dump: '' @ e))
             | Inr _ \<Rightarrow>
                 call_bind (execute adb serial ctx [''shell'', ''cat'', remotePath]) (\<lambda>dump.
                   case dump of
                     Inl e \<Rightarrow> call_ret (Inl (''dump UI: failed to read dump: '' @ e))
                   | Inr x \<Rightarrow>
                       call_map (\<lambda>_. Inr x)
                         (\<lambda>t. execute adb serial (WithTimeout ctx (2 * second) t) [''shell'', ''rm'', ''-f'', remotePath] t))))"

text \<open>The two expressions that find a package and an activity in a line.\<close>

definition not_in :: "char list \<Rightarrow> char \<Rightarrow> bool" where
  "not_in cs c \<longleftrightarrow> c \<notin> set cs"

definition component_re :: regex where
  "component_re = (let part = not_in [CHR ''/'', CHR '' '', CHR 0x09, CHR 0x7B, CHR 0x7D] in
     rseq [RMany False (not_in [CHR 0x7B, CHR 0x7D]), rspaces, RGroup (rplus part), rlit ''/'', RGroup (rplus part)])"

definition currentFocusRe :: regex where
  "currentFocusRe = rseq [rlit (''mCurrentFocus=Window'' @ [CHR 0x7B]), component_re, rlit [CHR 0x7D]]"

definition resumedActivityRe :: regex where
  "resumedActivityRe = rseq [rlit ''mResumedActivity:'', rspaces, rlit (''ActivityRecord'' @ [CHR 0x7B]), component_re]"

fun app_in_lines :: "string \<Rightarrow> regex \<Rightarrow> string list \<Rightarrow> AppInfo option" where
  "app_in_lines key r [] = None"
| "app_in_lines key r (l # ls) =
     (case (if strings_Contains l key then FindStringSubmatch r l else None) of
        Some [_, p, a] \<Rightarrow> Some \<lparr>app_PackageName = p, app_Activity = a\<rparr>
      | _ \<Rightarrow> app_in_lines key r ls)"

definition app_in_output :: "string \<Rightarrow> regex \<Rightarrow> string + string \<Rightarrow> AppInfo option" where
  "app_in_output key r out = (case out of Inl _ \<Rightarrow> None | Inr s \<Rightarrow> app_in_lines key r (strings_Split s (CHR 0x0A)))"

definition CurrentApp :: "'s adb_cmd \<Rightarrow> string \<Rightarrow> Context \<Rightarrow> (string + AppInfo, 's AndroidDriver) call" where
  "CurrentApp adb serial ctx =
     call_bind (execute adb serial ctx [''shell'', ''dumpsys'', ''window'', ''windows'']) (\<lambda>out.
       case app_in_output ''mCurrentFocus'' currentFocusRe out of
         Some a \<Rightarrow> call_ret (Inr a)
       | None \<Rightarrow>
           call_map (\<lambda>out.
               case app_in_output ''mResumedActivity'' resumedActivityRe out of
                 Some a \<Rightarrow> Inr a
               | None \<Rightarrow> Inl ''failed to retrieve current package and activity'')
             (execute adb serial ctx [''shell'', ''dumpsys'', ''activity'', ''activities'']))"

definition Install :: "'s adb_cmd \<Rightarrow> string \<Rightarrow> Context \<Rightarrow> string \<Rightarrow> (string option, 's AndroidDriver) call" where
  "Install adb serial ctx path = call_map (no_result ''install apk: '') (execute adb serial ctx [''install'', ''-r'', ''-g'', path])"

definition Uninstall :: "'s adb_cmd \<Rightarrow> string \<Rightarrow> Context \<Rightarrow> string \<Rightarrow> (string option, 's AndroidDriver) call" where
  "Uninstall adb serial ctx appID = call_map (no_result ''uninstall package: '') (execute adb serial ctx [''uninstall'', appID])"

text \<open>The driver as the interface sees it.\<close>

definition as_Driver :: "'s adb_cmd \<Rightarrow> 's send_command option \<Rightarrow> string \<Rightarrow> 's AndroidDriver Driver" where
  "as_Driver adb agt serial =
     \<lparr>dr_Launch = Launch adb serial, dr_Terminate = Terminate adb serial, dr_Tap = Tap adb agt serial,
      dr_Swipe = Swipe adb agt serial, dr_Input = Input adb agt serial, dr_Screenshot = Screenshot adb serial,
      dr_DumpUI = DumpUI adb agt serial, dr_CurrentApp = CurrentApp adb serial, dr_Install = Install adb serial,
      dr_Uninstall = Uninstall adb serial, dr_ScreenSize = resolveDimensions adb serial\<rparr>"

section \<open>Typing text\<close>

text \<open>The quoting of one character by \<^verbatim>\<open>Input\<close>.\<close>

definition text_pieces :: "char \<Rightarrow> piece list" where
  "text_pieces c = (if c = CHR '' '' then [Plain (CHR ''%''), Plain (CHR ''s'')]
     else if c \<in> set escaped_chars then [Escaped c] else [Plain c])"

definition escape_step :: "char \<Rightarrow> string \<Rightarrow> string" where
  "escape_step c s = concat (map (\<lambda>x. if x = c then [CHR 0x5C, c] else [x]) s)"

lemma escape_step_append [simp]: "escape_step c (s @ t) = escape_step c s @ escape_step c t" "escape_step c [] = []"
  by (simp_all add: escape_step_def)

lemma fold_escape_append: "fold escape_step cs (s @ t) = fold escape_step cs s @ fold escape_step cs t"
  by (induction cs arbitrary: s t) simp_all

lemma fold_escape_concat: "fold escape_step cs (concat (map f s)) = concat (map (\<lambda>x. fold escape_step cs (f x)) s)"
proof (induction s)
  case Nil
  show ?case by (induction cs) simp_all
qed (simp add: fold_escape_append)

lemma escape_char:
  "fold escape_step escaped_chars (if x = CHR '' '' then ''%s'' else [x]) = render_word (text_pieces x)"
  by (auto simp: escaped_chars_def escape_step_def text_pieces_def render_word_def backslash_def)

lemma escape_text_pieces: "escape_text s = render_word (concat (map text_pieces s))"
proof -
  have "(\<lambda>c s. strings_ReplaceAll s [c] [CHR 0x5C, c]) = escape_step"
    by (intro ext) (simp add: strings_ReplaceAll_char escape_step_def)
  then have "escape_text s = concat (map (\<lambda>x. fold escape_step escaped_chars (if x = CHR '' '' then ''%s'' else [x])) s)"
    by (simp add: escape_text_def strings_ReplaceAll_char fold_escape_concat)
  also have "\<dots> = concat (map (\<lambda>x. render_word (text_pieces x)) s)" unfolding escape_char ..
  also have "\<dots> = render_word (concat (map text_pieces s))" by (induction s) (simp_all add: render_word_def)
  finally show ?thesis .
qed

lemma text_pieces_ok:
  "c = CHR '' '' \<or> c \<in> set escaped_chars \<or> literal_char c \<Longrightarrow> p \<in> set (text_pieces c) \<Longrightarrow> piece_ok p"
  by (auto simp: text_pieces_def escaped_chars_def literal_char_def split: if_splits)

lemma text_pieces_value: "word_value (concat (map text_pieces s)) = strings_ReplaceAll s '' '' ''%s''"
  by (induction s) (auto simp: strings_ReplaceAll_char word_value_def text_pieces_def)

text \<open>
  Without an agent \<^verbatim>\<open>Input\<close> runs one \<^verbatim>\<open>adb shell input text\<close>, and a shell that follows the standard hands to
  \<^verbatim>\<open>input\<close> exactly the text, its blanks written \<^verbatim>\<open>%s\<close> as \<^verbatim>\<open>input\<close> wants them, when the text consists of letters,
  digits, blanks, the literal punctuation and the characters that \<^verbatim>\<open>Input\<close> escapes.  No such text can start a
  second command.
\<close>

theorem android_input_words:
  assumes sh: "shell_words sh" and ne: "text \<noteq> ''''"
    and chars: "\<And>c. c \<in> set text \<Longrightarrow> c = CHR '' '' \<or> c \<in> set escaped_chars \<or> literal_char c"
  shows "Input adb None serial ctx text =
      call_map (no_result ''input text: '') (execute adb serial ctx [''shell'', ''input'', ''text'', escape_text text]) \<and>
    sh (strings_Join [''input'', ''text'', escape_text text] (CHR '' '')) =
      Some [''input'', ''text'', strings_ReplaceAll text '' '' ''%s'']"
proof
  show "Input adb None serial ctx text =
      call_map (no_result ''input text: '') (execute adb serial ctx [''shell'', ''input'', ''text'', escape_text text])"
    by (intro ext) (simp add: Input_def call_bind_def call_ret_def split: prod.splits)
  let ?w = "concat (map text_pieces text)"
  have "\<forall>p \<in> set ?w. piece_ok p"
    using chars text_pieces_ok by fastforce
  moreover have "?w \<noteq> []" using ne by (cases "text") (auto simp: text_pieces_def)
  ultimately have "words_ok [plain ''input'', plain ''text'', ?w]"
    by (auto simp: words_ok_def plain_def literal_char_def reserved_def render_word_def)
  from shell_wordsD [OF sh this]
  show "sh (strings_Join [''input'', ''text'', escape_text text] (CHR '' '')) =
      Some [''input'', ''text'', strings_ReplaceAll text '' '' ''%s'']"
    by (simp add: escape_text_pieces text_pieces_value)
qed

theorem android_input_words_witness:
  "split_words (strings_Join [''input'', ''text'', escape_text ''pay $5; (rm -rf /)''] (CHR '' '')) =
     Some [''input'', ''text'', ''pay%s$5;%s(rm%s-rf%s/)'']"
proof -
  have "list_all (\<lambda>c. c = CHR '' '' \<or> c \<in> set escaped_chars \<or> literal_char c) ''pay $5; (rm -rf /)''" by code_simp
  then have "c = CHR '' '' \<or> c \<in> set escaped_chars \<or> literal_char c" if "c \<in> set ''pay $5; (rm -rf /)''" for c
    using that unfolding list_all_iff by blast
  from android_input_words [of split_words "''pay $5; (rm -rf /)''", OF split_words_ok _ this, where adb = "\<lambda>_ _ _ _. ((None, [], []), (), 0)"] show ?thesis
    by (simp add: strings_ReplaceAll_char)
qed

section \<open>The screen size\<close>

lemma execute_keeps_size: "execute adb serial ctx args t d = (r, d', n) \<Longrightarrow> ad_width d' = ad_width d \<and> ad_height d' = ad_height d"
  by (auto simp: execute_def call_map_def on_dev_def split: prod.splits)

text \<open>
  Once a positive screen size was read it is never asked for again: every later call returns it at once,
  without a command and without taking time, and every tap of the driver in between the borders of the screen
  goes to a pixel of that screen.
\<close>

theorem screen_size_is_kept:
  assumes "resolveDimensions adb serial ctx t d = (Inr (w, h), d', n)" "0 <s w" "0 <s h"
    and xy: "0 \<le> x" "x < 1" "0 \<le> y" "y < 1"
  shows "resolveDimensions adb' serial' ctx' t' d' = (Inr (w, h), d', 0) \<and>
    Tap adb None serial ctx x y t' d' =
      call_map (no_result (''tap at ('' @ int_string (pixel x w) @ '', '' @ int_string (pixel y h) @ ''): ''))
        (execute adb serial ctx [''shell'', ''input'', ''tap'', int_string (pixel x w), int_string (pixel y h)]) t' d' \<and>
    0 \<le> pixel x w \<and> pixel x w < sint w \<and> 0 \<le> pixel y h \<and> pixel y h < sint h"
proof -
  have d': "ad_width d' = w \<and> ad_height d' = h"
    using assms(1) by (auto simp: resolveDimensions_def split: if_splits prod.splits sum.splits option.splits list.splits)
  then have kept: "resolveDimensions adb' serial' ctx' t' d' = (Inr (w, h), d', 0)" for adb' serial' ctx' t'
    using assms(2,3) by (simp add: resolveDimensions_def)
  have pos: "0 < sint w" "0 < sint h" using assms(2,3) by (simp_all add: word_sless_alt)
  have pix: "0 \<le> pixel z v \<and> pixel z v < sint v" if "0 \<le> z" "z < 1" "0 < sint v" for z and v :: "32 word"
  proof -
    have r: "0 < real_of_int (sint v)" using that(3) by (simp only: of_int_0_less_iff)
    then have "z * real_of_int (sint v) < real_of_int (sint v)" using that(2) by (simp only: mult_less_cancel_right2) simp
    moreover have "0 \<le> z * real_of_int (sint v)" using that(1) r by (simp only: zero_le_mult_iff) simp
    ultimately show ?thesis by (simp add: pixel_def Locator.truncate_def floor_less_iff)
  qed
  have "Tap adb None serial ctx x y t' d' =
      call_map (no_result (''tap at ('' @ int_string (pixel x w) @ '', '' @ int_string (pixel y h) @ ''): ''))
        (execute adb serial ctx [''shell'', ''input'', ''tap'', int_string (pixel x w), int_string (pixel y h)]) t' d'"
    by (simp add: Tap_def agent_gesture_def call_bind_def call_ret_def kept Let_def split: prod.splits)
  with kept pix [OF xy(1,2) pos(1)] pix [OF xy(3,4) pos(2)] show ?thesis by blast
qed

definition ex_adb :: "unit adb_cmd" where
  "ex_adb ctx args t s = ((None, ''Physical size: 1080x2340'', ''''), s, 7)"

theorem screen_size_is_kept_witness:
  "resolveDimensions ex_adb ''d1'' Background 0 (NewAndroidDriver ()) =
     (Inr (1080, 2340), \<lparr>ad_width = 1080, ad_height = 2340, ad_dev = ()\<rparr>, 7) \<and>
   resolveDimensions ex_adb ''d1'' Background 9 \<lparr>ad_width = 1080, ad_height = 2340, ad_dev = ()\<rparr> =
     (Inr (1080, 2340), \<lparr>ad_width = 1080, ad_height = 2340, ad_dev = ()\<rparr>, 0) \<and> pixel (1/2) 1080 < 1080"
proof -
  have first: "resolveDimensions ex_adb ''d1'' Background 0 (NewAndroidDriver ()) =
     (Inr (1080, 2340), \<lparr>ad_width = 1080, ad_height = 2340, ad_dev = ()\<rparr>, 7)"
    by code_simp
  from screen_size_is_kept [OF this, of "1/2" "1/2" ex_adb "''d1''" Background 9] show ?thesis
    using first by (simp add: word_sless_alt)
qed

end
