(* ===== verification/Runner.thy ===== *)
theory Runner
  imports Automation_Driver
begin

text \<open>
  The script runner: \<^verbatim>\<open>runner_helpers.go\<close>, \<^verbatim>\<open>runner_handlers.go\<close> and \<^verbatim>\<open>runner.go\<close> of
  \<^verbatim>\<open>src/internal/automation\<close>.  A \<^verbatim>\<open>Runner\<close> is its driver.  Every loop is written with
  \<^const>\<open>forever\<close>, so that a loop that does not end is a run without a result, and every \<^verbatim>\<open>DumpUI\<close>, tap,
  pause and look at the clock is a step of the run.

  The record \<^verbatim>\<open>run_lib\<close> holds what comes from Go's library: that of the locators, the verbs \<^verbatim>\<open>%q\<close> and
  \<^verbatim>\<open>%+v\<close>, the error of \<^verbatim>\<open>fmt.Sscanf\<close> on malformed bounds, and the order in which \<^verbatim>\<open>range\<close> visits a map.  Screens have a size: a division by a width or
  height of zero is not modelled.  Log output is left out; where the program computes something only to
  log it, the driver calls on the way are kept.
\<close>

record run_lib =
  rl_ui :: ui_lib
  rl_quote :: "string \<Rightarrow> string"
  rl_query :: "ElementQuery \<Rightarrow> string"
  rl_scan_error :: "string \<Rightarrow> string"
  rl_range :: "string list \<Rightarrow> string list"

section \<open>runner_helpers.go\<close>

text \<open>\<^verbatim>\<open>time.Duration(ms) * time.Millisecond\<close> wraps at 64 bits.\<close>

definition ms_duration :: "int \<Rightarrow> duration" where
  "ms_duration ms = int64 (ms * millisecond)"

definition norm_center :: "int \<Rightarrow> int \<Rightarrow> 32 word \<Rightarrow> float64" where
  "norm_center lo hi width = real_of_int (int64 (lo + hi)) / 2 / real_of_int (sint width)"

definition shouldTapOriginalCoords :: "UIAttrs \<Rightarrow> float64 option \<Rightarrow> float64 option \<Rightarrow> 32 word \<Rightarrow> 32 word \<Rightarrow> bool" where
  "shouldTapOriginalCoords node targetX targetY screenWidth screenHeight =
     (case (targetX, targetY) of
        (Some x, Some y) \<Rightarrow>
          if \<not> in_rect (pixel x screenWidth) (pixel y screenHeight) (ue_Bounds node) then False
          else if IsScrollContainerClass (ue_Class node) then True
          else (strings_Contains (ue_Class node) ''Layout'' \<or> strings_Contains (ue_Class node) ''View'' \<or>
                strings_Contains (ue_Class node) ''ViewGroup'') \<and>
               ratio_above (rect_area (ue_Bounds node)) (screen_area screenWidth screenHeight) (1/5)
      | _ \<Rightarrow> False)"

definition tapUIElement ::
  "'d Driver \<Rightarrow> Context \<Rightarrow> UIAttrs \<Rightarrow> float64 option \<Rightarrow> float64 option \<Rightarrow> (string option, 'd) run" where
  "tapUIElement drv ctx node targetX targetY =
     andThen (perform (dr_ScreenSize drv ctx)) (\<lambda>sz.
       case sz of
         Inl e \<Rightarrow> ret (Some (''click: failed to get screen size: '' @ e))
       | Inr (width, height) \<Rightarrow>
           if shouldTapOriginalCoords node targetX targetY width height
           then perform (dr_Tap drv ctx (the targetX) (the targetY))
           else perform (dr_Tap drv ctx (norm_center (Left (ue_Bounds node)) (Right (ue_Bounds node)) width)
                           (norm_center (Top (ue_Bounds node)) (Bottom (ue_Bounds node)) height)))"

text \<open>The end of a polling loop: give up after the limit, or pause for 300 ms.\<close>

definition poll_again :: "Context \<Rightarrow> instant \<Rightarrow> string \<Rightarrow> 's \<Rightarrow> ((string + 'r) + 's, 'd) run" where
  "poll_again ctx limit timeout s =
     andThen Now (\<lambda>t.
       if t > limit then ret (Inl (Inl timeout))
       else andThen (wait_or_done ctx (300 * millisecond)) (\<lambda>done.
         if done then ret (Inl (Inl (ctx_error ctx))) else ret (Inr s)))"

definition find_in_dump :: "ui_lib \<Rightarrow> nat \<Rightarrow> (string + string) \<Rightarrow> Locator \<Rightarrow> AnchorContext option \<Rightarrow> XMLRef option outcome" where
  "find_in_dump lib doc dump loc anchor =
     (case dump of
        Inl _ \<Rightarrow> Return None
      | Inr xmlData \<Rightarrow>
          (case FindByLocator lib doc xmlData loc anchor of
             Panic \<Rightarrow> Panic
           | Return (Inl _) \<Rightarrow> Return None
           | Return (Inr r) \<Rightarrow> Return (Some r)))"

definition findByLocatorWithWait ::
  "run_lib \<Rightarrow> 'd Driver \<Rightarrow> Context \<Rightarrow> Locator \<Rightarrow> AnchorContext option \<Rightarrow> int \<Rightarrow> (string + XMLRef, 'd) run" where
  "findByLocatorWithWait lib drv ctx loc anchor timeoutMs =
     andThen Now (\<lambda>now.
       let limit = now + ms_duration (if timeoutMs \<le> 0 then 5000 else timeoutMs) in
       forever () (\<lambda>_.
         andThen (ctx_Err ctx) (\<lambda>e. case e of
           Some e \<Rightarrow> ret (Inl (Inl e))
         | None \<Rightarrow>
             andThen (perform (dr_DumpUI drv ctx)) (\<lambda>dump.
             andThen fresh_doc (\<lambda>doc.
               case find_in_dump (rl_ui lib) doc dump loc anchor of
                 Panic \<Rightarrow> panic
               | Return (Some r) \<Rightarrow> ret (Inl (Inr r))
               | Return None \<Rightarrow>
                   poll_again ctx limit (''timeout waiting for locator '' @ loc_Strategy loc @ ''='' @ loc_Value loc) ())))))"

definition tapNode :: "run_lib \<Rightarrow> 'd Driver \<Rightarrow> Context \<Rightarrow> XMLRef \<Rightarrow> (string option, 'd) run" where
  "tapNode lib drv ctx node =
     andThen (perform (dr_ScreenSize drv ctx)) (\<lambda>sz.
       case sz of
         Inl e \<Rightarrow> ret (Some (''click: failed to get screen size: '' @ e))
       | Inr (width, height) \<Rightarrow>
           (case ParseBounds (xa_Bounds (xn (xr_node node))) of
              (b, ok) \<Rightarrow>
                if \<not> ok then ret (Some (''click: failed to parse node bounds '' @ rl_quote lib (xa_Bounds (xn (xr_node node))) @
                       '': '' @ rl_scan_error lib (xa_Bounds (xn (xr_node node)))))
                else perform (dr_Tap drv ctx (norm_center (Left b) (Right b) width) (norm_center (Top b) (Bottom b) height))))"

text \<open>
  The look at one dump in \<^verbatim>\<open>waitForElement\<close>: \<^term>\<open>None\<close> when there is no dump or it does not parse, otherwise
  the node that matches, if any.
\<close>

definition query_in_dump :: "ui_lib \<Rightarrow> nat \<Rightarrow> (string + string) \<Rightarrow> ElementQuery \<Rightarrow> XMLRef option option outcome" where
  "query_in_dump lib doc dump query =
     (case dump of
        Inl _ \<Rightarrow> Return None
      | Inr xmlData \<Rightarrow>
          (case ul_Unmarshal lib xmlData of
             Inl _ \<Rightarrow> Return None
           | Inr h \<Rightarrow>
               (case (if eq_XPath query \<noteq> '''' then EvaluateXPath doc h (eq_XPath query) else Return None) of
                  Panic \<Rightarrow> Panic
                | Return (Some r) \<Rightarrow> Return (Some (Some r))
                | Return None \<Rightarrow> Return (Some (first_root (\<lambda>p n. SearchNode doc p n query) 0 (uh_Nodes h))))))"

definition waitForElement ::
  "run_lib \<Rightarrow> 'd Driver \<Rightarrow> Context \<Rightarrow> ElementQuery \<Rightarrow> string \<Rightarrow> int \<Rightarrow> (string + XMLRef option, 'd) run" where
  "waitForElement lib drv ctx query condition timeoutMs =
     andThen Now (\<lambda>now.
       let limit = now + ms_duration (if timeoutMs \<le> 0 then 5000 else timeoutMs);
           timeout = (if condition = ''hidden'' then ''timeout waiting for element to be hidden''
                      else ''timeout waiting for element to match query '' @ rl_query lib query)
       in forever () (\<lambda>_.
         andThen (ctx_Err ctx) (\<lambda>e. case e of
           Some e \<Rightarrow> ret (Inl (Inl e))
         | None \<Rightarrow>
             andThen (perform (dr_DumpUI drv ctx)) (\<lambda>dump.
             andThen fresh_doc (\<lambda>doc.
               case query_in_dump (rl_ui lib) doc dump query of
                 Panic \<Rightarrow> panic
               | Return m \<Rightarrow>
                   (case m of
                      None \<Rightarrow> poll_again ctx limit timeout ()
                    | Some match \<Rightarrow>
                        if (condition = ''visible'' \<or> condition = ''present'') \<and> match \<noteq> None then ret (Inl (Inr match))
                        else if condition = ''hidden'' \<and> match = None then ret (Inl (Inr None))
                        else poll_again ctx limit timeout ()))))))"

definition waitForUIStabilization :: "'d Driver \<Rightarrow> Context \<Rightarrow> duration \<Rightarrow> (string option, 'd) run" where
  "waitForUIStabilization drv ctx timeout =
     andThen Now (\<lambda>now.
       let limit = now + timeout; pollInterval = 150 * millisecond in
       forever '''' (\<lambda>lastXML.
         andThen Now (\<lambda>t.
           if \<not> t < limit then ret (Inl None)
           else andThen (ctx_Err ctx) (\<lambda>e. case e of
             Some e \<Rightarrow> ret (Inl (Some e))
           | None \<Rightarrow>
               andThen (perform (dr_DumpUI drv ctx)) (\<lambda>dump. case dump of
                 Inl _ \<Rightarrow> andThen (Sleep pollInterval) (\<lambda>_. ret (Inr lastXML))
               | Inr xmlData \<Rightarrow>
                   if lastXML \<noteq> '''' \<and> xmlData = lastXML then ret (Inl None)
                   else andThen (Sleep pollInterval) (\<lambda>_. ret (Inr xmlData)))))))"

definition scroll_start :: "Rect \<Rightarrow> 32 word \<Rightarrow> float64" where
  "scroll_start b height = (let y = real_of_int (Bottom b) * 0.8 / real_of_int (sint height) in if y > 0.9 then 0.8 else y)"

definition scroll_end :: "Rect \<Rightarrow> 32 word \<Rightarrow> float64" where
  "scroll_end b height = (let y = real_of_int (Top b) * 0.2 / real_of_int (sint height) in if y < 0.1 then 0.2 else y)"

definition autoScrollToFind :: "run_lib \<Rightarrow> 'd Driver \<Rightarrow> Context \<Rightarrow> (string + string, 'd) run" where
  "autoScrollToFind lib drv ctx =
     andThen (perform (dr_DumpUI drv ctx)) (\<lambda>dump. case dump of
       Inl e \<Rightarrow> ret (Inl e)
     | Inr xmlData \<Rightarrow>
         andThen fresh_doc (\<lambda>doc. case ParseXMLTree (rl_ui lib) doc xmlData of
           Inl e \<Rightarrow> ret (Inl e)
         | Inr tree \<Rightarrow>
             (case find (\<lambda>r. ue_Scrollable (deref r) \<or> IsScrollContainerClass (ue_Class (deref r))) (FlattenTree (tree, [])) of
                None \<Rightarrow> ret (Inl ''no scrollable container found on screen'')
              | Some scrollNode \<Rightarrow>
                  andThen (perform (dr_ScreenSize drv ctx)) (\<lambda>sz. case sz of
                    Inl e \<Rightarrow> ret (Inl e)
                  | Inr (width, height) \<Rightarrow>
                      (let b = ue_Bounds (deref scrollNode); centerX = norm_center (Left b) (Right b) width in
                       andThen (perform (dr_Swipe drv ctx centerX (scroll_start b height) centerX (scroll_end b height) 800)) (\<lambda>err. case err of
                         Some e \<Rightarrow> ret (Inl (''auto-scroll swipe failed: '' @ e))
                       | None \<Rightarrow>
                           andThen (Sleep (600 * millisecond)) (\<lambda>_.
                           andThen (waitForUIStabilization drv ctx (1500 * millisecond)) (\<lambda>_.
                           perform (dr_DumpUI drv ctx)))))))))"

definition verifyPackageActive :: "run_lib \<Rightarrow> 'd Driver \<Rightarrow> Context \<Rightarrow> string \<Rightarrow> int \<Rightarrow> (unit, 'd) run" where
  "verifyPackageActive lib drv ctx expectedPackage timeoutMs =
     andThen Now (\<lambda>now.
       let limit = now + ms_duration timeoutMs in
       forever () (\<lambda>_.
         andThen Now (\<lambda>t.
           if \<not> t < limit then ret (Inl ())
           else
             andThen (perform (dr_DumpUI drv ctx)) (\<lambda>dump.
             andThen fresh_doc (\<lambda>doc.
               if (case dump of
                     Inl _ \<Rightarrow> False
                   | Inr xmlData \<Rightarrow>
                       (case ParseXMLTree (rl_ui lib) doc xmlData of
                          Inl _ \<Rightarrow> False
                        | Inr tree \<Rightarrow> ue_Package (ue tree) = expectedPackage))
               then ret (Inl ())
               else andThen (Sleep (300 * millisecond)) (\<lambda>_. ret (Inr ())))))))"

section \<open>runner_handlers.go\<close>

subsection \<open>Clicks\<close>

text \<open>The target of a click or an input in a screen.\<close>

definition resolve_in :: "run_lib \<Rightarrow> nat \<Rightarrow> string \<Rightarrow> ElRef \<Rightarrow> AnchorContext option \<Rightarrow> string + ElRef" where
  "resolve_in lib doc xmlData target anchor =
     (case ParseXMLTree (rl_ui lib) doc xmlData of
        Inl e \<Rightarrow> Inl e
      | Inr tree \<Rightarrow>
          (case ResolveElement (rl_ui lib) (Some (tree, [])) (Some target) anchor of
             Inl e \<Rightarrow> Inl e
           | Inr (node, _) \<Rightarrow> Inr node))"

text \<open>Scroll once and look again.\<close>

definition scroll_and_resolve ::
  "run_lib \<Rightarrow> 'd Driver \<Rightarrow> Context \<Rightarrow> ElRef \<Rightarrow> AnchorContext option \<Rightarrow> (ElRef option, 'd) run" where
  "scroll_and_resolve lib drv ctx target anchor =
     andThen (autoScrollToFind lib drv ctx) (\<lambda>res. case res of
       Inl _ \<Rightarrow> ret None
     | Inr newXML \<Rightarrow>
         if newXML = '''' then ret None
         else andThen fresh_doc (\<lambda>doc.
           case resolve_in lib doc newXML target anchor of Inl _ \<Rightarrow> ret None | Inr node \<Rightarrow> ret (Some node)))"

abbreviation maxScrolls :: nat where "maxScrolls \<equiv> 3"

text \<open>
  One round of the loop of \<^verbatim>\<open>handleClickWithTarget\<close>; the loop ends with an error, or with the node, if it was
  found in time, and the last error.
\<close>

definition click_round ::
  "run_lib \<Rightarrow> 'd Driver \<Rightarrow> Context \<Rightarrow> ElRef \<Rightarrow> AnchorContext option \<Rightarrow> instant \<Rightarrow> nat \<times> string \<Rightarrow>
   ((string + ElRef option \<times> string) + nat \<times> string, 'd) run" where
  "click_round lib drv ctx target anchor limit s =
     (let (scrollsAttempted, lastErr) = s in
      andThen (ctx_Err ctx) (\<lambda>e. case e of
        Some e \<Rightarrow> ret (Inl (Inl e))
      | None \<Rightarrow>
          andThen (perform (dr_DumpUI drv ctx)) (\<lambda>dump. case dump of
            Inl e \<Rightarrow> andThen (Sleep (300 * millisecond)) (\<lambda>_. ret (Inr (scrollsAttempted, e)))
          | Inr xmlData \<Rightarrow>
              andThen fresh_doc (\<lambda>doc. case ParseXMLTree (rl_ui lib) doc xmlData of
                Inl e \<Rightarrow> andThen (Sleep (300 * millisecond)) (\<lambda>_. ret (Inr (scrollsAttempted, e)))
              | Inr tree \<Rightarrow>
                  (case ResolveElement (rl_ui lib) (Some (tree, [])) (Some target) anchor of
                     Inr (node, _) \<Rightarrow> ret (Inl (Inr (Some node, lastErr)))
                   | Inl lastErr \<Rightarrow>
                       andThen (if scrollsAttempted < maxScrolls then scroll_and_resolve lib drv ctx target anchor else ret None)
                         (\<lambda>found. case found of
                            Some node \<Rightarrow> ret (Inl (Inr (Some node, lastErr)))
                          | None \<Rightarrow>
                              andThen Now (\<lambda>t.
                                if t > limit then ret (Inl (Inr (None, lastErr)))
                                else andThen (wait_or_done ctx (300 * millisecond)) (\<lambda>done.
                                  if done then ret (Inl (Inl (ctx_error ctx)))
                                  else ret (Inr (if scrollsAttempted < maxScrolls then Suc scrollsAttempted else scrollsAttempted, lastErr))))))))))"

fun try_locators ::
  "run_lib \<Rightarrow> 'd Driver \<Rightarrow> Context \<Rightarrow> AnchorContext option \<Rightarrow> Locator list \<Rightarrow> (string option option, 'd) run" where
  "try_locators lib drv ctx anchor [] = ret None"
| "try_locators lib drv ctx anchor (loc # locs) =
     (if loc_Strategy loc = ''coordinates'' then try_locators lib drv ctx anchor locs
      else andThen (findByLocatorWithWait lib drv ctx loc anchor 5000) (\<lambda>res. case res of
        Inl _ \<Rightarrow> try_locators lib drv ctx anchor locs
      | Inr match \<Rightarrow> andThen (tapNode lib drv ctx match) (\<lambda>err. ret (Some err))))"

definition tap_fallback :: "'d Driver \<Rightarrow> Context \<Rightarrow> ClickParams \<Rightarrow> string \<Rightarrow> (string option, 'd) run" where
  "tap_fallback drv ctx params failure =
     (case (cp_X params, cp_Y params) of
        (Some x, Some y) \<Rightarrow> perform (dr_Tap drv ctx x y)
      | _ \<Rightarrow> ret (Some failure))"

definition handleClickWithLocators :: "run_lib \<Rightarrow> 'd Driver \<Rightarrow> Context \<Rightarrow> ClickParams \<Rightarrow> (string option, 'd) run" where
  "handleClickWithLocators lib drv ctx params =
     (let locators = ul_sort_locators (rl_ui lib) (\<lambda>k l. loc_Confidence k > loc_Confidence l) (cp_Locators params) in
      andThen (try_locators lib drv ctx (cp_Anchor params) locators) (\<lambda>res. case res of
        Some err \<Rightarrow> ret err
      | None \<Rightarrow>
          (case find (\<lambda>loc. loc_Strategy loc = ''coordinates'') locators of
             Some loc \<Rightarrow> perform (dr_Tap drv ctx (loc_X loc) (loc_Y loc))
           | None \<Rightarrow> tap_fallback drv ctx params ''click: all locators exhausted and no coordinates available'')))"

definition handleClickWithTarget :: "run_lib \<Rightarrow> 'd Driver \<Rightarrow> Context \<Rightarrow> ElRef \<Rightarrow> ClickParams \<Rightarrow> (string option, 'd) run" where
  "handleClickWithTarget lib drv ctx target params =
     andThen Now (\<lambda>now.
     andThen (forever (0, '''') (click_round lib drv ctx target (cp_Anchor params) (now + 5000 * millisecond))) (\<lambda>res. case res of
       Inl e \<Rightarrow> ret (Some e)
     | Inr (Some node, _) \<Rightarrow> tapUIElement drv ctx (deref node) (cp_X params) (cp_Y params)
     | Inr (None, lastErr) \<Rightarrow>
         andThen (if cp_Locators params \<noteq> [] then handleClickWithLocators lib drv ctx params else ret (Some '''')) (\<lambda>err.
           if cp_Locators params \<noteq> [] \<and> err = None then ret None
           else tap_fallback drv ctx params (''click: target and locators resolution failed: '' @ lastErr))))"

definition handleClickLegacy :: "run_lib \<Rightarrow> 'd Driver \<Rightarrow> Context \<Rightarrow> ClickParams \<Rightarrow> (string option, 'd) run" where
  "handleClickLegacy lib drv ctx params =
     (let fallback = tap_fallback drv ctx params ''click: no strong selector matched and no coordinates defined'' in
      if cp_ResourceID params \<noteq> '''' \<or> cp_ContentDesc params \<noteq> '''' \<or> cp_Text params \<noteq> '''' \<or> cp_XPath params \<noteq> '''' then
        andThen (waitForElement lib drv ctx \<lparr>eq_ResourceID = cp_ResourceID params, eq_ContentDesc = cp_ContentDesc params,
            eq_Text = cp_Text params, eq_Class = cp_Class params, eq_XPath = cp_XPath params\<rparr> ''visible'' 5000) (\<lambda>res. case res of
          Inr (Some match) \<Rightarrow> tapNode lib drv ctx match
        | Inr None \<Rightarrow> panic
        | Inl _ \<Rightarrow> fallback)
      else fallback)"

definition handleClick :: "run_lib \<Rightarrow> 'd Driver \<Rightarrow> Context \<Rightarrow> ClickParams \<Rightarrow> (string option, 'd) run" where
  "handleClick lib drv ctx params =
     (case cp_Target params of
        Some target \<Rightarrow> handleClickWithTarget lib drv ctx target params
      | None \<Rightarrow>
          if cp_Locators params \<noteq> [] then handleClickWithLocators lib drv ctx params
          else handleClickLegacy lib drv ctx params)"

subsection \<open>Input\<close>

definition input_again :: "instant \<Rightarrow> nat \<Rightarrow> (ElRef option + nat, 'd) run" where
  "input_again limit scrollsAttempted =
     andThen Now (\<lambda>t.
       if t > limit then ret (Inl None) else andThen (Sleep (300 * millisecond)) (\<lambda>_. ret (Inr scrollsAttempted)))"

definition input_round ::
  "run_lib \<Rightarrow> 'd Driver \<Rightarrow> Context \<Rightarrow> ElRef \<Rightarrow> instant \<Rightarrow> nat \<Rightarrow> (ElRef option + nat, 'd) run" where
  "input_round lib drv ctx target limit scrollsAttempted =
     andThen (perform (dr_DumpUI drv ctx)) (\<lambda>dump.
     andThen fresh_doc (\<lambda>doc.
       case (case dump of Inl e \<Rightarrow> Inl e | Inr xmlData \<Rightarrow> ParseXMLTree (rl_ui lib) doc xmlData) of
            Inl _ \<Rightarrow> input_again limit scrollsAttempted
          | Inr tree \<Rightarrow>
              (case ResolveElement (rl_ui lib) (Some (tree, [])) (Some target) None of
                 Inr (node, _) \<Rightarrow> ret (Inl (Some node))
               | Inl _ \<Rightarrow>
                   if scrollsAttempted < maxScrolls then
                     andThen (scroll_and_resolve lib drv ctx target None) (\<lambda>found. case found of
                       Some node \<Rightarrow> ret (Inl (Some node))
                     | None \<Rightarrow> input_again limit (Suc scrollsAttempted))
                   else input_again limit scrollsAttempted)))"

definition node_target :: "XMLRef \<Rightarrow> UIAttrs" where
  "node_target r =
     (let a = xn (xr_node r) in
      zero_attrs\<lparr>ue_ResourceID := xa_ResourceID a, ue_Class := xa_Class a, ue_Text := xa_Text a,
        ue_Focused := (xa_Focused a = ''true''), ue_Bounds := fst (ParseBounds (xa_Bounds a))\<rparr>)"

definition input_text :: "InputParams \<Rightarrow> (string \<rightharpoonup> string) \<Rightarrow> string" where
  "input_text params vars =
     (if ip_Variable params \<noteq> '''' then (case vars (ip_Variable params) of Some val \<Rightarrow> val | None \<Rightarrow> ip_Text params)
      else ip_Text params)"

text \<open>The field to type into: the target, else what the selectors find, else the field with the focus or the first text field.\<close>

definition input_by_target :: "run_lib \<Rightarrow> 'd Driver \<Rightarrow> Context \<Rightarrow> InputParams \<Rightarrow> (UIAttrs option, 'd) run" where
  "input_by_target lib drv ctx params =
     (case ip_Target params of
        None \<Rightarrow> ret None
      | Some target \<Rightarrow>
          andThen Now (\<lambda>now.
          andThen (forever 0 (input_round lib drv ctx target (now + 5000 * millisecond))) (\<lambda>node. ret (map_option deref node))))"

definition input_by_selector :: "run_lib \<Rightarrow> 'd Driver \<Rightarrow> Context \<Rightarrow> InputParams \<Rightarrow> (UIAttrs option, 'd) run" where
  "input_by_selector lib drv ctx params =
     (if ip_ResourceID params \<noteq> '''' \<or> ip_ContentDesc params \<noteq> '''' \<or> ip_Class params \<noteq> '''' \<or> ip_XPath params \<noteq> '''' then
        andThen (waitForElement lib drv ctx \<lparr>eq_ResourceID = ip_ResourceID params, eq_ContentDesc = ip_ContentDesc params,
            eq_Text = '''', eq_Class = ip_Class params, eq_XPath = ip_XPath params\<rparr> ''visible'' 5000) (\<lambda>res. case res of
          Inl _ \<Rightarrow> ret None
        | Inr node \<Rightarrow> ret (map_option node_target node))
      else ret None)"

definition input_by_focus :: "run_lib \<Rightarrow> 'd Driver \<Rightarrow> Context \<Rightarrow> (UIAttrs option, 'd) run" where
  "input_by_focus lib drv ctx =
     andThen (perform (dr_DumpUI drv ctx)) (\<lambda>dump.
     andThen fresh_doc (\<lambda>doc. case dump of
       Inl _ \<Rightarrow> ret None
     | Inr xmlData \<Rightarrow>
         (case FindFocusedOrEditTextNode (rl_ui lib) doc xmlData of
            Inl _ \<Rightarrow> ret None
          | Inr r \<Rightarrow> ret (Some (node_target r)))))"

definition or_else :: "('a option, 'd) run \<Rightarrow> ('a option, 'd) run \<Rightarrow> ('a option, 'd) run" where
  "or_else m n = andThen m (\<lambda>x. case x of Some y \<Rightarrow> ret (Some y) | None \<Rightarrow> n)"

definition handleInput ::
  "run_lib \<Rightarrow> 'd Driver \<Rightarrow> Context \<Rightarrow> InputParams \<Rightarrow> (string \<rightharpoonup> string) \<Rightarrow> (string option, 'd) run" where
  "handleInput lib drv ctx params vars =
     andThen (or_else (input_by_target lib drv ctx params)
                (or_else (input_by_selector lib drv ctx params) (input_by_focus lib drv ctx))) (\<lambda>targetNode.
     andThen (case targetNode of
         Some node \<Rightarrow>
           if ue_Focused node then ret ()
           else andThen (tapUIElement drv ctx node (ip_X params) (ip_Y params)) (\<lambda>_. Sleep (300 * millisecond))
       | None \<Rightarrow> ret ()) (\<lambda>_.
     andThen (perform (dr_Input drv ctx (input_text params vars))) (\<lambda>err. case err of
       Some e \<Rightarrow> ret (Some e)
     | None \<Rightarrow>
         (case targetNode of
            Some node \<Rightarrow>
              if ue_ResourceID node \<noteq> '''' then
                andThen (Sleep (500 * millisecond)) (\<lambda>_. andThen (perform (dr_DumpUI drv ctx)) (\<lambda>_. ret None))
              else ret None
          | None \<Rightarrow> ret None))))"

subsection \<open>Waiting, assertions and conditions\<close>

definition default_condition :: "string \<Rightarrow> string" where
  "default_condition condition = (if condition = '''' then ''visible'' else condition)"

text \<open>The target in the present screen; \<^term>\<open>None\<close> also when there is no dump or it does not parse.\<close>

definition target_in_dump :: "run_lib \<Rightarrow> nat \<Rightarrow> (string + string) \<Rightarrow> ElRef \<Rightarrow> ElRef option" where
  "target_in_dump lib doc dump target =
     (case dump of
        Inl _ \<Rightarrow> None
      | Inr xmlData \<Rightarrow> (case resolve_in lib doc xmlData target None of Inl _ \<Rightarrow> None | Inr node \<Rightarrow> Some node))"

definition wait_round ::
  "run_lib \<Rightarrow> 'd Driver \<Rightarrow> Context \<Rightarrow> ElRef \<Rightarrow> string \<Rightarrow> instant \<Rightarrow> ((string + unit) + unit, 'd) run" where
  "wait_round lib drv ctx target condition limit =
     andThen (ctx_Err ctx) (\<lambda>e. case e of
       Some e \<Rightarrow> ret (Inl (Inl e))
     | None \<Rightarrow>
         andThen (perform (dr_DumpUI drv ctx)) (\<lambda>dump.
         andThen fresh_doc (\<lambda>doc.
           let node = target_in_dump lib doc dump target in
           if (condition = ''visible'' \<or> condition = ''present'') \<and> node \<noteq> None then ret (Inl (Inr ()))
           else if condition = ''hidden'' \<and> node = None then ret (Inl (Inr ()))
           else poll_again ctx limit (''timeout waiting for target UIElement to match condition '' @ condition) ())))"

fun error_of :: "string + 'a \<Rightarrow> string option" where
  "error_of (Inl e) = Some e"
| "error_of (Inr _) = None"

definition handleWait :: "run_lib \<Rightarrow> 'd Driver \<Rightarrow> Context \<Rightarrow> WaitParams \<Rightarrow> (string option, 'd) run" where
  "handleWait lib drv ctx params =
     (let condition = default_condition (wp_Condition params);
          timeoutMs = (if wp_TimeoutMs params \<le> 0 then 5000 else wp_TimeoutMs params)
      in case wp_Target params of
           Some target \<Rightarrow>
             andThen Now (\<lambda>now.
             andThen (forever () (\<lambda>_. wait_round lib drv ctx target condition (now + ms_duration timeoutMs))) (\<lambda>res. ret (error_of res)))
         | None \<Rightarrow>
             andThen (waitForElement lib drv ctx \<lparr>eq_ResourceID = wp_ResourceID params, eq_ContentDesc = wp_ContentDesc params,
                 eq_Text = wp_Text params, eq_Class = wp_Class params, eq_XPath = wp_XPath params\<rparr> condition timeoutMs)
               (\<lambda>res. ret (error_of res)))"

text \<open>
  One round of the loop of \<^verbatim>\<open>handleAssert\<close>.  The node that was seen last is kept from round to round, also
  when it is not on the screen any more.
\<close>

definition assert_look ::
  "run_lib \<Rightarrow> nat \<Rightarrow> (string + string) \<Rightarrow> ElRef \<Rightarrow> ElRef option \<times> string option \<Rightarrow> ElRef option \<times> string option" where
  "assert_look lib doc dump target s =
     (case dump of
        Inl _ \<Rightarrow> s
      | Inr xmlData \<Rightarrow>
          (case ParseXMLTree (rl_ui lib) doc xmlData of
             Inl _ \<Rightarrow> s
           | Inr tree \<Rightarrow>
               (case ResolveElement (rl_ui lib) (Some (tree, [])) (Some target) None of
                  Inr (node, _) \<Rightarrow> (Some node, snd s)
                | Inl e \<Rightarrow> (fst s, Some e))))"

definition assert_timeout :: "string \<Rightarrow> string option \<Rightarrow> string" where
  "assert_timeout condition lastErr =
     (if condition = ''hidden'' then ''assert failed: element is still visible''
      else (case lastErr of
              Some e \<Rightarrow> ''assert failed: element is not visible: '' @ e
            | None \<Rightarrow> ''assert failed: element is not visible''))"

definition assert_round ::
  "run_lib \<Rightarrow> 'd Driver \<Rightarrow> Context \<Rightarrow> ElRef \<Rightarrow> string \<Rightarrow> instant \<Rightarrow> ElRef option \<times> string option \<Rightarrow>
   ((string + ElRef option) + ElRef option \<times> string option, 'd) run" where
  "assert_round lib drv ctx target condition limit s =
     andThen (ctx_Err ctx) (\<lambda>e. case e of
       Some e \<Rightarrow> ret (Inl (Inl e))
     | None \<Rightarrow>
         andThen (perform (dr_DumpUI drv ctx)) (\<lambda>dump.
         andThen fresh_doc (\<lambda>doc.
           let (matchedNode, lastErr) = assert_look lib doc dump target s in
           if condition = ''hidden'' \<and> matchedNode = None then ret (Inl (Inr None))
           else if condition \<noteq> ''hidden'' \<and> matchedNode \<noteq> None then ret (Inl (Inr matchedNode))
           else poll_again ctx limit (assert_timeout condition lastErr) (matchedNode, lastErr))))"

text \<open>The test of the text of the node that was found.\<close>

definition assert_text :: "run_lib \<Rightarrow> string \<Rightarrow> string \<Rightarrow> string \<Rightarrow> string option" where
  "assert_text lib condition actual val =
     (if condition = ''visible'' \<or> condition = ''present'' then None
      else if condition = ''equals'' then
        (if actual \<noteq> val then Some (''assert failed: expected text '' @ rl_quote lib val @ '', got '' @ rl_quote lib actual) else None)
      else if condition = ''contains'' then
        (if \<not> strings_Contains actual val
         then Some (''assert failed: text '' @ rl_quote lib actual @ '' does not contain '' @ rl_quote lib val) else None)
      else Some (''assert failed: unknown assertion condition '' @ rl_quote lib condition))"

definition handleAssert :: "run_lib \<Rightarrow> 'd Driver \<Rightarrow> Context \<Rightarrow> AssertParams \<Rightarrow> (string option, 'd) run" where
  "handleAssert lib drv ctx params =
     (let timeoutMs = (if ap_TimeoutMs params \<le> 0 then 3000 else ap_TimeoutMs params);
          condition = default_condition (ap_Condition params);
          query = \<lparr>eq_ResourceID = ap_ResourceID params, eq_ContentDesc = ap_ContentDesc params, eq_Text = ap_Text params,
                   eq_Class = ap_Class params, eq_XPath = ap_XPath params\<rparr>
      in case ap_Target params of
           Some target \<Rightarrow>
             andThen Now (\<lambda>now.
             andThen (forever (None, None) (assert_round lib drv ctx target condition (now + ms_duration timeoutMs))) (\<lambda>res. case res of
               Inl e \<Rightarrow> ret (Some e)
             | Inr None \<Rightarrow> ret None
             | Inr (Some node) \<Rightarrow>
                 ret (assert_text lib condition (ue_Text (deref node))
                        (if ap_Value params = '''' then ue_Text (deref target) else ap_Value params))))
         | None \<Rightarrow>
             if condition = ''hidden'' then
               andThen (waitForElement lib drv ctx query ''hidden'' timeoutMs) (\<lambda>res. case res of
                 Inl e \<Rightarrow> ret (Some (''assert failed: element is still visible: '' @ e))
               | Inr _ \<Rightarrow> ret None)
             else
               andThen (waitForElement lib drv ctx query ''visible'' timeoutMs) (\<lambda>res. case res of
                 Inl e \<Rightarrow> ret (Some (''assert failed: element is not visible: '' @ e))
               | Inr None \<Rightarrow> panic
               | Inr (Some match) \<Rightarrow>
                   ret (assert_text lib condition (xa_Text (xn (xr_node match)))
                          (if ap_Value params = '''' then ap_Text params else ap_Value params))))"

definition evaluateCondition :: "run_lib \<Rightarrow> 'd Driver \<Rightarrow> Context \<Rightarrow> IfCondition \<Rightarrow> (bool, 'd) run" where
  "evaluateCondition lib drv ctx cond =
     (case ic_Exists cond of
        None \<Rightarrow> ret False
      | Some ex \<Rightarrow>
          (case ec_Target ex of
             Some target \<Rightarrow>
               andThen (perform (dr_DumpUI drv ctx)) (\<lambda>dump.
               andThen fresh_doc (\<lambda>doc. ret (target_in_dump lib doc dump target \<noteq> None)))
           | None \<Rightarrow>
               andThen (waitForElement lib drv ctx \<lparr>eq_ResourceID = ec_ResourceID ex, eq_ContentDesc = ec_ContentDesc ex,
                   eq_Text = ec_Text ex, eq_Class = ec_Class ex, eq_XPath = ec_XPath ex\<rparr> ''visible'' 1000)
                 (\<lambda>res. ret (error_of res = None))))"

section \<open>runner.go\<close>

definition step_result :: "int \<Rightarrow> string \<Rightarrow> instant \<Rightarrow> string option \<Rightarrow> (StepResult, 'd) run" where
  "step_result index action start err =
     andThen Now (\<lambda>now. ret \<lparr>str_Index = index, str_Action = action, str_Success = (err = None),
       str_DurationMs = (now - start) div millisecond, str_Error = (case err of None \<Rightarrow> '''' | Some e \<Rightarrow> e), str_Screenshot = []\<rparr>)"

fun runStep ::
  "run_lib \<Rightarrow> 'd Driver \<Rightarrow> Context \<Rightarrow> int \<Rightarrow> Step \<Rightarrow> (string \<rightharpoonup> string) \<Rightarrow> (StepResult, 'd) run"
  and run_block ::
  "run_lib \<Rightarrow> 'd Driver \<Rightarrow> Context \<Rightarrow> int \<Rightarrow> int \<Rightarrow> Step list \<Rightarrow> (string \<rightharpoonup> string) \<Rightarrow> (string option, 'd) run" where
  "runStep lib drv ctx index (Step launch term click inp swipe waitp assertp ifp thenp elsep delay) vars =
     andThen Now (\<lambda>start.
     andThen (if click \<noteq> None \<or> inp \<noteq> None \<or> waitp \<noteq> None \<or> assertp \<noteq> None
              then andThen (waitForUIStabilization drv ctx (2000 * millisecond)) (\<lambda>_. ret ()) else ret ()) (\<lambda>_.
       case launch of Some p \<Rightarrow>
         andThen (perform (dr_Launch drv ctx (lp_Package p))) (\<lambda>err.
         andThen (if err = None then verifyPackageActive lib drv ctx (lp_Package p) 3000 else ret ()) (\<lambda>_.
         step_result index ''launch'' start err))
     | None \<Rightarrow>
       (case term of Some p \<Rightarrow>
         andThen (perform (dr_Terminate drv ctx (tp_Package p))) (step_result index ''terminate'' start)
     | None \<Rightarrow>
       (case inp of Some p \<Rightarrow> andThen (handleInput lib drv ctx p vars) (step_result index ''input'' start)
     | None \<Rightarrow>
       (case swipe of Some p \<Rightarrow>
         andThen (perform (dr_Swipe drv ctx (sp_StartX p) (sp_StartY p) (sp_EndX p) (sp_EndY p) (sp_DurationMs p)))
           (step_result index ''swipe'' start)
     | None \<Rightarrow>
       (case click of Some p \<Rightarrow> andThen (handleClick lib drv ctx p) (step_result index ''click'' start)
     | None \<Rightarrow>
       (case waitp of Some p \<Rightarrow> andThen (handleWait lib drv ctx p) (step_result index ''wait'' start)
     | None \<Rightarrow>
       (case assertp of Some p \<Rightarrow> andThen (handleAssert lib drv ctx p) (step_result index ''assert'' start)
     | None \<Rightarrow>
       (case ifp of Some c \<Rightarrow>
         andThen (evaluateCondition lib drv ctx c) (\<lambda>conditionMet.
         andThen (if conditionMet then run_block lib drv ctx index 0 thenp vars else run_block lib drv ctx index 0 elsep vars)
           (step_result index ''if'' start))
     | None \<Rightarrow> step_result index ''unknown'' start (Some ''no action payload defined in step''))))))))))"
| "run_block lib drv ctx index subIdx [] vars = ret None"
| "run_block lib drv ctx index subIdx (subStep # steps) vars =
     andThen (runStep lib drv ctx (int64 (index * 100 + subIdx)) subStep vars) (\<lambda>subRes.
       if \<not> str_Success subRes
       then ret (Some (''conditional block step failed at index '' @ int_string (str_Index subRes) @ '': '' @ str_Error subRes))
       else run_block lib drv ctx index (subIdx + 1) steps vars)"

text \<open>An attempt at a step; \<open>retry\<close> is what follows a failure, unless this is the last attempt.\<close>

definition attempt ::
  "run_lib \<Rightarrow> 'd Driver \<Rightarrow> Context \<Rightarrow> int \<Rightarrow> Step \<Rightarrow> (string \<rightharpoonup> string) \<Rightarrow> (StepResult, 'd) run option \<Rightarrow> (StepResult, 'd) run" where
  "attempt lib drv ctx i step vars retry =
     andThen (ctx_Err ctx) (\<lambda>e. case e of
       Some e \<Rightarrow> ret \<lparr>str_Index = i, str_Action = ''cancelled'', str_Success = False, str_DurationMs = 0, str_Error = e, str_Screenshot = []\<rparr>
     | None \<Rightarrow>
         andThen (runStep lib drv ctx i step vars) (\<lambda>stepRes.
           if str_Success stepRes \<or> str_Action stepRes = ''assert'' \<or> str_Action stepRes = ''wait'' then ret stepRes
           else (case retry of
                   None \<Rightarrow> ret stepRes
                 | Some again \<Rightarrow> andThen (wait_or_done ctx (1000 * millisecond)) (\<lambda>_. again))))"

primrec run_attempts ::
  "run_lib \<Rightarrow> 'd Driver \<Rightarrow> Context \<Rightarrow> int \<Rightarrow> Step \<Rightarrow> (string \<rightharpoonup> string) \<Rightarrow> nat \<Rightarrow> (StepResult, 'd) run" where
  "run_attempts lib drv ctx i step vars 0 = attempt lib drv ctx i step vars None"
| "run_attempts lib drv ctx i step vars (Suc n) = attempt lib drv ctx i step vars (Some (run_attempts lib drv ctx i step vars n))"

abbreviation maxRetries :: nat where "maxRetries \<equiv> 2"

text \<open>The loop over the steps gives the results and the launched packages.\<close>

fun run_steps ::
  "run_lib \<Rightarrow> 'd Driver \<Rightarrow> Context \<Rightarrow> int \<Rightarrow> (string \<rightharpoonup> string) \<Rightarrow> int \<Rightarrow> Step list \<Rightarrow> string list \<Rightarrow> (StepResult list \<times> string list, 'd) run" where
  "run_steps lib drv ctx globalDelayMs vars i [] launched = ret ([], launched)"
| "run_steps lib drv ctx globalDelayMs vars i (step # steps) launched =
     andThen (run_attempts lib drv ctx i step vars maxRetries) (\<lambda>stepRes.
       if str_Success stepRes then
         (let delayMs = (if st_DelayMs step \<le> 0 then globalDelayMs else st_DelayMs step);
              launched = (case st_Launch step of
                            Some p \<Rightarrow> if lp_Package p \<in> set launched then launched else launched @ [lp_Package p]
                          | None \<Rightarrow> launched)
          in andThen (if delayMs > 0 then wait_or_done ctx (ms_duration delayMs) else ret False) (\<lambda>_.
             andThen (run_steps lib drv ctx globalDelayMs vars (i + 1) steps launched) (\<lambda>(results, launched).
             ret (stepRes # results, launched))))
       else
         andThen (perform (dr_Screenshot drv ctx)) (\<lambda>shot.
           ret ([case shot of Inr s \<Rightarrow> stepRes\<lparr>str_Screenshot := s\<rparr> | Inl _ \<Rightarrow> stepRes], launched)))"

fun terminate_all :: "'d Driver \<Rightarrow> string list \<Rightarrow> (unit, 'd) run" where
  "terminate_all drv [] = ret ()"
| "terminate_all drv (pkg # pkgs) = andThen (perform (dr_Terminate drv Background pkg)) (\<lambda>_. terminate_all drv pkgs)"

definition global_delay :: "(string \<rightharpoonup> string) \<Rightarrow> int" where
  "global_delay vars =
     (case vars ''step_delay_ms'' of
        Some val \<Rightarrow> (case strconv_Atoi val of Some d \<Rightarrow> d | None \<Rightarrow> 0)
      | None \<Rightarrow> 0)"

definition Run :: "run_lib \<Rightarrow> 'd Driver \<Rightarrow> Context \<Rightarrow> Script \<Rightarrow> (Report, 'd) run" where
  "Run lib drv ctx script =
     andThen Now (\<lambda>start.
     andThen (run_steps lib drv ctx (global_delay (scr_Variables script)) (scr_Variables script) 0 (scr_Steps script) []) (\<lambda>(results, launched).
     andThen Now (\<lambda>stop.
     andThen (terminate_all drv (rl_range lib launched)) (\<lambda>_.
     ret \<lparr>rep_StartTime = start, rep_EndTime = stop, rep_DurationMs = (stop - start) div millisecond,
          rep_TotalSteps = int (length (scr_Steps script)), rep_PassedSteps = int (length (filter str_Success results)),
          rep_Success = list_all str_Success results, rep_Results = results\<rparr>))))"

end
