(* ===== verification/Recorder.thy ===== *)
theory Recorder
  imports Automation_Driver
begin

text \<open>
  \<^verbatim>\<open>src/internal/automation/recorder.go\<close>: recording sessions.  A session is an object behind a pointer:
  \<^verbatim>\<open>RecordClick\<close> looks the session up, lets go of the lock while it dumps the screen, and appends to the
  session that it found.  The objects are a heap; the two critical sections of \<^verbatim>\<open>RecordClick\<close> are two
  operations, and \<^verbatim>\<open>RecordClick\<close> with nothing in between is their composition.
\<close>

record RawEvent =
  re_Time :: instant
  re_Type :: string
  re_Package :: string
  re_ScreenWidth :: "32 word"
  re_ScreenHeight :: "32 word"
  re_TouchX :: float64
  re_TouchY :: float64
  re_EndX :: float64
  re_EndY :: float64
  re_DurationMs :: int
  re_Text :: string
  re_UIXML :: string

record RecordingSession =
  rs_Serial :: string
  rs_StartTime :: instant
  rs_Events :: "RawEvent list"

record RecorderManager =
  rm_sessions :: "string \<rightharpoonup> nat"
  rm_heap :: "nat \<Rightarrow> RecordingSession"
  rm_next :: nat

definition zero_event :: RawEvent where
  "zero_event =
     \<lparr>re_Time = 0, re_Type = '''', re_Package = '''', re_ScreenWidth = 0, re_ScreenHeight = 0, re_TouchX = 0, re_TouchY = 0,
      re_EndX = 0, re_EndY = 0, re_DurationMs = 0, re_Text = '''', re_UIXML = ''''\<rparr>"

definition zero_session :: RecordingSession where
  "zero_session = \<lparr>rs_Serial = '''', rs_StartTime = 0, rs_Events = []\<rparr>"

definition NewRecorderManager :: RecorderManager where
  "NewRecorderManager = \<lparr>rm_sessions = Map.empty, rm_heap = (\<lambda>_. zero_session), rm_next = 0\<rparr>"

definition launch_events :: "instant \<Rightarrow> string \<Rightarrow> RawEvent list" where
  "launch_events now launchPackage =
     (if launchPackage \<noteq> '''' then [zero_event\<lparr>re_Time := now, re_Type := ''launch'', re_Package := launchPackage\<rparr>] else [])"

definition StartRecording :: "instant \<Rightarrow> string \<Rightarrow> string \<Rightarrow> RecorderManager \<Rightarrow> RecorderManager" where
  "StartRecording now serial launchPackage m =
     m\<lparr>rm_sessions := (rm_sessions m)(serial \<mapsto> rm_next m),
       rm_heap := (rm_heap m)(rm_next m := \<lparr>rs_Serial = serial, rs_StartTime = now, rs_Events = launch_events now launchPackage\<rparr>),
       rm_next := Suc (rm_next m)\<rparr>"

definition no_session :: "string \<Rightarrow> string" where
  "no_session serial = ''no active recording session for device '' @ serial"

definition StopRecording :: "string \<Rightarrow> RecorderManager \<Rightarrow> (string + RawEvent list) \<times> RecorderManager" where
  "StopRecording serial m =
     (case rm_sessions m serial of
        None \<Rightarrow> (Inl (no_session serial), m)
      | Some p \<Rightarrow> (Inr (rs_Events (rm_heap m p)), m\<lparr>rm_sessions := (rm_sessions m)(serial := None)\<rparr>))"

definition IsRecording :: "string \<Rightarrow> RecorderManager \<Rightarrow> bool" where
  "IsRecording serial m \<longleftrightarrow> rm_sessions m serial \<noteq> None"

text \<open>\<^verbatim>\<open>session.Events = append(session.Events, event)\<close> under the lock of the session.\<close>

definition append_event :: "nat \<Rightarrow> RawEvent \<Rightarrow> RecorderManager \<Rightarrow> RecorderManager" where
  "append_event p e m =
     m\<lparr>rm_heap := (rm_heap m)(p := (rm_heap m p)\<lparr>rs_Events := rs_Events (rm_heap m p) @ [e]\<rparr>)\<rparr>"

definition RecordClick_begin :: "string \<Rightarrow> RecorderManager \<Rightarrow> string + nat" where
  "RecordClick_begin serial m =
     (case rm_sessions m serial of None \<Rightarrow> Inl (no_session serial) | Some p \<Rightarrow> Inr p)"

definition click_event :: "instant \<Rightarrow> (string + string) \<Rightarrow> (string + 32 word \<times> 32 word) \<Rightarrow> float64 \<Rightarrow> float64 \<Rightarrow> RawEvent" where
  "click_event now dump sz x y =
     (let xmlData = (case dump of Inl _ \<Rightarrow> '''' | Inr s \<Rightarrow> s);
          (width, height) = (case sz of Inl _ \<Rightarrow> (1080, 1920) | Inr wh \<Rightarrow> wh)
      in zero_event\<lparr>re_Time := now, re_Type := ''click'', re_ScreenWidth := width, re_ScreenHeight := height,
           re_TouchX := x, re_TouchY := y, re_UIXML := xmlData\<rparr>)"

definition RecordClick_end ::
  "instant \<Rightarrow> nat \<Rightarrow> (string + string) \<Rightarrow> (string + 32 word \<times> 32 word) \<Rightarrow> float64 \<Rightarrow> float64 \<Rightarrow> RecorderManager \<Rightarrow> RecorderManager" where
  "RecordClick_end now p dump sz x y m = append_event p (click_event now dump sz x y) m"

definition RecordClick ::
  "instant \<Rightarrow> string \<Rightarrow> (string + string) \<Rightarrow> (string + 32 word \<times> 32 word) \<Rightarrow> float64 \<Rightarrow> float64 \<Rightarrow> RecorderManager \<Rightarrow>
   string option \<times> RecorderManager" where
  "RecordClick now serial dump sz x y m =
     (case RecordClick_begin serial m of
        Inl e \<Rightarrow> (Some e, m)
      | Inr p \<Rightarrow> (None, RecordClick_end now p dump sz x y m))"

definition text_event :: "instant \<Rightarrow> string \<Rightarrow> RawEvent" where
  "text_event now text = zero_event\<lparr>re_Time := now, re_Type := ''input'', re_Text := text\<rparr>"

definition RecordTextInput :: "instant \<Rightarrow> string \<Rightarrow> string \<Rightarrow> RecorderManager \<Rightarrow> string option \<times> RecorderManager" where
  "RecordTextInput now serial text m =
     (case rm_sessions m serial of
        None \<Rightarrow> (Some (no_session serial), m)
      | Some p \<Rightarrow> (None, append_event p (text_event now text) m))"

definition swipe_event :: "instant \<Rightarrow> float64 \<Rightarrow> float64 \<Rightarrow> float64 \<Rightarrow> float64 \<Rightarrow> int \<Rightarrow> RawEvent" where
  "swipe_event now startX startY endX endY durationMs =
     zero_event\<lparr>re_Time := now, re_Type := ''swipe'', re_TouchX := startX, re_TouchY := startY, re_EndX := endX, re_EndY := endY,
       re_DurationMs := durationMs\<rparr>"

definition RecordSwipe ::
  "instant \<Rightarrow> string \<Rightarrow> float64 \<Rightarrow> float64 \<Rightarrow> float64 \<Rightarrow> float64 \<Rightarrow> int \<Rightarrow> RecorderManager \<Rightarrow> string option \<times> RecorderManager" where
  "RecordSwipe now serial startX startY endX endY durationMs m =
     (case rm_sessions m serial of
        None \<Rightarrow> (Some (no_session serial), m)
      | Some p \<Rightarrow> (None, append_event p (swipe_event now startX startY endX endY durationMs) m))"

section \<open>What a recorder promises\<close>

text \<open>
  The abstract recorder keeps a list of events per device that is being recorded.  A call is one of the
  operations; calls that do not overlap are a list.
\<close>

type_synonym recordings = "string \<rightharpoonup> RawEvent list"

datatype recorder_call =
  CallStart instant string string
| CallStop string
| CallClick instant string "string + string" "string + 32 word \<times> 32 word" float64 float64
| CallText instant string string
| CallSwipe instant string float64 float64 float64 float64 int

fun apply_call :: "recorder_call \<Rightarrow> RecorderManager \<Rightarrow> RecorderManager" where
  "apply_call (CallStart now serial pkg) m = StartRecording now serial pkg m"
| "apply_call (CallStop serial) m = snd (StopRecording serial m)"
| "apply_call (CallClick now serial dump sz x y) m = snd (RecordClick now serial dump sz x y m)"
| "apply_call (CallText now serial text) m = snd (RecordTextInput now serial text m)"
| "apply_call (CallSwipe now serial x y x' y' ms) m = snd (RecordSwipe now serial x y x' y' ms m)"

definition log_event :: "string \<Rightarrow> RawEvent \<Rightarrow> recordings \<Rightarrow> recordings" where
  "log_event serial e r = (case r serial of None \<Rightarrow> r | Some es \<Rightarrow> r(serial \<mapsto> es @ [e]))"

fun spec_call :: "recorder_call \<Rightarrow> recordings \<Rightarrow> recordings" where
  "spec_call (CallStart now serial pkg) r = r(serial \<mapsto> launch_events now pkg)"
| "spec_call (CallStop serial) r = r(serial := None)"
| "spec_call (CallClick now serial dump sz x y) r = log_event serial (click_event now dump sz x y) r"
| "spec_call (CallText now serial text) r = log_event serial (text_event now text) r"
| "spec_call (CallSwipe now serial x y x' y' ms) r = log_event serial (swipe_event now x y x' y' ms) r"

definition recordings_of :: "RecorderManager \<Rightarrow> recordings" where
  "recordings_of m serial = map_option (\<lambda>p. rs_Events (rm_heap m p)) (rm_sessions m serial)"

text \<open>No two devices share a session, and new sessions are new objects.\<close>

definition recorder_ok :: "RecorderManager \<Rightarrow> bool" where
  "recorder_ok m \<longleftrightarrow>
     (\<forall>s p. rm_sessions m s = Some p \<longrightarrow> p < rm_next m) \<and>
     (\<forall>s t p. rm_sessions m s = Some p \<longrightarrow> rm_sessions m t = Some p \<longrightarrow> s = t)"

lemma recorder_ok_start: "recorder_ok m \<Longrightarrow> recorder_ok (StartRecording now serial pkg m)"
  by (fastforce simp: recorder_ok_def StartRecording_def split: if_splits)

lemma recorder_ok_append [simp]: "recorder_ok (append_event p e m) \<longleftrightarrow> recorder_ok m"
  by (simp add: recorder_ok_def append_event_def)

lemma append_recordings:
  "recorder_ok m \<Longrightarrow> rm_sessions m serial = Some p \<Longrightarrow> recordings_of (append_event p e m) = log_event serial e (recordings_of m)"
  by (rule ext) (auto simp: recordings_of_def append_event_def log_event_def recorder_ok_def intro!: option.map_cong0)

lemma log_event_none: "rm_sessions m serial = None \<Longrightarrow> log_event serial e (recordings_of m) = recordings_of m"
  by (simp add: log_event_def recordings_of_def)

lemmas recorder_ops = RecordClick_def RecordClick_begin_def RecordClick_end_def RecordTextInput_def RecordSwipe_def StopRecording_def

lemma recorder_ok_call: "recorder_ok m \<Longrightarrow> recorder_ok (apply_call c m)"
  by (cases c) (auto simp: recorder_ok_start recorder_ops split: option.splits, auto simp: recorder_ok_def split: if_splits)

lemma apply_call_refines: "recorder_ok m \<Longrightarrow> recordings_of (apply_call c m) = spec_call c (recordings_of m)"
proof (cases c)
  case (CallStart now serial pkg)
  assume "recorder_ok m"
  then have "p \<noteq> rm_next m" if "rm_sessions m s = Some p" for s p using that by (auto simp: recorder_ok_def)
  with CallStart show ?thesis
    by (intro ext) (auto simp: recordings_of_def StartRecording_def option.map_comp intro!: map_option_cong)
next
  case (CallStop serial)
  then show ?thesis by (intro ext) (simp add: recordings_of_def StopRecording_def split: option.splits)
qed (auto simp: recorder_ops append_recordings log_event_none split: option.splits)

lemma calls_refine:
  "recorder_ok m \<Longrightarrow> recorder_ok (fold apply_call cs m) \<and> recordings_of (fold apply_call cs m) = fold spec_call cs (recordings_of m)"
  by (induction cs arbitrary: m) (simp_all add: recorder_ok_call apply_call_refines)

lemma recorder_ok_new: "recorder_ok NewRecorderManager" "recordings_of NewRecorderManager = Map.empty"
  by (auto simp: recorder_ok_def NewRecorderManager_def recordings_of_def)

text \<open>
  C24. Calls that do not overlap, for any devices in any order: the recorder keeps for each device that is
  being recorded the launch of the application and then the events recorded for that device, in order, and
  \<^verbatim>\<open>StopRecording\<close> returns just these.
\<close>

theorem recorder_refines:
  "recordings_of (fold apply_call cs NewRecorderManager) = fold spec_call cs Map.empty \<and>
   fst (StopRecording serial (fold apply_call cs NewRecorderManager)) =
     (case fold spec_call cs Map.empty serial of None \<Rightarrow> Inl (no_session serial) | Some es \<Rightarrow> Inr es)"
proof -
  let ?m = "fold apply_call cs NewRecorderManager"
  have "recordings_of ?m = fold spec_call cs Map.empty"
    using calls_refine [OF recorder_ok_new(1), of cs] by (simp add: recorder_ok_new)
  moreover from this have "fold spec_call cs Map.empty serial = map_option (\<lambda>p. rs_Events (rm_heap ?m p)) (rm_sessions ?m serial)"
    by (simp add: recordings_of_def flip: \<open>recordings_of ?m = _\<close>)
  ultimately show ?thesis by (auto simp: StopRecording_def split: option.splits)
qed

text \<open>
  Calls that overlap: a click whose screen dump is still under way when text is typed is recorded after
  the text, and when the recording is stopped before the dump is done the click is lost without an error.
\<close>

theorem slow_click_overtaken:
  assumes "RecordClick_begin serial m = Inr p" "rs_Events (rm_heap m p) = es"
  shows "fst (StopRecording serial (RecordClick_end now p dump sz x y (snd (RecordTextInput now' serial text m)))) =
      Inr (es @ [text_event now' text, click_event now dump sz x y]) \<and>
    fst (StopRecording serial m) = Inr es \<and>
    IsRecording serial (RecordClick_end now p dump sz x y (snd (StopRecording serial m))) = False"
  using assms
  by (auto simp: recorder_ops append_event_def IsRecording_def split: option.splits)

definition ex_recorder :: RecorderManager where
  "ex_recorder = StartRecording 0 ''phone'' ''com.shop'' NewRecorderManager"

theorem slow_click_overtaken_witness:
  "fst (StopRecording ''phone'' (RecordClick_end 5 0 (Inr ''<hierarchy/>'') (Inl ''no size'') (1/2) (1/3)
      (snd (RecordTextInput 3 ''phone'' ''shoes'' ex_recorder)))) =
    Inr (launch_events 0 ''com.shop'' @ [text_event 3 ''shoes'', click_event 5 (Inr ''<hierarchy/>'') (Inl ''no size'') (1/2) (1/3)])"
proof -
  have "RecordClick_begin ''phone'' ex_recorder = Inr 0" "rs_Events (rm_heap ex_recorder 0) = launch_events 0 ''com.shop''"
    by (simp_all add: ex_recorder_def StartRecording_def NewRecorderManager_def RecordClick_begin_def)
  from slow_click_overtaken [OF this] show ?thesis by blast
qed

end
