(* ===== verification/Locator_Properties.thy ===== *)
theory Locator_Properties
  imports Locator
begin

text \<open>
  What the locator package guarantees: which element a target, a touch point and a locator resolve to, that
  the path of an element leads back to it, and how locators are ranked; and where it goes wrong: malformed
  paths panic, and the context stored with a target can lead away from it.
\<close>

definition ui_lib_ok :: "ui_lib \<Rightarrow> bool" where
  "ui_lib_ok lib \<longleftrightarrow> slice_sort (ul_sort_matches lib) \<and> slice_sort (ul_sort_elements lib) \<and> slice_sort (ul_sort_locators lib)"

section \<open>Resolving a target\<close>

lemma strict_weak_match: "strict_weak (better_match target)"
  unfolding strict_weak_def better_match_def by (auto split: if_splits)

lemma strict_weak_click: "strict_weak (better_click width height)"
  unfolding strict_weak_def better_click_def Let_def by (auto split: if_splits)

lemma resolve_spec:
  assumes sort: "slice_sort (ul_sort_matches lib)"
  shows "case ResolveElement lib (Some live) (Some target) anchor of
      Inl _ \<Rightarrow> \<forall>c \<in> set (FlattenTree live). MatchScore target c anchor < 20
    | Inr (el, score) \<Rightarrow> el \<in> set (FlattenTree live) \<and> score = MatchScore target el anchor \<and> 20 \<le> score \<and>
        (\<forall>c \<in> set (FlattenTree live). MatchScore target c anchor < score \<or>
          MatchScore target c anchor = score \<and> area_diff target el \<le> area_diff target c)"
proof -
  let ?ms = "filter (\<lambda>m. snd m > 0) (map (\<lambda>c. (c, MatchScore target c anchor)) (FlattenTree live))"
  let ?sorted = "ul_sort_matches lib (better_match target) ?ms"
  have pos: "(c, MatchScore target c anchor) \<in> set ?ms" if "c \<in> set (FlattenTree live)" "MatchScore target c anchor > 0" for c
    using that by auto
  show ?thesis
  proof (cases ?sorted)
    case Nil
    then have "set ?ms = {}" using slice_sort.set_Slice [OF sort, of "better_match target" ?ms] by simp
    with pos have "MatchScore target c anchor < 20" if "c \<in> set (FlattenTree live)" for c using that by fastforce
    with Nil show ?thesis by (simp add: ResolveElement_def Let_def)
  next
    case (Cons best rest)
    note head = slice_sort.Slice_head [OF sort strict_weak_match Cons]
    have best: "fst best \<in> set (FlattenTree live)" "snd best = MatchScore target (fst best) anchor" "snd best > 0" using head(1) by auto
    have le: "MatchScore target c anchor < snd best \<or> MatchScore target c anchor = snd best \<and> area_diff target (fst best) \<le> area_diff target c"
      if "c \<in> set (FlattenTree live)" for c
    proof (cases "MatchScore target c anchor > 0")
      case True
      from head(2) [OF pos [OF that True]] show ?thesis by (auto simp: better_match_def split: if_splits)
    qed (use best(3) in simp)
    with Cons best show ?thesis
      by (cases "snd best < 20") (force simp: ResolveElement_def Let_def case_prod_beta)+
  qed
qed

text \<open>
  A target resolves to the element of the live tree with the highest score, and among those to one
  whose area is closest to the recorded one, whichever sorted order \<^verbatim>\<open>sort.Slice\<close> picks; it fails exactly
  when no element scores at least 20.
\<close>

theorem ResolveElement_best:
  assumes sort: "slice_sort (ul_sort_matches lib)"
  shows "case ResolveElement lib (Some live) (Some target) anchor of
      Inl _ \<Rightarrow> \<forall>c \<in> set (FlattenTree live). MatchScore target c anchor < 20
    | Inr (el, score) \<Rightarrow> el \<in> set (FlattenTree live) \<and> score = MatchScore target el anchor \<and> 20 \<le> score \<and>
        (\<forall>c \<in> set (FlattenTree live). MatchScore target c anchor < score \<or>
          MatchScore target c anchor = score \<and> area_diff target el \<le> area_diff target c)"
  by (rule resolve_spec [OF sort])

section \<open>An unchanged screen\<close>

lemma identity_score_self: "identity_score t c \<le> identity_score t t"
  by (auto simp: identity_score_def)

lemma siblings_with_self: "Parent r = Some q \<Longrightarrow> s \<in> set (Children q) \<Longrightarrow> s \<noteq> r \<Longrightarrow> siblings_with r (ue_Text (deref s))"
  by (auto simp: siblings_with_def list_ex_iff)

lemma length_filter_mono: "(\<And>x. x \<in> set xs \<Longrightarrow> P x \<Longrightarrow> Q x) \<Longrightarrow> length (filter P xs) \<le> length (filter Q xs)"
  by (induction xs) (auto simp: le_SucI)

lemma sibling_score_self: "sibling_score r c None \<le> sibling_score r r None"
proof (cases "Parent r")
  case (Some q)
  then show ?thesis
    by (auto simp: sibling_score_def intro!: length_filter_mono siblings_with_self [OF Some])
qed (simp add: sibling_score_def)

lemma parent_score_self: "parent_score r c None \<le> parent_score r r None"
  by (auto simp: parent_score_def split: option.splits)

text \<open>The candidate shows whatever the target shows.\<close>

definition same_look :: "UIAttrs \<Rightarrow> UIAttrs \<Rightarrow> bool" where
  "same_look t c \<longleftrightarrow> ue_Bounds c = ue_Bounds t \<and> (ue_Class t = '''' \<or> ue_Class c = ue_Class t) \<and>
     (ue_Text t = '''' \<or> ue_Text c = ue_Text t) \<and> (ue_ContentDesc t = '''' \<or> ue_ContentDesc c = ue_ContentDesc t) \<and>
     (ue_ResourceID t = '''' \<or> ue_ResourceID c = ue_ResourceID t \<or> id_suffix (ue_ResourceID t) (ue_ResourceID c) \<or>
        id_suffix (ue_ResourceID c) (ue_ResourceID t))"

lemma identity_score_look: "identity_score t c = identity_score t t \<Longrightarrow> same_look t c"
  by (auto simp: identity_score_def same_look_def split: if_splits)

lemma MatchScore_self: "MatchScore r r None \<ge> 30"
proof -
  have "identity_score a a \<ge> 30" for a by (auto simp: identity_score_def)
  moreover have "sibling_score r r None \<ge> 0" "parent_score r r None \<ge> 0"
    by (auto simp: sibling_score_def parent_score_def split: option.splits)
  ultimately show ?thesis by (simp add: MatchScore_def add_increasing2)
qed

lemma resolve_head:
  assumes sort: "slice_sort (ul_sort_matches lib)" and mem: "c \<in> set (FlattenTree live)" and c: "20 \<le> MatchScore target c anchor"
  shows "\<exists>el. ResolveElement lib (Some live) (Some target) anchor = Inr (el, MatchScore target el anchor) \<and>
    el \<in> set (FlattenTree live) \<and> MatchScore target c anchor \<le> MatchScore target el anchor"
  using resolve_spec [OF sort, of live target anchor] mem c
  by (cases "ResolveElement lib (Some live) (Some target) anchor") fastforce+

text \<open>
  On the screen it was recorded on, a target always resolves, to an element with the same bounds and
  with the same class, text, description and (up to the package prefix) identifier, where the target has them.
\<close>

theorem resolve_unchanged_screen:
  assumes sort: "slice_sort (ul_sort_matches lib)" and p: "valid_path tree p"
  shows "\<exists>el score. ResolveElement lib (Some (tree, [])) (Some (tree, p)) None = Inr (el, score) \<and>
    el \<in> set (FlattenTree (tree, [])) \<and> same_look (deref (tree, p)) (deref el)"
proof -
  let ?r = "(tree, p)"
  have mem: "?r \<in> set (FlattenTree (tree, []))" using p by (simp add: mem_FlattenTree_root)
  have "20 \<le> MatchScore ?r ?r None" using MatchScore_self [of ?r] by simp
  from resolve_head [OF sort mem this] obtain el where el: "ResolveElement lib (Some (tree, [])) (Some ?r) None = Inr (el, MatchScore ?r el None)"
    "el \<in> set (FlattenTree (tree, []))" "MatchScore ?r ?r None \<le> MatchScore ?r el None" by blast
  have "identity_score (deref ?r) (deref el) = identity_score (deref ?r) (deref ?r)"
    using el(3) identity_score_self [of "deref ?r" "deref el"] sibling_score_self [of ?r el] parent_score_self [of ?r el]
    unfolding MatchScore_def by linarith
  with el(1,2) show ?thesis by (blast intro: identity_score_look)
qed

section \<open>Paths back and forth\<close>

text \<open>What the round trip needs of a dump: the indices of siblings differ and contain no slash.\<close>

fun xml_ok :: "XMLNode \<Rightarrow> bool" where
  "xml_ok (XMLNode a ns) \<longleftrightarrow>
     CHR ''/'' \<notin> set (xa_Index a) \<and> distinct (map (\<lambda>n. xa_Index (xn n)) ns) \<and> (\<forall>n \<in> set ns. xml_ok n)"

fun node_at :: "XMLNode list \<Rightarrow> nat list \<Rightarrow> XMLNode option" where
  "node_at ns [] = None"
| "node_at ns (i # p) =
     (if i < length ns then (if p = [] then Some (ns ! i) else node_at (xn_Nodes (ns ! i)) p) else None)"

fun path_steps :: "XMLNode list \<Rightarrow> nat list \<Rightarrow> string list" where
  "path_steps ns [] = []"
| "path_steps ns (i # p) = index_part (xa_Index (xn (ns ! i))) # path_steps (xn_Nodes (ns ! i)) p"

lemma index_part_facts [simp]:
  "strings_HasPrefix (index_part idx) step_prefix" "strings_HasSuffix (index_part idx) step_suffix"
  "slice (index_part idx) (length step_prefix) (length (index_part idx) - length step_suffix) = Some idx"
  "index_part idx \<noteq> []" "last (index_part idx) = CHR '']''" "CHR ''/'' \<in> set (index_part idx) \<longleftrightarrow> CHR ''/'' \<in> set idx"
  using strings_HasSuffix_append [of "step_prefix @ idx" step_suffix]
  by (simp_all add: slice_def index_part_def) (simp_all add: step_prefix_def step_suffix_def)

lemma find_index_distinct:
  "i < length ns \<Longrightarrow> distinct (map (\<lambda>n. xa_Index (xn n)) ns) \<Longrightarrow> find_index (xa_Index (xn (ns ! i))) k ns = Some (k + i, ns ! i)"
proof (induction ns arbitrary: i k)
  case (Cons n ns)
  then show ?case by (cases i) (auto dest: nth_mem)
qed simp

lemma walk_path_steps:
  assumes "node_at ns p = Some n" "distinct (map (\<lambda>n. xa_Index (xn n)) ns)" "\<forall>m \<in> set ns. xml_ok m"
  shows "walk_steps doc q ns (path_steps ns p) = Return (Some \<lparr>xr_doc = doc, xr_path = q @ p, xr_node = n\<rparr>)"
  using assms
proof (induction ns p arbitrary: q rule: node_at.induct)
  case (2 ns i p)
  then have i: "i < length ns" by (auto split: if_splits)
  then have ok: "xml_ok (ns ! i)" using 2(4) by simp
  then have sub: "distinct (map (\<lambda>n. xa_Index (xn n)) (xn_Nodes (ns ! i)))" "\<forall>m \<in> set (xn_Nodes (ns ! i)). xml_ok m"
    by (cases "ns ! i"; simp)+
  show ?case
  proof (cases p)
    case Nil
    with 2(2) i find_index_distinct [OF i 2(3), of 0] show ?thesis by auto
  next
    case (Cons j p')
    then have "walk_steps doc (q @ [i]) (xn_Nodes (ns ! i)) (path_steps (xn_Nodes (ns ! i)) p) =
        Return (Some \<lparr>xr_doc = doc, xr_path = (q @ [i]) @ p, xr_node = n\<rparr>)"
      using 2(1) [OF i _ _ sub] 2(2) i by simp
    with Cons show ?thesis by (simp add: find_index_distinct [OF i 2(3)])
  qed
qed simp

lemma convert_nodes_nth:
  "length (convert_nodes doc q k ns) = length ns"
  "i < length ns \<Longrightarrow> convert_nodes doc q k ns ! i = convertXMLToUIElement doc (q @ [k + i]) (ns ! i)"
proof -
  show "length (convert_nodes doc q k ns) = length ns" by (induction ns arbitrary: k) simp_all
  show "i < length ns \<Longrightarrow> convert_nodes doc q k ns ! i = convertXMLToUIElement doc (q @ [k + i]) (ns ! i)"
  proof (induction ns arbitrary: i k)
    case (Cons n ns)
    then show ?case by (cases i) auto
  qed simp
qed

lemma convert_simps:
  "ue (convertXMLToUIElement doc q n) = node_attrs doc q n"
  "ue_Children (convertXMLToUIElement doc q n) = convert_nodes doc q 0 (xn_Nodes n)"
  by (cases n; simp)+

text \<open>The elements of a converted node are its descendants, with pointers to them.\<close>

lemma subtree_convert:
  "valid_path (convertXMLToUIElement doc q n) p \<Longrightarrow>
   \<exists>m. node_at [n] (0 # p) = Some m \<and> subtree (convertXMLToUIElement doc q n) p = convertXMLToUIElement doc (q @ p) m"
proof (induction p arbitrary: q n)
  case (Cons i p)
  have i: "i < length (xn_Nodes n)" using Cons.prems by (simp add: convert_simps convert_nodes_nth)
  have "valid_path (convertXMLToUIElement doc (q @ [i]) (xn_Nodes n ! i)) p"
    using Cons.prems i by (simp add: convert_simps convert_nodes_nth)
  from Cons.IH [OF this] obtain m where "node_at [xn_Nodes n ! i] (0 # p) = Some m"
    "subtree (convertXMLToUIElement doc (q @ [i]) (xn_Nodes n ! i)) p = convertXMLToUIElement doc ((q @ [i]) @ p) m" by blast
  with i show ?case by (auto simp: convert_simps convert_nodes_nth split: if_splits)
qed simp

lemma path_steps_converted:
  assumes "valid_path (convertXMLToUIElement doc q n) p"
  shows "map (\<lambda>k. index_step (ue_XMLRef (deref (convertXMLToUIElement doc q n, take k p)))) [0..<Suc (length p)] = path_steps [n] (0 # p)"
  using assms
proof (induction p arbitrary: q n)
  case Nil
  show ?case by (simp add: deref_def convert_simps node_attrs_def Let_def)
next
  case (Cons i p)
  let ?t = "convertXMLToUIElement doc q n" and ?c = "convertXMLToUIElement doc (q @ [i]) (xn_Nodes n ! i)"
  have i: "i < length (xn_Nodes n)" and p: "valid_path ?c p" using Cons.prems by (auto simp: convert_simps convert_nodes_nth)
  have A: "map (\<lambda>k. index_step (ue_XMLRef (deref (?t, take k (i # p))))) [0..<Suc (length (i # p))] =
      index_step (ue_XMLRef (deref (?t, []))) # map (\<lambda>k. index_step (ue_XMLRef (deref (?t, i # take k p)))) [0..<Suc (length p)]"
    by (simp only: upt_conv_Cons map_Suc_upt [symmetric] list.map map_map comp_def length_Cons take_Suc_Cons take_0 zero_less_Suc)
  have D: "deref (?t, i # q') = deref (?c, q')" for q'
    using i by (simp add: deref_def convert_simps convert_nodes_nth)
  show ?case unfolding A D Cons.IH [OF p] by (simp add: deref_def convert_simps node_attrs_def Let_def)
qed

lemma path_steps_no_slash:
  "node_at ns p = Some n \<Longrightarrow> \<forall>m \<in> set ns. xml_ok m \<Longrightarrow> part \<in> set (path_steps ns p) \<Longrightarrow> CHR ''/'' \<notin> set part"
proof (induction ns p rule: node_at.induct)
  case (2 ns i p)
  then have i: "i < length ns" by (auto split: if_splits)
  then have ok: "xml_ok (ns ! i)" using 2(3) by simp
  then have sub: "\<forall>m \<in> set (xn_Nodes (ns ! i)). xml_ok m" and idx: "CHR ''/'' \<notin> set (xa_Index (xn (ns ! i)))"
    by (cases "ns ! i"; simp)+
  show ?case
  proof (cases "part = index_part (xa_Index (xn (ns ! i)))")
    case True
    with idx show ?thesis by simp
  next
    case False
    with 2(4) have part: "part \<in> set (path_steps (xn_Nodes (ns ! i)) p)" by simp
    then have "p \<noteq> []" by auto
    with 2(1) [OF i _ _ sub part] 2(2) i show ?thesis by simp
  qed
qed simp

lemma strings_Join_last: "parts \<noteq> [] \<Longrightarrow> last parts \<noteq> [] \<Longrightarrow> strings_Join parts c \<noteq> [] \<and> last (strings_Join parts c) = last (last parts)"
  by (induction parts c rule: strings_Join.induct) auto

text \<open>An absolute path that ends in a visible character is walked step by step.\<close>

lemma EvaluateXPath_absolute:
  assumes "parts \<noteq> []" "last parts \<noteq> []" "\<not> is_space (last (last parts))" "\<And>p. p \<in> set parts \<Longrightarrow> CHR ''/'' \<notin> set p"
  shows "EvaluateXPath doc h (''/hierarchy/'' @ strings_Join parts (CHR ''/'')) = walk_steps doc [] (uh_Nodes h) parts"
proof -
  let ?x = "''/hierarchy/'' @ strings_Join parts (CHR ''/'')"
  have "last ?x = last (last parts)" using strings_Join_last [OF assms(1,2), of "CHR ''/''"] by simp
  moreover have "\<not> is_space (hd ?x)" by (simp add: is_space_def)
  ultimately have "strings_TrimSpace ?x = ?x" using assms(3) by (intro strings_TrimSpace_id) simp_all
  moreover have "indexed_xpath ?x = (?x, 1)" by (simp add: indexed_xpath_def strings_HasPrefix_def)
  moreover have "strings_Split (strings_Join parts (CHR ''/'')) (CHR ''/'') = parts" by (rule strings_Join_Split [OF assms(1,4)])
  ultimately show ?thesis
    using strings_HasPrefix_append [of "''/hierarchy/''" "strings_Join parts (CHR ''/'')"]
      strings_TrimPrefix_append [of "''/hierarchy/''" "strings_Join parts (CHR ''/'')"] by (simp add: EvaluateXPath_def)
qed

text \<open>Below a virtual root every element has its node, with an index that keeps the path in one piece.\<close>

lemma node_at_ok: "node_at ns p = Some n \<Longrightarrow> \<forall>m \<in> set ns. xml_ok m \<Longrightarrow> xml_ok n"
proof (induction ns p rule: node_at.induct)
  case (2 ns i p)
  then have i: "i < length ns" by (auto split: if_splits)
  then have ok: "xml_ok (ns ! i)" using 2(3) by simp
  then have sub: "\<forall>m \<in> set (xn_Nodes (ns ! i)). xml_ok m" by (cases "ns ! i") simp
  show ?case
  proof (cases p)
    case Nil
    with 2(2) i ok show ?thesis by simp
  next
    case (Cons j p')
    with 2(1) [OF i _ _ sub] 2(2) i show ?thesis by simp
  qed
qed simp

lemma index_step_below:
  assumes "ue_Children tree = convert_nodes doc [] 0 ns" "\<forall>n \<in> set ns. xml_ok n" "valid_path tree q" "q \<noteq> []"
  shows "\<exists>idx. index_step (ue_XMLRef (deref (tree, q))) = index_part idx \<and> CHR ''/'' \<notin> set idx"
proof -
  obtain i q' where q: "q = i # q'" using assms(4) by (cases q) auto
  have i: "i < length ns" and v: "valid_path (convertXMLToUIElement doc [i] (ns ! i)) q'"
    using assms(1,3) q by (auto simp: convert_nodes_nth)
  from subtree_convert [OF v] obtain m where m: "node_at [ns ! i] (0 # q') = Some m"
    "subtree (convertXMLToUIElement doc [i] (ns ! i)) q' = convertXMLToUIElement doc ([i] @ q') m" by blast
  have "xml_ok m" using node_at_ok [OF m(1)] assms(2) i by simp
  then have "CHR ''/'' \<notin> set (xa_Index (xn m))" by (cases m) simp
  moreover have "deref (tree, q) = node_attrs doc q m" using m(2) i q assms(1) by (simp add: deref_def convert_simps convert_nodes_nth)
  ultimately show ?thesis by (auto simp: node_attrs_def Let_def)
qed

lemma valid_path_take: "valid_path el p \<Longrightarrow> valid_path el (take k p)"
  by (metis append_take_drop_id valid_path_append)

lemma EvaluateXPath_virtual:
  assumes tree: "ue_XMLRef (ue tree) = None" "ue_Children tree = convert_nodes doc [] 0 ns" "\<forall>n \<in> set ns. xml_ok n"
    and p: "valid_path tree p"
  shows "EvaluateXPath doc' h (buildXPathForElement (tree, p)) = Return None"
proof -
  define steps where "steps = map (\<lambda>k. index_step (ue_XMLRef (deref (tree, take k p)))) [0..<Suc (length p)]"
  have nth: "steps ! k = (if k = 0 then ''node'' else index_step (ue_XMLRef (deref (tree, take k p))))" if "k < Suc (length p)" for k
    using that tree(1) by (auto simp: steps_def deref_def simp del: upt_Suc)
  have step: "steps ! k = ''node'' \<or> (\<exists>idx. steps ! k = index_part idx \<and> CHR ''/'' \<notin> set idx)" if k: "k < Suc (length p)" for k
    using nth [OF k] k index_step_below [OF tree(2,3) valid_path_take [OF p, of k]] by (cases "k = 0"; cases p) auto
  have len: "length steps = Suc (length p)" by (simp add: steps_def)
  then have ne: "steps \<noteq> []" by auto
  have all: "CHR ''/'' \<notin> set s" if "s \<in> set steps" for s
  proof -
    from that len obtain k where "k < Suc (length p)" "s = steps ! k" by (auto simp: in_set_conv_nth)
    with step [of k] show ?thesis by auto
  qed
  have "last steps = ''node'' \<or> (\<exists>idx. last steps = index_part idx)"
    using step [of "length p"] by (auto simp: last_conv_nth [OF ne] len)
  then have last: "last steps \<noteq> []" "\<not> is_space (last (last steps))" by (auto simp: is_space_def)
  have "EvaluateXPath doc' h (''/hierarchy/'' @ strings_Join steps (CHR ''/'')) = walk_steps doc' [] (uh_Nodes h) steps"
    by (rule EvaluateXPath_absolute [OF ne last all])
  moreover have "steps = ''node'' # tl steps" using nth [of 0] ne by (cases steps) auto
  moreover have "walk_steps doc' [] (uh_Nodes h) (''node'' # tl steps) = Return None"
    by (simp add: strings_HasPrefix_def step_prefix_def)
  ultimately show ?thesis by (simp add: buildXPathForElement_def steps_def)
qed

text \<open>
  C28. The path built for an element leads back to it: on a dump with one top-level node, whose siblings have
  different indices, evaluating the path of any element gives the very node that the element was made
  from.  On a dump with several top-level nodes, the path of no element leads anywhere.
\<close>

theorem xpath_roundtrip:
  assumes parse: "ul_Unmarshal lib xmlData = Inr h" "ParseXMLTree lib doc xmlData = Inr tree"
    and p: "valid_path tree p" and ok: "\<forall>n \<in> set (uh_Nodes h). xml_ok n"
  shows "EvaluateXPath doc h (buildXPathForElement (tree, p)) =
    (if length (uh_Nodes h) = 1 then Return (ue_XMLRef (deref (tree, p))) else Return None)"
proof (cases "length (uh_Nodes h) = 1")
  case True
  then obtain n where n: "uh_Nodes h = [n]" by (cases "uh_Nodes h") auto
  with parse have tree: "tree = convertXMLToUIElement doc [0] n" by (simp add: ParseXMLTree_def)
  obtain m where m: "node_at [n] (0 # p) = Some m" "subtree tree p = convertXMLToUIElement doc ([0] @ p) m"
    using subtree_convert [of doc "[0]" n p] p tree by auto
  have roots: "\<forall>m \<in> set [n]. xml_ok m" using ok n by simp
  have "last (path_steps [n] (0 # p)) \<noteq> [] \<and> last (last (path_steps [n] (0 # p))) = CHR '']''" for p n
    by (induction p arbitrary: n) simp_all
  then have "EvaluateXPath doc h (''/hierarchy/'' @ strings_Join (path_steps [n] (0 # p)) (CHR ''/'')) =
      walk_steps doc [] (uh_Nodes h) (path_steps [n] (0 # p))"
    by (intro EvaluateXPath_absolute path_steps_no_slash [OF m(1) roots]) (simp_all add: is_space_def)
  also have "\<dots> = Return (Some \<lparr>xr_doc = doc, xr_path = 0 # p, xr_node = m\<rparr>)"
    using walk_path_steps [OF m(1) _ roots, of doc "[]"] n by simp
  finally show ?thesis
    using True path_steps_converted [of doc "[0]" n p] p m(2)
    by (simp add: buildXPathForElement_def tree deref_def convert_simps node_attrs_def Let_def)
next
  case False
  with parse have "ue_XMLRef (ue tree) = None" "ue_Children tree = convert_nodes doc [] 0 (uh_Nodes h)"
    by (auto simp: ParseXMLTree_def Let_def zero_attrs_def split: list.splits)
  from EvaluateXPath_virtual [OF this ok p] False show ?thesis by simp
qed

section \<open>A screen to try it on\<close>

definition ex_node :: "string \<Rightarrow> string \<Rightarrow> string \<Rightarrow> string \<Rightarrow> string \<Rightarrow> XMLNode list \<Rightarrow> XMLNode" where
  "ex_node idx text rid cls bounds ns = XMLNode
     \<lparr>xa_Index = idx, xa_Text = text, xa_ResourceID = rid, xa_Class = cls, xa_Package = '''', xa_ContentDesc = '''', xa_Bounds = bounds,
      xa_Clickable = ''true'', xa_Enabled = ''true'', xa_Focusable = '''', xa_Focused = '''', xa_Scrollable = '''', xa_LongClickable = '''',
      xa_Checkable = '''', xa_Checked = '''', xa_Selected = ''''\<rparr> ns"

text \<open>
  Two rows of a list, each with an icon and a caption.  The caption of the first row is nested, that of the
  second stands next to the icon, and both say the same.
\<close>

definition ex_rows :: UIHierarchy where
  "ex_rows = \<lparr>uh_Nodes = [ex_node ''0'' '''' '''' ''List'' ''[0,0][100,200]''
     [ex_node ''0'' '''' '''' ''Row'' ''[0,0][100,100]''
        [ex_node ''0'' '''' '''' ''Icon'' ''[0,0][50,100]'' [],
         ex_node ''1'' '''' '''' ''Box'' ''[50,0][100,100]'' [ex_node ''0'' ''Delete'' '''' ''Label'' ''[50,0][100,50]'' []]],
      ex_node ''1'' '''' '''' ''Row'' ''[0,100][100,200]''
        [ex_node ''0'' '''' '''' ''Icon'' ''[0,100][50,200]'' [],
         ex_node ''1'' ''Delete'' '''' ''Label'' ''[50,100][100,200]'' []]]]\<rparr>"

definition ex_ui :: ui_lib where
  "ex_ui = \<lparr>ul_Unmarshal = (\<lambda>s. if s = ''rows'' then Inr ex_rows else Inl ''EOF''), ul_coordinates = (\<lambda>x y. ''''),
     ul_sort_matches = insertionSort, ul_sort_elements = insertionSort, ul_sort_locators = insertionSort\<rparr>"

lemma ex_ui_ok: "ui_lib_ok ex_ui"
  by (simp add: ui_lib_ok_def ex_ui_def insertion.slice_sort_axioms)

definition ex_tree :: UIElement where
  "ex_tree = convertXMLToUIElement 0 [0] (hd (uh_Nodes ex_rows))"

lemma ex_tree_parsed: "ParseXMLTree ex_ui 0 ''rows'' = Inr ex_tree"
  by (simp add: ParseXMLTree_def ex_ui_def ex_tree_def ex_rows_def)

lemma ex_tree_paths: "valid_path ex_tree [0, 0]" "valid_path ex_tree [1, 0]"
  by (simp_all add: ex_tree_def ex_rows_def ex_node_def)

theorem ResolveElement_best_witness:
  "\<exists>el score. ResolveElement ex_ui (Some (ex_tree, [])) (Some (ex_tree, [0, 0])) None = Inr (el, score) \<and> 20 \<le> score"
proof -
  have sort: "slice_sort (ul_sort_matches ex_ui)" using ex_ui_ok by (simp add: ui_lib_ok_def)
  have mem: "(ex_tree, [0, 0]) \<in> set (FlattenTree (ex_tree, []))" using ex_tree_paths by (simp add: mem_FlattenTree_root)
  have "\<not> MatchScore (ex_tree, [0, 0]) (ex_tree, [0, 0]) None < 20" using MatchScore_self [of "(ex_tree, [0, 0])"] by simp
  with mem ResolveElement_best [OF sort, of "(ex_tree, [])" "(ex_tree, [0, 0])" None] show ?thesis
    by (cases "ResolveElement ex_ui (Some (ex_tree, [])) (Some (ex_tree, [0, 0])) None") auto
qed

theorem resolve_unchanged_screen_witness:
  "\<exists>el score. ResolveElement ex_ui (Some (ex_tree, [])) (Some (ex_tree, [0, 0])) None = Inr (el, score) \<and>
     same_look (deref (ex_tree, [0, 0])) (deref el)"
proof -
  have "slice_sort (ul_sort_matches ex_ui)" using ex_ui_ok by (simp add: ui_lib_ok_def)
  from resolve_unchanged_screen [OF this ex_tree_paths(1)] show ?thesis by blast
qed

theorem xpath_roundtrip_witness:
  "EvaluateXPath 0 ex_rows (buildXPathForElement (ex_tree, [1, 0])) = Return (ue_XMLRef (deref (ex_tree, [1, 0])))"
proof -
  have "ul_Unmarshal ex_ui ''rows'' = Inr ex_rows" by (simp add: ex_ui_def)
  moreover have "\<forall>n \<in> set (uh_Nodes ex_rows). xml_ok n" by (simp add: ex_rows_def ex_node_def)
  ultimately show ?thesis
    using xpath_roundtrip [OF _ ex_tree_parsed ex_tree_paths(2)] by (simp add: ex_rows_def)
qed

section \<open>The stored context\<close>

text \<open>
  The context that is stored with a click can lead away from its own target.  \<^verbatim>\<open>ExtractAnchor\<close> takes the
  text of a sibling from anywhere below it, \<^verbatim>\<open>MatchScore\<close> compares only the siblings' own texts: on the very
  screen it was recorded on, the icon of the first row, with the context extracted for it, resolves to the
  icon of the second row.
\<close>

theorem anchor_misleads:
  "ResolveElement ex_ui (Some (ex_tree, [])) (Some (ex_tree, [0, 0])) (ExtractAnchor ex_ui ''rows'' (ue_XMLRef (deref (ex_tree, [0, 0])))) =
     Inr ((ex_tree, [1, 0]), 90)"
  by code_simp

section \<open>Malformed paths\<close>

text \<open>
  A path in a script can crash the program: an attribute test that is opened and not closed at the end of
  the expression, and an absolute step with one quotation mark, make \<^verbatim>\<open>EvaluateXPath\<close>, and with it the
  lookup of an \<^verbatim>\<open>xpath\<close> locator, slice out of bounds and panic, on every screen.
\<close>

theorem malformed_xpath_panics:
  assumes "CHR ''['' \<notin> set s"
  shows "EvaluateXPath doc h (''//'' @ s @ ''['') = Panic \<and>
    EvaluateXPath doc h (''/hierarchy/node[@index='' @ [CHR 0x27] @ '']'') = Panic \<and>
    (\<forall>lib tree loc anchor xmlData. ParseXMLTree lib doc' xmlData = Inr tree \<and> ul_Unmarshal lib xmlData = Inr h \<and>
       loc_Strategy loc = ''xpath'' \<and> loc_Value loc = ''//'' @ s @ ''['' \<longrightarrow> FindByLocator lib doc' xmlData loc anchor = Panic)"
proof -
  have idx: "strings_Index (s @ ''['') (CHR ''['') = Some (length s)" using assms by (induction s) auto
  then have test: "attribute_test (s @ ''['') = Panic" by (simp add: attribute_test_def slice_def)
  have panic: "EvaluateXPath d h (''//'' @ s @ ''['') = Panic" for d
  proof -
    have "strings_TrimSpace (''//'' @ s @ ''['') = ''//'' @ s @ ''[''"
      by (rule strings_TrimSpace_id) (simp_all add: is_space_def)
    moreover have "indexed_xpath (''//'' @ s @ ''['') = (''//'' @ s @ ''['', 1)" by (simp add: indexed_xpath_def strings_HasPrefix_def)
    moreover have "\<not> strings_HasPrefix (''//'' @ s @ ''['') ''/hierarchy/''" by (simp add: strings_HasPrefix_def)
    moreover have "strings_HasPrefix (''//'' @ s @ ''['') ''//''" by (rule strings_HasPrefix_append)
    moreover have "strings_TrimPrefix (''//'' @ s @ ''['') ''//'' = s @ ''[''" by (rule strings_TrimPrefix_append)
    ultimately show ?thesis using test by (simp add: EvaluateXPath_def)
  qed
  moreover have "EvaluateXPath doc h (''/hierarchy/node[@index='' @ [CHR 0x27] @ '']'') = Panic"
    by (simp add: EvaluateXPath_def strings_TrimSpace_def trim_right_def is_space_def indexed_xpath_def strings_HasPrefix_def
        strings_TrimPrefix_def strings_HasSuffix_def step_prefix_def step_suffix_def slice_def)
  ultimately show ?thesis by (auto simp: FindByLocator_def Let_def)
qed

theorem malformed_xpath_panics_witness: "EvaluateXPath 0 ex_rows ''//Icon['' = Panic"
  using malformed_xpath_panics [of "''Icon''" 0 ex_rows] by simp

section \<open>Touch points\<close>

lemma hit_paths_iff:
  "p \<in> set (hit_paths px py el) \<longleftrightarrow> valid_path el p \<and> (\<forall>k \<le> length p. in_rect px py (ue_Bounds (ue (subtree el (take k p)))))"
  "p \<in> set (hit_children px py j cs) \<longleftrightarrow>
     (\<exists>i q. p = (j + i) # q \<and> i < length cs \<and> valid_path (cs ! i) q \<and> (\<forall>k \<le> length q. in_rect px py (ue_Bounds (ue (subtree (cs ! i) (take k q))))))"
proof (induction px py el and px py j cs arbitrary: p and p rule: hit_paths_hit_children.induct)
  case (1 px py a cs)
  have all: "(\<forall>k \<le> Suc n. P k) \<longleftrightarrow> P 0 \<and> (\<forall>k \<le> n. P (Suc k))" for n and P :: "nat \<Rightarrow> bool"
    by (metis Suc_le_mono le0 not0_implies_Suc)
  show ?case
  proof (cases p)
    case Nil
    then show ?thesis by (auto simp: 1)
  next
    case (Cons i q)
    then show ?thesis by (auto simp: 1 all)
  qed
next
  case (3 px py j c cs)
  have ex: "(\<exists>i. P i) \<longleftrightarrow> P 0 \<or> (\<exists>i. P (Suc i))" for P :: "nat \<Rightarrow> bool"
    by (metis not0_implies_Suc)
  have "p \<in> set (hit_children px py j (c # cs)) \<longleftrightarrow>
      (\<exists>q. p = j # q \<and> valid_path c q \<and> (\<forall>k \<le> length q. in_rect px py (ue_Bounds (ue (subtree c (take k q)))))) \<or>
      (\<exists>i q. p = (Suc j + i) # q \<and> i < length cs \<and> valid_path (cs ! i) q \<and>
         (\<forall>k \<le> length q. in_rect px py (ue_Bounds (ue (subtree (cs ! i) (take k q))))))"
    by (auto simp: 3)
  then show ?case by (subst ex) auto
qed simp

lemma first_actionable_prefix: "first_actionable (tree, p) = Some r \<Longrightarrow> \<exists>k \<le> length p. r = (tree, take k p) \<and> is_actionable r"
proof (induction "(tree, p)" arbitrary: p rule: first_actionable.induct)
  case (1 p)
  show ?case
  proof (cases "is_actionable (tree, p)")
    case True
    with 1(2) show ?thesis by (intro exI [of _ "length p"]) (simp add: first_actionable.simps)
  next
    case False
    with 1(2) have ne: "p \<noteq> []" and rec: "first_actionable (tree, butlast p) = Some r"
      by (auto simp: first_actionable.simps [of "(tree, p)"] split: if_splits)
    with 1(1) False obtain k where "k \<le> length (butlast p)" "r = (tree, take k (butlast p)) \<and> is_actionable r" by auto
    moreover from this(1) have "k < length p" using ne by (cases "length p") auto
    ultimately show ?thesis by (intro exI [of _ k]) (auto simp: take_butlast)
  qed
qed

lemma set_collect_actionable: "set (collect_actionable acc cs) = set acc \<union> {r. \<exists>c \<in> set cs. first_actionable c = Some r}"
  by (induction acc cs rule: collect_actionable.induct) (auto split: option.splits)

text \<open>
  A touch finds an element exactly when it is inside the screen's root, and the element it finds, and
  every element around it up to the root, contains the touched pixel.
\<close>

theorem touch_hits:
  assumes sort: "slice_sort (ul_sort_elements lib)"
  shows "case FindBestElementAt lib tree x y width height of
      None \<Rightarrow> \<not> in_rect (pixel x width) (pixel y height) (ue_Bounds (ue tree))
    | Some (t, p) \<Rightarrow> t = tree \<and> valid_path tree p \<and>
        (\<forall>k \<le> length p. in_rect (pixel x width) (pixel y height) (ue_Bounds (deref (tree, take k p))))"
proof -
  let ?px = "pixel x width" and ?py = "pixel y height"
  let ?cands = "map (\<lambda>p. (tree, p)) (hit_paths ?px ?py tree)"
  define act where "act = (if collect_actionable [] ?cands = [] then ?cands else collect_actionable [] ?cands)"
  have hit: "\<exists>p. r = (tree, p) \<and> valid_path tree p \<and> (\<forall>k \<le> length p. in_rect ?px ?py (ue_Bounds (deref (tree, take k p))))"
    if "r \<in> set act" for r
  proof -
    have "\<exists>p k. p \<in> set (hit_paths ?px ?py tree) \<and> k \<le> length p \<and> r = (tree, take k p)"
    proof (cases "collect_actionable [] ?cands = []")
      case True
      with that obtain p where "p \<in> set (hit_paths ?px ?py tree)" "r = (tree, p)" by (auto simp: act_def)
      then show ?thesis by (intro exI [of _ p] exI [of _ "length p"]) simp
    next
      case False
      with that have "r \<in> set (collect_actionable [] ?cands)" by (simp add: act_def)
      then show ?thesis unfolding set_collect_actionable using first_actionable_prefix by fastforce
    qed
    then obtain p k where p: "p \<in> set (hit_paths ?px ?py tree)" "k \<le> length p" "r = (tree, take k p)" by blast
    then have "valid_path tree (take k p)" "\<forall>j \<le> k. in_rect ?px ?py (ue_Bounds (ue (subtree tree (take j p))))"
      using valid_path_take by (auto simp: hit_paths_iff)
    with p show ?thesis by (auto simp: deref_def min_def)
  qed
  show ?thesis
  proof (cases "hit_paths ?px ?py tree")
    case Nil
    then have "\<not> in_rect ?px ?py (ue_Bounds (ue tree))" by (cases tree) (auto split: if_splits)
    with Nil show ?thesis by (simp add: FindBestElementAt_def)
  next
    case (Cons p ps)
    then have "act \<noteq> []" by (auto simp: act_def)
    then obtain r rs where r: "ul_sort_elements lib (better_click width height) act = r # rs"
      using slice_sort.length_Slice [OF sort, of "better_click width height" act]
      by (cases "ul_sort_elements lib (better_click width height) act") auto
    with Cons have "FindBestElementAt lib tree x y width height = Some r"
      unfolding FindBestElementAt_def Let_def act_def by simp
    moreover have "r \<in> set act" using slice_sort.Slice_head(1) [OF sort strict_weak_click r] .
    ultimately show ?thesis using hit by fastforce
  qed
qed

theorem touch_hits_witness:
  "\<exists>p. FindBestElementAt ex_ui ex_tree (1/4) (3/4) 100 200 = Some (ex_tree, p) \<and> valid_path ex_tree p \<and>
     in_rect 25 150 (ue_Bounds (deref (ex_tree, take (length p) p)))"
proof -
  have sort: "slice_sort (ul_sort_elements ex_ui)" using ex_ui_ok by (simp add: ui_lib_ok_def)
  have px: "pixel (1/4) 100 = 25" "pixel (3/4) 200 = 150" by (simp_all add: pixel_def truncate_def)
  have "in_rect 25 150 (ue_Bounds (ue ex_tree))" by code_simp
  with touch_hits [OF sort, where tree = ex_tree and x = "1/4" and y = "3/4" and width = 100 and height = 200] px show ?thesis
    by (cases "FindBestElementAt ex_ui ex_tree (1/4) (3/4) 100 200") (auto simp del: take_all)
qed

section \<open>The rank of locators\<close>

text \<open>The value that a selector looks for, of a node.\<close>

definition attribute_of :: "string \<Rightarrow> XMLAttrs \<Rightarrow> string" where
  "attribute_of strategy n =
     (if strategy = ''resourceId'' then xa_ResourceID n else if strategy = ''text'' then xa_Text n
      else if strategy = ''contentDesc'' then xa_ContentDesc n else xa_Class n)"

lemma findXPath_other_doc:
  "xr_doc t \<noteq> doc \<Longrightarrow> findXPath t doc p n path = None"
  "xr_doc t \<noteq> doc \<Longrightarrow> findXPath_nodes t doc p k ns path = None"
  by (induction t doc p n path and t doc p k ns path rule: findXPath_findXPath_nodes.induct) (simp_all add: same_node_def)

text \<open>
  The generated locators are in order of decreasing confidence, always include the touch point, and a
  confidence of 90 or more is earned: exactly one node of the screen has the value that the locator looks for.
  When the target was parsed from another reading of the screen, which is how the compiler calls it, there
  is never a path among them.
\<close>

theorem locators_ranked:
  assumes sort: "slice_sort (ul_sort_locators lib)" and h: "ul_Unmarshal lib xmlData = Inr h"
    and locs: "locs = GenerateLocators lib doc xmlData (Some t) x y"
  shows "sorted_wrt (\<lambda>k l. loc_Confidence l \<le> loc_Confidence k) locs \<and>
    coordinate_locator (ul_coordinates lib x y) x y \<in> set locs \<and>
    (\<forall>l \<in> set locs. 90 \<le> loc_Confidence l \<longrightarrow> countMatching h (\<lambda>n. attribute_of (loc_Strategy l) n = loc_Value l) = 1) \<and>
    (xr_doc t \<noteq> doc \<longrightarrow> (\<forall>l \<in> set locs. loc_Strategy l \<noteq> ''xpath''))"
proof -
  let ?cands = "candidate_locators h doc t (coordinate_locator (ul_coordinates lib x y) x y)"
  let ?lt = "\<lambda>k l. loc_Confidence k > loc_Confidence l"
  have l: "locs = ul_sort_locators lib ?lt ?cands" using h by (simp add: locs GenerateLocators_def)
  have weak: "strict_weak ?lt" by (auto simp: strict_weak_def)
  have set: "set locs = set ?cands" unfolding l by (rule slice_sort.set_Slice [OF sort])
  have "sorted_wrt (\<lambda>k l. loc_Confidence l \<le> loc_Confidence k) locs"
    using slice_sort.ordered [OF sort weak, of ?cands] unfolding l by (simp add: not_less)
  moreover have "coordinate_locator (ul_coordinates lib x y) x y \<in> set locs"
    unfolding set by (simp add: candidate_locators_def Let_def)
  moreover have "countMatching h (\<lambda>n. attribute_of (loc_Strategy l) n = loc_Value l) = 1"
    if "l \<in> set locs" "90 \<le> loc_Confidence l" for l
    using that unfolding set candidate_locators_def Let_def
    by (auto simp: selector_def coordinate_locator_def attribute_of_def split: if_splits option.splits)
  moreover have "loc_Strategy l \<noteq> ''xpath''" if "xr_doc t \<noteq> doc" "l \<in> set locs" for l
    using that(2) findXPath_other_doc(2) [OF that(1)] unfolding set candidate_locators_def Let_def
    by (auto simp: selector_def coordinate_locator_def split: if_splits)
  ultimately show ?thesis by blast
qed

theorem locators_ranked_witness:
  "coordinate_locator '''' 0 0 \<in> set (GenerateLocators ex_ui 1 ''rows'' (ue_XMLRef (deref (ex_tree, [0, 0]))) 0 0)"
proof -
  have sort: "slice_sort (ul_sort_locators ex_ui)" using ex_ui_ok by (simp add: ui_lib_ok_def)
  have h: "ul_Unmarshal ex_ui ''rows'' = Inr ex_rows" "ul_coordinates ex_ui 0 0 = ''''" by (simp_all add: ex_ui_def)
  obtain t where t: "ue_XMLRef (deref (ex_tree, [0, 0])) = Some t"
    by (simp add: deref_def ex_tree_def ex_rows_def ex_node_def node_attrs_def Let_def)
  from locators_ranked [OF sort h(1) refl, of 1 t 0 0] show ?thesis by (simp add: t h(2))
qed

section \<open>The size penalty\<close>

lemma ratio_above_iff:
  assumes "0 < s" "0 < n"
  shows "ratio_above a s (1 / real n) \<longleftrightarrow> s < int n * a"
proof -
  have "ratio_above a s (1 / real n) \<longleftrightarrow> real_of_int s < real n * real_of_int a"
    using assms by (simp add: ratio_above_def field_simps)
  also have "real n * real_of_int a = real_of_int (int n * a)" by simp
  finally show ?thesis by (simp only: of_int_less_iff)
qed

text \<open>The reference: the penalty of an element of area \<open>a\<close> on a screen of area \<open>s\<close>, over the integers.\<close>

definition share_penalty :: "int \<Rightarrow> int \<Rightarrow> int" where
  "share_penalty a s = (if s < 2 * a then 150 else if s < 5 * a then 80 else if s < 20 * a then 30 else 0)"

lemma share_penalty_empty: "0 < s \<Longrightarrow> \<not> 0 < a \<Longrightarrow> share_penalty a s = 0"
  by (simp add: share_penalty_def)

text \<open>
  For a screen whose area fits in 31 bits the floating-point test of an element's share of the screen is
  the exact comparison of areas: more than a half, a fifth or a twentieth.  Beyond, the area wraps: on a
  screen of 65536 by 65536 every element that is not empty counts as covering the whole screen.
\<close>

theorem area_penalty_exact:
  assumes w: "0 < sint width" "0 < sint height" "sint width * sint height < 2 ^ 31"
  shows "area_penalty b width height =
      share_penalty (rect_area b) (sint width * sint height) \<and>
    (0 < rect_area b \<longrightarrow> area_penalty b 65536 65536 = 150)"
proof -
  let ?s = "sint width * sint height"
  have pos: "0 < ?s" using w by simp
  have s: "screen_area width height = ?s"
  proof -
    have "- (2 ^ 31) \<le> ?s" by (rule order_trans [OF _ less_imp_le [OF pos]]) simp
    with w(3) have "signed_take_bit 31 ?s = ?s" by (intro signed_take_bit_int_eq_self) simp_all
    then show ?thesis by (simp add: screen_area_def sint_word_ariths)
  qed
  have "area_penalty b width height = (if 0 < rect_area b then share_penalty (rect_area b) ?s else 0)"
    using w(1,2) ratio_above_iff [OF pos, of 2] ratio_above_iff [OF pos, of 5] ratio_above_iff [OF pos, of 20]
    by (simp add: area_penalty_def s Let_def share_penalty_def)
  with share_penalty_empty [OF pos] have "area_penalty b width height = share_penalty (rect_area b) ?s" by simp
  moreover have "area_penalty b 65536 65536 = 150" if "0 < rect_area b"
    using that by (simp add: area_penalty_def screen_area_def ratio_above_def)
  ultimately show ?thesis by simp
qed

theorem area_penalty_exact_witness: "area_penalty \<lparr>Left = 0, Top = 0, Right = 720, Bottom = 1280\<rparr> 1080 1920 = 80"
proof -
  have "rect_area \<lparr>Left = 0, Top = 0, Right = 720, Bottom = 1280\<rparr> = 921600" by code_simp
  with area_penalty_exact [of 1080 1920 "\<lparr>Left = 0, Top = 0, Right = 720, Bottom = 1280\<rparr>"] show ?thesis by (simp add: share_penalty_def)
qed

end
