(* ===== verification/Script_Compiler.thy ===== *)
theory Script_Compiler
  imports Recorder Locator_Properties "HOL-Library.Sublist"
begin

text \<open>
  \<^verbatim>\<open>src/internal/automation/compiler.go\<close>: from the raw events of a recording to a script.  The compiler
  parses the dump of a click once for the element tree and once more for the locators, so each click takes
  two document numbers.
\<close>

section \<open>Steps\<close>

definition launch_step :: "LaunchParams \<Rightarrow> Step" where
  "launch_step p = Step (Some p) None None None None None None None [] [] 0"

definition terminate_step :: "TerminateParams \<Rightarrow> Step" where
  "terminate_step p = Step None (Some p) None None None None None None [] [] 0"

definition click_step :: "ClickParams \<Rightarrow> Step" where
  "click_step p = Step None None (Some p) None None None None None [] [] 0"

definition input_step :: "InputParams \<Rightarrow> Step" where
  "input_step p = Step None None None (Some p) None None None None [] [] 0"

definition swipe_step :: "SwipeParams \<Rightarrow> Step" where
  "swipe_step p = Step None None None None (Some p) None None None [] [] 0"

definition wait_step :: "WaitParams \<Rightarrow> Step" where
  "wait_step p = Step None None None None None (Some p) None None [] [] 0"

definition assert_step :: "AssertParams \<Rightarrow> Step" where
  "assert_step p = Step None None None None None None (Some p) None [] [] 0"

lemmas step_defs = launch_step_def terminate_step_def click_step_def input_step_def swipe_step_def wait_step_def assert_step_def

definition text_view_wait :: "string \<Rightarrow> WaitParams" where
  "text_view_wait condition =
     \<lparr>wp_Target = None, wp_Condition = condition, wp_TimeoutMs = 3000, wp_ResourceID = '''', wp_ContentDesc = '''', wp_Text = '''',
      wp_Class = ''android.widget.TextView'', wp_XPath = ''''\<rparr>"

definition contains_assert :: "string \<Rightarrow> AssertParams" where
  "contains_assert text =
     \<lparr>ap_Target = None, ap_Condition = ''contains'', ap_Value = '''', ap_TimeoutMs = 0, ap_ResourceID = '''', ap_ContentDesc = '''',
      ap_Text = text, ap_Class = '''', ap_XPath = ''''\<rparr>"

section \<open>inferAssertText\<close>

definition common :: "(string \<times> string) list" where
  "common =
     [(''com.android.settings'', ''Settings''), (''com.android.vending'', ''Play Store''),
      (''com.google.android.calculator'', ''Calculator''), (''com.android.chrome'', ''Chrome''),
      (''com.android.phone'', ''Phone''), (''com.android.contacts'', ''Contacts''), (''com.android.mms'', ''Messages''),
      (''com.android.gallery3d'', ''Gallery''), (''com.android.camera2'', ''Camera'')]"

definition inferAssertText :: "string \<Rightarrow> string" where
  "inferAssertText pkg =
     (case map_of common pkg of
        Some val \<Rightarrow> val
      | None \<Rightarrow>
          (case last (strings_Split pkg (CHR ''.'')) of
             [] \<Rightarrow> ''Settings''
           | c # cs \<Rightarrow> upper_byte c @ cs))"

section \<open>compileClickEvent\<close>

definition coordinates_click :: "float64 \<Rightarrow> float64 \<Rightarrow> ClickParams" where
  "coordinates_click x y =
     \<lparr>cp_Target = None, cp_Locators = [coordinate_locator '''' x y], cp_Anchor = None, cp_ResourceID = '''', cp_ContentDesc = '''',
      cp_Text = '''', cp_Class = '''', cp_XPath = '''', cp_X = Some x, cp_Y = Some y\<rparr>"

definition element_click :: "ui_lib \<Rightarrow> nat \<Rightarrow> RawEvent \<Rightarrow> ElRef \<Rightarrow> ClickParams" where
  "element_click lib doc event bestEl =
     (let x = re_TouchX event; y = re_TouchY event; a = deref bestEl;
          (locators, anchor) =
            (case ue_XMLRef a of
               Some r \<Rightarrow> (GenerateLocators lib (Suc doc) (re_UIXML event) (Some r) x y, ExtractAnchor lib (re_UIXML event) (Some r))
             | None \<Rightarrow> ([coordinate_locator (ul_coordinates lib x y) x y], None))
      in \<lparr>cp_Target = Some bestEl, cp_Locators = locators, cp_Anchor = anchor, cp_ResourceID = ue_ResourceID a,
          cp_ContentDesc = ue_ContentDesc a, cp_Text = ue_Text a, cp_Class = ue_Class a, cp_XPath = '''',
          cp_X = Some x, cp_Y = Some y\<rparr>)"

definition compileClickEvent :: "ui_lib \<Rightarrow> nat \<Rightarrow> RawEvent \<Rightarrow> Step" where
  "compileClickEvent lib doc event =
     (let x = re_TouchX event; y = re_TouchY event in
      if re_UIXML event = '''' then click_step (coordinates_click x y)
      else (case ParseXMLTree lib doc (re_UIXML event) of
              Inl _ \<Rightarrow> click_step (coordinates_click x y)
            | Inr tree \<Rightarrow>
                (case FindBestElementAt lib tree x y (re_ScreenWidth event) (re_ScreenHeight event) of
                   None \<Rightarrow> click_step (coordinates_click x y)
                 | Some bestEl \<Rightarrow> click_step (element_click lib doc event bestEl))))"

section \<open>optimizeSteps\<close>

definition is_dup :: "ClickParams \<Rightarrow> ClickParams \<Rightarrow> bool" where
  "is_dup cur prev \<longleftrightarrow>
     (case (cp_Target cur, cp_Target prev) of
        (Some t, Some u) \<Rightarrow> ue_ResourceID (deref t) \<noteq> '''' \<and> ue_ResourceID (deref t) = ue_ResourceID (deref u)
      | _ \<Rightarrow>
          (case (cp_Locators cur, cp_Locators prev) of
             (k # _, l # _) \<Rightarrow> loc_Strategy k = loc_Strategy l \<and> loc_Value k = loc_Value l \<and> loc_Strategy k \<noteq> ''coordinates''
           | _ \<Rightarrow> False)) \<or>
     (case (cp_X cur, cp_X prev, cp_Y cur, cp_Y prev) of
        (Some x, Some x', Some y, Some y') \<Rightarrow> (x - x') * (x - x') + (y - y') * (y - y') < 1/10000
      | _ \<Rightarrow> False)"

definition edit_target :: "Step \<Rightarrow> ClickParams option" where
  "edit_target prev =
     (case st_Click prev of
        Some c \<Rightarrow>
          (case cp_Target c of
             Some t \<Rightarrow> if ue_Class (deref t) = ''android.widget.EditText'' then Some c else None
           | None \<Rightarrow> None)
      | None \<Rightarrow> None)"

text \<open>The first of a row of inputs: a copy without the variable, aimed at the text field that was clicked before.\<close>

definition new_pending :: "Step list \<Rightarrow> InputParams \<Rightarrow> InputParams" where
  "new_pending optimized inp =
     (let p = inp\<lparr>ip_Variable := ''''\<rparr> in
      if optimized = [] then p
      else (case edit_target (last optimized) of
              Some c \<Rightarrow> p\<lparr>ip_Target := cp_Target c, ip_ResourceID := cp_ResourceID c, ip_Class := cp_Class c\<rparr>
            | None \<Rightarrow> p))"

fun flush :: "InputParams option \<Rightarrow> Step list" where
  "flush None = []"
| "flush (Some p) = [input_step p]"

definition drop_click :: "Step list \<Rightarrow> Step \<Rightarrow> bool" where
  "drop_click optimized step \<longleftrightarrow>
     (case st_Click step of
        None \<Rightarrow> False
      | Some cur \<Rightarrow>
          optimized \<noteq> [] \<and> (case st_Click (last optimized) of None \<Rightarrow> False | Some prev \<Rightarrow> is_dup cur prev))"

fun optimize_loop :: "Step list \<Rightarrow> InputParams option \<Rightarrow> Step list \<Rightarrow> Step list" where
  "optimize_loop optimized pending [] = optimized @ flush pending"
| "optimize_loop optimized pending (step # steps) =
     (case st_Input step of
        Some inp \<Rightarrow>
          (case pending of
             None \<Rightarrow> optimize_loop optimized (Some (new_pending optimized inp)) steps
           | Some p \<Rightarrow> optimize_loop optimized (Some (p\<lparr>ip_Text := ip_Text p @ ip_Text inp\<rparr>)) steps)
      | None \<Rightarrow>
          let optimized = optimized @ flush pending in
          if drop_click optimized step then optimize_loop optimized None steps
          else optimize_loop (optimized @ [step]) None steps)"

definition optimizeSteps :: "Step list \<Rightarrow> Step list" where
  "optimizeSteps steps = (if steps = [] then steps else optimize_loop [] None steps)"

section \<open>CompileScript\<close>

definition zero_input :: InputParams where
  "zero_input =
     \<lparr>ip_Text = '''', ip_Target = None, ip_Variable = '''', ip_ResourceID = '''', ip_ContentDesc = '''', ip_Class = '''', ip_XPath = '''',
      ip_X = None, ip_Y = None\<rparr>"

definition compile_event :: "ui_lib \<Rightarrow> nat \<Rightarrow> RawEvent \<Rightarrow> Step list" where
  "compile_event lib doc event =
     (if re_Type event = ''launch'' then
        [launch_step \<lparr>lp_Package = re_Package event\<rparr>, wait_step (text_view_wait ''visible''),
         assert_step (contains_assert (inferAssertText (re_Package event)))]
      else if re_Type event = ''click'' then [compileClickEvent lib doc event]
      else if re_Type event = ''input'' then [input_step (zero_input\<lparr>ip_Text := re_Text event\<rparr>)]
      else if re_Type event = ''swipe'' then
        [swipe_step \<lparr>sp_StartX = re_TouchX event, sp_StartY = re_TouchY event, sp_EndX = re_EndX event, sp_EndY = re_EndY event,
           sp_DurationMs = re_DurationMs event\<rparr>]
      else [])"

fun compile_events :: "ui_lib \<Rightarrow> nat \<Rightarrow> RawEvent list \<Rightarrow> Step list" where
  "compile_events lib doc [] = []"
| "compile_events lib doc (e # es) = compile_event lib doc e @ compile_events lib (doc + 2) es"

fun launch_package :: "string \<Rightarrow> RawEvent list \<Rightarrow> string" where
  "launch_package pkg [] = pkg"
| "launch_package pkg (e # es) = launch_package (if re_Type e = ''launch'' then re_Package e else pkg) es"

definition CompileScript :: "ui_lib \<Rightarrow> nat \<Rightarrow> RawEvent list \<Rightarrow> Script" where
  "CompileScript lib doc events =
     \<lparr>scr_Variables = Map.empty,
      scr_Steps =
        (if events = [] then []
         else
           (let optimized = optimizeSteps (compile_events lib doc events); launchPackage = launch_package '''' events in
            if launchPackage \<noteq> '''' then
              optimized @ [terminate_step \<lparr>tp_Package = launchPackage\<rparr>, wait_step (text_view_wait ''hidden'')]
            else optimized))\<rparr>"

section \<open>Optimised scripts\<close>

text \<open>
  What may follow what in an optimised script: an input carries only its parameters, is aimed at the text
  field that was clicked before, and does not follow an input; a click does not repeat the click before it.
\<close>

definition fits :: "Step list \<Rightarrow> Step \<Rightarrow> bool" where
  "fits before s \<longleftrightarrow>
     (case st_Input s of
        Some p \<Rightarrow> s = input_step p \<and> new_pending before p = p \<and> (before \<noteq> [] \<longrightarrow> st_Input (last before) = None)
      | None \<Rightarrow> \<not> drop_click before s)"

definition optimised :: "Step list \<Rightarrow> bool" where
  "optimised steps \<longleftrightarrow> (\<forall>i < length steps. fits (take i steps) (steps ! i))"

definition typed_text :: "Step list \<Rightarrow> string" where
  "typed_text steps = concat (map (\<lambda>s. case st_Input s of None \<Rightarrow> '''' | Some p \<Rightarrow> ip_Text p) steps)"

abbreviation gestures :: "Step list \<Rightarrow> Step list" where
  "gestures \<equiv> filter (\<lambda>s. st_Input s = None)"

abbreviation others :: "Step list \<Rightarrow> Step list" where
  "others \<equiv> filter (\<lambda>s. st_Input s = None \<and> st_Click s = None)"

lemma step_sel [simp]:
  "st_Input (input_step p) = Some p" "st_Click (input_step p) = None"
  "st_Input (click_step c) = None" "st_Click (click_step c) = Some c"
  "st_Input (launch_step l) = None" "st_Click (launch_step l) = None"
  "st_Input (terminate_step t) = None" "st_Click (terminate_step t) = None"
  "st_Input (swipe_step s) = None" "st_Click (swipe_step s) = None" "st_Swipe (swipe_step s) = Some s"
  "st_Input (wait_step v) = None" "st_Click (wait_step v) = None"
  "st_Input (assert_step a) = None" "st_Click (assert_step a) = None"
  by (simp_all add: step_defs)

lemma optimised_Nil [simp]: "optimised []"
  by (simp add: optimised_def)

lemma optimised_snoc [simp]: "optimised (xs @ [s]) \<longleftrightarrow> optimised xs \<and> fits xs s"
  by (auto simp: optimised_def less_Suc_eq nth_append)

lemma optimised_append: "optimised (xs @ ys) \<Longrightarrow> optimised xs"
  by (induction ys rule: rev_induct) (simp_all flip: append_assoc)

lemma typed_text_simps [simp]:
  "typed_text [] = ''''" "typed_text (xs @ ys) = typed_text xs @ typed_text ys" "typed_text (flush None) = ''''"
  "typed_text (s # xs) = (case st_Input s of None \<Rightarrow> '''' | Some p \<Rightarrow> ip_Text p) @ typed_text xs"
  "typed_text (flush (Some p)) = ip_Text p"
  by (simp_all add: typed_text_def)

lemma flush_gestures [simp]: "gestures (flush p) = []" "others (flush p) = []"
  by (cases p; simp)+

lemma new_pending_idem [simp]: "new_pending before (new_pending before p) = new_pending before p"
  by (auto simp: new_pending_def Let_def split: option.splits)

lemma new_pending_text [simp]:
  "ip_Text (new_pending before p) = ip_Text p"
  "new_pending before (p\<lparr>ip_Text := t\<rparr>) = (new_pending before p)\<lparr>ip_Text := t\<rparr>"
  by (auto simp: new_pending_def Let_def split: option.splits)

text \<open>The state of the loop: what is emitted and what is pending make an optimised script.\<close>

lemma optimize_loop_optimised:
  "optimised (acc @ flush pending) \<Longrightarrow> (pending = None \<Longrightarrow> acc \<noteq> [] \<Longrightarrow> st_Input (last acc) = None) \<Longrightarrow>
   optimised (optimize_loop acc pending steps)"
proof (induction acc pending steps rule: optimize_loop.induct)
  case (2 acc pending step steps)
  show ?case
  proof (cases "st_Input step")
    case (Some inp)
    then show ?thesis using 2 by (cases pending) (auto simp: fits_def)
  next
    case None
    then have keep: "\<not> drop_click (acc @ flush pending) step \<Longrightarrow> optimised ((acc @ flush pending) @ [step])"
      using 2(5) by (simp only: optimised_snoc) (simp add: fits_def)
    have drop: "acc @ flush pending = acc \<and> st_Input (last acc) = None" if "drop_click (acc @ flush pending) step"
      using that None 2(6) by (cases pending) (auto simp: drop_click_def split: option.splits)
    show ?thesis
    proof (cases "drop_click (acc @ flush pending) step")
      case True
      with drop have "acc @ flush pending = acc" "st_Input (last acc) = None" by simp_all
      with True None 2(1) [OF None refl True] 2(5) show ?thesis by (simp add: Let_def)
    next
      case False
      with keep None 2(2) [OF None refl False] show ?thesis by (simp add: Let_def)
    qed
  qed
qed simp

lemma optimize_loop_fixed: "optimised (acc @ flush pending @ steps) \<Longrightarrow> optimize_loop acc pending steps = acc @ flush pending @ steps"
proof (induction acc pending steps rule: optimize_loop.induct)
  case (2 acc pending step steps)
  have fits: "fits (acc @ flush pending) step"
    using optimised_append [of "(acc @ flush pending) @ [step]" steps] optimised_snoc [of "acc @ flush pending" step] 2(5) by simp
  show ?case
  proof (cases "st_Input step")
    case (Some inp)
    with fits have "pending = None" by (cases pending) (auto simp: fits_def)
    with Some fits 2 show ?thesis by (auto simp: fits_def)
  next
    case None
    with fits have "\<not> drop_click (acc @ flush pending) step" by (simp add: fits_def)
    with None 2(2) [OF None refl] 2(5) show ?thesis by (simp add: Let_def)
  qed
qed simp

lemma optimize_loop_text:
  "typed_text (optimize_loop acc pending steps) = typed_text acc @ typed_text (flush pending) @ typed_text steps"
  by (induction acc pending steps rule: optimize_loop.induct) (auto simp: Let_def drop_click_def split: option.splits)

lemma optimize_loop_others: "others (optimize_loop acc pending steps) = others acc @ others steps"
  by (induction acc pending steps rule: optimize_loop.induct) (auto simp: Let_def drop_click_def split: option.splits)

lemma optimize_loop_gestures:
  "\<exists>kept. subseq kept (gestures steps) \<and> gestures (optimize_loop acc pending steps) = gestures acc @ kept"
proof (induction acc pending steps rule: optimize_loop.induct)
  case (2 acc pending step steps)
  show ?case
  proof (cases "st_Input step")
    case (Some inp)
    with 2(3,4) show ?thesis by (cases pending) auto
  next
    case None
    let ?acc = "acc @ flush pending"
    show ?thesis
    proof (cases "drop_click ?acc step")
      case True
      with 2(1) [OF None refl True] None show ?thesis by (auto simp: Let_def)
    next
      case False
      from 2(2) [OF None refl False] obtain kept
        where "subseq kept (gestures steps)" "gestures (optimize_loop (?acc @ [step]) None steps) = gestures (?acc @ [step]) @ kept" by blast
      with False None show ?thesis by (intro exI [of _ "step # kept"]) (simp add: Let_def)
    qed
  qed
qed simp

text \<open>
  C22. Optimising makes a canonical script: what it yields meets the rules above and is left alone by
  optimising again.  All typed text is kept in order, steps that are neither inputs nor clicks are kept as
  they are, and clicks are only left out, never added or moved.
\<close>

theorem optimizeSteps_canonical:
  "optimised (optimizeSteps steps) \<and> optimizeSteps (optimizeSteps steps) = optimizeSteps steps \<and>
   typed_text (optimizeSteps steps) = typed_text steps \<and> others (optimizeSteps steps) = others steps \<and>
   subseq (gestures (optimizeSteps steps)) (gestures steps)"
proof -
  let ?o = "optimize_loop [] None steps"
  have o: "optimizeSteps xs = optimize_loop [] None xs" for xs by (simp add: optimizeSteps_def)
  have "optimised ?o" by (rule optimize_loop_optimised) simp_all
  moreover from this have "optimize_loop [] None ?o = ?o" using optimize_loop_fixed [of "[]" None ?o] by simp
  moreover have "subseq (gestures ?o) (gestures steps)" using optimize_loop_gestures [of steps "[]" None] by auto
  ultimately show ?thesis unfolding o by (simp add: optimize_loop_text optimize_loop_others)
qed

section \<open>From the recording to the script\<close>

text \<open>The pointers of a tree go to one document.\<close>

fun refs_in :: "nat \<Rightarrow> UIElement \<Rightarrow> bool" where
  "refs_in doc (UIElement a cs) \<longleftrightarrow> (case ue_XMLRef a of None \<Rightarrow> True | Some r \<Rightarrow> xr_doc r = doc) \<and> (\<forall>c \<in> set cs. refs_in doc c)"

lemma refs_in_convert: "refs_in doc (convertXMLToUIElement doc p n)" "\<forall>c \<in> set (convert_nodes doc p k ns). refs_in doc c"
  by (induction doc p n and doc p k ns rule: convertXMLToUIElement_convert_nodes.induct) (auto simp: node_attrs_def Let_def)

lemma refs_in_parsed: "ParseXMLTree lib doc xmlData = Inr tree \<Longrightarrow> refs_in doc tree"
  using refs_in_convert by (auto simp: ParseXMLTree_def Let_def zero_attrs_def split: sum.splits list.splits)

lemma refs_in_subtree: "refs_in doc el \<Longrightarrow> refs_in doc (subtree el p)"
proof (induction el p rule: subtree.induct)
  case (2 el i p)
  then show ?case by (cases el) auto
qed simp

lemma refs_in_deref: "refs_in doc tree \<Longrightarrow> ue_XMLRef (deref (tree, p)) = Some r \<Longrightarrow> xr_doc r = doc"
  using refs_in_subtree [of doc tree p] by (cases "subtree tree p") (auto simp: deref_def)

lemma FindBestElementAt_tree:
  assumes sort: "slice_sort (ul_sort_elements lib)" and r: "FindBestElementAt lib tree x y width height = Some r"
  shows "fst r = tree"
proof -
  have "fst s = tree" if "first_actionable (tree, p) = Some s" for s p using first_actionable_prefix [OF that] by auto
  moreover have "r \<in> set (ul_sort_elements lib (better_click width height)
      (let c = map (\<lambda>p. (tree, p)) (hit_paths (pixel x width) (pixel y height) tree); a = collect_actionable [] c in if a = [] then c else a))"
    using r by (auto simp: FindBestElementAt_def Let_def split: if_splits list.splits)
  ultimately show ?thesis
    unfolding slice_sort.set_Slice [OF sort] by (cases r) (auto simp: Let_def set_collect_actionable split: if_splits)
qed

definition no_xpath :: "Step \<Rightarrow> bool" where
  "no_xpath s \<longleftrightarrow> (case st_Click s of None \<Rightarrow> True | Some c \<Rightarrow> list_all (\<lambda>l. loc_Strategy l \<noteq> ''xpath'') (cp_Locators c))"

lemma GenerateLocators_no_xpath:
  assumes sort: "slice_sort (ul_sort_locators lib)" and other: "xr_doc r \<noteq> doc"
  shows "list_all (\<lambda>l. loc_Strategy l \<noteq> ''xpath'') (GenerateLocators lib doc xmlData (Some r) x y)"
  unfolding list_all_iff GenerateLocators_def
  using findXPath_other_doc(2) [OF other]
  by (auto simp: slice_sort.set_Slice [OF sort] candidate_locators_def Let_def selector_def coordinate_locator_def split: sum.splits if_splits)

lemma compileClickEvent_click:
  assumes lib: "ui_lib_ok lib"
  shows "st_Input (compileClickEvent lib doc e) = None \<and> no_xpath (compileClickEvent lib doc e)"
proof -
  have coord: "no_xpath (click_step (coordinates_click x y))" for x y
    by (simp add: no_xpath_def coordinates_click_def coordinate_locator_def)
  have "no_xpath (click_step (element_click lib doc e r))" if "refs_in doc (fst r)" for r
  proof (cases "ue_XMLRef (deref r)")
    case None
    then show ?thesis by (simp add: no_xpath_def element_click_def coordinate_locator_def Let_def)
  next
    case (Some x)
    with refs_in_deref [OF that, of "snd r" x] have "xr_doc x \<noteq> Suc doc" by simp
    with GenerateLocators_no_xpath [of lib x "Suc doc"] lib Some show ?thesis
      by (simp add: no_xpath_def element_click_def ui_lib_ok_def Let_def)
  qed
  with coord lib refs_in_parsed FindBestElementAt_tree show ?thesis
    unfolding compileClickEvent_def ui_lib_ok_def by (fastforce simp: Let_def split: sum.splits option.splits)
qed

lemma compile_event_facts:
  "typed_text (compile_event lib doc e) = (if re_Type e = ''input'' then re_Text e else '''')"
  "ui_lib_ok lib \<Longrightarrow> list_all no_xpath (compile_event lib doc e)"
proof -
  have c: "st_Input (compileClickEvent lib doc e) = None"
    by (simp add: compileClickEvent_def Let_def split: sum.splits option.splits)
  show "typed_text (compile_event lib doc e) = (if re_Type e = ''input'' then re_Text e else '''')"
    by (simp add: compile_event_def c zero_input_def)
  show "ui_lib_ok lib \<Longrightarrow> list_all no_xpath (compile_event lib doc e)"
    using compileClickEvent_click by (auto simp: compile_event_def) (simp_all add: no_xpath_def)
qed

lemma compile_events_facts:
  "typed_text (compile_events lib doc es) = concat (map re_Text (filter (\<lambda>e. re_Type e = ''input'') es))"
  "ui_lib_ok lib \<Longrightarrow> list_all no_xpath (compile_events lib doc es)"
  by (induction lib doc es rule: compile_events.induct) (simp_all add: compile_event_facts)

lemma set_subseq: "subseq xs ys \<Longrightarrow> set xs \<subseteq> set ys"
  by (induction rule: list_emb.induct) auto

lemma optimizeSteps_set: "no_xpath s" if "s \<in> set (optimizeSteps steps)" "list_all no_xpath steps"
proof (cases "st_Input s")
  case None
  with that(1) have "s \<in> set (gestures (optimizeSteps steps))" by simp
  also have "gestures (optimizeSteps steps) = gestures (optimize_loop [] None steps)" by (simp add: optimizeSteps_def)
  finally have "s \<in> set (gestures steps)" using optimize_loop_gestures [of steps "[]" None] set_subseq by fastforce
  with that(2) show ?thesis by (simp add: list_all_iff)
next
  case (Some p)
  have "optimised (optimizeSteps steps)" using optimize_loop_optimised [of "[]" None steps] by (simp add: optimizeSteps_def)
  with that(1) Some have "s = input_step p" by (fastforce simp: optimised_def in_set_conv_nth fits_def)
  then show ?thesis by (simp add: no_xpath_def)
qed

text \<open>The events that a list of calls records for a device, and the text among them.\<close>

fun call_event :: "string \<Rightarrow> recorder_call \<Rightarrow> RawEvent list" where
  "call_event serial (CallClick now s dump sz x y) = (if s = serial then [click_event now dump sz x y] else [])"
| "call_event serial (CallText now s text) = (if s = serial then [text_event now text] else [])"
| "call_event serial (CallSwipe now s x y x' y' ms) = (if s = serial then [swipe_event now x y x' y' ms] else [])"
| "call_event serial _ = []"

fun call_text :: "string \<Rightarrow> recorder_call \<Rightarrow> string" where
  "call_text serial (CallText now s text) = (if s = serial then text else '''')"
| "call_text serial _ = ''''"

fun starts_or_stops :: "string \<Rightarrow> recorder_call \<Rightarrow> bool" where
  "starts_or_stops serial (CallStart now s pkg) \<longleftrightarrow> s = serial"
| "starts_or_stops serial (CallStop s) \<longleftrightarrow> s = serial"
| "starts_or_stops serial _ \<longleftrightarrow> False"

lemma spec_calls_log:
  "r serial = Some es \<Longrightarrow> list_all (\<lambda>c. \<not> starts_or_stops serial c) cs \<Longrightarrow>
   fold spec_call cs r serial = Some (es @ concat (map (call_event serial) cs))"
proof (induction cs arbitrary: r es)
  case (Cons c cs)
  have "spec_call c r serial = Some (es @ call_event serial c)"
    using Cons.prems by (cases c) (auto simp: log_event_def split: option.splits)
  from Cons.IH [where r = "spec_call c r", OF this] Cons.prems(2) show ?case by simp
qed simp

lemma call_event_text:
  "concat (map re_Text (filter (\<lambda>e. re_Type e = ''input'') (concat (map (call_event serial) cs)))) = concat (map (call_text serial) cs)"
proof (induction cs)
  case (Cons c cs)
  then show ?case by (cases c) (auto simp: text_event_def click_event_def swipe_event_def Let_def split: prod.splits)
qed simp

lemma launch_no_text: "filter (\<lambda>e. re_Type e = ''input'') (launch_events now pkg) = []"
  by (simp add: launch_events_def)

text \<open>
  C21. A recording and its script: whatever was recorded before and whatever other devices record
  meanwhile, the script compiled from the recording of a device types exactly the text that was typed on
  it, in order; a recording with a launch ends with the termination of the application.  No click of it
  has a path among its locators.
\<close>

theorem recorded_text_is_replayed:
  assumes lib: "ui_lib_ok lib" and cs: "list_all (\<lambda>c. \<not> starts_or_stops serial c) cs"
    and events: "fst (StopRecording serial (fold apply_call (before @ CallStart now serial pkg # cs) NewRecorderManager)) = Inr events"
    and script: "script = scr_Steps (CompileScript lib doc events)"
  shows "typed_text script = concat (map (call_text serial) cs) \<and>
    (pkg \<noteq> '''' \<longrightarrow> terminate_step \<lparr>tp_Package = pkg\<rparr> \<in> set script) \<and> list_all no_xpath script"
proof -
  let ?calls = "before @ CallStart now serial pkg # cs"
  have "recordings_of (fold apply_call ?calls NewRecorderManager) serial = Some (launch_events now pkg @ concat (map (call_event serial) cs))"
    using calls_refine [OF recorder_ok_new(1), of ?calls] spec_calls_log [OF _ cs, of "(fold spec_call before Map.empty)(serial \<mapsto> launch_events now pkg)"]
    by (simp add: recorder_ok_new)
  with events have ev: "events = launch_events now pkg @ concat (map (call_event serial) cs)"
    by (auto simp: StopRecording_def recordings_of_def split: option.splits)
  let ?opt = "optimizeSteps (compile_events lib doc events)"
  have opt: "typed_text ?opt = concat (map (call_text serial) cs)" "list_all no_xpath ?opt"
  proof -
    have "typed_text ?opt = typed_text (compile_events lib doc events)" by (simp add: optimizeSteps_def optimize_loop_text)
    then show "typed_text ?opt = concat (map (call_text serial) cs)"
      by (simp add: compile_events_facts ev launch_no_text call_event_text)
    show "list_all no_xpath ?opt" using optimizeSteps_set compile_events_facts(2) [OF lib] by (auto simp: list_all_iff)
  qed
  have launch: "launch_package p (launch_events now pkg @ concat (map (call_event serial) cs)) = (if pkg = '''' then p else pkg)" for p
  proof -
    have "launch_package p (concat (map (call_event serial) cs)) = p" for p
    proof (induction cs)
      case (Cons c cs)
      then show ?case by (cases c) (auto simp: text_event_def click_event_def swipe_event_def Let_def split: prod.splits)
    qed simp
    then show ?thesis by (simp add: launch_events_def)
  qed
  show ?thesis
  proof (cases "events = []")
    case True
    with ev opt show ?thesis
      by (auto simp: script CompileScript_def optimizeSteps_def launch_events_def split: if_splits)
  next
    case False
    with opt launch [of "''''"] show ?thesis
      by (auto simp: script CompileScript_def Let_def ev no_xpath_def)
  qed
qed

theorem recorded_text_is_replayed_witness:
  "typed_text (scr_Steps (CompileScript ex_ui 0
     (launch_events 0 ''com.shop'' @ [click_event 1 (Inr ''rows'') (Inl ''no size'') (1/4) (3/4), text_event 2 ''sh'', text_event 3 ''oe'']))) = ''shoe''"
proof -
  let ?cs = "[CallClick 1 ''phone'' (Inr ''rows'') (Inl ''no size'') (1/4) (3/4), CallText 2 ''phone'' ''sh'',
    CallText 2 ''tablet'' ''x'', CallText 3 ''phone'' ''oe'']"
  have "fst (StopRecording ''phone'' (fold apply_call ([] @ CallStart 0 ''phone'' ''com.shop'' # ?cs) NewRecorderManager)) =
      Inr (launch_events 0 ''com.shop'' @ [click_event 1 (Inr ''rows'') (Inl ''no size'') (1/4) (3/4), text_event 2 ''sh'', text_event 3 ''oe''])"
    by (simp add: recorder_ops StartRecording_def NewRecorderManager_def append_event_def)
  from recorded_text_is_replayed [OF ex_ui_ok _ this refl, of 0] show ?thesis by simp
qed

end
