(* ===== verification/Runner_Properties.thy ===== *)
theory Runner_Properties
  imports Runner Script_Compiler
begin

text \<open>
  What the runner guarantees: that it returns when its context ends or no click has a recorded target, and
  where it hangs; that its report is consistent; that taps land inside the element they are meant for; and
  where an assertion cannot succeed.
\<close>

section \<open>Rounds of a loop\<close>

text \<open>
  The body of a loop is \<open>sleepy\<close> when a round that goes on takes time, and \<open>paced\<close> by a limit when, in
  addition, no round that goes on begins after the limit.
\<close>

definition sleepy :: "('r + 's, 'd) run \<Rightarrow> bool" where
  "sleepy m \<longleftrightarrow> timely m \<and> (\<forall>w s w'. m w = Some (Return (Inr s, w')) \<longrightarrow> w_clock w < w_clock w')"

definition paced :: "instant \<Rightarrow> ('r + 's, 'd) run \<Rightarrow> bool" where
  "paced limit m \<longleftrightarrow> sleepy m \<and> (\<forall>w s w'. m w = Some (Return (Inr s, w')) \<longrightarrow> w_clock w \<le> limit)"

lemma forever_paced: "(\<And>s. paced limit (body s)) \<Longrightarrow> timely (forever s body)"
  by (rule forever_timely [where limit = limit]) (simp_all add: paced_def sleepy_def, blast)

lemma timely_from_now: "(\<And>now. timely (f now)) \<Longrightarrow> timely (andThen Now f)"
  by (rule timely_andThen [OF timely_Now])

lemma andThen_Return:
  "andThen m f w = Some (Return (r, w')) \<longleftrightarrow> (\<exists>x v. m w = Some (Return (x, v)) \<and> f x v = Some (Return (r, w')))"
  by (auto simp: andThen_def split: option.splits outcome.splits)

named_theorems pace_intros

lemma sleepy_Inl [pace_intros]: "sleepy (ret (Inl r))"
  by (simp add: sleepy_def timely_ret) (simp add: ret_def)

lemma sleepy_panic [pace_intros]: "sleepy panic"
  by (simp add: sleepy_def timely_panic) (simp add: panic_def)

lemma sleepy_sleep [pace_intros]: "0 < d \<Longrightarrow> sleepy (andThen (Sleep d) (\<lambda>_. ret (Inr s)))"
  by (simp add: sleepy_def timely_intros) (auto simp: andThen_Return Sleep_def ret_def)

lemma sleepy_andThen [pace_intros]: "timely m \<Longrightarrow> (\<And>r. sleepy (f r)) \<Longrightarrow> sleepy (andThen m f)"
  unfolding sleepy_def using timely_andThen [of m f] timely_Return [of m] by (fastforce simp: andThen_Return)

lemma sleepy_if [pace_intros]: "sleepy m \<Longrightarrow> sleepy n \<Longrightarrow> sleepy (if b then m else n)"
  by simp

lemma sleepy_option [pace_intros]: "sleepy m \<Longrightarrow> (\<And>x. sleepy (f x)) \<Longrightarrow> sleepy (case v of None \<Rightarrow> m | Some x \<Rightarrow> f x)"
  by (cases v) simp_all

lemma sleepy_sum [pace_intros]: "(\<And>x. sleepy (f x)) \<Longrightarrow> (\<And>y. sleepy (g y)) \<Longrightarrow> sleepy (case v of Inl x \<Rightarrow> f x | Inr y \<Rightarrow> g y)"
  by (cases v) simp_all

lemma sleepy_prod [pace_intros]: "(\<And>x y. sleepy (f x y)) \<Longrightarrow> sleepy (case p of (x, y) \<Rightarrow> f x y)"
  by (cases p) simp

lemma sleepy_wait [pace_intros]:
  "0 < d \<Longrightarrow> sleepy (andThen (wait_or_done ctx d) (\<lambda>done. if done then ret (Inl r) else ret (Inr s)))"
  unfolding sleepy_def
  by (intro conjI timely_intros) (auto simp: andThen_Return wait_or_done_def ret_def Let_def split: option.splits if_splits)

lemma paced_Inl [pace_intros]: "paced limit (ret (Inl r))"
  by (simp add: paced_def sleepy_Inl) (simp add: ret_def)

lemma paced_panic [pace_intros]: "paced limit panic"
  by (simp add: paced_def sleepy_panic) (simp add: panic_def)

lemma paced_andThen: "timely m \<Longrightarrow> (\<And>r. paced limit (f r)) \<Longrightarrow> paced limit (andThen m f)"
  unfolding paced_def using sleepy_andThen [of m f] timely_Return [of m] by (fastforce simp: andThen_Return)

lemma paced_if: "paced limit m \<Longrightarrow> paced limit n \<Longrightarrow> paced limit (if b then m else n)"
  by simp

lemma paced_option: "paced limit m \<Longrightarrow> (\<And>x. paced limit (f x)) \<Longrightarrow> paced limit (case v of None \<Rightarrow> m | Some x \<Rightarrow> f x)"
  by (cases v) simp_all

lemma paced_sum:
  "(\<And>x. paced limit (f x)) \<Longrightarrow> (\<And>y. paced limit (g y)) \<Longrightarrow> paced limit (case v of Inl x \<Rightarrow> f x | Inr y \<Rightarrow> g y)"
  by (cases v) simp_all

lemma paced_outcome:
  "paced limit m \<Longrightarrow> (\<And>x. paced limit (f x)) \<Longrightarrow> paced limit (case v of Panic \<Rightarrow> m | Return x \<Rightarrow> f x)"
  by (cases v) simp_all

lemma paced_prod: "(\<And>x y. paced limit (f x y)) \<Longrightarrow> paced limit (case p of (x, y) \<Rightarrow> f x y)"
  by (cases p) simp

lemmas paced_struct = paced_Inl paced_panic paced_andThen paced_if paced_option paced_sum paced_outcome paced_prod

text \<open>The three ways in which a limit is checked: before the round, after it, and by the end of the context.\<close>

lemma paced_before [pace_intros]: "sleepy m \<Longrightarrow> paced limit (andThen Now (\<lambda>t. if \<not> t < limit then ret (Inl r) else m))"
  unfolding paced_def
  by (intro conjI pace_intros timely_Now) (auto simp: andThen_Return Now_def ret_def split: if_splits)

lemma paced_after [pace_intros]: "sleepy m \<Longrightarrow> paced limit (andThen Now (\<lambda>t. if t > limit then ret (Inl r) else m))"
  unfolding paced_def
  by (intro conjI pace_intros timely_Now) (auto simp: andThen_Return Now_def ret_def split: if_splits)

lemma paced_context:
  "ctx_end ctx = Some u \<Longrightarrow> sleepy m \<Longrightarrow>
   paced u (andThen (ctx_Err ctx) (\<lambda>e. case e of Some e \<Rightarrow> ret (Inl (f e)) | None \<Rightarrow> m))"
  unfolding paced_def
  by (intro conjI pace_intros timely_ctx_Err) (auto simp: andThen_Return ctx_Err_def ret_def ended_def split: if_splits option.splits)

lemma paced_poll: "paced limit (poll_again ctx limit timeout s)"
  unfolding poll_again_def by (intro pace_intros) simp

lemma paced_input_again: "paced limit (input_again limit s)"
  unfolding input_again_def by (intro pace_intros) simp

section \<open>The handlers return\<close>

lemma timely_tap [timely_intros]: "timely (tapUIElement drv ctx node x y)" "timely (tapNode lib drv ctx r)"
  unfolding tapUIElement_def tapNode_def by (intro timely_intros)+

lemma timely_findByLocatorWithWait [timely_intros]: "timely (findByLocatorWithWait lib drv ctx loc anchor ms)"
  unfolding findByLocatorWithWait_def Let_def
  by (rule timely_from_now, rule forever_paced, intro paced_struct timely_intros) (rule paced_poll)

lemma timely_waitForElement [timely_intros]: "timely (waitForElement lib drv ctx query condition ms)"
  unfolding waitForElement_def Let_def
  by (rule timely_from_now, rule forever_paced, intro paced_struct timely_intros) (rule paced_poll)+

lemma timely_waitForUIStabilization [timely_intros]: "timely (waitForUIStabilization drv ctx d)"
  unfolding waitForUIStabilization_def Let_def
  by (rule timely_from_now, rule forever_paced, rule paced_before, intro pace_intros timely_intros) simp_all

lemma timely_verifyPackageActive [timely_intros]: "timely (verifyPackageActive lib drv ctx pkg ms)"
  unfolding verifyPackageActive_def Let_def
  by (rule timely_from_now, rule forever_paced, rule paced_before, intro pace_intros timely_intros) simp_all

lemma timely_autoScrollToFind [timely_intros]: "timely (autoScrollToFind lib drv ctx)"
  unfolding autoScrollToFind_def by (intro timely_intros)

lemma timely_scroll_and_resolve [timely_intros]: "timely (scroll_and_resolve lib drv ctx target anchor)"
  unfolding scroll_and_resolve_def by (intro timely_intros)

lemma timely_try_locators [timely_intros]: "timely (try_locators lib drv ctx anchor locs)"
  by (induction locs) (auto intro!: timely_intros)

lemma timely_tap_fallback [timely_intros]: "timely (tap_fallback drv ctx params failure)"
  unfolding tap_fallback_def by (intro timely_intros)

lemma timely_handleClickWithLocators [timely_intros]: "timely (handleClickWithLocators lib drv ctx params)"
  unfolding handleClickWithLocators_def by (intro timely_intros)

lemma timely_handleClickLegacy [timely_intros]: "timely (handleClickLegacy lib drv ctx params)"
  unfolding handleClickLegacy_def Let_def by (intro timely_intros)

lemma timely_click_loop: "ctx_end ctx = Some u \<Longrightarrow> timely (forever s (click_round lib drv ctx target anchor limit))"
  by (rule forever_paced [where limit = u], unfold click_round_def Let_def, rule paced_prod, rule paced_context)
    (simp, intro pace_intros timely_intros, simp_all)

lemma timely_handleClick:
  assumes "ctx_end ctx \<noteq> None \<or> cp_Target params = None"
  shows "timely (handleClick lib drv ctx params)"
proof (cases "ctx_end ctx")
  case None
  with assms show ?thesis unfolding handleClick_def by (auto intro!: timely_intros)
next
  case (Some u)
  show ?thesis
    unfolding handleClick_def handleClickWithTarget_def
    by (intro timely_intros timely_click_loop [OF Some])
qed

lemma timely_input [timely_intros]:
  "timely (input_by_target lib drv ctx params)" "timely (input_by_selector lib drv ctx params)" "timely (input_by_focus lib drv ctx)"
proof -
  have loop: "timely (forever s (input_round lib drv ctx target limit))" for s target limit
    unfolding input_round_def
    by (rule forever_paced, intro paced_struct timely_intros) (rule paced_input_again)+
  show "timely (input_by_target lib drv ctx params)" unfolding input_by_target_def by (intro timely_intros loop)
qed (unfold input_by_selector_def input_by_focus_def, (intro timely_intros)+)

lemma timely_handleInput [timely_intros]: "timely (handleInput lib drv ctx params vars)"
  unfolding handleInput_def or_else_def by (intro timely_intros)

lemma timely_handleWait [timely_intros]: "timely (handleWait lib drv ctx params)"
proof -
  have loop: "timely (forever s (\<lambda>_. wait_round lib drv ctx target condition limit))" for s target condition limit
    unfolding wait_round_def Let_def
    by (rule forever_paced, intro paced_struct timely_intros) (rule paced_poll)
  show ?thesis unfolding handleWait_def by (intro timely_intros loop)
qed

lemma timely_assert_loop: "timely (forever s (assert_round lib drv ctx target condition limit))"
  unfolding assert_round_def Let_def
  by (rule forever_paced, intro paced_struct timely_intros) (rule paced_poll)

lemma timely_handleAssert [timely_intros]: "timely (handleAssert lib drv ctx params)"
  unfolding handleAssert_def by (intro timely_intros timely_assert_loop)

lemma timely_evaluateCondition [timely_intros]: "timely (evaluateCondition lib drv ctx cond)"
  unfolding evaluateCondition_def by (intro timely_intros)

lemma timely_step_result [timely_intros]: "timely (step_result index action start err)"
  unfolding step_result_def by (intro timely_intros)

fun no_click_target :: "Step \<Rightarrow> bool" where
  "no_click_target (Step launch trm click inp swipe waitp assertp ifp thenp elsep delay) \<longleftrightarrow>
     (case click of None \<Rightarrow> True | Some p \<Rightarrow> cp_Target p = None) \<and>
     (\<forall>s \<in> set thenp. no_click_target s) \<and> (\<forall>s \<in> set elsep. no_click_target s)"

lemma timely_runStep:
  "ctx_end ctx \<noteq> None \<or> no_click_target step \<Longrightarrow> timely (runStep lib drv ctx index step vars)"
  "ctx_end ctx \<noteq> None \<or> (\<forall>s \<in> set steps. no_click_target s) \<Longrightarrow> timely (run_block lib drv ctx index subIdx steps vars)"
proof (induction lib drv ctx index step vars and lib drv ctx index subIdx steps vars rule: runStep_run_block.induct)
  case (1 lib drv ctx index launch trm click inp swipe waitp assertp ifp thenp elsep delay vars)
  have click: "timely (handleClick lib drv ctx p)" if "click = Some p" for p
    using 1(3) that by (auto intro!: timely_handleClick)
  show ?case unfolding runStep.simps
    by (intro timely_intros click; use 1 in \<open>auto simp: if_split\<close>)
next
  case 3
  then show ?case by (auto intro!: timely_intros)
qed (simp add: timely_ret)

lemma timely_attempts [timely_intros]:
  assumes "ctx_end ctx \<noteq> None \<or> no_click_target step"
  shows "timely (run_attempts lib drv ctx i step vars n)"
proof -
  have "timely (attempt lib drv ctx i step vars retry)" if "\<And>m. retry = Some m \<Longrightarrow> timely m" for retry
    unfolding attempt_def using that by (intro timely_intros timely_runStep(1) assms) auto
  then show ?thesis by (induction n) auto
qed

lemma timely_run_steps:
  "ctx_end ctx \<noteq> None \<or> (\<forall>s \<in> set steps. no_click_target s) \<Longrightarrow> timely (run_steps lib drv ctx gd vars i steps launched)"
proof (induction steps arbitrary: i launched)
  case (Cons step steps)
  then have rest: "timely (run_steps lib drv ctx gd vars i steps launched)" for i launched by auto
  have attempts: "timely (run_attempts lib drv ctx i step vars n)" for n using Cons.prems by (auto intro!: timely_attempts)
  show ?case unfolding run_steps.simps by (intro timely_intros rest attempts)
qed (simp add: timely_ret)

lemma timely_terminate_all [timely_intros]: "timely (terminate_all drv pkgs)"
  by (induction pkgs) (auto intro!: timely_intros)


section \<open>Where a click hangs\<close>

definition calm :: "('r, 'd) run \<Rightarrow> bool" where
  "calm m \<longleftrightarrow> (\<forall>w. m w \<noteq> Some Panic)"

lemma calm_andThen: "calm m \<Longrightarrow> (\<And>r. calm (f r)) \<Longrightarrow> calm (andThen m f)"
  by (auto simp: calm_def andThen_def split: option.splits outcome.splits)

lemma calm_basic: "calm (ret r)" "calm (perform f)" "calm Now" "calm (ctx_Err ctx)" "calm (Sleep d)" "calm fresh_doc" "calm (wait_or_done ctx d)"
  by (auto simp: calm_def ret_def perform_def Now_def ctx_Err_def Sleep_def fresh_doc_def wait_or_done_def case_prod_unfold Let_def split: option.splits)

lemma calm_if: "calm m \<Longrightarrow> calm n \<Longrightarrow> calm (if b then m else n)"
  by simp

lemma calm_case:
  "calm m \<Longrightarrow> (\<And>x. calm (f x)) \<Longrightarrow> calm (case v of None \<Rightarrow> m | Some x \<Rightarrow> f x)"
  "(\<And>x. calm (g x)) \<Longrightarrow> (\<And>y. calm (h y)) \<Longrightarrow> calm (case u of Inl x \<Rightarrow> g x | Inr y \<Rightarrow> h y)"
  "(\<And>x y. calm (k x y)) \<Longrightarrow> calm (case p of (x, y) \<Rightarrow> k x y)"
  by (simp_all split: option.split sum.split prod.split)

lemma calm_forever:
  assumes "\<And>s. calm (body s)"
  shows "calm (forever s body)"
proof -
  have "b = body \<longrightarrow> y \<noteq> Panic" if "forever s b w = Some y" for s b w y
    using that
  proof (induction rule: forever.raw_induct [rotated, consumes 1, case_names step])
    case (step loop s b w y)
    show ?case
    proof (intro impI notI)
      assume b: "b = body" and y: "y = Panic"
      have "body s w \<noteq> Some Panic" using assms [of s] by (simp add: calm_def)
      with step b y show False by (auto split: option.splits outcome.splits sum.splits)
    qed
  qed
  then show ?thesis by (auto simp: calm_def)
qed

lemmas calm_intros = calm_andThen calm_basic calm_if calm_case calm_forever

lemma calm_stabilization: "calm (waitForUIStabilization drv ctx d)"
  unfolding waitForUIStabilization_def Let_def by (intro calm_intros)

lemma timely_calm: "timely m \<Longrightarrow> calm m \<Longrightarrow> \<exists>r w'. m w = Some (Return (r, w')) \<and> w_clock w \<le> w_clock w'"
  using timelyD [of m w] by (auto simp: calm_def)

definition no_dumps :: "'d Driver \<Rightarrow> Context \<Rightarrow> bool" where
  "no_dumps drv ctx \<longleftrightarrow> (\<forall>t d. \<exists>e d' n. dr_DumpUI drv ctx t d = (Inl e, d', n))"

lemma click_loop_hangs:
  fixes drv :: "'a Driver"
  assumes dumps: "no_dumps drv ctx" and ctx: "ctx_end ctx = None"
  shows "forever s (click_round lib drv ctx target anchor limit) w = None"
proof (rule forever_hangs [where goes_on = "\<lambda>_ _. True"])
  fix s :: "nat \<times> string" and w :: "'a World"
  obtain e d n where "dr_DumpUI drv ctx (w_clock w) (w_dev w) = (Inl e, d, n)" using dumps unfolding no_dumps_def by metis
  then show "\<exists>s' w'. click_round lib drv ctx target anchor limit s w = Some (Return (Inr s', w')) \<and> True"
    using ctx by (simp add: click_round_def andThen_def ctx_Err_def ended_def perform_def Sleep_def ret_def case_prod_unfold Let_def)
qed simp

definition ex_dead_device :: "unit Driver" where
  "ex_dead_device =
     (let fail = (\<lambda>_ d. (Some ''offline'', d, 1)) in
      \<lparr>dr_Launch = (\<lambda>_ _. fail), dr_Terminate = (\<lambda>_ _. fail), dr_Tap = (\<lambda>_ _ _. fail), dr_Swipe = (\<lambda>_ _ _ _ _ _. fail),
       dr_Input = (\<lambda>_ _. fail), dr_Screenshot = (\<lambda>_ _ d. (Inl ''offline'', d, 1)), dr_DumpUI = (\<lambda>_ _ d. (Inl ''offline'', d, 1)),
       dr_CurrentApp = (\<lambda>_ _ d. (Inl ''offline'', d, 1)), dr_Install = (\<lambda>_ _. fail), dr_Uninstall = (\<lambda>_ _. fail),
       dr_ScreenSize = (\<lambda>_ _ d. (Inr (1080, 1920), d, 1))\<rparr>)"

definition ex_lib :: run_lib where
  "ex_lib = \<lparr>rl_ui = ex_ui, rl_quote = id, rl_query = (\<lambda>_. ''''), rl_scan_error = id, rl_range = id\<rparr>"

definition ex_world :: "unit World" where
  "ex_world = \<lparr>w_dev = (), w_clock = 0, w_docs = 0\<rparr>"

definition ex_click :: ClickParams where
  "ex_click = coordinates_click 0 0\<lparr>cp_Target := Some (ex_tree, [0])\<rparr>"

definition ex_swipe :: Step where
  "ex_swipe = swipe_step \<lparr>sp_StartX = 1/2, sp_StartY = 1/2, sp_EndX = 1/2, sp_EndY = 1/4, sp_DurationMs = 200\<rparr>"

text \<open>
  A click on a recorded target never returns when the screen cannot be dumped: the round that fails
  to get a dump goes on without a look at the five-second limit.  So a script that begins with such a click
  hangs for ever under a context that does not end, where an input with the same target fails over.
\<close>

theorem click_hangs_without_dump:
  assumes dumps: "no_dumps drv ctx" and ctx: "ctx_end ctx = None" and target: "cp_Target params = Some target"
    and steps: "scr_Steps script = click_step params # rest"
  shows "Run lib drv ctx script w = None \<and> handleInput lib drv ctx inp vars w \<noteq> None"
proof
  have "handleClick lib drv ctx params v = None" for v
    using target by (simp add: handleClick_def handleClickWithTarget_def andThen_def Now_def click_loop_hangs [OF dumps ctx])
  moreover obtain r v where "waitForUIStabilization drv ctx (2000 * millisecond) w = Some (Return (r, v))"
    using timely_calm [OF timely_waitForUIStabilization calm_stabilization] by metis
  ultimately have "runStep lib drv ctx 0 (click_step params) vars w = None" for vars
    by (simp add: click_step_def andThen_def Now_def ret_def)
  then have "run_attempts lib drv ctx 0 (click_step params) vars (Suc n) w = None" for vars n
    using ctx by (simp add: attempt_def andThen_def ctx_Err_def ended_def)
  from this [of _ 1] show "Run lib drv ctx script w = None"
    by (simp add: Run_def andThen_def Now_def steps numeral_2_eq_2)
  show "handleInput lib drv ctx inp vars w \<noteq> None"
    by (rule timely_returns [OF timely_handleInput])
qed

theorem click_hangs_without_dump_witness:
  "Run ex_lib ex_dead_device Background \<lparr>scr_Variables = Map.empty, scr_Steps = [click_step ex_click]\<rparr> ex_world = None"
proof -
  have d: "no_dumps ex_dead_device Background" by (simp add: no_dumps_def ex_dead_device_def Let_def)
  have c: "ctx_end Background = None" by (simp add: Background_def)
  have t: "cp_Target ex_click = Some (ex_tree, [0])" by (simp add: ex_click_def)
  show ?thesis
    using click_hangs_without_dump [OF d c t, where script = "\<lparr>scr_Variables = Map.empty, scr_Steps = [click_step ex_click]\<rparr>" and rest = "[]"]
    by simp
qed

section \<open>The report\<close>

definition yields :: "('r \<Rightarrow> bool) \<Rightarrow> ('r, 'd) run \<Rightarrow> bool" where
  "yields P m \<longleftrightarrow> (\<forall>w r w'. m w = Some (Return (r, w')) \<longrightarrow> P r)"

lemma yields_ret: "P r \<Longrightarrow> yields P (ret r)"
  by (simp add: yields_def ret_def)

lemma yields_andThen: "(\<And>x. yields P (f x)) \<Longrightarrow> yields P (andThen m f)"
  by (auto simp: yields_def andThen_Return)

lemma yields_bind: "yields Q m \<Longrightarrow> (\<And>x. Q x \<Longrightarrow> yields P (f x)) \<Longrightarrow> yields P (andThen m f)"
  by (auto simp: yields_def andThen_Return) blast

lemma yields_cases:
  "(b \<Longrightarrow> yields P m) \<Longrightarrow> (\<not> b \<Longrightarrow> yields P n) \<Longrightarrow> yields P (if b then m else n)"
  "yields P m \<Longrightarrow> (\<And>x. yields P (f x)) \<Longrightarrow> yields P (case v of None \<Rightarrow> m | Some x \<Rightarrow> f x)"
  by (simp_all split: option.split)

lemma yields_step_result: "yields (\<lambda>res. str_Index res = index) (step_result index action start err)"
  unfolding step_result_def by (intro yields_andThen yields_ret) simp

lemma yields_runStep: "yields (\<lambda>res. str_Index res = index) (runStep lib drv ctx index step vars)"
  by (cases step) (simp only: runStep.simps, intro yields_cases yields_step_result yields_andThen)

lemma yields_attempt:
  assumes "\<And>m. retry = Some m \<Longrightarrow> yields (\<lambda>res. str_Index res = i) m"
  shows "yields (\<lambda>res. str_Index res = i) (attempt lib drv ctx i step vars retry)"
  unfolding attempt_def
proof (rule yields_andThen, rule yields_cases)
  show "yields (\<lambda>res. str_Index res = i) (andThen (runStep lib drv ctx i step vars) (\<lambda>stepRes.
           if str_Success stepRes \<or> str_Action stepRes = ''assert'' \<or> str_Action stepRes = ''wait'' then ret stepRes
           else (case retry of
                   None \<Rightarrow> ret stepRes
                 | Some again \<Rightarrow> andThen (wait_or_done ctx (1000 * millisecond)) (\<lambda>_. again))))"
    by (rule yields_bind [OF yields_runStep]) (use assms in \<open>auto split: option.splits intro!: yields_ret yields_andThen\<close>)
qed (simp add: yields_ret)

lemma yields_run_attempts: "yields (\<lambda>res. str_Index res = i) (run_attempts lib drv ctx i step vars n)"
  by (induction n) (auto intro!: yields_attempt)

text \<open>A row of results: numbered from \<open>i\<close>, all successful but perhaps the last, and complete if all are.\<close>

fun result_row :: "int \<Rightarrow> nat \<Rightarrow> StepResult list \<Rightarrow> bool" where
  "result_row i n [] \<longleftrightarrow> n = 0"
| "result_row i n (r # rs) \<longleftrightarrow>
     0 < n \<and> str_Index r = i \<and> (if str_Success r then result_row (i + 1) (n - 1) rs else rs = [])"

lemma run_steps_row: "yields (\<lambda>(results, _). result_row i (length steps) results) (run_steps lib drv ctx gd vars i steps launched)"
proof (induction steps arbitrary: i launched)
  case (Cons step steps)
  show ?case unfolding run_steps.simps Let_def
  proof (rule yields_bind [OF yields_run_attempts], rule yields_cases)
    fix r :: StepResult
    assume r: "str_Index r = i"
    {
      assume "str_Success r"
      with r show "yields (\<lambda>(results, _). result_row i (length (step # steps)) results)
        (andThen (if 0 < (if st_DelayMs step \<le> 0 then gd else st_DelayMs step)
            then wait_or_done ctx (ms_duration (if st_DelayMs step \<le> 0 then gd else st_DelayMs step)) else ret False) (\<lambda>_.
         andThen (run_steps lib drv ctx gd vars (i + 1) steps (case st_Launch step of
              Some p \<Rightarrow> if lp_Package p \<in> set launched then launched else launched @ [lp_Package p]
            | None \<Rightarrow> launched)) (\<lambda>(results, launched). ret (r # results, launched))))"
        by - (rule yields_andThen, rule yields_bind [OF Cons.IH], auto intro!: yields_ret)
    next
      assume "\<not> str_Success r"
      with r show "yields (\<lambda>(results, _). result_row i (length (step # steps)) results)
        (andThen (perform (dr_Screenshot drv ctx)) (\<lambda>shot.
           ret ([case shot of Inr s \<Rightarrow> r\<lparr>str_Screenshot := s\<rparr> | Inl _ \<Rightarrow> r], launched)))"
        by (intro yields_andThen yields_ret) (simp split: sum.split)
    }
  qed
qed (simp add: yields_ret)

lemma result_row_facts:
  "result_row i n rs \<Longrightarrow> length rs \<le> n \<and> (list_all str_Success rs \<longleftrightarrow> length (filter str_Success rs) = n) \<and>
     list_all str_Success (butlast rs) \<and> map str_Index rs = map (\<lambda>k. i + int k) [0..<length rs]"
proof (induction i n rs rule: result_row.induct)
  case (2 i n r rs)
  have shift: "map (\<lambda>k. i + int k) [0..<Suc (length rs)] = i # map (\<lambda>k. i + 1 + int k) [0..<length rs]"
    by (simp only: upt_conv_Cons zero_less_Suc map_Suc_upt [symmetric] list.map map_map comp_def) (simp add: algebra_simps)
  show ?case
  proof (cases "str_Success r")
    case True
    with 2 shift show ?thesis by auto
  next
    case False
    with 2 have "rs = []" "0 < n" by simp_all
    with 2 False show ?thesis by simp
  qed
qed simp

lemma Run_report:
  assumes run: "Run lib drv ctx script w = Some (Return (rep, w'))"
  shows "rep_TotalSteps rep = int (length (scr_Steps script)) \<and> length (rep_Results rep) \<le> length (scr_Steps script) \<and>
    map str_Index (rep_Results rep) = map int [0..<length (rep_Results rep)] \<and>
    list_all str_Success (butlast (rep_Results rep)) \<and>
    rep_PassedSteps rep = int (length (filter str_Success (rep_Results rep))) \<and>
    (rep_Success rep \<longleftrightarrow> rep_PassedSteps rep = rep_TotalSteps rep)"
proof -
  obtain launched v v' where
    steps: "run_steps lib drv ctx (global_delay (scr_Variables script)) (scr_Variables script) 0 (scr_Steps script) [] v =
      Some (Return ((rep_Results rep, launched), v'))" and
    rep: "rep_TotalSteps rep = int (length (scr_Steps script))" "rep_PassedSteps rep = int (length (filter str_Success (rep_Results rep)))"
      "rep_Success rep = list_all str_Success (rep_Results rep)"
    using run unfolding Run_def by (auto simp: andThen_Return ret_def)
  from steps have "result_row 0 (length (scr_Steps script)) (rep_Results rep)"
    using run_steps_row unfolding yields_def by fastforce
  from result_row_facts [OF this] rep show ?thesis by simp
qed

text \<open>
  C6. The report of a run is consistent: its results are those of the first steps in order, numbered from
  0, and only the last may be a failure; the number of passed steps is that of successful results, and the
  run counts as a success exactly when all steps of the script passed.
\<close>

theorem report_consistent:
  assumes run: "Run lib drv ctx script w = Some (Return (rep, w'))"
  shows "rep_TotalSteps rep = int (length (scr_Steps script)) \<and> length (rep_Results rep) \<le> length (scr_Steps script) \<and>
    map str_Index (rep_Results rep) = map int [0..<length (rep_Results rep)] \<and>
    list_all str_Success (butlast (rep_Results rep)) \<and>
    rep_PassedSteps rep = int (length (filter str_Success (rep_Results rep))) \<and>
    (rep_Success rep \<longleftrightarrow> rep_PassedSteps rep = rep_TotalSteps rep)"
  using run by (rule Run_report)

theorem report_consistent_witness:
  "\<exists>rep w'. Run ex_lib ex_dead_device Background \<lparr>scr_Variables = Map.empty, scr_Steps = [ex_swipe, ex_swipe]\<rparr> ex_world = Some (Return (rep, w')) \<and>
     rep_TotalSteps rep = 2 \<and> length (rep_Results rep) \<le> 2 \<and> \<not> rep_Success rep"
proof -
  have "\<exists>rep w'. Run ex_lib ex_dead_device Background \<lparr>scr_Variables = Map.empty, scr_Steps = [ex_swipe, ex_swipe]\<rparr> ex_world =
      Some (Return (rep, w')) \<and> rep_PassedSteps rep = 0"
    by (simp add: Run_def run_steps.simps attempt_def ex_swipe_def swipe_step_def numeral_2_eq_2 andThen_def Now_def ctx_Err_def ended_def
        Background_def perform_def ex_dead_device_def ex_world_def Let_def ret_def step_result_def wait_or_done_def terminate_all.simps ex_lib_def)
  then obtain rep w' where run: "Run ex_lib ex_dead_device Background \<lparr>scr_Variables = Map.empty, scr_Steps = [ex_swipe, ex_swipe]\<rparr> ex_world =
      Some (Return (rep, w'))" "rep_PassedSteps rep = 0" by blast
  with report_consistent [OF run(1)] show ?thesis by auto
qed

section \<open>Assertions\<close>

lemma calm_poll: "calm (poll_again ctx limit timeout s)"
  unfolding poll_again_def by (intro calm_intros)

lemma calm_assert_loop: "calm (forever s (assert_round lib drv ctx target condition limit))"
  unfolding assert_round_def Let_def by (intro calm_intros calm_poll)

lemma poll_again_cases:
  "poll_again ctx limit timeout s w = Some (Return (r, w')) \<Longrightarrow> r = Inr s \<or> (\<exists>e. r = Inl (Inl e))"
  by (auto simp: poll_again_def andThen_Return ret_def split: if_splits)

lemma assert_look_keeps: "fst s \<noteq> None \<Longrightarrow> fst (assert_look lib doc dump target s) \<noteq> None"
  by (auto simp: assert_look_def split: sum.splits)

text \<open>A round of a hidden assertion in which the element is or was seen does not end in success.\<close>

lemma hidden_round:
  assumes round: "assert_round lib drv ctx target ''hidden'' limit s w = Some (Return (r, w'))"
    and seen: "\<And>doc. doc = w_docs w \<Longrightarrow> fst (assert_look lib doc (fst (dr_DumpUI drv ctx (w_clock w) (w_dev w))) target s) \<noteq> None"
  shows "(\<exists>e. r = Inl (Inl e)) \<or> (\<exists>s'. r = Inr s' \<and> fst s' \<noteq> None)"
proof (cases "ended ctx (w_clock w)")
  case True
  with round show ?thesis by (auto simp: assert_round_def andThen_def ctx_Err_def ret_def)
next
  case False
  obtain node le where look: "assert_look lib (w_docs w) (fst (dr_DumpUI drv ctx (w_clock w) (w_dev w))) target s = (Some node, le)"
    using seen [OF refl] by (cases "assert_look lib (w_docs w) (fst (dr_DumpUI drv ctx (w_clock w) (w_dev w))) target s") auto
  obtain v where "poll_again ctx limit (assert_timeout ''hidden'' le) (Some node, le) v = Some (Return (r, w'))"
    using round False look
    by (auto simp: assert_round_def andThen_def ctx_Err_def perform_def fresh_doc_def case_prod_unfold Let_def)
  from poll_again_cases [OF this] show ?thesis by auto
qed

text \<open>
  The assertion that a recorded element is hidden fails when the element is on the first screen that is
  looked at, also when it disappears before the time-out: the element that was seen is never forgotten.
\<close>

theorem hidden_assert_never_recovers:
  assumes params: "ap_Target params = Some target" "ap_Condition params = ''hidden''"
    and dump: "fst (dr_DumpUI drv ctx (w_clock w) (w_dev w)) = Inr xmlData"
    and seen: "resolve_in lib (w_docs w) xmlData target None = Inr node"
  shows "\<exists>e w'. handleAssert lib drv ctx params w = Some (Return (Some e, w'))"
proof -
  define limit where "limit = w_clock w + ms_duration (if ap_TimeoutMs params \<le> 0 then 3000 else ap_TimeoutMs params)"
  let ?loop = "forever (None, None) (assert_round lib drv ctx target ''hidden'' limit)"
  obtain r w' where loop: "?loop w = Some (Return (r, w'))"
    using timely_calm [OF timely_assert_loop calm_assert_loop] by metis
  let ?I = "\<lambda>s v. v = w \<or> fst s \<noteq> (None :: ElRef option)"
  have step: "(\<exists>e. x = Inl (Inl e)) \<or> (\<exists>s'. x = Inr s' \<and> fst s' \<noteq> None)"
    if "?I s v" "assert_round lib drv ctx target ''hidden'' limit s v = Some (Return (x, v'))" for s v x v'
  proof (rule hidden_round [OF that(2)])
    fix doc assume "doc = w_docs v"
    with that(1) assert_look_keeps seen dump
    show "fst (assert_look lib doc (fst (dr_DumpUI drv ctx (w_clock v) (w_dev v))) target s) \<noteq> None"
      by (auto simp: assert_look_def resolve_in_def split: sum.splits)
  qed
  have "\<exists>e. r = Inl e"
    using forever_partial [where holds = ?I and post = "\<lambda>r _. \<exists>e. r = Inl e", OF _ loop] step by (metis Inl_inject sum.distinct(1) sum.sel(2))
  with loop params show ?thesis
    by (auto simp: handleAssert_def default_condition_def andThen_def Now_def limit_def ret_def Let_def)
qed

section \<open>Taps\<close>

lemma pixel_center:
  assumes "0 \<le> lo" "lo \<le> hi" "hi < 2 ^ 62" "0 < sint width"
  shows "lo \<le> pixel (norm_center lo hi width) width \<and> pixel (norm_center lo hi width) width \<le> hi"
proof -
  have "int64 (lo + hi) = lo + hi" using assms by (intro int64_id) simp_all
  then have x: "norm_center lo hi width * real_of_int (sint width) = real_of_int (lo + hi) / 2"
  proof -
    have "real_of_int (sint width) \<noteq> 0" using assms(4) by linarith
    then show ?thesis using \<open>int64 (lo + hi) = lo + hi\<close> unfolding norm_center_def by (simp only: times_divide_eq_left nonzero_divide_eq_eq) simp
  qed
  moreover have "\<lfloor>real_of_int (lo + hi) / 2\<rfloor> = (lo + hi) div 2" using floor_divide_of_int_eq [of "lo + hi" 2] by simp
  ultimately have "pixel (norm_center lo hi width) width = (lo + hi) div 2"
    using assms(1,2) unfolding pixel_def x by (simp add: Locator.truncate_def)
  with assms(1,2) show ?thesis by linarith
qed

text \<open>
  A tap on an element lands on a pixel inside its bounds, whether the runner taps the middle of it or the
  point that was recorded.
\<close>

theorem taps_land_inside:
  assumes horizontal: "0 \<le> Left (ue_Bounds node)" "Left (ue_Bounds node) \<le> Right (ue_Bounds node)" "Right (ue_Bounds node) < 2 ^ 62"
    and vertical: "0 \<le> Top (ue_Bounds node)" "Top (ue_Bounds node) \<le> Bottom (ue_Bounds node)" "Bottom (ue_Bounds node) < 2 ^ 62"
    and screen: "fst (dr_ScreenSize drv ctx (w_clock w) (w_dev w)) = Inr (width, height)" "0 < sint width" "0 < sint height"
  shows "\<exists>x y v. tapUIElement drv ctx node targetX targetY w = perform (dr_Tap drv ctx x y) v \<and>
    in_rect (pixel x width) (pixel y height) (ue_Bounds node)"
proof -
  obtain v where sz: "perform (dr_ScreenSize drv ctx) w = Some (Return (Inr (width, height), v))"
    using screen(1) by (simp add: perform_def case_prod_unfold Let_def)
  show ?thesis
  proof (cases "shouldTapOriginalCoords node targetX targetY width height")
    case True
    then obtain x y where "targetX = Some x" "targetY = Some y" "in_rect (pixel x width) (pixel y height) (ue_Bounds node)"
      by (auto simp: shouldTapOriginalCoords_def split: option.splits if_splits)
    with True sz show ?thesis by (auto simp: tapUIElement_def andThen_def)
  next
    case False
    with sz pixel_center [OF horizontal screen(2)] pixel_center [OF vertical screen(3)] show ?thesis
      by (fastforce simp: tapUIElement_def andThen_def in_rect_def)
  qed
qed

theorem taps_land_inside_witness:
  "\<exists>x y v. tapUIElement ex_dead_device Background (zero_attrs\<lparr>ue_Bounds := \<lparr>Left = 10, Top = 20, Right = 110, Bottom = 70\<rparr>\<rparr>) None None ex_world =
     perform (dr_Tap ex_dead_device Background x y) v \<and> in_rect (pixel x 1080) (pixel y 1920) \<lparr>Left = 10, Top = 20, Right = 110, Bottom = 70\<rparr>"
  using taps_land_inside [where node = "zero_attrs\<lparr>ue_Bounds := \<lparr>Left = 10, Top = 20, Right = 110, Bottom = 70\<rparr>\<rparr>" and drv = ex_dead_device
      and ctx = Background and w = ex_world and width = 1080 and height = 1920 and targetX = None and targetY = None]
  by (simp add: ex_dead_device_def Let_def)

text \<open>A device that shows the same screen at all times.\<close>

definition ex_device :: "unit Driver" where
  "ex_device = ex_dead_device\<lparr>dr_DumpUI := (\<lambda>_ _ d. (Inr ''rows'', d, 1))\<rparr>"

definition ex_assert :: AssertParams where
  "ex_assert = (contains_assert '''')\<lparr>ap_Target := Some (ex_tree, [0, 0]), ap_Condition := ''hidden''\<rparr>"

theorem hidden_assert_never_recovers_witness:
  "\<exists>e w'. handleAssert ex_lib ex_device Background ex_assert ex_world = Some (Return (Some e, w'))"
proof -
  have "(ex_tree, [0, 0]) \<in> set (FlattenTree (ex_tree, []))" using ex_tree_paths(1) by (simp add: mem_FlattenTree_root)
  then obtain r where "ResolveElement ex_ui (Some (ex_tree, [])) (Some (ex_tree, [0, 0])) None = Inr r"
    using resolve_head [of ex_ui "(ex_tree, [0, 0])" "(ex_tree, [])" "(ex_tree, [0, 0])" None] MatchScore_self [of "(ex_tree, [0, 0])"] ex_ui_ok
    by (auto simp: ui_lib_ok_def)
  then have "\<exists>node. resolve_in ex_lib (w_docs ex_world) ''rows'' (ex_tree, [0, 0]) None = Inr node"
    using ex_tree_parsed by (cases r) (simp add: resolve_in_def ex_lib_def ex_world_def)
  then obtain node where "resolve_in ex_lib (w_docs ex_world) ''rows'' (ex_tree, [0, 0]) None = Inr node" by blast
  from hidden_assert_never_recovers [OF _ _ _ this, of ex_assert ex_device Background] show ?thesis
    by (simp add: ex_assert_def ex_device_def)
qed


end
