(* ===== verification/Provider_Server.thy ===== *)
theory Provider_Server
  imports Supervisor Device_Control Android_Driver Runner_Properties
begin

text \<open>
  \<^verbatim>\<open>src/internal/grpc/server.go\<close>: the gRPC service of a provider, over its supervisor, its registry, the agents
  and WebDriverAgent clients the supervisor hands out, and the devices behind them.  A gRPC error is its code
  with the message.  A handler that blocks for ever is \<^term>\<open>None\<close>; a panic of a handler ends the process.
\<close>

section \<open>The server\<close>

record 's Server =
  srv_sup :: Supervisor
  srv_reg :: Registry
  srv_agents :: "string \<Rightarrow> Agent"
  srv_clients :: "string \<Rightarrow> Client"
  srv_dev :: 's

datatype grpc_error = InvalidArgument string | NotFound string | FailedPrecondition string | StreamError string

definition sup_error_string :: "(stream_error \<Rightarrow> string) \<Rightarrow> sup_error \<Rightarrow> string" where
  "sup_error_string stream e =
     (case e of
        NotIdle serial st \<Rightarrow> ''device '' @ serial @ '' is not idle (current state: '' @ DeviceState_String st @ '')''
      | StartCaptureFailed f \<Rightarrow> ''device supervisor: start capture failed: '' @ stream f
      | NotClaimed serial st \<Rightarrow> ''device '' @ serial @ '' must be claimed before activating (current: '' @ DeviceState_String st @ '')''
      | NoSupervisor serial \<Rightarrow> ''supervisor: no supervisor for device '' @ serial)"

section \<open>ListDevices, ClaimDevice and ReleaseDevice\<close>

record DeviceProto =
  dp_Serial :: string
  dp_Model :: string
  dp_Manufacturer :: string
  dp_AndroidVersion :: string
  dp_SdkVersion :: "32 word"
  dp_CpuAbi :: string
  dp_RamMb :: int
  dp_StorageMb :: int
  dp_Status :: string
  dp_Port :: "32 word"
  dp_BatteryLevel :: "32 word"
  dp_IpAddress :: string
  dp_ConnectedAt :: instant

definition device_proto :: "Supervisor \<Rightarrow> Device \<Rightarrow> DeviceProto" where
  "device_proto sv d =
     \<lparr>dp_Serial = dev_Serial d, dp_Model = info_Model (dev_Info d), dp_Manufacturer = info_Manufacturer (dev_Info d),
      dp_AndroidVersion = info_AndroidVersion (dev_Info d), dp_SdkVersion = word_of_int (info_SDKVersion (dev_Info d)),
      dp_CpuAbi = info_CPUABI (dev_Info d), dp_RamMb = info_RAMMB (dev_Info d), dp_StorageMb = info_StorageMB (dev_Info d),
      dp_Status = DeviceState_String (case StateOf sv (dev_Serial d) of Inl _ \<Rightarrow> StateIdle | Inr st \<Rightarrow> st),
      dp_Port = word_of_int (case PortOf sv (dev_Serial d) of Inl _ \<Rightarrow> 0 | Inr p \<Rightarrow> p),
      dp_BatteryLevel = word_of_int (bat_Level (tel_Battery (dev_State d))), dp_IpAddress = net_IP (tel_Network (dev_State d)),
      dp_ConnectedAt = dev_ConnectedAt d\<rparr>"

text \<open>The registry is ranged over in any order, so the answer is a set.\<close>

definition ListDevices :: "'s Server \<Rightarrow> DeviceProto set" where
  "ListDevices S = device_proto (srv_sup S) ` List_devices (srv_reg S)"

record ClaimResponse =
  clr_Success :: bool
  clr_SessionId :: string
  clr_Port :: "32 word"
  clr_Message :: string

definition ClaimDevice :: "(stream_error \<Rightarrow> string) \<Rightarrow> os_results \<Rightarrow> string \<Rightarrow> string \<Rightarrow> 's Server \<Rightarrow> (grpc_error + ClaimResponse) \<times> 's Server" where
  "ClaimDevice stream os newID serial S =
     (if serial = '''' then (Inl (InvalidArgument ''serial is required''), S)
      else (case Supervisor_Claim os (srv_reg S) newID (srv_sup S) serial of
              (Inl e, sv) \<Rightarrow>
                (Inr \<lparr>clr_Success = False, clr_SessionId = '''', clr_Port = 0, clr_Message = sup_error_string stream e\<rparr>, S\<lparr>srv_sup := sv\<rparr>)
            | (Inr session, sv) \<Rightarrow>
                (Inr \<lparr>clr_Success = True, clr_SessionId = session,
                      clr_Port = word_of_int (case PortOf sv serial of Inl _ \<Rightarrow> 0 | Inr p \<Rightarrow> p),
                      clr_Message = ''Device claimed successfully''\<rparr>, S\<lparr>srv_sup := sv\<rparr>)))"

definition ReleaseDevice :: "(stream_error \<Rightarrow> string) \<Rightarrow> os_results \<Rightarrow> string \<Rightarrow> 's Server \<Rightarrow>
    ((grpc_error + bool \<times> string) \<times> 's Server) option" where
  "ReleaseDevice stream os serial S =
     (if serial = '''' then Some (Inl (InvalidArgument ''serial is required''), S)
      else (case Supervisor_Release os (srv_sup S) serial of
              None \<Rightarrow> None
            | Some (Some e, sv) \<Rightarrow> Some (Inr (False, sup_error_string stream e), S\<lparr>srv_sup := sv\<rparr>)
            | Some (None, sv) \<Rightarrow> Some (Inr (True, ''Device released successfully''), S\<lparr>srv_sup := sv\<rparr>)))"

section \<open>ControlDevice\<close>

record 's control_lib =
  cl_shell :: "'s adb_shell"
  cl_goios :: "'s goios_run"
  cl_wda :: "'s wda_server"
  cl_json :: wda_lib
  cl_stream :: "stream_error \<Rightarrow> string"

record ControlRequest =
  cq_Serial :: string
  cq_Event :: control_event

text \<open>What a stream yields: a request at some instant, with the outcome of sending its response, or an error.\<close>

datatype recv = Msg instant ControlRequest "string option" | RecvFails string

definition wda_client_of :: "(stream_error \<Rightarrow> string) \<Rightarrow> 's Server \<Rightarrow> string \<Rightarrow> (string + unit) \<times> Client option" where
  "wda_client_of stream S serial =
     (case WDAClient (srv_sup S) serial of
        Inl e \<Rightarrow> (Inl (sup_error_string stream e), None)
      | Inr None \<Rightarrow> (Inr (), None)
      | Inr (Some _) \<Rightarrow> (Inr (), Some (srv_clients S serial)))"

definition put_client :: "string \<Rightarrow> Client option \<Rightarrow> 's \<Rightarrow> 's Server \<Rightarrow> 's Server" where
  "put_client serial c s S =
     (case c of
        None \<Rightarrow> S\<lparr>srv_dev := s\<rparr>
      | Some c \<Rightarrow> S\<lparr>srv_clients := (srv_clients S)(serial := c), srv_dev := s\<rparr>)"

definition control_step :: "'s control_lib \<Rightarrow> instant \<Rightarrow> string \<Rightarrow> control_event \<Rightarrow> Gesture \<Rightarrow> 's Server \<Rightarrow>
    ((grpc_error + ControlResponse option) \<times> Gesture \<times> 's Server) outcome option" where
  "control_step lib now serial event g S =
     (case Get (srv_reg S) serial of
        Inl _ \<Rightarrow> Some (Return (Inl (NotFound (''device '' @ serial @ '' not found in registry'')), g, S))
      | Inr device \<Rightarrow>
          if strings_EqualFold (dev_Platform device) ''ios'' then
            (case wda_client_of (cl_stream lib) S serial of
               (have_client, client) \<Rightarrow>
                 (case handleIOSControl (cl_json lib) (cl_goios lib) (cl_wda lib) now have_client serial event g client (srv_dev S) of
                    (None, c, s) \<Rightarrow> None
                  | (Some Panic, c, s) \<Rightarrow> Some Panic
                  | (Some (Return (Inl e, g)), c, s) \<Rightarrow> Some (Return (Inl (FailedPrecondition e), g, put_client serial c s S))
                  | (Some (Return (Inr r, g)), c, s) \<Rightarrow> Some (Return (Inr r, g, put_client serial c s S))))
          else
            (case handleAndroidControl (cl_shell lib) now (map_option (\<lambda>_. srv_agents S serial) (Supervisor.Agent (srv_sup S) serial))
                serial event g (srv_dev S) of
               (Inl e, g, s) \<Rightarrow> Some (Return (Inl (FailedPrecondition e), g, S\<lparr>srv_dev := s\<rparr>))
             | (Inr r, g, s) \<Rightarrow> Some (Return (Inr r, g, S\<lparr>srv_dev := s\<rparr>))))"

text \<open>The end of the list is the end of the stream.\<close>

fun ControlDevice :: "'s control_lib \<Rightarrow> recv list \<Rightarrow> string \<Rightarrow> Gesture \<Rightarrow> 's Server \<Rightarrow> ControlResponse list \<Rightarrow>
    (grpc_error option \<times> ControlResponse list \<times> 's Server) outcome option" where
  "ControlDevice lib [] active g S sent = Some (Return (None, sent, S))"
| "ControlDevice lib (RecvFails e # rs) active g S sent = Some (Return (Some (StreamError e), sent, S))"
| "ControlDevice lib (Msg now req sendErr # rs) active g S sent =
     (let serial = (if cq_Serial req = '''' then active else cq_Serial req) in
      if serial = '''' then Some (Return (Some (InvalidArgument ''device serial not specified''), sent, S))
      else (case control_step lib now serial (cq_Event req) g S of
              None \<Rightarrow> None
            | Some Panic \<Rightarrow> Some Panic
            | Some (Return (Inl e, g, S)) \<Rightarrow> Some (Return (Some e, sent, S))
            | Some (Return (Inr None, g, S)) \<Rightarrow> ControlDevice lib rs serial g S sent
            | Some (Return (Inr (Some r), g, S)) \<Rightarrow>
                (case sendErr of
                   Some e \<Rightarrow> Some (Return (Some (StreamError e), sent, S))
                 | None \<Rightarrow> ControlDevice lib rs serial g S (sent @ [r]))))"

section \<open>ExecuteScript\<close>

text \<open>
  \<^verbatim>\<open>ParseScript\<close> and \<^verbatim>\<open>json.Marshal\<close> are functions; \<open>android\<close> and \<open>ios\<close> make the driver for a serial with the agent it
  has, and for the port of a WebDriverAgent client.
\<close>

record 'd script_lib =
  sl_parse :: "string \<Rightarrow> string + Script"
  sl_marshal :: "Report \<Rightarrow> string + string"
  sl_run :: run_lib
  sl_android :: "string \<Rightarrow> int option \<Rightarrow> 'd Driver"
  sl_ios :: "int \<Rightarrow> 'd Driver"
  sl_stream :: "stream_error \<Rightarrow> string"

record ExecuteResponse =
  er_Success :: bool
  er_ReportJson :: string
  er_Error :: string

definition failed_run :: "string \<Rightarrow> grpc_error + ExecuteResponse" where
  "failed_run e = Inr \<lparr>er_Success = False, er_ReportJson = '''', er_Error = e\<rparr>"

definition script_driver :: "'d script_lib \<Rightarrow> 's Server \<Rightarrow> string \<Rightarrow> Device \<Rightarrow> string + 'd Driver" where
  "script_driver lib S serial device =
     (if strings_EqualFold (dev_Platform device) ''ios'' then
        (case WDAClient (srv_sup S) serial of
           Inr (Some port) \<Rightarrow> Inr (sl_ios lib port)
         | _ \<Rightarrow>
             (case PortOf (srv_sup S) serial of
                Inl e \<Rightarrow> Inl (''failed to get port for iOS device: '' @ sup_error_string (sl_stream lib) e)
              | Inr port \<Rightarrow> Inr (sl_ios lib (port + 3000))))
      else Inr (sl_android lib serial (Supervisor.Agent (srv_sup S) serial)))"

definition ExecuteScript :: "'d script_lib \<Rightarrow> Context \<Rightarrow> string \<Rightarrow> string \<Rightarrow> 's Server \<Rightarrow> (grpc_error + ExecuteResponse, 'd) run" where
  "ExecuteScript lib ctx serial yaml S =
     (if serial = '''' then ret (Inl (InvalidArgument ''serial is required''))
      else if yaml = '''' then ret (Inl (InvalidArgument ''script_yaml is required''))
      else (case sl_parse lib yaml of
              Inl e \<Rightarrow> ret (failed_run (''parse script: '' @ e))
            | Inr script \<Rightarrow>
                (case Get (srv_reg S) serial of
                   Inl _ \<Rightarrow> ret (failed_run (''device not found in registry: registry: device not found (serial='' @ serial @ '')''))
                 | Inr device \<Rightarrow>
                     (case script_driver lib S serial device of
                        Inl e \<Rightarrow> ret (failed_run e)
                      | Inr driver \<Rightarrow>
                          andThen (Run (sl_run lib) driver ctx script) (\<lambda>report.
                            case sl_marshal lib report of
                              Inl e \<Rightarrow> ret (failed_run (''marshal report: '' @ e))
                            | Inr js \<Rightarrow> ret (Inr \<lparr>er_Success = rep_Success report, er_ReportJson = js, er_Error = ''''\<rparr>))))))"

section \<open>Gestures\<close>

text \<open>
  A drag on an Android device does not start where the finger went down: of a finger that goes down, moves
  and goes up, the device executes a tap at the last point, if the finger was fast and its last movement short,
  and else a swipe that begins at the last point before it went up.  The first point takes no part in it.
\<close>

theorem drag_start_is_lost:
  assumes serial: "serial \<noteq> ''''" and device: "Get (srv_reg S) serial = Inr device" "\<not> strings_EqualFold (dev_Platform device) ''ios''"
    and agent: "Supervisor.Agent (srv_sup S) serial = Some port"
  shows "ControlDevice lib
      [Msg t0 \<lparr>cq_Serial = serial, cq_Event = TouchEvent TouchDown x0 y0\<rparr> None,
       Msg t1 \<lparr>cq_Serial = '''', cq_Event = TouchEvent TouchMove x1 y1\<rparr> None,
       Msg t2 \<lparr>cq_Serial = '''', cq_Event = TouchEvent TouchUp x2 y2\<rparr> None] '''' new_gesture S [] =
    (let ms = (t2 - t0) div 1000000;
         line = (if ms < 250 \<and> abs32 (x1 - x2) <s 10 \<and> abs32 (y1 - y2) <s 10 then tap_line x2 y2
                 else swipe_line x1 y1 x2 y2 (if ms = 0 then 100 else ms))
     in case Shell (cl_shell lib) line (srv_agents S serial) (srv_dev S) of
          (r, s) \<Rightarrow> Some (Return (None, [accepted, accepted, shell_response r], S\<lparr>srv_dev := s\<rparr>)))"
  using assms
  by (simp add: control_step_def handleAndroidControl_def is_tap_def since_ms_def Let_def split: prod.splits)

definition ex_prov_server :: "string list Server" where
  "ex_prov_server =
     \<lparr>srv_sup = \<lparr>sup_providerID = ''p1'',
        sup_devices = [''emulator-5554'' \<mapsto> (newDeviceSupervisor ex_agent_device ''p1'')\<lparr>ds_port := 7400, ds_agt := Some 10400, ds_phase := Serving\<rparr>],
        sup_env = \<lparr>env_ports = \<lparr>pa_minPort = 7400, pa_maxPort = 7700, pa_used = Map.empty, pa_bySerial = Map.empty\<rparr>, env_events = [],
          env_streams = (NewManager, \<lparr>h_forwards = {}, h_procs = {}, h_listen = {}\<rparr>), env_deletes = []\<rparr>\<rparr>,
      srv_reg = \<lparr>reg_devices = [''emulator-5554'' \<mapsto> ex_agent_device]\<rparr>, srv_agents = (\<lambda>_. New_Agent ex_agent_device 10400),
      srv_clients = (\<lambda>_. ex_client), srv_dev = []\<rparr>"

definition ex_control :: "string list control_lib" where
  "ex_control = \<lparr>cl_shell = (\<lambda>serial cmd log. (Inr '''', log @ [cmd])), cl_goios = (\<lambda>_ _ log. (Inr '''', log)),
     cl_wda = (\<lambda>_ _ _ log. (Answer 200 ''{}'' None, log)), cl_json = ex_wda_lib, cl_stream = (\<lambda>_. ''start failed'')\<rparr>"

theorem drag_start_is_lost_witness:
  "ControlDevice ex_control
      [Msg 0 \<lparr>cq_Serial = ''emulator-5554'', cq_Event = TouchEvent TouchDown 100 1500\<rparr> None,
       Msg 100000000 \<lparr>cq_Serial = '''', cq_Event = TouchEvent TouchMove 100 300\<rparr> None,
       Msg 200000000 \<lparr>cq_Serial = '''', cq_Event = TouchEvent TouchUp 100 300\<rparr> None] '''' new_gesture ex_prov_server [] =
    Some (Return (None, [accepted, accepted, accepted], ex_prov_server\<lparr>srv_dev := [tap_line 100 300]\<rparr>))"
proof -
  have "\<not> strings_EqualFold (dev_Platform ex_agent_device) ''ios''"
    by (simp add: ex_agent_device_def strings_EqualFold_def strings_ToLower_def ascii_lower_def)
  with drag_start_is_lost [of "''emulator-5554''" ex_prov_server ex_agent_device 10400 ex_control 0 100 1500 100000000 100 300 200000000 100 300]
  show ?thesis
    by (simp add: ex_prov_server_def ex_control_def Get_def Supervisor.Agent_def newDeviceSupervisor_def abs32_def Shell_def New_Agent_def
        shell_response_def word_sless_alt)
qed

section \<open>iOS devices without a client\<close>

text \<open>A call \<open>works\<close> when from a client whose mutex is free it returns and leaves it free.\<close>

definition works :: "('r, 's) nil_call \<Rightarrow> bool" where
  "works m \<longleftrightarrow> (\<forall>c s. \<not> wc_locked c \<longrightarrow> (\<exists>r c' s'. m (Some c) s = (Some (Return r), Some c', s') \<and> \<not> wc_locked c'))"

named_theorems works_intros

lemma works_nil_ret [works_intros]: "works (nil_ret r)"
  by (simp add: works_def nil_ret_def)

lemma works_on_client [works_intros]: "nonblocking m \<Longrightarrow> works (on_client m)"
proof -
  assume m: "nonblocking m"
  show ?thesis
    unfolding works_def
  proof (intro allI impI)
    fix c :: Client and s
    assume "\<not> wc_locked c"
    with m obtain r c' s' where "m c s = (Some r, c', s')" "\<not> wc_locked c'" unfolding nonblocking_def by blast
    then show "\<exists>r c' s'. on_client m (Some c) s = (Some (Return r), Some c', s') \<and> \<not> wc_locked c'" by (simp add: on_client_def)
  qed
qed

lemma works_nil_bind [works_intros]: "works m \<Longrightarrow> (\<And>r. works (f r)) \<Longrightarrow> works (nil_bind m f)"
proof -
  assume m: "works m" and f: "\<And>r. works (f r)"
  show ?thesis
    unfolding works_def
  proof (intro allI impI)
    fix c :: Client and s
    assume "\<not> wc_locked c"
    with m obtain r c' s' where "m (Some c) s = (Some (Return r), Some c', s')" "\<not> wc_locked c'" unfolding works_def by blast
    with f [of r] show "\<exists>r c' s'. nil_bind m f (Some c) s = (Some (Return r), Some c', s') \<and> \<not> wc_locked c'"
      by (simp add: works_def nil_bind_def)
  qed
qed

lemma works_if [works_intros]: "(b \<Longrightarrow> works m) \<Longrightarrow> (\<not> b \<Longrightarrow> works n) \<Longrightarrow> works (if b then m else n)"
  by simp

lemma works_option [works_intros]: "works m \<Longrightarrow> (\<And>x. works (f x)) \<Longrightarrow> works (case v of None \<Rightarrow> m | Some x \<Rightarrow> f x)"
  by (cases v) simp_all

lemma works_Let [works_intros]: "(\<And>x. works (f x)) \<Longrightarrow> works (Let e f)"
  by simp

lemma works_prod [works_intros]: "(\<And>x y. works (f x y)) \<Longrightarrow> works (case p of (x, y) \<Rightarrow> f x y)"
  by (cases p) simp

lemma works_two [works_intros]:
  "(\<And>x y. works (f x y)) \<Longrightarrow> works m \<Longrightarrow> works (case l of [] \<Rightarrow> m | [x] \<Rightarrow> m | [x, y] \<Rightarrow> f x y | x # y # z # zs \<Rightarrow> m)"
  by (auto split: list.splits)

lemma works_ensured [works_intros]: "sessions_accepted srv \<Longrightarrow> works m \<Longrightarrow> works (ensured lib srv m)"
  unfolding ensured_def using nonblocking_ensureSession [of srv lib]
  by (intro works_intros) (simp_all add: ensureSession_def)

lemmas ios_handlers = touch_up_def key_down_def homescreen_def open_page_def start_intent_def wda_commands

lemma works_touch_up: "sessions_accepted srv \<Longrightarrow> works (touch_up lib srv now g x y)"
  unfolding ios_handlers by (intro works_intros nonblocking_intros)

lemma works_key_down: "sessions_accepted srv \<Longrightarrow> works (key_down lib srv code)"
  unfolding ios_handlers by (intro works_intros nonblocking_intros)

lemma works_start_intent: "works (start_intent srv cmd)"
  unfolding ios_handlers by (intro works_intros nonblocking_intros)

lemma works_ios_shell: "sessions_accepted srv \<Longrightarrow> works (ios_shell lib goios srv serial cmd)"
proof -
  assume srv: "sessions_accepted srv"
  have "works (\<lambda>c s. case goios serial [''reboot''] s of
            (Inl e, s) \<Rightarrow> nil_ret (response False (''reboot failed: '' @ e)) c s
          | (Inr _, s) \<Rightarrow> nil_ret (response True ''Reboot initiated'') c s)"
    by (auto simp: works_def nil_ret_def split: prod.splits sum.splits)
  with srv show ?thesis unfolding ios_shell_def by (intro works_intros works_start_intent)
qed

lemma works_handleIOSControl: "sessions_accepted srv \<Longrightarrow> works (handleIOSControl lib goios srv now (Inr ()) serial event g)"
proof (cases event)
  case (TouchEvent a x y)
  moreover assume "sessions_accepted srv"
  ultimately show ?thesis
    by (cases a) (auto simp: handleIOSControl_def intro!: works_intros works_touch_up)
qed (auto simp: handleIOSControl_def SendKeys_def intro!: works_intros nonblocking_intros works_key_down works_ios_shell)

text \<open>
  Control of an iOS device that has a supervisor: with a client every event is answered, as long as the server
  accepts new sessions and the client is not locked up; without one (the supervisor has not started, found no
  port, or was torn down) the first event that needs it, such as the end of a touch, is a nil dereference,
  which ends the provider.
\<close>

theorem ios_control_needs_client:
  assumes device: "Get (srv_reg S) serial = Inr device" "strings_EqualFold (dev_Platform device) ''ios''"
    and ds: "sup_devices (srv_sup S) serial = Some ds" and srv: "sessions_accepted (cl_wda lib)"
  shows "(ds_wdaClient ds = None \<longrightarrow> control_step lib now serial (TouchEvent TouchUp x y) g S = Some Panic) \<and>
    (ds_wdaClient ds \<noteq> None \<and> \<not> wc_locked (srv_clients S serial) \<longrightarrow>
       (\<exists>r g' S'. control_step lib now serial event g S = Some (Return (r, g', S')) \<and> \<not> wc_locked (srv_clients S' serial)))"
proof (intro conjI impI)
  assume "ds_wdaClient ds = None"
  with device ds show "control_step lib now serial (TouchEvent TouchUp x y) g S = Some Panic"
    by (simp add: control_step_def wda_client_of_def WDAClient_def get_def handleIOSControl_def touch_up_def ensured_def
        nil_bind_def on_client_def)
next
  assume c: "ds_wdaClient ds \<noteq> None \<and> \<not> wc_locked (srv_clients S serial)"
  let ?m = "handleIOSControl (cl_json lib) (cl_goios lib) (cl_wda lib) now (Inr ()) serial event g"
  from works_handleIOSControl [OF srv, of "cl_json lib" "cl_goios lib" now serial event g] c
  obtain r c' s' where m: "?m (Some (srv_clients S serial)) (srv_dev S) = (Some (Return r), Some c', s')" "\<not> wc_locked c'"
    unfolding works_def by blast
  have "wda_client_of (cl_stream lib) S serial = (Inr (), Some (srv_clients S serial))"
    using c ds by (auto simp: wda_client_of_def WDAClient_def get_def)
  moreover obtain v g' where "r = (v, g')" by (rule prod.exhaust)
  ultimately show "\<exists>r g' S'. control_step lib now serial event g S = Some (Return (r, g', S')) \<and> \<not> wc_locked (srv_clients S' serial)"
    using m device by (cases v) (simp_all add: control_step_def put_client_def)
qed

definition ex_iphone :: Device where
  "ex_iphone = ex_agent_device\<lparr>dev_Serial := ''00008110'', dev_Platform := ''iOS''\<rparr>"

definition ex_ios_provider :: "string list Server" where
  "ex_ios_provider = ex_prov_server\<lparr>srv_sup := OnDeviceConnected (srv_sup ex_prov_server) ex_iphone,
     srv_reg := snd (Add (srv_reg ex_prov_server) ex_iphone)\<rparr>"

theorem ios_control_needs_client_witness:
  "control_step ex_control 5 ''00008110'' (TouchEvent TouchUp 10 20) new_gesture ex_ios_provider = Some Panic"
proof -
  have "sessions_accepted (cl_wda ex_control)" by (simp add: ex_control_def sessions_accepted_def session_lost_def)
  moreover have "Get (srv_reg ex_ios_provider) ''00008110'' = Inr ex_iphone"
    by (simp add: ex_ios_provider_def ex_prov_server_def ex_iphone_def ex_agent_device_def Get_def Add_def)
  moreover have "sup_devices (srv_sup ex_ios_provider) ''00008110'' = Some (newDeviceSupervisor ex_iphone ''p1'')"
    by (simp add: ex_ios_provider_def ex_prov_server_def ex_iphone_def ex_agent_device_def OnDeviceConnected_def)
  moreover have "strings_EqualFold ''iOS'' ''ios''" by code_simp
  then have "strings_EqualFold (dev_Platform ex_iphone) ''ios''" by (simp add: ex_iphone_def)
  ultimately show ?thesis
    using ios_control_needs_client [of ex_ios_provider "''00008110''" ex_iphone "newDeviceSupervisor ex_iphone ''p1''" ex_control 5 10 20]
    by (simp add: newDeviceSupervisor_def)
qed

section \<open>What an answer says\<close>

lemma ExecuteScript_run:
  assumes "ExecuteScript lib ctx serial yaml S w = Some (Return (Inr resp, w'))" "er_Success resp \<or> er_ReportJson resp \<noteq> ''''"
  shows "\<exists>script device driver rep. sl_parse lib yaml = Inr script \<and> Get (srv_reg S) serial = Inr device \<and>
    script_driver lib S serial device = Inr driver \<and> Run (sl_run lib) driver ctx script w = Some (Return (rep, w')) \<and>
    sl_marshal lib rep = Inr (er_ReportJson resp) \<and> er_Success resp = rep_Success rep"
proof -
  from assms obtain script where parse: "sl_parse lib yaml = Inr script"
    by (cases "sl_parse lib yaml") (auto simp: ExecuteScript_def ret_def failed_run_def split: if_splits)
  with assms obtain device where device: "Get (srv_reg S) serial = Inr device"
    by (cases "Get (srv_reg S) serial") (auto simp: ExecuteScript_def ret_def failed_run_def split: if_splits)
  with assms parse obtain driver where driver: "script_driver lib S serial device = Inr driver"
    by (cases "script_driver lib S serial device") (auto simp: ExecuteScript_def ret_def failed_run_def split: if_splits)
  with assms parse device obtain rep v where run: "Run (sl_run lib) driver ctx script w = Some (Return (rep, v))"
      "(case sl_marshal lib rep of
          Inl e \<Rightarrow> ret (failed_run (''marshal report: '' @ e))
        | Inr js \<Rightarrow> ret (Inr \<lparr>er_Success = rep_Success rep, er_ReportJson = js, er_Error = ''''\<rparr>)) v = Some (Return (Inr resp, w'))"
    by (auto simp: ExecuteScript_def ret_def andThen_Return split: if_splits)
  from run(2) assms(2) have "v = w'" "sl_marshal lib rep = Inr (er_ReportJson resp)" "er_Success resp = rep_Success rep"
    by (auto simp: ret_def failed_run_def split: sum.splits)
  with parse device driver run(1) show ?thesis by auto
qed

text \<open>
  C11. The answer to \<^verbatim>\<open>ExecuteScript\<close> says success exactly when the script was parsed, the device is known, a driver
  for it was made, its run came to an end and every step of the script passed; the report in the answer is
  then that of this run.
\<close>

theorem execute_script_success:
  assumes "ExecuteScript lib ctx serial yaml S w = Some (Return (Inr resp, w'))"
  shows "er_Success resp \<longleftrightarrow>
    (\<exists>script device driver rep. sl_parse lib yaml = Inr script \<and> Get (srv_reg S) serial = Inr device \<and>
      script_driver lib S serial device = Inr driver \<and> Run (sl_run lib) driver ctx script w = Some (Return (rep, w')) \<and>
      sl_marshal lib rep = Inr (er_ReportJson resp) \<and> rep_PassedSteps rep = int (length (scr_Steps script)) \<and>
      length (rep_Results rep) = length (scr_Steps script) \<and> list_all str_Success (rep_Results rep))"
proof
  assume "er_Success resp"
  with ExecuteScript_run [OF assms] obtain script device driver rep where
    r: "sl_parse lib yaml = Inr script" "Get (srv_reg S) serial = Inr device" "script_driver lib S serial device = Inr driver"
      "Run (sl_run lib) driver ctx script w = Some (Return (rep, w'))" "sl_marshal lib rep = Inr (er_ReportJson resp)" "rep_Success rep"
    by blast
  note facts = Run_report [OF r(4)]
  then have n: "length (filter str_Success (rep_Results rep)) = length (scr_Steps script)" using r(6) by simp
  then have "length (rep_Results rep) = length (scr_Steps script)" using facts length_filter_le [of str_Success "rep_Results rep"] by linarith
  moreover from this n have "list_all str_Success (rep_Results rep)" by (metis list_all_iff length_filter_less nat_neq_iff)
  ultimately show "\<exists>script device driver rep. sl_parse lib yaml = Inr script \<and> Get (srv_reg S) serial = Inr device \<and>
      script_driver lib S serial device = Inr driver \<and> Run (sl_run lib) driver ctx script w = Some (Return (rep, w')) \<and>
      sl_marshal lib rep = Inr (er_ReportJson resp) \<and> rep_PassedSteps rep = int (length (scr_Steps script)) \<and>
      length (rep_Results rep) = length (scr_Steps script) \<and> list_all str_Success (rep_Results rep)"
    using r facts by auto
next
  assume "\<exists>script device driver rep. sl_parse lib yaml = Inr script \<and> Get (srv_reg S) serial = Inr device \<and>
      script_driver lib S serial device = Inr driver \<and> Run (sl_run lib) driver ctx script w = Some (Return (rep, w')) \<and>
      sl_marshal lib rep = Inr (er_ReportJson resp) \<and> rep_PassedSteps rep = int (length (scr_Steps script)) \<and>
      length (rep_Results rep) = length (scr_Steps script) \<and> list_all str_Success (rep_Results rep)"
  then obtain script device driver rep where
    r: "sl_parse lib yaml = Inr script" "Get (srv_reg S) serial = Inr device" "script_driver lib S serial device = Inr driver"
      "Run (sl_run lib) driver ctx script w = Some (Return (rep, w'))" "sl_marshal lib rep = Inr (er_ReportJson resp)"
      "rep_PassedSteps rep = int (length (scr_Steps script))" by blast
  then have "rep_Success rep" using Run_report [OF r(4)] by simp
  with assms r have "resp = \<lparr>er_Success = True, er_ReportJson = er_ReportJson resp, er_Error = ''''\<rparr>"
    by (auto simp: ExecuteScript_def andThen_def ret_def failed_run_def split: if_splits)
  then show "er_Success resp" by (metis ExecuteResponse.select_convs(1))
qed

definition ex_scripts :: "unit script_lib" where
  "ex_scripts = \<lparr>sl_parse = (\<lambda>yaml. if yaml = ''bad'' then Inl ''bad'' else Inr \<lparr>scr_Variables = Map.empty, scr_Steps = []\<rparr>),
     sl_marshal = (\<lambda>_. Inr ''{}''), sl_run = ex_lib, sl_android = (\<lambda>_ _. ex_dead_device), sl_ios = (\<lambda>_. ex_dead_device),
     sl_stream = (\<lambda>_. ''start failed'')\<rparr>"

theorem execute_script_success_witness:
  "\<exists>resp w'. ExecuteScript ex_scripts Background ''emulator-5554'' ''steps: []'' ex_prov_server ex_world = Some (Return (Inr resp, w')) \<and>
     er_Success resp \<and>
     (\<exists>script (rep :: Report). sl_parse ex_scripts ''steps: []'' = Inr script \<and> rep_PassedSteps rep = int (length (scr_Steps script)))"
proof -
  have "\<not> strings_EqualFold (dev_Platform ex_agent_device) ''ios''"
    by (simp add: ex_agent_device_def strings_EqualFold_def strings_ToLower_def ascii_lower_def)
  then obtain resp w' where run: "ExecuteScript ex_scripts Background ''emulator-5554'' ''steps: []'' ex_prov_server ex_world =
      Some (Return (Inr resp, w'))" "er_Success resp"
    by (simp add: ExecuteScript_def ex_scripts_def ex_prov_server_def Get_def script_driver_def Run_def run_steps.simps andThen_def Now_def
        ex_world_def terminate_all.simps ex_lib_def ret_def)
  from iffD1 [OF execute_script_success [OF run(1)] run(2)] obtain script and rep :: Report where
    "sl_parse ex_scripts ''steps: []'' = Inr script \<and> rep_PassedSteps rep = int (length (scr_Steps script))" by auto
  with run show ?thesis by blast
qed

end
