(* ===== verification/Database.thy ===== *)
theory Database
  imports Domain "HOL-Library.List_Lexorder" "HOL-Library.Char_ord"
begin

text \<open>
  \<^verbatim>\<open>src/internal/db/db.go\<close>: the coordinator's PostgreSQL tables and every operation on them.

  \<^item> A table is the list of its rows.  The primary keys, the \<^verbatim>\<open>UNIQUE\<close> columns and the foreign keys
    of \<^verbatim>\<open>migrate\<close> are checked by the statements, which fail with the constraint's error and then leave
    the tables alone, and \<^verbatim>\<open>ON DELETE CASCADE\<close> is written out.
  \<^item> Any statement may fail for a reason outside the model (a lost connection, a malformed \<^verbatim>\<open>UUID\<close> or
    \<^verbatim>\<open>JSON\<close> literal, a value out of the column's range).  The list \<^verbatim>\<open>db_faults\<close> says which of the
    coming statements do; a failing statement has no effect.
  \<^item> \<^verbatim>\<open>NOW()\<close> is \<^verbatim>\<open>db_now\<close>.  A transaction runs alone: its row lock is held to its end.
  \<^item> Columns that no code writes (\<^verbatim>\<open>group_id\<close> and \<^verbatim>\<open>created_by\<close> of scripts, \<^verbatim>\<open>user_id\<close> of sessions) are
    left out.  Text is ordered by its bytes.
\<close>

section \<open>Rows and tables\<close>

record Provider_row =
  pr_ip :: string
  pr_name :: string
  pr_host :: string
  pr_min_port :: int
  pr_max_port :: int
  pr_version :: string
  pr_updated_at :: instant

record Device_row =
  dr_serial :: string
  dr_provider_ip :: string
  dr_model :: string
  dr_manufacturer :: string
  dr_sdk :: int
  dr_abi :: string
  dr_ram_mb :: int
  dr_storage_mb :: int
  dr_display_width :: int
  dr_display_height :: int
  dr_display_dpi :: int
  dr_battery :: int
  dr_wifi_ssid :: string
  dr_ip :: string
  dr_status :: string
  dr_stream_port :: int
  dr_connected_at :: instant
  dr_updated_at :: instant
  dr_file_system :: "string option"
  dr_installed_browsers :: "string option"
  dr_platform :: string
  dr_os_version :: string

record Session_row =
  sr_id :: string
  sr_serial :: string
  sr_claimed_by :: string
  sr_claimed_at :: instant
  sr_released_at :: "instant option"
  sr_status :: string

record ScriptDB =
  sc_ID :: string
  sc_Name :: string
  sc_Content :: string
  sc_CreatedAt :: instant

record ReportDB =
  rp_ID :: string
  rp_ScriptID :: string
  rp_Serial :: string
  rp_Success :: bool
  rp_StartTime :: instant
  rp_EndTime :: instant
  rp_Results :: string

record Tables =
  t_providers :: "Provider_row list"
  t_devices :: "Device_row list"
  t_sessions :: "Session_row list"
  t_scripts :: "ScriptDB list"
  t_reports :: "ReportDB list"
  t_users :: "User list"
  t_groups :: "Group list"
  t_user_groups :: "(string \<times> string) list"
  t_device_groups :: "(string \<times> string) list"
  t_api_keys :: "ApiKey list"

definition empty_tables :: Tables where
  "empty_tables = \<lparr>t_providers = [], t_devices = [], t_sessions = [], t_scripts = [], t_reports = [],
     t_users = [], t_groups = [], t_user_groups = [], t_device_groups = [], t_api_keys = []\<rparr>"

record DB =
  db_tables :: Tables
  db_faults :: "bool list"
  db_now :: instant

datatype sql_error =
    ErrNoRows
  | UniqueViolation
  | ForeignKeyViolation
  | StatementFailed
  | DeviceCheck sql_error
  | DeviceAlreadyClaimed
  | HashFailed
  | CheckUsersCount sql_error
  | SeedAdminFailed sql_error

section \<open>Statements\<close>

definition next_fault :: "DB \<Rightarrow> bool \<times> DB" where
  "next_fault d = (case db_faults d of [] \<Rightarrow> (False, d) | f # fs \<Rightarrow> (f, d\<lparr>db_faults := fs\<rparr>))"

definition exec :: "(Tables \<Rightarrow> sql_error + Tables) \<Rightarrow> DB \<Rightarrow> sql_error option \<times> DB" where
  "exec q d =
     (case next_fault d of (f, d) \<Rightarrow>
        if f then (Some StatementFailed, d)
        else (case q (db_tables d) of Inl e \<Rightarrow> (Some e, d) | Inr t \<Rightarrow> (None, d\<lparr>db_tables := t\<rparr>)))"

definition query :: "(Tables \<Rightarrow> sql_error + 'a) \<Rightarrow> DB \<Rightarrow> (sql_error + 'a) \<times> DB" where
  "query q d = (case next_fault d of (f, d) \<Rightarrow> (if f then Inl StatementFailed else q (db_tables d), d))"

text \<open>\<^verbatim>\<open>INSERT INTO\<close> a table of pairs, \<^verbatim>\<open>ON CONFLICT DO NOTHING\<close>.\<close>

fun insert_pairs :: "('a \<times> 'b) list \<Rightarrow> ('a \<times> 'b) list \<Rightarrow> ('a \<times> 'b) list" where
  "insert_pairs [] tbl = tbl"
| "insert_pairs (p # ps) tbl = insert_pairs ps (if p \<in> set tbl then tbl else tbl @ [p])"

definition update_where :: "('r \<Rightarrow> bool) \<Rightarrow> ('r \<Rightarrow> 'r) \<Rightarrow> 'r list \<Rightarrow> 'r list" where
  "update_where P f tbl = map (\<lambda>r. if P r then f r else r) tbl"

definition row_with :: "('r \<Rightarrow> 'k) \<Rightarrow> 'k \<Rightarrow> 'r list \<Rightarrow> sql_error + 'r" where
  "row_with key k tbl = (case find (\<lambda>r. key r = k) tbl of None \<Rightarrow> Inl ErrNoRows | Some r \<Rightarrow> Inr r)"

definition has_user :: "Tables \<Rightarrow> string \<Rightarrow> bool" where
  "has_user t u \<longleftrightarrow> u \<in> set (map user_ID (t_users t))"

definition has_group :: "Tables \<Rightarrow> string \<Rightarrow> bool" where
  "has_group t g \<longleftrightarrow> g \<in> set (map group_ID (t_groups t))"

definition has_device :: "Tables \<Rightarrow> string \<Rightarrow> bool" where
  "has_device t s \<longleftrightarrow> s \<in> set (map dr_serial (t_devices t))"

definition insert_user_groups :: "(string \<times> string) list \<Rightarrow> Tables \<Rightarrow> sql_error + Tables" where
  "insert_user_groups ps t =
     (if \<forall>(u, g) \<in> set ps. has_user t u \<and> has_group t g
      then Inr (t\<lparr>t_user_groups := insert_pairs ps (t_user_groups t)\<rparr>) else Inl ForeignKeyViolation)"

definition insert_device_groups :: "(string \<times> string) list \<Rightarrow> Tables \<Rightarrow> sql_error + Tables" where
  "insert_device_groups ps t =
     (if \<forall>(s, g) \<in> set ps. has_device t s \<and> has_group t g
      then Inr (t\<lparr>t_device_groups := insert_pairs ps (t_device_groups t)\<rparr>) else Inl ForeignKeyViolation)"

text \<open>\<^verbatim>\<open>INSERT INTO groups ... ON CONFLICT (name) DO NOTHING\<close>: a clash on the primary key is still an error.\<close>

definition insert_group :: "Group \<Rightarrow> Tables \<Rightarrow> sql_error + Tables" where
  "insert_group g t =
     (if group_Name g \<in> set (map group_Name (t_groups t)) then Inr t
      else if has_group t (group_ID g) then Inl UniqueViolation
      else Inr (t\<lparr>t_groups := t_groups t @ [g]\<rparr>))"

definition select_public_group :: "Tables \<Rightarrow> sql_error + string" where
  "select_public_group t = (case row_with group_Name ''Public'' (t_groups t) of Inl e \<Rightarrow> Inl e | Inr g \<Rightarrow> Inr (group_ID g))"

definition update_device :: "string \<Rightarrow> (Device_row \<Rightarrow> Device_row) \<Rightarrow> Tables \<Rightarrow> sql_error + Tables" where
  "update_device serial f t = Inr (t\<lparr>t_devices := update_where (\<lambda>r. dr_serial r = serial) f (t_devices t)\<rparr>)"

section \<open>OpenDB and migrate\<close>

definition public_group :: "string \<Rightarrow> string \<Rightarrow> instant \<Rightarrow> Group" where
  "public_group gid desc now =
     \<lparr>group_ID = gid, group_Name = ''Public'', group_Description = desc, group_CreatedAt = now, group_ExpiresAt = None\<rparr>"

text \<open>The data statements of \<^verbatim>\<open>migrate\<close>; creating and altering tables leaves the rows alone.\<close>

definition ddl :: "Tables \<Rightarrow> sql_error + Tables" where
  "ddl t = Inr t"

definition set_platforms :: "Tables \<Rightarrow> sql_error + Tables" where
  "set_platforms t =
     Inr (t\<lparr>t_devices := update_where (\<lambda>r. dr_manufacturer r = ''Apple'') (dr_platform_update (\<lambda>_. ''ios'')) (t_devices t)\<rparr>)"

definition all_devices_public :: "Tables \<Rightarrow> sql_error + Tables" where
  "all_devices_public t =
     (case select_public_group t of
        Inl _ \<Rightarrow> if t_devices t = [] then Inr t else Inl StatementFailed
      | Inr g \<Rightarrow> insert_device_groups (map (\<lambda>r. (dr_serial r, g)) (t_devices t)) t)"

definition admins_in_all_groups :: "Tables \<Rightarrow> sql_error + Tables" where
  "admins_in_all_groups t =
     insert_user_groups
       [(user_ID u, group_ID g). u \<leftarrow> t_users t, user_Role u = ''admin'', g \<leftarrow> t_groups t] t"

definition migrations :: "instant \<Rightarrow> (Tables \<Rightarrow> sql_error + Tables) list" where
  "migrations now =
     replicate 9 ddl @ [set_platforms] @ replicate 11 ddl @
     [insert_group (public_group ''00000000-0000-0000-0000-000000000001'' ''Default public group'' now),
      all_devices_public, admins_in_all_groups]"

fun exec_all :: "(Tables \<Rightarrow> sql_error + Tables) list \<Rightarrow> DB \<Rightarrow> sql_error option \<times> DB" where
  "exec_all [] d = (None, d)"
| "exec_all (q # qs) d = (case exec q d of (Some e, d) \<Rightarrow> (Some e, d) | (None, d) \<Rightarrow> exec_all qs d)"

definition insert_new_user :: "User \<Rightarrow> Tables \<Rightarrow> sql_error + Tables" where
  "insert_new_user u t =
     (if has_user t (user_ID u) \<or> user_Email u \<in> set (map user_Email (t_users t)) then Inl UniqueViolation
      else Inr (t\<lparr>t_users := t_users t @ [u]\<rparr>))"

definition seed_user :: "string \<Rightarrow> instant \<Rightarrow> User" where
  "seed_user hash now =
     \<lparr>user_ID = ''00000000-0000-0000-0000-000000000000'', user_Email = ''admin@domain.com'', user_PasswordHash = hash,
      user_Role = ''admin'', user_AuthProvider = ''local'', user_CreatedAt = now, user_UpdatedAt = now\<rparr>"

definition seed_admin :: "(string \<Rightarrow> string option) \<Rightarrow> DB \<Rightarrow> sql_error option \<times> DB" where
  "seed_admin bcrypt_hash d =
     (case bcrypt_hash ''Welcome@2026'' of
        None \<Rightarrow> (Some HashFailed, d)
      | Some hash \<Rightarrow>
          (case exec (insert_new_user (seed_user hash (db_now d))) d of
             (Some e, d) \<Rightarrow> (Some (SeedAdminFailed e), d)
           | (None, d) \<Rightarrow>
               let d = snd (exec (insert_group (public_group ''11111111-1111-1111-1111-111111111111'' ''Default Public Group'' (db_now d))) d)
               in (case query select_public_group d of
                     (Inl _, d) \<Rightarrow> (None, d)
                   | (Inr g, d) \<Rightarrow>
                       (None, snd (exec (insert_user_groups [(''00000000-0000-0000-0000-000000000000'', g)]) d)))))"

definition migrate :: "(string \<Rightarrow> string option) \<Rightarrow> DB \<Rightarrow> sql_error option \<times> DB" where
  "migrate bcrypt_hash d =
     (case exec_all (migrations (db_now d)) d of
        (Some e, d) \<Rightarrow> (Some e, d)
      | (None, d) \<Rightarrow>
          (case query (\<lambda>t. Inr (length (t_users t))) d of
             (Inl e, d) \<Rightarrow> (Some (CheckUsersCount e), d)
           | (Inr count, d) \<Rightarrow> if count = 0 then seed_admin bcrypt_hash d else (None, d)))"

section \<open>Providers and devices\<close>

definition upsert_provider :: "Provider_row \<Rightarrow> Tables \<Rightarrow> sql_error + Tables" where
  "upsert_provider p t =
     Inr (t\<lparr>t_providers := (if pr_ip p \<in> set (map pr_ip (t_providers t))
        then update_where (\<lambda>r. pr_ip r = pr_ip p) (\<lambda>_. p) (t_providers t) else t_providers t @ [p])\<rparr>)"

definition RegisterProvider :: "DB \<Rightarrow> string \<Rightarrow> string \<Rightarrow> string \<Rightarrow> int \<Rightarrow> int \<Rightarrow> string \<Rightarrow> sql_error option \<times> DB" where
  "RegisterProvider d ip name host minPort maxPort version =
     exec (upsert_provider \<lparr>pr_ip = ip, pr_name = name, pr_host = host, pr_min_port = minPort, pr_max_port = maxPort,
       pr_version = version, pr_updated_at = db_now d\<rparr>) d"

definition wake :: "string \<Rightarrow> string" where
  "wake status = (if status = ''offline'' then ''idle'' else status)"

text \<open>The columns that the conflict clause of the device upsert does not name keep their value.\<close>

definition upsert_device :: "Device_row \<Rightarrow> Tables \<Rightarrow> sql_error + Tables" where
  "upsert_device new t =
     (if dr_provider_ip new \<notin> set (map pr_ip (t_providers t)) then Inl ForeignKeyViolation
      else Inr (t\<lparr>t_devices := (if has_device t (dr_serial new)
        then update_where (\<lambda>r. dr_serial r = dr_serial new)
          (\<lambda>r. new\<lparr>dr_status := wake (dr_status r), dr_stream_port := dr_stream_port r,
                    dr_file_system := dr_file_system r, dr_installed_browsers := dr_installed_browsers r\<rparr>) (t_devices t)
        else t_devices t @ [new])\<rparr>))"

definition ensure_public_group :: "string \<Rightarrow> DB \<Rightarrow> (sql_error + string) \<times> DB" where
  "ensure_public_group newID d =
     (case query select_public_group d of
        (Inr g, d) \<Rightarrow> (Inr g, d)
      | (Inl ErrNoRows, d) \<Rightarrow>
          (case exec (insert_group (public_group newID ''Default public group'' (db_now d))) d of
             (None, d) \<Rightarrow> (Inr newID, d)
           | (Some _, d) \<Rightarrow>
               (case query select_public_group d of (Inr g, d) \<Rightarrow> (Inr g, d) | (Inl _, d) \<Rightarrow> (Inr newID, d)))
      | (Inl e, d) \<Rightarrow> (Inl e, d))"

definition RegisterDevice ::
  "string \<Rightarrow> DB \<Rightarrow> string \<Rightarrow> string \<Rightarrow> string \<Rightarrow> string \<Rightarrow> string \<Rightarrow> int \<Rightarrow> string \<Rightarrow> int \<Rightarrow> int \<Rightarrow>
   int \<Rightarrow> int \<Rightarrow> int \<Rightarrow> int \<Rightarrow> string \<Rightarrow> string \<Rightarrow> instant \<Rightarrow> sql_error option \<times> DB" where
  "RegisterDevice newID d providerIP serial model manufacturer android sdk abi ram storage width height dpi battery wifi ip connectedAt =
     (let platform = (if manufacturer = ''Apple'' \<or> sdk = 0 then ''ios'' else ''android'');
          row = \<lparr>dr_serial = serial, dr_provider_ip = providerIP, dr_model = model, dr_manufacturer = manufacturer, dr_sdk = sdk,
            dr_abi = abi, dr_ram_mb = ram, dr_storage_mb = storage, dr_display_width = width, dr_display_height = height,
            dr_display_dpi = dpi, dr_battery = battery, dr_wifi_ssid = wifi, dr_ip = ip, dr_status = ''idle'',
            dr_stream_port = 0, dr_connected_at = connectedAt, dr_updated_at = db_now d, dr_file_system = None,
            dr_installed_browsers = None, dr_platform = platform, dr_os_version = android\<rparr>
      in (case exec (upsert_device row) d of
            (Some e, d) \<Rightarrow> (Some e, d)
          | (None, d) \<Rightarrow>
              (case ensure_public_group newID d of
                 (Inl e, d) \<Rightarrow> (Some e, d)
               | (Inr g, d) \<Rightarrow> (None, snd (exec (insert_device_groups [(serial, g)]) d)))))"

definition ReleaseDevice :: "DB \<Rightarrow> string \<Rightarrow> sql_error option \<times> DB" where
  "ReleaseDevice d serial =
     exec (update_device serial (\<lambda>r. r\<lparr>dr_status := ''offline'', dr_updated_at := db_now d\<rparr>)) d"

definition UpdateDeviceHeartbeat :: "DB \<Rightarrow> string \<Rightarrow> sql_error option \<times> DB" where
  "UpdateDeviceHeartbeat d serial =
     exec (update_device serial (\<lambda>r. r\<lparr>dr_status := wake (dr_status r), dr_updated_at := db_now d\<rparr>)) d"

definition UpdateDeviceState :: "DB \<Rightarrow> string \<Rightarrow> int \<Rightarrow> string \<Rightarrow> string \<Rightarrow> string \<Rightarrow> sql_error option \<times> DB" where
  "UpdateDeviceState d serial battery wifi fileSystemJSON installedBrowsersJSON =
     exec (update_device serial (\<lambda>r. r\<lparr>dr_battery := battery, dr_wifi_ssid := wifi,
       dr_file_system := (if fileSystemJSON = '''' then dr_file_system r else Some fileSystemJSON),
       dr_installed_browsers := (if installedBrowsersJSON = '''' then dr_installed_browsers r else Some installedBrowsersJSON),
       dr_updated_at := db_now d\<rparr>)) d"

definition UpdateDeviceStreamPort :: "DB \<Rightarrow> string \<Rightarrow> int \<Rightarrow> sql_error option \<times> DB" where
  "UpdateDeviceStreamPort d serial port =
     exec (update_device serial (\<lambda>r. r\<lparr>dr_stream_port := port, dr_updated_at := db_now d\<rparr>)) d"

definition GetDeviceProvider :: "DB \<Rightarrow> string \<Rightarrow> (sql_error + string \<times> string) \<times> DB" where
  "GetDeviceProvider d serial =
     query (\<lambda>t. case row_with dr_serial serial (t_devices t) of Inl e \<Rightarrow> Inl e
                 | Inr r \<Rightarrow> Inr (dr_provider_ip r, dr_provider_ip r)) d"

section \<open>Sessions\<close>

text \<open>A transaction: the deferred rollback gives the tables back unless the commit succeeds.\<close>

definition transaction :: "(DB \<Rightarrow> sql_error option \<times> DB) \<Rightarrow> DB \<Rightarrow> sql_error option \<times> DB" where
  "transaction body d =
     (case next_fault d of (f, d0) \<Rightarrow>
        if f then (Some StatementFailed, d0)
        else (case body d0 of
                (Some e, d1) \<Rightarrow> (Some e, d1\<lparr>db_tables := db_tables d0\<rparr>)
              | (None, d1) \<Rightarrow>
                  (case next_fault d1 of (f, d2) \<Rightarrow>
                     if f then (Some StatementFailed, d2\<lparr>db_tables := db_tables d0\<rparr>) else (None, d2))))"

definition insert_session :: "Session_row \<Rightarrow> Tables \<Rightarrow> sql_error + Tables" where
  "insert_session s t =
     (if sr_id s \<in> set (map sr_id (t_sessions t)) then Inl UniqueViolation
      else if \<not> has_device t (sr_serial s) then Inl ForeignKeyViolation
      else Inr (t\<lparr>t_sessions := t_sessions t @ [s]\<rparr>))"

definition new_session :: "string \<Rightarrow> string \<Rightarrow> string \<Rightarrow> instant \<Rightarrow> Session_row" where
  "new_session sessionID serial claimedBy now =
     \<lparr>sr_id = sessionID, sr_serial = serial, sr_claimed_by = claimedBy, sr_claimed_at = now,
      sr_released_at = None, sr_status = ''active''\<rparr>"

definition claim_device :: "instant \<Rightarrow> Device_row \<Rightarrow> Device_row" where
  "claim_device now r = r\<lparr>dr_status := ''claimed'', dr_updated_at := now\<rparr>"

definition CreateSession_tx :: "string \<Rightarrow> string \<Rightarrow> string \<Rightarrow> DB \<Rightarrow> sql_error option \<times> DB" where
  "CreateSession_tx sessionID serial claimedBy d =
     (case query (\<lambda>t. row_with dr_serial serial (t_devices t)) d of
        (Inl e, d) \<Rightarrow> (Some (DeviceCheck e), d)
      | (Inr r, d) \<Rightarrow>
          if dr_status r = ''claimed'' then (Some DeviceAlreadyClaimed, d)
          else (case exec (update_device serial (claim_device (db_now d))) d of
                  (Some e, d) \<Rightarrow> (Some e, d)
                | (None, d) \<Rightarrow>
                    exec (insert_session (new_session sessionID serial claimedBy (db_now d))) d))"

definition CreateSession :: "DB \<Rightarrow> string \<Rightarrow> string \<Rightarrow> string \<Rightarrow> sql_error option \<times> DB" where
  "CreateSession d sessionID serial claimedBy = transaction (CreateSession_tx sessionID serial claimedBy) d"

definition close_device :: "instant \<Rightarrow> Device_row \<Rightarrow> Device_row" where
  "close_device now r =
     r\<lparr>dr_status := (if dr_status r = ''offline'' then ''offline'' else ''idle''), dr_stream_port := 0, dr_updated_at := now\<rparr>"

definition release_sessions :: "string \<Rightarrow> instant \<Rightarrow> Tables \<Rightarrow> sql_error + Tables" where
  "release_sessions serial now t =
     Inr (t\<lparr>t_sessions := update_where (\<lambda>s. sr_serial s = serial \<and> sr_status s = ''active'')
       (\<lambda>s. s\<lparr>sr_status := ''released'', sr_released_at := Some now\<rparr>) (t_sessions t)\<rparr>)"

definition CloseSession_tx :: "string \<Rightarrow> DB \<Rightarrow> sql_error option \<times> DB" where
  "CloseSession_tx serial d =
     (case exec (update_device serial (close_device (db_now d))) d of
        (Some e, d) \<Rightarrow> (Some e, d)
      | (None, d) \<Rightarrow> exec (release_sessions serial (db_now d)) d)"

definition CloseSession :: "DB \<Rightarrow> string \<Rightarrow> sql_error option \<times> DB" where
  "CloseSession d serial = transaction (CloseSession_tx serial) d"

section \<open>Automation scripts and reports\<close>

definition upsert_script :: "ScriptDB \<Rightarrow> Tables \<Rightarrow> sql_error + Tables" where
  "upsert_script s t =
     Inr (t\<lparr>t_scripts := (if sc_ID s \<in> set (map sc_ID (t_scripts t))
        then update_where (\<lambda>r. sc_ID r = sc_ID s) (\<lambda>r. r\<lparr>sc_Name := sc_Name s, sc_Content := sc_Content s\<rparr>) (t_scripts t)
        else t_scripts t @ [s])\<rparr>)"

definition SaveScript :: "DB \<Rightarrow> string \<Rightarrow> string \<Rightarrow> string \<Rightarrow> sql_error option \<times> DB" where
  "SaveScript d sid name content =
     exec (upsert_script \<lparr>sc_ID = sid, sc_Name = name, sc_Content = content, sc_CreatedAt = db_now d\<rparr>) d"

definition GetScript :: "DB \<Rightarrow> string \<Rightarrow> (sql_error + string \<times> string) \<times> DB" where
  "GetScript d sid =
     query (\<lambda>t. case row_with sc_ID sid (t_scripts t) of Inl e \<Rightarrow> Inl e | Inr s \<Rightarrow> Inr (sc_Name s, sc_Content s)) d"

definition delete_script :: "string \<Rightarrow> Tables \<Rightarrow> sql_error + Tables" where
  "delete_script sid t =
     Inr (t\<lparr>t_scripts := filter (\<lambda>s. sc_ID s \<noteq> sid) (t_scripts t),
            t_reports := filter (\<lambda>r. rp_ScriptID r \<noteq> sid) (t_reports t)\<rparr>)"

definition DeleteScript :: "DB \<Rightarrow> string \<Rightarrow> sql_error option \<times> DB" where
  "DeleteScript d sid = exec (delete_script sid) d"

definition insert_report :: "ReportDB \<Rightarrow> Tables \<Rightarrow> sql_error + Tables" where
  "insert_report r t =
     (if rp_ID r \<in> set (map rp_ID (t_reports t)) then Inl UniqueViolation
      else if rp_ScriptID r \<notin> set (map sc_ID (t_scripts t)) \<or> \<not> has_device t (rp_Serial r) then Inl ForeignKeyViolation
      else Inr (t\<lparr>t_reports := t_reports t @ [r]\<rparr>))"

definition SaveReport ::
  "DB \<Rightarrow> string \<Rightarrow> string \<Rightarrow> string \<Rightarrow> bool \<Rightarrow> instant \<Rightarrow> instant \<Rightarrow> string \<Rightarrow> sql_error option \<times> DB" where
  "SaveReport d rid scriptID serial success startTime endTime resultsJSON =
     exec (insert_report \<lparr>rp_ID = rid, rp_ScriptID = scriptID, rp_Serial = serial, rp_Success = success,
       rp_StartTime = startTime, rp_EndTime = endTime, rp_Results = resultsJSON\<rparr>) d"

definition GetReport :: "DB \<Rightarrow> string \<Rightarrow> (sql_error + ReportDB) \<times> DB" where
  "GetReport d rid = query (\<lambda>t. row_with rp_ID rid (t_reports t)) d"

definition ListScripts :: "DB \<Rightarrow> (sql_error + ScriptDB list) \<times> DB" where
  "ListScripts d = query (\<lambda>t. Inr (sort_key (\<lambda>s. - sc_CreatedAt s) (t_scripts t))) d"

definition ListReports :: "DB \<Rightarrow> (sql_error + ReportDB list) \<times> DB" where
  "ListReports d = query (\<lambda>t. Inr (sort_key (\<lambda>r. - rp_StartTime r) (t_reports t))) d"


section \<open>Users\<close>

text \<open>
  A Go string is never \<^verbatim>\<open>NULL\<close>, so \<^verbatim>\<open>COALESCE(EXCLUDED.password_hash, ...)\<close> is the new hash.  The conflict
  clause is about \<^verbatim>\<open>email\<close> only; a clash of the primary key is an error.
\<close>

definition upsert_user :: "User \<Rightarrow> instant \<Rightarrow> Tables \<Rightarrow> sql_error + Tables" where
  "upsert_user u now t =
     (if user_Email u \<in> set (map user_Email (t_users t))
      then Inr (t\<lparr>t_users := update_where (\<lambda>r. user_Email r = user_Email u)
        (\<lambda>r. r\<lparr>user_PasswordHash := user_PasswordHash u, user_Role := user_Role u, user_AuthProvider := user_AuthProvider u,
                user_UpdatedAt := now\<rparr>) (t_users t)\<rparr>)
      else if has_user t (user_ID u) then Inl UniqueViolation
      else Inr (t\<lparr>t_users := t_users t @ [u]\<rparr>))"

definition add_to_all_groups :: "string \<Rightarrow> Tables \<Rightarrow> sql_error + Tables" where
  "add_to_all_groups uid t = insert_user_groups (map (\<lambda>g. (uid, group_ID g)) (t_groups t)) t"

definition CreateUser :: "DB \<Rightarrow> User \<Rightarrow> sql_error option \<times> DB" where
  "CreateUser d u =
     (case exec (upsert_user u (db_now d)) d of
        (Some e, d) \<Rightarrow> (Some e, d)
      | (None, d) \<Rightarrow>
          if user_Role u = RoleAdmin then (None, snd (exec (add_to_all_groups (user_ID u)) d)) else (None, d))"

definition GetUserByEmail :: "DB \<Rightarrow> string \<Rightarrow> (sql_error + User) \<times> DB" where
  "GetUserByEmail d email = query (\<lambda>t. row_with user_Email email (t_users t)) d"

definition GetUserByID :: "DB \<Rightarrow> string \<Rightarrow> (sql_error + User) \<times> DB" where
  "GetUserByID d uid = query (\<lambda>t. row_with user_ID uid (t_users t)) d"

definition set_user_role :: "string \<Rightarrow> UserRole \<Rightarrow> instant \<Rightarrow> Tables \<Rightarrow> sql_error + Tables" where
  "set_user_role uid role now t =
     Inr (t\<lparr>t_users := update_where (\<lambda>u. user_ID u = uid) (\<lambda>u. u\<lparr>user_Role := role, user_UpdatedAt := now\<rparr>) (t_users t)\<rparr>)"

definition UpdateUserRole :: "DB \<Rightarrow> string \<Rightarrow> UserRole \<Rightarrow> sql_error option \<times> DB" where
  "UpdateUserRole d uid role =
     (case exec (set_user_role uid role (db_now d)) d of
        (Some e, d) \<Rightarrow> (Some e, d)
      | (None, d) \<Rightarrow> if role = RoleAdmin then (None, snd (exec (add_to_all_groups uid) d)) else (None, d))"

definition delete_user :: "string \<Rightarrow> Tables \<Rightarrow> sql_error + Tables" where
  "delete_user uid t =
     Inr (t\<lparr>t_users := filter (\<lambda>u. user_ID u \<noteq> uid) (t_users t),
            t_user_groups := filter (\<lambda>(u, g). u \<noteq> uid) (t_user_groups t),
            t_api_keys := filter (\<lambda>k. key_UserID k \<noteq> uid) (t_api_keys t)\<rparr>)"

definition DeleteUser :: "DB \<Rightarrow> string \<Rightarrow> sql_error option \<times> DB" where
  "DeleteUser d uid = exec (delete_user uid) d"

text \<open>The lists of users do not read the password hash.\<close>

definition public_fields :: "User \<Rightarrow> User" where
  "public_fields u = u\<lparr>user_PasswordHash := ''''\<rparr>"

definition ListUsers :: "DB \<Rightarrow> (sql_error + User list) \<times> DB" where
  "ListUsers d = query (\<lambda>t. Inr (map public_fields (sort_key user_Email (t_users t)))) d"

section \<open>Groups\<close>

definition CreateGroup :: "DB \<Rightarrow> Group \<Rightarrow> sql_error option \<times> DB" where
  "CreateGroup d g =
     (case exec (insert_group g) d of
        (Some e, d) \<Rightarrow> (Some e, d)
      | (None, d) \<Rightarrow>
          (None, snd (exec (\<lambda>t. insert_user_groups
             [(user_ID u, group_ID g). u \<leftarrow> t_users t, user_Role u = ''admin''] t) d)))"

definition GetGroup :: "DB \<Rightarrow> string \<Rightarrow> (sql_error + Group) \<times> DB" where
  "GetGroup d gid = query (\<lambda>t. row_with group_ID gid (t_groups t)) d"

definition ListGroups :: "DB \<Rightarrow> (sql_error + Group list) \<times> DB" where
  "ListGroups d = query (\<lambda>t. Inr (sort_key group_Name (t_groups t))) d"

definition delete_group :: "string \<Rightarrow> Tables \<Rightarrow> sql_error + Tables" where
  "delete_group gid t =
     Inr (t\<lparr>t_groups := filter (\<lambda>g. group_ID g \<noteq> gid) (t_groups t),
            t_user_groups := filter (\<lambda>(u, g). g \<noteq> gid) (t_user_groups t),
            t_device_groups := filter (\<lambda>(s, g). g \<noteq> gid) (t_device_groups t)\<rparr>)"

definition DeleteGroup :: "DB \<Rightarrow> string \<Rightarrow> sql_error option \<times> DB" where
  "DeleteGroup d gid = exec (delete_group gid) d"

definition delete_user_group :: "string \<Rightarrow> string \<Rightarrow> Tables \<Rightarrow> sql_error + Tables" where
  "delete_user_group uid gid t = Inr (t\<lparr>t_user_groups := filter (\<lambda>p. p \<noteq> (uid, gid)) (t_user_groups t)\<rparr>)"

definition AddUserToGroup :: "DB \<Rightarrow> string \<Rightarrow> string \<Rightarrow> sql_error option \<times> DB" where
  "AddUserToGroup d userID groupID =
     (case query (\<lambda>t. row_with group_ID groupID (t_groups t)) d of
        (Inl e, d) \<Rightarrow> (Some e, d)
      | (Inr g, d) \<Rightarrow>
          (case exec (insert_user_groups [(userID, groupID)]) d of
             (Some e, d) \<Rightarrow> (Some e, d)
           | (None, d) \<Rightarrow>
               if group_Name g \<noteq> ''Public''
               then (case query select_public_group d of
                       (Inr p, d) \<Rightarrow> if p \<noteq> '''' then (None, snd (exec (delete_user_group userID p) d)) else (None, d)
                     | (Inl _, d) \<Rightarrow> (None, d))
               else (None, d)))"

definition RemoveUserFromGroup :: "DB \<Rightarrow> string \<Rightarrow> string \<Rightarrow> sql_error option \<times> DB" where
  "RemoveUserFromGroup d userID groupID = exec (delete_user_group userID groupID) d"

definition AddDeviceToGroup :: "DB \<Rightarrow> string \<Rightarrow> string \<Rightarrow> sql_error option \<times> DB" where
  "AddDeviceToGroup d serial groupID = exec (insert_device_groups [(serial, groupID)]) d"

definition delete_device_group :: "string \<Rightarrow> string \<Rightarrow> Tables \<Rightarrow> sql_error + Tables" where
  "delete_device_group serial gid t = Inr (t\<lparr>t_device_groups := filter (\<lambda>p. p \<noteq> (serial, gid)) (t_device_groups t)\<rparr>)"

definition RemoveDeviceFromGroup :: "DB \<Rightarrow> string \<Rightarrow> string \<Rightarrow> sql_error option \<times> DB" where
  "RemoveDeviceFromGroup d serial groupID = exec (delete_device_group serial groupID) d"

text \<open>The inner joins, ordered by the joined column.\<close>

definition groups_of :: "(string \<times> string) list \<Rightarrow> string \<Rightarrow> Tables \<Rightarrow> Group list" where
  "groups_of members x t =
     sort_key group_Name [g. g \<leftarrow> t_groups t, (y, h) \<leftarrow> members, group_ID g = h \<and> y = x]"

definition GetUserGroups :: "DB \<Rightarrow> string \<Rightarrow> (sql_error + Group list) \<times> DB" where
  "GetUserGroups d userID = query (\<lambda>t. Inr (groups_of (t_user_groups t) userID t)) d"

definition GetDeviceGroups :: "DB \<Rightarrow> string \<Rightarrow> (sql_error + Group list) \<times> DB" where
  "GetDeviceGroups d serial = query (\<lambda>t. Inr (groups_of (t_device_groups t) serial t)) d"

definition GetGroupUsers :: "DB \<Rightarrow> string \<Rightarrow> (sql_error + User list) \<times> DB" where
  "GetGroupUsers d groupID =
     query (\<lambda>t. Inr (map public_fields (sort_key user_Email
       [u. u \<leftarrow> t_users t, (v, g) \<leftarrow> t_user_groups t, user_ID u = v \<and> g = groupID]))) d"

definition GetGroupDevices :: "DB \<Rightarrow> string \<Rightarrow> (sql_error + string list) \<times> DB" where
  "GetGroupDevices d groupID = query (\<lambda>t. Inr (sort [s. (s, g) \<leftarrow> t_device_groups t, g = groupID])) d"

section \<open>API keys\<close>

definition insert_api_key :: "ApiKey \<Rightarrow> Tables \<Rightarrow> sql_error + Tables" where
  "insert_api_key k t =
     (if key_ID k \<in> set (map key_ID (t_api_keys t)) \<or> key_TokenHash k \<in> set (map key_TokenHash (t_api_keys t))
      then Inl UniqueViolation
      else if \<not> has_user t (key_UserID k) then Inl ForeignKeyViolation
      else Inr (t\<lparr>t_api_keys := t_api_keys t @ [k]\<rparr>))"

definition CreateApiKey :: "DB \<Rightarrow> ApiKey \<Rightarrow> sql_error option \<times> DB" where
  "CreateApiKey d k = exec (insert_api_key k) d"

definition GetApiKeyByHash :: "DB \<Rightarrow> string \<Rightarrow> (sql_error + ApiKey) \<times> DB" where
  "GetApiKeyByHash d hash = query (\<lambda>t. row_with key_TokenHash hash (t_api_keys t)) d"

definition delete_api_key :: "string \<Rightarrow> Tables \<Rightarrow> sql_error + Tables" where
  "delete_api_key kid t = Inr (t\<lparr>t_api_keys := filter (\<lambda>k. key_ID k \<noteq> kid) (t_api_keys t)\<rparr>)"

definition DeleteApiKey :: "DB \<Rightarrow> string \<Rightarrow> sql_error option \<times> DB" where
  "DeleteApiKey d kid = exec (delete_api_key kid) d"

definition ListApiKeys :: "DB \<Rightarrow> string \<Rightarrow> (sql_error + ApiKey list) \<times> DB" where
  "ListApiKeys d userID =
     query (\<lambda>t. Inr (sort_key (\<lambda>k. - key_CreatedAt k) (filter (\<lambda>k. key_UserID k = userID) (t_api_keys t)))) d"


end
