(* ===== verification/Database_Integrity.thy ===== *)
theory Database_Integrity
  imports Database
begin

text \<open>
  What the tables guarantee whatever the coordinator does with them and whichever statements fail: the
  declared keys and references, and a session behind every claimed device.
\<close>

section \<open>The invariant\<close>

definition keys_ok :: "Tables \<Rightarrow> bool" where
  "keys_ok t \<longleftrightarrow>
     distinct (map pr_ip (t_providers t)) \<and> distinct (map dr_serial (t_devices t)) \<and> distinct (map sr_id (t_sessions t)) \<and>
     distinct (map sc_ID (t_scripts t)) \<and> distinct (map rp_ID (t_reports t)) \<and>
     distinct (map user_ID (t_users t)) \<and> distinct (map user_Email (t_users t)) \<and>
     distinct (map group_ID (t_groups t)) \<and> distinct (map group_Name (t_groups t)) \<and>
     distinct (t_user_groups t) \<and> distinct (t_device_groups t) \<and>
     distinct (map key_ID (t_api_keys t)) \<and> distinct (map key_TokenHash (t_api_keys t))"

definition refs_ok :: "Tables \<Rightarrow> bool" where
  "refs_ok t \<longleftrightarrow>
     (\<forall>r \<in> set (t_devices t). dr_provider_ip r \<in> set (map pr_ip (t_providers t))) \<and>
     (\<forall>s \<in> set (t_sessions t). has_device t (sr_serial s)) \<and>
     (\<forall>r \<in> set (t_reports t). rp_ScriptID r \<in> set (map sc_ID (t_scripts t)) \<and> has_device t (rp_Serial r)) \<and>
     (\<forall>(u, g) \<in> set (t_user_groups t). has_user t u \<and> has_group t g) \<and>
     (\<forall>(s, g) \<in> set (t_device_groups t). has_device t s \<and> has_group t g) \<and>
     (\<forall>k \<in> set (t_api_keys t). has_user t (key_UserID k))"

definition active_sessions :: "string \<Rightarrow> Tables \<Rightarrow> Session_row list" where
  "active_sessions serial t = filter (\<lambda>s. sr_serial s = serial \<and> sr_status s = ''active'') (t_sessions t)"

definition claims_ok :: "Tables \<Rightarrow> bool" where
  "claims_ok t \<longleftrightarrow> (\<forall>r \<in> set (t_devices t). dr_status r = ''claimed'' \<longrightarrow> active_sessions (dr_serial r) t \<noteq> [])"

definition db_inv :: "Tables \<Rightarrow> bool" where
  "db_inv t \<longleftrightarrow> keys_ok t \<and> refs_ok t \<and> claims_ok t"

lemmas has_defs = has_user_def has_group_def has_device_def
lemmas inv_defs = db_inv_def keys_ok_def refs_ok_def claims_ok_def active_sessions_def has_defs

section \<open>Lists as tables\<close>

lemma set_insert_pairs [simp]: "set (insert_pairs ps tbl) = set ps \<union> set tbl"
  by (induction ps tbl rule: insert_pairs.induct) auto

lemma distinct_insert_pairs [simp]: "distinct (insert_pairs ps tbl) = distinct tbl"
  by (induction ps tbl rule: insert_pairs.induct) auto

lemma map_update_where [simp]:
  "(\<And>r. P r \<Longrightarrow> key (f r) = key r) \<Longrightarrow> map key (update_where P f tbl) = map key tbl"
  by (simp add: update_where_def)

lemma image_update_where [simp]:
  assumes "\<And>r. P r \<Longrightarrow> key (f r) = key r"
  shows "key ` set (update_where P f tbl) = key ` set tbl"
proof -
  have "set (map key (update_where P f tbl)) = set (map key tbl)"
    using map_update_where [of P key f tbl] assms by simp
  then show ?thesis by (simp only: set_map)
qed

lemma set_update_where: "r \<in> set (update_where P f tbl) \<longleftrightarrow> (\<exists>x \<in> set tbl. r = (if P x then f x else x))"
  by (auto simp: update_where_def)

lemma update_where_key:
  "map key (update_where (\<lambda>r. key r = k) f tbl) = map key tbl" if "\<And>r. key (f r) = key r \<or> key (f r) = k"
proof -
  have "key (f r) = k" if "key r = k" for r using that \<open>\<And>r. key (f r) = key r \<or> key (f r) = k\<close> by metis
  then show ?thesis by (simp add: update_where_def)
qed

lemma distinct_map_filter' [simp]: "distinct (map f xs) \<Longrightarrow> distinct (map f (filter P xs))"
  by (rule distinct_map_filter)

lemma image_filter_key [simp]: "f ` {x \<in> A. f x \<noteq> k} = f ` A - {k}"
  by auto

lemma row_with_Inr: "row_with key k tbl = Inr r \<Longrightarrow> r \<in> set tbl \<and> key r = k"
  by (auto simp: row_with_def find_Some_iff split: option.splits)

lemma row_with_unique: "distinct (map key tbl) \<Longrightarrow> r \<in> set tbl \<Longrightarrow> row_with key (key r) tbl = Inr r"
  by (induction tbl) (auto simp: row_with_def image_iff)

lemma row_with_Inl: "row_with key k tbl = Inl e \<longleftrightarrow> k \<notin> set (map key tbl) \<and> e = ErrNoRows"
  by (auto simp: row_with_def find_None_iff split: option.splits dest!: find_SomeD)

section \<open>Statements that keep the invariant\<close>

definition keeps :: "(Tables \<Rightarrow> sql_error + Tables) \<Rightarrow> bool" where
  "keeps q \<longleftrightarrow> (\<forall>t t'. db_inv t \<longrightarrow> q t = Inr t' \<longrightarrow> db_inv t')"

lemma keepsI: "(\<And>t t'. db_inv t \<Longrightarrow> q t = Inr t' \<Longrightarrow> db_inv t') \<Longrightarrow> keeps q"
  by (auto simp: keeps_def)

lemma next_fault_tables [simp]: "db_tables (snd (next_fault d)) = db_tables d" "db_now (snd (next_fault d)) = db_now d"
  by (auto simp: next_fault_def split: list.splits)

lemma query_tables [simp]: "db_tables (snd (query q d)) = db_tables d" "db_now (snd (query q d)) = db_now d"
  by (auto simp: query_def next_fault_def split: list.splits)

lemma query_now: "query q d = (r, d') \<Longrightarrow> db_tables d' = db_tables d \<and> db_now d' = db_now d"
  by (metis query_tables snd_conv)

lemma exec_cases:
  assumes "exec q d = (r, d')"
  obtains (failed) e where "r = Some e" "db_tables d' = db_tables d" "db_now d' = db_now d"
  | (ok) t where "r = None" "q (db_tables d) = Inr t" "db_tables d' = t" "db_now d' = db_now d"
  using assms by (auto simp: exec_def next_fault_def split: list.splits if_splits sum.splits)

lemma exec_inv: "keeps q \<Longrightarrow> db_inv (db_tables d) \<Longrightarrow> db_inv (db_tables (snd (exec q d)))"
  by (cases "exec q d") (auto elim!: exec_cases simp: keeps_def)

lemma exec_invD: "exec q d = (r, d') \<Longrightarrow> keeps q \<Longrightarrow> db_inv (db_tables d) \<Longrightarrow> db_inv (db_tables d')"
  by (auto elim!: exec_cases simp: keeps_def)

lemma keeps_insert_user_groups [inv_intro]: "keeps (insert_user_groups ps)"
  by (rule keepsI) (auto simp: insert_user_groups_def inv_defs split: if_splits)

lemma keeps_insert_device_groups [inv_intro]: "keeps (insert_device_groups ps)"
  by (rule keepsI) (auto simp: insert_device_groups_def inv_defs split: if_splits)

lemma keeps_computed: "(\<And>ps. keeps (f ps)) \<Longrightarrow> keeps (\<lambda>t. f (ps t) t)"
  by (auto simp: keeps_def)

lemma keeps_insert_group [inv_intro]: "keeps (insert_group g)"
  by (rule keepsI) (auto simp: insert_group_def inv_defs split: if_splits)

lemma keeps_insert_new_user [inv_intro]: "keeps (insert_new_user u)"
  by (rule keepsI) (auto simp: insert_new_user_def inv_defs split: if_splits)

text \<open>An update of devices that keeps the key and the provider and claims nothing.\<close>

definition no_new_claim :: "(Device_row \<Rightarrow> Device_row) \<Rightarrow> bool" where
  "no_new_claim f \<longleftrightarrow> (\<forall>r. dr_serial (f r) = dr_serial r \<and> dr_provider_ip (f r) = dr_provider_ip r \<and>
     (dr_status (f r) = ''claimed'' \<longrightarrow> dr_status r = ''claimed''))"

lemma db_inv_update_devices:
  assumes inv: "db_inv t" and f: "no_new_claim f"
  shows "db_inv (t\<lparr>t_devices := update_where P f (t_devices t)\<rparr>)"
proof -
  have keys: "map dr_serial (update_where P f (t_devices t)) = map dr_serial (t_devices t)"
    using f by (simp add: no_new_claim_def)
  have "set (map dr_serial (update_where P f (t_devices t))) = set (map dr_serial (t_devices t))" by (simp only: keys)
  with inv f keys show ?thesis
    by (auto simp: inv_defs no_new_claim_def set_update_where split: if_splits)
qed

lemma keeps_update_device [inv_intro]: "no_new_claim f \<Longrightarrow> keeps (update_device serial f)"
  by (rule keepsI) (auto simp: update_device_def intro: db_inv_update_devices)


lemma keeps_ddl [inv_intro]: "keeps ddl"
  by (rule keepsI) (simp add: ddl_def)

lemma keeps_set_platforms [inv_intro]: "keeps set_platforms"
  by (rule keepsI) (auto simp: set_platforms_def no_new_claim_def intro!: db_inv_update_devices)

lemma keeps_all_devices_public [inv_intro]: "keeps all_devices_public"
proof (rule keepsI)
  fix t t' assume inv: "db_inv t" and q: "all_devices_public t = Inr t'"
  then show "db_inv t'"
  proof (cases "select_public_group t")
    case (Inr g)
    with inv q keeps_insert_device_groups show ?thesis by (auto simp: all_devices_public_def keeps_def)
  qed (auto simp: all_devices_public_def split: if_splits)
qed

lemma keeps_admins [inv_intro]: "keeps admins_in_all_groups" "keeps (add_to_all_groups uid)"
  unfolding admins_in_all_groups_def [abs_def] add_to_all_groups_def [abs_def]
  by (rule keeps_computed, rule keeps_insert_user_groups)+

lemma keeps_upsert_provider [inv_intro]: "keeps (upsert_provider p)"
proof (rule keepsI)
  fix t t' assume inv: "db_inv t" and q: "upsert_provider p t = Inr t'"
  have up: "map pr_ip (update_where (\<lambda>r. pr_ip r = pr_ip p) (\<lambda>_. p) (t_providers t)) = map pr_ip (t_providers t)"
    by (rule update_where_key) simp
  then have "set (map pr_ip (update_where (\<lambda>r. pr_ip r = pr_ip p) (\<lambda>_. p) (t_providers t))) = set (map pr_ip (t_providers t))"
    by (simp only:)
  with inv q up show "db_inv t'" by (auto simp: upsert_provider_def inv_defs split: if_splits)
qed

lemma wake_not_claimed: "wake s = ''claimed'' \<longleftrightarrow> s = ''claimed''"
  by (simp add: wake_def)

lemma keeps_upsert_device [inv_intro]:
  assumes "dr_status new = ''idle''"
  shows "keeps (upsert_device new)"
proof (rule keepsI)
  fix t t' assume inv: "db_inv t" and q: "upsert_device new t = Inr t'"
  let ?f = "\<lambda>r. new\<lparr>dr_status := wake (dr_status r), dr_stream_port := dr_stream_port r,
    dr_file_system := dr_file_system r, dr_installed_browsers := dr_installed_browsers r\<rparr>"
  let ?up = "update_where (\<lambda>r. dr_serial r = dr_serial new) ?f (t_devices t)"
  have up: "map dr_serial ?up = map dr_serial (t_devices t)" by (rule update_where_key) simp
  then have set: "set (map dr_serial ?up) = set (map dr_serial (t_devices t))" by (simp only:)
  show "db_inv t'"
  proof (cases "has_device t (dr_serial new)")
    case True
    with q have t': "t' = t\<lparr>t_devices := ?up\<rparr>" "dr_provider_ip new \<in> set (map pr_ip (t_providers t))"
      by (auto simp: upsert_device_def split: if_splits)
    have "keys_ok t'" using inv t' up by (simp add: inv_defs)
    moreover have "refs_ok t'" using inv t' set by (auto simp: inv_defs set_update_where split: if_splits)
    moreover have "claims_ok t'"
    proof -
      have "active_sessions (dr_serial x) t \<noteq> []" if "x \<in> set (t_devices t)" "dr_status x = ''claimed''" for x
        using inv that by (simp add: db_inv_def claims_ok_def)
      moreover have "active_sessions s t' = active_sessions s t" for s using t' by (simp add: active_sessions_def)
      ultimately show ?thesis
        using t' by (fastforce simp: claims_ok_def set_update_where wake_not_claimed split: if_splits)
    qed
    ultimately show ?thesis by (simp add: db_inv_def)
  next
    case False
    with q assms inv show ?thesis by (auto simp: upsert_device_def inv_defs split: if_splits)
  qed
qed

lemma keeps_scripts [inv_intro]: "keeps (upsert_script s)" "keeps (delete_script sid)" "keeps (insert_report r)"
proof -
  show "keeps (upsert_script s)"
    by (rule keepsI) (auto simp: upsert_script_def inv_defs split: if_splits)
  show "keeps (delete_script sid)"
    by (rule keepsI) (auto simp: delete_script_def inv_defs)
  show "keeps (insert_report r)"
    by (rule keepsI) (auto simp: insert_report_def inv_defs split: if_splits)
qed

lemma db_inv_update_users:
  assumes inv: "db_inv t" and f: "\<And>u. user_ID (f u) = user_ID u" "\<And>u. user_Email (f u) = user_Email u"
  shows "db_inv (t\<lparr>t_users := update_where P f (t_users t)\<rparr>)"
  using inv f by (simp add: inv_defs)

lemma keeps_users [inv_intro]: "keeps (upsert_user u now)" "keeps (set_user_role uid role now)" "keeps (delete_user uid)"
proof -
  show "keeps (upsert_user u now)"
  proof (rule keepsI)
    fix t t' assume inv: "db_inv t" and q: "upsert_user u now t = Inr t'"
    show "db_inv t'"
    proof (cases "user_Email u \<in> set (map user_Email (t_users t))")
      case True
      with inv q show ?thesis by (auto simp: upsert_user_def intro!: db_inv_update_users)
    next
      case False
      with inv q show ?thesis by (auto simp: upsert_user_def inv_defs split: if_splits)
    qed
  qed
  show "keeps (set_user_role uid role now)"
    by (rule keepsI) (auto simp: set_user_role_def intro!: db_inv_update_users)
  show "keeps (delete_user uid)"
    by (rule keepsI) (auto simp: delete_user_def inv_defs)
qed

lemma keeps_groups [inv_intro]:
  "keeps (delete_group gid)" "keeps (delete_user_group uid gid)" "keeps (delete_device_group serial gid)"
  by (rule keepsI, auto simp: delete_group_def delete_user_group_def delete_device_group_def inv_defs)+

lemma keeps_keys [inv_intro]: "keeps (insert_api_key k)" "keeps (delete_api_key kid)"
  by (rule keepsI, auto simp: insert_api_key_def delete_api_key_def inv_defs split: if_splits)+


section \<open>Transactions\<close>

text \<open>A transaction that does not succeed has changed no table, and one that does has run its body.\<close>

lemma transaction_cases:
  assumes "transaction body d = (r, d')"
  obtains (failed) e where "r = Some e" "db_tables d' = db_tables d"
  | (committed) d0 d1 where "r = None" "db_tables d0 = db_tables d" "db_now d0 = db_now d" "body d0 = (None, d1)" "db_tables d' = db_tables d1"
proof -
  obtain f d0 where f: "next_fault d = (f, d0)" by (rule prod.exhaust)
  have d0: "db_tables d0 = db_tables d" "db_now d0 = db_now d" using f next_fault_tables [of d] by simp_all
  obtain r1 d1 where b: "body d0 = (r1, d1)" by (rule prod.exhaust)
  obtain f2 d2 where f2: "next_fault d1 = (f2, d2)" by (rule prod.exhaust)
  have d2: "db_tables d2 = db_tables d1" using f2 next_fault_tables [of d1] by simp
  from assms f b f2 d0 d2 show ?thesis
    by (auto simp: transaction_def split: if_splits option.splits intro: that)
qed

lemma transaction_inv:
  assumes "transaction body d = (r, d')" "db_inv (db_tables d)"
    and "\<And>d0 d1. db_inv (db_tables d0) \<Longrightarrow> body d0 = (None, d1) \<Longrightarrow> db_inv (db_tables d1)"
  shows "db_inv (db_tables d')"
  using assms(1)
proof (cases rule: transaction_cases)
  case (failed e)
  with assms(2) show ?thesis by simp
next
  case (committed d0 d1)
  with assms(2) assms(3) [of d0 d1] show ?thesis by simp
qed

text \<open>The tables after a successful claim and after a successful release.\<close>

definition claimed_tables :: "string \<Rightarrow> string \<Rightarrow> string \<Rightarrow> instant \<Rightarrow> Tables \<Rightarrow> Tables" where
  "claimed_tables sessionID serial claimedBy now t =
     t\<lparr>t_devices := update_where (\<lambda>r. dr_serial r = serial) (claim_device now) (t_devices t),
       t_sessions := t_sessions t @ [new_session sessionID serial claimedBy now]\<rparr>"

definition closed_tables :: "string \<Rightarrow> instant \<Rightarrow> Tables \<Rightarrow> Tables" where
  "closed_tables serial now t =
     t\<lparr>t_devices := update_where (\<lambda>r. dr_serial r = serial) (close_device now) (t_devices t),
       t_sessions := update_where (\<lambda>s. sr_serial s = serial \<and> sr_status s = ''active'')
         (\<lambda>s. s\<lparr>sr_status := ''released'', sr_released_at := Some now\<rparr>) (t_sessions t)\<rparr>"

lemma CreateSession_tx_ok:
  assumes "CreateSession_tx sessionID serial claimedBy d = (None, d')"
  shows "\<exists>r. row_with dr_serial serial (t_devices (db_tables d)) = Inr r \<and> dr_status r \<noteq> ''claimed'' \<and>
    sessionID \<notin> set (map sr_id (t_sessions (db_tables d))) \<and> has_device (db_tables d) serial \<and>
    db_tables d' = claimed_tables sessionID serial claimedBy (db_now d) (db_tables d)"
proof -
  let ?q = "\<lambda>t. row_with dr_serial serial (t_devices t)"
  obtain res d1 where q: "query ?q d = (res, d1)" by (rule prod.exhaust)
  have d1: "db_tables d1 = db_tables d" "db_now d1 = db_now d" using query_now [OF q] by auto
  from assms q obtain r where r: "res = Inr r" "dr_status r \<noteq> ''claimed''"
    by (auto simp: CreateSession_tx_def split: sum.splits if_splits)
  with q have row: "?q (db_tables d) = Inr r" by (auto simp: query_def next_fault_def split: list.splits if_splits)
  let ?u = "update_device serial (claim_device (db_now d))"
  obtain ru d2 where u: "exec ?u d1 = (ru, d2)" by (rule prod.exhaust)
  let ?s = "new_session sessionID serial claimedBy (db_now d2)"
  from assms q r u d1 have ins: "ru = None" "exec (insert_session ?s) d2 = (None, d')"
    by (auto simp: CreateSession_tx_def split: option.splits)
  from u ins(1) have d2: "db_tables d2 = (db_tables d)\<lparr>t_devices :=
      update_where (\<lambda>r. dr_serial r = serial) (claim_device (db_now d)) (t_devices (db_tables d))\<rparr>" "db_now d2 = db_now d"
    by (auto elim!: exec_cases simp: d1 update_device_def)
  from ins(2) have d3: "Inr (db_tables d') = insert_session ?s (db_tables d2)" by (auto elim!: exec_cases)
  have dev: "map dr_serial (t_devices (db_tables d2)) = map dr_serial (t_devices (db_tables d))"
    using d2(1) by (simp add: claim_device_def)
  have "has_device (db_tables d2) serial = has_device (db_tables d) serial" unfolding has_device_def dev ..
  with row r d2 d3 show ?thesis
    by (auto simp: insert_session_def claimed_tables_def new_session_def split: if_splits)
qed

lemma CloseSession_tx_ok:
  assumes "CloseSession_tx serial d = (None, d')"
  shows "db_tables d' = closed_tables serial (db_now d) (db_tables d)"
proof -
  let ?u = "update_device serial (close_device (db_now d))"
  obtain ru d2 where u: "exec ?u d = (ru, d2)" by (rule prod.exhaust)
  with assms have x: "ru = None" "exec (release_sessions serial (db_now d2)) d2 = (None, d')"
    by (auto simp: CloseSession_tx_def split: option.splits)
  from u x(1) have d2: "db_tables d2 = (db_tables d)\<lparr>t_devices :=
      update_where (\<lambda>r. dr_serial r = serial) (close_device (db_now d)) (t_devices (db_tables d))\<rparr>" "db_now d2 = db_now d"
    by (auto elim!: exec_cases simp: update_device_def)
  from x(2) have "Inr (db_tables d') = release_sessions serial (db_now d2) (db_tables d2)" by (auto elim!: exec_cases)
  with d2 show ?thesis by (simp add: release_sessions_def closed_tables_def)
qed

lemma refs_ok_cong:
  assumes "refs_ok t" and "map dr_serial D = map dr_serial (t_devices t)"
    and "dr_provider_ip ` set D \<subseteq> dr_provider_ip ` set (t_devices t)"
    and "\<And>s. s \<in> set S \<Longrightarrow> has_device t (sr_serial s)"
  shows "refs_ok (t\<lparr>t_devices := D, t_sessions := S\<rparr>)"
proof -
  have "dr_serial ` set D = dr_serial ` set (t_devices t)"
    using arg_cong [OF assms(2), of set] by (simp only: set_map)
  moreover have "\<forall>r \<in> set D. dr_provider_ip r \<in> pr_ip ` set (t_providers t)"
  proof -
    have "dr_provider_ip ` set (t_devices t) \<subseteq> pr_ip ` set (t_providers t)"
      using assms(1) by (auto simp: refs_ok_def)
    with assms(3) show ?thesis by blast
  qed
  ultimately show ?thesis using assms(1,4) by (simp add: refs_ok_def has_defs)
qed

lemma db_inv_claimed:
  assumes inv: "db_inv t" and new: "sid \<notin> set (map sr_id (t_sessions t))" "has_device t serial"
  shows "db_inv (claimed_tables sid serial by now t)"
proof -
  have "keys_ok (claimed_tables sid serial by now t)"
    using inv new by (simp add: db_inv_def keys_ok_def claimed_tables_def claim_device_def new_session_def)
  moreover have "refs_ok (claimed_tables sid serial by now t)"
    using inv new unfolding claimed_tables_def
    by (intro refs_ok_cong) (auto simp: db_inv_def claim_device_def new_session_def refs_ok_def)
  moreover have "claims_ok (claimed_tables sid serial by now t)"
    using inv by (auto simp: db_inv_def claims_ok_def active_sessions_def claimed_tables_def claim_device_def new_session_def
        set_update_where split: if_splits)
  ultimately show ?thesis by (simp add: db_inv_def)
qed

lemma active_closed [simp]:
  "active_sessions s (closed_tables serial now t) = (if s = serial then [] else active_sessions s t)"
proof -
  have "filter (\<lambda>r. sr_serial r = s \<and> sr_status r = ''active'')
      (update_where (\<lambda>r. sr_serial r = serial \<and> sr_status r = ''active'')
         (\<lambda>r. r\<lparr>sr_status := ''released'', sr_released_at := Some now\<rparr>) xs) =
    (if s = serial then [] else filter (\<lambda>r. sr_serial r = s \<and> sr_status r = ''active'') xs)" for xs
    by (induction xs) (auto simp: update_where_def)
  from this [of "t_sessions t"] show ?thesis
    by (cases "s = serial") (simp_all add: active_sessions_def closed_tables_def)
qed

lemma db_inv_closed:
  assumes inv: "db_inv t"
  shows "db_inv (closed_tables serial now t)"
proof -
  have "keys_ok (closed_tables serial now t)"
    using inv by (simp add: db_inv_def keys_ok_def closed_tables_def close_device_def)
  moreover have "refs_ok (closed_tables serial now t)"
    using inv unfolding closed_tables_def
    by (intro refs_ok_cong) (auto simp: db_inv_def close_device_def refs_ok_def set_update_where)
  moreover have "claims_ok (closed_tables serial now t)"
  proof -
    have "active_sessions (dr_serial r) t \<noteq> [] \<and> dr_serial r \<noteq> serial"
      if "r \<in> set (t_devices (closed_tables serial now t))" "dr_status r = ''claimed''" for r
    proof -
      from that(1) obtain x where x: "x \<in> set (t_devices t)" "r = (if dr_serial x = serial then close_device now x else x)"
        by (auto simp: closed_tables_def set_update_where)
      with that(2) have "r = x \<and> dr_serial x \<noteq> serial" by (auto simp: close_device_def split: if_splits)
      with x(1) that(2) inv show ?thesis by (auto simp: db_inv_def claims_ok_def)
    qed
    then show ?thesis by (auto simp: claims_ok_def)
  qed
  ultimately show ?thesis by (simp add: db_inv_def)
qed

lemma CreateSession_inv:
  assumes "CreateSession d sid serial by = (r, d')" "db_inv (db_tables d)"
  shows "db_inv (db_tables d')"
  using assms unfolding CreateSession_def
  by (rule transaction_inv) (auto dest!: CreateSession_tx_ok intro!: db_inv_claimed)

lemma CloseSession_inv:
  assumes "CloseSession d serial = (r, d')" "db_inv (db_tables d)"
  shows "db_inv (db_tables d')"
  using assms unfolding CloseSession_def
  by (rule transaction_inv) (auto dest!: CloseSession_tx_ok intro!: db_inv_closed)


section \<open>Every history of calls\<close>

datatype db_call =
    Call_RegisterProvider string string string int int string
  | Call_RegisterDevice string string string string string string int string int int int int int int string string instant
  | Call_ReleaseDevice string
  | Call_UpdateDeviceHeartbeat string
  | Call_UpdateDeviceState string int string string string
  | Call_CreateSession string string string
  | Call_CloseSession string
  | Call_UpdateDeviceStreamPort string int
  | Call_SaveScript string string string
  | Call_DeleteScript string
  | Call_SaveReport string string string bool instant instant string
  | Call_CreateUser User
  | Call_UpdateUserRole string UserRole
  | Call_DeleteUser string
  | Call_CreateGroup Group
  | Call_DeleteGroup string
  | Call_AddUserToGroup string string
  | Call_RemoveUserFromGroup string string
  | Call_AddDeviceToGroup string string
  | Call_RemoveDeviceFromGroup string string
  | Call_CreateApiKey ApiKey
  | Call_DeleteApiKey string

fun db_step :: "DB \<Rightarrow> db_call \<Rightarrow> sql_error option \<times> DB" where
  "db_step d (Call_RegisterProvider ip name host mn mx v) = RegisterProvider d ip name host mn mx v"
| "db_step d (Call_RegisterDevice newID p s m mf a sdk abi ram st w h dpi b wifi ip conn) =
     RegisterDevice newID d p s m mf a sdk abi ram st w h dpi b wifi ip conn"
| "db_step d (Call_ReleaseDevice s) = ReleaseDevice d s"
| "db_step d (Call_UpdateDeviceHeartbeat s) = UpdateDeviceHeartbeat d s"
| "db_step d (Call_UpdateDeviceState s b w f i) = UpdateDeviceState d s b w f i"
| "db_step d (Call_CreateSession i s c) = CreateSession d i s c"
| "db_step d (Call_CloseSession s) = CloseSession d s"
| "db_step d (Call_UpdateDeviceStreamPort s p) = UpdateDeviceStreamPort d s p"
| "db_step d (Call_SaveScript i n c) = SaveScript d i n c"
| "db_step d (Call_DeleteScript i) = DeleteScript d i"
| "db_step d (Call_SaveReport i sc s b st en r) = SaveReport d i sc s b st en r"
| "db_step d (Call_CreateUser u) = CreateUser d u"
| "db_step d (Call_UpdateUserRole i r) = UpdateUserRole d i r"
| "db_step d (Call_DeleteUser i) = DeleteUser d i"
| "db_step d (Call_CreateGroup g) = CreateGroup d g"
| "db_step d (Call_DeleteGroup i) = DeleteGroup d i"
| "db_step d (Call_AddUserToGroup u g) = AddUserToGroup d u g"
| "db_step d (Call_RemoveUserFromGroup u g) = RemoveUserFromGroup d u g"
| "db_step d (Call_AddDeviceToGroup s g) = AddDeviceToGroup d s g"
| "db_step d (Call_RemoveDeviceFromGroup s g) = RemoveDeviceFromGroup d s g"
| "db_step d (Call_CreateApiKey k) = CreateApiKey d k"
| "db_step d (Call_DeleteApiKey i) = DeleteApiKey d i"

text \<open>A history: each call meets its own pattern of failing statements, at its own time.\<close>

fun db_run :: "DB \<Rightarrow> (db_call \<times> bool list \<times> instant) list \<Rightarrow> DB" where
  "db_run d [] = d"
| "db_run d ((c, faults, now) # cs) = db_run (snd (db_step (d\<lparr>db_faults := faults, db_now := now\<rparr>) c)) cs"

lemma simple_calls_inv:
  assumes "db_inv (db_tables d)"
  shows "db_inv (db_tables (snd (RegisterProvider d ip name host mn mx v)))"
    "db_inv (db_tables (snd (ReleaseDevice d s)))"
    "db_inv (db_tables (snd (UpdateDeviceHeartbeat d s)))"
    "db_inv (db_tables (snd (UpdateDeviceState d s b w f i)))"
    "db_inv (db_tables (snd (UpdateDeviceStreamPort d s p)))"
    "db_inv (db_tables (snd (SaveScript d i n c)))"
    "db_inv (db_tables (snd (DeleteScript d i)))"
    "db_inv (db_tables (snd (SaveReport d i sc s bb st en r)))"
    "db_inv (db_tables (snd (DeleteUser d i)))"
    "db_inv (db_tables (snd (DeleteGroup d i)))"
    "db_inv (db_tables (snd (RemoveUserFromGroup d i i')))"
    "db_inv (db_tables (snd (AddDeviceToGroup d i i')))"
    "db_inv (db_tables (snd (RemoveDeviceFromGroup d i i')))"
    "db_inv (db_tables (snd (CreateApiKey d k)))"
    "db_inv (db_tables (snd (DeleteApiKey d i)))"
  unfolding RegisterProvider_def ReleaseDevice_def UpdateDeviceHeartbeat_def UpdateDeviceState_def UpdateDeviceStreamPort_def
    SaveScript_def DeleteScript_def SaveReport_def DeleteUser_def DeleteGroup_def RemoveUserFromGroup_def AddDeviceToGroup_def
    RemoveDeviceFromGroup_def CreateApiKey_def DeleteApiKey_def
  using assms by (simp_all add: exec_inv inv_intro no_new_claim_def wake_not_claimed)

lemma CreateUser_inv: "db_inv (db_tables d) \<Longrightarrow> db_inv (db_tables (snd (CreateUser d u)))"
  by (auto simp: CreateUser_def split: prod.splits option.splits intro!: exec_inv inv_intro
      dest: exec_invD [OF _ keeps_users(1)])

lemma UpdateUserRole_inv: "db_inv (db_tables d) \<Longrightarrow> db_inv (db_tables (snd (UpdateUserRole d i r)))"
  by (auto simp: UpdateUserRole_def split: prod.splits option.splits intro!: exec_inv inv_intro
      dest: exec_invD [OF _ keeps_users(2)])

lemma CreateGroup_inv: "db_inv (db_tables d) \<Longrightarrow> db_inv (db_tables (snd (CreateGroup d g)))"
  by (auto simp: CreateGroup_def split: prod.splits option.splits
      intro!: exec_inv keeps_computed [OF keeps_insert_user_groups] dest: exec_invD [OF _ keeps_insert_group])

lemma AddUserToGroup_inv: "db_inv (db_tables d) \<Longrightarrow> db_inv (db_tables (snd (AddUserToGroup d u g)))"
  by (auto simp: AddUserToGroup_def split: prod.splits option.splits sum.splits
      intro!: exec_inv inv_intro dest!: query_now exec_invD [OF _ keeps_insert_user_groups])


lemma ensure_public_inv:
  assumes "ensure_public_group newID d = (r, d')" "db_inv (db_tables d)"
  shows "db_inv (db_tables d')"
  using assms
  by (auto simp: ensure_public_group_def split: prod.splits sum.splits sql_error.splits option.splits
      dest!: query_now exec_invD [OF _ keeps_insert_group])

lemma RegisterDevice_inv:
  assumes "db_inv (db_tables d)"
  shows "db_inv (db_tables (snd (RegisterDevice newID d p s m mf a sdk abi ram st w h dpi b wifi ip conn)))"
proof -
  define row where "row =
    \<lparr>dr_serial = s, dr_provider_ip = p, dr_model = m, dr_manufacturer = mf, dr_sdk = sdk, dr_abi = abi, dr_ram_mb = ram,
     dr_storage_mb = st, dr_display_width = w, dr_display_height = h, dr_display_dpi = dpi, dr_battery = b, dr_wifi_ssid = wifi,
     dr_ip = ip, dr_status = ''idle'', dr_stream_port = 0, dr_connected_at = conn, dr_updated_at = db_now d,
     dr_file_system = None, dr_installed_browsers = None,
     dr_platform = if mf = ''Apple'' \<or> sdk = 0 then ''ios'' else ''android'', dr_os_version = a\<rparr>"
  have "keeps (upsert_device row)" by (rule keeps_upsert_device) (simp add: row_def)
  then have 1: "db_inv (db_tables d1)" if "exec (upsert_device row) d = (x, d1)" for x d1
    using exec_invD [OF that] assms by simp
  have 2: "db_inv (db_tables d2)" if "exec (upsert_device row) d = (x, d1)" "ensure_public_group newID d1 = (g, d2)" for x d1 g d2
    using ensure_public_inv [OF that(2) 1 [OF that(1)]] .
  show ?thesis unfolding RegisterDevice_def Let_def row_def [symmetric]
    using 1 2 by (auto split: prod.splits option.splits sum.splits intro!: exec_inv inv_intro)
qed

lemma db_step_inv [inv_intro]: "db_inv (db_tables d) \<Longrightarrow> db_inv (db_tables (snd (db_step d c)))"
proof (induction d c rule: db_step.induct)
  case (6 d i s c)
  then show ?case using CreateSession_inv by (metis db_step.simps(6) prod.collapse)
next
  case (7 d s)
  then show ?case using CloseSession_inv by (metis db_step.simps(7) prod.collapse)
qed (simp_all add: simple_calls_inv CreateUser_inv UpdateUserRole_inv CreateGroup_inv AddUserToGroup_inv RegisterDevice_inv)

lemma db_run_inv: "db_inv (db_tables d) \<Longrightarrow> db_inv (db_tables (db_run d cs))"
  by (induction d cs rule: db_run.induct) (simp_all add: db_step_inv)

lemma exec_all_inv:
  "(\<forall>q \<in> set qs. keeps q) \<Longrightarrow> db_inv (db_tables d) \<Longrightarrow> db_inv (db_tables (snd (exec_all qs d)))"
proof (induction qs arbitrary: d)
  case (Cons q qs)
  then show ?case by (auto split: prod.splits option.splits dest: exec_invD)
qed simp

lemma migrations_keep: "\<forall>q \<in> set (migrations now). keeps q"
  by (simp add: migrations_def inv_intro)

lemma seed_admin_inv: "db_inv (db_tables d) \<Longrightarrow> db_inv (db_tables (snd (seed_admin h d)))"
  by (auto simp: seed_admin_def Let_def split: option.splits prod.splits sum.splits
      dest!: query_now exec_invD [OF _ keeps_insert_new_user] exec_invD [OF _ keeps_insert_user_groups] exec_invD [OF _ keeps_insert_group]
      intro!: exec_inv inv_intro)

lemma migrate_inv:
  assumes "db_inv (db_tables d)"
  shows "db_inv (db_tables (snd (migrate h d)))"
proof -
  obtain r d1 where m: "exec_all (migrations (db_now d)) d = (r, d1)" by (rule prod.exhaust)
  have "db_inv (db_tables d1)" using exec_all_inv [OF migrations_keep assms, of "db_now d"] m by simp
  with m show ?thesis
    by (auto simp: migrate_def split: option.splits prod.splits sum.splits dest!: query_now intro!: seed_admin_inv)
qed


lemma db_inv_empty: "db_inv empty_tables"
  by (simp add: inv_defs empty_tables_def)

text \<open>
  C4. Whatever calls the coordinator makes on a migrated database, in any order and with any pattern
  of failing statements: every primary key and unique column is unique, every foreign key refers to an
  existing row, and a device that is marked claimed has an active session.  The migration itself may
  fail at any statement.
\<close>

theorem database_integrity:
  "keys_ok (db_tables (db_run (snd (migrate hash \<lparr>db_tables = empty_tables, db_faults = faults, db_now = now\<rparr>)) calls)) \<and>
   refs_ok (db_tables (db_run (snd (migrate hash \<lparr>db_tables = empty_tables, db_faults = faults, db_now = now\<rparr>)) calls)) \<and>
   claims_ok (db_tables (db_run (snd (migrate hash \<lparr>db_tables = empty_tables, db_faults = faults, db_now = now\<rparr>)) calls))"
  using db_run_inv [OF migrate_inv, of "\<lparr>db_tables = empty_tables, db_faults = faults, db_now = now\<rparr>" hash calls] db_inv_empty
  by (simp add: db_inv_def)

section \<open>Claiming in the database\<close>

lemma CreateSession_cases:
  assumes "CreateSession d sid serial by = (r, d')"
  obtains (failed) e where "r = Some e" "db_tables d' = db_tables d"
  | (ok) row where "r = None" "row_with dr_serial serial (t_devices (db_tables d)) = Inr row" "dr_status row \<noteq> ''claimed''"
      "sid \<notin> set (map sr_id (t_sessions (db_tables d)))" "has_device (db_tables d) serial"
      "db_tables d' = claimed_tables sid serial by (db_now d) (db_tables d)"
  using assms unfolding CreateSession_def
proof (cases rule: transaction_cases)
  case (failed e)
  then show ?thesis by (rule that(1))
next
  case (committed d0 d1)
  from CreateSession_tx_ok [OF committed(4)] committed that(2) show ?thesis by auto
qed

lemma CloseSession_cases:
  assumes "CloseSession d serial = (r, d')"
  obtains (failed) e where "r = Some e" "db_tables d' = db_tables d"
  | (ok) "r = None" "db_tables d' = closed_tables serial (db_now d) (db_tables d)"
  using assms unfolding CloseSession_def
proof (cases rule: transaction_cases)
  case (failed e)
  then show ?thesis by (rule that(1))
next
  case (committed d0 d1)
  from CloseSession_tx_ok [OF committed(4)] committed that(2) show ?thesis by auto
qed

lemma no_fault [simp]: "db_faults d = [] \<Longrightarrow> next_fault d = (False, d)"
  by (simp add: next_fault_def)

text \<open>
  C12. \<^verbatim>\<open>CreateSession\<close> is all or nothing: when it reports an error, whichever statement failed, no table has
  changed; when it succeeds the device was known and not claimed, is now claimed, and exactly the new
  active session was added.  Without failing statements it succeeds exactly when the device is known,
  not claimed, and the session id is unused.
\<close>

theorem CreateSession_atomic:
  assumes "CreateSession d sid serial claimedBy = (r, d')"
  shows "(case r of
      Some e \<Rightarrow> db_tables d' = db_tables d
    | None \<Rightarrow> (\<exists>row. row_with dr_serial serial (t_devices (db_tables d)) = Inr row \<and> dr_status row \<noteq> ''claimed'') \<and>
        db_tables d' = claimed_tables sid serial claimedBy (db_now d) (db_tables d)) \<and>
    (db_faults d = [] \<longrightarrow>
      (r = None \<longleftrightarrow> (\<exists>row. row_with dr_serial serial (t_devices (db_tables d)) = Inr row \<and> dr_status row \<noteq> ''claimed'') \<and>
        sid \<notin> set (map sr_id (t_sessions (db_tables d)))))"
proof -
  have complete: "r = None"
    if nf: "db_faults d = []" and row: "row_with dr_serial serial (t_devices (db_tables d)) = Inr row" "dr_status row \<noteq> ''claimed''"
      and new: "sid \<notin> set (map sr_id (t_sessions (db_tables d)))" for row
  proof -
    have "has_device (db_tables d) serial" using row_with_Inr [OF row(1)] by (auto simp: has_device_def)
    then have "serial \<in> dr_serial ` set (update_where (\<lambda>r. dr_serial r = serial) (claim_device (db_now d)) (t_devices (db_tables d)))"
      by (simp add: has_device_def claim_device_def)
    with assms nf row new show ?thesis
      by (auto simp: CreateSession_def transaction_def CreateSession_tx_def query_def exec_def update_device_def
          insert_session_def has_device_def new_session_def)
  qed
  from assms show ?thesis
    by (cases rule: CreateSession_cases) (use complete in \<open>auto split: option.splits\<close>)
qed


text \<open>A database with one provider and one idle device, and no failing statement.\<close>

definition ex_db :: DB where
  "ex_db = snd (RegisterDevice ''g-0'' (snd (RegisterProvider \<lparr>db_tables = empty_tables, db_faults = [], db_now = 7\<rparr>
     ''10.0.0.1'' ''lab'' ''host'' 7400 7700 ''1.0'')) ''10.0.0.1'' ''d1'' ''Pixel'' ''Google'' ''14'' 34 ''arm64'' 8000 128000
     1080 2400 420 90 ''lab'' ''10.0.0.9'' 5)"

lemmas stmt_defs = exec_def query_def next_fault_def update_device_def row_with_def update_where_def has_defs

lemma ex_db_facts:
  "db_faults ex_db = []" "db_now ex_db = 7" "t_sessions (db_tables ex_db) = []"
  "map (\<lambda>r. (dr_serial r, dr_status r, dr_platform r)) (t_devices (db_tables ex_db)) = [(''d1'', ''idle'', ''android'')]"
  "t_device_groups (db_tables ex_db) = [(''d1'', ''g-0'')]" "map group_Name (t_groups (db_tables ex_db)) = [''Public'']"
  by (simp_all add: ex_db_def RegisterDevice_def RegisterProvider_def upsert_provider_def upsert_device_def stmt_defs
      empty_tables_def ensure_public_group_def select_public_group_def insert_group_def insert_device_groups_def public_group_def)

lemma ex_db_row: "\<exists>row. row_with dr_serial ''d1'' (t_devices (db_tables ex_db)) = Inr row \<and> dr_status row = ''idle''"
  using ex_db_facts(4) by (auto simp: row_with_def split: option.splits)

theorem CreateSession_atomic_witness:
  "fst (CreateSession ex_db ''s-1'' ''d1'' ''alice'') = None \<and>
   db_tables (snd (CreateSession ex_db ''s-1'' ''d1'' ''alice'')) = claimed_tables ''s-1'' ''d1'' ''alice'' 7 (db_tables ex_db)"
  using CreateSession_atomic [of ex_db "''s-1''" "''d1''" "''alice''" "fst (CreateSession ex_db ''s-1'' ''d1'' ''alice'')"
      "snd (CreateSession ex_db ''s-1'' ''d1'' ''alice'')"] ex_db_row ex_db_facts(1-3)
  by auto

text \<open>
  \<^verbatim>\<open>CloseSession\<close> is all or nothing as well; when it succeeds the device has no active session left, is
  not claimed, an offline device stays offline, its stream port is zero, and the sessions of every other
  device are as they were.
\<close>

theorem CloseSession_closes:
  assumes "CloseSession d serial = (r, d')"
  shows "case r of
      Some e \<Rightarrow> db_tables d' = db_tables d
    | None \<Rightarrow> active_sessions serial (db_tables d') = [] \<and>
        (\<forall>s. s \<noteq> serial \<longrightarrow> active_sessions s (db_tables d') = active_sessions s (db_tables d)) \<and>
        map sr_id (t_sessions (db_tables d')) = map sr_id (t_sessions (db_tables d)) \<and>
        map (\<lambda>x. (dr_status x, dr_stream_port x)) (filter (\<lambda>x. dr_serial x = serial) (t_devices (db_tables d'))) =
        map (\<lambda>x. (if dr_status x = ''offline'' then ''offline'' else ''idle'', 0))
          (filter (\<lambda>x. dr_serial x = serial) (t_devices (db_tables d))) \<and>
        filter (\<lambda>x. dr_serial x \<noteq> serial) (t_devices (db_tables d')) = filter (\<lambda>x. dr_serial x \<noteq> serial) (t_devices (db_tables d))"
  using assms
proof (cases rule: CloseSession_cases)
  case (failed e)
  then show ?thesis by simp
next
  case ok
  have "filter (\<lambda>x. dr_serial x = serial) (update_where (\<lambda>r. dr_serial r = serial) (close_device now) xs) =
      map (close_device now) (filter (\<lambda>x. dr_serial x = serial) xs)" for now xs
    by (induction xs) (auto simp: update_where_def close_device_def)
  moreover have "filter (\<lambda>x. dr_serial x \<noteq> serial) (update_where (\<lambda>r. dr_serial r = serial) (close_device now) xs) =
      filter (\<lambda>x. dr_serial x \<noteq> serial) xs" for now xs
    by (induction xs) (auto simp: update_where_def close_device_def)
  moreover have "map sr_id (t_sessions (db_tables d')) = map sr_id (t_sessions (db_tables d))"
    using ok(2) by (simp add: closed_tables_def)
  ultimately show ?thesis
    using ok active_closed [of _ serial "db_now d" "db_tables d"] by (simp add: closed_tables_def close_device_def)
qed

theorem CloseSession_closes_witness:
  "case fst (CloseSession (snd (CreateSession ex_db ''s-1'' ''d1'' ''alice'')) ''d1'') of
     Some e \<Rightarrow> False
   | None \<Rightarrow> active_sessions ''d1'' (db_tables (snd (CloseSession (snd (CreateSession ex_db ''s-1'' ''d1'' ''alice'')) ''d1''))) = []"
proof -
  let ?d = "snd (CreateSession ex_db ''s-1'' ''d1'' ''alice'')"
  obtain r where row: "row_with dr_serial ''d1'' (t_devices (db_tables ex_db)) = Inr r" "dr_status r = ''idle''" using ex_db_row by auto
  have "db_faults ?d = []"
    using ex_db_facts(1,3) row by (simp add: CreateSession_def transaction_def CreateSession_tx_def query_def exec_def
        update_device_def insert_session_def next_fault_def)
  then have "fst (CloseSession ?d ''d1'') = None"
    by (simp add: CloseSession_def transaction_def CloseSession_tx_def exec_def update_device_def release_sessions_def)
  then obtain d2 where c: "CloseSession ?d ''d1'' = (None, d2)" by (cases "CloseSession ?d ''d1''") simp
  from CloseSession_closes [OF c] have "active_sessions ''d1'' (db_tables d2) = []" by auto
  with c show ?thesis by simp
qed

end
