(* ===== verification/Database_Claims.thy ===== *)
theory Database_Claims
  imports Database_Integrity
begin

text \<open>
  How long a claim in the database lasts: which calls end it, and what a device that goes offline in
  the middle of a session does to it.  Also what \<^verbatim>\<open>CreateUser\<close> does to an address that is already known.
\<close>

section \<open>Which calls end a claim\<close>

definition claimed :: "string \<Rightarrow> Tables \<Rightarrow> bool" where
  "claimed serial t \<longleftrightarrow> (\<exists>r \<in> set (t_devices t). dr_serial r = serial \<and> dr_status r = ''claimed'')"

definition holds_claim :: "string \<Rightarrow> (Tables \<Rightarrow> sql_error + Tables) \<Rightarrow> bool" where
  "holds_claim serial q \<longleftrightarrow> (\<forall>t t'. claimed serial t \<longrightarrow> q t = Inr t' \<longrightarrow> claimed serial t')"

lemma holds_claimI: "(\<And>t t'. q t = Inr t' \<Longrightarrow> t_devices t' = t_devices t) \<Longrightarrow> holds_claim serial q"
  by (auto simp: holds_claim_def claimed_def)

lemma claimed_update:
  assumes "claimed serial t" and "\<And>r. P r \<Longrightarrow> dr_serial r = serial \<Longrightarrow> dr_status r = ''claimed'' \<Longrightarrow>
    dr_serial (f r) = serial \<and> dr_status (f r) = ''claimed''"
  shows "claimed serial (t\<lparr>t_devices := update_where P f (t_devices t)\<rparr>)"
proof -
  obtain r where r: "r \<in> set (t_devices t)" "dr_serial r = serial" "dr_status r = ''claimed''"
    using assms(1) by (auto simp: claimed_def)
  have "(if P r then f r else r) \<in> set (update_where P f (t_devices t))" using r(1) by (auto simp: update_where_def)
  with r assms(2) [of r] show ?thesis by (auto simp: claimed_def intro!: bexI [of _ "if P r then f r else r"])
qed

lemma claim_held:
  "holds_claim serial (insert_user_groups ps)" "holds_claim serial (insert_device_groups ps)" "holds_claim serial (insert_group g)"
  "holds_claim serial (upsert_provider p)" "holds_claim serial (upsert_script s)" "holds_claim serial (delete_script sid)"
  "holds_claim serial (insert_report rp)" "holds_claim serial (upsert_user u now)" "holds_claim serial (set_user_role uid role now)"
  "holds_claim serial (delete_user uid)" "holds_claim serial (delete_group gid)" "holds_claim serial (delete_user_group uid gid)"
  "holds_claim serial (delete_device_group s' gid)" "holds_claim serial (insert_api_key k)" "holds_claim serial (delete_api_key kid)"
  "holds_claim serial (add_to_all_groups uid)"
  by (rule holds_claimI, auto simp: insert_user_groups_def insert_device_groups_def insert_group_def upsert_provider_def
      upsert_script_def delete_script_def insert_report_def upsert_user_def set_user_role_def delete_user_def delete_group_def
      delete_user_group_def delete_device_group_def insert_api_key_def delete_api_key_def add_to_all_groups_def split: if_splits)+

lemma claim_held_admins: "holds_claim serial (\<lambda>t. insert_user_groups (f t) t)"
  by (rule holds_claimI) (auto simp: insert_user_groups_def split: if_splits)

lemma claim_held_update:
  "(\<And>r. dr_serial (f r) = dr_serial r) \<Longrightarrow> (\<And>r. dr_serial r = serial \<Longrightarrow> dr_status r = ''claimed'' \<Longrightarrow> serial = s \<Longrightarrow> dr_status (f r) = ''claimed'') \<Longrightarrow>
     holds_claim serial (update_device s f)"
  by (auto simp: holds_claim_def update_device_def intro!: claimed_update)

lemma claim_held_upsert: "holds_claim serial (upsert_device new)"
  unfolding holds_claim_def upsert_device_def
  by (auto split: if_splits simp: wake_def intro!: claimed_update) (auto simp: claimed_def)

lemma exec_claim: "holds_claim serial q \<Longrightarrow> claimed serial (db_tables d) \<Longrightarrow> claimed serial (db_tables (snd (exec q d)))"
  by (cases "exec q d") (auto elim!: exec_cases simp: holds_claim_def)

lemma exec_claimD: "exec q d = (r, d') \<Longrightarrow> holds_claim serial q \<Longrightarrow> claimed serial (db_tables d) \<Longrightarrow> claimed serial (db_tables d')"
  by (auto elim!: exec_cases simp: holds_claim_def)

lemma simple_calls_claim:
  assumes "claimed serial (db_tables d)"
  shows "claimed serial (db_tables (snd (RegisterProvider d ip name host mn mx v)))"
    "claimed serial (db_tables (snd (UpdateDeviceHeartbeat d s)))"
    "claimed serial (db_tables (snd (UpdateDeviceState d s b w f i)))"
    "claimed serial (db_tables (snd (UpdateDeviceStreamPort d s p)))"
    "claimed serial (db_tables (snd (SaveScript d i n c)))"
    "claimed serial (db_tables (snd (DeleteScript d i)))"
    "claimed serial (db_tables (snd (SaveReport d i sc s bb st en r)))"
    "claimed serial (db_tables (snd (DeleteUser d i)))"
    "claimed serial (db_tables (snd (DeleteGroup d i)))"
    "claimed serial (db_tables (snd (RemoveUserFromGroup d i i')))"
    "claimed serial (db_tables (snd (AddDeviceToGroup d i i')))"
    "claimed serial (db_tables (snd (RemoveDeviceFromGroup d i i')))"
    "claimed serial (db_tables (snd (CreateApiKey d k)))"
    "claimed serial (db_tables (snd (DeleteApiKey d i)))"
    "s \<noteq> serial \<Longrightarrow> claimed serial (db_tables (snd (ReleaseDevice d s)))"
  unfolding RegisterProvider_def ReleaseDevice_def UpdateDeviceHeartbeat_def UpdateDeviceState_def UpdateDeviceStreamPort_def
    SaveScript_def DeleteScript_def SaveReport_def DeleteUser_def DeleteGroup_def RemoveUserFromGroup_def AddDeviceToGroup_def
    RemoveDeviceFromGroup_def CreateApiKey_def DeleteApiKey_def
  using assms by (auto intro!: exec_claim claim_held claim_held_update simp: wake_def)

lemma group_calls_claim:
  assumes "claimed serial (db_tables d)"
  shows "claimed serial (db_tables (snd (CreateUser d u)))" "claimed serial (db_tables (snd (UpdateUserRole d i r)))"
    "claimed serial (db_tables (snd (CreateGroup d g)))" "claimed serial (db_tables (snd (AddUserToGroup d i i')))"
  using assms
  by (auto simp: CreateUser_def UpdateUserRole_def CreateGroup_def AddUserToGroup_def
      split: prod.splits option.splits sum.splits intro!: exec_claim claim_held claim_held_admins
      dest!: query_now exec_claimD [OF _ claim_held(8)] exec_claimD [OF _ claim_held(9)] exec_claimD [OF _ claim_held(3)]
        exec_claimD [OF _ claim_held(1)])

lemma RegisterDevice_claim:
  assumes "claimed serial (db_tables d)"
  shows "claimed serial (db_tables (snd (RegisterDevice newID d p s m mf a sdk abi ram st w h dpi b wifi ip conn)))"
proof -
  have pub: "claimed serial (db_tables d2)" if "ensure_public_group newID d1 = (g, d2)" "claimed serial (db_tables d1)" for d1 g d2
    using that by (auto simp: ensure_public_group_def split: prod.splits sum.splits sql_error.splits option.splits
        dest!: query_now exec_claimD [OF _ claim_held(3)])
  show ?thesis unfolding RegisterDevice_def Let_def
    using assms pub exec_claimD [OF _ claim_held_upsert, of _ d]
    by (auto split: prod.splits option.splits sum.splits intro!: exec_claim claim_held)
qed

lemma claimed_claim: "claimed serial t \<Longrightarrow> claimed serial (claimed_tables sid s by now t)"
  using claimed_update [of serial t "\<lambda>r. dr_serial r = s" "claim_device now"]
  by (simp add: claimed_tables_def claim_device_def claimed_def)

lemma claimed_tables_claimed:
  assumes "has_device t serial"
  shows "claimed serial (claimed_tables sid serial by now t)"
proof -
  obtain x where x: "x \<in> set (t_devices t)" "dr_serial x = serial" using assms by (auto simp: has_device_def)
  have "claim_device now x \<in> set (update_where (\<lambda>r. dr_serial r = serial) (claim_device now) (t_devices t))"
    using x by (auto simp: update_where_def)
  with x show ?thesis by (auto simp: claimed_def claimed_tables_def claim_device_def intro!: bexI [of _ "claim_device now x"])
qed

lemma claimed_closed_other: "claimed serial t \<Longrightarrow> s \<noteq> serial \<Longrightarrow> claimed serial (closed_tables s now t)"
  by (force simp: closed_tables_def claimed_def update_where_def)

definition ends_claim :: "string \<Rightarrow> db_call \<Rightarrow> bool" where
  "ends_claim serial c \<longleftrightarrow> c = Call_CloseSession serial \<or> c = Call_ReleaseDevice serial"

lemma db_step_claim:
  assumes "\<not> ends_claim serial c" "claimed serial (db_tables d)"
  shows "claimed serial (db_tables (snd (db_step d c)))"
proof (cases c)
  case (Call_CreateSession i s b)
  then show ?thesis
    using assms by (cases "CreateSession d i s b") (auto elim!: CreateSession_cases intro: claimed_claim)
next
  case (Call_CloseSession s)
  then show ?thesis
    using assms by (cases "CloseSession d s") (auto simp: ends_claim_def elim!: CloseSession_cases intro: claimed_closed_other)
qed (use assms in \<open>auto simp: ends_claim_def simple_calls_claim group_calls_claim RegisterDevice_claim\<close>)

lemma db_run_claim:
  "\<forall>(c, f, n) \<in> set cs. \<not> ends_claim serial c \<Longrightarrow> claimed serial (db_tables d) \<Longrightarrow> claimed serial (db_tables (db_run d cs))"
  by (induction d cs rule: db_run.induct) (auto simp: db_step_claim)

lemma claimed_refused:
  assumes "claimed serial (db_tables d)" "db_inv (db_tables d)"
  shows "fst (CreateSession d sid serial by) \<noteq> None"
proof
  obtain r d' where c: "CreateSession d sid serial by = (r, d')" by (rule prod.exhaust)
  assume "fst (CreateSession d sid serial by) = None"
  with c obtain row where row: "row \<in> set (t_devices (db_tables d))" "dr_serial row = serial" "dr_status row \<noteq> ''claimed''"
    by (auto elim!: CreateSession_cases dest: row_with_Inr)
  obtain x where x: "x \<in> set (t_devices (db_tables d))" "dr_serial x = serial" "dr_status x = ''claimed''"
    using assms(1) by (auto simp: claimed_def)
  have "distinct (map dr_serial (t_devices (db_tables d)))" using assms(2) by (simp add: db_inv_def keys_ok_def)
  with row x show False by (auto simp: distinct_map inj_on_def)
qed

text \<open>
  A claim in the database is exclusive: after a successful \<^verbatim>\<open>CreateSession\<close>, and any further history of
  calls and failures in which nobody closes the session of this device or reports it gone, no other
  \<^verbatim>\<open>CreateSession\<close> for the device succeeds.
\<close>

theorem database_claim_exclusive:
  assumes "db_inv (db_tables d)" and "fst (CreateSession d sid serial by) = None"
    and "\<forall>(c, faults, now) \<in> set calls. c \<noteq> Call_CloseSession serial \<and> c \<noteq> Call_ReleaseDevice serial"
  shows "fst (CreateSession (db_run (snd (CreateSession d sid serial by)) calls) sid' serial by') \<noteq> None"
proof -
  obtain r d1 where c: "CreateSession d sid serial by = (r, d1)" by (rule prod.exhaust)
  have inv: "db_inv (db_tables d1)" by (rule CreateSession_inv [OF c assms(1)])
  from c assms(2) have "claimed serial (db_tables d1)"
    by (auto elim!: CreateSession_cases simp: claimed_tables_claimed)
  with assms(3) have "claimed serial (db_tables (db_run d1 calls))"
    by (intro db_run_claim) (auto simp: ends_claim_def)
  from claimed_refused [OF this db_run_inv [OF inv]] c show ?thesis by simp
qed

lemma ex_db_claim: "fst (CreateSession ex_db ''s-1'' ''d1'' ''alice'') = None"
proof -
  obtain r where r: "row_with dr_serial ''d1'' (t_devices (db_tables ex_db)) = Inr r" "dr_status r = ''idle''"
    using ex_db_row by auto
  then have "''d1'' \<in> dr_serial ` set (t_devices (db_tables ex_db))" by (metis row_with_Inr image_eqI)
  with r show ?thesis
    using ex_db_facts(1,3)
    by (simp add: CreateSession_def transaction_def CreateSession_tx_def query_def exec_def update_device_def
        insert_session_def next_fault_def has_device_def new_session_def claim_device_def)
qed

theorem database_claim_exclusive_witness:
  "fst (CreateSession (db_run (snd (CreateSession ex_db ''s-1'' ''d1'' ''alice''))
     [(Call_UpdateDeviceHeartbeat ''d1'', [True], 8), (Call_CreateSession ''s-2'' ''d1'' ''bob'', [], 9)]) ''s-3'' ''d1'' ''bob'') \<noteq> None"
proof -
  have "db_inv (db_tables ex_db)"
    by (simp add: ex_db_def RegisterDevice_inv simple_calls_inv db_inv_empty)
  with ex_db_claim show ?thesis by (intro database_claim_exclusive) auto
qed


section \<open>A device that goes away during a session\<close>

lemma CreateSession_no_fault:
  assumes "db_faults d = []" and "row_with dr_serial serial (t_devices (db_tables d)) = Inr row" "dr_status row \<noteq> ''claimed''"
    and "sid \<notin> set (map sr_id (t_sessions (db_tables d)))"
  shows "CreateSession d sid serial by = (None, d\<lparr>db_tables := claimed_tables sid serial by (db_now d) (db_tables d)\<rparr>)"
proof -
  have "serial \<in> dr_serial ` set (t_devices (db_tables d))" using assms(2) by (metis row_with_Inr image_eqI)
  with assms show ?thesis
    by (simp add: CreateSession_def transaction_def CreateSession_tx_def query_def exec_def update_device_def
        insert_session_def next_fault_def has_device_def new_session_def claim_device_def claimed_tables_def)
qed

lemma ReleaseDevice_no_fault:
  "db_faults d = [] \<Longrightarrow> ReleaseDevice d serial = (None, d\<lparr>db_tables := (db_tables d)\<lparr>t_devices :=
     update_where (\<lambda>r. dr_serial r = serial) (\<lambda>r. r\<lparr>dr_status := ''offline'', dr_updated_at := db_now d\<rparr>) (t_devices (db_tables d))\<rparr>\<rparr>)"
  by (simp add: ReleaseDevice_def exec_def update_device_def)

lemma row_with_update:
  assumes "row_with key k tbl = Inr r" and "\<And>r. key r = k \<Longrightarrow> key (f r) = k"
  shows "row_with key k (update_where (\<lambda>r. key r = k) f tbl) = Inr (f r)"
proof -
  have "find (\<lambda>r. key r = k) tbl = Some r" using assms(1) by (auto simp: row_with_def split: option.splits)
  then have "find (\<lambda>r. key r = k) (update_where (\<lambda>r. key r = k) f tbl) = Some (f r)"
    by (induction tbl) (auto simp: update_where_def assms(2) split: if_splits)
  then show ?thesis by (simp add: row_with_def)
qed

text \<open>
  \<^verbatim>\<open>ReleaseDevice\<close>, which runs when a device or its provider goes away, marks the device offline but leaves
  its session active, and \<^verbatim>\<open>CreateSession\<close> refuses only the status claimed: the device can be claimed again at
  once, even while it is offline, and then has two active sessions.
\<close>

theorem released_device_has_two_sessions:
  assumes nf: "db_faults d = []" and idle: "row_with dr_serial serial (t_devices (db_tables d)) = Inr row" "dr_status row \<noteq> ''claimed''"
    and ids: "sid \<notin> set (map sr_id (t_sessions (db_tables d)))" "sid' \<notin> set (map sr_id (t_sessions (db_tables d)))" "sid \<noteq> sid'"
  shows "\<exists>d1 d2 d3. CreateSession d sid serial by = (None, d1) \<and> ReleaseDevice d1 serial = (None, d2) \<and>
    CreateSession d2 sid' serial by' = (None, d3) \<and>
    map sr_id (active_sessions serial (db_tables d3)) = map sr_id (active_sessions serial (db_tables d)) @ [sid, sid']"
proof -
  define d1 where "d1 = d\<lparr>db_tables := claimed_tables sid serial by (db_now d) (db_tables d)\<rparr>"
  define d2 where "d2 = snd (ReleaseDevice d1 serial)"
  have 1: "CreateSession d sid serial by = (None, d1)"
    unfolding d1_def by (rule CreateSession_no_fault [OF nf idle ids(1)])
  have nf1: "db_faults d1 = []" by (simp add: d1_def nf)
  have 2: "ReleaseDevice d1 serial = (None, d2)" by (simp add: d2_def ReleaseDevice_no_fault [OF nf1])
  have row1: "row_with dr_serial serial (t_devices (db_tables d1)) = Inr (claim_device (db_now d) row)"
    using row_with_update [OF idle(1), of "claim_device (db_now d)"] by (simp add: d1_def claimed_tables_def claim_device_def)
  have "\<exists>row2. row_with dr_serial serial (t_devices (db_tables d2)) = Inr row2 \<and> dr_status row2 = ''offline''"
    using row_with_update [OF row1] by (simp add: d2_def ReleaseDevice_no_fault [OF nf1])
  then obtain row2 where row2: "row_with dr_serial serial (t_devices (db_tables d2)) = Inr row2" "dr_status row2 = ''offline''" by auto
  have sess: "t_sessions (db_tables d2) = t_sessions (db_tables d) @ [new_session sid serial by (db_now d)]"
  proof -
    have "t_sessions (db_tables d2) = t_sessions (db_tables d1)" by (simp add: d2_def ReleaseDevice_no_fault [OF nf1])
    then show ?thesis by (simp add: d1_def claimed_tables_def)
  qed
  have "CreateSession d2 sid' serial by' = (None, d2\<lparr>db_tables := claimed_tables sid' serial by' (db_now d2) (db_tables d2)\<rparr>)"
    using nf1 row2 sess ids
    by (intro CreateSession_no_fault) (auto simp: d2_def ReleaseDevice_no_fault [OF nf1] new_session_def)
  with 1 2 sess show ?thesis by (auto simp: claimed_tables_def active_sessions_def new_session_def)
qed

theorem released_device_has_two_sessions_witness:
  "\<exists>d1 d2 d3. CreateSession ex_db ''s-1'' ''d1'' ''alice'' = (None, d1) \<and> ReleaseDevice d1 ''d1'' = (None, d2) \<and>
     CreateSession d2 ''s-2'' ''d1'' ''bob'' = (None, d3) \<and> map sr_id (active_sessions ''d1'' (db_tables d3)) = [''s-1'', ''s-2'']"
proof -
  obtain r where "row_with dr_serial ''d1'' (t_devices (db_tables ex_db)) = Inr r" "dr_status r \<noteq> ''claimed''"
    using ex_db_row by auto
  from released_device_has_two_sessions [OF ex_db_facts(1) this, of "''s-1''" "''s-2''" "''alice''" "''bob''"] ex_db_facts(3)
  show ?thesis by (simp add: active_sessions_def)
qed

section \<open>Registering an address again\<close>

text \<open>
  \<^verbatim>\<open>CreateUser\<close> with an address that is already known overwrites the account's password hash and role,
  also with an empty hash, and reports success; the account keeps its old id.  The id of the call is
  never stored, so the step that puts an administrator into every group fails on its foreign key and is
  ignored: an account that becomes administrator this way joins no group.
\<close>

theorem CreateUser_known_email:
  assumes nf: "db_faults d = []" and old: "row_with user_Email (user_Email u) (t_users (db_tables d)) = Inr v"
    and fresh: "\<not> has_user (db_tables d) (user_ID u)" and admin: "user_Role u = RoleAdmin" and groups: "t_groups (db_tables d) \<noteq> []"
  shows "\<exists>d' w. CreateUser d u = (None, d') \<and> GetUserByEmail d' (user_Email u) = (Inr w, d') \<and>
    user_ID w = user_ID v \<and> user_PasswordHash w = user_PasswordHash u \<and> user_Role w = RoleAdmin \<and>
    t_user_groups (db_tables d') = t_user_groups (db_tables d) \<and> \<not> has_user (db_tables d') (user_ID u)"
proof -
  let ?f = "\<lambda>r. r\<lparr>user_PasswordHash := user_PasswordHash u, user_Role := user_Role u, user_AuthProvider := user_AuthProvider u,
    user_UpdatedAt := db_now d\<rparr>"
  let ?t = "(db_tables d)\<lparr>t_users := update_where (\<lambda>r. user_Email r = user_Email u) ?f (t_users (db_tables d))\<rparr>"
  have known: "user_Email u \<in> user_Email ` set (t_users (db_tables d))" using old by (metis row_with_Inr image_eqI)
  have nu: "\<not> has_user ?t (user_ID u)" using fresh by (simp add: has_user_def)
  obtain g gs where "t_groups (db_tables d) = g # gs" using groups by (cases "t_groups (db_tables d)") auto
  then have "add_to_all_groups (user_ID u) ?t = Inl ForeignKeyViolation"
    using nu by (auto simp: add_to_all_groups_def insert_user_groups_def has_defs)
  then have c: "CreateUser d u = (None, d\<lparr>db_tables := ?t\<rparr>)"
    using nf known admin by (simp add: CreateUser_def exec_def upsert_user_def next_fault_def)
  have "row_with user_Email (user_Email u) (t_users ?t) = Inr (?f v)"
    using row_with_update [OF old, of ?f] by simp
  with c nf nu admin show ?thesis by (auto simp: GetUserByEmail_def query_def)
qed

definition ex_user :: "string \<Rightarrow> string \<Rightarrow> string \<Rightarrow> User" where
  "ex_user uid hash role = \<lparr>user_ID = uid, user_Email = ''a@b.c'', user_PasswordHash = hash, user_Role = role,
     user_AuthProvider = ''local'', user_CreatedAt = 1, user_UpdatedAt = 1\<rparr>"

theorem CreateUser_known_email_witness:
  "let d = snd (CreateUser (snd (CreateGroup \<lparr>db_tables = empty_tables, db_faults = [], db_now = 3\<rparr>
                   (public_group ''g'' '''' 2))) (ex_user ''u-1'' ''h1'' ''user''))
   in \<exists>d' w. CreateUser d (ex_user ''u-2'' '''' ''admin'') = (None, d') \<and> GetUserByEmail d' ''a@b.c'' = (Inr w, d') \<and>
        user_ID w = ''u-1'' \<and> user_PasswordHash w = '''' \<and> t_user_groups (db_tables d') = []"
proof -
  define d where "d = snd (CreateUser (snd (CreateGroup \<lparr>db_tables = empty_tables, db_faults = [], db_now = 3\<rparr>
                   (public_group ''g'' '''' 2))) (ex_user ''u-1'' ''h1'' ''user''))"
  have d: "d = \<lparr>db_tables = empty_tables\<lparr>t_groups := [public_group ''g'' '''' 2], t_users := [ex_user ''u-1'' ''h1'' ''user'']\<rparr>,
      db_faults = [], db_now = 3\<rparr>"
    by (simp add: d_def CreateGroup_def CreateUser_def exec_def next_fault_def insert_group_def upsert_user_def has_defs
        empty_tables_def public_group_def insert_user_groups_def RoleAdmin_def ex_user_def)
  have old: "row_with user_Email (user_Email (ex_user ''u-2'' '''' ''admin'')) (t_users (db_tables d)) = Inr (ex_user ''u-1'' ''h1'' ''user'')"
    by (simp add: d row_with_def ex_user_def)
  have pre: "db_faults d = []" "\<not> has_user (db_tables d) (user_ID (ex_user ''u-2'' '''' ''admin''))"
    "user_Role (ex_user ''u-2'' '''' ''admin'') = RoleAdmin" "t_groups (db_tables d) \<noteq> []" "t_user_groups (db_tables d) = []"
    by (simp_all add: d has_user_def ex_user_def RoleAdmin_def empty_tables_def)
  obtain d' w where "CreateUser d (ex_user ''u-2'' '''' ''admin'') = (None, d')" "GetUserByEmail d' ''a@b.c'' = (Inr w, d')"
    "user_ID w = ''u-1''" "user_PasswordHash w = ''''" "t_user_groups (db_tables d') = []"
    using CreateUser_known_email [OF pre(1) old pre(2-4)] pre(5) by (auto simp: ex_user_def)
  then show ?thesis unfolding d_def [symmetric] Let_def by blast
qed


end
