(* ===== verification/Auth.thy ===== *)
theory Auth
  imports Database_Claims
begin

text \<open>
  \<^verbatim>\<open>src/internal/auth\<close>: users and API keys (\<^verbatim>\<open>auth_service.go\<close>), tokens and the cache of the identity
  provider's keys (\<^verbatim>\<open>jwt.go\<close>), the middleware in front of every handler, and the three handlers.

  The packages \<^verbatim>\<open>bcrypt\<close>, \<^verbatim>\<open>sha256\<close> and \<^verbatim>\<open>golang-jwt\<close> are the parameters of the record \<^verbatim>\<open>auth_lib\<close>; so are the
  identity provider, as the answer to the request for its key set, and the calendar of \<^verbatim>\<open>AddDate\<close>.
  \<^verbatim>\<open>ParseWithClaims\<close> is used as it is documented: read the header, ask the callback for the key, verify
  the signature and the validity period with it.  A request body is given decoded, \<^term>\<open>None\<close> when the decoder fails;
  \<^verbatim>\<open>time.Now()\<close> and the fresh identifiers of \<^verbatim>\<open>uuid.New()\<close> are arguments.
\<close>

section \<open>context.go\<close>

record UserInfo =
  ui_ID :: string
  ui_Email :: string
  ui_Role :: string
  ui_Groups :: "string list"

text \<open>The request context holds at most the user; \<^verbatim>\<open>NewContext\<close> stores it and \<^verbatim>\<open>FromContext\<close> reads it.\<close>

type_synonym context_user = "UserInfo option"

definition NewContext :: "context_user \<Rightarrow> UserInfo \<Rightarrow> context_user" where
  "NewContext ctx u = Some u"

definition FromContext :: "context_user \<Rightarrow> UserInfo \<times> bool" where
  "FromContext ctx =
     (case ctx of Some u \<Rightarrow> (u, True) | None \<Rightarrow> (\<lparr>ui_ID = '''', ui_Email = '''', ui_Role = '''', ui_Groups = []\<rparr>, False))"

section \<open>jwt.go\<close>

record Claims =
  cl_Issuer :: string
  cl_ExpiresAt :: instant
  cl_IssuedAt :: instant
  cl_NotBefore :: instant
  cl_UserID :: string
  cl_Email :: string
  cl_Role :: string
  cl_Groups :: "string list"

type_synonym rsa_key = nat

datatype jwt_key = HMACKey string | RSAKey rsa_key

datatype kid_header = KidMissing | KidNotString | Kid string

record token_header =
  th_alg :: string
  th_kid :: kid_header

record JWK =
  jwk_Kty :: string
  jwk_Kid :: string
  jwk_X5c :: "string list"

datatype auth_error =
    EmptyCredentials
  | HashError
  | DBError sql_error
  | InvalidLogin
  | ExternalProvider string
  | SignError
  | RandError
  | InvalidApiKey
  | ExpiredApiKey
  | MalformedToken
  | JWKSNotConfigured
  | MissingKid
  | BadKid
  | KeyFetch string auth_error
  | UnexpectedMethod string
  | SignatureOrPeriod
  | FetchFailed
  | JWKSStatus int
  | JWKSDecode
  | NoValidKeys
  | KidNotFound string

text \<open>The answer to \<^verbatim>\<open>client.Get(m.oidcJWKSURL)\<close>.\<close>

datatype jwks_answer = NoAnswer | Answer int "JWK list option"

record auth_lib =
  lib_bcrypt_hash :: "string \<Rightarrow> string option"
  lib_bcrypt_match :: "string \<Rightarrow> string \<Rightarrow> bool"
  lib_sha256_hex :: "string \<Rightarrow> string"
  lib_jwt_sign :: "string \<Rightarrow> Claims \<Rightarrow> string option"
  lib_jwt_header :: "string \<Rightarrow> token_header option"
  lib_jwt_verify :: "string \<Rightarrow> jwt_key \<Rightarrow> instant \<Rightarrow> Claims option"
  lib_rsa_from_cert :: "string \<Rightarrow> rsa_key option"
  lib_jwks :: "string \<Rightarrow> jwks_answer"
  lib_add_days :: "instant \<Rightarrow> int \<Rightarrow> instant"

record JWTManager =
  jm_secret :: string
  jm_issuer :: string
  jm_oidcJWKSURL :: string
  jm_jwkCache :: "string \<rightharpoonup> rsa_key"
  jm_lastFetch :: instant

text \<open>The zero value of \<^verbatim>\<open>time.Time\<close> lies before every clock reading by far more than an hour.\<close>

definition zero_time :: instant where "zero_time = - (62135596800 * 10 ^ 9)"

definition second :: duration where "second = 10 ^ 9"
definition hour :: duration where "hour = 3600 * second"

definition NewJWTManager :: "string \<Rightarrow> string \<Rightarrow> string \<Rightarrow> JWTManager" where
  "NewJWTManager secret issuer oidcJWKSURL =
     \<lparr>jm_secret = secret, jm_issuer = issuer, jm_oidcJWKSURL = oidcJWKSURL, jm_jwkCache = Map.empty, jm_lastFetch = zero_time\<rparr>"

text \<open>\<^verbatim>\<open>jwt.NewNumericDate\<close> cuts an instant down to whole seconds.\<close>

definition NewNumericDate :: "instant \<Rightarrow> instant" where
  "NewNumericDate t = t - t mod second"

definition GenerateToken ::
  "auth_lib \<Rightarrow> JWTManager \<Rightarrow> instant \<Rightarrow> string \<Rightarrow> string \<Rightarrow> string \<Rightarrow> string list \<Rightarrow> duration \<Rightarrow> auth_error + string" where
  "GenerateToken lib m now userID email role groups dur =
     (case lib_jwt_sign lib (jm_secret m)
        \<lparr>cl_Issuer = jm_issuer m, cl_ExpiresAt = NewNumericDate (now + dur), cl_IssuedAt = NewNumericDate now,
         cl_NotBefore = NewNumericDate now, cl_UserID = userID, cl_Email = email, cl_Role = role, cl_Groups = groups\<rparr> of
        None \<Rightarrow> Inl SignError | Some tok \<Rightarrow> Inr tok)"

fun cache_keys :: "auth_lib \<Rightarrow> JWK list \<Rightarrow> (string \<rightharpoonup> rsa_key) \<Rightarrow> (string \<rightharpoonup> rsa_key)" where
  "cache_keys lib [] c = c"
| "cache_keys lib (k # ks) c =
     (if jwk_Kty k \<noteq> ''RSA'' then cache_keys lib ks c
      else (case jwk_X5c k of
              [] \<Rightarrow> cache_keys lib ks c
            | cert # _ \<Rightarrow>
                (case lib_rsa_from_cert lib cert of
                   Some pk \<Rightarrow> cache_keys lib ks (c(jwk_Kid k \<mapsto> pk))
                 | None \<Rightarrow> cache_keys lib ks c)))"

definition fetchJWKS :: "auth_lib \<Rightarrow> JWTManager \<Rightarrow> instant \<Rightarrow> auth_error option \<times> JWTManager" where
  "fetchJWKS lib m now =
     (case lib_jwks lib (jm_oidcJWKSURL m) of
        NoAnswer \<Rightarrow> (Some FetchFailed, m)
      | Answer status body \<Rightarrow>
          if status \<noteq> 200 then (Some (JWKSStatus status), m)
          else (case body of
                  None \<Rightarrow> (Some JWKSDecode, m)
                | Some keys \<Rightarrow>
                    let newCache = cache_keys lib keys Map.empty
                    in if list_all (\<lambda>k. newCache (jwk_Kid k) = None) keys then (Some NoValidKeys, m)
                       else (None, m\<lparr>jm_jwkCache := newCache, jm_lastFetch := now\<rparr>)))"

text \<open>The first look at the cache and the second one under the write lock see the same state here.\<close>

definition getOIDCPublicKey :: "auth_lib \<Rightarrow> JWTManager \<Rightarrow> instant \<Rightarrow> string \<Rightarrow> (auth_error + rsa_key) \<times> JWTManager" where
  "getOIDCPublicKey lib m now kid =
     (case jm_jwkCache m kid of
        Some key \<Rightarrow>
          if now - jm_lastFetch m < hour then (Inr key, m)
          else (case fetchJWKS lib m now of
                  (Some _, m) \<Rightarrow> (Inr key, m)
                | (None, m) \<Rightarrow>
                    (case jm_jwkCache m kid of Some key \<Rightarrow> (Inr key, m) | None \<Rightarrow> (Inl (KidNotFound kid), m)))
      | None \<Rightarrow>
          (case fetchJWKS lib m now of
             (Some e, m) \<Rightarrow> (Inl e, m)
           | (None, m) \<Rightarrow>
               (case jm_jwkCache m kid of Some key \<Rightarrow> (Inr key, m) | None \<Rightarrow> (Inl (KidNotFound kid), m))))"

definition keyfunc :: "auth_lib \<Rightarrow> JWTManager \<Rightarrow> instant \<Rightarrow> token_header \<Rightarrow> (auth_error + jwt_key) \<times> JWTManager" where
  "keyfunc lib m now h =
     (if th_alg h = ''HS256'' then (Inr (HMACKey (jm_secret m)), m)
      else if th_alg h = ''RS256'' then
        (if jm_oidcJWKSURL m = '''' then (Inl JWKSNotConfigured, m)
         else (case th_kid h of
                 KidMissing \<Rightarrow> (Inl MissingKid, m)
               | KidNotString \<Rightarrow> (Inl BadKid, m)
               | Kid kid \<Rightarrow>
                   (case getOIDCPublicKey lib m now kid of
                      (Inl e, m) \<Rightarrow> (Inl (KeyFetch kid e), m)
                    | (Inr pk, m) \<Rightarrow> (Inr (RSAKey pk), m))))
      else (Inl (UnexpectedMethod (th_alg h)), m))"

definition VerifyToken :: "auth_lib \<Rightarrow> JWTManager \<Rightarrow> instant \<Rightarrow> string \<Rightarrow> (auth_error + Claims) \<times> JWTManager" where
  "VerifyToken lib m now tokenStr =
     (case lib_jwt_header lib tokenStr of
        None \<Rightarrow> (Inl MalformedToken, m)
      | Some h \<Rightarrow>
          (case keyfunc lib m now h of
             (Inl e, m) \<Rightarrow> (Inl e, m)
           | (Inr key, m) \<Rightarrow>
               (case lib_jwt_verify lib tokenStr key now of
                  None \<Rightarrow> (Inl SignatureOrPeriod, m)
                | Some claims \<Rightarrow> (Inr claims, m))))"

section \<open>auth_service.go\<close>

record AuthService =
  as_db :: DB
  as_jwt :: JWTManager

definition NewAuthService :: "DB \<Rightarrow> JWTManager \<Rightarrow> AuthService" where
  "NewAuthService db jm = \<lparr>as_db = db, as_jwt = jm\<rparr>"

fun create_groups :: "(nat \<Rightarrow> string) \<Rightarrow> nat \<Rightarrow> instant \<Rightarrow> string list \<Rightarrow> DB \<Rightarrow> DB" where
  "create_groups ids i now [] d = d"
| "create_groups ids i now (gName # gs) d =
     create_groups ids (Suc i) now gs
       (snd (CreateGroup d \<lparr>group_ID = ids i, group_Name = gName, group_Description = ''Group for '' @ gName,
                            group_CreatedAt = now, group_ExpiresAt = None\<rparr>))"

fun add_to_named :: "string \<Rightarrow> Group \<Rightarrow> string list \<Rightarrow> DB \<Rightarrow> DB" where
  "add_to_named uid dbG [] d = d"
| "add_to_named uid dbG (gName # gs) d =
     add_to_named uid dbG gs (if group_Name dbG = gName then snd (AddUserToGroup d uid (group_ID dbG)) else d)"

fun add_to_groups :: "string \<Rightarrow> Group list \<Rightarrow> string list \<Rightarrow> DB \<Rightarrow> DB" where
  "add_to_groups uid [] names d = d"
| "add_to_groups uid (dbG # gs) names d = add_to_groups uid gs names (add_to_named uid dbG names d)"

definition local_user :: "string \<Rightarrow> string \<Rightarrow> string \<Rightarrow> UserRole \<Rightarrow> instant \<Rightarrow> User" where
  "local_user uid email hash role now =
     \<lparr>user_ID = uid, user_Email = email, user_PasswordHash = hash, user_Role = role, user_AuthProvider = ''local'',
      user_CreatedAt = now, user_UpdatedAt = now\<rparr>"

definition RegisterLocalUser ::
  "auth_lib \<Rightarrow> (nat \<Rightarrow> string) \<Rightarrow> instant \<Rightarrow> AuthService \<Rightarrow> string \<Rightarrow> string \<Rightarrow> UserRole \<Rightarrow> string list \<Rightarrow>
   (auth_error + User) \<times> AuthService" where
  "RegisterLocalUser lib ids now s email password role groups =
     (if email = '''' \<or> password = '''' then (Inl EmptyCredentials, s)
      else (case lib_bcrypt_hash lib password of
              None \<Rightarrow> (Inl HashError, s)
            | Some hash \<Rightarrow>
                let user = local_user (ids 0) email hash role now
                in (case CreateUser (as_db s) user of
                      (Some e, d) \<Rightarrow> (Inl (DBError e), s\<lparr>as_db := d\<rparr>)
                    | (None, d) \<Rightarrow>
                        let d = create_groups ids 1 now groups d
                        in (case ListGroups d of
                              (Inl _, d) \<Rightarrow> (Inr user, s\<lparr>as_db := d\<rparr>)
                            | (Inr dbGroups, d) \<Rightarrow> (Inr user, s\<lparr>as_db := add_to_groups (user_ID user) dbGroups groups d\<rparr>)))))"

text \<open>The names of a user's groups; on an error both callers go on without groups.\<close>

definition group_names :: "DB \<Rightarrow> string \<Rightarrow> string list \<times> DB" where
  "group_names d uid =
     (case GetUserGroups d uid of (Inl _, d) \<Rightarrow> ([], d) | (Inr gs, d) \<Rightarrow> (map group_Name gs, d))"

definition Login :: "auth_lib \<Rightarrow> instant \<Rightarrow> AuthService \<Rightarrow> string \<Rightarrow> string \<Rightarrow> (auth_error + string) \<times> AuthService" where
  "Login lib now s email password =
     (case GetUserByEmail (as_db s) email of
        (Inl e, d) \<Rightarrow> (Inl (if e = ErrNoRows then InvalidLogin else DBError e), s\<lparr>as_db := d\<rparr>)
      | (Inr user, d) \<Rightarrow>
          if user_AuthProvider user \<noteq> ''local'' then (Inl (ExternalProvider (user_AuthProvider user)), s\<lparr>as_db := d\<rparr>)
          else if \<not> lib_bcrypt_match lib (user_PasswordHash user) password then (Inl InvalidLogin, s\<lparr>as_db := d\<rparr>)
          else (case group_names d (user_ID user) of (names, d) \<Rightarrow>
                  (GenerateToken lib (as_jwt s) now (user_ID user) (user_Email user) (user_Role user) names (24 * hour),
                   s\<lparr>as_db := d\<rparr>)))"

definition hex_digit :: "nat \<Rightarrow> char" where
  "hex_digit n = (if n < 10 then char_of (48 + n) else char_of (87 + n))"

definition hex_encode :: "nat list \<Rightarrow> string" where
  "hex_encode bs = concat (map (\<lambda>b. [hex_digit (b div 16 mod 16), hex_digit (b mod 16)]) bs)"

text \<open>\<^verbatim>\<open>rnd\<close> is what \<^verbatim>\<open>rand.Read\<close> delivers, 24 bytes or an error.\<close>

definition CreateApiKeyForUser ::
  "auth_lib \<Rightarrow> string \<Rightarrow> nat list option \<Rightarrow> instant \<Rightarrow> AuthService \<Rightarrow> string \<Rightarrow> string \<Rightarrow> instant option \<Rightarrow>
   (auth_error + string) \<times> AuthService" where
  "CreateApiKeyForUser lib newID rnd now s userID name expiration =
     (case rnd of
        None \<Rightarrow> (Inl RandError, s)
      | Some b \<Rightarrow>
          let rawToken = ''pt_live_'' @ hex_encode b;
              key = \<lparr>key_ID = newID, key_UserID = userID, key_Name = name, key_TokenHash = lib_sha256_hex lib rawToken,
                     key_CreatedAt = now, key_ExpiresAt = expiration\<rparr>
          in (case CreateApiKey (as_db s) key of
                (Some e, d) \<Rightarrow> (Inl (DBError e), s\<lparr>as_db := d\<rparr>)
              | (None, d) \<Rightarrow> (Inr rawToken, s\<lparr>as_db := d\<rparr>)))"

definition VerifyApiKey :: "auth_lib \<Rightarrow> instant \<Rightarrow> AuthService \<Rightarrow> string \<Rightarrow> (auth_error + User) \<times> AuthService" where
  "VerifyApiKey lib now s rawToken =
     (case GetApiKeyByHash (as_db s) (lib_sha256_hex lib rawToken) of
        (Inl e, d) \<Rightarrow> (Inl (if e = ErrNoRows then InvalidApiKey else DBError e), s\<lparr>as_db := d\<rparr>)
      | (Inr key, d) \<Rightarrow>
          if (case key_ExpiresAt key of None \<Rightarrow> False | Some t \<Rightarrow> t < now) then (Inl ExpiredApiKey, s\<lparr>as_db := d\<rparr>)
          else (case GetUserByID d (key_UserID key) of
                  (Inl e, d) \<Rightarrow> (Inl (DBError e), s\<lparr>as_db := d\<rparr>)
                | (Inr user, d) \<Rightarrow> (Inr user, s\<lparr>as_db := d\<rparr>)))"

section \<open>Requests and responses\<close>

text \<open>\<^verbatim>\<open>Header.Get\<close> and \<^verbatim>\<open>Query().Get\<close> answer the empty string for a name that is missing.\<close>

record Request =
  rq_method :: string
  rq_path :: string
  rq_headers :: "(string \<times> string) list"
  rq_query :: "(string \<times> string) list"
  rq_user :: context_user

definition get_field :: "(string \<times> string) list \<Rightarrow> string \<Rightarrow> string" where
  "get_field kvs k = (case map_of kvs k of None \<Rightarrow> '''' | Some v \<Rightarrow> v)"

definition StatusOK :: int where "StatusOK = 200"
definition StatusCreated :: int where "StatusCreated = 201"
definition StatusBadRequest :: int where "StatusBadRequest = 400"
definition StatusUnauthorizedCode :: int where "StatusUnauthorizedCode = 401"
definition StatusForbidden :: int where "StatusForbidden = 403"
definition StatusNotFound :: int where "StatusNotFound = 404"
definition StatusMethodNotAllowed :: int where "StatusMethodNotAllowed = 405"
definition StatusConflict :: int where "StatusConflict = 409"
definition StatusInternalServerError :: int where "StatusInternalServerError = 500"

lemmas status_defs = StatusOK_def StatusCreated_def StatusBadRequest_def StatusUnauthorizedCode_def StatusForbidden_def
  StatusNotFound_def StatusMethodNotAllowed_def StatusConflict_def StatusInternalServerError_def

section \<open>middleware.go\<close>

text \<open>The middleware either answers itself with 401 or calls the next handler with a request.\<close>

datatype passed = Reject int | Pass Request

definition exempt :: "string \<Rightarrow> bool" where
  "exempt path \<longleftrightarrow> path = ''/api/v1/auth/login'' \<or> path = ''/healthz'' \<or> path = ''/docs'' \<or> path = ''/swagger.yaml''"

definition bearer_token :: "Request \<Rightarrow> string" where
  "bearer_token r =
     (let authHeader = get_field (rq_headers r) ''Authorization'' in
      if authHeader \<noteq> '''' then
        (case strings_Split authHeader (CHR '' '') of
           [scheme, tok] \<Rightarrow> if strings_ToLower scheme = ''bearer'' then tok else ''''
         | _ \<Rightarrow> '''')
      else get_field (rq_query r) ''token'')"

definition authenticate_jwt :: "auth_lib \<Rightarrow> instant \<Rightarrow> AuthService \<Rightarrow> string \<Rightarrow> UserInfo option \<times> AuthService" where
  "authenticate_jwt lib now s tokenStr =
     (if tokenStr = '''' then (None, s)
      else (case VerifyToken lib (as_jwt s) now tokenStr of
              (Inl _, m) \<Rightarrow> (None, s\<lparr>as_jwt := m\<rparr>)
            | (Inr c, m) \<Rightarrow>
                (Some \<lparr>ui_ID = cl_UserID c, ui_Email = cl_Email c, ui_Role = cl_Role c, ui_Groups = cl_Groups c\<rparr>, s\<lparr>as_jwt := m\<rparr>)))"

definition authenticate_key :: "auth_lib \<Rightarrow> instant \<Rightarrow> AuthService \<Rightarrow> string \<Rightarrow> UserInfo option \<times> AuthService" where
  "authenticate_key lib now s apiKey =
     (if apiKey = '''' then (None, s)
      else (case VerifyApiKey lib now s apiKey of
              (Inl _, s) \<Rightarrow> (None, s)
            | (Inr user, s) \<Rightarrow>
                (case group_names (as_db s) (user_ID user) of (names, d) \<Rightarrow>
                   (Some \<lparr>ui_ID = user_ID user, ui_Email = user_Email user, ui_Role = user_Role user, ui_Groups = names\<rparr>,
                    s\<lparr>as_db := d\<rparr>))))"

definition mock_admin :: UserInfo where
  "mock_admin = \<lparr>ui_ID = ''00000000-0000-0000-0000-000000000000'', ui_Email = ''admin@domain.com'',
     ui_Role = RoleAdmin, ui_Groups = [''Public'']\<rparr>"

definition AuthMiddleware :: "auth_lib \<Rightarrow> instant \<Rightarrow> AuthService \<Rightarrow> bool \<Rightarrow> Request \<Rightarrow> passed \<times> AuthService" where
  "AuthMiddleware lib now s bypassInDev r =
     (if exempt (rq_path r) then (Pass r, s)
      else
        (case authenticate_jwt lib now s (bearer_token r) of
           (Some u, s) \<Rightarrow> (Pass (r\<lparr>rq_user := NewContext (rq_user r) u\<rparr>), s)
         | (None, s) \<Rightarrow>
             (case authenticate_key lib now s (get_field (rq_headers r) ''X-API-Key'') of
                (Some u, s) \<Rightarrow> (Pass (r\<lparr>rq_user := NewContext (rq_user r) u\<rparr>), s)
              | (None, s) \<Rightarrow>
                  if bypassInDev then (Pass (r\<lparr>rq_user := NewContext (rq_user r) mock_admin\<rparr>), s)
                  else if rq_path r = ''/api/v1/auth/register'' then (Pass r, s)
                  else (Reject StatusUnauthorizedCode, s))))"

section \<open>handlers.go\<close>

datatype auth_body =
    AuthErr string
  | AuthErrOf auth_error
  | TokenBody string
  | UserBody User
  | KeyBody string string
  | KeysBody "ApiKey list"
  | SuccessBody

definition handleLogin ::
  "auth_lib \<Rightarrow> instant \<Rightarrow> AuthService \<Rightarrow> Request \<Rightarrow> (string \<times> string) option \<Rightarrow> (int \<times> auth_body) \<times> AuthService" where
  "handleLogin lib now s r body =
     (if rq_method r \<noteq> ''POST'' then ((StatusMethodNotAllowed, AuthErr ''Method not allowed''), s)
      else (case body of
              None \<Rightarrow> ((StatusBadRequest, AuthErr ''invalid request body''), s)
            | Some (email, password) \<Rightarrow>
                (case Login lib now s email password of
                   (Inl e, s) \<Rightarrow> ((StatusUnauthorizedCode, AuthErrOf e), s)
                 | (Inr tok, s) \<Rightarrow> ((StatusOK, TokenBody tok), s))))"

record RegisterBody =
  rb_Email :: string
  rb_Password :: string
  rb_Role :: string
  rb_Groups :: "string list option"

text \<open>\<^verbatim>\<open>_ = row.Scan(&usersCount)\<close>: when the count cannot be read it stays zero.\<close>

definition count_users :: "DB \<Rightarrow> nat \<times> DB" where
  "count_users d = (case query (\<lambda>t. Inr (length (t_users t))) d of (Inl _, d) \<Rightarrow> (0, d) | (Inr n, d) \<Rightarrow> (n, d))"

definition handleRegister ::
  "auth_lib \<Rightarrow> (nat \<Rightarrow> string) \<Rightarrow> instant \<Rightarrow> AuthService \<Rightarrow> Request \<Rightarrow> RegisterBody option \<Rightarrow> (int \<times> auth_body) \<times> AuthService" where
  "handleRegister lib ids now s r body =
     (if rq_method r \<noteq> ''POST'' then ((StatusMethodNotAllowed, AuthErr ''Method not allowed''), s)
      else
        (case count_users (as_db s) of (usersCount, d) \<Rightarrow>
           let s = s\<lparr>as_db := d\<rparr>;
               (userInfo, ok) = FromContext (rq_user r)
           in if usersCount > 0 \<and> (\<not> ok \<or> ui_Role userInfo \<noteq> RoleAdmin)
              then ((StatusForbidden, AuthErr ''Forbidden: only administrator can register new users''), s)
              else
                (case body of
                   None \<Rightarrow> ((StatusBadRequest, AuthErr ''invalid request body''), s)
                 | Some b \<Rightarrow>
                     let role = (if rb_Role b = '''' then RoleUser else rb_Role b) in
                     if role = RoleAdmin \<and> usersCount > 0 \<and> ui_Role userInfo \<noteq> RoleAdmin
                     then ((StatusForbidden, AuthErr ''Forbidden: only admins can create admin users''), s)
                     else
                       (case RegisterLocalUser lib ids now s (rb_Email b) (rb_Password b) role
                               (case rb_Groups b of None \<Rightarrow> [''Public''] | Some gs \<Rightarrow> gs) of
                          (Inl e, s) \<Rightarrow> ((StatusInternalServerError, AuthErrOf e), s)
                        | (Inr user, s) \<Rightarrow> ((StatusCreated, UserBody user), s)))))"

datatype KeysRequest = KeysDecodeError | KeysRequest string int

definition keys_post ::
  "auth_lib \<Rightarrow> string \<Rightarrow> nat list option \<Rightarrow> instant \<Rightarrow> AuthService \<Rightarrow> UserInfo \<Rightarrow> KeysRequest \<Rightarrow> (int \<times> auth_body) \<times> AuthService" where
  "keys_post lib newID rnd now s userInfo body =
     (case body of
        KeysDecodeError \<Rightarrow> ((StatusBadRequest, AuthErr ''invalid request body''), s)
      | KeysRequest name expiresIn \<Rightarrow>
          if name = '''' then ((StatusBadRequest, AuthErr ''name is required''), s)
          else (case CreateApiKeyForUser lib newID rnd now s (ui_ID userInfo) name
                       (if expiresIn > 0 then Some (lib_add_days lib now expiresIn) else None) of
                  (Inl e, s) \<Rightarrow> ((StatusInternalServerError, AuthErrOf e), s)
                | (Inr rawToken, s) \<Rightarrow> ((StatusOK, KeyBody name rawToken), s)))"

definition keys_delete :: "AuthService \<Rightarrow> UserInfo \<Rightarrow> string \<Rightarrow> (int \<times> auth_body) \<times> AuthService" where
  "keys_delete s userInfo keyID =
     (if keyID = '''' then ((StatusBadRequest, AuthErr ''id parameter required''), s)
      else (case ListApiKeys (as_db s) (ui_ID userInfo) of
              (Inl e, d) \<Rightarrow> ((StatusInternalServerError, AuthErrOf (DBError e)), s\<lparr>as_db := d\<rparr>)
            | (Inr keys, d) \<Rightarrow>
                let owned = list_ex (\<lambda>k. key_ID k = keyID) keys in
                if \<not> owned \<and> ui_Role userInfo \<noteq> RoleAdmin
                then ((StatusForbidden, AuthErr ''Forbidden: you do not own this API key''), s\<lparr>as_db := d\<rparr>)
                else (case DeleteApiKey d keyID of
                        (Some e, d) \<Rightarrow> ((StatusInternalServerError, AuthErrOf (DBError e)), s\<lparr>as_db := d\<rparr>)
                      | (None, d) \<Rightarrow> ((StatusOK, SuccessBody), s\<lparr>as_db := d\<rparr>))))"

definition handleKeys ::
  "auth_lib \<Rightarrow> string \<Rightarrow> nat list option \<Rightarrow> instant \<Rightarrow> AuthService \<Rightarrow> Request \<Rightarrow> KeysRequest \<Rightarrow> (int \<times> auth_body) \<times> AuthService" where
  "handleKeys lib newID rnd now s r body =
     (case FromContext (rq_user r) of (userInfo, ok) \<Rightarrow>
        if \<not> ok then ((StatusUnauthorizedCode, AuthErr ''Unauthorized''), s)
        else if rq_method r = ''POST'' then keys_post lib newID rnd now s userInfo body
        else if rq_method r = ''GET'' then
          (case ListApiKeys (as_db s) (ui_ID userInfo) of
             (Inl e, d) \<Rightarrow> ((StatusInternalServerError, AuthErrOf (DBError e)), s\<lparr>as_db := d\<rparr>)
           | (Inr keys, d) \<Rightarrow> ((StatusOK, KeysBody keys), s\<lparr>as_db := d\<rparr>))
        else if rq_method r = ''DELETE'' then keys_delete s userInfo (get_field (rq_query r) ''id'')
        else ((StatusMethodNotAllowed, AuthErr ''Method not allowed''), s))"


end
