(* ===== verification/Auth_Properties.thy ===== *)
theory Auth_Properties
  imports Auth
begin

text \<open>
  What the authentication layer guarantees: who passes the middleware, what a login and an API key are
  worth and for how long, and whose keys a user can delete.  What the proofs need of the packages
  behind \<^verbatim>\<open>auth_lib\<close> are the two predicates of the first section.
\<close>

section \<open>The packages\<close>

text \<open>A hash matches exactly the password it was made from.\<close>

definition bcrypt_ok :: "auth_lib \<Rightarrow> bool" where
  "bcrypt_ok lib \<longleftrightarrow> (\<forall>p h q. lib_bcrypt_hash lib p = Some h \<longrightarrow> lib_bcrypt_match lib h q = (q = p))"

text \<open>
  A signed token is three base64 parts, so it has no space in it; its header says HS256; it verifies
  under the secret it was signed with, and under no other, from its not-before time to its expiry.
\<close>

definition jwt_ok :: "auth_lib \<Rightarrow> bool" where
  "jwt_ok lib \<longleftrightarrow> (\<forall>secret c tok. lib_jwt_sign lib secret c = Some tok \<longrightarrow>
     tok \<noteq> '''' \<and> CHR '' '' \<notin> set tok \<and> lib_jwt_header lib tok = Some \<lparr>th_alg = ''HS256'', th_kid = KidMissing\<rparr> \<and>
     (\<forall>k now. lib_jwt_verify lib tok (HMACKey k) now =
        (if k = secret \<and> cl_NotBefore c \<le> now \<and> now < cl_ExpiresAt c then Some c else None)))"

section \<open>Login\<close>

lemma NewNumericDate_le: "NewNumericDate t \<le> t"
  by (simp add: NewNumericDate_def second_def)

lemma query_Inr: "query q d = (Inr x, d') \<Longrightarrow> q (db_tables d) = Inr x"
  by (auto simp: query_def split: prod.splits if_splits)
    (metis next_fault_tables(1) snd_conv)

lemma Login_Inr:
  assumes "Login lib now s email password = (Inr tok, s')"
  obtains user where "row_with user_Email email (t_users (db_tables (as_db s))) = Inr user"
    "user_AuthProvider user = ''local''" "lib_bcrypt_match lib (user_PasswordHash user) password"
    "\<exists>names. lib_jwt_sign lib (jm_secret (as_jwt s))
       \<lparr>cl_Issuer = jm_issuer (as_jwt s), cl_ExpiresAt = NewNumericDate (now + 24 * hour), cl_IssuedAt = NewNumericDate now,
        cl_NotBefore = NewNumericDate now, cl_UserID = user_ID user, cl_Email = user_Email user, cl_Role = user_Role user,
        cl_Groups = names\<rparr> = Some tok"
proof -
  obtain res d where q: "GetUserByEmail (as_db s) email = (res, d)" by (rule prod.exhaust)
  with assms obtain user where u: "res = Inr user" by (cases res) (auto simp: Login_def)
  have row: "row_with user_Email email (t_users (db_tables (as_db s))) = Inr user"
    using q u by (auto simp: GetUserByEmail_def dest: query_Inr)
  from assms q u show ?thesis
    by (intro that [OF row]) (auto simp: Login_def GenerateToken_def split: if_splits option.splits prod.splits)
qed

text \<open>
  C32. A successful login proves the password, and its token opens every route: for the next 24 hours (to
  the second) the middleware of any coordinator with the same secret lets a request with it pass, as
  the user that logged in, with the role of that moment, whatever has happened to the database since.
\<close>

theorem login_token_passes:
  assumes lib: "jwt_ok lib" and login: "Login lib now s email password = (Inr tok, s')"
    and time: "now \<le> t" "t < NewNumericDate (now + 24 * hour)"
    and same: "jm_secret (as_jwt s2) = jm_secret (as_jwt s)"
    and req: "get_field (rq_headers r) ''Authorization'' = ''Bearer '' @ tok" "\<not> exempt (rq_path r)"
  shows "\<exists>user names. row_with user_Email email (t_users (db_tables (as_db s))) = Inr user \<and>
    user_AuthProvider user = ''local'' \<and> lib_bcrypt_match lib (user_PasswordHash user) password \<and>
    AuthMiddleware lib t s2 bypass r =
      (Pass (r\<lparr>rq_user := Some \<lparr>ui_ID = user_ID user, ui_Email = user_Email user, ui_Role = user_Role user, ui_Groups = names\<rparr>\<rparr>), s2)"
proof -
  from login obtain user names where u: "row_with user_Email email (t_users (db_tables (as_db s))) = Inr user"
    "user_AuthProvider user = ''local''" "lib_bcrypt_match lib (user_PasswordHash user) password"
    and sign: "lib_jwt_sign lib (jm_secret (as_jwt s))
       \<lparr>cl_Issuer = jm_issuer (as_jwt s), cl_ExpiresAt = NewNumericDate (now + 24 * hour), cl_IssuedAt = NewNumericDate now,
        cl_NotBefore = NewNumericDate now, cl_UserID = user_ID user, cl_Email = user_Email user, cl_Role = user_Role user,
        cl_Groups = names\<rparr> = Some tok"
    by (auto elim: Login_Inr)
  note j = lib [unfolded jwt_ok_def, rule_format, OF sign]
  have split: "strings_Split (''Bearer '' @ tok) (CHR '' '') = [''Bearer'', tok]"
    using strings_Split_append [of "CHR '' ''" "''Bearer''" tok] strings_Split_id [of "CHR '' ''" tok] j by simp
  have "strings_ToLower ''Bearer'' = ''bearer''" by code_simp
  with split req(1) have bt: "bearer_token r = tok" by (simp add: bearer_token_def)
  have "NewNumericDate now \<le> t" using NewNumericDate_le [of now] time(1) by linarith
  with j same time(2) have "VerifyToken lib (as_jwt s2) t tok = (Inr
       \<lparr>cl_Issuer = jm_issuer (as_jwt s), cl_ExpiresAt = NewNumericDate (now + 24 * hour), cl_IssuedAt = NewNumericDate now,
        cl_NotBefore = NewNumericDate now, cl_UserID = user_ID user, cl_Email = user_Email user, cl_Role = user_Role user,
        cl_Groups = names\<rparr>, as_jwt s2)"
    by (simp add: VerifyToken_def keyfunc_def)
  with bt j req(2) have "AuthMiddleware lib t s2 bypass r =
      (Pass (r\<lparr>rq_user := Some \<lparr>ui_ID = user_ID user, ui_Email = user_Email user, ui_Role = user_Role user, ui_Groups = names\<rparr>\<rparr>), s2)"
    by (simp add: AuthMiddleware_def authenticate_jwt_def NewContext_def)
  with u show ?thesis by blast
qed

text \<open>A small instance of the packages: a hash shows its password, and one set of claims can be signed.\<close>

definition ex_claims :: Claims where
  "ex_claims = \<lparr>cl_Issuer = ''farm'', cl_ExpiresAt = NewNumericDate (5 + 24 * hour), cl_IssuedAt = NewNumericDate 5,
     cl_NotBefore = NewNumericDate 5, cl_UserID = ''u-1'', cl_Email = ''a@b.c'', cl_Role = ''user'', cl_Groups = []\<rparr>"

definition ex_lib :: auth_lib where
  "ex_lib = \<lparr>lib_bcrypt_hash = (\<lambda>p. Some (CHR ''#'' # p)), lib_bcrypt_match = (\<lambda>h p. h = CHR ''#'' # p),
     lib_sha256_hex = (\<lambda>x. CHR ''s'' # x), lib_jwt_sign = (\<lambda>k c. if k = ''k'' \<and> c = ex_claims then Some ''t'' else None),
     lib_jwt_header = (\<lambda>t. if t = ''t'' then Some \<lparr>th_alg = ''HS256'', th_kid = KidMissing\<rparr> else None),
     lib_jwt_verify = (\<lambda>t k now. if t = ''t'' \<and> k = HMACKey ''k'' \<and> cl_NotBefore ex_claims \<le> now \<and> now < cl_ExpiresAt ex_claims
                         then Some ex_claims else None),
     lib_rsa_from_cert = (\<lambda>c. None), lib_jwks = (\<lambda>u. NoAnswer), lib_add_days = (\<lambda>t n. t + n * (24 * hour))\<rparr>"

lemma ex_lib_ok: "bcrypt_ok ex_lib" "jwt_ok ex_lib"
  by (auto simp: bcrypt_ok_def jwt_ok_def ex_lib_def split: if_splits)

definition ex_service :: AuthService where
  "ex_service = NewAuthService \<lparr>db_tables = empty_tables\<lparr>t_users := [ex_user ''u-1'' ''#pw'' ''user'']\<rparr>, db_faults = [], db_now = 0\<rparr>
     (NewJWTManager ''k'' ''farm'' '''')"

definition ex_request :: "string \<Rightarrow> string \<Rightarrow> (string \<times> string) list \<Rightarrow> Request" where
  "ex_request method path headers = \<lparr>rq_method = method, rq_path = path, rq_headers = headers, rq_query = [], rq_user = None\<rparr>"

lemmas ex_auth_defs = ex_service_def ex_lib_def ex_request_def ex_user_def NewAuthService_def NewJWTManager_def empty_tables_def

lemma ex_login: "Login ex_lib 5 ex_service ''a@b.c'' ''pw'' = (Inr ''t'', ex_service)"
  by (simp add: Login_def GetUserByEmail_def GetUserGroups_def group_names_def groups_of_def query_def next_fault_def row_with_def
      GenerateToken_def ex_claims_def ex_auth_defs)

theorem login_token_passes_witness:
  "\<exists>(user :: User) names. AuthMiddleware ex_lib 3600 ex_service False (ex_request ''GET'' ''/api/v1/devices'' [(''Authorization'', ''Bearer t'')]) =
     (Pass ((ex_request ''GET'' ''/api/v1/devices'' [(''Authorization'', ''Bearer t'')])
        \<lparr>rq_user := Some \<lparr>ui_ID = user_ID user, ui_Email = user_Email user, ui_Role = user_Role user, ui_Groups = names\<rparr>\<rparr>), ex_service)"
proof -
  let ?r = "ex_request ''GET'' ''/api/v1/devices'' [(''Authorization'', ''Bearer t'')]"
  have time: "(5 :: int) \<le> 3600" "(3600 :: int) < NewNumericDate (5 + 24 * hour)"
    by (simp_all add: NewNumericDate_def second_def hour_def)
  have req: "get_field (rq_headers ?r) ''Authorization'' = ''Bearer '' @ ''t''" "\<not> exempt (rq_path ?r)"
    by (simp_all add: ex_request_def get_field_def exempt_def)
  from login_token_passes [OF ex_lib_ok(2) ex_login time refl req, of False] show ?thesis by blast
qed

section \<open>The middleware\<close>

text \<open>Where the key that \<^verbatim>\<open>VerifyToken\<close> checks a signature with comes from.\<close>

lemma getOIDC_source:
  assumes "getOIDCPublicKey lib m now kid = (Inr pk, m')"
  shows "jm_jwkCache m' kid = Some pk \<and> jm_secret m' = jm_secret m \<and> jm_oidcJWKSURL m' = jm_oidcJWKSURL m"
  using assms
  by (auto simp: getOIDCPublicKey_def fetchJWKS_def Let_def
      split: option.splits if_splits prod.splits jwks_answer.splits)

lemma keyfunc_source:
  assumes "keyfunc lib m now h = (Inr key, m')"
  shows "key = HMACKey (jm_secret m) \<or>
    (\<exists>pk kid. key = RSAKey pk \<and> jm_oidcJWKSURL m \<noteq> '''' \<and> jm_jwkCache m' kid = Some pk)"
  using assms
  by (auto simp: keyfunc_def split: if_splits kid_header.splits prod.splits sum.splits dest: getOIDC_source)

lemma VerifyApiKey_Inr:
  assumes "VerifyApiKey lib now s raw = (Inr user, s')"
  shows "\<exists>key \<in> set (t_api_keys (db_tables (as_db s))). key_TokenHash key = lib_sha256_hex lib raw \<and>
    (\<forall>e. key_ExpiresAt key = Some e \<longrightarrow> now \<le> e) \<and> user \<in> set (t_users (db_tables (as_db s))) \<and> user_ID user = key_UserID key"
proof -
  obtain res d where q: "GetApiKeyByHash (as_db s) (lib_sha256_hex lib raw) = (res, d)" by (rule prod.exhaust)
  with assms obtain key where k: "res = Inr key" by (cases res) (auto simp: VerifyApiKey_def)
  have d: "db_tables d = db_tables (as_db s)" using q query_now by (auto simp: GetApiKeyByHash_def)
  have key: "key \<in> set (t_api_keys (db_tables (as_db s)))" "key_TokenHash key = lib_sha256_hex lib raw"
    using q k by (auto simp: GetApiKeyByHash_def dest!: query_Inr row_with_Inr)
  obtain res2 d2 where q2: "GetUserByID d (key_UserID key) = (res2, d2)" by (rule prod.exhaust)
  with assms q k have u: "res2 = Inr user" and ex: "\<forall>e. key_ExpiresAt key = Some e \<longrightarrow> now \<le> e"
    by (auto simp: VerifyApiKey_def split: if_splits sum.splits option.splits)
  have "user \<in> set (t_users (db_tables (as_db s)))" "user_ID user = key_UserID key"
    using q2 u d by (auto simp: GetUserByID_def dest!: query_Inr row_with_Inr)
  with key ex show ?thesis by blast
qed

text \<open>
  C15. Without the development bypass, no route but the four exempt ones and registration is reached
  without credentials: a request that passes carries a user who is either named by a token that
  verifies now, under the coordinator's secret or a key of the identity provider, or owns an unexpired
  API key in the database.
\<close>

theorem middleware_guards:
  assumes pass: "AuthMiddleware lib now s False r = (Pass r', s')"
    and route: "\<not> exempt (rq_path r)" "rq_path r \<noteq> ''/api/v1/auth/register''"
  shows "\<exists>u. r' = r\<lparr>rq_user := Some u\<rparr> \<and>
    ((\<exists>c key. lib_jwt_verify lib (bearer_token r) key now = Some c \<and>
        (key = HMACKey (jm_secret (as_jwt s)) \<or>
         (\<exists>pk kid. key = RSAKey pk \<and> jm_oidcJWKSURL (as_jwt s) \<noteq> '''' \<and> jm_jwkCache (as_jwt s') kid = Some pk)) \<and>
        u = \<lparr>ui_ID = cl_UserID c, ui_Email = cl_Email c, ui_Role = cl_Role c, ui_Groups = cl_Groups c\<rparr>) \<or>
     (\<exists>key user. key \<in> set (t_api_keys (db_tables (as_db s))) \<and> user \<in> set (t_users (db_tables (as_db s))) \<and>
        key_TokenHash key = lib_sha256_hex lib (get_field (rq_headers r) ''X-API-Key'') \<and> key_UserID key = user_ID user \<and>
        (\<forall>e. key_ExpiresAt key = Some e \<longrightarrow> now \<le> e) \<and>
        ui_ID u = user_ID user \<and> ui_Email u = user_Email user \<and> ui_Role u = user_Role user))"
proof -
  obtain ju s1 where j: "authenticate_jwt lib now s (bearer_token r) = (ju, s1)" by (rule prod.exhaust)
  have db1: "as_db s1 = as_db s" using j by (auto simp: authenticate_jwt_def split: if_splits prod.splits sum.splits)
  show ?thesis
  proof (cases ju)
    case (Some u)
    with pass route j have r': "r' = r\<lparr>rq_user := Some u\<rparr>" "s' = s1" by (simp_all add: AuthMiddleware_def NewContext_def)
    from j Some obtain c m where v: "VerifyToken lib (as_jwt s) now (bearer_token r) = (Inr c, m)" "s1 = s\<lparr>as_jwt := m\<rparr>"
      "u = \<lparr>ui_ID = cl_UserID c, ui_Email = cl_Email c, ui_Role = cl_Role c, ui_Groups = cl_Groups c\<rparr>"
      by (auto simp: authenticate_jwt_def split: if_splits prod.splits sum.splits)
    from v(1) obtain h key where k: "keyfunc lib (as_jwt s) now h = (Inr key, m)" "lib_jwt_verify lib (bearer_token r) key now = Some c"
      by (auto simp: VerifyToken_def split: option.splits prod.splits sum.splits)
    have m: "as_jwt s' = m" using r' v by simp
    have "key = HMACKey (jm_secret (as_jwt s)) \<or>
        (\<exists>pk kid. key = RSAKey pk \<and> jm_oidcJWKSURL (as_jwt s) \<noteq> '''' \<and> jm_jwkCache (as_jwt s') kid = Some pk)"
      using keyfunc_source [OF k(1)] m by simp
    with r'(1) v(3) k(2) show ?thesis by blast
  next
    case None
    obtain ku s2 where a: "authenticate_key lib now s1 (get_field (rq_headers r) ''X-API-Key'') = (ku, s2)" by (rule prod.exhaust)
    with pass route j None obtain u where u: "ku = Some u" "r' = r\<lparr>rq_user := Some u\<rparr>"
      by (cases ku) (auto simp: AuthMiddleware_def NewContext_def)
    from a u(1) obtain user s3 where v: "VerifyApiKey lib now s1 (get_field (rq_headers r) ''X-API-Key'') = (Inr user, s3)"
      "ui_ID u = user_ID user" "ui_Email u = user_Email user" "ui_Role u = user_Role user"
      by (auto simp: authenticate_key_def split: if_splits prod.splits sum.splits)
    from VerifyApiKey_Inr [OF v(1)] db1 obtain key where k: "key \<in> set (t_api_keys (db_tables (as_db s)))"
      "key_TokenHash key = lib_sha256_hex lib (get_field (rq_headers r) ''X-API-Key'')"
      "\<forall>e. key_ExpiresAt key = Some e \<longrightarrow> now \<le> e" "user \<in> set (t_users (db_tables (as_db s)))" "key_UserID key = user_ID user"
      by auto
    with v(2-4) u(2) show ?thesis by blast
  qed
qed

theorem middleware_guards_witness:
  "\<exists>r' s' u. AuthMiddleware ex_lib 3600 ex_service False (ex_request ''GET'' ''/api/v1/devices'' [(''Authorization'', ''bearer t'')])
     = (Pass r', s') \<and> rq_user r' = Some u \<and> ui_ID u = ''u-1''"
proof -
  let ?r = "ex_request ''GET'' ''/api/v1/devices'' [(''Authorization'', ''bearer t'')]"
  have bt: "bearer_token ?r = ''t''"
    by (simp add: bearer_token_def ex_request_def get_field_def strings_ToLower_def ascii_lower_def)
  obtain r' s' where pass: "AuthMiddleware ex_lib 3600 ex_service False ?r = (Pass r', s')"
    unfolding AuthMiddleware_def bt
    by (simp add: authenticate_jwt_def VerifyToken_def keyfunc_def ex_claims_def exempt_def ex_auth_defs
        NewNumericDate_def second_def hour_def)
  have keys: "t_api_keys (db_tables (as_db ex_service)) = []" by (simp add: ex_auth_defs)
  have only: "lib_jwt_verify ex_lib tok key now = Some c \<Longrightarrow> c = ex_claims" for tok key now c
    by (simp add: ex_lib_def split: if_splits)
  have "\<exists>u. r' = ?r\<lparr>rq_user := Some u\<rparr> \<and> ui_ID u = ''u-1''"
    using middleware_guards [OF pass] keys only by (fastforce simp: ex_request_def exempt_def ex_claims_def)
  with pass show ?thesis by auto
qed

section \<open>Registration\<close>

lemma exec_faults: "db_faults d = [] \<Longrightarrow> db_faults (snd (exec q d)) = []"
  by (auto simp: exec_def split: sum.splits)

lemma exec_users:
  assumes "\<And>t t'. q t = Inr t' \<Longrightarrow> t_users t' = t_users t"
  shows "t_users (db_tables (snd (exec q d))) = t_users (db_tables d)"
  using assms by (cases "exec q d") (auto elim!: exec_cases)

lemma query_faults: "db_faults d = [] \<Longrightarrow> snd (query q d) = d"
  by (simp add: query_def)

lemma group_calls_users:
  "t_users (db_tables (snd (CreateGroup d g))) = t_users (db_tables d)"
  "t_users (db_tables (snd (AddUserToGroup d u gid))) = t_users (db_tables d)"
proof -
  have g: "t_users t' = t_users t" if "insert_group g t = Inr t'" for g t t'
    using that by (auto simp: insert_group_def split: if_splits)
  have ug: "t_users t' = t_users t" if "insert_user_groups ps t = Inr t'" for ps t t'
    using that by (auto simp: insert_user_groups_def split: if_splits)
  have dg: "t_users t' = t_users t" if "delete_user_group x y t = Inr t'" for x y t t'
    using that by (auto simp: delete_user_group_def)
  have e: "t_users (db_tables d') = t_users (db_tables d)" if "exec q d = (r, d')" "\<And>t t'. q t = Inr t' \<Longrightarrow> t_users t' = t_users t" for q d r d'
    using exec_users [where q = q and d = d] that by auto
  show "t_users (db_tables (snd (CreateGroup d g))) = t_users (db_tables d)"
    using g ug by (auto simp: CreateGroup_def exec_users split: prod.splits option.splits dest!: e)
  show "t_users (db_tables (snd (AddUserToGroup d u gid))) = t_users (db_tables d)"
    using ug dg by (auto simp: AddUserToGroup_def exec_users split: prod.splits option.splits sum.splits dest!: query_now e)
qed

lemma group_loops_users:
  "t_users (db_tables (create_groups ids i now gs d)) = t_users (db_tables d)"
  "t_users (db_tables (add_to_groups uid dbgs gs d)) = t_users (db_tables d)"
proof -
  show "t_users (db_tables (create_groups ids i now gs d)) = t_users (db_tables d)"
    by (induction ids i now gs d rule: create_groups.induct) (simp_all add: group_calls_users)
  have "t_users (db_tables (add_to_named uid g gs d)) = t_users (db_tables d)" for g d
    by (induction uid g gs d rule: add_to_named.induct) (simp_all add: group_calls_users)
  then show "t_users (db_tables (add_to_groups uid dbgs gs d)) = t_users (db_tables d)"
    by (induction uid dbgs gs d rule: add_to_groups.induct) simp_all
qed

lemma CreateUser_new:
  assumes "db_faults d = []" "user_Email u \<notin> set (map user_Email (t_users (db_tables d)))" "\<not> has_user (db_tables d) (user_ID u)"
  shows "fst (CreateUser d u) = None \<and> t_users (db_tables (snd (CreateUser d u))) = t_users (db_tables d) @ [u]"
proof -
  have "t_users (db_tables (snd (exec (add_to_all_groups i) d'))) = t_users (db_tables d')" for i d'
    by (rule exec_users) (auto simp: add_to_all_groups_def insert_user_groups_def split: if_splits)
  moreover have "exec (upsert_user u (db_now d)) d = (None, d\<lparr>db_tables := (db_tables d)\<lparr>t_users := t_users (db_tables d) @ [u]\<rparr>\<rparr>)"
    using assms by (simp add: exec_def upsert_user_def)
  ultimately show ?thesis by (simp add: CreateUser_def)
qed

lemma RegisterLocalUser_new:
  assumes "email \<noteq> ''''" "password \<noteq> ''''" "lib_bcrypt_hash lib password = Some hash"
    and "db_faults (as_db s) = []" "email \<notin> set (map user_Email (t_users (db_tables (as_db s))))" "\<not> has_user (db_tables (as_db s)) (ids 0)"
    and u: "u = local_user (ids 0) email hash role now"
  shows "fst (RegisterLocalUser lib ids now s email password role groups) = Inr u \<and>
    t_users (db_tables (as_db (snd (RegisterLocalUser lib ids now s email password role groups)))) =
      t_users (db_tables (as_db s)) @ [u]"
proof -
  obtain r d where c: "CreateUser (as_db s) u = (r, d)" by (rule prod.exhaust)
  have new: "r = None" "t_users (db_tables d) = t_users (db_tables (as_db s)) @ [u]"
    using CreateUser_new [of "as_db s" u] assms c by (simp_all add: u local_user_def)
  obtain l d2 where l: "ListGroups (create_groups ids 1 now groups d) = (l, d2)" by (rule prod.exhaust)
  have "db_tables d2 = db_tables (create_groups ids 1 now groups d)" using l query_now by (auto simp: ListGroups_def)
  then have "t_users (db_tables d2) = t_users (db_tables d)" by (simp add: group_loops_users)
  with assms(1-3) c new l show ?thesis
    unfolding RegisterLocalUser_def
    by (auto simp: group_loops_users u [symmetric] Let_def split: sum.splits)
qed


text \<open>
  Registering a new address and logging in: registration stores the account, and the login then
  succeeds with the registered password (when the token can be signed) and with no other.
\<close>

theorem register_then_login:
  assumes lib: "bcrypt_ok lib" and hash: "lib_bcrypt_hash lib password = Some hash"
    and input: "email \<noteq> ''''" "password \<noteq> ''''"
    and db: "db_faults (as_db s) = []" "email \<notin> set (map user_Email (t_users (db_tables (as_db s))))"
      "\<not> has_user (db_tables (as_db s)) (ids 0)"
    and reg: "RegisterLocalUser lib ids now s email password role groups = (res, s1)"
    and quiet: "db_faults (as_db s1) = []"
  shows "res = Inr (local_user (ids 0) email hash role now) \<and>
    (\<forall>p. p \<noteq> password \<longrightarrow> fst (Login lib t s1 email p) = Inl InvalidLogin) \<and>
    (\<exists>names. fst (Login lib t s1 email password) = GenerateToken lib (as_jwt s1) t (ids 0) email role names (24 * hour))"
proof -
  let ?u = "local_user (ids 0) email hash role now"
  have r: "res = Inr ?u" "t_users (db_tables (as_db s1)) = t_users (db_tables (as_db s)) @ [?u]"
    using RegisterLocalUser_new [where ids = ids and role = role and now = now and groups = groups, OF input hash db refl] reg by simp_all
  have "find (\<lambda>v. user_Email v = email) (us @ [?u]) = Some ?u" if "email \<notin> user_Email ` set us" for us
    using that by (induction us) (auto simp: local_user_def)
  then have g: "GetUserByEmail (as_db s1) email = (Inr ?u, as_db s1)"
    using r(2) db(2) quiet by (simp add: GetUserByEmail_def query_def row_with_def)
  have match: "lib_bcrypt_match lib hash p = (p = password)" for p using lib hash by (simp add: bcrypt_ok_def)
  show ?thesis using r(1) g match by (auto simp: Login_def local_user_def split: prod.splits)
qed

theorem register_then_login_witness:
  "let r = RegisterLocalUser ex_lib (\<lambda>i. if i = 0 then ''u-2'' else ''g-2'') 5 ex_service ''n@b.c'' ''secret'' ''user'' []
   in fst (Login ex_lib 6 (snd r) ''n@b.c'' ''wrong'') = Inl InvalidLogin"
proof -
  define ids :: "nat \<Rightarrow> string" where "ids = (\<lambda>i. if i = 0 then ''u-2'' else ''g-2'')"
  obtain res s1 where reg: "RegisterLocalUser ex_lib ids 5 ex_service ''n@b.c'' ''secret'' ''user'' [] = (res, s1)" by (rule prod.exhaust)
  have quiet: "db_faults (as_db s1) = []"
    using reg by (auto simp: RegisterLocalUser_def CreateUser_def ListGroups_def exec_def query_def next_fault_def upsert_user_def
        has_user_def RoleAdmin_def local_user_def ids_def ex_auth_defs Let_def)
  have db: "db_faults (as_db ex_service) = []" "''n@b.c'' \<notin> set (map user_Email (t_users (db_tables (as_db ex_service))))"
    "\<not> has_user (db_tables (as_db ex_service)) (ids 0)" "lib_bcrypt_hash ex_lib ''secret'' = Some ''#secret''"
    by (simp_all add: ex_auth_defs has_user_def ids_def)
  from register_then_login [OF ex_lib_ok(1) db(4) _ _ db(1-3) reg quiet, of 6] reg
  show ?thesis by (simp add: ids_def)
qed

text \<open>
  The check of registration fails open: when the number of users cannot be read, a request without any
  credentials passes the middleware and creates an administrator, although accounts exist.
\<close>

theorem register_fails_open:
  assumes users: "t_users (db_tables (as_db s)) \<noteq> []" and fault: "db_faults (as_db s) = [True]"
    and anon: "rq_method r = ''POST''" "rq_path r = ''/api/v1/auth/register''" "rq_headers r = []" "rq_query r = []" "rq_user r = None"
    and body: "rb_Role b = ''admin''" "rb_Email b \<noteq> ''''" "rb_Password b \<noteq> ''''"
      "rb_Email b \<notin> set (map user_Email (t_users (db_tables (as_db s))))"
    and fresh: "\<not> has_user (db_tables (as_db s)) (ids 0)" and hash: "lib_bcrypt_hash lib (rb_Password b) = Some hash"
  shows "AuthMiddleware lib now s False r = (Pass r, s) \<and>
    fst (fst (handleRegister lib ids now s r (Some b))) = StatusCreated \<and>
    t_users (db_tables (as_db (snd (handleRegister lib ids now s r (Some b))))) =
      t_users (db_tables (as_db s)) @ [local_user (ids 0) (rb_Email b) hash ''admin'' now]"
proof -
  define s0 where "s0 = s\<lparr>as_db := (as_db s)\<lparr>db_faults := []\<rparr>\<rparr>"
  have count: "count_users (as_db s) = (0, as_db s0)" using fault by (simp add: count_users_def query_def next_fault_def s0_def)
  have mid: "AuthMiddleware lib now s False r = (Pass r, s)"
    using anon by (simp add: AuthMiddleware_def exempt_def bearer_token_def get_field_def authenticate_jwt_def authenticate_key_def)
  have s0: "db_faults (as_db s0) = []" "rb_Email b \<notin> set (map user_Email (t_users (db_tables (as_db s0))))"
    "\<not> has_user (db_tables (as_db s0)) (ids 0)" using body fresh by (simp_all add: s0_def)
  define gs where "gs = (case rb_Groups b of None \<Rightarrow> [''Public''] | Some gs \<Rightarrow> gs)"
  obtain res s2 where reg: "RegisterLocalUser lib ids now s0 (rb_Email b) (rb_Password b) ''admin'' gs = (res, s2)"
    by (rule prod.exhaust)
  have new: "res = Inr (local_user (ids 0) (rb_Email b) hash ''admin'' now)"
    "t_users (db_tables (as_db s2)) = t_users (db_tables (as_db s)) @ [local_user (ids 0) (rb_Email b) hash ''admin'' now]"
    using RegisterLocalUser_new [where ids = ids and s = s0 and role = "''admin''" and now = now and groups = gs,
        OF body(2,3) hash s0 refl] reg by (simp_all add: s0_def)
  have s0': "s\<lparr>as_db := as_db s0\<rparr> = s0" by (simp add: s0_def)
  show ?thesis
    using mid new reg anon(1,5) body(1) count s0'
    by (simp add: handleRegister_def FromContext_def RoleAdmin_def gs_def [symmetric])
qed


theorem register_fails_open_witness:
  "let s = ex_service\<lparr>as_db := (as_db ex_service)\<lparr>db_faults := [True]\<rparr>\<rparr>;
       r = ex_request ''POST'' ''/api/v1/auth/register'' [];
       b = \<lparr>rb_Email = ''evil@b.c'', rb_Password = ''x'', rb_Role = ''admin'', rb_Groups = None\<rparr>
   in AuthMiddleware ex_lib 5 s False r = (Pass r, s) \<and>
      fst (fst (handleRegister ex_lib (\<lambda>i. ''u-9'') 5 s r (Some b))) = StatusCreated"
  unfolding Let_def
  using register_fails_open [where lib = ex_lib and ids = "\<lambda>i. ''u-9''" and now = 5 and hash = "''#x''"
      and s = "ex_service\<lparr>as_db := (as_db ex_service)\<lparr>db_faults := [True]\<rparr>\<rparr>"
      and r = "ex_request ''POST'' ''/api/v1/auth/register'' []"
      and b = "\<lparr>rb_Email = ''evil@b.c'', rb_Password = ''x'', rb_Role = ''admin'', rb_Groups = None\<rparr>"]
  by (simp add: ex_auth_defs has_user_def)

section \<open>API keys\<close>

lemma CreateApiKey_keys:
  assumes "CreateApiKey d k = (res, d')"
  shows "if res = None then t_api_keys (db_tables d') = t_api_keys (db_tables d) @ [k] else db_tables d' = db_tables d"
  using assms unfolding CreateApiKey_def
proof (cases rule: exec_cases)
  case (ok t)
  have "t_api_keys t = t_api_keys (db_tables d) @ [k]" using ok(2) by (auto simp: insert_api_key_def split: if_splits)
  with ok show ?thesis by simp
qed simp

lemma CreateApiKeyForUser_keys:
  assumes "CreateApiKeyForUser lib newID rnd now s uid name ex = (res, s')"
  shows "t_api_keys (db_tables (as_db s')) = t_api_keys (db_tables (as_db s)) \<or>
    (\<exists>k. t_api_keys (db_tables (as_db s')) = t_api_keys (db_tables (as_db s)) @ [k] \<and> key_UserID k = uid)"
  using assms
  by (auto simp: CreateApiKeyForUser_def Let_def split: option.splits prod.splits dest!: CreateApiKey_keys)

lemma DeleteApiKey_keys:
  assumes "DeleteApiKey d kid = (res, d')"
  shows "t_api_keys (db_tables d') = t_api_keys (db_tables d) \<or>
    t_api_keys (db_tables d') = filter (\<lambda>k. key_ID k \<noteq> kid) (t_api_keys (db_tables d))"
  using assms unfolding DeleteApiKey_def
proof (cases rule: exec_cases)
  case (ok t)
  then have "t = (db_tables d)\<lparr>t_api_keys := filter (\<lambda>k. key_ID k \<noteq> kid) (t_api_keys (db_tables d))\<rparr>"
    by (simp add: delete_api_key_def)
  with ok(3) show ?thesis by simp
qed simp

lemma ListApiKeys_Inr:
  assumes "ListApiKeys d uid = (Inr keys, d')"
  shows "set keys = {k \<in> set (t_api_keys (db_tables d)). key_UserID k = uid} \<and> db_tables d' = db_tables d"
proof -
  note q = assms [unfolded ListApiKeys_def]
  from query_Inr [OF q] query_now [OF q] show ?thesis by auto
qed

lemma keys_delete_keys:
  assumes d: "keys_delete s u kid = (resp, s')"
  shows "t_api_keys (db_tables (as_db s')) = t_api_keys (db_tables (as_db s)) \<or>
    t_api_keys (db_tables (as_db s')) = filter (\<lambda>k. key_ID k \<noteq> kid) (t_api_keys (db_tables (as_db s))) \<and>
    (ui_Role u = RoleAdmin \<or> (\<exists>k \<in> set (t_api_keys (db_tables (as_db s))). key_ID k = kid \<and> key_UserID k = ui_ID u))"
proof (cases "kid = ''''")
  case True
  with d show ?thesis by (simp add: keys_delete_def)
next
  case False
  obtain res d1 where l: "ListApiKeys (as_db s) (ui_ID u) = (res, d1)" by (rule prod.exhaust)
  have d1: "db_tables d1 = db_tables (as_db s)" using l query_now by (auto simp: ListApiKeys_def)
  obtain res2 d2 where x: "DeleteApiKey d1 kid = (res2, d2)" by (rule prod.exhaust)
  show ?thesis
  proof (cases "\<exists>keys. res = Inr keys \<and> (list_ex (\<lambda>k. key_ID k = kid) keys \<or> ui_Role u = RoleAdmin)")
    case True
    then obtain keys where keys: "res = Inr keys" "list_ex (\<lambda>k. key_ID k = kid) keys \<or> ui_Role u = RoleAdmin" by blast
    with d False l x have s': "as_db s' = d2" by (auto simp: keys_delete_def Let_def split: option.splits)
    have own: "ui_Role u = RoleAdmin \<or> (\<exists>k \<in> set (t_api_keys (db_tables (as_db s))). key_ID k = kid \<and> key_UserID k = ui_ID u)"
      using keys ListApiKeys_Inr [of "as_db s" "ui_ID u" keys d1] l by (auto simp: list_ex_iff)
    from DeleteApiKey_keys [OF x] s' d1 own show ?thesis by auto
  next
    case no: False
    with d False l d1 show ?thesis by (auto simp: keys_delete_def Let_def split: sum.splits)
  qed
qed

lemma handleKeys_keys:
  assumes "handleKeys lib newID rnd now s r body = (resp, s')" "rq_user r = Some u"
  shows "(\<exists>k. t_api_keys (db_tables (as_db s')) = t_api_keys (db_tables (as_db s)) @ [k] \<and> key_UserID k = ui_ID u) \<or>
    t_api_keys (db_tables (as_db s')) = t_api_keys (db_tables (as_db s)) \<or>
    (\<exists>kid. t_api_keys (db_tables (as_db s')) = filter (\<lambda>k. key_ID k \<noteq> kid) (t_api_keys (db_tables (as_db s))) \<and>
      (ui_Role u = RoleAdmin \<or> (\<exists>k \<in> set (t_api_keys (db_tables (as_db s))). key_ID k = kid \<and> key_UserID k = ui_ID u)))"
proof -
  let ?t = "db_tables (as_db s)"
  consider (post) "rq_method r = ''POST''" | (get) "rq_method r = ''GET''" | (delete) "rq_method r = ''DELETE''"
    | (other) "rq_method r \<notin> {''POST'', ''GET'', ''DELETE''}" by auto
  then show ?thesis
  proof cases
    case post
    with assms have "keys_post lib newID rnd now s u body = (resp, s')" by (simp add: handleKeys_def FromContext_def)
    then show ?thesis
      by (auto simp: keys_post_def split: KeysRequest.splits if_splits sum.splits prod.splits dest!: CreateApiKeyForUser_keys)
  next
    case get
    with assms show ?thesis
      by (auto simp: handleKeys_def FromContext_def ListApiKeys_def split: sum.splits prod.splits dest!: query_now)
  next
    case delete
    with assms have "keys_delete s u (get_field (rq_query r) ''id'') = (resp, s')" by (simp add: handleKeys_def FromContext_def)
    then show ?thesis
      using keys_delete_keys by blast
  next
    case other
    with assms show ?thesis by (simp add: handleKeys_def FromContext_def)
  qed
qed

text \<open>
  Whatever a user who is not an administrator asks of the key endpoint, the keys of every other user
  are untouched: nothing is removed from them, and a key that is added belongs to the caller.
\<close>

theorem keys_of_others_untouched:
  assumes inv: "db_inv (db_tables (as_db s))" and h: "handleKeys lib newID rnd now s r body = (resp, s')"
    and caller: "rq_user r = Some u" "ui_Role u \<noteq> RoleAdmin"
  shows "filter (\<lambda>k. key_UserID k \<noteq> ui_ID u) (t_api_keys (db_tables (as_db s'))) =
    filter (\<lambda>k. key_UserID k \<noteq> ui_ID u) (t_api_keys (db_tables (as_db s)))"
proof -
  have one: "key_UserID k' = ui_ID u" if "k \<in> set (t_api_keys (db_tables (as_db s)))" "k' \<in> set (t_api_keys (db_tables (as_db s)))"
    "key_ID k = key_ID k'" "key_UserID k = ui_ID u" for k k'
  proof -
    have "distinct (map key_ID (t_api_keys (db_tables (as_db s))))" using inv by (simp add: db_inv_def keys_ok_def)
    with that have "k = k'" by (auto simp: distinct_map inj_on_def)
    with that show ?thesis by simp
  qed
  from handleKeys_keys [OF h caller(1)] caller(2) consider
      (added) k where "t_api_keys (db_tables (as_db s')) = t_api_keys (db_tables (as_db s)) @ [k]" "key_UserID k = ui_ID u"
    | (same) "t_api_keys (db_tables (as_db s')) = t_api_keys (db_tables (as_db s))"
    | (deleted) k where "k \<in> set (t_api_keys (db_tables (as_db s)))" "key_UserID k = ui_ID u"
        "t_api_keys (db_tables (as_db s')) = filter (\<lambda>x. key_ID x \<noteq> key_ID k) (t_api_keys (db_tables (as_db s)))" by auto
  then show ?thesis
  proof cases
    case (deleted k)
    show ?thesis unfolding deleted(3) filter_filter
      by (rule filter_cong) (use one [OF deleted(1)] deleted(2) in auto)
  qed simp_all
qed

theorem keys_of_others_untouched_witness:
  "let s = ex_service\<lparr>as_db := (as_db ex_service)\<lparr>db_tables := (db_tables (as_db ex_service))\<lparr>t_api_keys :=
         [\<lparr>key_ID = ''k-1'', key_UserID = ''u-1'', key_Name = ''ci'', key_TokenHash = ''h'', key_CreatedAt = 0, key_ExpiresAt = None\<rparr>]\<rparr>\<rparr>\<rparr>;
       r = (ex_request ''DELETE'' ''/api/v1/auth/keys'' [])\<lparr>rq_query := [(''id'', ''k-1'')],
         rq_user := Some \<lparr>ui_ID = ''u-7'', ui_Email = ''z@b.c'', ui_Role = ''user'', ui_Groups = []\<rparr>\<rparr>
   in map key_ID (filter (\<lambda>k. key_UserID k \<noteq> ''u-7'') (t_api_keys (db_tables (as_db (snd (handleKeys ex_lib '''' None 1 s r KeysDecodeError)))))) = [''k-1'']"
proof -
  define s where "s = ex_service\<lparr>as_db := (as_db ex_service)\<lparr>db_tables := (db_tables (as_db ex_service))\<lparr>t_api_keys :=
    [\<lparr>key_ID = ''k-1'', key_UserID = ''u-1'', key_Name = ''ci'', key_TokenHash = ''h'', key_CreatedAt = 0, key_ExpiresAt = None\<rparr>]\<rparr>\<rparr>\<rparr>"
  define r where "r = (ex_request ''DELETE'' ''/api/v1/auth/keys'' [])\<lparr>rq_query := [(''id'', ''k-1'')],
    rq_user := Some \<lparr>ui_ID = ''u-7'', ui_Email = ''z@b.c'', ui_Role = ''user'', ui_Groups = []\<rparr>\<rparr>"
  have inv: "db_inv (db_tables (as_db s))" by (simp add: s_def ex_auth_defs inv_defs)
  have u: "rq_user r = Some \<lparr>ui_ID = ''u-7'', ui_Email = ''z@b.c'', ui_Role = ''user'', ui_Groups = []\<rparr>" by (simp add: r_def)
  obtain resp s' where h: "handleKeys ex_lib '''' None 1 s r KeysDecodeError = (resp, s')" by (rule prod.exhaust)
  from keys_of_others_untouched [OF inv h u] h show ?thesis
    unfolding s_def [symmetric] r_def [symmetric] Let_def by (simp add: RoleAdmin_def) (simp add: s_def ex_auth_defs)
qed


text \<open>
  An API key that was issued is worth its owner's account: it is accepted with the owner's user until
  its expiry, refused as expired after it, and refused as unknown once the owner has been deleted.
\<close>

theorem api_key_lifetime:
  assumes inv: "db_inv (db_tables (as_db s))" and nf: "db_faults (as_db s) = []"
    and owner: "user \<in> set (t_users (db_tables (as_db s)))"
    and issued: "CreateApiKeyForUser lib newID (Some rnd) now s (user_ID user) name ex = (Inr raw, s1)"
  shows "fst (VerifyApiKey lib t s1 raw) = (case ex of Some e \<Rightarrow> if e < t then Inl ExpiredApiKey else Inr user | None \<Rightarrow> Inr user) \<and>
    fst (VerifyApiKey lib t (s1\<lparr>as_db := snd (DeleteUser (as_db s1) (user_ID user))\<rparr>) raw) = Inl InvalidApiKey"
proof -
  define k where "k = \<lparr>key_ID = newID, key_UserID = user_ID user, key_Name = name,
    key_TokenHash = lib_sha256_hex lib (''pt_live_'' @ hex_encode rnd), key_CreatedAt = now, key_ExpiresAt = ex\<rparr>"
  let ?ks = "t_api_keys (db_tables (as_db s))" and ?h = "lib_sha256_hex lib raw"
  obtain res d where c: "CreateApiKey (as_db s) k = (res, d)" by (rule prod.exhaust)
  with issued have r: "res = None" "raw = ''pt_live_'' @ hex_encode rnd" "s1 = s\<lparr>as_db := d\<rparr>"
    by (auto simp: CreateApiKeyForUser_def k_def Let_def split: option.splits)
  have ins: "insert_api_key k (db_tables (as_db s)) = Inr (db_tables d)" and d: "db_faults d = []"
    using c r(1) nf by (auto simp: CreateApiKey_def exec_def split: sum.splits)
  have new: "key_TokenHash k \<notin> key_TokenHash ` set ?ks" and d': "db_tables d = (db_tables (as_db s))\<lparr>t_api_keys := ?ks @ [k]\<rparr>"
    using ins by (auto simp: insert_api_key_def split: if_splits)
  have hk: "key_TokenHash k = ?h" using r(2) by (simp add: k_def)
  have nokey: "find (\<lambda>x. key_TokenHash x = ?h) (filter P ?ks) = None" for P
    using new hk by (force simp: find_None_iff)
  have "find (\<lambda>x. key_TokenHash x = ?h) (xs @ [k]) = Some k" if "find (\<lambda>x. key_TokenHash x = ?h) xs = None" for xs
    using that hk by (induction xs) (auto split: if_splits)
  with nokey [of "\<lambda>x. True"] have row: "row_with key_TokenHash ?h (?ks @ [k]) = Inr k" by (simp add: row_with_def)
  have dist: "distinct (map user_ID (t_users (db_tables (as_db s))))" using inv by (simp add: db_inv_def keys_ok_def)
  have urow: "row_with user_ID (user_ID user) (t_users (db_tables (as_db s))) = Inr user"
    using row_with_unique [OF dist owner] .
  have 1: "fst (VerifyApiKey lib t s1 raw) = (case ex of Some e \<Rightarrow> if e < t then Inl ExpiredApiKey else Inr user | None \<Rightarrow> Inr user)"
    using row urow d d' r(3)
    by (auto simp: VerifyApiKey_def GetApiKeyByHash_def GetUserByID_def query_def k_def split: option.splits)
  have "row_with key_TokenHash ?h (filter (\<lambda>x. key_UserID x \<noteq> user_ID user) (?ks @ [k])) = Inl ErrNoRows"
    using nokey by (simp add: row_with_def k_def)
  then have 2: "fst (VerifyApiKey lib t (s1\<lparr>as_db := snd (DeleteUser (as_db s1) (user_ID user))\<rparr>) raw) = Inl InvalidApiKey"
    using d d' r(3) by (simp add: VerifyApiKey_def GetApiKeyByHash_def query_def DeleteUser_def exec_def delete_user_def)
  from 1 2 show ?thesis by blast
qed

theorem api_key_lifetime_witness:
  "let c = CreateApiKeyForUser ex_lib ''k-1'' (Some [255, 1]) 5 ex_service ''u-1'' ''ci'' (Some 10)
   in fst c = Inr ''pt_live_ff01'' \<and> fst (VerifyApiKey ex_lib 11 (snd c) ''pt_live_ff01'') = Inl ExpiredApiKey"
proof -
  have u: "ex_user ''u-1'' ''#pw'' ''user'' \<in> set (t_users (db_tables (as_db ex_service)))" by (simp add: ex_auth_defs)
  have hex: "hex_encode [255, Suc 0] = ''ff01''" by code_simp
  obtain s1 where c: "CreateApiKeyForUser ex_lib ''k-1'' (Some [255, 1]) 5 ex_service (user_ID (ex_user ''u-1'' ''#pw'' ''user'')) ''ci'' (Some 10)
      = (Inr ''pt_live_ff01'', s1)"
    by (simp add: CreateApiKeyForUser_def CreateApiKey_def exec_def next_fault_def insert_api_key_def has_user_def
        ex_auth_defs hex Let_def)
  have inv: "db_inv (db_tables (as_db ex_service))" "db_faults (as_db ex_service) = []" by (simp_all add: ex_auth_defs inv_defs)
  from api_key_lifetime [OF inv u c, of 11] c show ?thesis by (simp add: ex_user_def)
qed


end
