(* ===== verification/Scheduler.thy ===== *)
theory Scheduler
  imports Script_DSL
begin

text \<open>
  \<^verbatim>\<open>src/internal/automation/scheduler.go\<close>: parallel runs of scripts on devices, at most one per device at a
  time.

  Each task is a goroutine; its three atomic parts are the steps \<^verbatim>\<open>begin_task\<close> (the locked test and set of
  \<^verbatim>\<open>activeRuns\<close>), \<^verbatim>\<open>run_task\<close> (the call of \<^verbatim>\<open>ExecuteFn\<close> returns) and \<^verbatim>\<open>end_task\<close> (the deferred unlock).
  The state holds the goroutines of every call of \<^verbatim>\<open>RunParallel\<close> that is under way, since all calls share
  one \<^verbatim>\<open>Scheduler\<close>; a new call appends its tasks.
\<close>

section \<open>scheduler.go\<close>

text \<open>What \<^verbatim>\<open>ExecuteFn\<close> will return for its serial and script; its effects are outside the scheduler.\<close>

record Task =
  task_Serial :: string
  task_Script :: Script
  task_ExecuteFn :: "string \<Rightarrow> Script \<Rightarrow> string + Report"

definition task_Outcome :: "Task \<Rightarrow> string + Report" where
  "task_Outcome t = task_ExecuteFn t (task_Serial t) (task_Script t)"

datatype TaskResult = TaskResult string "string + Report"

datatype goroutine = Started | Executing | Unlocking TaskResult | Done TaskResult

record Scheduler =
  sch_activeRuns :: "string \<Rightarrow> bool"
  sch_tasks :: "(Task \<times> goroutine) list"

definition NewScheduler :: Scheduler where
  "NewScheduler = \<lparr>sch_activeRuns = (\<lambda>_. False), sch_tasks = []\<rparr>"

definition busy_error :: "string \<Rightarrow> string" where
  "busy_error serial = ''device '' @ serial @ '' is busy running another automation script''"

definition RunParallel_start :: "Scheduler \<Rightarrow> Task list \<Rightarrow> Scheduler" where
  "RunParallel_start s tasks = s\<lparr>sch_tasks := sch_tasks s @ map (\<lambda>t. (t, Started)) tasks\<rparr>"

definition set_goroutine :: "Scheduler \<Rightarrow> nat \<Rightarrow> goroutine \<Rightarrow> Scheduler" where
  "set_goroutine s i g = s\<lparr>sch_tasks := (sch_tasks s)[i := (fst (sch_tasks s ! i), g)]\<rparr>"

definition begin_task :: "Scheduler \<Rightarrow> nat \<Rightarrow> Scheduler" where
  "begin_task s i =
     (let serial = task_Serial (fst (sch_tasks s ! i)) in
      if sch_activeRuns s serial then set_goroutine s i (Done (TaskResult serial (Inl (busy_error serial))))
      else set_goroutine (s\<lparr>sch_activeRuns := (sch_activeRuns s)(serial := True)\<rparr>) i Executing)"

definition run_task :: "Scheduler \<Rightarrow> nat \<Rightarrow> Scheduler" where
  "run_task s i =
     (let t = fst (sch_tasks s ! i) in set_goroutine s i (Unlocking (TaskResult (task_Serial t) (task_Outcome t))))"

definition end_task :: "Scheduler \<Rightarrow> nat \<Rightarrow> TaskResult \<Rightarrow> Scheduler" where
  "end_task s i res =
     set_goroutine (s\<lparr>sch_activeRuns := (sch_activeRuns s)(task_Serial (fst (sch_tasks s ! i)) := False)\<rparr>) i (Done res)"

inductive sch_step :: "Scheduler \<Rightarrow> Scheduler \<Rightarrow> bool" where
  take: "i < length (sch_tasks s) \<Longrightarrow> snd (sch_tasks s ! i) = Started \<Longrightarrow> sch_step s (begin_task s i)"
| execute: "i < length (sch_tasks s) \<Longrightarrow> snd (sch_tasks s ! i) = Executing \<Longrightarrow> sch_step s (run_task s i)"
| finish: "i < length (sch_tasks s) \<Longrightarrow> snd (sch_tasks s ! i) = Unlocking res \<Longrightarrow> sch_step s (end_task s i res)"

inductive sch_reachable :: "Scheduler \<Rightarrow> bool" where
  new: "sch_reachable NewScheduler"
| call: "sch_reachable s \<Longrightarrow> sch_reachable (RunParallel_start s tasks)"
| step: "sch_reachable s \<Longrightarrow> sch_step s s' \<Longrightarrow> sch_reachable s'"

inductive_cases sch_stepE: "sch_step s s'"

section \<open>One run per device\<close>

text \<open>The goroutine holds the device: between the locked test and the deferred unlock.\<close>

fun holds :: "goroutine \<Rightarrow> bool" where
  "holds Executing = True"
| "holds (Unlocking _) = True"
| "holds _ = False"

definition holders :: "Scheduler \<Rightarrow> string \<Rightarrow> nat set" where
  "holders s serial = {i. i < length (sch_tasks s) \<and> task_Serial (fst (sch_tasks s ! i)) = serial \<and> holds (snd (sch_tasks s ! i))}"

text \<open>
  The invariant: a device is marked active exactly when some goroutine holds it, at most one does, and
  a goroutine that has its result has the result of its own task or the busy error.
\<close>

fun result_ok :: "Task \<Rightarrow> goroutine \<Rightarrow> bool" where
  "result_ok t (Unlocking r) = (r = TaskResult (task_Serial t) (task_Outcome t))"
| "result_ok t (Done r) = (r = TaskResult (task_Serial t) (task_Outcome t) \<or>
     r = TaskResult (task_Serial t) (Inl (busy_error (task_Serial t))))"
| "result_ok t g = True"

definition sch_inv :: "Scheduler \<Rightarrow> bool" where
  "sch_inv s \<longleftrightarrow>
     (\<forall>serial. (if sch_activeRuns s serial then \<exists>i. holders s serial = {i} else holders s serial = {})) \<and>
     (\<forall>i < length (sch_tasks s). result_ok (fst (sch_tasks s ! i)) (snd (sch_tasks s ! i)))"

lemma sch_invD:
  assumes "sch_inv s"
  shows "sch_activeRuns s serial \<Longrightarrow> \<exists>i. holders s serial = {i}" "\<not> sch_activeRuns s serial \<Longrightarrow> holders s serial = {}"
    "i < length (sch_tasks s) \<Longrightarrow> result_ok (fst (sch_tasks s ! i)) (snd (sch_tasks s ! i))"
  using assms by (auto simp: sch_inv_def split: if_splits)

lemma set_goroutine_simps [simp]:
  "length (sch_tasks (set_goroutine s i g)) = length (sch_tasks s)"
  "sch_activeRuns (set_goroutine s i g) = sch_activeRuns s"
  "i < length (sch_tasks s) \<Longrightarrow> sch_tasks (set_goroutine s i g) ! j =
     (if j = i then (fst (sch_tasks s ! i), g) else sch_tasks s ! j)"
  "i < length (sch_tasks s) \<Longrightarrow> map fst (sch_tasks (set_goroutine s i g)) = map fst (sch_tasks s)"
  by (auto simp: set_goroutine_def nth_list_update map_update intro: nth_equalityI)

lemma holders_set_goroutine:
  "i < length (sch_tasks s) \<Longrightarrow> holders (set_goroutine s i g) serial =
     (if task_Serial (fst (sch_tasks s ! i)) = serial
      then (if holds g then insert i (holders s serial) else holders s serial - {i}) else holders s serial)"
  by (auto simp: holders_def split: if_splits)

lemma holders_active [simp]: "holders (s\<lparr>sch_activeRuns := a\<rparr>) serial = holders s serial"
  by (simp add: holders_def)

lemma sch_inv_new: "sch_inv NewScheduler"
  by (simp add: sch_inv_def NewScheduler_def holders_def)

lemma sch_inv_call [inv_intro]:
  assumes "sch_inv s"
  shows "sch_inv (RunParallel_start s tasks)"
proof -
  have nth: "sch_tasks (RunParallel_start s tasks) ! i =
      (if i < length (sch_tasks s) then sch_tasks s ! i else (tasks ! (i - length (sch_tasks s)), Started))"
    if "i < length (sch_tasks (RunParallel_start s tasks))" for i
    using that by (auto simp: RunParallel_start_def nth_append)
  have h: "holders (RunParallel_start s tasks) serial = holders s serial" for serial
  proof -
    have len: "length (sch_tasks s) \<le> length (sch_tasks (RunParallel_start s tasks))"
      by (simp add: RunParallel_start_def)
    show ?thesis
      unfolding holders_def using len by (auto simp: nth split: if_splits)
  qed
  show ?thesis
    unfolding sch_inv_def h
  proof (intro conjI allI impI)
    show "if sch_activeRuns (RunParallel_start s tasks) serial then \<exists>i. holders s serial = {i} else holders s serial = {}" for serial
      using sch_invD(1,2) [OF assms] by (simp add: RunParallel_start_def)
    show "result_ok (fst (sch_tasks (RunParallel_start s tasks) ! i)) (snd (sch_tasks (RunParallel_start s tasks) ! i))"
      if "i < length (sch_tasks (RunParallel_start s tasks))" for i
      using nth [OF that] sch_invD(3) [OF assms] by simp
  qed
qed

lemma sch_inv_begin:
  assumes inv: "sch_inv s" and i: "i < length (sch_tasks s)" "snd (sch_tasks s ! i) = Started"
  shows "sch_inv (begin_task s i)"
proof -
  let ?serial = "task_Serial (fst (sch_tasks s ! i))"
  have free: "i \<notin> holders s ser" for ser using i by (simp add: holders_def)
  show ?thesis
  proof (cases "sch_activeRuns s ?serial")
    case True
    with free have "holders (begin_task s i) ser = holders s ser" for ser
      using i by (simp add: begin_task_def holders_set_goroutine Let_def)
    with True inv i show ?thesis by (auto simp: sch_inv_def begin_task_def Let_def)
  next
    case False
    then have "holders (begin_task s i) ser = (if ser = ?serial then {i} else holders s ser)" for ser
      using i sch_invD(2) [OF inv False] by (auto simp: begin_task_def holders_set_goroutine Let_def)
    with False inv i show ?thesis by (auto simp: sch_inv_def begin_task_def Let_def)
  qed
qed

lemma sch_inv_run:
  assumes inv: "sch_inv s" and i: "i < length (sch_tasks s)" "snd (sch_tasks s ! i) = Executing"
  shows "sch_inv (run_task s i)"
proof -
  have "i \<in> holders s (task_Serial (fst (sch_tasks s ! i)))" using i by (simp add: holders_def)
  then have "holders (run_task s i) ser = holders s ser" for ser
    using i by (auto simp: run_task_def holders_set_goroutine Let_def)
  with inv i show ?thesis by (auto simp: sch_inv_def run_task_def Let_def)
qed

lemma sch_inv_end:
  assumes inv: "sch_inv s" and i: "i < length (sch_tasks s)" "snd (sch_tasks s ! i) = Unlocking res"
  shows "sch_inv (end_task s i res)"
proof -
  let ?serial = "task_Serial (fst (sch_tasks s ! i))"
  have "i \<in> holders s ?serial" using i by (simp add: holders_def)
  moreover from this have "sch_activeRuns s ?serial" using sch_invD(2) [OF inv, of ?serial] by auto
  ultimately have one: "holders s ?serial = {i}" using sch_invD(1) [OF inv, of ?serial] by auto
  have "holders (end_task s i res) ser = (if ser = ?serial then {} else holders s ser)" for ser
    using i one by (simp add: end_task_def holders_set_goroutine)
  moreover have "result_ok (fst (sch_tasks s ! i)) (Done res)" using sch_invD(3) [OF inv i(1)] i(2) by simp
  ultimately show ?thesis using inv i by (auto simp: sch_inv_def end_task_def)
qed

lemma sch_inv_reachable: "sch_reachable s \<Longrightarrow> sch_inv s"
  by (induction rule: sch_reachable.induct)
    (auto intro: sch_inv_new sch_inv_call sch_inv_begin sch_inv_run sch_inv_end elim!: sch_stepE)

lemmas begin_task_split = begin_task_def Let_def

text \<open>
  C3. Under any interleaving of any number of \<^verbatim>\<open>RunParallel\<close> calls, at most one script runs on a device at
  a time, a device is marked active exactly while one does, and when every goroutine has finished no
  device is left marked, so that nothing blocks a later run.
\<close>

theorem one_run_per_device:
  assumes "sch_reachable s"
  shows "(\<forall>i j. i \<in> holders s serial \<and> j \<in> holders s serial \<longrightarrow> i = j) \<and>
    (sch_activeRuns s serial \<longleftrightarrow> holders s serial \<noteq> {}) \<and>
    ((\<forall>p \<in> set (sch_tasks s). \<exists>r. snd p = Done r) \<longrightarrow> \<not> sch_activeRuns s serial)"
proof -
  note inv = sch_inv_reachable [OF assms]
  have active: "sch_activeRuns s serial \<longleftrightarrow> holders s serial \<noteq> {}"
    using sch_invD(1,2) [OF inv, of serial] by auto
  moreover have "\<forall>i j. i \<in> holders s serial \<and> j \<in> holders s serial \<longrightarrow> i = j"
    using sch_invD(1,2) [OF inv, of serial] by (cases "sch_activeRuns s serial") auto
  moreover have "holders s serial = {}" if "\<forall>p \<in> set (sch_tasks s). \<exists>r. snd p = Done r"
    using that by (force simp: holders_def dest!: nth_mem)
  ultimately show ?thesis by blast
qed

definition ex_task :: "string \<Rightarrow> Task" where
  "ex_task serial = \<lparr>task_Serial = serial, task_Script = \<lparr>scr_Variables = Map.empty, scr_Steps = []\<rparr>, task_ExecuteFn = (\<lambda>_ _. Inl ''boom'')\<rparr>"

definition ex_sched :: Scheduler where
  "ex_sched = begin_task (RunParallel_start NewScheduler [ex_task ''d1'', ex_task ''d1'']) 1"

lemma ex_sched_reachable: "sch_reachable ex_sched"
  unfolding ex_sched_def
  by (intro sch_reachable.step [OF _ sch_step.take] sch_reachable.call sch_reachable.new)
    (simp_all add: RunParallel_start_def NewScheduler_def)

theorem one_run_per_device_witness: "sch_activeRuns ex_sched ''d1'' \<and> holders ex_sched ''d1'' \<noteq> {}"
proof -
  have "sch_activeRuns ex_sched ''d1''"
    by (simp add: ex_sched_def begin_task_split RunParallel_start_def NewScheduler_def ex_task_def)
  with one_run_per_device [OF ex_sched_reachable, of "''d1''"] show ?thesis by blast
qed

section \<open>Every call returns\<close>

fun goroutine_steps :: "goroutine \<Rightarrow> nat" where
  "goroutine_steps Started = 3"
| "goroutine_steps Executing = 2"
| "goroutine_steps (Unlocking _) = 1"
| "goroutine_steps (Done _) = 0"

definition remaining :: "Scheduler \<Rightarrow> nat" where
  "remaining s = sum_list (map (goroutine_steps \<circ> snd) (sch_tasks s))"

lemma remaining_set_goroutine:
  assumes "i < length (sch_tasks s)" "goroutine_steps g < goroutine_steps (snd (sch_tasks s ! i))"
  shows "remaining (set_goroutine s i g) < remaining s"
proof -
  have "sum_list ((map f xs)[i := y]) < sum_list (map f xs)" if "i < length xs" "y < f (xs ! i)" for f :: "_ \<Rightarrow> nat" and xs y
    using that by (induction xs arbitrary: i) (auto split: nat.splits)
  from this [of "sch_tasks s" "goroutine_steps g" "goroutine_steps \<circ> snd"] assms show ?thesis
    by (simp add: remaining_def set_goroutine_def map_update)
qed

lemma remaining_active [simp]: "remaining (s\<lparr>sch_activeRuns := a\<rparr>) = remaining s"
  by (simp add: remaining_def)

lemma sch_step_decreases: "sch_step s s' \<Longrightarrow> remaining s' < remaining s"
  by (erule sch_stepE)
    (auto simp: begin_task_split run_task_def end_task_def intro!: less_le_trans [OF remaining_set_goroutine])

lemma sch_step_tasks: "sch_step s s' \<Longrightarrow> map fst (sch_tasks s') = map fst (sch_tasks s)"
  by (erule sch_stepE) (auto simp: begin_task_split run_task_def end_task_def)

lemma sch_progress:
  assumes "i < length (sch_tasks s)" "\<forall>r. snd (sch_tasks s ! i) \<noteq> Done r"
  shows "\<exists>s'. sch_step s s'"
  using assms by (cases "snd (sch_tasks s ! i)") (auto intro: sch_step.intros)

text \<open>
  Every call of \<^verbatim>\<open>RunParallel\<close> returns: from any reachable state every sequence of steps ends, in a
  state where each goroutine has delivered, in the slot of its task, either what its execution returned
  or the error that the device was busy; no task is lost or reordered.
\<close>

theorem RunParallel_returns:
  assumes "sch_reachable s"
  shows "\<exists>s'. sch_step\<^sup>*\<^sup>* s s' \<and> (\<nexists>s''. sch_step s' s'') \<and> map fst (sch_tasks s') = map fst (sch_tasks s) \<and>
    (\<forall>i < length (sch_tasks s). \<exists>r. snd (sch_tasks s' ! i) = Done (TaskResult (task_Serial (fst (sch_tasks s ! i))) r) \<and>
      (r = task_Outcome (fst (sch_tasks s ! i)) \<or> r = Inl (busy_error (task_Serial (fst (sch_tasks s ! i))))))"
  using assms
proof (induction "remaining s" arbitrary: s rule: less_induct)
  case less
  show ?case
  proof (cases "\<exists>s1. sch_step s s1")
    case True
    then obtain s1 where s1: "sch_step s s1" by blast
    have tasks: "map fst (sch_tasks s1) = map fst (sch_tasks s)" by (rule sch_step_tasks [OF s1])
    then have len: "length (sch_tasks s1) = length (sch_tasks s)" using map_eq_imp_length_eq by blast
    have nth: "fst (sch_tasks s1 ! i) = fst (sch_tasks s ! i)" if "i < length (sch_tasks s)" for i
      using tasks that len by (metis nth_map)
    from less.hyps [OF sch_step_decreases [OF s1] sch_reachable.step [OF less.prems s1]]
    obtain s' where s': "sch_step\<^sup>*\<^sup>* s1 s'" "\<nexists>s''. sch_step s' s''" "map fst (sch_tasks s') = map fst (sch_tasks s1)"
      "\<forall>i < length (sch_tasks s1). \<exists>r. snd (sch_tasks s' ! i) = Done (TaskResult (task_Serial (fst (sch_tasks s1 ! i))) r) \<and>
        (r = task_Outcome (fst (sch_tasks s1 ! i)) \<or> r = Inl (busy_error (task_Serial (fst (sch_tasks s1 ! i)))))" by blast
    have "sch_step\<^sup>*\<^sup>* s s'" by (rule converse_rtranclp_into_rtranclp [of sch_step, OF s1 s'(1)])
    with s' tasks len nth show ?thesis by auto
  next
    case False
    have "result_ok (fst (sch_tasks s ! i)) (snd (sch_tasks s ! i)) \<and> (\<exists>r. snd (sch_tasks s ! i) = Done r)"
      if "i < length (sch_tasks s)" for i
      using sch_progress [OF that] False sch_invD(3) [OF sch_inv_reachable [OF less.prems] that] by auto
    then have "\<exists>r. snd (sch_tasks s ! i) = Done (TaskResult (task_Serial (fst (sch_tasks s ! i))) r) \<and>
        (r = task_Outcome (fst (sch_tasks s ! i)) \<or> r = Inl (busy_error (task_Serial (fst (sch_tasks s ! i)))))"
      if "i < length (sch_tasks s)" for i using that by fastforce
    with False show ?thesis by blast
  qed
qed

theorem RunParallel_returns_witness:
  "\<exists>s' r. sch_step\<^sup>*\<^sup>* ex_sched s' \<and> snd (sch_tasks s' ! 0) = Done (TaskResult ''d1'' r)"
proof -
  have "length (sch_tasks ex_sched) = 2" "task_Serial (fst (sch_tasks ex_sched ! 0)) = ''d1''"
    by (simp_all add: ex_sched_def begin_task_split RunParallel_start_def NewScheduler_def ex_task_def)
  with RunParallel_returns [OF ex_sched_reachable] show ?thesis by fastforce
qed


section \<open>One schedule: the goroutines one after the other\<close>

definition task_step :: "nat \<Rightarrow> Scheduler \<Rightarrow> Scheduler" where
  "task_step i s =
     (case snd (sch_tasks s ! i) of
        Started \<Rightarrow> begin_task s i
      | Executing \<Rightarrow> run_task s i
      | Unlocking r \<Rightarrow> end_task s i r
      | Done r \<Rightarrow> s)"

definition run_in_order :: "Scheduler \<Rightarrow> Scheduler" where
  "run_in_order s = fold (\<lambda>i s. task_step i (task_step i (task_step i s))) [0..<length (sch_tasks s)] s"

lemma task_step_steps: "i < length (sch_tasks s) \<Longrightarrow> sch_step\<^sup>*\<^sup>* s (task_step i s)"
  by (auto simp: task_step_def intro: sch_step.intros split: goroutine.splits)

lemma task_step_others:
  "length (sch_tasks (task_step i s)) = length (sch_tasks s)"
  "i < length (sch_tasks s) \<Longrightarrow> j \<noteq> i \<Longrightarrow> sch_tasks (task_step i s) ! j = sch_tasks s ! j"
  by (auto simp: task_step_def begin_task_split run_task_def end_task_def split: goroutine.splits)

lemma task_step_done:
  "i < length (sch_tasks s) \<Longrightarrow> \<exists>r. snd (sch_tasks (task_step i (task_step i (task_step i s))) ! i) = Done r"
  by (cases "snd (sch_tasks s ! i)")
    (auto simp: task_step_def begin_task_split run_task_def end_task_def)

lemma run_in_order_finishes:
  "sch_step\<^sup>*\<^sup>* s (run_in_order s)" "\<nexists>x. sch_step (run_in_order s) x"
proof -
  let ?f = "\<lambda>i s. task_step i (task_step i (task_step i s))"
  have "sch_step\<^sup>*\<^sup>* s (fold ?f [0..<n] s) \<and> length (sch_tasks (fold ?f [0..<n] s)) = length (sch_tasks s) \<and>
      (\<forall>j < n. \<exists>r. snd (sch_tasks (fold ?f [0..<n] s) ! j) = Done r)" if "n \<le> length (sch_tasks s)" for n
    using that
  proof (induction n)
    case 0
    then show ?case by simp
  next
    case (Suc n)
    let ?s = "fold ?f [0..<n] s"
    have n: "n < length (sch_tasks ?s)" using Suc by simp
    have "sch_step\<^sup>*\<^sup>* ?s (?f n ?s)"
      by (rule rtranclp_trans [OF task_step_steps rtranclp_trans [OF task_step_steps task_step_steps]])
        (use n in \<open>simp_all add: task_step_others\<close>)
    moreover have "\<exists>r. snd (sch_tasks (?f n ?s) ! j) = Done r" if "j < Suc n" for j
      using that Suc task_step_done [OF n] n by (cases "j = n") (auto simp: task_step_others)
    moreover have "length (sch_tasks (?f n ?s)) = length (sch_tasks s)" using Suc by (simp add: task_step_others)
    moreover have "sch_step\<^sup>*\<^sup>* s ?s" using Suc by simp
    ultimately show ?case by (auto intro: rtranclp_trans)
  qed
  from this [of "length (sch_tasks s)"] have all: "sch_step\<^sup>*\<^sup>* s (run_in_order s)"
      "length (sch_tasks (run_in_order s)) = length (sch_tasks s)"
      "\<forall>j < length (sch_tasks s). \<exists>r. snd (sch_tasks (run_in_order s) ! j) = Done r"
    by (simp_all add: run_in_order_def)
  then show "sch_step\<^sup>*\<^sup>* s (run_in_order s)" by simp
  show "\<nexists>x. sch_step (run_in_order s) x"
    using all(2,3) by (metis goroutine.distinct(5,9,11) sch_stepE)
qed

end
