(* ===== verification/Coordinator_Client.thy ===== *)
theory Coordinator_Client
  imports Coordinator_Server Locator Go_Strings
begin

text \<open>
  \<^verbatim>\<open>src/internal/coordinator/coordinator.go\<close>: the provider's client of the coordinator.  The service at the other
  end is the record \<^verbatim>\<open>stub\<close>, whose calls answer or fail and change the state of the coordinator; \<^verbatim>\<open>served\<close> is
  the coordinator of \<^verbatim>\<open>Coordinator_Server\<close> behind it.  A call through a stub that was never made, or was dropped by
  \<^verbatim>\<open>Disconnect\<close>, is a call on a nil interface and panics.  A heartbeat stream is a number.
\<close>

section \<open>State and connection\<close>

datatype conn_state = Live | ShutDown

record Client =
  cc_providerID :: string
  cc_conn :: "conn_state option"
  cc_stub :: bool
  cc_hbCancel :: "nat option"
  cc_hbStream :: "nat option"
  cc_serials :: "string list"

definition New_Client :: "string \<Rightarrow> Client" where
  "New_Client providerID =
     \<lparr>cc_providerID = providerID, cc_conn = None, cc_stub = False, cc_hbCancel = None, cc_hbStream = None, cc_serials = []\<rparr>"

text \<open>
  \<^verbatim>\<open>buildDialOptions\<close>: the key pair is loaded, the certificate read and parsed; the result is the error.
\<close>

definition buildDialOptions :: "bool \<Rightarrow> string option \<Rightarrow> string + string \<Rightarrow> (string \<Rightarrow> bool) \<Rightarrow> string option" where
  "buildDialOptions enabled keyPair caCert appendCerts =
     (if \<not> enabled then None
      else (case keyPair of
              Some e \<Rightarrow> Some (''load client cert/key: '' @ e)
            | None \<Rightarrow>
                (case caCert of
                   Inl e \<Rightarrow> Some (''read CA cert: '' @ e)
                 | Inr pem \<Rightarrow> if appendCerts pem then None else Some ''invalid CA cert'')))"

definition Connect :: "string option \<Rightarrow> string \<Rightarrow> string option \<Rightarrow> Client \<Rightarrow> string option \<times> Client" where
  "Connect dialOpts address newClient c =
     (if cc_conn c = Some Live then (None, c)
      else (case dialOpts of
              Some e \<Rightarrow> (Some (''coordinator: build dial options: '' @ e), c)
            | None \<Rightarrow>
                (case newClient of
                   Some _ \<Rightarrow> (Some (''coordinator: dial '' @ strconv_Quote address @ '': coordinator unreachable''), c)
                 | None \<Rightarrow> (None, c\<lparr>cc_conn := Some Live, cc_stub := True\<rparr>))))"

text \<open>\<^verbatim>\<open>Disconnect\<close>: the stream whose context is cancelled is the first part of the result.\<close>

definition Disconnect :: "string option \<Rightarrow> Client \<Rightarrow> nat option \<times> string option \<times> Client" where
  "Disconnect closeErr c =
     (cc_hbCancel c,
      case cc_conn c of
        None \<Rightarrow> (None, c)
      | Some _ \<Rightarrow>
          (case closeErr of
             Some e \<Rightarrow> (Some (''coordinator: close: '' @ e), c\<lparr>cc_conn := Some ShutDown\<rparr>)
           | None \<Rightarrow> (None, c\<lparr>cc_conn := None, cc_stub := False\<rparr>)))"

section \<open>The serials of the heartbeat\<close>

definition addSerial :: "string \<Rightarrow> Client \<Rightarrow> Client" where
  "addSerial serial c = (if serial \<in> set (cc_serials c) then c else c\<lparr>cc_serials := cc_serials c @ [serial]\<rparr>)"

definition removeSerial :: "string \<Rightarrow> Client \<Rightarrow> Client" where
  "removeSerial serial c = c\<lparr>cc_serials := remove1 serial (cc_serials c)\<rparr>"

section \<open>Calls\<close>

datatype rpc_error = Status string string | Plain string

fun rpc_error_string :: "rpc_error \<Rightarrow> string" where
  "rpc_error_string (Status code msg) = ''rpc error: code = '' @ code @ '' desc = '' @ msg"
| "rpc_error_string (Plain msg) = msg"

definition grpcErr :: "rpc_error \<Rightarrow> string" where
  "grpcErr e =
     (case e of
        Status code msg \<Rightarrow>
          if code \<in> {''Unavailable'', ''DeadlineExceeded'', ''ResourceExhausted''} then ''coordinator unreachable: '' @ msg
          else rpc_error_string e
      | Plain _ \<Rightarrow> rpc_error_string e)"

text \<open>The conversion to \<^verbatim>\<open>int32\<close>.\<close>

definition int32 :: "int \<Rightarrow> int" where
  "int32 x = sint (word_of_int x :: 32 word)"

record UpdateDeviceStateRequest =
  us_ProviderId :: string
  us_Serial :: string
  us_Battery :: int
  us_WifiSsid :: string
  us_FileSystemJson :: string
  us_InstalledBrowsersJson :: string

type_synonym ('q, 's) rpc = "'q \<Rightarrow> 's \<Rightarrow> (rpc_error + bool \<times> string) \<times> 's"

record 's stub =
  st_RegisterProvider :: "(Provider, 's) rpc"
  st_RegisterDevice :: "(RegisterDeviceRequest, 's) rpc"
  st_UpdateDeviceState :: "(UpdateDeviceStateRequest, 's) rpc"
  st_ReleaseDevice :: "(string \<times> string, 's) rpc"

text \<open>How the calls end: without a stub with a panic, else with the error that \<open>f\<close> makes of the answer.\<close>

definition invoke :: "('q, 's) rpc \<Rightarrow> 'q \<Rightarrow> (rpc_error + bool \<times> string \<Rightarrow> string option) \<Rightarrow> (Client \<Rightarrow> Client) \<Rightarrow>
    Client \<Rightarrow> 's \<Rightarrow> (string option \<times> Client \<times> 's) outcome" where
  "invoke rpc req f ok c s =
     (if \<not> cc_stub c then Panic
      else (case rpc req s of (answer, s) \<Rightarrow>
              (case f answer of
                 Some e \<Rightarrow> Return (Some e, c, s)
               | None \<Rightarrow> Return (None, ok c, s))))"

definition answered :: "string \<Rightarrow> string \<Rightarrow> rpc_error + bool \<times> string \<Rightarrow> string option" where
  "answered failed rejected answer =
     (case answer of
        Inl e \<Rightarrow> Some (failed @ grpcErr e)
      | Inr (accepted, msg) \<Rightarrow> if accepted then None else Some (rejected @ msg))"

definition RegisterProvider :: "'s stub \<Rightarrow> Provider \<Rightarrow> Client \<Rightarrow> 's \<Rightarrow> (string option \<times> Client \<times> 's) outcome" where
  "RegisterProvider st p =
     invoke (st_RegisterProvider st) (p\<lparr>prov_MinPort := int32 (prov_MinPort p), prov_MaxPort := int32 (prov_MaxPort p)\<rparr>)
       (answered ''coordinator: RegisterProvider: '' ''coordinator: provider registration rejected: '') (\<lambda>c. c)"

definition device_request :: "string \<Rightarrow> Device \<Rightarrow> RegisterDeviceRequest" where
  "device_request providerID d =
     \<lparr>rd_ProviderId = providerID, rd_Serial = dev_Serial d, rd_Model = info_Model (dev_Info d),
      rd_Manufacturer = info_Manufacturer (dev_Info d), rd_Android = info_AndroidVersion (dev_Info d),
      rd_Sdk = int32 (info_SDKVersion (dev_Info d)), rd_Abi = info_CPUABI (dev_Info d), rd_RamMb = info_RAMMB (dev_Info d),
      rd_StorageMb = info_StorageMB (dev_Info d), rd_DisplayWidth = disp_Width (dev_Display d),
      rd_DisplayHeight = disp_Height (dev_Display d), rd_DisplayDpi = disp_Density (dev_Display d),
      rd_Battery = int32 (bat_Level (tel_Battery (dev_State d))), rd_WifiSsid = net_WiFiSSID (tel_Network (dev_State d)),
      rd_Ip = net_IP (tel_Network (dev_State d)), rd_ConnectedAt = Some (dev_ConnectedAt d)\<rparr>"

definition RegisterDevice :: "'s stub \<Rightarrow> Device \<Rightarrow> Client \<Rightarrow> 's \<Rightarrow> (string option \<times> Client \<times> 's) outcome" where
  "RegisterDevice st d c =
     invoke (st_RegisterDevice st) (device_request (cc_providerID c) d)
       (answered (''coordinator: RegisterDevice '' @ dev_Serial d @ '': '') (''coordinator: device '' @ dev_Serial d @ '' rejected: ''))
       (addSerial (dev_Serial d)) c"

text \<open>The two \<^verbatim>\<open>json.Marshal\<close> are parameters; their errors are ignored, which leaves the text empty.\<close>

definition UpdateDeviceState :: "(FileSystemInfo \<Rightarrow> string) \<Rightarrow> (string list \<Rightarrow> string) \<Rightarrow> 's stub \<Rightarrow> Device \<Rightarrow>
    Client \<Rightarrow> 's \<Rightarrow> (string option \<times> Client \<times> 's) outcome" where
  "UpdateDeviceState fsJSON brJSON st d c =
     invoke (st_UpdateDeviceState st)
       \<lparr>us_ProviderId = cc_providerID c, us_Serial = dev_Serial d, us_Battery = int32 (bat_Level (tel_Battery (dev_State d))),
        us_WifiSsid = net_WiFiSSID (tel_Network (dev_State d)),
        us_FileSystemJson = (if fs_Root (tel_FileSystem (dev_State d)) \<noteq> '''' then fsJSON (tel_FileSystem (dev_State d)) else ''''),
        us_InstalledBrowsersJson = (case tel_InstalledBrowsers (dev_State d) of Some bs \<Rightarrow> brJSON bs | None \<Rightarrow> '''')\<rparr>
       (answered (''coordinator: UpdateDeviceState '' @ dev_Serial d @ '': '')
          (''coordinator: UpdateDeviceState '' @ dev_Serial d @ '' rejected: '')) (\<lambda>c. c) c"

text \<open>\<^verbatim>\<open>ReleaseDevice\<close> does not look at whether the answer says success.\<close>

definition ReleaseDevice :: "'s stub \<Rightarrow> string \<Rightarrow> Client \<Rightarrow> 's \<Rightarrow> (string option \<times> Client \<times> 's) outcome" where
  "ReleaseDevice st serial c =
     invoke (st_ReleaseDevice st) (cc_providerID c, serial)
       (\<lambda>answer. case answer of Inl e \<Rightarrow> Some (''coordinator: ReleaseDevice '' @ serial @ '': '' @ grpcErr e) | Inr _ \<Rightarrow> None)
       (removeSerial serial) c"

section \<open>The heartbeat\<close>

text \<open>The ping that is sent, when there is a stream.\<close>

definition sendPing :: "Client \<Rightarrow> (nat \<times> string \<times> string list) option" where
  "sendPing c = (case cc_hbStream c of None \<Rightarrow> None | Some stream \<Rightarrow> Some (stream, cc_providerID c, cc_serials c))"

datatype pong = Ack | Reconnect string | Shutdown string

text \<open>\<^verbatim>\<open>handlePong\<close>: the stream whose context it cancels.\<close>

definition handlePong :: "pong \<Rightarrow> Client \<Rightarrow> nat option" where
  "handlePong p c = (case p of Ack \<Rightarrow> None | Reconnect _ \<Rightarrow> cc_hbCancel c | Shutdown _ \<Rightarrow> cc_hbCancel c)"

text \<open>
  \<^verbatim>\<open>runHeartbeatOnce\<close> opens a stream, or fails, and then takes what happens one after the other: a tick with the outcome
  of sending the ping, a pong that its goroutine receives, the end of receiving, or the end of the provider's context.
  The result is how it returns, if it does, with the streams it cancelled.
\<close>

definition open_stream :: "nat \<Rightarrow> Client \<Rightarrow> Client" where
  "open_stream stream c = c\<lparr>cc_hbCancel := Some stream, cc_hbStream := Some stream\<rparr>"

datatype hb_event = Tick "string option" | Received pong | RecvEOF | RecvFails string | ProviderDone

fun heartbeat_loop :: "Client \<Rightarrow> hb_event list \<Rightarrow> nat list \<Rightarrow> string option option \<times> nat list" where
  "heartbeat_loop c [] cancelled = (None, cancelled)"
| "heartbeat_loop c (ProviderDone # es) cancelled = (Some None, cancelled)"
| "heartbeat_loop c (RecvEOF # es) cancelled = (Some (Some ''coordinator closed the heartbeat stream''), cancelled)"
| "heartbeat_loop c (RecvFails e # es) cancelled = (Some (Some (''recv: '' @ e)), cancelled)"
| "heartbeat_loop c (Tick sent # es) cancelled =
     (case sendPing c of
        None \<Rightarrow> heartbeat_loop c es cancelled
      | Some _ \<Rightarrow>
          (case sent of
             Some e \<Rightarrow> (Some (Some (''send ping: '' @ e)), cancelled)
           | None \<Rightarrow> heartbeat_loop c es cancelled))"
| "heartbeat_loop c (Received p # es) cancelled =
     heartbeat_loop c es (case handlePong p c of None \<Rightarrow> cancelled | Some stream \<Rightarrow> cancelled @ [stream])"

definition runHeartbeatOnce :: "nat \<Rightarrow> string option \<Rightarrow> hb_event list \<Rightarrow> Client \<Rightarrow> (string option option \<times> Client) outcome" where
  "runHeartbeatOnce stream opened es c =
     (let c = c\<lparr>cc_hbCancel := Some stream\<rparr> in
      if \<not> cc_stub c then Panic
      else (case opened of
              Some e \<Rightarrow> Return (Some (Some (''open heartbeat stream: '' @ e)), c)
            | None \<Rightarrow> Return (fst (heartbeat_loop (open_stream stream c) es []), open_stream stream c)))"

text \<open>
  \<^verbatim>\<open>RunHeartbeat\<close>: one \<open>attempt\<close> per round of its loop, with what the stream does and whether the context has ended before
  the round, after it, or while it waits.  The result has the waits, and whether the loop is still running.
\<close>

record attempt =
  at_done :: bool
  at_opened :: "string option"
  at_events :: "hb_event list"
  at_doneAfter :: bool
  at_doneWaiting :: bool

fun heartbeat_rounds :: "duration \<Rightarrow> duration \<Rightarrow> nat \<Rightarrow> attempt list \<Rightarrow> Client \<Rightarrow> (duration list \<times> bool \<times> Client) outcome" where
  "heartbeat_rounds maxBackoff backoff stream [] c = Return ([], True, c)"
| "heartbeat_rounds maxBackoff backoff stream (a # as) c =
     (if at_done a then Return ([], False, c)
      else (case runHeartbeatOnce stream (at_opened a) (at_events a) c of
              Panic \<Rightarrow> Panic
            | Return (None, c) \<Rightarrow> Return ([], True, c)
            | Return (Some None, c) \<Rightarrow> Return ([], False, c)
            | Return (Some (Some e), c) \<Rightarrow>
                if at_doneAfter a then Return ([], False, c)
                else if at_doneWaiting a then Return ([backoff], False, c)
                else (case heartbeat_rounds maxBackoff (min (backoff * 2) maxBackoff) (stream + 1) as c of
                        Panic \<Rightarrow> Panic
                      | Return (ws, running, c) \<Rightarrow> Return (backoff # ws, running, c))))"

definition RunHeartbeat :: "duration \<Rightarrow> attempt list \<Rightarrow> Client \<Rightarrow> (duration list \<times> bool \<times> Client) outcome" where
  "RunHeartbeat reconnectMaxBackoff as c =
     heartbeat_rounds (if reconnectMaxBackoff \<le> 0 then 120 * 1000000000 else reconnectMaxBackoff) 1000000000 0 as c"

section \<open>The coordinator behind the stub\<close>

definition accept_or :: "(sql_error \<Rightarrow> string) \<Rightarrow> ack \<times> Server \<Rightarrow> (rpc_error + bool \<times> string) \<times> Server" where
  "accept_or msg r = (case r of (None, s) \<Rightarrow> (Inr (True, ''''), s) | (Some e, s) \<Rightarrow> (Inr (False, msg e), s))"

definition served :: "(sql_error \<Rightarrow> string) \<Rightarrow> string \<Rightarrow> instant \<Rightarrow> Server stub" where
  "served msg newID now =
     \<lparr>st_RegisterProvider = (\<lambda>p s. accept_or msg (grpc_RegisterProvider s (prov_ID p) (prov_Name p) (prov_Host p) (prov_MinPort p)
        (prov_MaxPort p) (prov_Version p))),
      st_RegisterDevice = (\<lambda>req s. accept_or msg (grpc_RegisterDevice newID now s req)),
      st_UpdateDeviceState = (\<lambda>req s. accept_or msg (grpc_UpdateDeviceState s (us_Serial req) (us_Battery req) (us_WifiSsid req)
        (us_FileSystemJson req) (us_InstalledBrowsersJson req))),
      st_ReleaseDevice = (\<lambda>(_, serial) s. accept_or msg (grpc_ReleaseDevice s serial))\<rparr>"

section \<open>Which devices a ping lists\<close>

lemma set_addSerial [simp]: "set (cc_serials (addSerial serial c)) = insert serial (set (cc_serials c))"
  by (auto simp: addSerial_def)

lemma distinct_addSerial: "distinct (cc_serials c) \<Longrightarrow> distinct (cc_serials (addSerial serial c))"
  by (simp add: addSerial_def)

lemma set_removeSerial: "distinct (cc_serials c) \<Longrightarrow> set (cc_serials (removeSerial serial c)) = set (cc_serials c) - {serial}"
  by (simp add: removeSerial_def set_remove1_eq)

lemma distinct_removeSerial: "distinct (cc_serials c) \<Longrightarrow> distinct (cc_serials (removeSerial serial c))"
  by (simp add: removeSerial_def)

text \<open>
  The calls that the provider makes of the client, in any order, and the specification of what a ping lists: a device
  from the call that registers it to the call that releases it, counting only the calls that return no error.
\<close>

datatype client_call =
    DoConnect "string option" string "string option"
  | DoDisconnect "string option"
  | DoProvider Provider
  | DoRegister Device
  | DoUpdate Device
  | DoRelease string
  | DoOpen nat

fun perform_call :: "'s stub \<Rightarrow> client_call \<Rightarrow> Client \<Rightarrow> 's \<Rightarrow> (string option \<times> Client \<times> 's) outcome" where
  "perform_call st (DoConnect opts addr new) c s = (case Connect opts addr new c of (e, c) \<Rightarrow> Return (e, c, s))"
| "perform_call st (DoDisconnect closeErr) c s = (case Disconnect closeErr c of (_, e, c) \<Rightarrow> Return (e, c, s))"
| "perform_call st (DoProvider p) c s = RegisterProvider st p c s"
| "perform_call st (DoRegister d) c s = RegisterDevice st d c s"
| "perform_call st (DoUpdate d) c s = UpdateDeviceState (\<lambda>_. '''') (\<lambda>_. '''') st d c s"
| "perform_call st (DoRelease serial) c s = ReleaseDevice st serial c s"
| "perform_call st (DoOpen stream) c s = Return (None, open_stream stream c, s)"

fun perform_calls :: "'s stub \<Rightarrow> client_call list \<Rightarrow> Client \<Rightarrow> 's \<Rightarrow> (string option list \<times> Client \<times> 's) outcome" where
  "perform_calls st [] c s = Return ([], c, s)"
| "perform_calls st (x # xs) c s =
     (case perform_call st x c s of
        Panic \<Rightarrow> Panic
      | Return (e, c, s) \<Rightarrow>
          (case perform_calls st xs c s of
             Panic \<Rightarrow> Panic
           | Return (es, c, s) \<Rightarrow> Return (e # es, c, s)))"

fun announce :: "client_call \<times> string option \<Rightarrow> string set \<Rightarrow> string set" where
  "announce (DoRegister d, None) A = insert (dev_Serial d) A"
| "announce (DoRelease serial, None) A = A - {serial}"
| "announce _ A = A"

lemmas client_call_defs = Connect_def Disconnect_def RegisterProvider_def RegisterDevice_def UpdateDeviceState_def ReleaseDevice_def
  open_stream_def

lemma invoke_client:
  "invoke rpc req f ok c s = Return (e, c', s') \<Longrightarrow> c' = (case e of None \<Rightarrow> ok c | Some _ \<Rightarrow> c)"
  by (auto simp: invoke_def split: if_splits option.splits prod.splits)

lemma perform_call_announces:
  assumes "perform_call st x c s = Return (e, c', s')" "distinct (cc_serials c)"
  shows "distinct (cc_serials c') \<and> set (cc_serials c') = announce (x, e) (set (cc_serials c))"
  using assms by (cases x; cases e) (auto simp: client_call_defs distinct_addSerial distinct_removeSerial set_removeSerial
    dest!: invoke_client split: if_splits option.splits prod.splits)

lemma perform_calls_announce:
  "perform_calls st xs c s = Return (es, c', s') \<Longrightarrow> distinct (cc_serials c) \<Longrightarrow>
     distinct (cc_serials c') \<and> set (cc_serials c') = fold announce (zip xs es) (set (cc_serials c))"
proof (induction xs arbitrary: c s es)
  case (Cons x xs)
  from Cons.prems(1) obtain e d t es' where first: "perform_call st x c s = Return (e, d, t)"
    and rest: "perform_calls st xs d t = Return (es', c', s')" "es = e # es'"
    by (auto split: outcome.splits)
  from perform_call_announces [OF first Cons.prems(2)] Cons.IH [OF rest(1)] rest(2) show ?case by simp
qed simp

text \<open>
  C40. After any history of calls, with any failures in between, a ping lists each device at most once, and lists exactly
  the devices that were registered without an error and not released without an error since.
\<close>

theorem pings_list_announced_devices:
  assumes "perform_calls st xs (New_Client providerID) s = Return (es, c, s')" "sendPing c = Some (stream, p, serials)"
  shows "distinct serials \<and> set serials = fold announce (zip xs es) {} \<and> p = cc_providerID c"
  using perform_calls_announce [OF assms(1)] assms(2)
  by (simp add: New_Client_def sendPing_def split: option.splits)

definition ex_phone :: "string \<Rightarrow> Device" where
  "ex_phone serial =
     \<lparr>dev_Serial = serial, dev_Platform = ''android'', dev_ProviderIP = ''10.0.0.5'',
      dev_Info = \<lparr>info_Model = ''Pixel 7'', info_MarketName = '''', info_Manufacturer = ''Google'', info_AndroidVersion = ''14'',
        info_SDKVersion = 34, info_CPUABI = ''arm64-v8a'', info_RAMMB = 8192, info_StorageMB = 131072\<rparr>,
      dev_Display = \<lparr>disp_Density = 420, disp_Fps = 60, disp_Height = 2400, disp_Rotation = 0, disp_Size = 0, disp_Width = 1080,
        disp_XDPI = 0, disp_YDPI = 0\<rparr>,
      dev_State = \<lparr>tel_Status = '''', tel_Battery = \<lparr>bat_Level = 80, bat_IsCharging = True, bat_Health = ''good''\<rparr>,
        tel_Network = \<lparr>net_Connected = True, net_WiFiSSID = ''lab'', net_IP = ''10.0.0.9'', net_MobileData = False, net_Airplane = False\<rparr>,
        tel_FileSystem = \<lparr>fs_Root = '''', fs_Files = None\<rparr>, tel_InstalledBrowsers = None\<rparr>,
      dev_ConnectedAt = 5, dev_LastSeen = 5\<rparr>"

text \<open>A coordinator that takes every call but the second.\<close>

definition ex_stub :: "nat stub" where
  "ex_stub =
     (let call = (\<lambda>n::nat. (if n = 1 then Inl (Status ''Unavailable'' ''down'') else Inr (True, ''''), n + 1))
      in \<lparr>st_RegisterProvider = (\<lambda>_. call), st_RegisterDevice = (\<lambda>_. call), st_UpdateDeviceState = (\<lambda>_. call), st_ReleaseDevice = (\<lambda>_. call)\<rparr>)"

definition ex_calls :: "client_call list" where
  "ex_calls = [DoConnect None ''coordinator:9000'' None, DoOpen 0, DoRegister (ex_phone ''a''), DoRegister (ex_phone ''b''),
     DoRegister (ex_phone ''c''), DoRegister (ex_phone ''a''), DoRelease ''c'']"

theorem pings_list_announced_devices_witness:
  "\<exists>c s'. perform_calls ex_stub ex_calls (New_Client ''p1'') 0 =
      Return ([None, None, None, Some ''coordinator: RegisterDevice b: coordinator unreachable: down'', None, None, None], c, s') \<and>
    sendPing c = Some (0, ''p1'', [''a'']) \<and> distinct [''a''] \<and>
    set [''a''] = fold announce (zip ex_calls
      [None, None, None, Some ''coordinator: RegisterDevice b: coordinator unreachable: down'', None, None, None]) {} \<and> ''p1'' = cc_providerID c"
proof -
  let ?c = "\<lparr>cc_providerID = ''p1'', cc_conn = Some Live, cc_stub = True, cc_hbCancel = Some 0, cc_hbStream = Some 0, cc_serials = [''a'']\<rparr>"
  have run: "perform_calls ex_stub ex_calls (New_Client ''p1'') 0 =
      Return ([None, None, None, Some ''coordinator: RegisterDevice b: coordinator unreachable: down'', None, None, None], ?c, 5)"
    by (simp add: ex_calls_def ex_stub_def client_call_defs New_Client_def invoke_def answered_def grpcErr_def addSerial_def
      removeSerial_def ex_phone_def Let_def)
  have ping: "sendPing ?c = Some (0, ''p1'', [''a''])" by (simp add: sendPing_def)
  from run ping pings_list_announced_devices [OF run ping] show ?thesis by blast
qed

section \<open>Reconnecting\<close>

text \<open>What ends a stream with an error.\<close>

fun loses :: "hb_event list \<Rightarrow> bool" where
  "loses [] = False"
| "loses (Tick None # es) = loses es"
| "loses (Tick (Some e) # es) = True"
| "loses (Received p # es) = loses es"
| "loses (RecvEOF # es) = True"
| "loses (RecvFails e # es) = True"
| "loses (ProviderDone # es) = False"

definition stream_lost :: "attempt \<Rightarrow> bool" where
  "stream_lost a \<longleftrightarrow> \<not> at_done a \<and> \<not> at_doneAfter a \<and> \<not> at_doneWaiting a \<and> (at_opened a \<noteq> None \<or> loses (at_events a))"

lemma loses_heartbeat:
  "loses es \<Longrightarrow> cc_hbStream c \<noteq> None \<Longrightarrow> \<exists>e. fst (heartbeat_loop c es cancelled) = Some (Some e)"
  by (induction es arbitrary: cancelled rule: loses.induct) (auto simp: sendPing_def)

lemma stream_lost_once:
  assumes "stream_lost a" "cc_stub c"
  shows "\<exists>e c'. runHeartbeatOnce stream (at_opened a) (at_events a) c = Return (Some (Some e), c') \<and> cc_stub c'"
  using assms loses_heartbeat [of "at_events a" "open_stream stream (c\<lparr>cc_hbCancel := Some stream\<rparr>)" "[]"]
  by (auto simp: stream_lost_def runHeartbeatOnce_def Let_def open_stream_def split: option.splits)

fun backoffs :: "duration \<Rightarrow> duration \<Rightarrow> nat \<Rightarrow> duration list" where
  "backoffs M b 0 = []"
| "backoffs M b (Suc n) = b # backoffs M (min (b * 2) M) n"

lemma heartbeat_rounds_lost:
  "(\<And>a. a \<in> set as \<Longrightarrow> stream_lost a) \<Longrightarrow> cc_stub c \<Longrightarrow>
     \<exists>c'. heartbeat_rounds M b stream as c = Return (backoffs M b (length as), True, c') \<and> cc_stub c'"
proof (induction as arbitrary: b stream c)
  case (Cons a as)
  have lost: "stream_lost a" using Cons.prems(1) by simp
  from stream_lost_once [OF lost Cons.prems(2)] obtain e c1 where
    once: "runHeartbeatOnce stream (at_opened a) (at_events a) c = Return (Some (Some e), c1)" and stub: "cc_stub c1" by blast
  have "\<exists>c'. heartbeat_rounds M (min (b * 2) M) (stream + 1) as c1 =
      Return (backoffs M (min (b * 2) M) (length as), True, c') \<and> cc_stub c'"
    by (rule Cons.IH) (simp_all add: Cons.prems(1) stub)
  with lost once show ?case by (auto simp: stream_lost_def)
qed simp

lemma min_times_min:
  fixes M :: int
  assumes "0 \<le> M" "1 \<le> k"
  shows "min (min x M * k) M = min (x * k) M"
proof (cases "x \<le> M")
  case False
  have "M * 1 \<le> M * k" by (rule mult_left_mono) (use assms in auto)
  moreover have "M * k \<le> x * k" by (rule mult_right_mono) (use assms False in auto)
  ultimately have "min (M * k) M = M" "min (x * k) M = M" by (simp_all add: min_def)
  with False show ?thesis by (simp add: min_absorb2)
qed (simp add: min_def)

lemma nth_backoffs: "0 \<le> M \<Longrightarrow> 0 \<le> b \<Longrightarrow> i < n \<Longrightarrow> backoffs M b n ! i = (if i = 0 then b else min (b * 2 ^ i) M)"
proof (induction n arbitrary: b i)
  case (Suc n)
  show ?case
  proof (cases i)
    case (Suc j)
    with Suc.IH [of "min (b * 2) M" j] Suc.prems min_times_min [of M "2 ^ j" "b * 2"] show ?thesis
      by (auto simp: mult.assoc)
  qed simp
qed simp

lemma length_backoffs [simp]: "length (backoffs M b n) = n"
  by (induction n arbitrary: b) auto

text \<open>
  The heartbeat loop survives every loss of its stream, be it that the stream cannot be opened, that a ping cannot
  be sent, that the coordinator closes it or asks for a reconnection or a shutdown: it opens the next one after a wait that
  starts at one second and doubles up to the limit.  The wait depends on the number of losses alone; a stream that
  was healthy for any time does not bring it back to one second.
\<close>

theorem backoff_never_resets:
  assumes "cc_stub c" "list_all stream_lost as" "0 < limit"
  shows "\<exists>c'. RunHeartbeat limit as c =
    Return (map (\<lambda>i. if i = 0 then 1000000000 else min (1000000000 * 2 ^ i) limit) [0..<length as], True, c')"
proof -
  have "\<And>a. a \<in> set as \<Longrightarrow> stream_lost a" using assms(2) by (simp add: list_all_iff)
  from heartbeat_rounds_lost [OF this assms(1)] obtain c' where
    "heartbeat_rounds limit 1000000000 0 as c = Return (backoffs limit 1000000000 (length as), True, c')" by blast
  moreover have "backoffs limit 1000000000 (length as) = map (\<lambda>i. if i = 0 then 1000000000 else min (1000000000 * 2 ^ i) limit) [0..<length as]"
    using assms(3) by (auto intro: nth_equalityI simp: nth_backoffs)
  ultimately show ?thesis using assms(3) by (auto simp: RunHeartbeat_def)
qed

text \<open>Three streams: one that never opens, one of a thousand pings, one that a shutdown request ends.\<close>

definition ex_attempts :: "attempt list" where
  "ex_attempts =
     [\<lparr>at_done = False, at_opened = Some ''connection refused'', at_events = [], at_doneAfter = False, at_doneWaiting = False\<rparr>,
      \<lparr>at_done = False, at_opened = None, at_events = replicate 1000 (Tick None) @ [RecvEOF], at_doneAfter = False, at_doneWaiting = False\<rparr>,
      \<lparr>at_done = False, at_opened = None, at_events = [Received (Shutdown ''maintenance''), RecvFails ''context canceled''],
       at_doneAfter = False, at_doneWaiting = False\<rparr>]"

lemma loses_replicate: "loses (replicate n (Tick None) @ es) = loses es"
  by (induction n) auto

theorem backoff_never_resets_witness:
  "\<exists>c'. RunHeartbeat 30000000000 ex_attempts ((New_Client ''p1'')\<lparr>cc_stub := True\<rparr>) =
    Return ([1000000000, 2000000000, 4000000000], True, c')"
proof -
  have "list_all stream_lost ex_attempts"
    by (simp add: ex_attempts_def stream_lost_def loses_replicate del: replicate.simps)
  from backoff_never_resets [of "(New_Client ''p1'')\<lparr>cc_stub := True\<rparr>", OF _ this, of 30000000000]
  show ?thesis by (simp add: ex_attempts_def upt_rec)
qed

end
