(* ===== verification/Coordinator_HTTP.thy ===== *)
theory Coordinator_HTTP
  imports Coordinator_Server
begin

text \<open>
  The rest of \<^verbatim>\<open>src/internal/coordinator_server/http.go\<close>, scripts, runs and reports, and the whole request
  pipeline of \<^verbatim>\<open>server.go\<close>: \<^verbatim>\<open>corsMiddleware\<close> around \<^verbatim>\<open>AuthMiddleware\<close> around the routes of the multiplexer.

  The record \<^verbatim>\<open>automation_lib\<close> holds what comes from the YAML and JSON packages.  A request body is the
  record \<^verbatim>\<open>Body\<close> of what decoding it gives for each of the shapes the handlers ask for.  A handler runs to
  its end before the next begins, except that \<^verbatim>\<open>handleRunScript\<close> waits for the scheduler: \<^verbatim>\<open>wait\<close> is what
  happens to the scheduler until the last of its own tasks is done.
\<close>

section \<open>http.go: scripts, runs and reports\<close>

record automation_lib =
  al_ParseScript :: "string \<Rightarrow> string + Script"
  al_MarshalReport :: "Report \<Rightarrow> string"
  al_UnmarshalReport :: "string \<Rightarrow> string + Report"
  al_sql_message :: "sql_error \<Rightarrow> string"

record ScriptReq =
  sq_ID :: string
  sq_Name :: string
  sq_Content :: string

definition handleScripts :: "automation_lib \<Rightarrow> string \<Rightarrow> Server \<Rightarrow> Request \<Rightarrow> ScriptReq option \<Rightarrow> response \<times> Server" where
  "handleScripts lib newID s r body =
     (if rq_method r = ''GET'' then reply_list s ScriptsBody (ListScripts (sv_db s))
      else if rq_method r = ''POST'' then
        (case body of
           None \<Rightarrow> ((StatusBadRequest, ErrText ''invalid request body''), s)
         | Some b \<Rightarrow>
             if sq_Name b = '''' then ((StatusBadRequest, ErrText ''name is required''), s)
             else if sq_Content b = '''' then ((StatusBadRequest, ErrText ''content is required''), s)
             else (case al_ParseScript lib (sq_Content b) of
                     Inl e \<Rightarrow> ((StatusBadRequest, ErrRpc ''invalid script YAML: '' e), s)
                   | Inr _ \<Rightarrow>
                       let sid = (if sq_ID b = '''' then newID else sq_ID b) in
                       (case SaveScript (sv_db s) sid (sq_Name b) (sq_Content b) of
                          (Some e, d) \<Rightarrow> ((StatusInternalServerError, ErrSql ''database error: '' e), with_db s d)
                        | (None, d) \<Rightarrow> ((StatusOK, SavedBody sid), with_db s d))))
      else (not_allowed, s))"

definition handleScriptByID :: "Server \<Rightarrow> Request \<Rightarrow> response \<times> Server" where
  "handleScriptByID s r =
     (let sid = strings_TrimPrefix (rq_path r) ''/api/v1/automation/scripts/'' in
      if sid = '''' \<or> strings_Contains sid ''/'' then ((StatusBadRequest, ErrText ''invalid script ID''), s)
      else if rq_method r = ''GET'' then
        (case GetScript (sv_db s) sid of
           (Inl e, d) \<Rightarrow>
             (if e = ErrNoRows then (StatusNotFound, ErrText ''script not found'') else (StatusInternalServerError, ErrSql '''' e),
              with_db s d)
         | (Inr (name, content), d) \<Rightarrow> ((StatusOK, ScriptBody sid name content), with_db s d))
      else if rq_method r = ''DELETE'' then
        (case DeleteScript (sv_db s) sid of
           (Some e, d) \<Rightarrow> ((StatusInternalServerError, ErrSql ''database error: '' e), with_db s d)
         | (None, d) \<Rightarrow> ((StatusOK, OkBody ''''), with_db s d))
      else (not_allowed, s))"

record RunReq =
  rn_ScriptID :: string
  rn_DeviceSerials :: "string list"

text \<open>The function of a task; \<^verbatim>\<open>seen\<close> is the database as the goroutine of a device finds it.\<close>

definition run_ExecuteFn ::
  "automation_lib \<Rightarrow> provider_rpc \<Rightarrow> (string \<Rightarrow> DB) \<Rightarrow> string \<Rightarrow> string \<Rightarrow> Script \<Rightarrow> string + Report" where
  "run_ExecuteFn lib rpc seen scriptContent taskSerial taskScript =
     (case fst (GetDeviceProvider (seen taskSerial) taskSerial) of
        Inl e \<Rightarrow> Inl (''failed to locate provider for device '' @ taskSerial @ '': '' @ al_sql_message lib e)
      | Inr (providerIP, _) \<Rightarrow>
          (case rpc_dial rpc providerIP of
             Some e \<Rightarrow> Inl (''failed to dial provider '' @ providerIP @ '': '' @ e)
           | None \<Rightarrow>
               (case rpc_execute rpc providerIP taskSerial scriptContent of
                  Inl e \<Rightarrow> Inl (''execute script RPC failed: '' @ e)
                | Inr (success, reportJson, err) \<Rightarrow>
                    if \<not> success \<and> reportJson = '''' then Inl (''execution error: '' @ err)
                    else (case al_UnmarshalReport lib reportJson of
                            Inl e \<Rightarrow> Inl (''failed to unmarshal report json: '' @ e)
                          | Inr rep \<Rightarrow> Inr rep))))"

definition run_tasks ::
  "automation_lib \<Rightarrow> provider_rpc \<Rightarrow> (string \<Rightarrow> DB) \<Rightarrow> Script \<Rightarrow> string \<Rightarrow> string list \<Rightarrow> Task list" where
  "run_tasks lib rpc seen script content serials =
     map (\<lambda>serial. \<lparr>task_Serial = serial, task_Script = script, task_ExecuteFn = run_ExecuteFn lib rpc seen content\<rparr>) serials"

text \<open>The slot of a task in the results: empty until the goroutine has written it.\<close>

fun slot_result :: "goroutine \<Rightarrow> TaskResult" where
  "slot_result (Done r) = r"
| "slot_result (Unlocking r) = r"
| "slot_result _ = TaskResult '''' (Inl '''')"

definition first_error :: "StepResult list \<Rightarrow> string" where
  "first_error rs = (case find (\<lambda>r. \<not> str_Success r \<and> str_Error r \<noteq> '''') rs of None \<Rightarrow> '''' | Some r \<Rightarrow> str_Error r)"

definition placeholder :: "instant \<Rightarrow> Report" where
  "placeholder now = \<lparr>rep_StartTime = now, rep_EndTime = now, rep_DurationMs = 0, rep_TotalSteps = 0, rep_PassedSteps = 0,
     rep_Success = False, rep_Results = []\<rparr>"

definition save_run ::
  "automation_lib \<Rightarrow> instant \<Rightarrow> string \<Rightarrow> string \<Rightarrow> TaskResult \<Rightarrow> DB \<Rightarrow> RunResultJSON \<times> DB" where
  "save_run lib now scriptID reportID res d =
     (case res of
        TaskResult serial (Inl e) \<Rightarrow>
          (\<lparr>rr_Serial = serial, rr_ReportID = reportID, rr_Success = False, rr_DurationMs = 0, rr_Error = e\<rparr>,
           snd (SaveReport d reportID scriptID serial False now now (al_MarshalReport lib (placeholder now))))
      | TaskResult serial (Inr rep) \<Rightarrow>
          (\<lparr>rr_Serial = serial, rr_ReportID = reportID, rr_Success = rep_Success rep, rr_DurationMs = rep_DurationMs rep,
            rr_Error = (if rep_Success rep then '''' else first_error (rep_Results rep))\<rparr>,
           snd (SaveReport d reportID scriptID serial (rep_Success rep) (rep_StartTime rep) (rep_EndTime rep) (al_MarshalReport lib rep))))"

fun save_runs ::
  "automation_lib \<Rightarrow> instant \<Rightarrow> string \<Rightarrow> (nat \<Rightarrow> string) \<Rightarrow> nat \<Rightarrow> TaskResult list \<Rightarrow> DB \<Rightarrow> RunResultJSON list \<times> DB" where
  "save_runs lib now scriptID ids i [] d = ([], d)"
| "save_runs lib now scriptID ids i (res # rest) d =
     (case save_run lib now scriptID (ids i) res d of (x, d) \<Rightarrow>
        case save_runs lib now scriptID ids (Suc i) rest d of (xs, d) \<Rightarrow> (x # xs, d))"

definition handleRunScript ::
  "automation_lib \<Rightarrow> provider_rpc \<Rightarrow> (string \<Rightarrow> DB) \<Rightarrow> (Scheduler \<Rightarrow> Scheduler) \<Rightarrow> (nat \<Rightarrow> string) \<Rightarrow> instant \<Rightarrow>
     Server \<Rightarrow> Request \<Rightarrow> RunReq option \<Rightarrow> response \<times> Server" where
  "handleRunScript lib rpc seen wait ids now s r body =
     (if rq_method r \<noteq> ''POST'' then (not_allowed, s)
      else (case body of
              None \<Rightarrow> ((StatusBadRequest, ErrText ''invalid request body''), s)
            | Some b \<Rightarrow>
                if rn_ScriptID b = '''' then ((StatusBadRequest, ErrText ''script_id is required''), s)
                else if rn_DeviceSerials b = [] then
                  ((StatusBadRequest, ErrText ''device_serials array is required and cannot be empty''), s)
                else
                  (case GetScript (sv_db s) (rn_ScriptID b) of
                     (Inl e, d) \<Rightarrow>
                       (if e = ErrNoRows then (StatusNotFound, ErrText ''script not found'') else (StatusInternalServerError, ErrSql '''' e),
                        with_db s d)
                   | (Inr (_, content), d) \<Rightarrow>
                       let s = with_db s d in
                       (case al_ParseScript lib content of
                          Inl e \<Rightarrow> ((StatusInternalServerError, ErrRpc ''failed to parse retrieved script YAML: '' e), s)
                        | Inr script \<Rightarrow>
                            let tasks = run_tasks lib rpc seen script content (rn_DeviceSerials b);
                                first = length (sch_tasks (sv_scheduler s));
                                sched = wait (RunParallel_start (sv_scheduler s) tasks);
                                taskResults = map (\<lambda>p. slot_result (snd p)) (take (length tasks) (drop first (sch_tasks sched)));
                                (results, d) = save_runs lib now (rn_ScriptID b) ids 0 taskResults (sv_db s)
                            in ((StatusOK, RunBody results), (with_db s d)\<lparr>sv_scheduler := sched\<rparr>)))))"

definition handleReports :: "Server \<Rightarrow> Request \<Rightarrow> response \<times> Server" where
  "handleReports s r =
     (if rq_method r \<noteq> ''GET'' then (not_allowed, s) else reply_list s ReportsBody (ListReports (sv_db s)))"

definition handleReportByID :: "Server \<Rightarrow> Request \<Rightarrow> response \<times> Server" where
  "handleReportByID s r =
     (let rid = strings_TrimPrefix (rq_path r) ''/api/v1/automation/reports/'' in
      if rid = '''' \<or> strings_Contains rid ''/'' then ((StatusBadRequest, ErrText ''invalid report ID''), s)
      else if rq_method r \<noteq> ''GET'' then (not_allowed, s)
      else (case GetReport (sv_db s) rid of
              (Inl e, d) \<Rightarrow>
                (if e = ErrNoRows then (StatusNotFound, ErrText ''report not found'') else (StatusInternalServerError, ErrSql '''' e),
                 with_db s d)
            | (Inr rep, d) \<Rightarrow> ((StatusOK, ReportBody rep), with_db s d)))"

section \<open>server.go: the routes\<close>

record Body =
  bd_control :: "ControlBody_req option"
  bd_script :: "ScriptReq option"
  bd_run :: "RunReq option"
  bd_group :: "GroupReq option"
  bd_member :: "string option"
  bd_login :: "(string \<times> string) option"
  bd_register :: "RegisterBody option"
  bd_keys :: KeysRequest

record environment =
  ev_auth :: auth_lib
  ev_automation :: automation_lib
  ev_rpc :: provider_rpc
  ev_seen :: "string \<Rightarrow> DB"
  ev_wait :: "Scheduler \<Rightarrow> Scheduler"
  ev_ids :: "nat \<Rightarrow> string"
  ev_rnd :: "nat list option"
  ev_now :: instant
  ev_conn :: nat

datatype route =
    ListDevices | WS | DeviceAction | Scripts | ScriptByID | RunScript | Reports | ReportByID
  | AdminUsers | AdminGroups | AdminGroupAction | Swagger | Docs | AuthLogin | AuthRegister | AuthKeys

text \<open>
  The patterns of the multiplexer: one that ends in a slash matches every path below it, any other only
  itself, and the longest match wins.
\<close>

definition mux_route :: "string \<Rightarrow> route option" where
  "mux_route path =
     (if path = ''/api/v1/devices'' then Some ListDevices
      else if path = ''/api/v1/devices/ws'' then Some WS
      else if strings_HasPrefix path ''/api/v1/devices/'' then Some DeviceAction
      else if path = ''/api/v1/automation/scripts'' then Some Scripts
      else if strings_HasPrefix path ''/api/v1/automation/scripts/'' then Some ScriptByID
      else if path = ''/api/v1/automation/run'' then Some RunScript
      else if path = ''/api/v1/automation/reports'' then Some Reports
      else if strings_HasPrefix path ''/api/v1/automation/reports/'' then Some ReportByID
      else if path = ''/api/v1/admin/users'' then Some AdminUsers
      else if path = ''/api/v1/admin/groups'' then Some AdminGroups
      else if strings_HasPrefix path ''/api/v1/admin/groups/'' then Some AdminGroupAction
      else if path = ''/swagger.yaml'' then Some Swagger
      else if path = ''/docs'' then Some Docs
      else if path = ''/api/v1/auth/login'' then Some AuthLogin
      else if path = ''/api/v1/auth/register'' then Some AuthRegister
      else if path = ''/api/v1/auth/keys'' then Some AuthKeys
      else None)"

text \<open>The multiplexer redirects a request whose path is not in canonical form, unless it is a \<^verbatim>\<open>CONNECT\<close>.\<close>

definition clean_path :: "string \<Rightarrow> bool" where
  "clean_path p \<longleftrightarrow>
     (case strings_Split p (CHR ''/'') of
        first # segs \<Rightarrow> first = '''' \<and> segs \<noteq> [] \<and> '''' \<notin> set (butlast segs) \<and> ''.'' \<notin> set segs \<and> ''..'' \<notin> set segs
      | [] \<Rightarrow> False)"

datatype answer = Answer int "http_body + auth_body" | Upgraded | Redirect | NoContent

definition http_answer :: "response \<times> Server \<Rightarrow> answer \<times> Server" where
  "http_answer p = (case p of ((code, b), s) \<Rightarrow> (Answer code (Inl b), s))"

definition auth_answer :: "Server \<Rightarrow> (int \<times> auth_body) \<times> AuthService \<Rightarrow> answer \<times> Server" where
  "auth_answer s p = (case p of ((code, b), a) \<Rightarrow> (Answer code (Inr b), s\<lparr>sv_auth := a\<rparr>))"

fun handle :: "environment \<Rightarrow> Server \<Rightarrow> Request \<Rightarrow> Body \<Rightarrow> route \<Rightarrow> answer \<times> Server" where
  "handle ev s r b ListDevices = http_answer (handleListDevices s r)"
| "handle ev s r b WS = (Upgraded, handleWS_open s r (ev_conn ev))"
| "handle ev s r b DeviceAction = http_answer (handleDeviceAction (ev_rpc ev) (ev_ids ev 0) s r (bd_control b))"
| "handle ev s r b Scripts = http_answer (handleScripts (ev_automation ev) (ev_ids ev 0) s r (bd_script b))"
| "handle ev s r b ScriptByID = http_answer (handleScriptByID s r)"
| "handle ev s r b RunScript =
     http_answer (handleRunScript (ev_automation ev) (ev_rpc ev) (ev_seen ev) (ev_wait ev) (ev_ids ev) (ev_now ev) s r (bd_run b))"
| "handle ev s r b Reports = http_answer (handleReports s r)"
| "handle ev s r b ReportByID = http_answer (handleReportByID s r)"
| "handle ev s r b AdminUsers = http_answer (handleAdminUsers s r)"
| "handle ev s r b AdminGroups = http_answer (handleAdminGroups (ev_ids ev 0) (ev_now ev) s r (bd_group b))"
| "handle ev s r b AdminGroupAction = http_answer (handleAdminGroupAction s r (bd_member b))"
| "handle ev s r b Swagger = (Answer StatusOK (Inl (OkBody ''docs/openapi.yaml'')), s)"
| "handle ev s r b Docs = (Answer StatusOK (Inl (OkBody ''text/html'')), s)"
| "handle ev s r b AuthLogin = auth_answer s (handleLogin (ev_auth ev) (ev_now ev) (sv_auth s) r (bd_login b))"
| "handle ev s r b AuthRegister =
     auth_answer s (handleRegister (ev_auth ev) (ev_ids ev) (ev_now ev) (sv_auth s) r (bd_register b))"
| "handle ev s r b AuthKeys =
     auth_answer s (handleKeys (ev_auth ev) (ev_ids ev 0) (ev_rnd ev) (ev_now ev) (sv_auth s) r (bd_keys b))"

definition mux :: "environment \<Rightarrow> Server \<Rightarrow> Request \<Rightarrow> Body \<Rightarrow> answer \<times> Server" where
  "mux ev s r b =
     (if rq_method r \<noteq> ''CONNECT'' \<and> \<not> clean_path (rq_path r) then (Redirect, s)
      else (case mux_route (rq_path r) of
              None \<Rightarrow> (Answer StatusNotFound (Inl (ErrText ''404 page not found'')), s)
            | Some rt \<Rightarrow> handle ev s r b rt))"

text \<open>The handler of the HTTP server: what one request does.\<close>

definition serve :: "environment \<Rightarrow> Server \<Rightarrow> Request \<Rightarrow> Body \<Rightarrow> answer \<times> Server" where
  "serve ev s r b =
     (if rq_method r = ''OPTIONS'' then (NoContent, s)
      else (case AuthMiddleware (ev_auth ev) (ev_now ev) (sv_auth s) (cfg_BypassAuthInDev (sv_cfg s)) r of
              (Reject code, a) \<Rightarrow> (Answer code (Inr (AuthErr ''Unauthorized'')), s\<lparr>sv_auth := a\<rparr>)
            | (Pass r, a) \<Rightarrow> mux ev (s\<lparr>sv_auth := a\<rparr>) r b))"

end
