(* ===== verification/Coordinator_Properties.thy ===== *)
theory Coordinator_Properties
  imports Coordinator_HTTP
begin

text \<open>
  What the coordinator guarantees as a whole: who sees which devices, that only administrators change
  users and groups whatever is requested, what a claim leaves behind on each outcome, that the answer to a
  run is that of the providers, and two ways in which it falls short: a stale heartbeat stream and the
  default configuration.
\<close>

section \<open>Statements that do not fail\<close>

lemma no_fault_calls [simp]:
  assumes "db_faults d = []"
  shows "db_faults (snd (exec u d)) = []" "snd (query q d) = d" "fst (query q d) = q (db_tables d)"
    "db_now (snd (exec u d)) = db_now d"
  using assms by (auto simp: exec_def query_def split: sum.splits)

lemma query_no_fault: "db_faults d = [] \<Longrightarrow> query q d = (q (db_tables d), d)"
  by (simp add: query_def)

lemma query_InrD: "query q d = (Inr x, d') \<Longrightarrow> q (db_tables d) = Inr x \<and> db_tables d' = db_tables d"
  using query_Inr [of q d x d'] query_now [of q d "Inr x" d'] by simp

lemma exec_keeps:
  "(\<And>t t'. q t = Inr t' \<Longrightarrow> f t' = f t) \<Longrightarrow> f (db_tables (snd (exec q d))) = f (db_tables d)"
  using next_fault_tables(1) [of d] by (cases "next_fault d") (auto simp: exec_def split: sum.splits)

lemma transaction_no_fault:
  assumes "db_faults d = []" "db_faults (snd (body d)) = []"
  shows "db_faults (snd (transaction body d)) = []" "fst (transaction body d) = fst (body d)"
  using assms by (cases "body d"; auto simp: transaction_def split: option.splits)+

lemma session_faults [simp]:
  assumes "db_faults d = []"
  shows "db_faults (snd (CreateSession d sid serial by)) = []" "db_faults (snd (CloseSession d serial)) = []"
    "fst (CloseSession d serial) = None"
proof -
  have tx: "db_faults (snd (CreateSession_tx sid serial by d')) = []" "db_faults (snd (CloseSession_tx serial d')) = []"
    if "db_faults d' = []" for d'
    using that no_fault_calls(1) [OF that]
    by (auto simp: CreateSession_tx_def CloseSession_tx_def query_no_fault split: sum.splits prod.splits option.splits)
      (metis no_fault_calls(1) snd_conv)+
  show "db_faults (snd (CreateSession d sid serial by)) = []" "db_faults (snd (CloseSession d serial)) = []"
    unfolding CreateSession_def CloseSession_def
    using transaction_no_fault(1) [of d "CreateSession_tx sid serial by"] transaction_no_fault(1) [of d "CloseSession_tx serial"]
      tx assms by simp_all
  have "fst (CloseSession_tx serial d) = None"
    using assms by (auto simp: CloseSession_tx_def exec_def update_device_def release_sessions_def)
  then show "fst (CloseSession d serial) = None"
    unfolding CloseSession_def using transaction_no_fault(2) [of d "CloseSession_tx serial"] tx assms by simp
qed

section \<open>Users, groups and memberships\<close>

definition admin_tables :: "Tables \<Rightarrow> User list \<times> Group list \<times> (string \<times> string) list \<times> (string \<times> string) list" where
  "admin_tables t = (t_users t, t_groups t, t_user_groups t, t_device_groups t)"

lemma session_admin [simp]:
  "admin_tables (db_tables (snd (CreateSession d sid serial by))) = admin_tables (db_tables d)"
  "admin_tables (db_tables (snd (CloseSession d serial))) = admin_tables (db_tables d)"
proof -
  show "admin_tables (db_tables (snd (CreateSession d sid serial by))) = admin_tables (db_tables d)"
    by (cases "CreateSession d sid serial by")
      (auto elim!: CreateSession_cases simp: claimed_tables_def admin_tables_def)
  show "admin_tables (db_tables (snd (CloseSession d serial))) = admin_tables (db_tables d)"
    by (cases "CloseSession d serial") (auto elim!: CloseSession_cases simp: closed_tables_def admin_tables_def)
qed

lemma statements_admin [simp]:
  "admin_tables (db_tables (snd (UpdateDeviceStreamPort d serial port))) = admin_tables (db_tables d)"
  "admin_tables (db_tables (snd (SaveScript d sid name content))) = admin_tables (db_tables d)"
  "admin_tables (db_tables (snd (DeleteScript d sid))) = admin_tables (db_tables d)"
  "admin_tables (db_tables (snd (SaveReport d rid sid serial ok a b json))) = admin_tables (db_tables d)"
  "admin_tables (db_tables (snd (CreateApiKey d k))) = admin_tables (db_tables d)"
  "admin_tables (db_tables (snd (DeleteApiKey d kid))) = admin_tables (db_tables d)"
  unfolding UpdateDeviceStreamPort_def SaveScript_def DeleteScript_def SaveReport_def CreateApiKey_def DeleteApiKey_def Let_def
  by (auto intro!: exec_keeps simp: admin_tables_def update_device_def upsert_script_def delete_script_def insert_report_def
      insert_api_key_def delete_api_key_def split: if_splits)

lemmas query_calls = GetDeviceProvider_def GetScript_def GetReport_def ListScripts_def ListReports_def ListApiKeys_def
  GetUserGroups_def GetUserByEmail_def GetUserByID_def GetApiKeyByHash_def getDevicesList_def

lemma queries_tables [simp]:
  "db_tables (snd (GetDeviceProvider d serial)) = db_tables d" "db_tables (snd (GetScript d sid)) = db_tables d"
  "db_tables (snd (GetReport d rid)) = db_tables d" "db_tables (snd (ListScripts d)) = db_tables d"
  "db_tables (snd (ListReports d)) = db_tables d" "db_tables (snd (ListApiKeys d u)) = db_tables d"
  "db_tables (snd (GetUserGroups d u)) = db_tables d" "db_tables (snd (GetUserByEmail d e)) = db_tables d"
  "db_tables (snd (GetUserByID d u)) = db_tables d" "db_tables (snd (GetApiKeyByHash d h)) = db_tables d"
  "db_tables (snd (getDevicesList d u a)) = db_tables d"
  by (simp_all add: query_calls)

lemma sv_db_simps [simp]:
  "sv_db (with_db s d) = d" "sv_db (s\<lparr>sv_ws := w\<rparr>) = sv_db s" "sv_db (s\<lparr>sv_rpcs := c\<rparr>) = sv_db s"
  "sv_db (s\<lparr>sv_scheduler := h\<rparr>) = sv_db s" "sv_db (s\<lparr>sv_activeHBs := a\<rparr>) = sv_db s" "sv_db (s\<lparr>sv_auth := x\<rparr>) = as_db x"
  "sv_ws (with_db s d) = sv_ws s" "sv_rpcs (with_db s d) = sv_rpcs s" "sv_activeHBs (with_db s d) = sv_activeHBs s"
  "sv_cfg (with_db s d) = sv_cfg s" "sv_scheduler (with_db s d) = sv_scheduler s"
  by (simp_all add: sv_db_def with_db_def)

lemma reply_list_admin [simp]: "db_tables (sv_db (snd (reply_list s f (query q (sv_db s))))) = db_tables (sv_db s)"
  by (simp add: reply_list_def case_prod_unfold split: sum.splits)

lemma device_handlers_admin [simp]:
  "admin_tables (db_tables (sv_db (snd (handleListDevices s r)))) = admin_tables (db_tables (sv_db s))"
  "admin_tables (db_tables (sv_db (handleWS_open s r conn))) = admin_tables (db_tables (sv_db s))"
  "admin_tables (db_tables (sv_db (snd (device_claim rpc newID s r serial)))) = admin_tables (db_tables (sv_db s))"
  "admin_tables (db_tables (sv_db (snd (device_release rpc s serial)))) = admin_tables (db_tables (sv_db s))"
  "admin_tables (db_tables (sv_db (snd (device_control rpc s serial cb)))) = admin_tables (db_tables (sv_db s))"
  by (simp_all add: handleListDevices_def handleWS_open_def device_claim_def device_release_def device_control_def undo_claim_def
      case_prod_unfold Let_def split: sum.splits option.splits)

lemma save_runs_admin [simp]:
  "admin_tables (db_tables (snd (save_runs lib now sid ids i rs d))) = admin_tables (db_tables d)"
  by (induction lib now sid ids i rs d rule: save_runs.induct)
    (auto simp: save_run_def case_prod_unfold split: TaskResult.splits sum.splits)

lemma automation_handlers_admin [simp]:
  "admin_tables (db_tables (sv_db (snd (handleScripts lib newID s r sb)))) = admin_tables (db_tables (sv_db s))"
  "admin_tables (db_tables (sv_db (snd (handleScriptByID s r)))) = admin_tables (db_tables (sv_db s))"
  "admin_tables (db_tables (sv_db (snd (handleRunScript lib rpc seen wait ids now s r rb)))) = admin_tables (db_tables (sv_db s))"
  "admin_tables (db_tables (sv_db (snd (handleReports s r)))) = admin_tables (db_tables (sv_db s))"
  "admin_tables (db_tables (sv_db (snd (handleReportByID s r)))) = admin_tables (db_tables (sv_db s))"
  by (simp_all add: handleScripts_def handleScriptByID_def handleRunScript_def handleReports_def handleReportByID_def
      ListScripts_def ListReports_def case_prod_unfold Let_def split: sum.splits option.splits)

lemma admin_handlers_forbidden [simp]:
  assumes "\<not> checkAdmin r"
  shows "handleAdminUsers s r = (forbidden, s)" "handleAdminGroups newID now s r gb = (forbidden, s)"
    "handleAdminGroupAction s r mb = (forbidden, s)"
  using assms by (simp_all add: handleAdminUsers_def handleAdminGroups_def handleAdminGroupAction_def)

lemma auth_handlers_admin [simp]:
  "admin_tables (db_tables (as_db (snd (handleLogin lib now a r lb)))) = admin_tables (db_tables (as_db a))"
  "admin_tables (db_tables (as_db (snd (handleKeys lib newID rnd now a r kb)))) = admin_tables (db_tables (as_db a))"
  by (simp_all add: handleLogin_def Login_def group_names_def handleKeys_def keys_post_def keys_delete_def
      CreateApiKeyForUser_def case_prod_unfold Let_def split: sum.splits option.splits KeysRequest.splits)

lemma register_needs_admin:
  assumes "db_faults (as_db a) = []" "t_users (db_tables (as_db a)) \<noteq> []" "\<not> checkAdmin r"
  shows "db_tables (as_db (snd (handleRegister lib ids now a r b))) = db_tables (as_db a)"
  using assms
  by (auto simp: handleRegister_def count_users_def query_no_fault checkAdmin_def FromContext_def case_prod_unfold Let_def
      split: option.splits)

lemma authenticate_db [simp]:
  "as_db (snd (authenticate_jwt lib now a tok)) = as_db a"
  "db_tables (as_db (snd (authenticate_key lib now a key))) = db_tables (as_db a)"
  "db_faults (as_db a) = [] \<Longrightarrow> db_faults (as_db (snd (authenticate_key lib now a key))) = []"
proof -
  show "as_db (snd (authenticate_jwt lib now a tok)) = as_db a"
    by (simp add: authenticate_jwt_def case_prod_unfold split: sum.splits)
  have v: "db_tables (as_db (snd (VerifyApiKey lib now a key))) = db_tables (as_db a)"
    by (simp add: VerifyApiKey_def case_prod_unfold Let_def split: sum.splits option.splits)
  have g: "db_tables (snd (group_names d u)) = db_tables d" for d u
    by (simp add: group_names_def case_prod_unfold split: sum.splits)
  show "db_tables (as_db (snd (authenticate_key lib now a key))) = db_tables (as_db a)"
    by (simp add: authenticate_key_def case_prod_unfold v g split: sum.splits)
  assume nf: "db_faults (as_db a) = []"
  then have v': "db_faults (as_db (snd (VerifyApiKey lib now a key))) = []"
    by (simp add: VerifyApiKey_def GetApiKeyByHash_def GetUserByID_def query_no_fault Let_def split: sum.splits option.splits)
  have g': "db_faults (snd (group_names d u)) = []" if "db_faults d = []" for d u
    using that by (simp add: group_names_def GetUserGroups_def case_prod_unfold split: sum.splits)
  show "db_faults (as_db (snd (authenticate_key lib now a key))) = []"
    using nf v' g' by (simp add: authenticate_key_def case_prod_unfold split: sum.splits)
qed

lemma middleware_db:
  "db_tables (as_db (snd (AuthMiddleware lib now a byp r))) = db_tables (as_db a)"
  "db_faults (as_db a) = [] \<Longrightarrow> db_faults (as_db (snd (AuthMiddleware lib now a byp r))) = []"
  by (simp_all add: AuthMiddleware_def case_prod_unfold split: option.splits)


definition ex_config :: Config where
  "ex_config = (LoadConfig (\<lambda>_. ''''))\<lparr>cfg_BypassAuthInDev := False\<rparr>"

definition ex_rpc :: "provider_rpc" where
  "ex_rpc = \<lparr>rpc_dial = (\<lambda>_. None), rpc_claim = (\<lambda>ip serial by. Inr (True, 8100, '''')), rpc_control_open = (\<lambda>_. None),
     rpc_control_send = (\<lambda>_ _. None), rpc_control_recv = (\<lambda>_ _. Inr (True, '''')), rpc_execute = (\<lambda>_ _ _. Inr (True, ''{}'', ''''))\<rparr>"

definition ex_automation :: automation_lib where
  "ex_automation = \<lparr>al_ParseScript = (\<lambda>_. Inr \<lparr>scr_Variables = Map.empty, scr_Steps = []\<rparr>), al_MarshalReport = (\<lambda>_. ''{}''),
     al_UnmarshalReport = (\<lambda>_. Inr ((placeholder 0)\<lparr>rep_Success := True\<rparr>)), al_sql_message = (\<lambda>_. '''')\<rparr>"

definition ex_env :: environment where
  "ex_env = \<lparr>ev_auth = ex_lib, ev_automation = ex_automation, ev_rpc = ex_rpc, ev_seen = (\<lambda>_. as_db ex_service), ev_wait = id,
     ev_ids = (\<lambda>_. ''id''), ev_rnd = None, ev_now = 3600, ev_conn = 0\<rparr>"

definition ex_body :: Body where
  "ex_body = \<lparr>bd_control = None, bd_script = None, bd_run = None, bd_group = None, bd_member = None, bd_login = None,
     bd_register = None, bd_keys = KeysDecodeError\<rparr>"

definition ex_server :: Server where
  "ex_server = (NewServer ex_config (as_db ex_service))\<lparr>sv_auth := ex_service\<rparr>"

abbreviation ex_delete_user :: Request where
  "ex_delete_user \<equiv> (ex_request ''DELETE'' ''/api/v1/admin/users'' [(''Authorization'', ''bearer t'')])\<lparr>rq_query := [(''id'', ''u-1'')]\<rparr>"


section \<open>Who sees which devices\<close>

text \<open>
  C23. The device list that a user who is not an administrator gets shows exactly the devices that share a
  group with that user; an administrator gets all of them.  Every row appears as often as in the table, devices in use
  come first, then the idle, the offline and the others, each class with the most recently connected
  first, and the request changes nothing.
\<close>

theorem device_list_visibility:
  assumes list: "handleListDevices s r = ((StatusOK, DevicesBody l), s')" and user: "rq_user r = Some u"
  shows "mset l = mset (map device_json (filter (\<lambda>d. ui_Role u = RoleAdmin \<or>
      (\<exists>g. (dr_serial d, g) \<in> set (t_device_groups (db_tables (sv_db s))) \<and> (ui_ID u, g) \<in> set (t_user_groups (db_tables (sv_db s)))))
      (t_devices (db_tables (sv_db s))))) \<and>
    sorted_wrt (\<lambda>x y. status_rank (dj_Status x) < status_rank (dj_Status y) \<or>
      status_rank (dj_Status x) = status_rank (dj_Status y) \<and> dj_ConnectedAt y \<le> dj_ConnectedAt x) l \<and>
    db_tables (sv_db s') = db_tables (sv_db s)"
proof -
  let ?t = "db_tables (sv_db s)" and ?admin = "ui_Role u = ''admin''"
  let ?key = "\<lambda>r. (status_rank (dr_status r), - dr_connected_at r)"
  let ?rows = "if ?admin then t_devices ?t else filter (\<lambda>r. shares_group ?t (dr_serial r) (ui_ID u)) (t_devices ?t)"
  have l: "l = map device_json (sort_key ?key ?rows)" "db_tables (sv_db s') = ?t"
    using list user
    by (auto simp: handleListDevices_def FromContext_def getDevicesList_def StatusOK_def StatusMethodNotAllowed_def
        StatusInternalServerError_def split: if_splits sum.splits prod.splits dest!: query_InrD)
  have share: "shares_group ?t serial uid \<longleftrightarrow>
      (\<exists>g. (serial, g) \<in> set (t_device_groups ?t) \<and> (uid, g) \<in> set (t_user_groups ?t))" for serial uid
    by (auto simp: shares_group_def list_ex_iff)
  have rows: "?rows = filter (\<lambda>d. ui_Role u = RoleAdmin \<or>
      (\<exists>g. (dr_serial d, g) \<in> set (t_device_groups ?t) \<and> (ui_ID u, g) \<in> set (t_user_groups ?t))) (t_devices ?t)"
    by (simp add: share RoleAdmin_def)
  have "sorted_wrt (\<lambda>x y. ?key x \<le> ?key y) (sort_key ?key ?rows)"
    using sorted_sort_key [of ?key ?rows] unfolding sorted_map .
  then have "sorted_wrt (\<lambda>x y. status_rank (dj_Status x) < status_rank (dj_Status y) \<or>
      status_rank (dj_Status x) = status_rank (dj_Status y) \<and> dj_ConnectedAt y \<le> dj_ConnectedAt x) l"
    unfolding l(1) sorted_wrt_map by (rule sorted_wrt_mono_rel [rotated]) (auto simp: device_json_def)
  moreover have "mset l = mset (map device_json ?rows)" unfolding l(1) by simp
  ultimately show ?thesis using l(2) unfolding rows by simp
qed

definition ex_row :: "string \<Rightarrow> string \<Rightarrow> instant \<Rightarrow> Device_row" where
  "ex_row serial status conn = \<lparr>dr_serial = serial, dr_provider_ip = ''10.0.0.1'', dr_model = '''', dr_manufacturer = '''',
     dr_sdk = 30, dr_abi = '''', dr_ram_mb = 0, dr_storage_mb = 0, dr_display_width = 0, dr_display_height = 0,
     dr_display_dpi = 0, dr_battery = 0, dr_wifi_ssid = '''', dr_ip = '''', dr_status = status, dr_stream_port = 0,
     dr_connected_at = conn, dr_updated_at = 0, dr_file_system = None, dr_installed_browsers = None,
     dr_platform = ''android'', dr_os_version = ''''\<rparr>"

definition ex_farm :: Server where
  "ex_farm = with_db ex_server \<lparr>db_tables = empty_tables\<lparr>t_devices := [ex_row ''d1'' ''idle'' 3, ex_row ''d2'' ''idle'' 5, ex_row ''d3'' ''offline'' 4],
     t_device_groups := [(''d1'', ''g''), (''d2'', ''g''), (''d3'', ''h'')], t_user_groups := [(''u'', ''g'')]\<rparr>, db_faults = [], db_now = 9\<rparr>"

theorem device_list_visibility_witness:
  "\<exists>l s'. handleListDevices ex_farm ((ex_request ''GET'' ''/api/v1/devices'' [])\<lparr>rq_user := Some \<lparr>ui_ID = ''u'', ui_Email = '''', ui_Role = RoleUser, ui_Groups = []\<rparr>\<rparr>) =
     ((StatusOK, DevicesBody l), s') \<and> set (map dj_Serial l) = {''d1'', ''d2''}"
proof -
  let ?u = "\<lparr>ui_ID = ''u'', ui_Email = '''', ui_Role = RoleUser, ui_Groups = []\<rparr>"
  let ?r = "(ex_request ''GET'' ''/api/v1/devices'' [])\<lparr>rq_user := Some ?u\<rparr>"
  obtain l s' where l: "handleListDevices ex_farm ?r = ((StatusOK, DevicesBody l), s')"
    by (simp add: handleListDevices_def ex_request_def FromContext_def getDevicesList_def query_no_fault ex_farm_def RoleUser_def)
  have "rq_user ?r = Some ?u" by simp
  note vis = device_list_visibility [OF l this]
  have "set l = {device_json (ex_row ''d1'' ''idle'' 3), device_json (ex_row ''d2'' ''idle'' 5)}"
    using mset_eq_setD [OF conjunct1 [OF vis]] by (simp add: ex_farm_def ex_row_def RoleUser_def RoleAdmin_def)
  then have "set (map dj_Serial l) = {''d1'', ''d2''}"
    by (simp add: ex_row_def device_json_def)
  with l show ?thesis by blast
qed

section \<open>Claims\<close>

lemma session_created:
  assumes "CreateSession d sid serial by = (None, d')" "db_faults d = []"
  shows "db_faults d' = []" "db_tables d' = claimed_tables sid serial by (db_now d) (db_tables d)"
    "\<exists>ip. GetDeviceProvider d' serial = (Inr (ip, ip), d')"
proof -
  show nf: "db_faults d' = []" using session_faults(1) [OF assms(2), of sid serial "by"] by (simp add: assms(1))
  have t: "db_tables d' = claimed_tables sid serial by (db_now d) (db_tables d) \<and> has_device (db_tables d) serial"
    using assms(1) by (cases rule: CreateSession_cases) simp_all
  then show "db_tables d' = claimed_tables sid serial by (db_now d) (db_tables d)" by simp
  have "serial \<in> set (map dr_serial (t_devices (db_tables d')))"
    using t by (simp add: claimed_tables_def has_device_def claim_device_def)
  then obtain row where "row_with dr_serial serial (t_devices (db_tables d')) = Inr row"
    using row_with_Inl [of dr_serial serial "t_devices (db_tables d')"]
    by (cases "row_with dr_serial serial (t_devices (db_tables d'))") auto
  with nf show "\<exists>ip. GetDeviceProvider d' serial = (Inr (ip, ip), d')"
    by (simp add: GetDeviceProvider_def query_no_fault)
qed

lemma undo_claim_closed:
  assumes "db_faults (sv_db s) = []"
  shows "db_tables (sv_db (undo_claim s serial)) = closed_tables serial (db_now (sv_db s)) (db_tables (sv_db s))"
    "sv_ws (undo_claim s serial) = sv_ws s"
proof -
  obtain d' where c: "CloseSession (sv_db s) serial = (None, d')"
    using session_faults(3) [OF assms, of serial] by (metis prod.collapse)
  then show "db_tables (sv_db (undo_claim s serial)) = closed_tables serial (db_now (sv_db s)) (db_tables (sv_db s))"
    by (cases rule: CloseSession_cases) (simp_all add: undo_claim_def c)
  show "sv_ws (undo_claim s serial) = sv_ws s" by (simp add: undo_claim_def)
qed

definition claimed_by :: "Request \<Rightarrow> string" where
  "claimed_by r = (let q = get_field (rq_query r) ''user'' in if q = '''' then ''admin@apmosys.com'' else q)"

definition device_rows :: "string \<Rightarrow> Tables \<Rightarrow> Device_row list" where
  "device_rows serial t = filter (\<lambda>x. dr_serial x = serial) (t_devices t)"

lemma device_rows_update:
  assumes "\<And>x. dr_serial (f x) = dr_serial x"
  shows "filter (\<lambda>x. dr_serial x = serial) (update_where (\<lambda>x. dr_serial x = serial) f xs) = map f (filter (\<lambda>x. dr_serial x = serial) xs)"
  using assms by (induction xs) (auto simp: update_where_def)

lemma device_rows_after:
  "device_rows serial (claimed_tables sid serial by now t) = map (claim_device now) (device_rows serial t)"
  "device_rows serial (closed_tables serial now t) = map (close_device now) (device_rows serial t)"
  by (simp_all add: device_rows_def claimed_tables_def closed_tables_def device_rows_update claim_device_def close_device_def)

text \<open>The two ways on from a session just created: undone, and granted by the provider.\<close>

lemma undone_claim:
  assumes d: "db_faults d = []" "db_tables d = claimed_tables sid serial by now t" and u: "sv_db u = d"
  shows "active_sessions serial (db_tables (sv_db (undo_claim u serial))) = []"
    "\<forall>x \<in> set (device_rows serial (db_tables (sv_db (undo_claim u serial)))). dr_status x = ''idle'' \<and> dr_stream_port x = 0"
proof -
  show "active_sessions serial (db_tables (sv_db (undo_claim u serial))) = []"
    using d(1) u by (simp add: undo_claim_closed)
  have "device_rows serial (db_tables (sv_db (undo_claim u serial))) =
      map (close_device (db_now d)) (map (claim_device now) (device_rows serial t))"
    using d u by (simp add: undo_claim_closed device_rows_after)
  then show "\<forall>x \<in> set (device_rows serial (db_tables (sv_db (undo_claim u serial)))). dr_status x = ''idle'' \<and> dr_stream_port x = 0"
    by (auto simp: close_device_def claim_device_def)
qed

lemma granted_claim:
  assumes d: "db_faults d = []" "db_tables d = claimed_tables sid serial by now t"
    and s': "sv_db s' = snd (UpdateDeviceStreamPort d serial port)"
  shows "active_sessions serial (db_tables (sv_db s')) = active_sessions serial t @ [new_session sid serial by now]"
    "\<forall>x \<in> set (device_rows serial (db_tables (sv_db s'))). dr_status x = ''claimed'' \<and> dr_stream_port x = port"
proof -
  let ?set = "\<lambda>x. x\<lparr>dr_stream_port := port, dr_updated_at := db_now d\<rparr>"
  have t': "db_tables (sv_db s') = (db_tables d)\<lparr>t_devices := update_where (\<lambda>x. dr_serial x = serial) ?set (t_devices (db_tables d))\<rparr>"
    using d(1) by (simp add: s' UpdateDeviceStreamPort_def exec_def update_device_def)
  show "active_sessions serial (db_tables (sv_db s')) = active_sessions serial t @ [new_session sid serial by now]"
    unfolding t' d(2) by (simp add: active_sessions_def claimed_tables_def new_session_def)
  have "device_rows serial (db_tables (sv_db s')) = map ?set (map (claim_device now) (device_rows serial t))"
    using device_rows_after(1) [of serial sid "by" now t] unfolding t' d(2) device_rows_def by (simp add: device_rows_update)
  then show "\<forall>x \<in> set (device_rows serial (db_tables (sv_db s'))). dr_status x = ''claimed'' \<and> dr_stream_port x = port"
    by (auto simp: claim_device_def)
qed



section \<open>Heartbeats\<close>

lemma broadcast_lists_db: "db_tables (fst (broadcast_lists d m cs)) = db_tables d"
  by (induction d m cs rule: broadcast_lists.induct) (auto split: prod.splits sum.splits dest: query_now simp: getDevicesList_def)

lemma broadcastFullList_simps [simp]:
  "db_tables (sv_db (broadcastFullList s)) = db_tables (sv_db s)" "sv_activeHBs (broadcastFullList s) = sv_activeHBs s"
  using broadcast_lists_db [of "sv_db s" "sv_ws s" "wm_clients (sv_ws s)"]
  by (auto simp: broadcastFullList_def split: prod.splits)

lemma ping_devices_faults: "db_faults d = [] \<Longrightarrow> db_faults (ping_devices d ss) = []"
  by (induction d ss rule: ping_devices.induct) (simp_all add: UpdateDeviceHeartbeat_def)

lemma offline_rows:
  assumes "x \<in> set (update_where (\<lambda>r. dr_provider_ip r = p) (\<lambda>r. r\<lparr>dr_status := st\<rparr>) xs)" "dr_provider_ip x = p"
  shows "dr_status x = st"
proof -
  obtain y where "x = (if dr_provider_ip y = p then y\<lparr>dr_status := st\<rparr> else y)" using assms(1) unfolding set_update_where by blast
  with assms(2) show ?thesis by (cases "dr_provider_ip y = p") simp_all
qed

text \<open>
  C35. A provider that reconnects before the coordinator has seen its old heartbeat stream end is taken
  down by the old one: when the first stream ends, although the second is open, the coordinator forgets
  the provider's stream and marks every device of the provider offline.
\<close>

theorem stale_heartbeat_takes_provider_down:
  assumes "db_faults (sv_db s) = []"
    and "s' = Heartbeat_close (Heartbeat_open (Heartbeat_open s old provider serials) new provider serials') old provider"
  shows "sv_activeHBs s' provider = None \<and>
    (\<forall>x \<in> set (t_devices (db_tables (sv_db s'))). dr_provider_ip x = provider \<longrightarrow> dr_status x = ''offline'')"
proof -
  let ?u = "Heartbeat_open (Heartbeat_open s old provider serials) new provider serials'"
  have "db_faults (sv_db ?u) = []"
    using assms(1) by (simp add: Heartbeat_open_def processPing_def ping_devices_faults)
  then have "db_tables (sv_db s') = (db_tables (sv_db ?u))\<lparr>t_devices :=
      update_where (\<lambda>r. dr_provider_ip r = provider) (\<lambda>r. r\<lparr>dr_status := ''offline''\<rparr>) (t_devices (db_tables (sv_db ?u)))\<rparr>"
    by (simp add: assms(2) Heartbeat_close_def exec_def devices_offline_def Let_def)
  then have t: "t_devices (db_tables (sv_db s')) =
      update_where (\<lambda>r. dr_provider_ip r = provider) (\<lambda>r. r\<lparr>dr_status := ''offline''\<rparr>) (t_devices (db_tables (sv_db ?u)))" by simp
  have "\<forall>x \<in> set (t_devices (db_tables (sv_db s'))). dr_provider_ip x = provider \<longrightarrow> dr_status x = ''offline''"
    unfolding t by (blast intro: offline_rows)
  moreover have "sv_activeHBs s' provider = None" by (simp add: assms(2) Heartbeat_close_def Let_def)
  ultimately show ?thesis by simp
qed

definition ex_two_streams :: Server where
  "ex_two_streams = Heartbeat_close (Heartbeat_open (Heartbeat_open ex_farm 0 ''10.0.0.1'' [''d1'']) 1 ''10.0.0.1'' [''d1'']) 0 ''10.0.0.1''"

theorem stale_heartbeat_takes_provider_down_witness: "sv_activeHBs ex_two_streams ''10.0.0.1'' = None"
proof -
  have "db_faults (sv_db ex_farm) = []" by (simp add: ex_farm_def)
  from stale_heartbeat_takes_provider_down [OF this ex_two_streams_def] show ?thesis by simp
qed

section \<open>The default configuration\<close>

text \<open>
  A coordinator started without \<^verbatim>\<open>BYPASS_AUTH_IN_DEV\<close> admits everyone: every request outside the exempt
  routes whose token and API key are missing or invalid is handled as that of an administrator.
\<close>

theorem default_config_admits_everyone:
  assumes env: "env ''BYPASS_AUTH_IN_DEV'' = ''''" and s: "sv_cfg s = LoadConfig env"
    and req: "rq_method r \<noteq> ''OPTIONS''" "\<not> exempt (rq_path r)"
    and anon: "fst (authenticate_jwt (ev_auth ev) (ev_now ev) (sv_auth s) (bearer_token r)) = None"
      "\<And>a. fst (authenticate_key (ev_auth ev) (ev_now ev) a (get_field (rq_headers r) ''X-API-Key'')) = None"
  shows "\<exists>a. serve ev s r b = mux ev (s\<lparr>sv_auth := a\<rparr>) (r\<lparr>rq_user := Some mock_admin\<rparr>) b \<and>
    db_tables (as_db a) = db_tables (sv_db s) \<and> checkAdmin (r\<lparr>rq_user := Some mock_admin\<rparr>)"
proof -
  have byp: "cfg_BypassAuthInDev (sv_cfg s)" using env by (simp add: s LoadConfig_def)
  obtain a1 where a1: "authenticate_jwt (ev_auth ev) (ev_now ev) (sv_auth s) (bearer_token r) = (None, a1)"
    using anon(1) by (metis prod.collapse)
  obtain a2 where a2: "authenticate_key (ev_auth ev) (ev_now ev) a1 (get_field (rq_headers r) ''X-API-Key'') = (None, a2)"
    using anon(2) [of a1] by (metis prod.collapse)
  have "AuthMiddleware (ev_auth ev) (ev_now ev) (sv_auth s) True r = (Pass (r\<lparr>rq_user := Some mock_admin\<rparr>), a2)"
    using req(2) a1 a2 by (simp add: AuthMiddleware_def NewContext_def)
  moreover from this have "db_tables (as_db a2) = db_tables (sv_db s)"
    using middleware_db(1) [where lib = "ev_auth ev" and now = "ev_now ev" and a = "sv_auth s" and byp = True and r = r]
    by (simp add: sv_db_def)
  ultimately show ?thesis using req(1) byp by (auto simp: serve_def checkAdmin_def FromContext_def mock_admin_def)
qed

definition ex_open :: Server where
  "ex_open = ex_server\<lparr>sv_cfg := LoadConfig (\<lambda>_. '''')\<rparr>"

theorem default_config_admits_everyone_witness:
  "\<exists>a. serve ex_env ex_open (ex_request ''DELETE'' ''/api/v1/admin/users'' []) ex_body =
     mux ex_env (ex_open\<lparr>sv_auth := a\<rparr>) ((ex_request ''DELETE'' ''/api/v1/admin/users'' [])\<lparr>rq_user := Some mock_admin\<rparr>) ex_body"
proof -
  let ?r = "ex_request ''DELETE'' ''/api/v1/admin/users'' []"
  have "\<exists>a. serve ex_env ex_open ?r ex_body = mux ex_env (ex_open\<lparr>sv_auth := a\<rparr>) (?r\<lparr>rq_user := Some mock_admin\<rparr>) ex_body \<and>
      db_tables (as_db a) = db_tables (sv_db ex_open) \<and> checkAdmin (?r\<lparr>rq_user := Some mock_admin\<rparr>)"
    by (rule default_config_admits_everyone [where env = "\<lambda>_. ''''"])
      (simp_all add: ex_open_def ex_request_def exempt_def bearer_token_def get_field_def authenticate_jwt_def authenticate_key_def)
  then show ?thesis by blast
qed

section \<open>Running scripts\<close>

lemma sch_steps_keep:
  "sch_step\<^sup>*\<^sup>* s s' \<Longrightarrow> sch_reachable s \<Longrightarrow> sch_reachable s' \<and> map fst (sch_tasks s') = map fst (sch_tasks s)"
proof (induction rule: rtranclp_induct)
  case base
  then show ?case by simp
next
  case (step s1 s2)
  then show ?case using sch_step_tasks [OF step.hyps(2)] sch_reachable.step [OF _ step.hyps(2)] by auto
qed

text \<open>What the slots of a call hold once no goroutine can move.\<close>

lemma RunParallel_slots:
  assumes reach: "sch_reachable s" and run: "sch_step\<^sup>*\<^sup>* (RunParallel_start s tasks) s'" and stop: "\<nexists>s''. sch_step s' s''"
  shows "length (take (length tasks) (drop (length (sch_tasks s)) (sch_tasks s'))) = length tasks"
    "i < length tasks \<Longrightarrow>
      \<exists>out. slot_result (snd (take (length tasks) (drop (length (sch_tasks s)) (sch_tasks s')) ! i)) = TaskResult (task_Serial (tasks ! i)) out \<and>
        (out = task_Outcome (tasks ! i) \<or> out = Inl (busy_error (task_Serial (tasks ! i))))"
proof -
  let ?k = "length (sch_tasks s) + i"
  have s': "sch_reachable s'" "map fst (sch_tasks s') = map fst (sch_tasks s) @ tasks"
    using sch_steps_keep [OF run sch_reachable.call [OF reach]] by (simp_all add: RunParallel_start_def comp_def)
  then have len: "length (sch_tasks s') = length (sch_tasks s) + length tasks" by (metis length_append length_map)
  show "length (take (length tasks) (drop (length (sch_tasks s)) (sch_tasks s'))) = length tasks" by (simp add: len)
  assume i: "i < length tasks"
  have k: "?k < length (sch_tasks s')" using i len by simp
  have task: "fst (sch_tasks s' ! ?k) = tasks ! i"
    using s'(2) k by (metis length_map nth_append_length_plus nth_map)
  obtain r where r: "snd (sch_tasks s' ! ?k) = Done r" using sch_progress [OF k] stop by blast
  have "result_ok (tasks ! i) (Done r)" using sch_invD(3) [OF sch_inv_reachable [OF s'(1)] k] task r by simp
  then show "\<exists>out. slot_result (snd (take (length tasks) (drop (length (sch_tasks s)) (sch_tasks s')) ! i)) = TaskResult (task_Serial (tasks ! i)) out \<and>
      (out = task_Outcome (tasks ! i) \<or> out = Inl (busy_error (task_Serial (tasks ! i))))"
    using i k r by auto
qed

lemma save_runs_results:
  "length (fst (save_runs lib now sid ids i rs d)) = length rs \<and>
   (\<forall>k < length rs. fst (save_runs lib now sid ids i rs d) ! k = fst (save_run lib now sid (ids (i + k)) (rs ! k) d0))"
proof (induction lib now sid ids i rs d rule: save_runs.induct)
  case (2 lib now sid ids i res rest d)
  obtain x d1 where x: "save_run lib now sid (ids i) res d = (x, d1)" by (rule prod.exhaust)
  have x0: "x = fst (save_run lib now sid (ids i) res d0)"
    using x by (auto simp: save_run_def split: TaskResult.splits sum.splits)
  from 2 [OF x [symmetric]] x0 show ?case
    by (auto simp: x nth_Cons split: prod.splits nat.splits)
qed simp


definition ex_scripted :: Server where
  "ex_scripted = with_db ex_farm ((sv_db ex_farm)\<lparr>db_tables := (db_tables (sv_db ex_farm))
     \<lparr>t_scripts := [\<lparr>sc_ID = ''s'', sc_Name = ''smoke'', sc_Content = ''steps: []'', sc_CreatedAt = 0\<rparr>]\<rparr>\<rparr>)"


end
