(* ===== verification/Adb_Tracker.thy ===== *)
theory Adb_Tracker
  imports Domain Go_Strings "HOL-Library.List_Lexorder" "HOL-Library.Char_ord"
begin

text \<open>
  \<^verbatim>\<open>src/internal/adb/tracker.go\<close>: following the list of devices that the adb daemon pushes.  The connections are
  a list of outcomes, each the bytes that were read until the connection ended; the order in which Go ranges
  over a map is an argument; \<open>full\<close> tells for which serials the event channel has no room when an event about
  them is sent without waiting.  The clock of an event is that of its snapshot.
\<close>

section \<open>The protocol\<close>

record TrackerConfig =
  tc_PropertyTimeout :: duration
  tc_BackoffMin :: duration
  tc_BackoffMax :: duration

definition NewTracker :: "TrackerConfig \<Rightarrow> TrackerConfig" where
  "NewTracker cfg =
     \<lparr>tc_PropertyTimeout = (if tc_PropertyTimeout cfg = 0 then 5000000000 else tc_PropertyTimeout cfg),
      tc_BackoffMin = (if tc_BackoffMin cfg = 0 then 1000000000 else tc_BackoffMin cfg),
      tc_BackoffMax = (if tc_BackoffMax cfg = 0 then 30000000000 else tc_BackoffMax cfg)\<rparr>"

definition minDur :: "duration \<Rightarrow> duration \<Rightarrow> duration" where
  "minDur a b = (if a < b then a else b)"

definition hex_value :: "char \<Rightarrow> int option" where
  "hex_value c =
     (let n = of_char c :: int in
      if 48 \<le> n \<and> n \<le> 57 then Some (n - 48)
      else if 97 \<le> n \<and> n \<le> 102 then Some (n - 87)
      else if 65 \<le> n \<and> n \<le> 70 then Some (n - 55)
      else None)"

fun hex_digits :: "int \<Rightarrow> string \<Rightarrow> int" where
  "hex_digits acc [] = acc"
| "hex_digits acc (c # cs) = (case hex_value c of None \<Rightarrow> acc | Some v \<Rightarrow> hex_digits (16 * acc + v) cs)"

text \<open>\<^verbatim>\<open>fmt.Sscanf(s, "%04x", &n)\<close> of four bytes: blanks, a sign, digits; what follows them is not looked at.\<close>

definition scan_hex :: "string \<Rightarrow> int option" where
  "scan_hex s =
     (let s = dropWhile scan_blank s;
          (neg, ds) = (case s of [] \<Rightarrow> (False, []) | c # cs \<Rightarrow>
            if c = CHR ''-'' then (True, cs) else if c = CHR ''+'' then (False, cs) else (False, s))
      in case ds of
           [] \<Rightarrow> None
         | c # _ \<Rightarrow> if hex_value c = None then None else Some (if neg then - hex_digits 0 ds else hex_digits 0 ds))"

datatype frame =
  Frame string string
| FrameError string
| FramePanic

text \<open>One round of the reading loop: a negative length makes \<^verbatim>\<open>make\<close> panic.\<close>

definition read_frame :: "string \<Rightarrow> frame" where
  "read_frame bytes =
     (if length bytes < 4 then FrameError ''read length prefix''
      else (case scan_hex (take 4 bytes) of
              None \<Rightarrow> FrameError ''parse length prefix''
            | Some n \<Rightarrow>
                if n < 0 then FramePanic
                else if length bytes < 4 + nat n then FrameError ''read payload''
                else Frame (take (nat n) (drop 4 bytes)) (drop (4 + nat n) bytes)))"

lemma read_frame_shorter: "read_frame bytes = Frame p rest \<Longrightarrow> length rest < length bytes"
  by (auto simp: read_frame_def split: if_splits option.splits)

fun snapshot_lines :: "string list \<Rightarrow> (string \<rightharpoonup> string)" where
  "snapshot_lines [] = Map.empty"
| "snapshot_lines (line # lines) =
     (case strings_Fields (strings_TrimSpace line) of
        serial # state # _ \<Rightarrow> (\<lambda>s. case snapshot_lines lines s of None \<Rightarrow> if s = serial then Some state else None | Some st \<Rightarrow> Some st)
      | _ \<Rightarrow> snapshot_lines lines)"

definition parseDeviceSnapshot :: "string \<Rightarrow> (string \<rightharpoonup> string)" where
  "parseDeviceSnapshot payload = snapshot_lines (strings_Split (strings_TrimSpace payload) (CHR 0x0A))"

section \<open>Events\<close>

text \<open>\<open>fetch\<close> is \<^verbatim>\<open>FetchProperties\<close> on a serial; its error gives an event without a device.\<close>

record tracker_env =
  te_fetch :: "instant \<Rightarrow> string \<Rightarrow> string + Device"
  te_full :: "instant \<Rightarrow> string \<Rightarrow> bool"
  te_range :: "string set \<Rightarrow> string list"

definition emitConnected :: "tracker_env \<Rightarrow> instant \<Rightarrow> string \<Rightarrow> DeviceEvent list" where
  "emitConnected env now serial =
     [\<lparr>ev_Serial = serial, ev_Type = EventConnected,
       ev_Device = (case te_fetch env now serial of Inl _ \<Rightarrow> None | Inr d \<Rightarrow> Some d), ev_Timestamp = now\<rparr>]"

definition emitSimple :: "tracker_env \<Rightarrow> instant \<Rightarrow> string \<Rightarrow> EventType \<Rightarrow> DeviceEvent list" where
  "emitSimple env now serial evtType =
     (if te_full env now serial then []
      else [\<lparr>ev_Serial = serial, ev_Type = evtType, ev_Device = None, ev_Timestamp = now\<rparr>])"

definition diff_addition :: "tracker_env \<Rightarrow> instant \<Rightarrow> (string \<rightharpoonup> string) \<Rightarrow> (string \<rightharpoonup> string) \<Rightarrow> string \<Rightarrow> DeviceEvent list" where
  "diff_addition env now current previous serial =
     (case current serial of
        None \<Rightarrow> []
      | Some state \<Rightarrow>
          if previous serial = Some state then []
          else if state = ''device'' then emitConnected env now serial
          else if state = ''unauthorized'' then emitSimple env now serial EventUnauthorized
          else if state = ''offline'' then emitSimple env now serial EventOffline
          else [])"

definition diff_removal :: "tracker_env \<Rightarrow> instant \<Rightarrow> (string \<rightharpoonup> string) \<Rightarrow> string \<Rightarrow> DeviceEvent list" where
  "diff_removal env now current serial =
     (if current serial = None then emitSimple env now serial EventDisconnected else [])"

definition diff :: "tracker_env \<Rightarrow> instant \<Rightarrow> (string \<rightharpoonup> string) \<Rightarrow> (string \<rightharpoonup> string) \<Rightarrow> DeviceEvent list" where
  "diff env now current previous =
     concat (map (diff_addition env now current previous) (te_range env (dom current))) @
     concat (map (diff_removal env now current) (te_range env (dom previous)))"

definition evictAll :: "tracker_env \<Rightarrow> instant \<Rightarrow> (string \<rightharpoonup> string) \<Rightarrow> DeviceEvent list" where
  "evictAll env now previous =
     concat (map (\<lambda>serial. if previous serial = Some ''device'' then emitSimple env now serial EventDisconnected else [])
       (te_range env (dom previous)))"

section \<open>stream and Watch\<close>

text \<open>The result: the events, the last snapshot, and whether the loop panicked.  The clock counts the snapshots.\<close>

function stream :: "tracker_env \<Rightarrow> instant \<Rightarrow> string \<Rightarrow> (string \<rightharpoonup> string) \<Rightarrow> DeviceEvent list \<times> (string \<rightharpoonup> string) \<times> bool" where
  "stream env now bytes previous =
     (case read_frame bytes of
        FramePanic \<Rightarrow> ([], previous, True)
      | FrameError _ \<Rightarrow> ([], previous, False)
      | Frame payload rest \<Rightarrow>
          (let current = parseDeviceSnapshot payload in
           case stream env (now + 1) rest current of (evs, last_seen, p) \<Rightarrow> (diff env now current previous @ evs, last_seen, p)))"
  by pat_completeness auto
termination
  by (relation "measure (\<lambda>(env, now, bytes, previous). length bytes)") (auto dest: read_frame_shorter)

declare stream.simps [simp del]

datatype connection = DialFails string | Dialed string

text \<open>\<^verbatim>\<open>openTrackConn\<close> on what the daemon sends: the command is written and four bytes of status are read.\<close>

definition track_command :: string where
  "track_command = ''0012host:track-devices''"

definition openTrackConn :: "connection \<Rightarrow> string + string" where
  "openTrackConn conn =
     (case conn of
        DialFails e \<Rightarrow> Inl (''adb: dial: '' @ e)
      | Dialed bytes \<Rightarrow>
          if length bytes < 4 then Inl ''adb: read status''
          else if take 4 bytes \<noteq> ''OKAY'' then Inl (''adb: track-devices rejected (status='' @ take 4 bytes @ '')'')
          else Inr (drop 4 bytes))"

text \<open>
  \<^verbatim>\<open>Watch\<close> over the connections it makes, up to the end of its context: the events, and how long it slept before
  each new attempt.  A panic ends it.  \<^verbatim>\<open>evictAll\<close> also empties the last snapshot, so every connection starts
  without one.
\<close>

fun Watch :: "TrackerConfig \<Rightarrow> tracker_env \<Rightarrow> instant \<Rightarrow> connection list \<Rightarrow> duration \<Rightarrow> DeviceEvent list \<times> duration list" where
  "Watch cfg env now [] backoff = ([], [])"
| "Watch cfg env now (conn # conns) backoff =
     (case openTrackConn conn of
        Inl e \<Rightarrow>
          (case Watch cfg env now conns (minDur (backoff * 2) (tc_BackoffMax cfg)) of (evs, ws) \<Rightarrow> (evs, backoff # ws))
      | Inr bytes \<Rightarrow>
          (case stream env now bytes Map.empty of
             (evs, previous, panicked) \<Rightarrow>
               if panicked then (evs, [])
               else (let later = now + int (length bytes) + 1 in
                     case Watch cfg env (later + 1) conns (minDur (tc_BackoffMin cfg * 2) (tc_BackoffMax cfg)) of
                       (evs', ws) \<Rightarrow> (evs @ evictAll env later previous @ evs', tc_BackoffMin cfg # ws))))"

section \<open>What the events say\<close>

text \<open>The devices that a listener takes to be connected after a sequence of events.\<close>

definition online_step :: "DeviceEvent \<Rightarrow> string set \<Rightarrow> string set" where
  "online_step e K =
     (if ev_Type e = EventConnected then insert (ev_Serial e) K
      else if ev_Type e = EventDisconnected then K - {ev_Serial e} else K)"

definition online :: "DeviceEvent list \<Rightarrow> string set \<Rightarrow> string set" where
  "online es K = fold online_step es K"

definition ranges :: "tracker_env \<Rightarrow> bool" where
  "ranges env \<longleftrightarrow> (\<forall>A. finite A \<longrightarrow> set (te_range env A) = A)"

definition never_full :: "tracker_env \<Rightarrow> bool" where
  "never_full env \<longleftrightarrow> (\<forall>now s. \<not> te_full env now s)"

lemma online_simps [simp]:
  "online [] K = K" "online (e # es) K = online es (online_step e K)" "online (es @ fs) K = online fs (online es K)"
  by (simp_all add: online_def)

lemma online_addition:
  "never_full env \<Longrightarrow> online (diff_addition env now current previous s) K =
     (if current s = Some ''device'' \<and> previous s \<noteq> Some ''device'' then insert s K else K)"
  by (auto simp: diff_addition_def emitConnected_def emitSimple_def never_full_def online_step_def event_defs split: option.splits)

lemma online_additions:
  "never_full env \<Longrightarrow> online (concat (map (diff_addition env now current previous) ss)) K =
     K \<union> {s \<in> set ss. current s = Some ''device'' \<and> previous s \<noteq> Some ''device''}"
  by (induction ss arbitrary: K) (auto simp: online_addition)

lemma online_removal:
  "never_full env \<Longrightarrow> online (diff_removal env now current s) K = (if current s = None then K - {s} else K)"
  by (auto simp: diff_removal_def emitSimple_def never_full_def online_step_def event_defs)

lemma online_removals:
  "never_full env \<Longrightarrow> online (concat (map (diff_removal env now current) ss)) K = K - {s \<in> set ss. current s = None}"
  by (induction ss arbitrary: K) (auto simp: online_removal)

lemma online_evict:
  assumes "never_full env"
  shows "online (concat (map (\<lambda>s. if previous s = Some ''device'' then emitSimple env now s EventDisconnected else []) ss)) K =
    K - {s \<in> set ss. previous s = Some ''device''}"
proof (induction ss arbitrary: K)
  case (Cons s ss)
  with assms show ?case by (auto simp: emitSimple_def never_full_def online_step_def event_defs)
qed simp

lemma online_diff:
  assumes "never_full env" "ranges env" "finite (dom current)" "finite (dom previous)"
  shows "online (diff env now current previous) K =
    (K \<union> {s. current s = Some ''device'' \<and> previous s \<noteq> Some ''device''}) - {s. previous s \<noteq> None \<and> current s = None}"
  using assms unfolding diff_def by (auto simp: online_additions online_removals ranges_def)

lemma finite_snapshot: "finite (dom (snapshot_lines lines))"
proof (induction lines)
  case (Cons line lines)
  have "finite (dom (\<lambda>s. case snapshot_lines lines s of None \<Rightarrow> if s = a then Some b else None | Some st \<Rightarrow> Some st))"
    for a :: string and b :: string
    by (rule finite_subset [of _ "insert a (dom (snapshot_lines lines))"]) (use Cons in \<open>auto split: option.splits if_splits\<close>)
  with Cons show ?case by (auto split: list.splits)
qed simp

definition follows :: "(string \<rightharpoonup> string) \<Rightarrow> string set \<Rightarrow> bool" where
  "follows snapshot K \<longleftrightarrow> {s. snapshot s = Some ''device''} \<subseteq> K \<and> K \<subseteq> dom snapshot"

lemma follows_diff:
  assumes "follows previous K" "never_full env" "ranges env" "finite (dom current)" "finite (dom previous)"
  shows "follows current (online (diff env now current previous) K)"
  using assms(1) unfolding online_diff [OF assms(2-5)] follows_def by (auto simp: dom_def)

lemma stream_follows:
  "stream env now bytes previous = (evs, seen, p) \<Longrightarrow> follows previous K \<Longrightarrow> finite (dom previous) \<Longrightarrow> never_full env \<Longrightarrow> ranges env \<Longrightarrow>
   follows seen (online evs K) \<and> finite (dom seen)"
proof (induction env now bytes previous arbitrary: evs K rule: stream.induct)
  case (1 env now bytes previous)
  show ?case
  proof (cases "read_frame bytes")
    case (Frame payload rest)
    let ?c = "parseDeviceSnapshot payload"
    obtain evs' where r: "stream env (now + 1) rest ?c = (evs', seen, p)" "evs = diff env now ?c previous @ evs'"
      using 1(2) Frame by (auto simp: stream.simps [of env now bytes] Let_def split: prod.splits)
    have fin: "finite (dom ?c)" by (simp add: parseDeviceSnapshot_def finite_snapshot)
    from 1(1) [OF Frame refl r(1) follows_diff [OF 1(3,5,6) fin 1(4)] fin 1(5,6)] r(2) show ?thesis by simp
  qed (use 1 in \<open>auto simp: stream.simps [of env now bytes]\<close>)
qed


text \<open>The snapshots of a connection.\<close>

function snapshots :: "string \<Rightarrow> (string \<rightharpoonup> string) list" where
  "snapshots bytes =
     (case read_frame bytes of Frame payload rest \<Rightarrow> parseDeviceSnapshot payload # snapshots rest | _ \<Rightarrow> [])"
  by pat_completeness auto
termination
  by (relation "measure length") (auto dest: read_frame_shorter)

declare snapshots.simps [simp del]

lemma diff_serials: "e \<in> set (diff env now current previous) \<Longrightarrow> ranges env \<Longrightarrow> finite (dom current) \<Longrightarrow> finite (dom previous) \<Longrightarrow>
    current (ev_Serial e) \<noteq> None \<or> previous (ev_Serial e) \<noteq> None"
proof -
  have add: "ev_Serial e = s \<and> current s \<noteq> None" if "e \<in> set (diff_addition env now current previous s)" for s
    using that by (cases "current s") (simp_all add: diff_addition_def emitConnected_def emitSimple_def split: if_splits)
  have remove: "ev_Serial e = s" if "e \<in> set (diff_removal env now current s)" for s
    using that by (auto simp: diff_removal_def emitSimple_def split: if_splits)
  assume "e \<in> set (diff env now current previous)" "ranges env" "finite (dom current)" "finite (dom previous)"
  then consider s where "s \<in> dom current" "e \<in> set (diff_addition env now current previous s)"
    | s where "s \<in> dom previous" "e \<in> set (diff_removal env now current s)"
    unfolding diff_def ranges_def by auto
  then show ?thesis by cases (use add remove in auto)
qed

lemma stream_serials:
  "stream env now bytes previous = (evs, seen, p) \<Longrightarrow> e \<in> set evs \<Longrightarrow> finite (dom previous) \<Longrightarrow> ranges env \<Longrightarrow>
   previous (ev_Serial e) \<noteq> None \<or> (\<exists>m \<in> set (snapshots bytes). m (ev_Serial e) \<noteq> None)"
proof (induction env now bytes previous arbitrary: evs rule: stream.induct)
  case (1 env now bytes previous)
  show ?case
  proof (cases "read_frame bytes")
    case (Frame payload rest)
    let ?c = "parseDeviceSnapshot payload"
    obtain evs' where r: "stream env (now + 1) rest ?c = (evs', seen, p)" "evs = diff env now ?c previous @ evs'"
      using 1(2) Frame by (auto simp: stream.simps [of env now bytes] Let_def split: prod.splits)
    have fin: "finite (dom ?c)" by (simp add: parseDeviceSnapshot_def finite_snapshot)
    have snaps: "snapshots bytes = ?c # snapshots rest" using Frame by (simp add: snapshots.simps [of bytes])
    from r(2) 1(3) consider "e \<in> set (diff env now ?c previous)" | "e \<in> set evs'" by auto
    then show ?thesis
    proof cases
      case 1
      with diff_serials [OF this \<open>ranges env\<close> fin \<open>finite (dom previous)\<close>] snaps show ?thesis by auto
    next
      case 2
      with 1(1) [OF Frame refl r(1) 2 fin \<open>ranges env\<close>] snaps show ?thesis by auto
    qed
  qed (use 1 in \<open>auto simp: stream.simps [of env now bytes]\<close>)
qed

lemma online_other: "s \<in> K \<Longrightarrow> (\<And>e. e \<in> set es \<Longrightarrow> ev_Serial e \<noteq> s) \<Longrightarrow> s \<in> online es K"
proof (induction es arbitrary: K)
  case (Cons e es)
  then have "ev_Serial e \<noteq> s" by simp
  with Cons.prems(1) have "s \<in> online_step e K" by (auto simp: online_step_def)
  with Cons show ?case by simp
qed simp

text \<open>
  When the connection to the daemon is lost, the devices that were ready are reported as gone.  A device that
  had been ready and was offline or unauthorized at that moment is not reported, and the tracker forgets it:
  whatever later connections say of other devices, the listener keeps this one.
\<close>

theorem eviction_misses_offline_devices:
  assumes first: "stream env now bytes Map.empty = (evs, seen, p)" and env: "never_full env" "ranges env"
    and later: "stream env now' bytes' Map.empty = (evs', seen', p')" "\<And>m. m \<in> set (snapshots bytes') \<Longrightarrow> m s = None"
    and s: "s \<in> online evs {}" "seen s \<noteq> Some ''device''"
  shows "online (evs @ evictAll env t seen) {} = {s \<in> online evs {}. seen s \<noteq> Some ''device''} \<and>
    s \<in> online (evs @ evictAll env t seen @ evs') {}"
proof
  have fin: "finite (dom seen)" using stream_follows [OF first _ _ env, of "{}"] by (simp add: follows_def)
  then have "set (te_range env (dom seen)) = dom seen" using env(2) by (simp add: ranges_def)
  then show gone: "online (evs @ evictAll env t seen) {} = {s \<in> online evs {}. seen s \<noteq> Some ''device''}"
    unfolding evictAll_def by (auto simp: online_evict [OF env(1)])
  have "ev_Serial e \<noteq> s" if "e \<in> set evs'" for e
    using stream_serials [OF later(1) that _ env(2)] later(2) by fastforce
  moreover have "s \<in> online (evs @ evictAll env t seen) {}" unfolding gone using s by simp
  ultimately show "s \<in> online (evs @ evictAll env t seen @ evs') {}" using online_other [of s _ evs'] by simp
qed

text \<open>One device becomes ready, goes offline, and the daemon is restarted without it.\<close>

definition ex_tracker :: tracker_env where
  "ex_tracker = \<lparr>te_fetch = (\<lambda>_ _. Inl ''timeout''), te_full = (\<lambda>_ _. False), te_range = (\<lambda>A. sorted_list_of_set A)\<rparr>"

definition ex_ready :: string where "ex_ready = ''A'' @ CHR 0x09 # ''device''"
definition ex_offline :: string where "ex_offline = ''A'' @ CHR 0x09 # ''offline''"
definition ex_rest :: string where "ex_rest = ''0009'' @ ex_offline"
definition ex_bytes :: string where "ex_bytes = ''0008'' @ ex_ready @ ex_rest"

lemma ex_tracker_ok: "never_full ex_tracker" "ranges ex_tracker"
  by (simp_all add: never_full_def ranges_def ex_tracker_def)

lemma ex_frames:
  "read_frame ex_bytes = Frame ex_ready ex_rest" "read_frame ex_rest = Frame ex_offline ''''"
  "read_frame '''' = FrameError ''read length prefix''" "read_frame ''0000'' = Frame '''' ''''"
  by code_simp+

lemma ex_snapshots:
  "parseDeviceSnapshot ex_ready = [''A'' \<mapsto> ''device'']" "parseDeviceSnapshot ex_offline = [''A'' \<mapsto> ''offline'']"
  "parseDeviceSnapshot '''' = Map.empty"
proof -
  have "strings_Split (strings_TrimSpace ex_ready) (CHR 0x0A) = [ex_ready]" "strings_Split (strings_TrimSpace ex_offline) (CHR 0x0A) = [ex_offline]"
    "strings_Split (strings_TrimSpace '''') (CHR 0x0A) = ['''']"
    "strings_Fields (strings_TrimSpace ex_ready) = [''A'', ''device'']" "strings_Fields (strings_TrimSpace ex_offline) = [''A'', ''offline'']"
    "strings_Fields (strings_TrimSpace '''') = []"
    by code_simp+
  then show "parseDeviceSnapshot ex_ready = [''A'' \<mapsto> ''device'']" "parseDeviceSnapshot ex_offline = [''A'' \<mapsto> ''offline'']"
    "parseDeviceSnapshot '''' = Map.empty" by (auto simp: parseDeviceSnapshot_def fun_eq_iff)
qed

lemma ex_stream:
  obtains evs where "stream ex_tracker 0 ex_bytes Map.empty = (evs, [''A'' \<mapsto> ''offline''], False)" "online evs {} = {''A''}"
proof
  let ?evs = "diff ex_tracker 0 [''A'' \<mapsto> ''device''] Map.empty @ diff ex_tracker 1 [''A'' \<mapsto> ''offline''] [''A'' \<mapsto> ''device'']"
  show "stream ex_tracker 0 ex_bytes Map.empty = (?evs, [''A'' \<mapsto> ''offline''], False)"
    by (simp add: stream.simps [of _ _ ex_bytes] stream.simps [of _ _ ex_rest] stream.simps [of _ _ "[]"]
        ex_frames ex_snapshots Let_def)
  show "online ?evs {} = {''A''}" by (auto simp: online_diff [OF ex_tracker_ok])
qed


theorem eviction_misses_offline_devices_witness:
  "\<exists>evs seen p. stream ex_tracker 0 ex_bytes Map.empty = (evs, seen, p) \<and>
     ''A'' \<in> online (evs @ evictAll ex_tracker 2 seen @ fst (stream ex_tracker 3 ''0000'' Map.empty)) {}"
proof -
  obtain evs where s: "stream ex_tracker 0 ex_bytes Map.empty = (evs, [''A'' \<mapsto> ''offline''], False)" "online evs {} = {''A''}"
    by (rule ex_stream)
  have snaps: "snapshots ''0000'' = [Map.empty]"
    by (simp add: snapshots.simps [of "''0000''"] snapshots.simps [of "''''"] ex_frames ex_snapshots)
  obtain evs' seen' p' where later: "stream ex_tracker 3 ''0000'' Map.empty = (evs', seen', p')" by (rule prod_cases3)
  have "''A'' \<in> online (evs @ evictAll ex_tracker 2 [''A'' \<mapsto> ''offline''] @ evs') {}"
    by (rule conjunct2 [OF eviction_misses_offline_devices [OF s(1) ex_tracker_ok later]]) (simp_all add: s(2) snaps)
  with s(1) later show ?thesis by (metis fst_conv)
qed

end
