(* ===== verification/IOS_Discovery.thy ===== *)
theory IOS_Discovery
  imports Adb_Tracker
begin

text \<open>
  \<^verbatim>\<open>src/internal/goios\<close>: the client of the go-ios library and command, the reading of its output, the properties of an iOS
  device, its applications, and the tracker of the devices that usbmuxd reports.  The library, the command and
  \<^verbatim>\<open>json.Marshal\<close> are parameters; \<open>parse\<close> is the value a text denotes as JSON, if it is JSON.
\<close>

section \<open>client.go\<close>

datatype cli_result = ExitError string string | RunError string | Output string

type_synonym 's cli = "string list \<Rightarrow> 's \<Rightarrow> cli_result \<times> 's"

definition cli_execute :: "'s cli \<Rightarrow> string list \<Rightarrow> 's \<Rightarrow> (string + string) \<times> 's" where
  "cli_execute cli args s =
     (case cli args s of
        (ExitError e stderr, s) \<Rightarrow> (Inl (''goios CLI command failed: '' @ e @ '' (stderr: '' @ stderr @ '')''), s)
      | (RunError e, s) \<Rightarrow> (Inl (''goios CLI run failed: '' @ e), s)
      | (Output out, s) \<Rightarrow> (Inr out, s))"

definition cli_Run :: "'s cli \<Rightarrow> string \<Rightarrow> string list \<Rightarrow> 's \<Rightarrow> (string + string) \<times> 's" where
  "cli_Run cli udid args = cli_execute cli ((''--udid='' @ udid) # args)"

record IOSDeviceEntry =
  ie_UDID :: string
  ie_DeviceName :: string
  ie_ProductType :: string
  ie_ProductVersion :: string

text \<open>The values of a device, as fields and as JSON; a device is its serial number.\<close>

record lockdown_values =
  lv_DeviceName :: string
  lv_ProductType :: string
  lv_ProductVersion :: string
  lv_json :: json

record 's ios_lib =
  il_ListDevices :: "'s \<Rightarrow> (string + string list) \<times> 's"
  il_GetDevice :: "string \<Rightarrow> 's \<Rightarrow> string option \<times> 's"
  il_GetValues :: "string \<Rightarrow> 's \<Rightarrow> (string + lockdown_values) \<times> 's"
  il_Connect :: "string \<Rightarrow> 's \<Rightarrow> string option \<times> 's"
  il_DomainValue :: "string \<Rightarrow> string \<Rightarrow> 's \<Rightarrow> (string + json) \<times> 's"
  il_Marshal :: "json \<Rightarrow> string + string"
  il_cli :: "'s cli"

definition entry_json :: "IOSDeviceEntry \<Rightarrow> json" where
  "entry_json e = JObject [(''udid'', JString (ie_UDID e)), (''name'', JString (ie_DeviceName e)),
     (''type'', JString (ie_ProductType e)), (''version'', JString (ie_ProductVersion e))]"

fun list_entries :: "'s ios_lib \<Rightarrow> string list \<Rightarrow> 's \<Rightarrow> IOSDeviceEntry list \<times> 's" where
  "list_entries lib [] s = ([], s)"
| "list_entries lib (dev # devs) s =
     (case il_GetValues lib dev s of (values, s) \<Rightarrow>
        (let entry = (case values of
               Inl _ \<Rightarrow> \<lparr>ie_UDID = dev, ie_DeviceName = '''', ie_ProductType = '''', ie_ProductVersion = ''''\<rparr>
             | Inr v \<Rightarrow> \<lparr>ie_UDID = dev, ie_DeviceName = lv_DeviceName v, ie_ProductType = lv_ProductType v,
                 ie_ProductVersion = lv_ProductVersion v\<rparr>)
         in case list_entries lib devs s of (es, s) \<Rightarrow> (entry # es, s)))"

text \<open>Without a device the slice is \<^verbatim>\<open>nil\<close>, which is written as \<^verbatim>\<open>null\<close>.\<close>

definition RunNoUDID :: "'s ios_lib \<Rightarrow> string list \<Rightarrow> 's \<Rightarrow> (string + string) \<times> 's" where
  "RunNoUDID lib args s =
     (if args \<noteq> [] \<and> hd args = ''list'' then
        (case il_ListDevices lib s of
           (Inl e, s) \<Rightarrow> (Inl (''library list devices failed: '' @ e), s)
         | (Inr devs, s) \<Rightarrow>
             (case list_entries lib devs s of (es, s) \<Rightarrow>
                (il_Marshal lib (if es = [] then JNull else JArray (map entry_json es)), s)))
      else cli_execute (il_cli lib) args s)"

definition domain_value :: "'s ios_lib \<Rightarrow> string \<Rightarrow> string \<Rightarrow> string \<Rightarrow> 's \<Rightarrow> (string + string) \<times> 's" where
  "domain_value lib what domain udid s =
     (case il_GetDevice lib udid s of
        (Some e, s) \<Rightarrow> (Inl (''library get device failed: '' @ e), s)
      | (None, s) \<Rightarrow>
          (case il_Connect lib udid s of
             (Some e, s) \<Rightarrow> (Inl (''library connect lockdown failed: '' @ e), s)
           | (None, s) \<Rightarrow>
               (case il_DomainValue lib udid domain s of
                  (Inl e, s) \<Rightarrow> (Inl (''library get '' @ what @ '' value failed: '' @ e), s)
                | (Inr v, s) \<Rightarrow> (il_Marshal lib v, s))))"

definition lib_Run :: "'s ios_lib \<Rightarrow> string \<Rightarrow> string list \<Rightarrow> 's \<Rightarrow> (string + string) \<times> 's" where
  "lib_Run lib udid args s =
     (if args \<noteq> [] \<and> hd args = ''info'' then
        (case il_GetDevice lib udid s of
           (Some e, s) \<Rightarrow> (Inl (''library get device failed: '' @ e), s)
         | (None, s) \<Rightarrow>
             if 1 < length args \<and> args ! 1 = ''display'' then cli_Run (il_cli lib) udid args s
             else (case il_GetValues lib udid s of
                     (Inl e, s) \<Rightarrow> (Inl (''library get values failed: '' @ e), s)
                   | (Inr v, s) \<Rightarrow> (il_Marshal lib (lv_json v), s)))
      else if args \<noteq> [] \<and> hd args = ''diskspace'' then domain_value lib ''diskspace'' ''com.apple.disk_usage'' udid s
      else if args \<noteq> [] \<and> hd args = ''batterycheck'' then domain_value lib ''battery'' ''com.apple.mobile.battery'' udid s
      else cli_Run (il_cli lib) udid args s)"

section \<open>parsers.go\<close>

definition dec_entry :: "IOSDeviceEntry decoder" where
  "dec_entry old v =
     (case (field ''udid'' dec_string (ie_UDID old) v, field ''name'' dec_string (ie_DeviceName old) v,
            field ''type'' dec_string (ie_ProductType old) v, field ''version'' dec_string (ie_ProductVersion old) v) of
        (Some u, Some n, Some t, Some w) \<Rightarrow> Some \<lparr>ie_UDID = u, ie_DeviceName = n, ie_ProductType = t, ie_ProductVersion = w\<rparr>
      | _ \<Rightarrow> None)"

definition no_entry :: IOSDeviceEntry where
  "no_entry = \<lparr>ie_UDID = '''', ie_DeviceName = '''', ie_ProductType = '''', ie_ProductVersion = ''''\<rparr>"

definition toEntries :: "string list \<Rightarrow> IOSDeviceEntry list" where
  "toEntries udids = map (\<lambda>u. no_entry\<lparr>ie_UDID := u\<rparr>) udids"

definition nil_list :: "'a list option \<Rightarrow> 'a list" where
  "nil_list v = (case v of None \<Rightarrow> [] | Some xs \<Rightarrow> xs)"

text \<open>The five shapes that \<^verbatim>\<open>parseIOSList\<close> tries on a value, in their order.\<close>

definition as_array :: "json \<Rightarrow> IOSDeviceEntry list option" where
  "as_array v =
     (case dec_slice no_entry dec_entry None v of
        Some es \<Rightarrow> Some (nil_list es)
      | None \<Rightarrow> map_option (\<lambda>us. toEntries (nil_list us)) (dec_slice '''' dec_string None v))"

definition as_single :: "json \<Rightarrow> IOSDeviceEntry list option" where
  "as_single v = (case dec_entry no_entry v of Some e \<Rightarrow> if ie_UDID e \<noteq> '''' then Some [e] else None | None \<Rightarrow> None)"

definition list_shapes :: "json \<Rightarrow> IOSDeviceEntry list option" where
  "list_shapes v =
     (case field ''deviceList'' (dec_slice no_entry dec_entry) None v of
        Some (Some es) \<Rightarrow> Some es
      | _ \<Rightarrow>
          (case field ''deviceList'' (dec_slice '''' dec_string) None v of
             Some (Some us) \<Rightarrow> Some (toEntries us)
           | _ \<Rightarrow> (case as_array v of Some es \<Rightarrow> Some es | None \<Rightarrow> as_single v)))"

type_synonym json_parse = "string \<Rightarrow> json option"

definition parsed :: "json_parse \<Rightarrow> (json \<Rightarrow> 'a option) \<Rightarrow> string \<Rightarrow> 'a option" where
  "parsed parse f s = (case parse s of None \<Rightarrow> None | Some v \<Rightarrow> f v)"

fun first_line :: "(string \<Rightarrow> 'a option) \<Rightarrow> string list \<Rightarrow> 'a option" where
  "first_line f [] = None"
| "first_line f (l # ls) =
     (let l = strings_TrimSpace l in
      if l = '''' then first_line f ls else (case f l of Some x \<Rightarrow> Some x | None \<Rightarrow> first_line f ls))"

text \<open>\<^verbatim>\<open>outputStr[idx:]\<close> for the first occurrence of a character.\<close>

definition from_char :: "char \<Rightarrow> (string \<Rightarrow> 'a option) \<Rightarrow> string \<Rightarrow> 'a option" where
  "from_char c f out = (let rest = dropWhile (\<lambda>x. x \<noteq> c) out in if rest = [] then None else f rest)"

fun or_else :: "'a option \<Rightarrow> 'a option \<Rightarrow> 'a option" where
  "or_else (Some x) _ = Some x"
| "or_else None y = y"

definition parseIOSList :: "json_parse \<Rightarrow> string \<Rightarrow> string + IOSDeviceEntry list" where
  "parseIOSList parse out =
     (case or_else (parsed parse list_shapes out)
           (or_else (first_line (parsed parse list_shapes) (strings_Split out (CHR 0x0A)))
           (or_else (from_char (CHR ''['') (parsed parse as_array) out)
                    (from_char (CHR ''{'') (parsed parse as_single) out))) of
        Some es \<Rightarrow> Inr es
      | None \<Rightarrow> Inl ''failed to parse ios list: invalid output format'')"

text \<open>A value in a \<^verbatim>\<open>map[string]interface{}\<close>; \<^term>\<open>None\<close> inside is the map \<^verbatim>\<open>nil\<close>.\<close>

fun dec_map :: "json \<Rightarrow> (string \<rightharpoonup> json) option option" where
  "dec_map (JObject kvs) = Some (Some (map_of (rev kvs)))"
| "dec_map JNull = Some None"
| "dec_map _ = None"

definition is_log :: "(string \<rightharpoonup> json) option \<Rightarrow> bool" where
  "is_log m = (case m of None \<Rightarrow> False | Some m \<Rightarrow> m ''level'' \<noteq> None \<and> m ''msg'' \<noteq> None)"

text \<open>The first line with a map that is not a log line, and the last log line before it.\<close>

fun map_line :: "json_parse \<Rightarrow> string list \<Rightarrow> (string \<rightharpoonup> json) option \<Rightarrow> (string \<rightharpoonup> json) option option \<times> (string \<rightharpoonup> json) option" where
  "map_line parse [] logMap = (None, logMap)"
| "map_line parse (l # ls) logMap =
     (let l = strings_TrimSpace l in
      if l = '''' then map_line parse ls logMap
      else (case parsed parse dec_map l of
              None \<Rightarrow> map_line parse ls logMap
            | Some m \<Rightarrow> if is_log m then map_line parse ls m else (Some m, logMap)))"

definition parseJSONMap :: "json_parse \<Rightarrow> string \<Rightarrow> string + (string \<rightharpoonup> json) option" where
  "parseJSONMap parse out =
     (case parsed parse dec_map out of
        Some m \<Rightarrow> Inr m
      | None \<Rightarrow>
          (case map_line parse (strings_Split out (CHR 0x0A)) None of
             (Some m, _) \<Rightarrow> Inr m
           | (None, Some logMap) \<Rightarrow> Inr (Some logMap)
           | (None, None) \<Rightarrow>
               (case from_char (CHR ''{'') (parsed parse dec_map) out of
                  Some m \<Rightarrow> Inr m
                | None \<Rightarrow> Inl ''failed to parse JSON map'')))"

record IOSAppInfo =
  ia_BundleID :: string
  ia_DisplayName :: string

definition dec_app :: "IOSAppInfo decoder" where
  "dec_app old v =
     (case (field ''CFBundleIdentifier'' dec_string (ia_BundleID old) v, field ''CFBundleDisplayName'' dec_string (ia_DisplayName old) v) of
        (Some b, Some n) \<Rightarrow> Some \<lparr>ia_BundleID = b, ia_DisplayName = n\<rparr>
      | _ \<Rightarrow> None)"

datatype app_list = Apps "IOSAppInfo list option" | AppMap "(string \<rightharpoonup> json) option"

definition as_apps :: "json \<Rightarrow> app_list option" where
  "as_apps v = map_option Apps (dec_slice \<lparr>ia_BundleID = '''', ia_DisplayName = ''''\<rparr> dec_app None v)"

definition as_app_map :: "json \<Rightarrow> app_list option" where
  "as_app_map v = map_option AppMap (dec_map v)"

definition line_apps :: "json \<Rightarrow> app_list option" where
  "line_apps v =
     or_else (as_apps v) (case dec_map v of Some m \<Rightarrow> if is_log m then None else Some (AppMap m) | None \<Rightarrow> None)"

definition parseIOSAppList :: "json_parse \<Rightarrow> string \<Rightarrow> string + app_list" where
  "parseIOSAppList parse out =
     (case or_else (parsed parse (\<lambda>v. or_else (as_apps v) (as_app_map v)) out)
           (or_else (first_line (parsed parse line_apps) (strings_Split out (CHR 0x0A)))
           (or_else (from_char (CHR ''['') (parsed parse as_apps) out)
                    (from_char (CHR ''{'') (parsed parse as_app_map) out))) of
        Some apps \<Rightarrow> Inr apps
      | None \<Rightarrow> Inl ''failed to parse apps list'')"

section \<open>device.go\<close>

definition productTypeMap :: "(string \<times> string) list" where
  "productTypeMap =
     [(''iPhone10,1'', ''iPhone 8''), (''iPhone10,4'', ''iPhone 8''), (''iPhone10,2'', ''iPhone 8 Plus''),
      (''iPhone10,5'', ''iPhone 8 Plus''), (''iPhone10,3'', ''iPhone X''), (''iPhone10,6'', ''iPhone X''),
      (''iPhone11,2'', ''iPhone XS''), (''iPhone11,4'', ''iPhone XS Max''), (''iPhone11,6'', ''iPhone XS Max''),
      (''iPhone11,8'', ''iPhone XR''), (''iPhone12,1'', ''iPhone 11''), (''iPhone12,3'', ''iPhone 11 Pro''),
      (''iPhone12,5'', ''iPhone 11 Pro Max''), (''iPhone12,8'', ''iPhone SE (2nd Gen)''),
      (''iPhone13,1'', ''iPhone 12 mini''), (''iPhone13,2'', ''iPhone 12''), (''iPhone13,3'', ''iPhone 12 Pro''),
      (''iPhone13,4'', ''iPhone 12 Pro Max''), (''iPhone14,4'', ''iPhone 13 mini''), (''iPhone14,5'', ''iPhone 13''),
      (''iPhone14,2'', ''iPhone 13 Pro''), (''iPhone14,3'', ''iPhone 13 Pro Max''),
      (''iPhone14,6'', ''iPhone SE (3rd Gen)''), (''iPhone14,7'', ''iPhone 14''), (''iPhone14,8'', ''iPhone 14 Plus''),
      (''iPhone15,2'', ''iPhone 14 Pro''), (''iPhone15,3'', ''iPhone 14 Pro Max''), (''iPhone15,4'', ''iPhone 15''),
      (''iPhone15,5'', ''iPhone 15 Plus''), (''iPhone16,1'', ''iPhone 15 Pro''), (''iPhone16,2'', ''iPhone 15 Pro Max''),
      (''iPhone17,1'', ''iPhone 16''), (''iPhone17,2'', ''iPhone 16 Plus''), (''iPhone17,3'', ''iPhone 16 Pro''),
      (''iPhone17,4'', ''iPhone 16 Pro Max''), (''iPhone18,1'', ''iPhone 17''), (''iPhone18,2'', ''iPhone 17 Plus''),
      (''iPhone18,3'', ''iPhone 17 Pro''), (''iPhone18,4'', ''iPhone 17 Pro Max'')]"

definition productTypeRAMMap :: "(string \<times> int) list" where
  "productTypeRAMMap =
     [(''iPhone10,1'', 2048), (''iPhone10,4'', 2048), (''iPhone10,2'', 3072), (''iPhone10,5'', 3072),
      (''iPhone10,3'', 3072), (''iPhone10,6'', 3072), (''iPhone11,2'', 4096), (''iPhone11,4'', 4096),
      (''iPhone11,6'', 4096), (''iPhone11,8'', 3072), (''iPhone12,1'', 4096), (''iPhone12,3'', 4096),
      (''iPhone12,5'', 4096), (''iPhone12,8'', 3072), (''iPhone13,1'', 4096), (''iPhone13,2'', 4096),
      (''iPhone13,3'', 6144), (''iPhone13,4'', 6144), (''iPhone14,4'', 4096), (''iPhone14,5'', 4096),
      (''iPhone14,2'', 6144), (''iPhone14,3'', 6144), (''iPhone14,6'', 4096), (''iPhone14,7'', 6144),
      (''iPhone14,8'', 6144), (''iPhone15,2'', 6144), (''iPhone15,3'', 6144), (''iPhone15,4'', 6144),
      (''iPhone15,5'', 6144), (''iPhone16,1'', 8192), (''iPhone16,2'', 8192), (''iPhone17,1'', 8192),
      (''iPhone17,2'', 8192), (''iPhone17,3'', 8192), (''iPhone17,4'', 8192)]"

definition resolveRAM :: "string \<Rightarrow> int" where
  "resolveRAM productType = (case map_of productTypeRAMMap productType of Some ram \<Rightarrow> ram | None \<Rightarrow> 0)"

definition resolveModelName :: "string \<Rightarrow> string" where
  "resolveModelName productType = (case map_of productTypeMap productType of Some name \<Rightarrow> name | None \<Rightarrow> productType)"

text \<open>Fields that the literals of the code leave out are zero.\<close>

definition ios_device :: "instant \<Rightarrow> string \<Rightarrow> DisplayInfo \<Rightarrow> string \<Rightarrow> string \<Rightarrow> int \<Rightarrow> int \<Rightarrow> int \<Rightarrow> Device" where
  "ios_device now serial disp model version ram storage battery =
     \<lparr>dev_Serial = serial, dev_Platform = ''ios'', dev_ProviderIP = ''127.0.0.1'',
      dev_Info = \<lparr>info_Model = model, info_MarketName = '''', info_Manufacturer = ''Apple'', info_AndroidVersion = version,
        info_SDKVersion = 0, info_CPUABI = '''', info_RAMMB = ram, info_StorageMB = storage\<rparr>,
      dev_Display = disp,
      dev_State = \<lparr>tel_Status = '''', tel_Battery = \<lparr>bat_Level = battery, bat_IsCharging = False, bat_Health = ''''\<rparr>,
        tel_Network = \<lparr>net_Connected = False, net_WiFiSSID = '''', net_IP = '''', net_MobileData = False, net_Airplane = False\<rparr>,
        tel_FileSystem = \<lparr>fs_Root = '''', fs_Files = None\<rparr>, tel_InstalledBrowsers = None\<rparr>,
      dev_ConnectedAt = now, dev_LastSeen = now\<rparr>"

definition zero_display :: DisplayInfo where
  "zero_display = \<lparr>disp_Density = 0, disp_Fps = 0, disp_Height = 0, disp_Rotation = 0, disp_Size = 0, disp_Width = 0, disp_XDPI = 0, disp_YDPI = 0\<rparr>"

definition entry_device :: "instant \<Rightarrow> IOSDeviceEntry \<Rightarrow> Device" where
  "entry_device now e = ios_device now (ie_UDID e) zero_display (resolveModelName (ie_ProductType e)) (ie_ProductVersion e)
     (resolveRAM (ie_ProductType e)) 0 0"

definition Discover :: "json_parse \<Rightarrow> 's ios_lib \<Rightarrow> instant \<Rightarrow> 's \<Rightarrow> (string + Device list) \<times> 's" where
  "Discover parse lib now s =
     (case RunNoUDID lib [''list''] s of
        (Inl e, s) \<Rightarrow> (Inl (''goios discover: '' @ e), s)
      | (Inr out, s) \<Rightarrow>
          (case parseIOSList parse out of
             Inl e \<Rightarrow> (Inl (''failed to parse ios list array: '' @ e), s)
           | Inr es \<Rightarrow> (Inr (map (entry_device now) es), s)))"

text \<open>
  The numbers of a map are \<^verbatim>\<open>float64\<close>: \<open>num\<close> reads the literal, and the conversion to an integer drops what stands behind
  the point.
\<close>

definition int_of_float :: "real \<Rightarrow> int" where
  "int_of_float x = (if x < 0 then \<lceil>x\<rceil> else \<lfloor>x\<rfloor>)"

definition get_int :: "(string \<Rightarrow> real) \<Rightarrow> (string \<rightharpoonup> json) option \<Rightarrow> string \<Rightarrow> int option" where
  "get_int num m key =
     (case m of
        None \<Rightarrow> None
      | Some m \<Rightarrow> (case m key of Some (JNumber lit) \<Rightarrow> Some (int_of_float (num lit)) | _ \<Rightarrow> None))"

definition getString :: "(string \<rightharpoonup> json) option \<Rightarrow> string \<Rightarrow> string" where
  "getString m key = (case m of None \<Rightarrow> '''' | Some m \<Rightarrow> (case m key of Some (JString s) \<Rightarrow> s | _ \<Rightarrow> ''''))"

text \<open>A number that a command prints; an error of the command, of the parser or a missing key leaves it out.\<close>

definition number_of :: "json_parse \<Rightarrow> (string \<Rightarrow> real) \<Rightarrow> string + string \<Rightarrow> string \<Rightarrow> int option" where
  "number_of parse num out key =
     (case out of
        Inl _ \<Rightarrow> None
      | Inr out \<Rightarrow> (case parseJSONMap parse out of Inl _ \<Rightarrow> None | Inr m \<Rightarrow> get_int num m key))"

definition or_zero :: "int option \<Rightarrow> int" where
  "or_zero v = (case v of None \<Rightarrow> 0 | Some n \<Rightarrow> n)"

definition display_of :: "json_parse \<Rightarrow> (string \<Rightarrow> real) \<Rightarrow> string + string \<Rightarrow> DisplayInfo" where
  "display_of parse num out =
     (let w = or_zero (number_of parse num out ''width''); h = or_zero (number_of parse num out ''height'')
      in if w = 0 then zero_display\<lparr>disp_Width := 1170, disp_Height := 2532, disp_Fps := 60\<rparr>
         else zero_display\<lparr>disp_Width := w, disp_Height := h\<rparr>)"

definition megabytes :: "int \<Rightarrow> int" where
  "megabytes b = (if b < 0 then - (- b div 1024 div 1024) else b div 1024 div 1024)"

definition GetProperties :: "json_parse \<Rightarrow> (string \<Rightarrow> real) \<Rightarrow> 's ios_lib \<Rightarrow> instant \<Rightarrow> string \<Rightarrow> 's \<Rightarrow> (string + Device) \<times> 's" where
  "GetProperties parse num lib now serial s =
     (case lib_Run lib serial [''info''] s of
        (Inl e, s) \<Rightarrow> (Inl (''goios get info for '' @ serial @ '': '' @ e), s)
      | (Inr out, s) \<Rightarrow>
          (let infoMap = (case parseJSONMap parse out of Inl _ \<Rightarrow> None | Inr m \<Rightarrow> m);
               (displayOut, s) = lib_Run lib serial [''info'', ''display''] s;
               (diskOut, s) = lib_Run lib serial [''diskspace''] s;
               (batteryOut, s) = lib_Run lib serial [''batterycheck''] s;
               productType = getString infoMap ''ProductType''
           in (Inr (ios_device now serial (display_of parse num displayOut) (resolveModelName productType)
                 (getString infoMap ''ProductVersion'') (resolveRAM productType)
                 (megabytes (or_zero (number_of parse num diskOut ''TotalBytes'')))
                 (or_zero (number_of parse num batteryOut ''BatteryCurrentCapacity''))), s)))"

section \<open>launch.go and install.go\<close>

definition app_command :: "'s ios_lib \<Rightarrow> string \<Rightarrow> string \<Rightarrow> string list \<Rightarrow> 's \<Rightarrow> string option \<times> 's" where
  "app_command lib what serial args s =
     (case lib_Run lib serial args s of
        (Inl e, s) \<Rightarrow> (Some (''goios '' @ what @ '' failed: '' @ e), s)
      | (Inr _, s) \<Rightarrow> (None, s))"

definition Launch :: "'s ios_lib \<Rightarrow> string \<Rightarrow> string \<Rightarrow> 's \<Rightarrow> string option \<times> 's" where
  "Launch lib serial appID = app_command lib ''launch'' serial [''launch'', appID]"

definition Stop :: "'s ios_lib \<Rightarrow> string \<Rightarrow> string \<Rightarrow> 's \<Rightarrow> string option \<times> 's" where
  "Stop lib serial appID = app_command lib ''kill'' serial [''kill'', appID]"

definition Install :: "'s ios_lib \<Rightarrow> string \<Rightarrow> string \<Rightarrow> 's \<Rightarrow> string option \<times> 's" where
  "Install lib serial appPath = app_command lib ''install'' serial [''install'', ''--path='' @ appPath]"

definition Uninstall :: "'s ios_lib \<Rightarrow> string \<Rightarrow> string \<Rightarrow> 's \<Rightarrow> string option \<times> 's" where
  "Uninstall lib serial appID = app_command lib ''uninstall'' serial [''uninstall'', appID]"

text \<open>\<open>order\<close> is the order in which Go goes over the keys of a map.\<close>

definition List_apps :: "json_parse \<Rightarrow> (string set \<Rightarrow> string list) \<Rightarrow> 's ios_lib \<Rightarrow> string \<Rightarrow> 's \<Rightarrow> (string + string list) \<times> 's" where
  "List_apps parse order lib serial s =
     (case lib_Run lib serial [''apps''] s of
        (Inl e, s) \<Rightarrow> (Inl (''goios list apps failed: '' @ e), s)
      | (Inr out, s) \<Rightarrow>
          (case parseIOSAppList parse out of
             Inl e \<Rightarrow> (Inl (''goios list apps parse failed: '' @ e), s)
           | Inr (Apps (Some apps)) \<Rightarrow> (Inr (filter (\<lambda>b. b \<noteq> '''') (map ia_BundleID apps)), s)
           | Inr (AppMap (Some m)) \<Rightarrow> (Inr (order (dom m)), s)
           | Inr _ \<Rightarrow> (Inr [], s)))"

section \<open>tracker.go\<close>

text \<open>
  What the listener yields: devices attached and detached by their serial, other messages, up to its error.  Sending on
  the channel waits, so no event is lost.  The connections are taken up to the end of the context.
\<close>

datatype usb_msg = Attached string | Detached string | OtherMsg string

definition basic_device :: "instant \<Rightarrow> string \<Rightarrow> Device" where
  "basic_device now serial =
     (let d = ios_device now serial zero_display '''' '''' 0 0 0 in d\<lparr>dev_Info := (dev_Info d)\<lparr>info_Manufacturer := ''''\<rparr>\<rparr>)"

definition simple_event :: "instant \<Rightarrow> string \<Rightarrow> EventType \<Rightarrow> Device option \<Rightarrow> DeviceEvent" where
  "simple_event now serial evtType d = \<lparr>ev_Serial = serial, ev_Type = evtType, ev_Device = d, ev_Timestamp = now\<rparr>"

definition usb_step :: "(instant \<Rightarrow> string \<Rightarrow> string + Device) \<Rightarrow> instant \<Rightarrow> usb_msg \<Rightarrow> (string \<rightharpoonup> Device) \<Rightarrow>
    DeviceEvent list \<times> (string \<rightharpoonup> Device)" where
  "usb_step fetch now msg conn =
     (case msg of
        Attached serial \<Rightarrow>
          if serial = '''' \<or> conn serial \<noteq> None then ([], conn)
          else (let d = (case fetch now serial of Inl _ \<Rightarrow> basic_device now serial | Inr d \<Rightarrow> d)
                in ([simple_event now serial EventConnected (Some d)], conn(serial \<mapsto> d)))
      | Detached serial \<Rightarrow>
          if serial = '''' \<or> conn serial = None then ([], conn)
          else ([simple_event now serial EventDisconnected None], conn(serial := None))
      | OtherMsg _ \<Rightarrow> ([], conn))"

fun ios_stream :: "(instant \<Rightarrow> string \<Rightarrow> string + Device) \<Rightarrow> instant \<Rightarrow> usb_msg list \<Rightarrow> (string \<rightharpoonup> Device) \<Rightarrow>
    DeviceEvent list \<times> (string \<rightharpoonup> Device)" where
  "ios_stream fetch now [] conn = ([], conn)"
| "ios_stream fetch now (msg # msgs) conn =
     (case usb_step fetch now msg conn of
        (evs, conn) \<Rightarrow> (case ios_stream fetch (now + 1) msgs conn of (evs', conn) \<Rightarrow> (evs @ evs', conn)))"

definition ios_evictAll :: "(string set \<Rightarrow> string list) \<Rightarrow> instant \<Rightarrow> (string \<rightharpoonup> Device) \<Rightarrow> DeviceEvent list" where
  "ios_evictAll order now conn = map (\<lambda>serial. simple_event now serial EventDisconnected None) (order (dom conn))"

fun ios_Watch :: "(instant \<Rightarrow> string \<Rightarrow> string + Device) \<Rightarrow> (string set \<Rightarrow> string list) \<Rightarrow> instant \<Rightarrow> (string + usb_msg list) list \<Rightarrow>
    duration \<Rightarrow> DeviceEvent list \<times> duration list" where
  "ios_Watch fetch order now [] backoff = ([], [])"
| "ios_Watch fetch order now (Inl e # conns) backoff =
     (case ios_Watch fetch order now conns (minDur (backoff * 2) 30000000000) of (evs, ws) \<Rightarrow> (evs, backoff # ws))"
| "ios_Watch fetch order now (Inr msgs # conns) backoff =
     (case ios_stream fetch now msgs Map.empty of
        (evs, conn) \<Rightarrow>
          (let later = now + int (length msgs) in
           case ios_Watch fetch order (later + 1) conns (minDur (1000000000 * 2) 30000000000) of
             (evs', ws) \<Rightarrow> (evs @ ios_evictAll order later conn @ evs', 1000000000 # ws)))"

section \<open>Which devices the tracker reports\<close>

text \<open>What a listener needs of an event that reports a device as connected: the device, under its own serial.\<close>

definition carries_device :: "DeviceEvent \<Rightarrow> bool" where
  "carries_device e \<longleftrightarrow> (ev_Type e = EventConnected \<longrightarrow> (\<exists>d. ev_Device e = Some d \<and> dev_Serial d = ev_Serial e))"

lemma usb_step_online:
  assumes "usb_step fetch now msg conn = (evs, conn')"
  shows "online evs (dom conn) = dom conn' \<and> (finite (dom conn) \<longrightarrow> finite (dom conn'))"
  using assms by (auto simp: usb_step_def simple_event_def online_step_def event_defs Let_def split: usb_msg.splits if_splits)

lemma ios_stream_online:
  "ios_stream fetch now msgs conn = (evs, conn') \<Longrightarrow> finite (dom conn) \<Longrightarrow> online evs (dom conn) = dom conn' \<and> finite (dom conn')"
proof (induction msgs arbitrary: now conn evs)
  case (Cons msg msgs)
  from Cons.prems(1) obtain es c fs where step: "usb_step fetch now msg conn = (es, c)"
    and rest: "ios_stream fetch (now + 1) msgs c = (fs, conn')" "evs = es @ fs"
    by (auto split: prod.splits)
  from usb_step_online [OF step] Cons.prems(2) Cons.IH [OF rest(1)] rest(2) show ?case by simp
qed simp

lemma online_evicted: "online (map (\<lambda>serial. simple_event now serial EventDisconnected None) ss) K = K - set ss"
  by (induction ss arbitrary: K) (auto simp: simple_event_def online_step_def event_defs)

lemma ios_stream_evicted:
  assumes "ios_stream fetch now msgs Map.empty = (evs, conn)" "\<And>A. finite A \<Longrightarrow> set (order A) = A"
  shows "online (evs @ ios_evictAll order later conn) {} = {}"
  using ios_stream_online [OF assms(1)] assms(2) [of "dom conn"] by (simp add: ios_evictAll_def online_evicted)

lemma ios_Watch_evicts:
  assumes "\<And>A. finite A \<Longrightarrow> set (order A) = A"
  shows "online (fst (ios_Watch fetch order now conns backoff)) {} = {}"
proof (induction conns arbitrary: now backoff)
  case (Cons c conns)
  show ?case
  proof (cases c)
    case (Inr msgs)
    obtain evs conn where s: "ios_stream fetch now msgs Map.empty = (evs, conn)" by fastforce
    with ios_stream_evicted [OF s assms] Cons Inr show ?thesis by (simp add: Let_def case_prod_beta)
  qed (simp add: Cons case_prod_beta)
qed simp

lemma fetched_serial: "fst (GetProperties parse num lib now serial s) = Inr d \<Longrightarrow> dev_Serial d = serial"
  by (auto simp: GetProperties_def ios_device_def Let_def split: prod.splits sum.splits)

lemma usb_step_carries:
  assumes "usb_step fetch now msg conn = (evs, conn')" "\<And>now serial d. fetch now serial = Inr d \<Longrightarrow> dev_Serial d = serial"
  shows "list_all carries_device evs"
  using assms by (auto simp: usb_step_def simple_event_def carries_device_def basic_device_def ios_device_def event_defs Let_def
    split: usb_msg.splits if_splits sum.splits)

lemma ios_stream_carries:
  "ios_stream (\<lambda>now serial. fst (GetProperties parse num lib now serial (st now))) now msgs conn = (evs, conn') \<Longrightarrow> list_all carries_device evs"
proof (induction msgs arbitrary: now conn evs)
  case (Cons msg msgs)
  from Cons.prems obtain es c fs where
    step: "usb_step (\<lambda>now serial. fst (GetProperties parse num lib now serial (st now))) now msg conn = (es, c)"
    and rest: "ios_stream (\<lambda>now serial. fst (GetProperties parse num lib now serial (st now))) (now + 1) msgs c = (fs, conn')" "evs = es @ fs"
    by (auto split: prod.splits)
  from usb_step_carries [OF step fetched_serial] Cons.IH [OF rest(1)] rest(2) show ?case by simp
qed simp

text \<open>
  Whatever usbmuxd reports, in whatever order and with whatever errors: after every message the devices that a
  listener has been told of are exactly those that are attached, each reported with a device record under its own
  serial, even if its properties cannot be read; and when the connection is lost, none is left.
\<close>

theorem ios_tracker_exact:
  assumes order: "\<And>A. finite A \<Longrightarrow> set (order A) = A"
    and stream: "ios_stream (\<lambda>now serial. fst (GetProperties parse num lib now serial (st now))) now msgs Map.empty = (evs, conn)"
  shows "online evs {} = dom conn \<and> list_all carries_device evs \<and>
    online (evs @ ios_evictAll order later conn) {} = {} \<and>
    online (fst (ios_Watch (\<lambda>now serial. fst (GetProperties parse num lib now serial (st now))) order now conns backoff)) {} = {}"
proof (intro conjI)
  show "online evs {} = dom conn" using ios_stream_online [OF stream] by simp
  show "list_all carries_device evs" by (rule ios_stream_carries [OF stream])
  show "online (evs @ ios_evictAll order later conn) {} = {}" by (rule ios_stream_evicted [OF stream order])
qed (rule ios_Watch_evicts [OF order])

definition ex_iphone_values :: lockdown_values where
  "ex_iphone_values = \<lparr>lv_DeviceName = ''Lab phone'', lv_ProductType = ''iPhone14,5'', lv_ProductVersion = ''17.4'',
     lv_json = JObject [(''ProductType'', JString ''iPhone14,5''), (''ProductVersion'', JString ''17.4'')]\<rparr>"

text \<open>A library that knows one phone and prints one value, and a JSON parser that reads it back.\<close>

definition ex_ios_lib :: "json \<Rightarrow> unit ios_lib" where
  "ex_ios_lib known =
     \<lparr>il_ListDevices = (\<lambda>s. (Inr [''u1''], s)), il_GetDevice = (\<lambda>_ s. (None, s)), il_GetValues = (\<lambda>_ s. (Inr ex_iphone_values, s)),
      il_Connect = (\<lambda>_ s. (Some ''locked'', s)), il_DomainValue = (\<lambda>_ _ s. (Inl ''locked'', s)),
      il_Marshal = (\<lambda>v. if v = known then Inr ''JSON'' else Inl ''unsupported''), il_cli = (\<lambda>_ s. (RunError ''not found'', s))\<rparr>"

definition ex_parse :: "json \<Rightarrow> json_parse" where
  "ex_parse known t = (if t = ''JSON'' then Some known else None)"

definition ex_order :: "string set \<Rightarrow> string list" where
  "ex_order A = sorted_list_of_set A"

lemma ex_stream_dom:
  "ios_stream fetch 0 [Attached ''u1'', Attached ''u2'', Detached ''u1''] Map.empty = (evs, conn) \<Longrightarrow> dom conn = {''u2''}"
  by (auto simp: usb_step_def Let_def split: if_splits)

theorem ios_tracker_exact_witness:
  "\<exists>evs conn. ios_stream (\<lambda>now serial. fst (GetProperties (ex_parse (lv_json ex_iphone_values)) (\<lambda>_. 0) (ex_ios_lib (lv_json ex_iphone_values)) now serial ()))
      0 [Attached ''u1'', Attached ''u2'', Detached ''u1''] Map.empty = (evs, conn) \<and> online evs {} = {''u2''} \<and>
    list_all carries_device evs \<and> online (evs @ ios_evictAll ex_order 9 conn) {} = {}"
proof -
  let ?fetch = "\<lambda>now serial. fst (GetProperties (ex_parse (lv_json ex_iphone_values)) (\<lambda>_. 0) (ex_ios_lib (lv_json ex_iphone_values)) now serial ())"
  let ?msgs = "[Attached ''u1'', Attached ''u2'', Detached ''u1'']"
  obtain evs conn where s: "ios_stream ?fetch 0 ?msgs Map.empty = (evs, conn)" by (rule prod.exhaust)
  have order: "\<And>A. finite A \<Longrightarrow> set (ex_order A) = A" by (simp add: ex_order_def)
  from ios_tracker_exact [OF order s] have e: "online evs {} = dom conn" "list_all carries_device evs"
    "online (evs @ ios_evictAll ex_order 9 conn) {} = {}" by blast+
  from ex_stream_dom [OF s] e(1) have "online evs {} = {''u2''}" by (simp only:)
  with s e(2,3) show ?thesis by (intro exI [of _ evs] exI [of _ conn] conjI)
qed

section \<open>Listing devices\<close>

lemmas fold_names = strings_EqualFold_def strings_ToLower_def ascii_lower_def

lemma dec_entry_json: "dec_entry no_entry (entry_json e) = Some e"
  by (simp add: dec_entry_def no_entry_def entry_json_def fold_names)

lemma dec_elems_entries: "dec_elems no_entry dec_entry (map entry_json es) = Some es"
  by (induction es) (simp_all add: dec_entry_json)

lemma list_shapes_entries: "list_shapes (if es = [] then JNull else JArray (map entry_json es)) = Some es"
  by (simp add: list_shapes_def as_array_def dec_elems_entries nil_list_def)

lemma list_entries_serials: "list_entries lib devs s = (es, s') \<Longrightarrow> map ie_UDID es = devs"
  by (induction devs arbitrary: s es) (auto simp: Let_def split: prod.splits sum.splits)

text \<open>
  \<^verbatim>\<open>Discover\<close> returns exactly the devices that the library lists, in its order and under their serials, whether or not
  their values can be read: what the client writes as JSON the parser reads back.  It fails only if the list cannot be
  written.
\<close>

theorem discover_roundtrip:
  assumes listed: "il_ListDevices lib s = (Inr devs, s1)" and json: "\<And>v out. il_Marshal lib v = Inr out \<Longrightarrow> parse out = Some v"
  shows "case Discover parse lib now s of
    (Inr ds, s') \<Rightarrow> map dev_Serial ds = devs \<and> list_all (\<lambda>d. dev_Platform d = ''ios'' \<and> dev_ConnectedAt d = now) ds
  | (Inl e, s') \<Rightarrow> \<exists>v e'. il_Marshal lib v = Inl e' \<and> e = ''goios discover: '' @ e'"
proof -
  obtain es s2 where es: "list_entries lib devs s1 = (es, s2)" by fastforce
  let ?v = "if es = [] then JNull else JArray (map entry_json es)"
  have run: "RunNoUDID lib [''list''] s = (il_Marshal lib ?v, s2)" using listed es by (simp add: RunNoUDID_def)
  show ?thesis
  proof (cases "il_Marshal lib ?v")
    case (Inl e)
    with run show ?thesis by (auto simp: Discover_def)
  next
    case (Inr out)
    with json have "parseIOSList parse out = Inr es" by (simp add: parseIOSList_def parsed_def list_shapes_entries)
    with run Inr list_entries_serials [OF es] show ?thesis
      by (auto simp: Discover_def entry_device_def ios_device_def list_all_iff comp_def)
  qed
qed

theorem discover_roundtrip_witness:
  "\<exists>v ds. fst (Discover (ex_parse v) (ex_ios_lib v) 5 ()) = Inr ds \<and> map dev_Serial ds = [''u1''] \<and> map (info_Model \<circ> dev_Info) ds = [''iPhone 13'']"
proof -
  let ?v = "JArray [entry_json \<lparr>ie_UDID = ''u1'', ie_DeviceName = ''Lab phone'', ie_ProductType = ''iPhone14,5'', ie_ProductVersion = ''17.4''\<rparr>]"
  have "il_ListDevices (ex_ios_lib ?v) () = (Inr [''u1''], ())" by (simp add: ex_ios_lib_def)
  moreover have "ex_parse ?v out = Some v" if "il_Marshal (ex_ios_lib ?v) v = Inr out" for v out
    using that by (auto simp: ex_ios_lib_def ex_parse_def split: if_splits)
  ultimately have r: "case Discover (ex_parse ?v) (ex_ios_lib ?v) 5 () of
      (Inr ds, s') \<Rightarrow> map dev_Serial ds = [''u1''] \<and> list_all (\<lambda>d. dev_Platform d = ''ios'' \<and> dev_ConnectedAt d = 5) ds
    | (Inl e, s') \<Rightarrow> \<exists>v e'. il_Marshal (ex_ios_lib ?v) v = Inl e' \<and> e = ''goios discover: '' @ e'"
    by (rule discover_roundtrip)
  have run: "RunNoUDID (ex_ios_lib ?v) [''list''] () = (Inr ''JSON'', ())"
    by (simp add: RunNoUDID_def ex_ios_lib_def ex_iphone_values_def entry_json_def)
  have "Discover (ex_parse ?v) (ex_ios_lib ?v) 5 () =
      (Inr [entry_device 5 \<lparr>ie_UDID = ''u1'', ie_DeviceName = ''Lab phone'', ie_ProductType = ''iPhone14,5'', ie_ProductVersion = ''17.4''\<rparr>], ())"
    using list_shapes_entries [of "[\<lparr>ie_UDID = ''u1'', ie_DeviceName = ''Lab phone'', ie_ProductType = ''iPhone14,5'', ie_ProductVersion = ''17.4''\<rparr>]"]
    by (simp add: Discover_def run parseIOSList_def parsed_def ex_parse_def)
  with r have "fst (Discover (ex_parse ?v) (ex_ios_lib ?v) 5 ()) =
      Inr [entry_device 5 \<lparr>ie_UDID = ''u1'', ie_DeviceName = ''Lab phone'', ie_ProductType = ''iPhone14,5'', ie_ProductVersion = ''17.4''\<rparr>]" by simp
  then show ?thesis
    by (intro exI [of _ ?v] exI conjI) (assumption, simp_all add: entry_device_def ios_device_def resolveModelName_def productTypeMap_def)
qed

text \<open>A line that is no device: not JSON, or an object without a serial and without a list, such as a log line.\<close>

definition no_device_line :: "json_parse \<Rightarrow> string \<Rightarrow> bool" where
  "no_device_line parse l \<longleftrightarrow> strings_TrimSpace l = '''' \<or> parsed parse list_shapes (strings_TrimSpace l) = None"

lemma first_line_skips:
  "list_all (no_device_line parse) ls \<Longrightarrow> first_line (parsed parse list_shapes) (ls @ ms) = first_line (parsed parse list_shapes) ms"
  by (induction ls) (auto simp: no_device_line_def Let_def)

text \<open>
  In output that is not JSON as a whole, lines that describe no device are skipped, and the first line that does is
  the result.  Lines after it are not read: of a list that is printed with one device per line, only the first device is
  found.
\<close>

theorem first_device_line_only:
  assumes whole: "parse (strings_Join (logs @ line # rest) (CHR 0x0A)) = None"
    and lines: "list_all (\<lambda>l. CHR 0x0A \<notin> set l) (logs @ line # rest)" and logs: "list_all (no_device_line parse) logs"
    and line: "strings_TrimSpace line \<noteq> ''''" "parse (strings_TrimSpace line) = Some (entry_json e)" "ie_UDID e \<noteq> ''''"
  shows "parseIOSList parse (strings_Join (logs @ line # rest) (CHR 0x0A)) = Inr [e]"
proof -
  have split: "strings_Split (strings_Join (logs @ line # rest) (CHR 0x0A)) (CHR 0x0A) = logs @ line # rest"
    using lines by (intro strings_Join_Split) (auto simp: list_all_iff)
  have "list_shapes (entry_json e) = Some [e]"
    using line(3) dec_entry_json [of e]
    by (simp add: list_shapes_def as_array_def as_single_def entry_json_def fold_names)
  then have "first_line (parsed parse list_shapes) (logs @ line # rest) = Some [e]"
    using line by (simp add: first_line_skips [OF logs] parsed_def Let_def)
  with whole show ?thesis by (simp add: parseIOSList_def parsed_def split)
qed

definition ex_line_entry :: "string \<Rightarrow> IOSDeviceEntry" where
  "ex_line_entry u = \<lparr>ie_UDID = u, ie_DeviceName = '''', ie_ProductType = '''', ie_ProductVersion = ''''\<rparr>"

text \<open>Texts for a log line and for two devices.\<close>

definition ex_lines :: json_parse where
  "ex_lines t =
     (if t = ''log'' then Some (JObject [(''level'', JString ''warn''), (''msg'', JString ''agent not running'')])
      else if t = ''dev1'' then Some (entry_json (ex_line_entry ''u1''))
      else if t = ''dev2'' then Some (entry_json (ex_line_entry ''u2'')) else None)"

theorem first_device_line_only_witness:
  "parseIOSList ex_lines (strings_Join ([''log''] @ ''dev1'' # [''dev2'']) (CHR 0x0A)) = Inr [ex_line_entry ''u1'']"
proof (rule first_device_line_only)
  have trim: "strings_TrimSpace ''log'' = ''log''" "strings_TrimSpace ''dev1'' = ''dev1''"
    by (simp_all add: strings_TrimSpace_id is_space_def)
  show "list_all (no_device_line ex_lines) [''log'']"
    by (simp add: no_device_line_def trim parsed_def ex_lines_def list_shapes_def as_array_def as_single_def dec_entry_def no_entry_def fold_names)
  show "strings_TrimSpace ''dev1'' \<noteq> ''''" "ex_lines (strings_TrimSpace ''dev1'') = Some (entry_json (ex_line_entry ''u1''))"
    by (simp_all add: trim ex_lines_def)
  show "ex_lines (strings_Join ([''log''] @ ''dev1'' # [''dev2'']) (CHR 0x0A)) = None" by (simp add: ex_lines_def)
  show "list_all (\<lambda>l. CHR 0x0A \<notin> set l) ([''log''] @ ''dev1'' # [''dev2''])" by simp
  show "ie_UDID (ex_line_entry ''u1'') \<noteq> ''''" by (simp add: ex_line_entry_def)
qed

end
