(* ===== verification/Adb_Properties.thy ===== *)
theory Adb_Properties
  imports Device_Agent
begin

text \<open>
  \<^verbatim>\<open>src/internal/adb/client.go\<close> and \<^verbatim>\<open>properties.go\<close>: shell commands over the adb client, and the reading of a
  device's properties from their output.  The client of the library is the parameter \<open>inner\<close>.
\<close>

section \<open>client.go\<close>

record DeviceEntry =
  de_Serial :: string
  de_State :: string

text \<open>\<^verbatim>\<open>ListDevices\<close>: the context's error before and after the call, and what the library lists.\<close>

definition client_ListDevices :: "string option \<Rightarrow> string + (string \<times> string) list \<Rightarrow> string option \<Rightarrow> string + DeviceEntry list" where
  "client_ListDevices before listed after =
     (case before of
        Some e \<Rightarrow> Inl e
      | None \<Rightarrow>
          (case listed of
             Inl e \<Rightarrow> Inl (''adb: list devices: '' @ e)
           | Inr ds \<Rightarrow>
               (case after of Some e \<Rightarrow> Inl e | None \<Rightarrow> Inr (map (\<lambda>(s, st). \<lparr>de_Serial = s, de_State = st\<rparr>) ds))))"

definition client_Shell :: "'s adb_shell \<Rightarrow> 's adb_shell" where
  "client_Shell inner serial cmd s =
     (case inner serial cmd s of
        (Inl e, s) \<Rightarrow> (Inl (''adb shell '' @ strconv_Quote cmd @ '' on '' @ serial @ '': '' @ e), s)
      | (Inr out, s) \<Rightarrow> (Inr (strings_TrimSpace out), s))"

section \<open>Reading the output of commands\<close>

text \<open>\<^verbatim>\<open>strconv.ParseInt\<close> of decimal digits, with its error ignored: a number out of range gives the largest one.\<close>

definition clip_int :: "nat \<Rightarrow> string \<Rightarrow> int" where
  "clip_int bits ds = (case digits_value 0 ds of None \<Rightarrow> 0 | Some v \<Rightarrow> min v (2 ^ (bits - 1) - 1))"

definition mem_re :: regex where
  "mem_re = rseq [rlit ''MemTotal:'', rplus re_space, RGroup (rplus is_digit), rplus re_space, rlit ''kB'']"

definition parseMemTotal :: "string \<Rightarrow> int" where
  "parseMemTotal out = (case FindStringSubmatch mem_re out of Some [_, kb] \<Rightarrow> clip_int 64 kb div 1024 | _ \<Rightarrow> 0)"

text \<open>Go's division truncates, and the field may have a sign.\<close>

definition quot :: "int \<Rightarrow> int \<Rightarrow> int" where
  "quot a b = (if a < 0 then - (- a div b) else a div b)"

fun df_total :: "string list \<Rightarrow> int" where
  "df_total [] = 0"
| "df_total (line # lines) =
     (if strings_Contains line ''/data'' then
        (case strings_Fields line of
           _ # kb # _ \<Rightarrow> (case strconv_Atoi kb of Some v \<Rightarrow> quot v 1024 | None \<Rightarrow> df_total lines)
         | _ \<Rightarrow> df_total lines)
      else df_total lines)"

definition parseDfTotal :: "string \<Rightarrow> int" where
  "parseDfTotal out = df_total (strings_Split (strings_TrimSpace out) (CHR 0x0A))"

definition wmSizeRe :: regex where
  "wmSizeRe = rseq [rlit_fold ''size:'', rspaces, RGroup (rplus is_digit), rlit_fold ''x'', RGroup (rplus is_digit)]"

definition parseWMSize :: "string \<Rightarrow> int \<times> int" where
  "parseWMSize out = (case FindStringSubmatch wmSizeRe out of Some [_, w, h] \<Rightarrow> (clip_int 32 w, clip_int 32 h) | _ \<Rightarrow> (0, 0))"

definition wmDensityRe :: regex where
  "wmDensityRe = rseq [rlit_fold ''density:'', rspaces, RGroup (rplus is_digit)]"

definition parseWMDensity :: "string \<Rightarrow> int" where
  "parseWMDensity out = (case FindStringSubmatch wmDensityRe out of Some [_, d] \<Rightarrow> clip_int 32 d | _ \<Rightarrow> 0)"

definition fpsRe :: regex where
  "fpsRe = rseq [RGroup (RSeq (rplus is_digit) (ROpt (RSeq (rlit ''.'') (rplus is_digit)))), rspaces, rlit ''fps'']"

text \<open>\<^verbatim>\<open>int32\<close> of the number drops what stands behind the point.\<close>

definition parseFPS :: "string \<Rightarrow> int" where
  "parseFPS out =
     (case FindStringSubmatch fpsRe (strings_ToLower out) of Some [_, f] \<Rightarrow> clip_int 32 (takeWhile is_digit f) | _ \<Rightarrow> 0)"

definition healthString :: "string \<Rightarrow> string" where
  "healthString code =
     (if code = ''2'' then ''good'' else if code = ''3'' then ''overheat'' else if code = ''4'' then ''dead''
      else if code = ''5'' then ''over-voltage'' else if code = ''6'' then ''unspecified-failure'' else if code = ''7'' then ''cold''
      else ''unknown'')"

text \<open>\<^verbatim>\<open>strconv.Atoi\<close> with its error ignored: 0 for what is no number, the limit for one out of range.\<close>

definition atoi_or_zero :: "string \<Rightarrow> int" where
  "atoi_or_zero s =
     (case strconv_Atoi s of
        Some v \<Rightarrow> v
      | None \<Rightarrow>
          (let (neg, ds) = (case s of [] \<Rightarrow> (False, []) | c # cs \<Rightarrow>
                 if c = CHR ''-'' then (True, cs) else if c = CHR ''+'' then (False, cs) else (False, s))
           in if ds = [] \<or> digits_value 0 ds = None then 0 else if neg then - (2 ^ 63) else 2 ^ 63 - 1))"

definition battery_line :: "BatteryInfo \<Rightarrow> string \<Rightarrow> BatteryInfo" where
  "battery_line b l =
     (let line = strings_TrimSpace l in
      if strings_HasPrefix line ''level:'' then b\<lparr>bat_Level := atoi_or_zero (strings_TrimSpace (strings_TrimPrefix line ''level:''))\<rparr>
      else if strings_HasPrefix line ''AC powered:'' \<or> strings_HasPrefix line ''USB powered:'' then
        (if strings_Contains line ''true'' then b\<lparr>bat_IsCharging := True\<rparr> else b)
      else if strings_HasPrefix line ''health:'' then b\<lparr>bat_Health := healthString (strings_TrimSpace (strings_TrimPrefix line ''health:''))\<rparr>
      else b)"

definition no_battery :: BatteryInfo where
  "no_battery = \<lparr>bat_Level = 0, bat_IsCharging = False, bat_Health = ''''\<rparr>"

definition parseBattery :: "string \<Rightarrow> BatteryInfo" where
  "parseBattery out = foldl battery_line no_battery (strings_Split out (CHR 0x0A))"

definition ssidRe :: regex where
  "ssidRe = rseq [rlit ''SSID:'', rspaces, rlit [CHR 0x22], RGroup (RMany True (\<lambda>c. c \<noteq> CHR 0x22)), rlit [CHR 0x22]]"

definition parseSSID :: "string \<Rightarrow> string" where
  "parseSSID out = (case FindStringSubmatch ssidRe out of Some [_, s] \<Rightarrow> s | _ \<Rightarrow> '''')"

definition ipv4Re :: regex where
  "ipv4Re = rseq [rlit ''inet'', rplus re_space,
     RGroup (rseq [rplus is_digit, rlit ''.'', rplus is_digit, rlit ''.'', rplus is_digit, rlit ''.'', rplus is_digit]), rlit ''/'']"

text \<open>\<^verbatim>\<open>net.ParseIP\<close> of four decimal numbers: at most three digits each, no leading zero, at most 255.\<close>

definition octet_ok :: "string \<Rightarrow> bool" where
  "octet_ok p \<longleftrightarrow> p \<noteq> [] \<and> length p \<le> 3 \<and> (hd p = CHR ''0'' \<longrightarrow> length p = 1) \<and> (case digits_value 0 p of None \<Rightarrow> False | Some v \<Rightarrow> v \<le> 255)"

definition parseIP :: "string \<Rightarrow> string" where
  "parseIP out =
     (case FindStringSubmatch ipv4Re out of
        Some [_, ip] \<Rightarrow>
          (let parts = strings_Split ip (CHR ''.'') in
           if list_all octet_ok parts \<and> hd parts \<noteq> ''127'' then ip else '''')
      | _ \<Rightarrow> '''')"

section \<open>Fetching\<close>

text \<open>A command whose error is ignored gives the empty string.\<close>

definition quietly :: "'s adb_shell \<Rightarrow> string \<Rightarrow> string \<Rightarrow> 's \<Rightarrow> string \<times> 's" where
  "quietly sh serial cmd s = (case sh serial cmd s of (Inl _, s) \<Rightarrow> ('''', s) | (Inr out, s) \<Rightarrow> (out, s))"

definition getprop :: "string \<Rightarrow> string" where
  "getprop key = ''getprop '' @ key"

definition fetchDeviceInfo :: "'s adb_shell \<Rightarrow> string \<Rightarrow> 's \<Rightarrow> (string + DeviceInfo) \<times> 's" where
  "fetchDeviceInfo sh serial s =
     (case sh serial (getprop ''ro.product.model'') s of
        (Inl e, s) \<Rightarrow> (Inl (''ro.product.model: '' @ e), s)
      | (Inr model, s) \<Rightarrow>
          (let (name, s) = quietly sh serial (getprop ''ro.product.name'') s;
               (manufacturer, s) = quietly sh serial (getprop ''ro.product.manufacturer'') s;
               (release, s) = quietly sh serial (getprop ''ro.build.version.release'') s;
               (abi, s) = quietly sh serial (getprop ''ro.product.cpu.abi'') s;
               (sdkStr, s) = quietly sh serial (getprop ''ro.build.version.sdk'') s;
               (mem, s) = sh serial ''cat /proc/meminfo'' s;
               (df, s) = sh serial ''df /data'' s
           in (Inr \<lparr>info_Model = model, info_MarketName = name, info_Manufacturer = manufacturer, info_AndroidVersion = release,
                    info_SDKVersion = (case strconv_Atoi sdkStr of Some v \<Rightarrow> v | None \<Rightarrow> 0), info_CPUABI = abi,
                    info_RAMMB = (case mem of Inl _ \<Rightarrow> 0 | Inr out \<Rightarrow> parseMemTotal out),
                    info_StorageMB = (case df of Inl _ \<Rightarrow> 0 | Inr out \<Rightarrow> parseDfTotal out)\<rparr>, s)))"

definition no_display :: DisplayInfo where
  "no_display = \<lparr>disp_Density = 0, disp_Fps = 0, disp_Height = 0, disp_Rotation = 0, disp_Size = 0, disp_Width = 0, disp_XDPI = 0, disp_YDPI = 0\<rparr>"

definition fetchDisplayInfo :: "'s adb_shell \<Rightarrow> string \<Rightarrow> 's \<Rightarrow> (string + DisplayInfo) \<times> 's" where
  "fetchDisplayInfo sh serial s =
     (case sh serial ''wm size'' s of
        (Inl e, s) \<Rightarrow> (Inl e, s)
      | (Inr sizeOut, s) \<Rightarrow>
          (let (dens, s) = quietly sh serial ''wm density'' s;
               (disp, s) = quietly sh serial (''dumpsys display | grep -i '' @ [CHR 0x27] @ ''fps'' @ [CHR 0x5C, CHR 0x7C] @ ''refresh'' @ [CHR 0x27]) s
           in (Inr (no_display\<lparr>disp_Width := fst (parseWMSize sizeOut), disp_Height := snd (parseWMSize sizeOut),
                      disp_Density := parseWMDensity dens, disp_Fps := (if parseFPS disp = 0 then 60 else parseFPS disp)\<rparr>), s)))"

definition fetchBatteryInfo :: "'s adb_shell \<Rightarrow> string \<Rightarrow> 's \<Rightarrow> (string + BatteryInfo) \<times> 's" where
  "fetchBatteryInfo sh serial s =
     (case sh serial ''dumpsys battery'' s of (Inl e, s) \<Rightarrow> (Inl e, s) | (Inr out, s) \<Rightarrow> (Inr (parseBattery out), s))"

definition fetchNetworkInfo :: "'s adb_shell \<Rightarrow> string \<Rightarrow> 's \<Rightarrow> NetworkInfo \<times> 's" where
  "fetchNetworkInfo sh serial s =
     (let (ssidOut, s) = quietly sh serial (''dumpsys wifi | grep -E '' @ [CHR 0x27] @ ''mWifiInfo|SSID'' @ [CHR 0x27]) s;
          ssid = parseSSID ssidOut;
          (ipOut, s) = quietly sh serial ''ip addr show wlan0'' s;
          (mobOut, s) = quietly sh serial ''settings get global mobile_data'' s;
          (airOut, s) = quietly sh serial ''settings get global airplane_mode_on'' s
      in (\<lparr>net_Connected = (ssid \<noteq> '''' \<and> ssid \<noteq> ''<unknown ssid>''), net_WiFiSSID = ssid, net_IP = parseIP ipOut,
           net_MobileData = (strings_TrimSpace mobOut = ''1''), net_Airplane = (strings_TrimSpace airOut = ''1'')\<rparr>, s))"

definition FetchProperties :: "'s adb_shell \<Rightarrow> instant \<Rightarrow> string \<Rightarrow> 's \<Rightarrow> (string + Device) \<times> 's" where
  "FetchProperties sh now serial s =
     (case fetchDeviceInfo sh serial s of
        (Inl e, s) \<Rightarrow> (Inl (''properties: device info: '' @ e), s)
      | (Inr info, s) \<Rightarrow>
          (let (display, s) = fetchDisplayInfo sh serial s;
               (battery, s) = fetchBatteryInfo sh serial s;
               (network, s) = fetchNetworkInfo sh serial s
           in (Inr \<lparr>dev_Serial = serial, dev_Platform = ''android'', dev_ProviderIP = '''', dev_Info = info,
                    dev_Display = (case display of Inl _ \<Rightarrow> no_display | Inr d \<Rightarrow> d),
                    dev_State = \<lparr>tel_Status = StatusOnline, tel_Battery = (case battery of Inl _ \<Rightarrow> no_battery | Inr b \<Rightarrow> b),
                      tel_Network = network, tel_FileSystem = \<lparr>fs_Root = '''', fs_Files = None\<rparr>, tel_InstalledBrowsers = None\<rparr>,
                    dev_ConnectedAt = now, dev_LastSeen = now\<rparr>, s)))"

section \<open>Matches\<close>

lemma runs_not_Nil: "runs P s \<noteq> []"
  by (cases s) auto

lemma hd_runs: "hd (runs P s) = (takeWhile P s, dropWhile P s)"
proof (induction s)
  case (Cons c s)
  have "runs P s \<noteq> []" by (rule runs_not_Nil)
  with Cons show ?case by (auto simp: hd_append hd_map)
qed simp

text \<open>The first match of an expression, when there is one.\<close>

definition first_match :: "regex \<Rightarrow> string \<Rightarrow> string \<times> string list \<times> string \<Rightarrow> bool" where
  "first_match r s m \<longleftrightarrow> (\<exists>ms. rmatches r s = m # ms)"

lemma first_match_seq:
  "first_match r s (a, as, t) \<Longrightarrow> first_match q t (b, bs, u) \<Longrightarrow> first_match (RSeq r q) s (a @ b, as @ bs, u)"
  by (auto simp: first_match_def)

lemma first_match_group: "first_match r s (a, as, t) \<Longrightarrow> first_match (RGroup r) s (a, a # as, t)"
  by (auto simp: first_match_def)

lemma first_match_many:
  "(\<And>c. c \<in> set s \<Longrightarrow> P c) \<Longrightarrow> t = [] \<or> \<not> P (hd t) \<Longrightarrow> first_match (RMany True P) (s @ t) (s, [], t)"
proof -
  assume P: "\<And>c. c \<in> set s \<Longrightarrow> P c" and t: "t = [] \<or> \<not> P (hd t)"
  obtain x xs where r: "runs P (s @ t) = x # xs" using runs_not_Nil [of P "s @ t"] by (cases "runs P (s @ t)") auto
  have "takeWhile P t = [] \<and> dropWhile P t = t" using t by (cases t) auto
  with P have "x = (s, t)" using hd_runs [of P "s @ t"] r by (simp add: takeWhile_append2 dropWhile_append2)
  with r show ?thesis by (auto simp: first_match_def)
qed

lemma first_match_plus:
  "s \<noteq> [] \<Longrightarrow> (\<And>c. c \<in> set s \<Longrightarrow> P c) \<Longrightarrow> t = [] \<or> \<not> P (hd t) \<Longrightarrow> first_match (rplus P) (s @ t) (s, [], t)"
proof -
  assume s: "s \<noteq> []" "\<And>c. c \<in> set s \<Longrightarrow> P c" and t: "t = [] \<or> \<not> P (hd t)"
  from s(1) obtain c cs where c: "s = c # cs" by (cases s) auto
  have "first_match (RChar P) (c # cs @ t) ([c], [], cs @ t)" using s c by (simp add: first_match_def)
  from first_match_seq [OF this first_match_many [of cs P t]] s c t show ?thesis by (simp add: rplus_def)
qed

lemma FindStringSubmatch_here: "first_match r s (a, as, t) \<Longrightarrow> FindStringSubmatch r s = Some (a # as)"
  by (cases s) (auto simp: first_match_def)

lemma first_match_lit_fold: "first_match (rlit_fold s) (s @ t) (s, [], t)"
proof (induction s)
  case Nil
  show ?case by (simp add: rlit_fold_def first_match_def)
next
  case (Cons c s)
  have "first_match (RChar (\<lambda>x. ascii_lower x = ascii_lower c)) (c # s @ t) ([c], [], s @ t)" by (simp add: first_match_def)
  from first_match_seq [OF this Cons.IH] show ?case by (simp add: rlit_fold_def)
qed

lemma first_match_empty: "first_match REmpty s ([], [], s)"
  by (simp add: first_match_def)

lemma nat_string_not_space: "t = nat_string n @ u \<Longrightarrow> \<not> re_space (hd t) \<and> hd t \<noteq> CHR ''x''"
proof -
  assume t: "t = nat_string n @ u"
  have "nat_string n \<noteq> []" by (rule nat_string_not_Nil)
  then have "hd t \<in> set (nat_string n)" using t by simp
  then have "is_digit (hd t)" by (rule int_string_digits)
  moreover have "int (of_char (hd t)) = of_char (hd t)" by (rule of_nat_of_char)
  ultimately show ?thesis
    by (cases "hd t = CHR ''x''") (simp_all add: is_digit_def digit_value_def re_space_def Let_def split: if_splits)
qed

lemma wmSizeRe_matches:
  assumes "rest = [] \<or> \<not> is_digit (hd rest)"
  shows "first_match wmSizeRe (''size: '' @ nat_string w @ ''x'' @ nat_string h @ rest)
    (''size: '' @ nat_string w @ ''x'' @ nat_string h, [nat_string w, nat_string h], rest)"
proof -
  have digits: "first_match (RGroup (rplus is_digit)) (nat_string n @ u) (nat_string n, [nat_string n], u)"
    if "u = [] \<or> \<not> is_digit (hd u)" for n u
    using that by (intro first_match_group first_match_plus nat_string_not_Nil int_string_digits)
  have space: "first_match rspaces ('' '' @ nat_string w @ u) ('' '', [], nat_string w @ u)" for u
    unfolding rspaces_def using nat_string_not_space [OF refl, of w u]
    by (intro first_match_many) (auto simp: re_space_def)
  have x: "\<not> is_digit (hd (''x'' @ nat_string h @ rest))" by (simp add: is_digit_def digit_value_def)
  show ?thesis
    using first_match_seq [OF first_match_lit_fold [of "''size:''"] first_match_seq [OF space first_match_seq [OF digits
      first_match_seq [OF first_match_lit_fold [of "''x''"] first_match_seq [OF digits first_match_empty]]]]] x assms
    by (simp add: wmSizeRe_def rseq_def)
qed

lemma FindStringSubmatch_later:
  "rmatches r (c # s) = [] \<Longrightarrow> FindStringSubmatch r (c # s) = FindStringSubmatch r s"
  by simp

lemma wmSizeRe_not_here:
  "ascii_lower c \<noteq> CHR ''s'' \<or> ascii_lower d \<noteq> CHR ''i'' \<or> ascii_lower e \<noteq> CHR ''z'' \<Longrightarrow>
   FindStringSubmatch wmSizeRe (c # d # e # s) = FindStringSubmatch wmSizeRe (d # e # s)"
  by (rule FindStringSubmatch_later) (auto simp: wmSizeRe_def rseq_def rlit_fold_def ascii_lower_def)

section \<open>The display\<close>

text \<open>
  The size of the display is read back exactly from the line that \<^verbatim>\<open>wm size\<close> prints for it, whatever follows in the
  output: when the device also prints the size that overrides it, the size reported is still the physical one.
\<close>

theorem wm_size_is_physical:
  assumes "int w < 2 ^ 31" "int h < 2 ^ 31" "rest = [] \<or> \<not> is_digit (hd rest)"
  shows "parseWMSize (''Physical size: '' @ nat_string w @ ''x'' @ nat_string h @ rest) = (int w, int h)"
proof -
  have "FindStringSubmatch wmSizeRe (''Physical size: '' @ nat_string w @ ''x'' @ nat_string h @ rest) =
      FindStringSubmatch wmSizeRe (''size: '' @ nat_string w @ ''x'' @ nat_string h @ rest)"
    by (simp add: wmSizeRe_not_here ascii_lower_def del: FindStringSubmatch.simps)
  also have "\<dots> = Some [''size: '' @ nat_string w @ ''x'' @ nat_string h, nat_string w, nat_string h]"
    by (rule FindStringSubmatch_here [OF wmSizeRe_matches [OF assms(3)]])
  finally show ?thesis
    using assms(1,2) by (simp add: parseWMSize_def clip_int_def digits_value_nat_string)
qed

definition ex_override :: string where
  "ex_override = CHR 0x0A # ''Override size: 540x960''"

theorem wm_size_is_physical_witness:
  "parseWMSize (''Physical size: '' @ nat_string 1080 @ ''x'' @ nat_string 1920 @ ex_override) = (1080, 1920)"
  using wm_size_is_physical [of 1080 1920 ex_override] by (simp add: ex_override_def is_digit_def digit_value_def)

end
