(* ===== verification/Platform.thy ===== *)
theory Platform
  imports IOS_Discovery Adb_Properties "HOL-Library.Sublist"
begin

text \<open>
  \<^verbatim>\<open>src/internal/platform\<close>: the managers of devices, applications and streams behind one interface per platform.  An interface
  is a record of its operations; the adb command, the adb client, the go-ios library and the stream manager are
  parameters.
\<close>

section \<open>interfaces.go\<close>

definition Android :: string where "Android = ''android''"
definition IOS :: string where "IOS = ''ios''"

record 's DeviceManager =
  dm_Discover :: "'s \<Rightarrow> (string + Device list) \<times> 's"
  dm_GetProperties :: "string \<Rightarrow> 's \<Rightarrow> (string + Device) \<times> 's"

record 's AppManager =
  am_Install :: "string \<Rightarrow> string \<Rightarrow> 's \<Rightarrow> string option \<times> 's"
  am_Uninstall :: "string \<Rightarrow> string \<Rightarrow> 's \<Rightarrow> string option \<times> 's"
  am_Launch :: "string \<Rightarrow> string \<Rightarrow> 's \<Rightarrow> string option \<times> 's"
  am_Stop :: "string \<Rightarrow> string \<Rightarrow> 's \<Rightarrow> string option \<times> 's"
  am_List :: "string \<Rightarrow> 's \<Rightarrow> (string + string list) \<times> 's"

record 's Streamer =
  sm_Start :: "string \<Rightarrow> int \<Rightarrow> 's \<Rightarrow> string option \<times> 's"
  sm_Stop :: "string \<Rightarrow> 's \<Rightarrow> string option \<times> 's"

section \<open>manager.go\<close>

record 's PlatformManager =
  pm_deviceMgrs :: "string \<rightharpoonup> 's DeviceManager"
  pm_appMgrs :: "string \<rightharpoonup> 's AppManager"
  pm_streamers :: "string \<rightharpoonup> 's Streamer"

definition NewManager :: "'s PlatformManager" where
  "NewManager = \<lparr>pm_deviceMgrs = Map.empty, pm_appMgrs = Map.empty, pm_streamers = Map.empty\<rparr>"

definition RegisterDeviceManager :: "string \<Rightarrow> 's DeviceManager \<Rightarrow> 's PlatformManager \<Rightarrow> 's PlatformManager" where
  "RegisterDeviceManager p dm m = m\<lparr>pm_deviceMgrs := (pm_deviceMgrs m)(p \<mapsto> dm)\<rparr>"

definition RegisterAppManager :: "string \<Rightarrow> 's AppManager \<Rightarrow> 's PlatformManager \<Rightarrow> 's PlatformManager" where
  "RegisterAppManager p am m = m\<lparr>pm_appMgrs := (pm_appMgrs m)(p \<mapsto> am)\<rparr>"

definition RegisterStreamer :: "string \<Rightarrow> 's Streamer \<Rightarrow> 's PlatformManager \<Rightarrow> 's PlatformManager" where
  "RegisterStreamer p st m = m\<lparr>pm_streamers := (pm_streamers m)(p \<mapsto> st)\<rparr>"

definition Manager_DeviceManager :: "'s PlatformManager \<Rightarrow> string \<Rightarrow> string + 's DeviceManager" where
  "Manager_DeviceManager m p =
     (case pm_deviceMgrs m p of None \<Rightarrow> Inl (''device manager not registered for platform '' @ p) | Some dm \<Rightarrow> Inr dm)"

definition Manager_AppManager :: "'s PlatformManager \<Rightarrow> string \<Rightarrow> string + 's AppManager" where
  "Manager_AppManager m p =
     (case pm_appMgrs m p of None \<Rightarrow> Inl (''app manager not registered for platform '' @ p) | Some am \<Rightarrow> Inr am)"

definition Manager_Streamer :: "'s PlatformManager \<Rightarrow> string \<Rightarrow> string + 's Streamer" where
  "Manager_Streamer m p =
     (case pm_streamers m p of None \<Rightarrow> Inl (''streamer not registered for platform '' @ p) | Some st \<Rightarrow> Inr st)"

section \<open>factory.go: Android\<close>

text \<open>The devices in the state \<^verbatim>\<open>device\<close> whose properties can be read.\<close>

fun fetch_ready :: "'s adb_shell \<Rightarrow> instant \<Rightarrow> DeviceEntry list \<Rightarrow> 's \<Rightarrow> Device list \<times> 's" where
  "fetch_ready shell now [] s = ([], s)"
| "fetch_ready shell now (entry # entries) s =
     (if de_State entry = ''device'' then
        (case FetchProperties shell now (de_Serial entry) s of
           (Inr dev, s) \<Rightarrow> (case fetch_ready shell now entries s of (ds, s) \<Rightarrow> (dev # ds, s))
         | (Inl _, s) \<Rightarrow> fetch_ready shell now entries s)
      else fetch_ready shell now entries s)"

definition android_Discover :: "('s \<Rightarrow> (string + DeviceEntry list) \<times> 's) \<Rightarrow> 's adb_shell \<Rightarrow> instant \<Rightarrow> 's \<Rightarrow> (string + Device list) \<times> 's" where
  "android_Discover listDevices shell now s =
     (case listDevices s of
        (Inl e, s) \<Rightarrow> (Inl (''android discover: '' @ e), s)
      | (Inr entries, s) \<Rightarrow> (case fetch_ready shell now entries s of (ds, s) \<Rightarrow> (Inr ds, s)))"

definition AndroidDeviceManager :: "('s \<Rightarrow> (string + DeviceEntry list) \<times> 's) \<Rightarrow> 's adb_shell \<Rightarrow> instant \<Rightarrow> 's DeviceManager" where
  "AndroidDeviceManager listDevices shell now =
     \<lparr>dm_Discover = android_Discover listDevices shell now, dm_GetProperties = FetchProperties shell now\<rparr>"

definition adb_command :: "'s exec \<Rightarrow> string \<Rightarrow> string list \<Rightarrow> 's \<Rightarrow> string option \<times> 's" where
  "adb_command adb what args s =
     (case adb args s of
        ((Some e, out), s) \<Rightarrow> (Some (''adb '' @ what @ '' failed: '' @ e @ '' (out: '' @ out @ '')''), s)
      | ((None, _), s) \<Rightarrow> (None, s))"

definition package_names :: "string \<Rightarrow> string list" where
  "package_names out =
     map (\<lambda>l. strings_TrimPrefix l ''package:'')
       (filter (\<lambda>l. strings_HasPrefix l ''package:'') (map strings_TrimSpace (strings_Split out (CHR 0x0A))))"

definition AndroidAppManager :: "'s exec \<Rightarrow> 's adb_shell \<Rightarrow> 's AppManager" where
  "AndroidAppManager adb shell =
     \<lparr>am_Install = (\<lambda>serial appPath. adb_command adb ''install'' [''-s'', serial, ''install'', ''-r'', ''-g'', appPath]),
      am_Uninstall = (\<lambda>serial appID. adb_command adb ''uninstall'' [''-s'', serial, ''uninstall'', appID]),
      am_Launch = (\<lambda>serial appID. adb_command adb ''launch'' [''-s'', serial, ''shell'', ''monkey'', ''-p'', appID, ''-c'',
        ''android.intent.category.LAUNCHER'', ''1'']),
      am_Stop = (\<lambda>serial appID. adb_command adb ''force-stop'' [''-s'', serial, ''shell'', ''am'', ''force-stop'', appID]),
      am_List = (\<lambda>serial s. case shell serial ''pm list packages'' s of
        (Inl e, s) \<Rightarrow> (Inl (''adb list packages failed: '' @ e), s) | (Inr out, s) \<Rightarrow> (Inr (package_names out), s))\<rparr>"

section \<open>factory.go: iOS\<close>

definition IOSDeviceManager :: "json_parse \<Rightarrow> (string \<Rightarrow> real) \<Rightarrow> 's ios_lib \<Rightarrow> instant \<Rightarrow> 's DeviceManager" where
  "IOSDeviceManager parse num lib now =
     \<lparr>dm_Discover = Discover parse lib now, dm_GetProperties = GetProperties parse num lib now\<rparr>"

definition IOSAppManager :: "json_parse \<Rightarrow> (string set \<Rightarrow> string list) \<Rightarrow> 's ios_lib \<Rightarrow> 's AppManager" where
  "IOSAppManager parse order lib =
     \<lparr>am_Install = Install lib, am_Uninstall = Uninstall lib, am_Launch = Launch lib, am_Stop = Stop lib,
      am_List = List_apps parse order lib\<rparr>"

text \<open>The streamer of iOS logs and does nothing.\<close>

definition IOSStreamer :: "'s Streamer" where
  "IOSStreamer = \<lparr>sm_Start = (\<lambda>serial port s. (None, s)), sm_Stop = (\<lambda>serial s. (None, s))\<rparr>"

record 's platform_env =
  pe_listDevices :: "'s \<Rightarrow> (string + DeviceEntry list) \<times> 's"
  pe_shell :: "'s adb_shell"
  pe_adb :: "'s exec"
  pe_ios :: "'s ios_lib"
  pe_parse :: json_parse
  pe_num :: "string \<Rightarrow> real"
  pe_order :: "string set \<Rightarrow> string list"

definition InitializePlatformManager :: "'s platform_env \<Rightarrow> instant \<Rightarrow> 's Streamer \<Rightarrow> 's PlatformManager" where
  "InitializePlatformManager env now streamMgr =
     (let pm = NewManager;
          pm = RegisterDeviceManager Android (AndroidDeviceManager (pe_listDevices env) (pe_shell env) now) pm;
          pm = RegisterAppManager Android (AndroidAppManager (pe_adb env) (pe_shell env)) pm;
          pm = RegisterStreamer Android streamMgr pm;
          pm = RegisterDeviceManager IOS (IOSDeviceManager (pe_parse env) (pe_num env) (pe_ios env) now) pm;
          pm = RegisterAppManager IOS (IOSAppManager (pe_parse env) (pe_order env) (pe_ios env)) pm
      in RegisterStreamer IOS IOSStreamer pm)"

section \<open>The contract of a device manager\<close>

text \<open>
  What the callers rely on: a device is delivered under the serial that was asked for and with the platform of the manager,
  and a discovery delivers the devices that are attached, without repetition.
\<close>

locale device_manager =
  fixes dm :: "'s DeviceManager" and platform :: string and attached :: "'s \<Rightarrow> string list"
  assumes properties_of: "dm_GetProperties dm serial s = (Inr d, s') \<Longrightarrow> dev_Serial d = serial \<and> dev_Platform d = platform"
    and discovers: "dm_Discover dm s = (Inr ds, s') \<Longrightarrow> distinct (attached s) \<Longrightarrow>
      distinct (map dev_Serial ds) \<and> set (map dev_Serial ds) \<subseteq> set (attached s) \<and> list_all (\<lambda>d. dev_Platform d = platform) ds"
begin

text \<open>Registering what a discovery delivered never meets a serial twice.\<close>

lemma discovered_once:
  "dm_Discover dm s = (Inr ds, s') \<Longrightarrow> distinct (attached s) \<Longrightarrow> i < length ds \<Longrightarrow> j < length ds \<Longrightarrow>
   dev_Serial (ds ! i) = dev_Serial (ds ! j) \<Longrightarrow> i = j"
  using discovers [of s ds s'] by (metis distinct_conv_nth length_map nth_map)

end

lemma FetchProperties_device: "FetchProperties shell now serial s = (Inr d, s') \<Longrightarrow> dev_Serial d = serial \<and> dev_Platform d = Android"
  by (auto simp: FetchProperties_def Android_def Let_def split: prod.splits sum.splits)

lemma GetProperties_device: "GetProperties parse num lib now serial s = (Inr d, s') \<Longrightarrow> dev_Serial d = serial \<and> dev_Platform d = IOS"
  by (auto simp: GetProperties_def ios_device_def IOS_def Let_def split: prod.splits sum.splits)

lemma fetch_ready_subseq:
  "fetch_ready shell now entries s = (ds, s') \<Longrightarrow> subseq (map dev_Serial ds) (map de_Serial entries) \<and> list_all (\<lambda>d. dev_Platform d = Android) ds"
proof (induction entries arbitrary: s ds)
  case (Cons entry entries)
  show ?case
  proof (cases "de_State entry = ''device''")
    case False
    with Cons show ?thesis by (auto intro: list_emb_Cons)
  next
    case True
    obtain r t where f: "FetchProperties shell now (de_Serial entry) s = (r, t)" by fastforce
    show ?thesis
    proof (cases r)
      case (Inl e)
      with Cons f True show ?thesis by (auto intro: list_emb_Cons)
    next
      case (Inr d)
      obtain ds' where "fetch_ready shell now entries t = (ds', s')" "ds = d # ds'"
        using Cons.prems f True Inr by (auto split: prod.splits)
      with Cons.IH FetchProperties_device [of shell now "de_Serial entry" s d t] f Inr show ?thesis by auto
    qed
  qed
qed simp

definition adb_attached :: "('s \<Rightarrow> (string + DeviceEntry list) \<times> 's) \<Rightarrow> 's \<Rightarrow> string list" where
  "adb_attached listDevices s = (case listDevices s of (Inl _, _) \<Rightarrow> [] | (Inr es, _) \<Rightarrow> map de_Serial es)"

interpretation android: device_manager "AndroidDeviceManager listDevices shell now" Android "adb_attached listDevices"
  for listDevices :: "'s \<Rightarrow> (string + DeviceEntry list) \<times> 's" and shell :: "'s adb_shell" and now :: instant
proof
  show "dev_Serial d = serial \<and> dev_Platform d = Android"
    if "dm_GetProperties (AndroidDeviceManager listDevices shell now) serial s = (Inr d, s')" for serial s d s'
    using that by (simp add: AndroidDeviceManager_def FetchProperties_device)
  show "distinct (map dev_Serial ds) \<and> set (map dev_Serial ds) \<subseteq> set (adb_attached listDevices s) \<and> list_all (\<lambda>d. dev_Platform d = Android) ds"
    if d: "dm_Discover (AndroidDeviceManager listDevices shell now) s = (Inr ds, s')" and dist: "distinct (adb_attached listDevices s)" for s ds s'
  proof -
    obtain es t where l: "listDevices s = (Inr es, t)" and f: "fetch_ready shell now es t = (ds, s')"
      using d by (auto simp: AndroidDeviceManager_def android_Discover_def split: prod.splits sum.splits)
    from l have a: "adb_attached listDevices s = map de_Serial es" by (simp add: adb_attached_def)
    show ?thesis
      using fetch_ready_subseq [OF f] dist unfolding a by (metis subseq_conv_nths distinct_nthsI set_nths_subset)
  qed
qed

text \<open>The serials that go-ios lists.\<close>

definition ios_attached :: "json_parse \<Rightarrow> 's ios_lib \<Rightarrow> 's \<Rightarrow> string list" where
  "ios_attached parse lib s =
     (case RunNoUDID lib [''list''] s of
        (Inl _, _) \<Rightarrow> []
      | (Inr out, _) \<Rightarrow> (case parseIOSList parse out of Inl _ \<Rightarrow> [] | Inr es \<Rightarrow> map ie_UDID es))"

interpretation ios: device_manager "IOSDeviceManager parse num lib now" IOS "ios_attached parse lib"
  for parse :: json_parse and num :: "string \<Rightarrow> real" and lib :: "'s ios_lib" and now :: instant
proof
  show "dev_Serial d = serial \<and> dev_Platform d = IOS"
    if "dm_GetProperties (IOSDeviceManager parse num lib now) serial s = (Inr d, s')" for serial s d s'
    using that by (simp add: IOSDeviceManager_def GetProperties_device)
  show "distinct (map dev_Serial ds) \<and> set (map dev_Serial ds) \<subseteq> set (ios_attached parse lib s) \<and> list_all (\<lambda>d. dev_Platform d = IOS) ds"
    if d: "dm_Discover (IOSDeviceManager parse num lib now) s = (Inr ds, s')" and dist: "distinct (ios_attached parse lib s)" for s ds s'
  proof -
    obtain out t es where "RunNoUDID lib [''list''] s = (Inr out, t)" "parseIOSList parse out = Inr es" "ds = map (entry_device now) es"
      using d by (auto simp: IOSDeviceManager_def Discover_def split: prod.splits sum.splits)
    then have "ios_attached parse lib s = map dev_Serial ds" "list_all (\<lambda>d. dev_Platform d = IOS) ds"
      by (simp_all add: ios_attached_def entry_device_def ios_device_def comp_def list_all_iff IOS_def)
    with dist show ?thesis by simp
  qed
qed


definition ex_platform :: "unit platform_env" where
  "ex_platform = \<lparr>pe_listDevices = (\<lambda>s. (Inr [], s)), pe_shell = (\<lambda>_ _ s. (Inl ''closed'', s)), pe_adb = (\<lambda>_ s. ((None, ''''), s)),
     pe_ios = ex_ios_lib (lv_json ex_iphone_values), pe_parse = ex_parse (lv_json ex_iphone_values), pe_num = (\<lambda>_. 0), pe_order = ex_order\<rparr>"


end
