(* ===== verification/Provider_App.thy ===== *)
theory Provider_App
  imports Supervisor Coordinator_Client Coordinator_Properties Platform
begin

text \<open>
  \<^verbatim>\<open>src/internal/app/app.go\<close>: the provider's event loop.  Events of the trackers go to the registry and the supervisor, and the
  coordinator is told in goroutines of their own, which run in any order: a call that was started is kept in
  \<^verbatim>\<open>app_calls\<close> until it is made.  An event whose handling never returns, because the supervisor waits, is \<^term>\<open>None\<close>.
\<close>

section \<open>State\<close>

datatype coord_call = CallRegister Device | CallRelease string | CallUpdate Device

record App =
  app_registry :: Registry
  app_sup :: Supervisor
  app_coord :: Coordinator_Client.Client
  app_calls :: "coord_call list"
  app_pushed :: "string list"
  app_heartbeat :: bool

definition New_App :: "Supervisor \<Rightarrow> string \<Rightarrow> App" where
  "New_App sv providerID =
     \<lparr>app_registry = New_Registry, app_sup = sv, app_coord = New_Client providerID, app_calls = [], app_pushed = [], app_heartbeat = False\<rparr>"

text \<open>
  \<^verbatim>\<open>detectProviderIP\<close>: the environment, the local address of an outbound connection, the addresses of the interfaces with
  whether they are loopback and IPv4, and the answer of the resolver.
\<close>

definition outbound_ip :: "string option \<Rightarrow> string option" where
  "outbound_ip outbound =
     (case outbound of Some ip \<Rightarrow> if ip \<noteq> '''' \<and> ip \<noteq> ''127.0.0.1'' then Some ip else None | None \<Rightarrow> None)"

definition interface_ip :: "(string \<times> bool \<times> bool) list option \<Rightarrow> string option" where
  "interface_ip addrs =
     (case addrs of
        None \<Rightarrow> None
      | Some as \<Rightarrow> map_option fst (find (\<lambda>(ip, loopback, v4). \<not> loopback \<and> v4) as))"

definition detectProviderIP :: "string \<Rightarrow> (string \<Rightarrow> string) \<Rightarrow> string option \<Rightarrow> (string \<times> bool \<times> bool) list option \<Rightarrow> string list option \<Rightarrow> string" where
  "detectProviderIP cfgIP env outbound addrs docker =
     (if cfgIP \<noteq> '''' then cfgIP
      else (case find (\<lambda>k. env k \<noteq> '''') [''HOST_IP'', ''PROVIDER_IP'', ''PROVIDER_PROVIDER_IP''] of
              Some k \<Rightarrow> env k
            | None \<Rightarrow>
                (case outbound_ip outbound of
                   Some ip \<Rightarrow> ip
                 | None \<Rightarrow>
                     (case interface_ip addrs of
                        Some ip \<Rightarrow> ip
                      | None \<Rightarrow> (case docker of Some (ip # _) \<Rightarrow> ip | _ \<Rightarrow> ''127.0.0.1'')))))"

text \<open>\<^verbatim>\<open>Run\<close> up to its loop: the connection, the registration, whose error is only logged, and the start of the heartbeat.\<close>

definition Run_start :: "string option \<Rightarrow> string \<Rightarrow> string option \<Rightarrow> 's stub \<Rightarrow> Provider \<Rightarrow> App \<Rightarrow> 's \<Rightarrow> (App \<times> 's) outcome" where
  "Run_start dialOpts address newClient st provider a s =
     (case Connect dialOpts address newClient (app_coord a) of
        (Some _, c) \<Rightarrow> Return (a\<lparr>app_coord := c\<rparr>, s)
      | (None, c) \<Rightarrow>
          (case Coordinator_Client.RegisterProvider st provider c s of
             Panic \<Rightarrow> Panic
           | Return (_, c, s) \<Rightarrow> Return (a\<lparr>app_coord := c, app_heartbeat := True\<rparr>, s)))"

section \<open>Events\<close>

definition onDeviceConnected :: "DeviceEvent \<Rightarrow> App \<Rightarrow> App" where
  "onDeviceConnected event a =
     (case ev_Device event of
        None \<Rightarrow> a
      | Some d \<Rightarrow>
          (case Add (app_registry a) d of
             (Some _, _) \<Rightarrow> a
           | (None, reg) \<Rightarrow>
               a\<lparr>app_registry := reg,
                 app_pushed := app_pushed a @ (if strings_EqualFold (dev_Platform d) ''android'' then [dev_Serial d] else []),
                 app_sup := OnDeviceConnected (app_sup a) d,
                 app_calls := app_calls a @ [CallRegister d]\<rparr>))"

definition onDeviceDisconnected :: "os_results \<Rightarrow> string \<Rightarrow> App \<Rightarrow> App option" where
  "onDeviceDisconnected os serial a =
     (case OnDeviceDisconnected os (app_sup a) serial of
        None \<Rightarrow> None
      | Some sv \<Rightarrow> Some (a\<lparr>app_registry := snd (Remove (app_registry a) serial), app_sup := sv,
          app_calls := app_calls a @ [CallRelease serial]\<rparr>))"

definition handleEvent :: "os_results \<Rightarrow> DeviceEvent \<Rightarrow> App \<Rightarrow> App option" where
  "handleEvent os event a =
     (if ev_Type event = EventConnected then Some (onDeviceConnected event a)
      else if ev_Type event = EventDisconnected then onDeviceDisconnected os (ev_Serial event) a
      else Some a)"

definition handleSupervisorEvent :: "SupervisorEvent \<Rightarrow> App \<Rightarrow> App" where
  "handleSupervisorEvent e a =
     (case se_Device e of None \<Rightarrow> a | Some d \<Rightarrow> a\<lparr>app_calls := app_calls a @ [CallUpdate d]\<rparr>)"

text \<open>
  \<^verbatim>\<open>drainAndCleanup\<close>: the table is ranged over in the given order; the result of closing the connection is ignored.
\<close>

definition drainAndCleanup :: "os_results \<Rightarrow> string list \<Rightarrow> string option \<Rightarrow> App \<Rightarrow> App option" where
  "drainAndCleanup os serials closeErr a =
     (case StopAll os (app_sup a) serials of
        None \<Rightarrow> None
      | Some sv \<Rightarrow> Some (a\<lparr>app_sup := sv, app_coord := snd (snd (Disconnect closeErr (app_coord a)))\<rparr>))"

text \<open>A goroutine gets to make its call; an error is logged.\<close>

definition make_call :: "(FileSystemInfo \<Rightarrow> string) \<Rightarrow> (string list \<Rightarrow> string) \<Rightarrow> 's stub \<Rightarrow> coord_call \<Rightarrow> Coordinator_Client.Client \<Rightarrow> 's \<Rightarrow>
    (string option \<times> Coordinator_Client.Client \<times> 's) outcome" where
  "make_call fsJSON brJSON st call c s =
     (case call of
        CallRegister d \<Rightarrow> Coordinator_Client.RegisterDevice st d c s
      | CallRelease serial \<Rightarrow> Coordinator_Client.ReleaseDevice st serial c s
      | CallUpdate d \<Rightarrow> Coordinator_Client.UpdateDeviceState fsJSON brJSON st d c s)"

section \<open>The admin socket\<close>

text \<open>
  \<^verbatim>\<open>handleAdminConn\<close> over the lines it reads: the answers, and the provider after it.  Half a second lies between the two
  halves of a reset; here nothing else happens in it.
\<close>

definition reset_device :: "os_results \<Rightarrow> instant \<Rightarrow> string \<Rightarrow> App \<Rightarrow> (bool \<times> App) option" where
  "reset_device os now serial a =
     (case Get (app_registry a) serial of
        Inl _ \<Rightarrow> Some (False, a)
      | Inr dev \<Rightarrow>
          (case onDeviceDisconnected os serial a of
             None \<Rightarrow> None
           | Some a \<Rightarrow> Some (True, onDeviceConnected \<lparr>ev_Serial = serial, ev_Type = EventConnected, ev_Device = Some dev, ev_Timestamp = now\<rparr> a)))"

fun handleAdminConn :: "os_results \<Rightarrow> instant \<Rightarrow> string list \<Rightarrow> App \<Rightarrow> string list \<Rightarrow> (string list \<times> App) option" where
  "handleAdminConn os now [] a replies = Some (replies, a)"
| "handleAdminConn os now (line # lines) a replies =
     (let line = strings_TrimSpace line in
      if line = '''' then handleAdminConn os now lines a replies
      else (case strings_Fields line of
              cmd # serial # _ \<Rightarrow>
                if cmd = ''reset'' then
                  (case reset_device os now serial a of
                     None \<Rightarrow> None
                   | Some (False, a) \<Rightarrow> handleAdminConn os now lines a (replies @ [''ERROR: device '' @ serial @ '' not found in registry''])
                   | Some (True, a) \<Rightarrow> Some (replies @ [''SUCCESS: device '' @ serial @ '' supervisor restarted''], a))
                else handleAdminConn os now lines a (replies @ [''ERROR: unknown command '' @ strconv_Quote cmd @ ''. Supported: reset <serial>''])
            | _ \<Rightarrow> handleAdminConn os now lines a (replies @ [''ERROR: invalid command. Use: reset <serial>''])))"

section \<open>The registry and the supervisor agree\<close>

text \<open>
  The provider as a step relation: events, telemetry, resets, remote calls that claim, activate and release, the goroutines
  of the supervisor, and the calls to the coordinator, in any order.
\<close>

inductive app_step :: "'s stub \<Rightarrow> App \<Rightarrow> App \<Rightarrow> bool" for st :: "'s stub" where
  event: "handleEvent os e a = Some a' \<Longrightarrow> app_step st a a'"
| telemetry: "app_step st a (handleSupervisorEvent e a)"
| reset: "reset_device os now serial a = Some (ok, a') \<Longrightarrow> app_step st a a'"
| run: "app_step st a (a\<lparr>app_sup := run_device (app_sup a) serial\<rparr>)"
| claim: "newID \<noteq> '''' \<Longrightarrow> app_step st a (a\<lparr>app_sup := snd (Supervisor_Claim os (app_registry a) newID (app_sup a) serial)\<rparr>)"
| activate: "app_step st a (a\<lparr>app_sup := snd (Supervisor_Activate (app_sup a) serial)\<rparr>)"
| release: "Supervisor_Release os (app_sup a) serial = Some (res, sv) \<Longrightarrow> app_step st a (a\<lparr>app_sup := sv\<rparr>)"
| call: "app_calls a = xs @ x # ys \<Longrightarrow> make_call fsJSON brJSON st x (app_coord a) s = Return (e, c, s') \<Longrightarrow>
    app_step st a (a\<lparr>app_coord := c, app_calls := xs @ ys\<rparr>)"

inductive app_reachable :: "'s stub \<Rightarrow> App \<Rightarrow> bool" for st :: "'s stub" where
  start: "New_Supervisor providerID minPort maxPort = Inr sv \<Longrightarrow> app_reachable st (New_App sv providerID)"
| step: "app_reachable st a \<Longrightarrow> app_step st a a' \<Longrightarrow> app_reachable st a'"

definition app_inv :: "App \<Rightarrow> bool" where
  "app_inv a \<longleftrightarrow> sup_reachable (app_sup a) \<and> reg_inv (app_registry a) \<and> dom (reg_devices (app_registry a)) = dom (sup_devices (app_sup a))"

lemma app_inv_sup:
  "app_inv a \<Longrightarrow> sup_step (app_sup a) sv \<Longrightarrow> dom (sup_devices sv) = dom (sup_devices (app_sup a)) \<Longrightarrow> app_inv (a\<lparr>app_sup := sv\<rparr>)"
  by (auto simp: app_inv_def intro: sup_reachable.step)

lemma app_inv_connected [inv_intro]: "app_inv a \<Longrightarrow> app_inv (onDeviceConnected e a)"
proof -
  assume a: "app_inv a"
  show ?thesis
  proof (cases "ev_Device e")
    case (Some d)
    show ?thesis
    proof (cases "reg_devices (app_registry a) (dev_Serial d)")
      case None
      with a have "sup_devices (app_sup a) (dev_Serial d) = None" by (metis app_inv_def domIff)
      with a None Some show ?thesis
        using reg_inv_Add [of "app_registry a" d] sup_reachable.step [OF _ sup_step.connect, of "app_sup a" d]
        by (simp add: app_inv_def onDeviceConnected_def Add_def OnDeviceConnected_def)
    qed (use a Some in \<open>simp add: onDeviceConnected_def Add_def\<close>)
  qed (use a in \<open>simp add: onDeviceConnected_def\<close>)
qed

lemma OnDeviceDisconnected_dom:
  "OnDeviceDisconnected os sv serial = Some sv' \<Longrightarrow> dom (sup_devices sv') = dom (sup_devices sv) - {serial}"
  by (auto simp: OnDeviceDisconnected_def Let_def split: option.splits if_splits)

lemma Remove_dom: "dom (reg_devices (snd (Remove reg serial))) = dom (reg_devices reg) - {serial}"
  by (auto simp: Remove_def split: option.splits)

lemma app_inv_disconnected [inv_intro]: "app_inv a \<Longrightarrow> onDeviceDisconnected os serial a = Some a' \<Longrightarrow> app_inv a'"
proof -
  assume a: "app_inv a" and "onDeviceDisconnected os serial a = Some a'"
  then obtain sv where d: "OnDeviceDisconnected os (app_sup a) serial = Some sv"
    and a': "a' = a\<lparr>app_registry := snd (Remove (app_registry a) serial), app_sup := sv, app_calls := app_calls a @ [CallRelease serial]\<rparr>"
    by (auto simp: onDeviceDisconnected_def split: option.splits)
  from a have "sup_reachable sv" by (auto simp: app_inv_def intro: sup_reachable.step sup_step.disconnect [OF d])
  with a a' OnDeviceDisconnected_dom [OF d] reg_inv_Remove show ?thesis by (simp add: app_inv_def Remove_dom)
qed

lemma app_inv_event [inv_intro]: "app_inv a \<Longrightarrow> handleEvent os e a = Some a' \<Longrightarrow> app_inv a'"
  by (auto simp: handleEvent_def split: if_splits intro: inv_intro)

lemma app_inv_reset [inv_intro]: "app_inv a \<Longrightarrow> reset_device os now serial a = Some (ok, a') \<Longrightarrow> app_inv a'"
  by (auto simp: reset_device_def split: sum.splits option.splits intro: inv_intro)

lemma sup_ops_dom:
  "dom (sup_devices (run_device sv serial)) = dom (sup_devices sv)"
  "dom (sup_devices (snd (Supervisor_Claim os reg newID sv serial))) = dom (sup_devices sv)"
  "dom (sup_devices (snd (Supervisor_Activate sv serial))) = dom (sup_devices sv)"
  "Supervisor_Release os sv serial = Some (res, sv') \<Longrightarrow> dom (sup_devices sv') = dom (sup_devices sv)"
  by (auto simp: run_device_def Supervisor_Claim_def Supervisor_Activate_def Supervisor_Release_def get_def put_def
    split: option.splits prod.splits if_splits)

lemma app_step_inv: "app_step st a a' \<Longrightarrow> app_inv a \<Longrightarrow> app_inv a'"
proof (induction rule: app_step.induct)
  case (telemetry a e)
  then show ?case by (simp add: handleSupervisorEvent_def app_inv_def split: option.splits)
next
  case (run a serial)
  then show ?case by (intro app_inv_sup sup_step.run) (simp_all add: sup_ops_dom)
next
  case (claim newID a os serial)
  then show ?case by (intro app_inv_sup sup_step.claim) (simp_all add: sup_ops_dom)
next
  case (activate a serial)
  then show ?case by (intro app_inv_sup sup_step.activate) (simp_all add: sup_ops_dom)
next
  case (release os a serial res sv)
  then show ?case by (intro app_inv_sup sup_step.release) (simp_all add: sup_ops_dom)
next
  case (call a xs x ys fsJSON brJSON s e c s')
  then show ?case by (simp add: app_inv_def)
qed (auto intro: inv_intro)

lemma app_reachable_inv: "app_reachable st a \<Longrightarrow> app_inv a"
proof (induction rule: app_reachable.induct)
  case (start providerID minPort maxPort sv)
  then have "sup_devices sv = Map.empty" by (auto simp: New_Supervisor_def split: sum.splits)
  with start show ?case
    by (auto simp: app_inv_def New_App_def New_Registry_def reg_inv_def intro: sup_reachable.start)
qed (rule app_step_inv)


definition ex_connected :: DeviceEvent where
  "ex_connected = \<lparr>ev_Serial = ''d1'', ev_Type = EventConnected, ev_Device = Some (ex_device ''d1'' ''android''), ev_Timestamp = 0\<rparr>"

definition ex_app :: App where
  "ex_app = onDeviceConnected ex_connected (New_App (ex_provider 7700) ''p1'')"

lemma ex_app_reachable: "app_reachable ex_stub ex_app"
proof -
  have "New_Supervisor ''p1'' 7400 7700 = Inr (ex_provider 7700)" by (simp add: ex_provider_def New_Supervisor_def NewPortAllocator_def)
  then have "app_reachable ex_stub (New_App (ex_provider 7700) ''p1'')" by (rule app_reachable.start)
  moreover have "handleEvent ex_os ex_connected (New_App (ex_provider 7700) ''p1'') = Some ex_app"
    by (simp add: handleEvent_def ex_app_def ex_connected_def)
  ultimately show ?thesis by (rule app_reachable.step [OF _ app_step.event])
qed


section \<open>The registry and the trackers\<close>

fun handle_events :: "(DeviceEvent \<Rightarrow> os_results) \<Rightarrow> DeviceEvent list \<Rightarrow> App \<Rightarrow> App option" where
  "handle_events os [] a = Some a"
| "handle_events os (e # es) a = (case handleEvent (os e) e a of None \<Rightarrow> None | Some a \<Rightarrow> handle_events os es a)"

lemma handleEvent_online:
  assumes "handleEvent os e a = Some a'" "carries_device e"
  shows "dom (reg_devices (app_registry a')) = online_step e (dom (reg_devices (app_registry a)))"
proof (cases "ev_Type e = EventConnected")
  case True
  with assms(2) obtain d where d: "ev_Device e = Some d" "dev_Serial d = ev_Serial e" by (auto simp: carries_device_def)
  with assms(1) True show ?thesis
    by (cases "reg_devices (app_registry a) (ev_Serial e)") (auto simp: handleEvent_def onDeviceConnected_def Add_def online_step_def)
next
  case False
  show ?thesis
  proof (cases "ev_Type e = EventDisconnected")
    case True
    with assms(1) False obtain sv where "a' = a\<lparr>app_registry := snd (Remove (app_registry a) (ev_Serial e)), app_sup := sv,
        app_calls := app_calls a @ [CallRelease (ev_Serial e)]\<rparr>"
      by (auto simp: handleEvent_def onDeviceDisconnected_def split: option.splits)
    with True False show ?thesis by (simp add: online_step_def Remove_dom)
  qed (use assms(1) False in \<open>simp add: handleEvent_def online_step_def\<close>)
qed

lemma handle_events_online:
  "handle_events os es a = Some a' \<Longrightarrow> list_all carries_device es \<Longrightarrow>
     dom (reg_devices (app_registry a')) = online es (dom (reg_devices (app_registry a)))"
  by (induction es arbitrary: a) (auto simp: handleEvent_online split: option.splits)

text \<open>What a listener knows of one device depends on its events alone.\<close>

lemma online_filter: "x \<in> online es K \<longleftrightarrow> x \<in> online (filter (\<lambda>e. ev_Serial e = x) es) K"
  by (induction es arbitrary: K rule: rev_induct) (auto simp: online_step_def)

lemma filter_shuffle_left:
  assumes "zs \<in> shuffles xs ys" "filter P ys = []"
  shows "filter P zs = filter P xs"
proof -
  have "filter P zs \<in> shuffles (filter P xs) (filter P ys)" using assms(1) unfolding filter_shuffles [symmetric] by (rule imageI)
  with assms(2) show ?thesis by simp
qed

lemma online_shuffle:
  assumes z: "zs \<in> shuffles xs ys" and apart: "ev_Serial ` set xs \<inter> ev_Serial ` set ys = {}"
  shows "online zs {} = online xs {} \<union> online ys {}"
proof (intro set_eqI)
  fix s
  let ?P = "\<lambda>e. ev_Serial e = s"
  have none: "s \<notin> online es {}" if "filter ?P es = []" for es using online_filter [of s es "{}"] that by simp
  show "s \<in> online zs {} \<longleftrightarrow> s \<in> online xs {} \<union> online ys {}"
  proof (cases "filter ?P ys = []")
    case True
    with filter_shuffle_left [OF z True] none [OF True] show ?thesis
      using online_filter [of s zs "{}"] online_filter [of s xs "{}"] by simp
  next
    case False
    with apart have "filter ?P xs = []" by (auto simp: filter_empty_conv)
    moreover have "zs \<in> shuffles ys xs" using z by (simp add: shuffles_commutes)
    ultimately show ?thesis
      using filter_shuffle_left [of zs ys xs ?P] none [of xs] online_filter [of s zs "{}"] online_filter [of s ys "{}"] by simp
  qed
qed

definition reads_properties :: "tracker_env \<Rightarrow> bool" where
  "reads_properties env \<longleftrightarrow> (\<forall>now serial. \<exists>d. te_fetch env now serial = Inr d \<and> dev_Serial d = serial)"

lemma diff_addition_carries:
  assumes "reads_properties env" "e \<in> set (diff_addition env now current previous serial)"
  shows "carries_device e"
proof -
  from assms(1) obtain d where "te_fetch env now serial = Inr d" "dev_Serial d = serial" by (auto simp: reads_properties_def)
  with assms(2) show ?thesis
    by (cases "current serial") (auto simp: diff_addition_def emitConnected_def emitSimple_def carries_device_def event_defs split: if_splits)
qed

lemma diff_carries: "reads_properties env \<Longrightarrow> e \<in> set (diff env now current previous) \<Longrightarrow> carries_device e"
proof -
  assume env: "reads_properties env" and "e \<in> set (diff env now current previous)"
  then consider s where "e \<in> set (diff_addition env now current previous s)" | s where "e \<in> set (diff_removal env now current s)"
    unfolding diff_def by auto
  then show ?thesis
    by cases (use diff_addition_carries [OF env] in \<open>auto simp: diff_removal_def emitSimple_def carries_device_def event_defs split: if_splits\<close>)
qed

lemma stream_carries:
  "stream env now bytes previous = (evs, seen, p) \<Longrightarrow> reads_properties env \<Longrightarrow> list_all carries_device evs"
proof (induction env now bytes previous arbitrary: evs rule: stream.induct)
  case (1 env now bytes previous)
  show ?case
  proof (cases "read_frame bytes")
    case (Frame payload rest)
    obtain evs' where r: "stream env (now + 1) rest (parseDeviceSnapshot payload) = (evs', seen, p)"
      "evs = diff env now (parseDeviceSnapshot payload) previous @ evs'"
      using 1(2) Frame by (auto simp: stream.simps [of env now bytes] Let_def split: prod.splits)
    from 1(1) [OF Frame refl r(1) 1(3)] r(2) diff_carries [OF 1(3)] show ?thesis by (auto simp: list_all_iff)
  qed (use 1 in \<open>auto simp: stream.simps [of env now bytes]\<close>)
qed


lemma handle_events_connects: "list_all (\<lambda>e. ev_Type e \<noteq> EventDisconnected) es \<Longrightarrow> \<exists>a'. handle_events os es a = Some a'"
  by (induction es arbitrary: a) (auto simp: handleEvent_def)

definition ex_reader :: tracker_env where
  "ex_reader = ex_tracker\<lparr>te_fetch := (\<lambda>_ serial. Inr (ex_device serial ''android''))\<rparr>"

lemma ex_reader_ok: "never_full ex_reader" "ranges ex_reader" "reads_properties ex_reader"
  by (simp_all add: never_full_def ranges_def reads_properties_def ex_reader_def ex_tracker_def ex_device_def)

lemma ex_reader_stream:
  "stream ex_reader 0 ex_bytes Map.empty =
     ([simple_event 0 ''A'' EventConnected (Some (ex_device ''A'' ''android'')), simple_event 1 ''A'' EventOffline None], [''A'' \<mapsto> ''offline''], False)"
  by (simp add: stream.simps [of _ _ ex_bytes] stream.simps [of _ _ ex_rest] stream.simps [of _ _ "[]"] ex_frames ex_snapshots Let_def
    diff_def diff_addition_def diff_removal_def emitConnected_def emitSimple_def ex_reader_def ex_tracker_def simple_event_def)


section \<open>The coordinator's view\<close>

definition offline_row :: "string \<Rightarrow> Server \<Rightarrow> bool" where
  "offline_row serial S \<longleftrightarrow> (\<forall>r \<in> set (t_devices (db_tables (sv_db S))). dr_serial r = serial \<longrightarrow> dr_status r = ''offline'')"

lemma ping_other:
  "serial \<noteq> s \<Longrightarrow> (\<forall>r \<in> set (t_devices (db_tables d)). dr_serial r = serial \<longrightarrow> dr_status r = ''offline'') \<Longrightarrow>
   \<forall>r \<in> set (t_devices (db_tables (snd (UpdateDeviceHeartbeat d s)))). dr_serial r = serial \<longrightarrow> dr_status r = ''offline''"
  by (auto simp: UpdateDeviceHeartbeat_def stmt_defs split: list.splits)

lemma ping_devices_other:
  "serial \<notin> set ss \<Longrightarrow> (\<forall>r \<in> set (t_devices (db_tables d)). dr_serial r = serial \<longrightarrow> dr_status r = ''offline'') \<Longrightarrow>
   \<forall>r \<in> set (t_devices (db_tables (ping_devices d ss))). dr_serial r = serial \<longrightarrow> dr_status r = ''offline''"
proof (induction ss arbitrary: d)
  case (Cons s ss)
  from Cons.prems have "serial \<noteq> s" "serial \<notin> set ss" by auto
  from Cons.IH [OF this(2) ping_other [OF this(1) Cons.prems(2)]] show ?case by simp
qed simp

lemma offline_row_pings:
  assumes "offline_row serial S" "serial \<notin> set ss"
  shows "offline_row serial (((\<lambda>S. processPing S ss) ^^ n) S)"
proof (induction n)
  case (Suc n)
  from ping_devices_other [OF assms(2) Suc [unfolded offline_row_def]] show ?case
    by (simp add: offline_row_def processPing_def)
qed (use assms in simp)

lemma updated_status:
  assumes "x \<in> set (update_where (\<lambda>r. dr_serial r = s) (\<lambda>r. r\<lparr>dr_status := st, dr_updated_at := n\<rparr>) rows)" "dr_serial x = s"
  shows "dr_status x = st"
proof -
  obtain y where "x = (if dr_serial y = s then y\<lparr>dr_status := st, dr_updated_at := n\<rparr> else y)"
    using assms(1) unfolding set_update_where by blast
  with assms(2) show ?thesis by (cases "dr_serial y = s") simp_all
qed

lemma ReleaseDevice_offline:
  assumes "cc_stub c" "db_faults (sv_db S) = []"
  shows "\<exists>S'. Coordinator_Client.ReleaseDevice (served msg newID now) serial c S = Return (None, removeSerial serial c, S') \<and> offline_row serial S'"
proof -
  let ?db = "sv_db S\<lparr>db_tables := (db_tables (sv_db S))\<lparr>t_devices := update_where (\<lambda>r. dr_serial r = serial)
      (\<lambda>r. r\<lparr>dr_status := ''offline'', dr_updated_at := db_now (sv_db S)\<rparr>) (t_devices (db_tables (sv_db S)))\<rparr>\<rparr>"
  have db: "Database.ReleaseDevice (sv_db S) serial = (None, ?db)"
    using assms(2) by (simp add: Database.ReleaseDevice_def exec_def next_fault_def update_device_def)
  have rows: "\<forall>r \<in> set (t_devices (db_tables ?db)). dr_serial r = serial \<longrightarrow> dr_status r = ''offline''"
    using updated_status [of _ serial "db_now (sv_db S)" "''offline''" "t_devices (db_tables (sv_db S))"] by simp
  show ?thesis
    using assms(1) rows
    by (simp add: Coordinator_Client.ReleaseDevice_def invoke_def served_def accept_or_def grpc_ReleaseDevice_def db offline_row_def)
qed

lemma exec_ok: "db_faults d = [] \<Longrightarrow> exec q d = (case q (db_tables d) of Inl e \<Rightarrow> (Some e, d) | Inr t \<Rightarrow> (None, d\<lparr>db_tables := t\<rparr>))"
  by (simp add: exec_def next_fault_def)

lemma query_ok: "db_faults d = [] \<Longrightarrow> query q d = (q (db_tables d), d)"
  by (simp add: query_def next_fault_def)

lemma ensure_public_group_ok: "db_faults d = [] \<Longrightarrow> \<exists>g d'. ensure_public_group newID d = (Inr g, d') \<and> db_faults d' = []"
  by (auto simp: ensure_public_group_def query_ok exec_ok select_public_group_def row_with_def split: option.splits sum.splits)

lemma broadcast_lists_faults: "db_faults d = [] \<Longrightarrow> db_faults (fst (broadcast_lists d m cs)) = []"
  by (induction d m cs rule: broadcast_lists.induct) (simp_all add: getDevicesList_def query_ok)

lemma broadcastFullList_faults: "db_faults (sv_db S) = [] \<Longrightarrow> db_faults (sv_db (broadcastFullList S)) = []"
  using broadcast_lists_faults [of "sv_db S" "sv_ws S" "wm_clients (sv_ws S)"] by (auto simp: broadcastFullList_def split: prod.splits)

lemma Database_RegisterDevice_ok:
  assumes "db_faults d = []" "ip \<in> set (map pr_ip (t_providers (db_tables d)))"
  shows "\<exists>d'. Database.RegisterDevice newID d ip serial model man android sdk abi ram storage w h dpi bat wifi devIp conn = (None, d') \<and> db_faults d' = []"
proof -
  have up: "\<exists>t. upsert_device row (db_tables d) = Inr t" if "dr_provider_ip row = ip" for row
    using assms(2) that by (simp add: upsert_device_def)
  have groups: "db_faults (snd (exec q e)) = []" if "db_faults e = []" for q e
    using that by (simp add: exec_ok split: sum.splits)
  obtain row where row: "dr_provider_ip row = ip" and "Database.RegisterDevice newID d ip serial model man android sdk abi ram storage w h dpi bat wifi devIp conn =
      (case exec (upsert_device row) d of
            (Some e, d) \<Rightarrow> (Some e, d)
          | (None, d) \<Rightarrow>
              (case ensure_public_group newID d of
                 (Inl e, d) \<Rightarrow> (Some e, d)
               | (Inr g, d) \<Rightarrow> (None, snd (exec (insert_device_groups [(serial, g)]) d))))"
    unfolding Database.RegisterDevice_def Let_def by (metis (no_types, lifting) Device_row.select_convs(2))
  moreover obtain t where "upsert_device row (db_tables d) = Inr t" using up [OF row] by blast
  moreover obtain g d' where "ensure_public_group newID (d\<lparr>db_tables := t\<rparr>) = (Inr g, d')" "db_faults d' = []"
    using ensure_public_group_ok [of "d\<lparr>db_tables := t\<rparr>" newID] assms(1) by auto
  ultimately show ?thesis using groups assms(1) by (simp add: exec_ok)
qed
lemma RegisterDevice_accepted:
  assumes "cc_stub c" "db_faults (sv_db S) = []" "cc_providerID c \<in> set (map pr_ip (t_providers (db_tables (sv_db S))))"
  shows "\<exists>S'. Coordinator_Client.RegisterDevice (served msg newID now) d c S = Return (None, addSerial (dev_Serial d) c, S') \<and> db_faults (sv_db S') = []"
proof -
  let ?r = "device_request (cc_providerID c) d"
  obtain db' where db: "Database.RegisterDevice newID (sv_db S) (cc_providerID c) (rd_Serial ?r) (rd_Model ?r) (rd_Manufacturer ?r) (rd_Android ?r) (rd_Sdk ?r)
      (rd_Abi ?r) (rd_RamMb ?r) (rd_StorageMb ?r) (rd_DisplayWidth ?r) (rd_DisplayHeight ?r) (rd_DisplayDpi ?r) (rd_Battery ?r) (rd_WifiSsid ?r)
      (rd_Ip ?r) (dev_ConnectedAt d) = (None, db')" "db_faults db' = []"
    using Database_RegisterDevice_ok [OF assms(2,3)] by blast
  have "rd_ProviderId ?r = cc_providerID c" "rd_ConnectedAt ?r = Some (dev_ConnectedAt d)" by (simp_all add: device_request_def)
  with db(1) have "grpc_RegisterDevice newID now S ?r = (None, broadcastFullList (with_db S db'))"
    by (simp add: grpc_RegisterDevice_def)
  then show ?thesis
    using assms(1) db(2) by (auto simp: Coordinator_Client.RegisterDevice_def invoke_def served_def accept_or_def answered_def
      intro: broadcastFullList_faults)
qed

text \<open>
  The two calls that tell the coordinator of a disconnection and of the reconnection that follows it run in goroutines of
  their own.  When the second overtakes the first, the provider lists and serves the device, but the coordinator
  shows it as offline, and no later heartbeat brings it back, because the client no longer lists it.
\<close>

theorem late_release_hides_device:
  assumes events: "ev_Type gone = EventDisconnected" "ev_Serial gone = serial" "ev_Type back = EventConnected"
      "ev_Device back = Some d" "dev_Serial d = serial"
    and loop: "handle_events os [gone, back] a = Some a'" and calls: "app_calls a = []"
    and client: "cc_stub (app_coord a)" "distinct (cc_serials (app_coord a))"
    and db: "db_faults (sv_db S) = []" "cc_providerID (app_coord a) \<in> set (map pr_ip (t_providers (db_tables (sv_db S))))"
  shows "app_calls a' = [CallRelease serial, CallRegister d] \<and> Get (app_registry a') serial = Inr d \<and>
    (\<exists>c1 S1 c2 S2. make_call fsJSON brJSON (served msg newID now) (CallRegister d) (app_coord a') S = Return (None, c1, S1) \<and>
       make_call fsJSON brJSON (served msg newID now) (CallRelease serial) c1 S1 = Return (None, c2, S2) \<and>
       serial \<notin> set (cc_serials c2) \<and> (\<forall>n. offline_row serial (((\<lambda>S. processPing S (cc_serials c2)) ^^ n) S2)))"
proof -
  obtain b where b: "onDeviceDisconnected (os gone) serial a = Some b" and a': "a' = onDeviceConnected back b"
    using loop events by (auto simp: handleEvent_def event_defs split: option.splits)
  from b have b': "reg_devices (app_registry b) serial = None" "app_calls b = [CallRelease serial]" "app_coord b = app_coord a"
    using calls Remove_dom [of "app_registry a" serial] by (auto simp: onDeviceDisconnected_def split: option.splits)
  with a' events have a'': "app_calls a' = [CallRelease serial, CallRegister d]" "Get (app_registry a') serial = Inr d" "app_coord a' = app_coord a"
    by (simp_all add: onDeviceConnected_def Add_def Get_def)
  let ?c = "addSerial serial (app_coord a)"
  from RegisterDevice_accepted [OF client(1) db, of msg newID now d] events(5) a''(3) obtain S1 where
    reg: "make_call fsJSON brJSON (served msg newID now) (CallRegister d) (app_coord a') S = Return (None, ?c, S1)"
    and S1: "db_faults (sv_db S1) = []" by (auto simp: make_call_def)
  have stub: "cc_stub ?c" and dist: "distinct (cc_serials ?c)"
    using client by (simp_all add: distinct_addSerial) (simp add: addSerial_def)
  from ReleaseDevice_offline [OF stub S1, of msg newID now serial] obtain S2 where
    rel: "make_call fsJSON brJSON (served msg newID now) (CallRelease serial) ?c S1 = Return (None, removeSerial serial ?c, S2)"
    and off: "offline_row serial S2" by (auto simp: make_call_def)
  have gone: "serial \<notin> set (cc_serials (removeSerial serial ?c))" by (simp add: set_removeSerial [OF dist])
  from a'' reg rel gone offline_row_pings [OF off gone] show ?thesis by blast
qed

text \<open>A phone that the provider serves, and the coordinator that knows the provider and the phone.\<close>

definition ex_served :: App where
  "ex_served = (New_App (run_device (OnDeviceConnected (ex_provider 7700) (ex_device ''d1'' ''android'')) ''d1'') ''10.0.0.1'')
     \<lparr>app_registry := \<lparr>reg_devices = [''d1'' \<mapsto> ex_device ''d1'' ''android'']\<rparr>,
      app_coord := \<lparr>cc_providerID = ''10.0.0.1'', cc_conn = Some Live, cc_stub = True, cc_hbCancel = Some 0, cc_hbStream = Some 0, cc_serials = [''d1'']\<rparr>\<rparr>"

definition ex_known :: Server where
  "ex_known = with_db ex_server \<lparr>db_tables = empty_tables\<lparr>t_providers := [\<lparr>pr_ip = ''10.0.0.1'', pr_name = ''lab'', pr_host = ''h'', pr_min_port = 7400,
     pr_max_port = 7700, pr_version = ''dev'', pr_updated_at = 0\<rparr>], t_devices := [ex_row ''d1'' ''idle'' 3]\<rparr>, db_faults = [], db_now = 9\<rparr>"

definition ex_gone :: DeviceEvent where
  "ex_gone = simple_event 1 ''d1'' EventDisconnected None"

lemma ex_served_disconnects: "\<exists>sv. OnDeviceDisconnected ex_os (app_sup ex_served) ''d1'' = Some sv"
  by (simp add: ex_served_def New_App_def ex_provider_def New_Supervisor_def NewPortAllocator_def OnDeviceConnected_def run_device_def
    OnDeviceDisconnected_def Device_Supervisor.Stop_def teardown_def stop_capture_def StopCapture_def bg_delete_def ex_defs Let_def)

theorem late_release_hides_device_witness:
  "\<exists>a'. handle_events (\<lambda>_. ex_os) [ex_gone, ex_connected] ex_served = Some a' \<and>
     app_calls a' = [CallRelease ''d1'', CallRegister (ex_device ''d1'' ''android'')] \<and>
     Get (app_registry a') ''d1'' = Inr (ex_device ''d1'' ''android'') \<and>
     (\<exists>c1 S1 c2 S2. make_call (\<lambda>_. '''') (\<lambda>_. '''') (served (\<lambda>_. '''') ''g1'' 9) (CallRegister (ex_device ''d1'' ''android'')) (app_coord a') ex_known =
          Return (None, c1, S1) \<and>
        make_call (\<lambda>_. '''') (\<lambda>_. '''') (served (\<lambda>_. '''') ''g1'' 9) (CallRelease ''d1'') c1 S1 = Return (None, c2, S2) \<and>
        ''d1'' \<notin> set (cc_serials c2) \<and> offline_row ''d1'' (processPing S2 (cc_serials c2)))"
proof -
  obtain sv where sv: "OnDeviceDisconnected ex_os (app_sup ex_served) ''d1'' = Some sv" using ex_served_disconnects by blast
  then obtain a' where loop: "handle_events (\<lambda>_. ex_os) [ex_gone, ex_connected] ex_served = Some a'"
    by (simp add: handleEvent_def onDeviceDisconnected_def ex_gone_def ex_connected_def simple_event_def event_defs)
  have app: "app_calls ex_served = []" "cc_stub (app_coord ex_served)" "distinct (cc_serials (app_coord ex_served))"
    and db: "db_faults (sv_db ex_known) = []" "cc_providerID (app_coord ex_served) \<in> set (map pr_ip (t_providers (db_tables (sv_db ex_known))))"
    by (simp_all add: ex_served_def New_App_def ex_known_def)
  have "ev_Type ex_gone = EventDisconnected" "ev_Serial ex_gone = ''d1''" "ev_Type ex_connected = EventConnected"
    "ev_Device ex_connected = Some (ex_device ''d1'' ''android'')" "dev_Serial (ex_device ''d1'' ''android'') = ''d1''"
    by (simp_all add: ex_gone_def ex_connected_def simple_event_def ex_device_def)
  from late_release_hides_device [OF this loop app db, of "\<lambda>_. ''''" "\<lambda>_. ''''" "\<lambda>_. ''''" "''g1''" 9] obtain c1 S1 c2 S2 where
    r: "app_calls a' = [CallRelease ''d1'', CallRegister (ex_device ''d1'' ''android'')]" "Get (app_registry a') ''d1'' = Inr (ex_device ''d1'' ''android'')"
      "make_call (\<lambda>_. '''') (\<lambda>_. '''') (served (\<lambda>_. '''') ''g1'' 9) (CallRegister (ex_device ''d1'' ''android'')) (app_coord a') ex_known = Return (None, c1, S1)"
      "make_call (\<lambda>_. '''') (\<lambda>_. '''') (served (\<lambda>_. '''') ''g1'' 9) (CallRelease ''d1'') c1 S1 = Return (None, c2, S2)" "''d1'' \<notin> set (cc_serials c2)"
    and off: "\<And>n. offline_row ''d1'' (((\<lambda>S. processPing S (cc_serials c2)) ^^ n) S2)" by blast
  from off [of 1] have "offline_row ''d1'' (processPing S2 (cc_serials c2))" by simp
  with loop r show ?thesis by blast
qed

text \<open>
  When the coordinator cannot be dialled at the start, nothing retries: the heartbeat loop, which the log announces, is
  not started, and the goroutine that registers the first device calls a client without a stub and panics, which
  ends the provider.
\<close>

theorem failed_connect_ends_provider:
  assumes connect: "Connect dialOpts address newClient (app_coord a) = (Some e, c)" and stub: "\<not> cc_stub (app_coord a)" "\<not> app_heartbeat a"
    and device: "ev_Type ev = EventConnected" "ev_Device ev = Some d" "reg_devices (app_registry a) (dev_Serial d) = None"
  shows "\<exists>a' a''. Run_start dialOpts address newClient st provider a S = Return (a', S) \<and> \<not> app_heartbeat a' \<and>
    handleEvent os ev a' = Some a'' \<and> CallRegister d \<in> set (app_calls a'') \<and> make_call fsJSON brJSON st (CallRegister d) (app_coord a'') S = Panic"
proof -
  have c: "c = app_coord a" using connect by (auto simp: Connect_def split: if_splits option.splits)
  have run: "Run_start dialOpts address newClient st provider a S = Return (a, S)" using connect c by (simp add: Run_start_def)
  have "handleEvent os ev a = Some (onDeviceConnected ev a)" using device(1) by (simp add: handleEvent_def)
  moreover have "CallRegister d \<in> set (app_calls (onDeviceConnected ev a))" "app_coord (onDeviceConnected ev a) = app_coord a"
    using device by (simp_all add: onDeviceConnected_def Add_def)
  moreover have "make_call fsJSON brJSON st (CallRegister d) (app_coord a) S = Panic"
    using stub by (simp add: make_call_def Coordinator_Client.RegisterDevice_def invoke_def)
  ultimately show ?thesis using run stub by auto
qed

theorem failed_connect_ends_provider_witness:
  "\<exists>a' a''. Run_start (Some ''load client cert/key: no such file'') ''coordinator:9000'' None ex_stub \<lparr>prov_ID = ''p1'', prov_Name = '''', prov_Host = '''',
      prov_IP = '''', prov_Version = ''dev'', prov_MinPort = 7400, prov_MaxPort = 7700\<rparr> (New_App (ex_provider 7700) ''p1'') 0 = Return (a', 0) \<and>
    \<not> app_heartbeat a' \<and> handleEvent ex_os ex_connected a' = Some a'' \<and> CallRegister (ex_device ''d1'' ''android'') \<in> set (app_calls a'') \<and>
    make_call (\<lambda>_. '''') (\<lambda>_. '''') ex_stub (CallRegister (ex_device ''d1'' ''android'')) (app_coord a'') 0 = Panic"
  by (rule failed_connect_ends_provider)
    (simp_all add: Connect_def New_App_def New_Client_def New_Registry_def ex_connected_def)

text \<open>
  When the coordinator cannot store that a device is gone, it answers so, but the client does not look at the answer: it
  reports success and stops listing the device, whose row keeps its status, so that the coordinator goes on offering a
  device that no provider has.
\<close>

theorem failed_release_is_forgotten:
  assumes "cc_stub c" "distinct (cc_serials c)" "Database.ReleaseDevice (sv_db S) serial = (Some e, db)"
  shows "Coordinator_Client.ReleaseDevice (served msg newID now) serial c S = Return (None, removeSerial serial c, with_db S db) \<and>
    serial \<notin> set (cc_serials (removeSerial serial c)) \<and> t_devices (db_tables db) = t_devices (db_tables (sv_db S))"
proof (intro conjI)
  show "Coordinator_Client.ReleaseDevice (served msg newID now) serial c S = Return (None, removeSerial serial c, with_db S db)"
    using assms by (simp add: Coordinator_Client.ReleaseDevice_def invoke_def served_def accept_or_def grpc_ReleaseDevice_def)
  show "serial \<notin> set (cc_serials (removeSerial serial c))" using set_removeSerial [OF assms(2)] by simp
  show "t_devices (db_tables db) = t_devices (db_tables (sv_db S))"
    using assms(3) by (auto simp: Database.ReleaseDevice_def exec_def next_fault_def update_device_def split: list.splits if_splits)
qed

theorem failed_release_is_forgotten_witness:
  "\<exists>db. Coordinator_Client.ReleaseDevice (served (\<lambda>_. '''') ''g1'' 9) ''d1'' (app_coord ex_served) (with_db ex_known (sv_db ex_known\<lparr>db_faults := [True]\<rparr>)) =
      Return (None, removeSerial ''d1'' (app_coord ex_served), with_db (with_db ex_known (sv_db ex_known\<lparr>db_faults := [True]\<rparr>)) db) \<and>
    t_devices (db_tables db) = [ex_row ''d1'' ''idle'' 3]"
proof -
  let ?S = "with_db ex_known (sv_db ex_known\<lparr>db_faults := [True]\<rparr>)"
  have "Database.ReleaseDevice (sv_db ?S) ''d1'' = (Some StatementFailed, sv_db ex_known\<lparr>db_faults := []\<rparr>)"
    by (simp add: Database.ReleaseDevice_def exec_def next_fault_def)
  from failed_release_is_forgotten [OF _ _ this, of "app_coord ex_served" "\<lambda>_. ''''" "''g1''" 9] show ?thesis
    by (auto simp: ex_served_def New_App_def ex_known_def)
qed

end
