(* ===== verification/IOS_Worker.thy ===== *)
theory IOS_Worker
  imports Supervisor Go_Strings
begin

text \<open>
  \<^verbatim>\<open>src/internal/supervisor/ios_worker.go\<close>: the processes that make an iOS device usable.  \<^verbatim>\<open>Start\<close> runs a tunnel, and once it is
  negotiated WebDriverAgent, two port forwards and a goroutine that creates a session.  Each goroutine is a state machine:
  it waits, or it runs its command or request, or it has returned.  The worker moves by the events of \<^verbatim>\<open>worker_event\<close>, in any
  order that \<^verbatim>\<open>worker_exec\<close> allows.  A command ends when its context is cancelled, because \<^verbatim>\<open>exec.CommandContext\<close> kills it, and a
  request then ends because the forwarding process is gone: ending is a step that is always possible.
\<close>

section \<open>Ports and commands\<close>

record IOSWorker =
  iw_serial :: string
  iw_port :: int

definition NewIOSWorker :: "string \<Rightarrow> int \<Rightarrow> IOSWorker" where
  "NewIOSWorker serial port = \<lparr>iw_serial = serial, iw_port = port\<rparr>"

definition tunnelInfoPort :: "IOSWorker \<Rightarrow> int" where
  "tunnelInfoPort w = iw_port w + 1000"

definition userspacePort :: "IOSWorker \<Rightarrow> int" where
  "userspacePort w = iw_port w + 2000"

datatype service = Tunnel | RunWDA | Forward | MjpegForward | Session

text \<open>The arguments of the \<^verbatim>\<open>ios\<close> command of a service; the last one sends requests instead.\<close>

definition service_args :: "IOSWorker \<Rightarrow> service \<Rightarrow> string list" where
  "service_args w s =
     (let udid = ''--udid='' @ iw_serial w; info = ''--tunnel-info-port='' @ int_string (tunnelInfoPort w) in
      case s of
        Tunnel \<Rightarrow> [udid, info, ''--userspace-port='' @ int_string (userspacePort w), ''tunnel'', ''start'', ''--userspace'']
      | RunWDA \<Rightarrow> [udid, info, ''runwda'']
      | Forward \<Rightarrow> [udid, info, ''forward'', int_string (iw_port w), ''8100'']
      | MjpegForward \<Rightarrow> [udid, info, ''forward'', int_string (iw_port w + 1), ''9100'']
      | Session \<Rightarrow> [])"

section \<open>The tunnel\<close>

record tunnel =
  tn_Address :: string
  tn_RsdPort :: int
  tn_Udid :: string

definition tunnel_ready :: "string \<Rightarrow> tunnel list \<Rightarrow> bool" where
  "tunnel_ready serial tunnels \<longleftrightarrow>
     list_ex (\<lambda>t. strings_EqualFold (tn_Udid t) serial \<and> tn_Address t \<noteq> '''' \<and> tn_RsdPort t > 0) tunnels"

text \<open>
  \<^verbatim>\<open>waitUntilTunnelReady\<close> over its attempts: the context has ended, or the server did not answer with a list, or it did.  The
  result is the error it returns with, if it has returned.
\<close>

datatype tunnel_poll = PollDone string | PollFailed | Polled "tunnel list"

fun waitUntilTunnelReady :: "string \<Rightarrow> tunnel_poll list \<Rightarrow> string option option" where
  "waitUntilTunnelReady serial [] = None"
| "waitUntilTunnelReady serial (PollDone e # ps) = Some (Some e)"
| "waitUntilTunnelReady serial (PollFailed # ps) = waitUntilTunnelReady serial ps"
| "waitUntilTunnelReady serial (Polled tunnels # ps) =
     (if tunnel_ready serial tunnels then Some None else waitUntilTunnelReady serial ps)"

section \<open>The goroutines\<close>

datatype goroutine = NotStarted | Waiting | Executing | Returned

text \<open>The goroutine that waits for the tunnel: between two requests, in a request, waiting for the others, or returned.\<close>

datatype waiter = Sleeping | Asking | Joining | Left

record worker =
  wk_worker :: IOSWorker
  wk_cancelled :: bool
  wk_gor :: "service \<Rightarrow> goroutine"
  wk_waiter :: waiter
  wk_failCount :: nat
  wk_rounds :: nat
  wk_done :: bool
  wk_commands :: "string list list"

definition Start :: "IOSWorker \<Rightarrow> worker" where
  "Start w = \<lparr>wk_worker = w, wk_cancelled = False, wk_gor = (\<lambda>_. NotStarted)(Tunnel := Waiting), wk_waiter = Sleeping,
     wk_failCount = 0, wk_rounds = 0, wk_done = False, wk_commands = []\<rparr>"

definition set_gor :: "service \<Rightarrow> goroutine \<Rightarrow> worker \<Rightarrow> worker" where
  "set_gor s g w = w\<lparr>wk_gor := (wk_gor w)(s := g)\<rparr>"

definition subservices :: "service list" where
  "subservices = [RunWDA, Forward, MjpegForward, Session]"

datatype worker_event =
    Begin service
  | Exit service
  | SessionAnswer bool
  | AskTunnel
  | TunnelAnswer tunnel_poll
  | Joined
  | CloseDone
  | Cancel

text \<open>
  The top of a loop: with the context ended the goroutine returns, else it runs its command; the loop that creates the session
  also returns after thirty rounds.
\<close>

definition begin_service :: "service \<Rightarrow> worker \<Rightarrow> worker option" where
  "begin_service s w =
     (if wk_gor w s \<noteq> Waiting then None
      else if wk_cancelled w then Some (set_gor s Returned w)
      else if s = Session then Some (set_gor s (if wk_rounds w < 30 then Executing else Returned) w)
      else Some ((set_gor s Executing w)\<lparr>wk_commands := wk_commands w @ [service_args (wk_worker w) s]\<rparr>))"

text \<open>The end of a command; the fifth end of \<^verbatim>\<open>runwda\<close> stops the whole worker.\<close>

definition exit_service :: "service \<Rightarrow> worker \<Rightarrow> worker option" where
  "exit_service s w =
     (if wk_gor w s \<noteq> Executing \<or> s = Session then None
      else if wk_cancelled w then Some (set_gor s Returned w)
      else if s = RunWDA then
        (let w = w\<lparr>wk_failCount := wk_failCount w + 1\<rparr> in
         if wk_failCount w \<ge> 5 then Some ((set_gor s Returned w)\<lparr>wk_cancelled := True\<rparr>) else Some (set_gor s Waiting w))
      else Some (set_gor s Waiting w))"

text \<open>The end of a round of the last goroutine, with whether the session was created.\<close>

definition session_answer :: "bool \<Rightarrow> worker \<Rightarrow> worker option" where
  "session_answer created w =
     (if wk_gor w Session \<noteq> Executing then None
      else if created then Some (set_gor Session Returned w)
      else Some ((set_gor Session Waiting w)\<lparr>wk_rounds := wk_rounds w + 1\<rparr>))"

definition start_subservices :: "worker \<Rightarrow> worker" where
  "start_subservices w = fold (\<lambda>s. set_gor s Waiting) subservices (w\<lparr>wk_waiter := Joining\<rparr>)"

definition ask_tunnel :: "worker \<Rightarrow> worker option" where
  "ask_tunnel w =
     (if wk_waiter w \<noteq> Sleeping then None
      else if wk_cancelled w then Some (w\<lparr>wk_waiter := Left\<rparr>)
      else Some (w\<lparr>wk_waiter := Asking\<rparr>))"

definition tunnel_answer :: "tunnel_poll \<Rightarrow> worker \<Rightarrow> worker option" where
  "tunnel_answer p w =
     (if wk_waiter w \<noteq> Asking then None
      else (case p of
              Polled tunnels \<Rightarrow> if tunnel_ready (iw_serial (wk_worker w)) tunnels then Some (start_subservices w) else Some (w\<lparr>wk_waiter := Sleeping\<rparr>)
            | _ \<Rightarrow> Some (w\<lparr>wk_waiter := Sleeping\<rparr>)))"

definition joined :: "worker \<Rightarrow> worker option" where
  "joined w =
     (if wk_waiter w = Joining \<and> list_all (\<lambda>s. wk_gor w s = Returned) subservices then Some (w\<lparr>wk_waiter := Left\<rparr>) else None)"

definition close_done :: "worker \<Rightarrow> worker option" where
  "close_done w =
     (if wk_gor w Tunnel = Returned \<and> wk_waiter w = Left \<and> \<not> wk_done w then Some (w\<lparr>wk_done := True\<rparr>) else None)"

fun worker_exec :: "worker_event \<Rightarrow> worker \<Rightarrow> worker option" where
  "worker_exec (Begin s) w = begin_service s w"
| "worker_exec (Exit s) w = exit_service s w"
| "worker_exec (SessionAnswer created) w = session_answer created w"
| "worker_exec AskTunnel w = ask_tunnel w"
| "worker_exec (TunnelAnswer p) w = tunnel_answer p w"
| "worker_exec Joined w = joined w"
| "worker_exec CloseDone w = close_done w"
| "worker_exec Cancel w = Some (w\<lparr>wk_cancelled := True\<rparr>)"

fun worker_run :: "worker_event list \<Rightarrow> worker \<Rightarrow> worker option" where
  "worker_run [] w = Some w"
| "worker_run (e # es) w = (case worker_exec e w of None \<Rightarrow> None | Some w \<Rightarrow> worker_run es w)"

lemmas exec_defs = begin_service_def exit_service_def session_answer_def ask_tunnel_def tunnel_answer_def joined_def close_done_def
  start_subservices_def set_gor_def subservices_def

section \<open>Stopping\<close>

definition worker_inv :: "worker \<Rightarrow> bool" where
  "worker_inv w \<longleftrightarrow> wk_gor w Tunnel \<noteq> NotStarted \<and>
     (wk_waiter w \<in> {Sleeping, Asking} \<longrightarrow> list_all (\<lambda>s. wk_gor w s = NotStarted) subservices) \<and>
     (wk_waiter w = Joining \<longrightarrow> list_all (\<lambda>s. wk_gor w s \<noteq> NotStarted) subservices) \<and>
     (wk_waiter w = Left \<longrightarrow> list_all (\<lambda>s. wk_gor w s = Returned) subservices \<or> list_all (\<lambda>s. wk_gor w s = NotStarted) subservices) \<and>
     (wk_done w \<longrightarrow> wk_gor w Tunnel = Returned \<and> wk_waiter w = Left) \<and> (\<not> wk_cancelled w \<longrightarrow> wk_failCount w < 5)"

lemma worker_inv_Start: "worker_inv (Start w)"
  by (simp add: worker_inv_def Start_def subservices_def)

lemma worker_inv_set_gor:
  "worker_inv w \<Longrightarrow> wk_gor w s \<in> {Waiting, Executing} \<Longrightarrow> g \<noteq> NotStarted \<Longrightarrow> worker_inv (set_gor s g w)"
  by (cases s; cases "wk_waiter w") (auto simp: worker_inv_def set_gor_def subservices_def)

lemma worker_inv_update [simp]:
  "worker_inv (w\<lparr>wk_commands := cs\<rparr>) = worker_inv w" "worker_inv (w\<lparr>wk_rounds := n\<rparr>) = worker_inv w"
  by (simp_all add: worker_inv_def)

lemma worker_inv_cancel: "worker_inv w \<Longrightarrow> worker_inv (w\<lparr>wk_cancelled := True\<rparr>)"
  by (simp add: worker_inv_def)

lemma worker_inv_count:
  "worker_inv w \<Longrightarrow> n < 5 \<Longrightarrow> worker_inv (w\<lparr>wk_failCount := n\<rparr>)" "worker_inv w \<Longrightarrow> worker_inv (w\<lparr>wk_failCount := n, wk_cancelled := True\<rparr>)"
  by (simp_all add: worker_inv_def)

lemma set_gor_updates:
  "set_gor s g (w\<lparr>wk_failCount := n\<rparr>) = (set_gor s g w)\<lparr>wk_failCount := n\<rparr>"
  by (simp add: set_gor_def)

lemma worker_inv_begin: "worker_inv w \<Longrightarrow> begin_service s w = Some w' \<Longrightarrow> worker_inv w'"
  using worker_inv_set_gor [of w s] by (auto simp: begin_service_def split: if_splits)

lemma worker_inv_exit: "worker_inv w \<Longrightarrow> exit_service s w = Some w' \<Longrightarrow> worker_inv w'"
  using worker_inv_set_gor [of w s] by (auto simp: exit_service_def Let_def set_gor_updates worker_inv_count split: if_splits)

lemma worker_inv_answer: "worker_inv w \<Longrightarrow> session_answer created w = Some w' \<Longrightarrow> worker_inv w'"
  using worker_inv_set_gor [of w Session] by (auto simp: session_answer_def split: if_splits)

lemma worker_inv_waiter:
  assumes "worker_inv w"
  shows "ask_tunnel w = Some w' \<Longrightarrow> worker_inv w'" "tunnel_answer p w = Some w' \<Longrightarrow> worker_inv w'" "joined w = Some w' \<Longrightarrow> worker_inv w'"
    "close_done w = Some w' \<Longrightarrow> worker_inv w'"
proof -
  have sleep: "worker_inv (w\<lparr>wk_waiter := Sleeping\<rparr>) \<and> worker_inv (start_subservices w)" if "wk_waiter w = Asking"
    using assms that by (simp add: worker_inv_def start_subservices_def set_gor_def subservices_def)
  show "worker_inv w'" if "tunnel_answer p w = Some w'"
    using that sleep by (cases p) (auto simp: tunnel_answer_def split: if_splits)
  show "worker_inv w'" if "ask_tunnel w = Some w'"
    using that assms by (auto simp: ask_tunnel_def worker_inv_def split: if_splits)
  show "worker_inv w'" if "joined w = Some w'" using that assms by (auto simp: joined_def worker_inv_def split: if_splits)
  show "worker_inv w'" if "close_done w = Some w'" using that assms by (auto simp: close_done_def worker_inv_def split: if_splits)
qed

lemma worker_inv_exec: "worker_inv w \<Longrightarrow> worker_exec e w = Some w' \<Longrightarrow> worker_inv w'"
  by (cases e) (auto intro: worker_inv_begin worker_inv_exit worker_inv_answer worker_inv_waiter worker_inv_cancel)

lemma worker_inv_run: "worker_inv w \<Longrightarrow> worker_run es w = Some w' \<Longrightarrow> worker_inv w'"
  by (induction es arbitrary: w) (auto split: option.splits dest: worker_inv_exec)

text \<open>How far the goroutines are from their end once the context has ended.\<close>

fun gor_left :: "goroutine \<Rightarrow> nat" where
  "gor_left Executing = 2"
| "gor_left Waiting = 1"
| "gor_left _ = 0"

fun waiter_left :: "waiter \<Rightarrow> nat" where
  "waiter_left Asking = 20"
| "waiter_left Sleeping = 19"
| "waiter_left Joining = 1"
| "waiter_left Left = 0"

definition steps_left :: "worker \<Rightarrow> nat" where
  "steps_left w = gor_left (wk_gor w Tunnel) + gor_left (wk_gor w RunWDA) + gor_left (wk_gor w Forward) +
     gor_left (wk_gor w MjpegForward) + gor_left (wk_gor w Session) + waiter_left (wk_waiter w) + (if wk_done w then 0 else 1)"

lemma gor_left_bound: "gor_left g \<le> 2"
  by (cases g) auto

lemma steps_left_bound: "steps_left w \<le> 31"
proof -
  have "waiter_left (wk_waiter w) \<le> 20" by (cases "wk_waiter w") auto
  then show ?thesis
    using gor_left_bound [of "wk_gor w Tunnel"] gor_left_bound [of "wk_gor w RunWDA"] gor_left_bound [of "wk_gor w Forward"]
      gor_left_bound [of "wk_gor w MjpegForward"] gor_left_bound [of "wk_gor w Session"] by (simp add: steps_left_def)
qed

lemma cancelled_exec:
  assumes "worker_inv w" "wk_cancelled w" "e \<noteq> Cancel" "worker_exec e w = Some w'"
  shows "steps_left w' < steps_left w \<and> wk_cancelled w' \<and> wk_commands w' = wk_commands w"
proof (cases e)
  case (Begin s)
  with assms show ?thesis by (cases s) (auto simp: steps_left_def exec_defs split: if_splits)
next
  case (Exit s)
  with assms show ?thesis by (cases s) (auto simp: steps_left_def exec_defs split: if_splits)
next
  case (TunnelAnswer p)
  with assms show ?thesis by (cases p) (auto simp: worker_inv_def steps_left_def exec_defs split: if_splits)
qed (use assms in \<open>auto simp: steps_left_def exec_defs split: if_splits\<close>)

lemma cancelled_run:
  "worker_inv w \<Longrightarrow> wk_cancelled w \<Longrightarrow> Cancel \<notin> set es \<Longrightarrow> worker_run es w = Some w' \<Longrightarrow>
   length es + steps_left w' \<le> steps_left w \<and> wk_cancelled w'"
proof (induction es arbitrary: w)
  case (Cons e es)
  then obtain v where v: "worker_exec e w = Some v" "worker_run es v = Some w'" by (auto split: option.splits)
  from cancelled_exec [OF Cons.prems(1,2) _ v(1)] Cons.prems(3) have "steps_left v < steps_left w" "wk_cancelled v" by auto
  with Cons.IH [OF worker_inv_exec [OF Cons.prems(1) v(1)] _ _ v(2)] Cons.prems(3) show ?case by auto
qed simp

lemma service_moves:
  "wk_gor w s \<in> {Waiting, Executing} \<Longrightarrow> \<exists>e w'. e \<noteq> Cancel \<and> worker_exec e w = Some w'"
proof (cases "wk_gor w s = Waiting")
  case True
  then show ?thesis by (intro exI [of _ "Begin s"]) (simp add: begin_service_def)
next
  case False
  assume "wk_gor w s \<in> {Waiting, Executing}"
  with False show ?thesis
    by (cases "s = Session") (auto simp: session_answer_def exit_service_def Let_def intro: exI [of _ "SessionAnswer True"] exI [of _ "Exit s"])
qed

lemma cancelled_moves:
  assumes "worker_inv w" "\<not> wk_done w"
  shows "\<exists>e w'. e \<noteq> Cancel \<and> worker_exec e w = Some w'"
proof (cases "\<exists>s. wk_gor w s \<in> {Waiting, Executing}")
  case True
  then show ?thesis using service_moves by blast
next
  case False
  then have g: "wk_gor w s = NotStarted \<or> wk_gor w s = Returned" for s by (metis goroutine.exhaust insertCI)
  show ?thesis
  proof (cases "wk_waiter w")
    case Sleeping
    then show ?thesis by (intro exI [of _ AskTunnel]) (simp add: ask_tunnel_def)
  next
    case Asking
    then show ?thesis by (intro exI [of _ "TunnelAnswer PollFailed"]) (simp add: tunnel_answer_def)
  next
    case Joining
    with assms(1) g have "list_all (\<lambda>s. wk_gor w s = Returned) subservices" by (auto simp: worker_inv_def list_all_iff)
    with Joining show ?thesis by (intro exI [of _ Joined]) (simp add: joined_def)
  next
    case Left
    with assms g [of Tunnel] show ?thesis by (intro exI [of _ CloseDone]) (auto simp: close_done_def worker_inv_def)
  qed
qed

text \<open>
  C18. \<^verbatim>\<open>Stop\<close> returns.  Once the context of a worker is cancelled, from whatever state its history led to, at most 31 steps of its
  goroutines remain, one is possible as long as the channel that \<^verbatim>\<open>Stop\<close> waits for is open, and when it is closed no goroutine
  of the worker is left running.
\<close>

theorem worker_stop_returns:
  assumes "worker_run es (Start (NewIOSWorker serial port)) = Some w" "wk_cancelled w"
    and "worker_run es' w = Some w'" "Cancel \<notin> set es'"
  shows "length es' \<le> 31 \<and> (\<not> wk_done w' \<longrightarrow> (\<exists>e w''. e \<noteq> Cancel \<and> worker_exec e w' = Some w'')) \<and>
    (wk_done w' \<longrightarrow> wk_gor w' s \<in> {NotStarted, Returned})"
proof -
  have inv: "worker_inv w" by (rule worker_inv_run [OF worker_inv_Start assms(1)])
  have inv': "worker_inv w'" by (rule worker_inv_run [OF inv assms(3)])
  have "wk_gor w' s \<in> {NotStarted, Returned}" if "wk_done w'"
    using inv' that by (cases s) (auto simp: worker_inv_def subservices_def)
  with cancelled_run [OF inv assms(2,4,3)] steps_left_bound [of w] cancelled_moves [OF inv'] show ?thesis by auto
qed

theorem worker_stop_returns_witness:
  "\<exists>w w'. worker_run [Begin Tunnel, AskTunnel, Cancel] (Start (NewIOSWorker ''u1'' 10400)) = Some w \<and>
    worker_run [TunnelAnswer PollFailed, Exit Tunnel, AskTunnel, CloseDone] w = Some w' \<and> wk_done w' \<and> wk_gor w' Tunnel \<in> {NotStarted, Returned}"
proof -
  let ?w0 = "Start (NewIOSWorker ''u1'' 10400)"
  obtain w where w: "worker_run [Begin Tunnel, AskTunnel, Cancel] ?w0 = Some w" "wk_cancelled w"
    by (simp add: Start_def begin_service_def ask_tunnel_def set_gor_def)
  then obtain w' where w': "worker_run [TunnelAnswer PollFailed, Exit Tunnel, AskTunnel, CloseDone] w = Some w'" "wk_done w'"
    by (auto simp: Start_def begin_service_def ask_tunnel_def set_gor_def tunnel_answer_def exit_service_def close_done_def)
  from worker_stop_returns [OF w w'(1), of Tunnel] w'(2) have "wk_gor w' Tunnel \<in> {NotStarted, Returned}" by auto
  with w w' show ?thesis by blast
qed

section \<open>Giving up\<close>

lemma fail_count_exec:
  assumes "worker_exec e w = Some w'" "\<not> wk_cancelled w'"
  shows "\<not> wk_cancelled w \<and> wk_failCount w' = wk_failCount w + (if e = Exit RunWDA then 1 else 0)"
proof (cases e)
  case (Begin s)
  with assms show ?thesis by (auto simp: exec_defs split: if_splits)
next
  case (Exit s)
  with assms show ?thesis by (cases s) (auto simp: exec_defs Let_def split: if_splits)
next
  case (TunnelAnswer p)
  with assms show ?thesis by (cases p) (auto simp: exec_defs split: if_splits)
qed (use assms in \<open>auto simp: exec_defs split: if_splits\<close>)

lemma fail_count_run:
  "worker_run es w = Some w' \<Longrightarrow> \<not> wk_cancelled w' \<Longrightarrow> \<not> wk_cancelled w \<and> wk_failCount w' = wk_failCount w + count_list es (Exit RunWDA)"
proof (induction es arbitrary: w)
  case (Cons e es)
  then obtain v where v: "worker_exec e w = Some v" "worker_run es v = Some w'" by (auto split: option.splits)
  from Cons.IH [OF v(2) Cons.prems(2)] fail_count_exec [OF v(1)] show ?case by auto
qed simp

text \<open>
  C39. The worker counts every end of \<^verbatim>\<open>runwda\<close> and never forgets one: after five of them, however long WebDriverAgent ran in
  between, the context is cancelled and no command is started any more, whatever happens afterwards; the device stays without
  WebDriverAgent until it is connected again.
\<close>

theorem wda_exits_are_never_forgiven:
  assumes "worker_run es (Start (NewIOSWorker serial port)) = Some w" "5 \<le> count_list es (Exit RunWDA)" "worker_run es' w = Some w'"
  shows "wk_cancelled w' \<and> wk_commands w' = wk_commands w"
proof -
  have inv: "worker_inv w" by (rule worker_inv_run [OF worker_inv_Start assms(1)])
  have c: "wk_cancelled w"
  proof (rule ccontr)
    assume "\<not> wk_cancelled w"
    with fail_count_run [OF assms(1)] inv assms(2) show False by (simp add: worker_inv_def Start_def)
  qed
  show ?thesis using assms(3) inv c
  proof (induction es' arbitrary: w)
    case (Cons e es)
    then obtain v where v: "worker_exec e w = Some v" "worker_run es v = Some w'" by (auto split: option.splits)
    have "wk_cancelled v \<and> wk_commands v = wk_commands w"
      using cancelled_exec [OF Cons.prems(2,3) _ v(1)] v(1) Cons.prems(3) by (cases "e = Cancel") auto
    with Cons.IH [OF v(2) worker_inv_exec [OF Cons.prems(2) v(1)]] show ?case by simp
  qed simp
qed

definition ex_restarts :: "worker_event list" where
  "ex_restarts = [Begin Tunnel, AskTunnel, TunnelAnswer (Polled [\<lparr>tn_Address = ''fd00::1'', tn_RsdPort = 58783, tn_Udid = ''u1''\<rparr>]),
     Begin RunWDA, Exit RunWDA, Begin RunWDA, Exit RunWDA, Begin RunWDA, Exit RunWDA, Begin RunWDA, Exit RunWDA, Begin RunWDA, Exit RunWDA]"

theorem wda_exits_are_never_forgiven_witness:
  "\<exists>w w'. worker_run ex_restarts (Start (NewIOSWorker ''u1'' 10400)) = Some w \<and> worker_run [Exit Tunnel] w = Some w' \<and>
     wk_cancelled w' \<and> wk_commands w' = wk_commands w \<and> length (wk_commands w) = 6"
proof -
  have count: "5 \<le> count_list ex_restarts (Exit RunWDA)" by (simp add: ex_restarts_def)
  obtain w where w: "worker_run ex_restarts (Start (NewIOSWorker ''u1'' 10400)) = Some w" "wk_gor w Tunnel = Executing" "length (wk_commands w) = 6"
    by (simp add: ex_restarts_def Start_def exec_defs tunnel_ready_def NewIOSWorker_def strings_EqualFold_def Let_def)
  then obtain w' where w': "worker_run [Exit Tunnel] w = Some w'" by (cases "wk_cancelled w") (simp_all add: exit_service_def)
  from wda_exits_are_never_forgiven [OF w(1) count w'] w w' show ?thesis by blast
qed

section \<open>Ports\<close>

text \<open>The ports of a device whose block starts at \<open>p\<close>: the block, and those of the agent or the worker.\<close>

definition worker_ports :: "IOSWorker \<Rightarrow> int set" where
  "worker_ports w = {iw_port w, iw_port w + 1, tunnelInfoPort w, userspacePort w}"

definition device_ports :: "int \<Rightarrow> int set" where
  "device_ports p = {p ..< p + 10} \<union> worker_ports (NewIOSWorker '''' (p + 3000))"

lemma device_ports_disjoint:
  assumes "p \<noteq> q" "(p - mn) mod 10 = 0" "(q - mn) mod 10 = 0" "mn \<le> p" "p \<le> mx" "mn \<le> q" "q \<le> mx" "mx - mn < 1000"
  shows "device_ports p \<inter> device_ports q = {}"
proof -
  obtain a b where "p = mn + 10 * a" "q = mn + 10 * b" using assms(2,3) by (metis add.commute diff_add_cancel mult.commute mod_0_imp_dvd dvdE)
  with assms(1,4-8) show ?thesis
    by (auto simp: device_ports_def worker_ports_def NewIOSWorker_def tunnelInfoPort_def userspacePort_def; presburger)
qed

text \<open>
  C38. The derived ports do overlap when the range is wide.  As long as it spans less than a thousand ports, the ports of two
  devices, those of their workers included, are disjoint over all histories of the allocator; but two devices whose blocks are
  a thousand apart share a port, the WebDriverAgent port of one being the tunnel port of the other.
\<close>

theorem derived_ports_overlap:
  assumes new: "NewPortAllocator mn mx = Inr pa" and s: "pa_bySerial (pa_run pa cs) s = Some p" and t: "pa_bySerial (pa_run pa cs) t = Some q"
    and neq: "s \<noteq> t"
  shows "(mx - mn < 1000 \<longrightarrow> device_ports p \<inter> device_ports q = {}) \<and>
    (q = p + 1000 \<longrightarrow> tunnelInfoPort (NewIOSWorker s (p + 3000)) = iw_port (NewIOSWorker t (q + 3000)))"
proof -
  have inv: "pa_inv (pa_run pa cs)" by (rule pa_inv_run [OF pa_inv_New [OF new]])
  have range: "mn \<le> r \<and> r \<le> mx \<and> (r - mn) mod 10 = 0" if "pa_bySerial (pa_run pa cs) u = Some r" for u r
    using pool.port_range [OF inv that] new by (auto simp: slot_def NewPortAllocator_def split: if_splits)
  have "p \<noteq> q" using pool.blocks_disjoint [OF inv s t neq] by auto
  with range [OF s] range [OF t] device_ports_disjoint [of p q mn mx] show ?thesis
    by (auto simp: NewIOSWorker_def tunnelInfoPort_def)
qed

theorem derived_ports_overlap_witness:
  "\<exists>pa. NewPortAllocator 7400 7700 = Inr pa \<and> pa_bySerial (pa_run pa [CallAllocate ''a'', CallAllocate ''b'']) ''a'' = Some 7400 \<and>
     pa_bySerial (pa_run pa [CallAllocate ''a'', CallAllocate ''b'']) ''b'' = Some 7410 \<and> device_ports 7400 \<inter> device_ports 7410 = {}"
proof -
  let ?pa = "\<lparr>pa_minPort = 7400, pa_maxPort = 7700, pa_used = Map.empty, pa_bySerial = Map.empty\<rparr>"
  have new: "NewPortAllocator 7400 7700 = Inr ?pa" by (simp add: NewPortAllocator_def)
  have a: "pa_bySerial (pa_run ?pa [CallAllocate ''a'', CallAllocate ''b'']) ''a'' = Some 7400"
    and b: "pa_bySerial (pa_run ?pa [CallAllocate ''a'', CallAllocate ''b'']) ''b'' = Some 7410"
    by (simp_all add: Allocate_def find_free.simps)
  from derived_ports_overlap [OF new a b] have "device_ports 7400 \<inter> device_ports 7410 = {}" by simp
  with new a b show ?thesis by blast
qed

end
