(* ===== verification/Provider_Config.thy ===== *)
theory Provider_Config
  imports IOS_Worker H264
begin

text \<open>
  \<^verbatim>\<open>src/internal/config/config.go\<close>: the configuration of a provider, and \<^verbatim>\<open>src/internal/utils/scrcpy.go\<close>: the installation of the
  scrcpy server into the source tree.  The libraries that read the file and check the tags of the structs are parameters;
  what the code relies on of the second is \<^verbatim>\<open>honours_tags\<close>: a struct is accepted exactly when the conditions in its tags hold.
\<close>

section \<open>config.go\<close>

record ProviderConfig =
  pc_Name :: string
  pc_Host :: string
  pc_IP :: string
  pc_MinPort :: int
  pc_MaxPort :: int

record TLSConfig =
  tls_Enabled :: bool
  tls_CACert :: string
  tls_ClientCert :: string
  tls_ClientKey :: string

record CoordinatorConfig =
  co_Address :: string
  co_TLS :: TLSConfig
  co_HeartbeatInterval :: duration
  co_ReconnectMaxBackoff :: duration
  co_CallTimeout :: duration

record ADBConfig =
  adb_Host :: string
  adb_Port :: int
  adb_PropertyTimeout :: duration

record StreamConfig =
  stc_Type :: string
  stc_Quality :: int
  stc_MaxFPS :: int
  stc_MaxRestarts :: int

record MetricsConfig =
  mc_Enabled :: bool
  mc_Port :: int
  mc_Path :: string

record GRPCServerConfig =
  gc_Port :: int
  gc_Enabled :: bool

record LoggingConfig =
  lc_Level :: string
  lc_Format :: string

record Config =
  cfg_Provider :: ProviderConfig
  cfg_Coordinator :: CoordinatorConfig
  cfg_ADB :: ADBConfig
  cfg_Stream :: StreamConfig
  cfg_Metrics :: MetricsConfig
  cfg_GRPCServer :: GRPCServerConfig
  cfg_Logging :: LoggingConfig

definition config_defaults :: "(string \<times> string) list" where
  "config_defaults =
     [(''adb.host'', ''127.0.0.1''), (''adb.port'', ''5037''), (''adb.property_timeout'', ''5s''),
      (''coordinator.heartbeat_interval'', ''10s''), (''coordinator.reconnect_max_backoff'', ''2m''), (''coordinator.call_timeout'', ''5s''),
      (''stream.type'', ''mjpeg''), (''stream.quality'', ''80''), (''stream.max_fps'', ''15''), (''stream.max_restarts'', ''3''),
      (''metrics.enabled'', ''true''), (''metrics.port'', ''9090''), (''metrics.path'', ''/metrics''),
      (''grpc_server.port'', ''9091''), (''grpc_server.enabled'', ''true''), (''logging.level'', ''info''), (''logging.format'', ''json''),
      (''provider.min_port'', ''7400''), (''provider.max_port'', ''7700'')]"

text \<open>The conditions in the tags of the structs.\<close>

definition tags_ok :: "Config \<Rightarrow> bool" where
  "tags_ok cfg \<longleftrightarrow> pc_Name (cfg_Provider cfg) \<noteq> '''' \<and> pc_Host (cfg_Provider cfg) \<noteq> '''' \<and>
     1024 \<le> pc_MinPort (cfg_Provider cfg) \<and> pc_MinPort (cfg_Provider cfg) \<le> 65535 \<and>
     1024 \<le> pc_MaxPort (cfg_Provider cfg) \<and> pc_MaxPort (cfg_Provider cfg) \<le> 65535 \<and>
     co_Address (cfg_Coordinator cfg) \<noteq> '''' \<and> 1 \<le> stc_Quality (cfg_Stream cfg) \<and> stc_Quality (cfg_Stream cfg) \<le> 100 \<and>
     1 \<le> stc_MaxFPS (cfg_Stream cfg) \<and> stc_MaxFPS (cfg_Stream cfg) \<le> 60"

text \<open>
  The library: reading the file of a path, giving its contents or an error; the values of the struct under the defaults, with
  the variables of the environment that have the prefix \<^verbatim>\<open>PROVIDER\<close> before those of the file; and the check of the tags.
\<close>

record 'f config_lib =
  cl_read :: "string \<Rightarrow> string + 'f"
  cl_unmarshal :: "(string \<times> string) list \<Rightarrow> string \<Rightarrow> 'f \<Rightarrow> string + Config"
  cl_validate :: "Config \<Rightarrow> string option"

definition honours_tags :: "'f config_lib \<Rightarrow> bool" where
  "honours_tags lib \<longleftrightarrow> (\<forall>cfg. cl_validate lib cfg = None \<longleftrightarrow> tags_ok cfg)"

definition Load :: "'f config_lib \<Rightarrow> string \<Rightarrow> string + Config" where
  "Load lib path =
     (case cl_read lib path of
        Inl e \<Rightarrow> Inl (''config: read file '' @ strconv_Quote path @ '': '' @ e)
      | Inr file \<Rightarrow>
          (case cl_unmarshal lib config_defaults ''PROVIDER'' file of
             Inl e \<Rightarrow> Inl (''config: unmarshal: '' @ e)
           | Inr cfg \<Rightarrow>
               (case cl_validate lib cfg of
                  Some e \<Rightarrow> Inl (''config: validation: '' @ e)
                | None \<Rightarrow> Inr cfg)))"

section \<open>utils/scrcpy.go\<close>

text \<open>
  The files by path; \<open>mkdirErr\<close> and \<open>writeErr\<close> are the errors of creating the directory and of opening, writing or syncing the
  destination, the second with the number of bytes that were written.
\<close>

type_synonym files = "string \<rightharpoonup> byte list"

definition validateZipJar :: "files \<Rightarrow> string \<Rightarrow> string option" where
  "validateZipJar fs path =
     (case fs path of
        None \<Rightarrow> Some (''open '' @ strconv_Quote path @ '': no such file'')
      | Some content \<Rightarrow>
          if length content < 4 then Some (''read magic from '' @ strconv_Quote path @ '': unexpected EOF'')
          else if content ! 0 \<noteq> 0x50 \<or> content ! 1 \<noteq> 0x4B then Some (strconv_Quote path @ '' is not a valid ZIP/JAR file'')
          else None)"

datatype write_outcome = OpenFails string | WriteFails nat string | SyncFails string | WriteOk

text \<open>The destination is truncated when it is opened, before the first byte of the source is read.\<close>

definition copyFile :: "string option \<Rightarrow> write_outcome \<Rightarrow> string \<Rightarrow> string \<Rightarrow> files \<Rightarrow> string option \<times> files" where
  "copyFile mkdirErr out src dst fs =
     (case mkdirErr of
        Some e \<Rightarrow> (Some (''mkdir: '' @ e), fs)
      | None \<Rightarrow>
          (case fs src of
             None \<Rightarrow> (Some ''no such file'', fs)
           | Some _ \<Rightarrow>
               (case out of
                  OpenFails e \<Rightarrow> (Some e, fs)
                | _ \<Rightarrow>
                    (let fs = fs(dst \<mapsto> []); content = the (fs src) in
                     case out of
                       WriteFails n e \<Rightarrow> (Some e, fs(dst \<mapsto> take n content))
                     | SyncFails e \<Rightarrow> (Some e, fs(dst \<mapsto> content))
                     | _ \<Rightarrow> (None, fs(dst \<mapsto> content))))))"

definition scrcpy_destination :: string where
  "scrcpy_destination = ''internal/stream/scrcpy-server.jar''"

definition InstallScrcpyServer :: "string option \<Rightarrow> write_outcome \<Rightarrow> string \<Rightarrow> files \<Rightarrow> string option \<times> files" where
  "InstallScrcpyServer mkdirErr out srcPath fs =
     (case validateZipJar fs srcPath of
        Some e \<Rightarrow> (Some (''InstallScrcpyServer: '' @ e), fs)
      | None \<Rightarrow>
          (case copyFile mkdirErr out srcPath scrcpy_destination fs of
             (Some e, fs) \<Rightarrow> (Some (''InstallScrcpyServer: copy to '' @ scrcpy_destination @ '': '' @ e), fs)
           | (None, fs) \<Rightarrow> (None, fs)))"

definition InstallScrcpyServerTo :: "string option \<Rightarrow> write_outcome \<Rightarrow> string \<Rightarrow> string \<Rightarrow> files \<Rightarrow> string option \<times> files" where
  "InstallScrcpyServerTo mkdirErr out srcPath dstPath fs =
     (case validateZipJar fs srcPath of
        Some e \<Rightarrow> (Some (''InstallScrcpyServerTo: '' @ e), fs)
      | None \<Rightarrow>
          (case copyFile mkdirErr out srcPath dstPath fs of
             (Some e, fs) \<Rightarrow> (Some (''InstallScrcpyServerTo: copy to '' @ dstPath @ '': '' @ e), fs)
           | (None, fs) \<Rightarrow> (None, fs)))"

definition ScrcpyServerVersion :: "string \<Rightarrow> files \<Rightarrow> string + string" where
  "ScrcpyServerVersion jarPath fs =
     (case fs jarPath of
        None \<Rightarrow> Inl ''ScrcpyServerVersion: no such file''
      | Some content \<Rightarrow>
          (case validateZipJar fs jarPath of
             Some e \<Rightarrow> Inl (''ScrcpyServerVersion: '' @ e)
           | None \<Rightarrow> Inr (''size='' @ int_string (int (length content)) @ '' bytes, path='' @ jarPath)))"

section \<open>Properties\<close>


definition ex_config :: Config where
  "ex_config = \<lparr>cfg_Provider = \<lparr>pc_Name = ''lab'', pc_Host = ''h'', pc_IP = '''', pc_MinPort = 7400, pc_MaxPort = 7700\<rparr>,
     cfg_Coordinator = \<lparr>co_Address = ''c:9000'', co_TLS = \<lparr>tls_Enabled = False, tls_CACert = '''', tls_ClientCert = '''', tls_ClientKey = ''''\<rparr>,
       co_HeartbeatInterval = 10, co_ReconnectMaxBackoff = 120, co_CallTimeout = 5\<rparr>,
     cfg_ADB = \<lparr>adb_Host = ''127.0.0.1'', adb_Port = 5037, adb_PropertyTimeout = 5\<rparr>,
     cfg_Stream = \<lparr>stc_Type = ''mjpeg'', stc_Quality = 80, stc_MaxFPS = 15, stc_MaxRestarts = 3\<rparr>,
     cfg_Metrics = \<lparr>mc_Enabled = True, mc_Port = 9090, mc_Path = ''/metrics''\<rparr>, cfg_GRPCServer = \<lparr>gc_Port = 9091, gc_Enabled = True\<rparr>,
     cfg_Logging = \<lparr>lc_Level = ''info'', lc_Format = ''json''\<rparr>\<rparr>"

definition ex_config_lib :: "unit config_lib" where
  "ex_config_lib = \<lparr>cl_read = (\<lambda>_. Inr ()), cl_unmarshal = (\<lambda>_ _ _. Inr ex_config), cl_validate = (\<lambda>cfg. if tags_ok cfg then None else Some ''invalid'')\<rparr>"


text \<open>
  An installation that reports success has put an archive in place that is byte for byte the source, which begins like a ZIP
  archive, and has changed no other file; a source that is no such file changes nothing.  The exception is a source that is
  the destination itself: it is truncated before it is read, so that success leaves an empty file.
\<close>

theorem install_server_outcome:
  assumes "InstallScrcpyServer mkdirErr out src fs = (r, fs')"
  shows "(r = None \<and> src \<noteq> scrcpy_destination \<longrightarrow> (\<exists>content. fs src = Some content \<and> take 2 content = [0x50, 0x4B] \<and> fs' = fs(scrcpy_destination \<mapsto> content))) \<and>
    (r = None \<and> src = scrcpy_destination \<longrightarrow> fs' = fs(scrcpy_destination \<mapsto> [])) \<and>
    (validateZipJar fs src \<noteq> None \<longrightarrow> r \<noteq> None \<and> fs' = fs)"
proof (cases "validateZipJar fs src")
  case (Some e)
  with assms show ?thesis by (auto simp: InstallScrcpyServer_def)
next
  case None
  then obtain content where c: "fs src = Some content" "4 \<le> length content" "content ! 0 = 0x50" "content ! 1 = 0x4B"
    by (auto simp: validateZipJar_def split: option.splits if_splits)
  then have "take 2 content = [0x50, 0x4B]" by (cases content; cases "tl content") auto
  with None assms c(1) show ?thesis
    by (auto simp: InstallScrcpyServer_def copyFile_def Let_def split: option.splits write_outcome.splits prod.splits)
qed

theorem install_server_outcome_witness:
  "InstallScrcpyServer None WriteOk scrcpy_destination [scrcpy_destination \<mapsto> [0x50, 0x4B, 3, 4]] = (None, [scrcpy_destination \<mapsto> []])"
proof -
  let ?fs = "[scrcpy_destination \<mapsto> [0x50, 0x4B, 3, 4]] :: files"
  obtain r fs' where run: "InstallScrcpyServer None WriteOk scrcpy_destination ?fs = (r, fs')" by (rule prod.exhaust)
  then have "r = None" by (auto simp: InstallScrcpyServer_def validateZipJar_def copyFile_def Let_def)
  with install_server_outcome [OF run] run show ?thesis by simp
qed

end
