(* ===== verification/Provider_Main.thy ===== *)
theory Provider_Main
  imports Provider_App Provider_Config
begin

text \<open>
  The start of the provider: \<^verbatim>\<open>src/internal/logger/logger.go\<close>, \<^verbatim>\<open>New\<close> of \<^verbatim>\<open>src/internal/app/app.go\<close> with its configuration, and
  \<^verbatim>\<open>src/cmd/provider/main.go\<close> with its two modes, the provider itself and the command that asks a running provider to
  reset a device.
\<close>

section \<open>logger.go\<close>

datatype slog_level = LevelDebug | LevelInfo | LevelWarn | LevelError

definition parseLevel :: "string \<Rightarrow> slog_level" where
  "parseLevel s =
     (if s = ''debug'' then LevelDebug else if s = ''warn'' \<or> s = ''warning'' then LevelWarn
      else if s = ''error'' then LevelError else LevelInfo)"

record logger =
  lg_level :: slog_level
  lg_addSource :: bool
  lg_json :: bool

definition New_logger :: "LoggingConfig \<Rightarrow> logger" where
  "New_logger cfg =
     (let level = parseLevel (lc_Level cfg) in \<lparr>lg_level = level, lg_addSource = (level = LevelDebug), lg_json = (lc_Format cfg = ''json'')\<rparr>)"

definition source_file :: "string \<Rightarrow> string" where
  "source_file file = (case strings_LastIndexStr file ''protean-provider/'' of None \<Rightarrow> file | Some idx \<Rightarrow> drop idx file)"

text \<open>\<^verbatim>\<open>FromContext\<close>: the logger of the context, or the default one.\<close>

definition logger_FromContext :: "logger option \<Rightarrow> logger \<Rightarrow> logger" where
  "logger_FromContext ctx dflt = (case ctx of Some l \<Rightarrow> l | None \<Rightarrow> dflt)"

section \<open>New of app.go\<close>

text \<open>What the host says of its addresses, and the error of the \<^verbatim>\<open>adb\<close> client.\<close>

record host_info =
  hi_env :: "string \<Rightarrow> string"
  hi_outbound :: "string option"
  hi_addrs :: "(string \<times> bool \<times> bool) list option"
  hi_docker :: "string list option"
  hi_adbErr :: "string option"

datatype app_error = AdbClientError string | SupervisorError port_error

definition provider_of :: "host_info \<Rightarrow> Config \<Rightarrow> Provider" where
  "provider_of hi cfg =
     (let pc = cfg_Provider cfg; detectedIP = detectProviderIP (pc_IP pc) (hi_env hi) (hi_outbound hi) (hi_addrs hi) (hi_docker hi)
      in \<lparr>prov_ID = detectedIP, prov_Name = pc_Name pc, prov_Host = pc_Host pc, prov_IP = detectedIP, prov_Version = ''dev'',
          prov_MinPort = pc_MinPort pc, prov_MaxPort = pc_MaxPort pc\<rparr>)"

definition app_New :: "host_info \<Rightarrow> Config \<Rightarrow> app_error + Provider \<times> App" where
  "app_New hi cfg =
     (let provider = provider_of hi cfg in
      case hi_adbErr hi of
        Some e \<Rightarrow> Inl (AdbClientError e)
      | None \<Rightarrow>
          (case New_Supervisor (prov_ID provider) (pc_MinPort (cfg_Provider cfg)) (pc_MaxPort (cfg_Provider cfg)) of
             Inl e \<Rightarrow> Inl (SupervisorError e)
           | Inr sv \<Rightarrow> Inr (provider, New_App sv (prov_ID provider))))"

section \<open>main.go\<close>

record flags =
  fl_config :: string
  fl_logLevel :: string
  fl_version :: bool
  fl_reset :: string
  fl_args :: "string list"

definition serialToReset :: "flags \<Rightarrow> string" where
  "serialToReset fl =
     (if fl_reset fl = '''' \<and> length (fl_args fl) \<ge> 2 \<and> fl_args fl ! 0 = ''reset'' then fl_args fl ! 1 else fl_reset fl)"

definition reset_line :: "string \<Rightarrow> string" where
  "reset_line serial = ''reset '' @ serial"

text \<open>
  The exchange with the socket: it cannot be dialled, the command cannot be written, the connection ends before a line, with
  the error of the scanner, or a line arrives.  The result has what is printed and the exit code.
\<close>

datatype exchange = NotDialled string | NotWritten string | NoLine "string option" | Line string

definition reset_client :: "exchange \<Rightarrow> string list \<times> int" where
  "reset_client x =
     (case x of
        NotDialled e \<Rightarrow> ([''Error: could not connect to provider admin socket: '' @ e, ''Is the provider daemon process running in this workspace?''], 1)
      | NotWritten e \<Rightarrow> ([''Error: failed to send command to provider daemon: '' @ e], 1)
      | NoLine (Some e) \<Rightarrow> ([''Error: failed to read response: '' @ e], 1)
      | NoLine None \<Rightarrow> ([''Error: no response received from provider daemon''], 1)
      | Line response \<Rightarrow> ([response], if strings_HasPrefix response ''SUCCESS:'' then 0 else 1))"

datatype main_outcome = Exit "string list" int | ResetMode string | Started logger Provider App

definition main_start :: "'f config_lib \<Rightarrow> host_info \<Rightarrow> string \<Rightarrow> flags \<Rightarrow> main_outcome" where
  "main_start lib hi Version fl =
     (if fl_version fl then Exit [''protean-provider '' @ Version] 0
      else if serialToReset fl \<noteq> '''' then ResetMode (serialToReset fl)
      else (case Load lib (fl_config fl) of
              Inl e \<Rightarrow> Exit [''fatal: load config: '' @ e] 1
            | Inr cfg \<Rightarrow>
                (let cfg = (if fl_logLevel fl \<noteq> '''' then cfg\<lparr>cfg_Logging := (cfg_Logging cfg)\<lparr>lc_Level := fl_logLevel fl\<rparr>\<rparr> else cfg) in
                 case app_New hi cfg of
                   Inl e \<Rightarrow> Exit [] 1
                 | Inr (provider, a) \<Rightarrow> Started (New_logger (cfg_Logging cfg)) provider a)))"

text \<open>The exit code by the error of \<^verbatim>\<open>Run\<close>; a cancelled context is the normal end.\<close>

datatype run_error = ContextCanceled | OtherError string

definition main_exit :: "run_error option \<Rightarrow> int" where
  "main_exit err = (case err of Some (OtherError e) \<Rightarrow> 1 | _ \<Rightarrow> 0)"

section \<open>Properties\<close>

lemma Load_tags: "honours_tags lib \<Longrightarrow> Load lib path = Inr cfg \<Longrightarrow> tags_ok cfg"
  by (auto simp: Load_def honours_tags_def split: sum.splits option.splits)

text \<open>
  A provider that starts has a sound configuration: its ports lie in the valid range and the lower bound is below the upper, its
  supervisor goes by the identity that is registered with the coordinator, it is a state from which everything
  proved of running providers holds, and a log level on the command line has precedence over the file.
\<close>

theorem started_provider_is_sound:
  assumes "honours_tags lib" and "main_start lib hi Version fl = Started lg provider a"
  shows "1024 \<le> prov_MinPort provider \<and> prov_MinPort provider < prov_MaxPort provider \<and> prov_MaxPort provider \<le> 65535 \<and>
    prov_ID provider = prov_IP provider \<and> prov_Name provider \<noteq> '''' \<and> sup_providerID (app_sup a) = prov_ID provider \<and>
    app_reachable st a \<and> (fl_logLevel fl \<noteq> '''' \<longrightarrow> lg_level lg = parseLevel (fl_logLevel fl))"
proof -
  let ?c = "\<lambda>cfg. if fl_logLevel fl \<noteq> '''' then cfg\<lparr>cfg_Logging := (cfg_Logging cfg)\<lparr>lc_Level := fl_logLevel fl\<rparr>\<rparr> else cfg"
  from assms(2) obtain cfg where load: "Load lib (fl_config fl) = Inr cfg" and new: "app_New hi (?c cfg) = Inr (provider, a)"
    and lg: "lg = New_logger (cfg_Logging (?c cfg))"
    by (auto simp: main_start_def Let_def split: if_splits sum.splits)
  have tags: "tags_ok (?c cfg)" using Load_tags [OF assms(1) load] by (simp add: tags_ok_def)
  from new obtain sv where sup: "New_Supervisor (prov_ID provider) (pc_MinPort (cfg_Provider (?c cfg))) (pc_MaxPort (cfg_Provider (?c cfg))) = Inr sv"
    and p: "provider = provider_of hi (?c cfg)" and a: "a = New_App sv (prov_ID provider)"
    by (auto simp: app_New_def Let_def simp del: if_split_asm split: option.splits sum.splits)
  have "sup_providerID sv = prov_ID provider" "prov_MinPort provider < prov_MaxPort provider"
    using sup p by (auto simp: New_Supervisor_def NewPortAllocator_def provider_of_def Let_def split: if_splits)
  moreover have "app_reachable st a" unfolding a by (rule app_reachable.start [OF sup])
  moreover have "fl_logLevel fl \<noteq> '''' \<longrightarrow> lg_level lg = parseLevel (fl_logLevel fl)" by (simp add: lg New_logger_def Let_def)
  ultimately show ?thesis using tags p a by (simp add: provider_of_def tags_ok_def Let_def New_App_def)
qed

definition ex_host :: host_info where
  "ex_host = \<lparr>hi_env = (\<lambda>_. ''''), hi_outbound = Some ''10.0.0.7'', hi_addrs = None, hi_docker = None, hi_adbErr = None\<rparr>"

definition ex_flags :: flags where
  "ex_flags = \<lparr>fl_config = ''provider.yaml'', fl_logLevel = ''debug'', fl_version = False, fl_reset = '''', fl_args = []\<rparr>"

lemma ex_main_start:
  "\<exists>lg provider a. main_start ex_config_lib ex_host ''dev'' ex_flags = Started lg provider a"
proof -
  have "tags_ok ex_config" by (simp add: tags_ok_def ex_config_def)
  then have "Load ex_config_lib ''provider.yaml'' = Inr ex_config" by (simp add: Load_def ex_config_lib_def)
  then show ?thesis
    by (simp add: main_start_def ex_flags_def serialToReset_def app_New_def ex_host_def New_Supervisor_def NewPortAllocator_def
        ex_config_def Let_def)
qed

theorem started_provider_is_sound_witness:
  "\<exists>lg provider a. main_start ex_config_lib ex_host ''dev'' ex_flags = Started lg provider a \<and> app_reachable ex_stub a \<and>
     lg_level lg = LevelDebug \<and> prov_MinPort provider < prov_MaxPort provider"
proof -
  obtain lg provider a where run: "main_start ex_config_lib ex_host ''dev'' ex_flags = Started lg provider a" using ex_main_start by blast
  have "honours_tags ex_config_lib" by (simp add: honours_tags_def ex_config_lib_def)
  from started_provider_is_sound [OF this run, of ex_stub] run show ?thesis by (auto simp: ex_flags_def parseLevel_def)
qed

section \<open>The reset command\<close>

lemma reset_line_fields:
  assumes "serial \<noteq> ''''" "\<not> (\<exists>c \<in> set serial. is_space c)"
  shows "strings_TrimSpace (reset_line serial) = reset_line serial" "strings_Fields (reset_line serial) = [''reset'', serial]"
proof -
  have sp: "is_space CHR '' ''" and re: "\<not> (\<exists>c \<in> set ''reset''. is_space c)" "\<not> is_space CHR ''r''" by (simp_all add: is_space_def)
  have "last (reset_line serial) = last serial" using assms(1) by (simp add: reset_line_def)
  with assms re(2) show "strings_TrimSpace (reset_line serial) = reset_line serial"
    by (intro strings_TrimSpace_id) (auto simp: reset_line_def)
  have "strings_Fields (''reset'' @ CHR '' '' # serial) = ''reset'' # strings_Fields serial"
    using strings_Fields_Cons [OF _ re(1) sp, of serial] by simp
  with strings_Fields_single [OF assms] show "strings_Fields (reset_line serial) = [''reset'', serial]" by (simp add: reset_line_def)
qed

lemma handleAdminConn_reset:
  assumes "serial \<noteq> ''''" "\<not> (\<exists>c \<in> set serial. is_space c)"
  shows "handleAdminConn os now [reset_line serial] a [] =
    (case reset_device os now serial a of
       None \<Rightarrow> None
     | Some (False, a) \<Rightarrow> Some ([''ERROR: device '' @ serial @ '' not found in registry''], a)
     | Some (True, a) \<Rightarrow> Some ([''SUCCESS: device '' @ serial @ '' supervisor restarted''], a))"
proof -
  have "reset_line serial \<noteq> ''''" by (simp add: reset_line_def)
  with reset_line_fields [OF assms] show ?thesis
    by (simp add: Let_def split: option.splits prod.splits bool.splits)
qed

lemma reset_device_found:
  assumes "app_inv a" "Get (app_registry a) serial = Inr d" "reset_device os now serial a = Some (ok, a')"
  shows "ok" "Get (app_registry a') serial = Inr d"
    "sup_devices (app_sup a') = (sup_devices (app_sup a))(serial \<mapsto> newDeviceSupervisor d (sup_providerID (app_sup a)))"
    "app_calls a' = app_calls a @ [CallRelease serial, CallRegister d]"
proof -
  have d: "dev_Serial d = serial" using assms(1,2) by (auto simp: app_inv_def reg_inv_def Get_def split: option.splits)
  from assms(2,3) obtain a1 where a1: "onDeviceDisconnected os serial a = Some a1" and a': "ok"
    "a' = onDeviceConnected \<lparr>ev_Serial = serial, ev_Type = EventConnected, ev_Device = Some d, ev_Timestamp = now\<rparr> a1"
    by (auto simp: reset_device_def split: option.splits)
  from a1 obtain sv where sv: "OnDeviceDisconnected os (app_sup a) serial = Some sv" and a1_eq:
    "a1 = a\<lparr>app_registry := snd (Remove (app_registry a) serial), app_sup := sv, app_calls := app_calls a @ [CallRelease serial]\<rparr>"
    by (auto simp: onDeviceDisconnected_def split: option.splits)
  have sup: "sup_devices sv = (sup_devices (app_sup a))(serial := None)" "sup_providerID sv = sup_providerID (app_sup a)"
    using sv by (auto simp: OnDeviceDisconnected_def Let_def split: option.splits)
  have reg: "reg_devices (snd (Remove (app_registry a) serial)) serial = None" using Remove_dom [of "app_registry a" serial] by blast
  show "ok" by (rule a'(1))
  show "Get (app_registry a') serial = Inr d" "app_calls a' = app_calls a @ [CallRelease serial, CallRegister d]"
    "sup_devices (app_sup a') = (sup_devices (app_sup a))(serial \<mapsto> newDeviceSupervisor d (sup_providerID (app_sup a)))"
    using reg d by (simp_all add: a'(2) a1_eq onDeviceConnected_def Add_def Get_def OnDeviceConnected_def sup)
qed


definition ex_running :: App where
  "ex_running = ex_app\<lparr>app_sup := run_device (app_sup ex_app) ''d1''\<rparr>"

lemma ex_running_reachable: "app_reachable ex_stub ex_running"
  unfolding ex_running_def by (rule app_reachable.step [OF ex_app_reachable app_step.run])

lemmas ex_reset_defs = ex_running_def ex_app_def ex_connected_def New_App_def onDeviceConnected_def Add_def ex_defs Device_Supervisor.Stop_def teardown_def
  OnDeviceDisconnected_def onDeviceDisconnected_def reset_device_def stop_capture_def StopCapture_def bg_delete_def


end
