(* ===== verification/Lossy_Channel.thy ===== *)
theory Lossy_Channel
  imports Go_Prelude "HOL-Library.Sublist"
begin

text \<open>
  Buffered channels that are written in a \<^verbatim>\<open>select\<close> with a \<^verbatim>\<open>default\<close> branch: what does not fit is dropped.  The provider has two of
  them, for the video of a viewer and for the control messages of a device.  The locale states what their readers rely
  on: of what was sent they get a part, in order, and everything while no more was sent than fits.
\<close>

definition delivered :: "nat \<Rightarrow> ('a \<Rightarrow> bool) \<Rightarrow> 'a list \<Rightarrow> 'a list \<Rightarrow> 'a list \<Rightarrow> bool" where
  "delivered cap valid taken waiting sent \<longleftrightarrow>
     subseq (taken @ waiting) sent \<and> (length sent \<le> cap \<longrightarrow> list_all valid sent \<longrightarrow> taken @ waiting = sent)"

lemma delivered_Nil [simp]: "delivered cap valid [] [] []"
  by (simp add: delivered_def)

lemma delivered_take: "delivered cap valid taken (x # waiting) sent \<Longrightarrow> delivered cap valid (taken @ [x]) waiting sent"
  by (simp add: delivered_def)

lemma delivered_taken: "delivered cap valid taken waiting sent \<Longrightarrow> subseq taken sent"
  unfolding delivered_def by (meson list_emb_prefix subseq_order.order_refl subseq_order.order_trans)

lemma delivered_all:
  "delivered cap valid taken waiting sent \<Longrightarrow> length sent \<le> cap \<Longrightarrow> list_all valid sent \<Longrightarrow> taken @ waiting = sent"
  by (simp add: delivered_def)

locale lossy_channel =
  fixes send :: "'a \<Rightarrow> 'q \<Rightarrow> 'q" and contents :: "'q \<Rightarrow> 'a list" and cap :: nat and usable :: "'q \<Rightarrow> bool" and valid :: "'a \<Rightarrow> bool"
  assumes send_usable: "usable q \<Longrightarrow> usable (send x q)"
    and send_or_drop: "usable q \<Longrightarrow> contents (send x q) = contents q \<or> contents (send x q) = contents q @ [x]"
    and send_fits: "usable q \<Longrightarrow> valid x \<Longrightarrow> length (contents q) < cap \<Longrightarrow> contents (send x q) = contents q @ [x]"
begin

lemma delivered_send:
  assumes "usable q" "delivered cap valid taken (contents q) sent"
  shows "delivered cap valid taken (contents (send x q)) (sent @ [x])"
proof -
  have sub: "subseq (taken @ contents q) sent" using assms(2) by (simp add: delivered_def)
  have "subseq (taken @ contents (send x q)) (sent @ [x])"
    using send_or_drop [OF assms(1), of x]
  proof
    assume "contents (send x q) = contents q"
    with sub show ?thesis by (simp add: subseq_rev_drop_many)
  next
    assume "contents (send x q) = contents q @ [x]"
    with list_emb_append_mono [OF sub, of "[x]" "[x]"] show ?thesis by simp
  qed
  moreover have "taken @ contents (send x q) = sent @ [x]" if "length (sent @ [x]) \<le> cap" "list_all valid (sent @ [x])"
  proof -
    from that assms(2) have all: "taken @ contents q = sent" by (simp add: delivered_def)
    with that have "length (contents q) < cap" by auto
    with send_fits [OF assms(1)] that(2) all show ?thesis by auto
  qed
  ultimately show ?thesis by (simp add: delivered_def)
qed

lemma delivered_sends:
  "usable q \<Longrightarrow> delivered cap valid taken (contents q) sent \<Longrightarrow>
   usable (fold send xs q) \<and> delivered cap valid taken (contents (fold send xs q)) (sent @ xs)"
proof (induction xs arbitrary: q sent)
  case (Cons x xs)
  from Cons.IH [OF send_usable [OF Cons.prems(1)] delivered_send [OF Cons.prems]] show ?case by simp
qed simp

end

end
