(* ===== verification/Scrcpy_Control.thy ===== *)
theory Scrcpy_Control
  imports H264_Framing Locator
begin

unbundle bit_operations_syntax

text \<open>
  \<^verbatim>\<open>src/internal/stream/control.go\<close>: the encoding of control events into the messages that the scrcpy server on the device
  reads, and a reader of these messages written from the layouts that the source documents.  The slices that the source
  fills field by field are the concatenation of the fields, which follow one another without gaps; the conversion of a
  \<^verbatim>\<open>float64\<close> to an integer drops the fraction and keeps the low bits.
\<close>

section \<open>Events\<close>

record ControlEvent =
  ce_Type :: string
  ce_Action :: int
  ce_X :: float64
  ce_Y :: float64
  ce_Pressure :: float64
  ce_Keycode :: int
  ce_HScroll :: float64
  ce_VScroll :: float64
  ce_Text :: string
  ce_Button :: int
  ce_Buttons :: int
  ce_PointerID :: int
  ce_Path :: string

text \<open>\<^verbatim>\<open>binary.BigEndian\<close> for 16 and 64 bits.\<close>

definition PutUint16 :: "16 word \<Rightarrow> byte list" where
  "PutUint16 v = [ucast (drop_bit 8 v), ucast v]"

definition PutUint64 :: "64 word \<Rightarrow> byte list" where
  "PutUint64 v = PutUint32 (ucast (drop_bit 32 v)) @ PutUint32 (ucast v)"

definition Uint16 :: "byte list \<Rightarrow> 16 word" where
  "Uint16 b = ucast (b ! 1) OR push_bit 8 (ucast (b ! 0))"

definition Uint64 :: "byte list \<Rightarrow> 64 word" where
  "Uint64 b = ucast (Uint32 (drop 4 b)) OR push_bit 32 (ucast (Uint32 (take 4 b)))"

definition bytes_of :: "string \<Rightarrow> byte list" where
  "bytes_of s = map of_char s"

section \<open>SerializeControlEvent\<close>

definition screen_size :: "16 word \<Rightarrow> 16 word \<Rightarrow> 16 word \<times> 16 word" where
  "screen_size vw vh = (if vw = 0 \<or> vh = 0 then (1080, 1920) else (vw, vh))"

definition abs_coord :: "float64 \<Rightarrow> 16 word \<Rightarrow> 32 word" where
  "abs_coord x w = word_of_int (Locator.truncate (x * real (unat w)))"

definition touch_pressure :: "ControlEvent \<Rightarrow> 16 word" where
  "touch_pressure ev =
     (let p = (if ce_Pressure ev = 0 \<and> ce_Action ev = 0 then 1 else ce_Pressure ev) in word_of_int (Locator.truncate (p * 65535)))"

definition touch_actionButton :: "ControlEvent \<Rightarrow> 32 word" where
  "touch_actionButton ev =
     (if ce_Buttons ev > 0 then
        if ce_Action ev = 0 \<or> ce_Action ev = 1 then
          if ce_Button ev = 0 then 1 else if ce_Button ev = 1 then 4 else if ce_Button ev = 2 then 2 else 0
        else 0
      else if ce_Action ev = 0 \<or> ce_Action ev = 1 then 1 else 0)"

definition touch_buttons :: "ControlEvent \<Rightarrow> 32 word" where
  "touch_buttons ev =
     (if ce_Buttons ev > 0 then
        (let b = (0 :: 32 word);
             b = (if ce_Buttons ev AND 1 \<noteq> 0 then b OR 1 else b);
             b = (if ce_Buttons ev AND 2 \<noteq> 0 then b OR 2 else b)
         in if ce_Buttons ev AND 4 \<noteq> 0 then b OR 4 else b)
      else if ce_Action ev = 0 \<or> ce_Action ev = 1 then 1 else 0)"

definition touch_pointer :: "ControlEvent \<Rightarrow> 64 word" where
  "touch_pointer ev = word_of_int (if ce_Buttons ev > 0 \<and> ce_PointerID ev = 0 then - 1 else ce_PointerID ev)"

definition touch_msg :: "ControlEvent \<Rightarrow> 16 word \<Rightarrow> 16 word \<Rightarrow> byte list" where
  "touch_msg ev vw vh =
     [2, word_of_int (ce_Action ev)] @ PutUint64 (touch_pointer ev) @
     PutUint32 (abs_coord (ce_X ev) vw) @ PutUint32 (abs_coord (ce_Y ev) vh) @ PutUint16 vw @ PutUint16 vh @
     PutUint16 (touch_pressure ev) @ PutUint32 (touch_actionButton ev) @ PutUint32 (touch_buttons ev)"

definition scroll_value :: "float64 \<Rightarrow> 16 word" where
  "scroll_value v =
     (let v = (if v > 1 then 1 else if v < - 1 then - 1 else v) in if v = 1 then 0x7fff else word_of_int (Locator.truncate (v * 32768)))"

definition scroll_msg :: "ControlEvent \<Rightarrow> 16 word \<Rightarrow> 16 word \<Rightarrow> byte list" where
  "scroll_msg ev vw vh =
     [3] @ PutUint32 (abs_coord (ce_X ev) vw) @ PutUint32 (abs_coord (ce_Y ev) vh) @ PutUint16 vw @ PutUint16 vh @
     PutUint16 (scroll_value (ce_HScroll ev)) @ PutUint16 (scroll_value (ce_VScroll ev)) @ PutUint32 0"

definition text_msg :: "string \<Rightarrow> byte list" where
  "text_msg text = (let textBytes = bytes_of text in [1] @ PutUint32 (word_of_nat (length textBytes)) @ textBytes)"

definition key_msg :: "byte \<Rightarrow> int \<Rightarrow> byte list" where
  "key_msg action keycode = [0, action] @ PutUint32 (word_of_int keycode) @ PutUint32 0 @ PutUint32 0"

definition SerializeControlEvent :: "ControlEvent \<Rightarrow> 16 word \<Rightarrow> 16 word \<Rightarrow> string + byte list list" where
  "SerializeControlEvent ev vw vh =
     (let (vw, vh) = screen_size vw vh in
      if ce_Type ev = ''touch'' then Inr [touch_msg ev vw vh]
      else if ce_Type ev = ''scroll'' then Inr [scroll_msg ev vw vh]
      else if ce_Type ev = ''text'' then Inr [text_msg (ce_Text ev)]
      else if ce_Type ev = ''key'' then Inr [key_msg 0 (ce_Keycode ev), key_msg 1 (ce_Keycode ev)]
      else Inl (''unknown event type: '' @ ce_Type ev))"

section \<open>A reader of the messages\<close>

text \<open>
  The messages as the reader understands them; the fields are in the order of the layouts in the source.  The reader of
  one message gives the message and what follows it, or fails when a field is cut short or the type is none of the four.
\<close>

datatype control_msg =
    KeycodeMsg byte "32 word" "32 word" "32 word"
  | TextMsg "byte list"
  | TouchMsg byte "64 word" "32 word" "32 word" "16 word" "16 word" "16 word" "32 word" "32 word"
  | ScrollMsg "32 word" "32 word" "16 word" "16 word" "16 word" "16 word" "32 word"

type_synonym 'a reader = "byte list \<Rightarrow> ('a \<times> byte list) option"

definition field :: "nat \<Rightarrow> (byte list \<Rightarrow> 'a) \<Rightarrow> 'a reader" where
  "field n f bs = (if length bs < n then None else Some (f (take n bs), drop n bs))"

abbreviation u8 :: "byte reader" where "u8 \<equiv> field (Suc 0) hd"
abbreviation u16 :: "16 word reader" where "u16 \<equiv> field 2 Uint16"
abbreviation u32 :: "32 word reader" where "u32 \<equiv> field 4 Uint32"
abbreviation u64 :: "64 word reader" where "u64 \<equiv> field 8 Uint64"

definition chain :: "'a reader \<Rightarrow> ('a \<Rightarrow> 'b reader) \<Rightarrow> 'b reader" where
  "chain r f bs = (case r bs of None \<Rightarrow> None | Some (a, bs) \<Rightarrow> f a bs)"

definition done_with :: "'a \<Rightarrow> 'a reader" where
  "done_with a bs = Some (a, bs)"

definition read_body :: "byte \<Rightarrow> control_msg reader" where
  "read_body t =
     (if t = 0 then
        chain u8 (\<lambda>a. chain u32 (\<lambda>k. chain u32 (\<lambda>r. chain u32 (\<lambda>m. done_with (KeycodeMsg a k r m)))))
      else if t = 1 then
        chain u32 (\<lambda>n. chain (field (unat n) id) (\<lambda>t. done_with (TextMsg t)))
      else if t = 2 then
        chain u8 (\<lambda>a. chain u64 (\<lambda>p. chain u32 (\<lambda>x. chain u32 (\<lambda>y. chain u16 (\<lambda>w. chain u16 (\<lambda>h.
          chain u16 (\<lambda>pr. chain u32 (\<lambda>ab. chain u32 (\<lambda>b. done_with (TouchMsg a p x y w h pr ab b))))))))))
      else if t = 3 then
        chain u32 (\<lambda>x. chain u32 (\<lambda>y. chain u16 (\<lambda>w. chain u16 (\<lambda>h. chain u16 (\<lambda>hs. chain u16 (\<lambda>vs.
          chain u32 (\<lambda>b. done_with (ScrollMsg x y w h hs vs b))))))))
      else (\<lambda>_. None))"

definition read_msg :: "control_msg reader" where
  "read_msg = chain u8 read_body"

lemma field_shrinks: "field n f bs = Some (a, rest) \<Longrightarrow> length rest + n = length bs"
  by (auto simp: field_def split: if_splits)

lemma chain_shrinks:
  assumes "\<And>bs a rest. r bs = Some (a, rest) \<Longrightarrow> length rest \<le> length bs"
    and "\<And>a bs b rest. f a bs = Some (b, rest) \<Longrightarrow> length rest \<le> length bs"
    and "chain r f bs = Some (b, rest)"
  shows "length rest \<le> length bs"
  using assms(3) by (auto simp: chain_def split: option.splits prod.splits dest!: assms(1,2))

lemma read_body_shrinks: "read_body t bs = Some (m, rest) \<Longrightarrow> length rest \<le> length bs"
  by (auto simp: read_body_def chain_def done_with_def split: if_splits option.splits prod.splits dest!: field_shrinks)

lemma read_msg_shrinks: "read_msg bs = Some (m, rest) \<Longrightarrow> length rest < length bs"
  by (auto simp: read_msg_def chain_def split: option.splits prod.splits dest!: field_shrinks read_body_shrinks)

text \<open>The reader of a stream of messages.\<close>

function read_all :: "byte list \<Rightarrow> control_msg list option" where
  "read_all bs =
     (if bs = [] then Some []
      else (case read_msg bs of
              None \<Rightarrow> None
            | Some (m, rest) \<Rightarrow> map_option ((#) m) (read_all rest)))"
  by pat_completeness auto
termination
  by (relation "measure length") (auto dest: read_msg_shrinks)

declare read_all.simps [simp del]

section \<open>What is sent is what is read\<close>

lemma chain_field [simp]: "length xs = n \<Longrightarrow> chain (field n f) g (xs @ ys) = g (f xs) ys"
  by (simp add: chain_def field_def)

lemma chain_u8 [simp]: "chain u8 g (x # ys) = g x ys"
  by (simp add: chain_def field_def)

lemma Uint16_PutUint16 [simp]: "Uint16 (PutUint16 v) = v"
proof (rule bit_word_eqI)
  fix n :: nat
  assume n: "n < LENGTH(16)"
  consider "n < 8" | "8 \<le> n" by linarith
  then show "bit (Uint16 (PutUint16 v)) n = bit v n"
    using n by cases (auto simp: Uint16_def PutUint16_def bit_simps)
qed

lemma length_PutUint16 [simp]: "length (PutUint16 v) = 2"
  by (simp add: PutUint16_def)

lemma length_PutUint64 [simp]: "length (PutUint64 v) = 8"
  by (simp add: PutUint64_def)

lemma Uint64_PutUint64 [simp]: "Uint64 (PutUint64 v) = v"
proof (rule bit_word_eqI)
  fix n :: nat
  assume n: "n < LENGTH(64)"
  consider "n < 32" | "32 \<le> n" by linarith
  then show "bit (Uint64 (PutUint64 v)) n = bit v n"
    using n by cases (auto simp: Uint64_def PutUint64_def Uint32_PutUint32 bit_simps)
qed

declare Uint32_PutUint32 [simp]

text \<open>The messages that an event stands for, on a screen of the given size.\<close>

definition control_msgs :: "16 word \<Rightarrow> 16 word \<Rightarrow> ControlEvent \<Rightarrow> control_msg list" where
  "control_msgs w h ev =
     (if ce_Type ev = ''touch'' then
        [TouchMsg (word_of_int (ce_Action ev)) (touch_pointer ev) (abs_coord (ce_X ev) w) (abs_coord (ce_Y ev) h) w h
           (touch_pressure ev) (touch_actionButton ev) (touch_buttons ev)]
      else if ce_Type ev = ''scroll'' then
        [ScrollMsg (abs_coord (ce_X ev) w) (abs_coord (ce_Y ev) h) w h (scroll_value (ce_HScroll ev)) (scroll_value (ce_VScroll ev)) 0]
      else if ce_Type ev = ''text'' then [TextMsg (bytes_of (ce_Text ev))]
      else [KeycodeMsg 0 (word_of_int (ce_Keycode ev)) 0 0, KeycodeMsg 1 (word_of_int (ce_Keycode ev)) 0 0])"

lemma read_touch: "read_msg (touch_msg ev w h @ bs) =
    Some (TouchMsg (word_of_int (ce_Action ev)) (touch_pointer ev) (abs_coord (ce_X ev) w) (abs_coord (ce_Y ev) h) w h
      (touch_pressure ev) (touch_actionButton ev) (touch_buttons ev), bs)"
  by (simp add: read_msg_def touch_msg_def read_body_def done_with_def)

lemma read_scroll: "read_msg (scroll_msg ev w h @ bs) =
    Some (ScrollMsg (abs_coord (ce_X ev) w) (abs_coord (ce_Y ev) h) w h (scroll_value (ce_HScroll ev)) (scroll_value (ce_VScroll ev)) 0, bs)"
  by (simp add: read_msg_def scroll_msg_def read_body_def done_with_def)

lemma read_key: "read_msg (key_msg a k @ bs) = Some (KeycodeMsg a (word_of_int k) 0 0, bs)"
  by (simp add: read_msg_def key_msg_def read_body_def done_with_def)

lemma read_text: "length text < 2 ^ 32 \<Longrightarrow> read_msg (text_msg text @ bs) = Some (TextMsg (bytes_of text), bs)"
  by (simp add: read_msg_def text_msg_def read_body_def done_with_def Let_def bytes_of_def unat_of_nat take_bit_nat_eq_self)

lemma read_all_step: "read_msg (xs @ bs) = Some (m, bs) \<Longrightarrow> xs \<noteq> [] \<Longrightarrow> read_all (xs @ bs) = map_option ((@) [m]) (read_all bs)"
  by (subst read_all.simps) (cases "read_all bs"; simp)

lemmas msg_defs = touch_msg_def scroll_msg_def key_msg_def text_msg_def Let_def

lemma read_event:
  assumes "SerializeControlEvent ev vw vh = Inr msgs" "length (ce_Text ev) < 2 ^ 32"
  shows "read_all (concat msgs @ bs) = map_option ((@) (case screen_size vw vh of (w, h) \<Rightarrow> control_msgs w h ev)) (read_all bs)"
proof -
  obtain w h where wh: "screen_size vw vh = (w, h)" by (rule prod.exhaust)
  have *: "touch_msg ev w h \<noteq> []" "scroll_msg ev w h \<noteq> []" "text_msg t \<noteq> []" "key_msg a k \<noteq> []" for t a k by (simp_all add: msg_defs)
  have "read_all (key_msg 0 k @ key_msg 1 k @ bs) = map_option ((@) [KeycodeMsg 0 (word_of_int k) 0 0, KeycodeMsg 1 (word_of_int k) 0 0]) (read_all bs)" for k
    by (cases "read_all bs") (simp_all add: read_all_step [OF read_key *(4)])
  with assms wh show ?thesis
    by (auto simp: SerializeControlEvent_def control_msgs_def read_all_step [OF read_touch *(1)] read_all_step [OF read_scroll *(2)]
      read_all_step [OF read_text *(3)] split: if_splits)
qed

lemma read_events:
  assumes "list_all2 (\<lambda>ev msgs. SerializeControlEvent ev vw vh = Inr msgs) evs mss" "list_all (\<lambda>ev. length (ce_Text ev) < 2 ^ 32) evs"
  shows "read_all (concat (concat mss)) = Some (concat (map (case screen_size vw vh of (w, h) \<Rightarrow> control_msgs w h) evs))"
  using assms
proof (induction rule: list_all2_induct)
  case Nil
  then show ?case by (simp add: read_all.simps)
next
  case (Cons ev evs msgs mss)
  then show ?case by (simp add: read_event split: prod.splits)
qed


definition ex_control :: "string \<Rightarrow> ControlEvent" where
  "ex_control t = \<lparr>ce_Type = t, ce_Action = 0, ce_X = 1 / 2, ce_Y = 1 / 4, ce_Pressure = 0, ce_Keycode = 4, ce_HScroll = 0, ce_VScroll = 2,
     ce_Text = ''hi'', ce_Button = 0, ce_Buttons = 0, ce_PointerID = 0, ce_Path = ''''\<rparr>"


section \<open>Where a touch lands\<close>

lemma truncate_scaled:
  fixes x :: float64
  assumes "0 \<le> x" "x \<le> 1"
  shows "0 \<le> Locator.truncate (x * real n)" "Locator.truncate (x * real n) \<le> int n" "x < 1 \<Longrightarrow> 0 < n \<Longrightarrow> Locator.truncate (x * real n) < int n"
    "Locator.truncate (1 * real n) = int n"
proof -
  have t: "Locator.truncate (x * real n) = \<lfloor>x * real n\<rfloor>" using assms by (simp add: Locator.truncate_def)
  have "x * real n \<le> 1 * real n" using assms by (intro mult_right_mono) auto
  then show "Locator.truncate (x * real n) \<le> int n" unfolding t by linarith
  show "0 \<le> Locator.truncate (x * real n)" unfolding t using assms by simp
  show "Locator.truncate (1 * real n) = int n" by (simp add: Locator.truncate_def)
  assume "x < 1" "0 < n"
  then have "x * real n < 1 * real n" by (intro mult_strict_right_mono) auto
  then show "Locator.truncate (x * real n) < int n" unfolding t by linarith
qed

lemma unat_abs_coord:
  assumes "0 \<le> x" "x \<le> 1"
  shows "unat (abs_coord x w) = nat (Locator.truncate (x * real (unat w)))"
proof -
  have "unat w < 65536" using unsigned_less [of w, where ?'a = nat] by simp
  with truncate_scaled(2) [OF assms, of "unat w"] have "Locator.truncate (x * real (unat w)) < 4294967296" by linarith
  with truncate_scaled(1) [OF assms, of "unat w"] show ?thesis
    unfolding abs_coord_def unat_eq_nat_uint by (simp only: uint_word_of_int) simp
qed

lemma coord_lands:
  assumes "0 \<le> x" "x \<le> 1" "0 < unat w"
  shows "unat (abs_coord x w) = nat \<lfloor>x * real (unat w)\<rfloor> \<and> (unat (abs_coord x w) < unat w \<longleftrightarrow> x < 1)"
proof -
  define n where "n = unat w"
  have n: "0 < n" "unat (abs_coord x w) = nat (Locator.truncate (x * real n))"
    using assms(3) unat_abs_coord [OF assms(1,2), of w] by (simp_all add: n_def)
  have "Locator.truncate (x * real n) = \<lfloor>x * real n\<rfloor>" using assms(1) by (simp add: Locator.truncate_def)
  moreover have "nat (Locator.truncate (x * real n)) < n \<longleftrightarrow> x < 1"
    using truncate_scaled(1,3) [OF assms(1,2), of n] truncate_scaled(4) [of 1 n] n(1) assms(2) by (cases "x = 1") auto
  ultimately show ?thesis unfolding n(2) n_def [symmetric] by simp
qed

lemma screen_size_pos: "screen_size vw vh = (w, h) \<Longrightarrow> 0 < unat w \<and> 0 < unat h"
  by (auto simp: screen_size_def unat_gt_0 split: if_splits)

text \<open>
  A touch is one message of 32 bytes that names the size of the screen, the one of the stream or the default.  For a
  normalised point it addresses the pixel of that point, inside the screen; only the far edge itself, coordinate one, lies
  one pixel outside.
\<close>

theorem touch_lands_on_screen:
  assumes "ce_Type ev = ''touch''" "0 \<le> ce_X ev" "ce_X ev \<le> 1" "0 \<le> ce_Y ev" "ce_Y ev \<le> 1" "screen_size vw vh = (w, h)"
  shows "\<exists>m a p x y pr ab b. SerializeControlEvent ev vw vh = Inr [m] \<and> length m = 32 \<and>
    read_msg m = Some (TouchMsg a p x y w h pr ab b, []) \<and>
    unat x = nat \<lfloor>ce_X ev * real (unat w)\<rfloor> \<and> unat y = nat \<lfloor>ce_Y ev * real (unat h)\<rfloor> \<and>
    (unat x < unat w \<longleftrightarrow> ce_X ev < 1) \<and> (unat y < unat h \<longleftrightarrow> ce_Y ev < 1)"
proof -
  let ?m = "touch_msg ev w h"
  have m: "SerializeControlEvent ev vw vh = Inr [?m]" using assms by (simp add: SerializeControlEvent_def)
  have len: "length ?m = 32" by (simp add: touch_msg_def)
  have pos: "0 < unat w" "0 < unat h" using screen_size_pos [OF assms(6)] by simp_all
  from read_touch [of ev w h "[]"] m len coord_lands [OF assms(2,3) pos(1)] coord_lands [OF assms(4,5) pos(2)] show ?thesis
    by (intro exI conjI) (auto simp del: unsigned_of_nat)
qed

theorem touch_lands_on_screen_witness:
  "\<exists>m a p x y pr ab b. SerializeControlEvent (ex_control ''touch'') 720 1280 = Inr [m] \<and> length m = 32 \<and>
    read_msg m = Some (TouchMsg a p x y 720 1280 pr ab b, []) \<and> unat x = 360 \<and> unat y = 320"
proof -
  have "ce_Type (ex_control ''touch'') = ''touch''" "0 \<le> ce_X (ex_control ''touch'')" "ce_X (ex_control ''touch'') \<le> 1"
    "0 \<le> ce_Y (ex_control ''touch'')" "ce_Y (ex_control ''touch'') \<le> 1" "screen_size 720 1280 = (720, 1280)"
    by (simp_all add: ex_control_def screen_size_def)
  from touch_lands_on_screen [OF this] obtain m a p x y pr ab b where
    "SerializeControlEvent (ex_control ''touch'') 720 1280 = Inr [m]" "length m = 32"
    "read_msg m = Some (TouchMsg a p x y 720 1280 pr ab b, [])" "unat x = nat \<lfloor>ce_X (ex_control ''touch'') * real (unat (720 :: 16 word))\<rfloor>"
    "unat y = nat \<lfloor>ce_Y (ex_control ''touch'') * real (unat (1280 :: 16 word))\<rfloor>" by blast
  moreover from this(4,5) have "unat x = 360" "unat y = 320" by (simp_all add: ex_control_def)
  ultimately show ?thesis by blast
qed

end
