(* ===== verification/Ws_Control.thy ===== *)
theory Ws_Control
  imports Lossy_Channel Scrcpy_Control Supervisor Script_Compiler Device_Control
begin

text \<open>
  \<^verbatim>\<open>src/internal/stream/ws.go\<close> and \<^verbatim>\<open>helpers.go\<close>: the WebSocket of a device, over which a viewer gets the video and sends
  its input.  The loop that reads messages is the function \<^verbatim>\<open>ws_message\<close>; a goroutine that it starts is a \<^verbatim>\<open>task\<close>, which
  runs later, by one of the \<^verbatim>\<open>run_\<close> definitions; the goroutine that writes to the control socket is \<^verbatim>\<open>write_control\<close>.
  The channel between the two holds 64 messages.  What is sent to the viewer is the list of replies.
\<close>

section \<open>helpers.go\<close>

definition isSystemOrLauncher :: "string \<Rightarrow> bool" where
  "isSystemOrLauncher pkg =
     (let pkg = strings_ToLower pkg in
      strings_Contains pkg ''launcher'' \<or> strings_Contains pkg ''systemui'' \<or> strings_Contains pkg ''home'' \<or> pkg = ''android'')"

definition isPkgChar :: "char \<Rightarrow> bool" where
  "isPkgChar c = (let n = of_char c :: nat in (97 \<le> n \<and> n \<le> 122) \<or> (65 \<le> n \<and> n \<le> 90) \<or> (48 \<le> n \<and> n \<le> 57) \<or> n = 95 \<or> n = 46)"

text \<open>The backward loop stops after the last character that cannot be part of a package name.\<close>

definition package_suffix :: "string \<Rightarrow> string" where
  "package_suffix left = rev (takeWhile isPkgChar (rev left))"

definition focus_line :: "string \<Rightarrow> bool" where
  "focus_line line \<longleftrightarrow> strings_Contains line ''mCurrentFocus'' \<or> strings_Contains line ''mFocusedApp'' \<or> strings_Contains line ''mResumedActivity''"

definition package_of_line :: "bool \<Rightarrow> string \<Rightarrow> string option" where
  "package_of_line raw line =
     (if \<not> focus_line line then None
      else (case strings_Index line (CHR ''/'') of
              None \<Rightarrow> None
            | Some slashIdx \<Rightarrow>
                (let pkg = strings_Trim (package_suffix (take slashIdx line)) [CHR '' '', CHR 0x09, CHR 0x0A, CHR 0x0D, CHR ''{'', CHR ''}'', CHR ''('', CHR '')'', CHR ''=''] in
                 if pkg \<noteq> '''' \<and> strings_Contains pkg ''.'' \<and> (raw \<or> \<not> isSystemOrLauncher pkg) then Some pkg else None)))"

definition parsePackageFromDumpsys :: "string \<Rightarrow> bool \<Rightarrow> string" where
  "parsePackageFromDumpsys output raw =
     (case List.map_filter (package_of_line raw) (strings_Split output (CHR 0x0A)) of [] \<Rightarrow> '''' | pkg # _ \<Rightarrow> pkg)"

definition package_in :: "bool \<Rightarrow> string + CommandResult \<Rightarrow> string" where
  "package_in raw res = (case res of Inl _ \<Rightarrow> '''' | Inr r \<Rightarrow> parsePackageFromDumpsys (cr_Output r) raw)"

definition getForegroundPackage :: "'s adb_shell \<Rightarrow> Agent \<Rightarrow> bool \<Rightarrow> 's \<Rightarrow> string \<times> 's" where
  "getForegroundPackage shell agt raw s =
     (case Shell shell ''dumpsys window windows'' agt s of
        (res, s) \<Rightarrow>
          if package_in raw res \<noteq> '''' then (package_in raw res, s)
          else (case Shell shell ''dumpsys activity activities'' agt s of (res2, s) \<Rightarrow> (package_in raw res2, s)))"

section \<open>State of a connection\<close>

datatype reply =
    RecordingStarted
  | RecordingError string
  | RecordingComplete string
  | UIDump string
  | UIDumpError string
  | ForegroundPackage string

text \<open>The goroutines: a client of WebDriverAgent is known by its port.\<close>

datatype task =
    DumpUITask
  | ForegroundTask
  | ListDirectoryTask string
  | RecordSwipeTask float64 float64 float64 float64 int
  | RecordClickTask float64 float64
  | IosTouchTask int float64 float64 float64 float64 int bool float64 float64
  | IosKeyTask int int
  | IosTextTask int string

record ws_state =
  ws_stream :: streamState
  ws_recorder :: RecorderManager
  ws_queue :: "byte list list"
  ws_socket :: "byte list"
  ws_replies :: "reply list"
  ws_tasks :: "task list"

record 's ws_env =
  we_serial :: string
  we_reg :: Registry
  we_agentFn :: "string \<Rightarrow> Agent option"
  we_wdaFn :: "string \<Rightarrow> string + int option"
  we_shell :: "'s adb_shell"
  we_compile :: "RawEvent list \<Rightarrow> Script"
  we_yaml :: "Script \<Rightarrow> string + string"

definition reply_with :: "reply \<Rightarrow> ws_state \<Rightarrow> ws_state" where
  "reply_with r w = w\<lparr>ws_replies := ws_replies w @ [r]\<rparr>"

definition start :: "task \<Rightarrow> ws_state \<Rightarrow> ws_state" where
  "start t w = w\<lparr>ws_tasks := ws_tasks w @ [t]\<rparr>"

definition with_gesture :: "(gestureState \<Rightarrow> gestureState) \<Rightarrow> ws_state \<Rightarrow> ws_state" where
  "with_gesture f w = w\<lparr>ws_stream := (ws_stream w)\<lparr>ss_gesture := f (ss_gesture (ws_stream w))\<rparr>\<rparr>"

section \<open>Recording\<close>

definition start_recording :: "'s ws_env \<Rightarrow> instant \<Rightarrow> ws_state \<Rightarrow> 's \<Rightarrow> ws_state \<times> 's" where
  "start_recording env now w s =
     (case (case we_agentFn env (we_serial env) of
              None \<Rightarrow> ('''', s)
            | Some agt \<Rightarrow> getForegroundPackage (we_shell env) agt True s) of
        (pkg, s) \<Rightarrow> (reply_with RecordingStarted (w\<lparr>ws_recorder := StartRecording now (we_serial env) pkg (ws_recorder w)\<rparr>), s))"

definition stop_recording :: "'s ws_env \<Rightarrow> ws_state \<Rightarrow> ws_state" where
  "stop_recording env w =
     (case StopRecording (we_serial env) (ws_recorder w) of
        (Inl e, rec) \<Rightarrow> reply_with (RecordingError e) (w\<lparr>ws_recorder := rec\<rparr>)
      | (Inr rawEvents, rec) \<Rightarrow>
          (case we_yaml env (we_compile env rawEvents) of
             Inl e \<Rightarrow> reply_with (RecordingError (''Failed to serialize script to YAML: '' @ e)) (w\<lparr>ws_recorder := rec\<rparr>)
           | Inr yaml \<Rightarrow> reply_with (RecordingComplete yaml) (w\<lparr>ws_recorder := rec\<rparr>)))"

section \<open>Gestures\<close>

definition far :: "float64 \<Rightarrow> float64 \<Rightarrow> bool" where
  "far dx dy \<longleftrightarrow> dx * dx + dy * dy > 25 / 10000"

definition touch_down :: "instant \<Rightarrow> ControlEvent \<Rightarrow> gestureState \<Rightarrow> gestureState" where
  "touch_down now ev g = g\<lparr>gs_startX := ce_X ev, gs_startY := ce_Y ev, gs_startTime := now, gs_isSwipe := False\<rparr>"

definition touch_move :: "ControlEvent \<Rightarrow> gestureState \<Rightarrow> gestureState" where
  "touch_move ev g =
     g\<lparr>gs_isSwipe := gs_isSwipe g \<or> far (ce_X ev - gs_startX g) (ce_Y ev - gs_startY g), gs_endX := ce_X ev, gs_endY := ce_Y ev\<rparr>"

definition duration_ms :: "instant \<Rightarrow> gestureState \<Rightarrow> int" where
  "duration_ms now g = (let ms = (now - gs_startTime g) div 1000000 in if ms \<le> 0 then 100 else ms)"

definition swiped :: "ControlEvent \<Rightarrow> gestureState \<Rightarrow> bool" where
  "swiped ev g = far (ce_X ev - gs_startX g) (ce_Y ev - gs_startY g)"

definition record_touch :: "instant \<Rightarrow> ControlEvent \<Rightarrow> ws_state \<Rightarrow> ws_state" where
  "record_touch now ev w =
     (let g = ss_gesture (ws_stream w) in
      if ce_Action ev = 0 then with_gesture (touch_down now ev) w
      else if ce_Action ev = 2 then with_gesture (touch_move ev) w
      else if ce_Action ev = 1 then
        start (if swiped ev g then RecordSwipeTask (gs_startX g) (gs_startY g) (ce_X ev) (ce_Y ev) (duration_ms now g)
               else RecordClickTask (gs_startX g) (gs_startY g)) w
      else w)"

definition record_event :: "'s ws_env \<Rightarrow> instant \<Rightarrow> ControlEvent \<Rightarrow> ws_state \<Rightarrow> ws_state" where
  "record_event env now ev w =
     (if \<not> IsRecording (we_serial env) (ws_recorder w) then w
      else if ce_Type ev = ''touch'' then record_touch now ev w
      else if ce_Type ev = ''text'' then w\<lparr>ws_recorder := snd (RecordTextInput now (we_serial env) (ce_Text ev) (ws_recorder w))\<rparr>
      else w)"

section \<open>Input to an iOS device\<close>

definition ios_client :: "'s ws_env \<Rightarrow> streamState \<Rightarrow> int" where
  "ios_client env st =
     (case ss_wdaClient st of
        Some c \<Rightarrow> c
      | None \<Rightarrow> (case we_wdaFn env (we_serial env) of Inr (Some c) \<Rightarrow> c | _ \<Rightarrow> ss_port st + 3000))"

definition ios_event :: "'s ws_env \<Rightarrow> instant \<Rightarrow> ControlEvent \<Rightarrow> ws_state \<Rightarrow> ws_state" where
  "ios_event env now ev w =
     (let c = ios_client env (ws_stream w);
          w = w\<lparr>ws_stream := (ws_stream w)\<lparr>ss_wdaClient := Some c\<rparr>\<rparr>;
          st = ws_stream w; g = ss_gesture st
      in if ce_Type ev = ''touch'' then
           if ce_Action ev = 0 then with_gesture (touch_down now ev) w
           else if ce_Action ev = 2 then with_gesture (touch_move ev) w
           else if ce_Action ev = 1 then
             start (IosTouchTask c (gs_startX g) (gs_startY g) (ce_X ev) (ce_Y ev) (duration_ms now g) (swiped ev g)
               (ss_logicalWidth st) (ss_logicalHeight st)) w
           else w
         else if ce_Type ev = ''key'' then start (IosKeyTask c (ce_Keycode ev)) w
         else if ce_Type ev = ''text'' then start (IosTextTask c (ce_Text ev)) w
         else w)"

section \<open>Input to an Android device\<close>

definition enqueue :: "byte list \<Rightarrow> byte list list \<Rightarrow> byte list list" where
  "enqueue msg q = (if msg = [] then q else if length q < 64 then q @ [msg] else q)"

definition android_event :: "ControlEvent \<Rightarrow> ws_state \<Rightarrow> ws_state" where
  "android_event ev w =
     (let st = ws_stream w in
      if \<not> ss_controlConn st then w
      else (case SerializeControlEvent ev (ss_videoWidth st) (ss_videoHeight st) of
              Inl _ \<Rightarrow> w
            | Inr msgs \<Rightarrow> w\<lparr>ws_queue := fold enqueue msgs (ws_queue w)\<rparr>))"

text \<open>
  The goroutine that writes takes the next message; a write that fails has written some of its bytes.
\<close>

definition write_control :: "nat option \<Rightarrow> ws_state \<Rightarrow> ws_state" where
  "write_control failed w =
     (case ws_queue w of
        [] \<Rightarrow> w
      | msg # rest \<Rightarrow>
          w\<lparr>ws_queue := rest,
            ws_socket := (if ss_controlConn (ws_stream w) then ws_socket w @ (case failed of None \<Rightarrow> msg | Some n \<Rightarrow> take n msg) else ws_socket w)\<rparr>)"

section \<open>The loop\<close>

datatype ws_frame = TextFrame "string + ControlEvent" | OtherFrame

definition ws_message :: "'s ws_env \<Rightarrow> instant \<Rightarrow> ws_frame \<Rightarrow> ws_state \<Rightarrow> 's \<Rightarrow> ws_state \<times> 's" where
  "ws_message env now frame w s =
     (case frame of
        OtherFrame \<Rightarrow> (w, s)
      | TextFrame (Inl _) \<Rightarrow> (w, s)
      | TextFrame (Inr ev) \<Rightarrow>
          if ce_Type ev = ''START_RECORDING'' then start_recording env now w s
          else if ce_Type ev = ''STOP_RECORDING'' then (stop_recording env w, s)
          else if ce_Type ev = ''DUMP_UI'' then (start DumpUITask w, s)
          else if ce_Type ev = ''GET_FOREGROUND_PACKAGE'' then (start ForegroundTask w, s)
          else if ce_Type ev = ''LIST_DIRECTORY'' then (start (ListDirectoryTask (ce_Path ev)) w, s)
          else
            (let w = record_event env now ev w in
             case Get (we_reg env) (we_serial env) of
               Inr device \<Rightarrow>
                 if strings_EqualFold (dev_Platform device) ''ios'' then (ios_event env now ev w, s)
                 else (android_event ev w, s)
             | Inl _ \<Rightarrow> (android_event ev w, s)))"

text \<open>
  The start of \<^verbatim>\<open>handleWS\<close>: the viewer is entered with a buffer of 120 chunks and gets the cached frames; when writing one of
  them fails it is removed again.  \<open>failed\<close> is whether the upgrade or such a write failed.
\<close>

datatype ws_opening = NoActiveStream | UpgradeFailed | WriteFailed streamState | Opened "byte list list" streamState

definition handleWS_open :: "Manager \<Rightarrow> string \<Rightarrow> chan_id \<Rightarrow> bool \<Rightarrow> bool \<Rightarrow> ws_opening" where
  "handleWS_open m serial ch upgradeFails writeFails =
     (case m_streams m serial of
        None \<Rightarrow> NoActiveStream
      | Some st \<Rightarrow>
          if upgradeFails then UpgradeFailed
          else (case addClientAndGetCache st ch 120 of
                  (cachedGOP, st) \<Rightarrow>
                    if writeFails \<and> cachedGOP \<noteq> [] then WriteFailed (removeClient st ch) else Opened cachedGOP st))"

section \<open>The goroutines\<close>

record 'd drivers =
  dv_ios :: "int \<Rightarrow> 'd Driver"
  dv_android :: "string \<Rightarrow> Agent option \<Rightarrow> 'd Driver"

definition ws_driver :: "'d drivers \<Rightarrow> 's ws_env \<Rightarrow> streamState \<Rightarrow> Device \<Rightarrow> 'd Driver" where
  "ws_driver dv env st device =
     (if strings_EqualFold (dev_Platform device) ''ios'' then dv_ios dv (ss_port st + 3000)
      else dv_android dv (we_serial env) (we_agentFn env (we_serial env)))"

definition run_dump :: "'d drivers \<Rightarrow> 's ws_env \<Rightarrow> streamState \<Rightarrow> Context \<Rightarrow> instant \<Rightarrow> 'd \<Rightarrow> reply \<times> 'd" where
  "run_dump dv env st ctx now d =
     (case Get (we_reg env) (we_serial env) of
        Inl _ \<Rightarrow> (UIDumpError ''Device not found'', d)
      | Inr device \<Rightarrow>
          (case dr_DumpUI (ws_driver dv env st device) ctx now d of
             (Inl e, d, _) \<Rightarrow> (UIDumpError e, d)
           | (Inr dump, d, _) \<Rightarrow> (UIDump dump, d)))"

definition run_foreground :: "'s ws_env \<Rightarrow> 's \<Rightarrow> reply \<times> 's" where
  "run_foreground env s =
     (case we_agentFn env (we_serial env) of
        None \<Rightarrow> (ForegroundPackage '''', s)
      | Some agt \<Rightarrow> (case getForegroundPackage (we_shell env) agt True s of (pkg, s) \<Rightarrow> (ForegroundPackage pkg, s)))"

definition run_list_directory :: "'s ws_env \<Rightarrow> string \<Rightarrow> 's \<Rightarrow> 's" where
  "run_list_directory env path s =
     (case we_agentFn env (we_serial env) of
        None \<Rightarrow> s
      | Some agt \<Rightarrow>
          snd (Shell (we_shell env) (''am broadcast -a com.protean.agent.COMMAND -e command LIST_DIRECTORY -e path '' @ strconv_Quote path) agt s))"

text \<open>
  The goroutine that records a gesture.  A click is recorded with a dump and the size of the screen, taken between the two
  critical sections of \<^verbatim>\<open>RecordClick\<close>; \<open>rec'\<close> is the recorder at the second.
\<close>

definition run_record_swipe :: "'s ws_env \<Rightarrow> instant \<Rightarrow> float64 \<Rightarrow> float64 \<Rightarrow> float64 \<Rightarrow> float64 \<Rightarrow> int \<Rightarrow> RecorderManager \<Rightarrow> RecorderManager" where
  "run_record_swipe env now x1 y1 x2 y2 ms rec =
     (case Get (we_reg env) (we_serial env) of Inl _ \<Rightarrow> rec | Inr _ \<Rightarrow> snd (RecordSwipe now (we_serial env) x1 y1 x2 y2 ms rec))"

definition run_record_click ::
  "'d drivers \<Rightarrow> 's ws_env \<Rightarrow> streamState \<Rightarrow> Context \<Rightarrow> instant \<Rightarrow> float64 \<Rightarrow> float64 \<Rightarrow> RecorderManager \<Rightarrow> RecorderManager \<Rightarrow> 'd \<Rightarrow> RecorderManager \<times> 'd" where
  "run_record_click dv env st ctx now x y rec rec' d =
     (case Get (we_reg env) (we_serial env) of
        Inl _ \<Rightarrow> (rec', d)
      | Inr device \<Rightarrow>
          (case RecordClick_begin (we_serial env) rec of
             Inl _ \<Rightarrow> (rec', d)
           | Inr p \<Rightarrow>
               (let driver = ws_driver dv env st device;
                    (dump, d, n) = dr_DumpUI driver ctx now d;
                    (sz, d, n') = dr_ScreenSize driver ctx (now + int n) d
                in (RecordClick_end (now + int n + int n') p dump sz x y rec', d))))"

text \<open>
  The goroutines for iOS.  The size of the screen is the one the stream knows, else the one the client reads, which the
  stream then keeps, else that of an iPhone X; the result of a goroutine is the size it found.
\<close>

definition logical_size :: "wda_lib \<Rightarrow> 's wda_server \<Rightarrow> float64 \<Rightarrow> float64 \<Rightarrow> ((float64 \<times> float64) \<times> (float64 \<times> float64) option, 's) wda_call" where
  "logical_size lib srv lw lh =
     (if lw \<le> 0 \<or> lh \<le> 0 then
        wda_bind (GetWindowSize (wl_size lib) srv) (\<lambda>r.
          case r of
            Inr (w, h) \<Rightarrow> if w > 0 \<and> h > 0 then wda_ret ((w, h), Some (w, h)) else wda_ret ((375, 812), None)
          | Inl _ \<Rightarrow> wda_ret ((375, 812), None))
      else wda_ret ((lw, lh), None))"

definition when_ensured :: "wda_lib \<Rightarrow> 's wda_server \<Rightarrow> ('r option, 's) wda_call \<Rightarrow> ('r option, 's) wda_call" where
  "when_ensured lib srv m =
     wda_bind (EnsureSession (wl_session lib) srv) (\<lambda>e. case e of Some _ \<Rightarrow> wda_ret None | None \<Rightarrow> m)"

definition run_ios_touch ::
  "wda_lib \<Rightarrow> 's wda_server \<Rightarrow> float64 \<Rightarrow> float64 \<Rightarrow> float64 \<Rightarrow> float64 \<Rightarrow> int \<Rightarrow> bool \<Rightarrow> float64 \<Rightarrow> float64 \<Rightarrow> ((float64 \<times> float64) option, 's) wda_call" where
  "run_ios_touch lib srv x1 y1 x2 y2 ms isSwipe lw lh =
     when_ensured lib srv
       (wda_bind (logical_size lib srv lw lh) (\<lambda>((lw, lh), found).
          if isSwipe then
            (let d = real_of_int ms / 1000; d = (if d \<le> 0 then 1 / 2 else d) in
             wda_bind (Wda.Swipe srv (x1 * lw) (y1 * lh) (x2 * lw) (y2 * lh) d) (\<lambda>_. wda_ret found))
          else wda_bind (Wda.Tap srv (x1 * lw) (y1 * lh)) (\<lambda>_. wda_ret found)))"

definition run_ios_key :: "wda_lib \<Rightarrow> 's wda_server \<Rightarrow> float64 \<Rightarrow> float64 \<Rightarrow> int \<Rightarrow> ((float64 \<times> float64) option, 's) wda_call" where
  "run_ios_key lib srv lw lh keycode =
     when_ensured lib srv
       (let finish = (\<lambda>m. wda_bind m (\<lambda>_. wda_ret None)) in
        if keycode = 3 then finish (homescreen srv)
        else if keycode = 24 then finish (PressButton strconv_Quote srv ''volumeup'')
        else if keycode = 25 then finish (PressButton strconv_Quote srv ''volumedown'')
        else if keycode = 164 then finish (PressButton strconv_Quote srv ''mute'')
        else if keycode = 4 then
          wda_bind (logical_size lib srv lw lh) (\<lambda>((lw, lh), found).
            wda_bind (Wda.Swipe srv 5 (lh / 2) (lw * (7 / 10)) (lh / 2) (4 / 10)) (\<lambda>_. wda_ret found))
        else if keycode = 187 then
          wda_bind (logical_size lib srv lw lh) (\<lambda>((lw, lh), found).
            wda_bind (SwipeAndHold srv (lw / 2) (lh - 5) (lw / 2) (lh * (5 / 10)) (4 / 10) 1000) (\<lambda>_. wda_ret found))
        else if keycode = 67 then finish (SendKeys (wl_runes lib) srv [CHR 0x08])
        else if keycode = 66 then finish (SendKeys (wl_runes lib) srv [CHR 0x0A])
        else wda_ret None)"

definition run_ios_text :: "wda_lib \<Rightarrow> 's wda_server \<Rightarrow> string \<Rightarrow> (string option, 's) wda_call" where
  "run_ios_text lib srv text = SendKeys (wl_runes lib) srv text"

section \<open>What reaches an Android device\<close>

text \<open>
  A run of the connection: messages that are read, and writes of the other goroutine that succeed.  Of the messages read,
  the input of the viewer are those of the four types of the encoding.
\<close>

datatype ws_input = Message instant ws_frame | Written

fun ws_step :: "'s ws_env \<Rightarrow> ws_input \<Rightarrow> ws_state \<times> 's \<Rightarrow> ws_state \<times> 's" where
  "ws_step env (Message now frame) (w, s) = ws_message env now frame w s"
| "ws_step env Written (w, s) = (write_control None w, s)"

definition ws_run :: "'s ws_env \<Rightarrow> ws_input list \<Rightarrow> ws_state \<times> 's \<Rightarrow> ws_state \<times> 's" where
  "ws_run env = fold (ws_step env)"

definition is_input :: "ControlEvent \<Rightarrow> bool" where
  "is_input ev \<longleftrightarrow> ce_Type ev \<in> {''touch'', ''scroll'', ''text'', ''key''}"

fun input_of :: "ws_input \<Rightarrow> ControlEvent option" where
  "input_of (Message now (TextFrame (Inr ev))) = (if is_input ev then Some ev else None)"
| "input_of _ = None"

text \<open>A byte string that the reader takes for one message, whatever follows.\<close>

definition is_msg :: "byte list \<Rightarrow> bool" where
  "is_msg m \<longleftrightarrow> m \<noteq> [] \<and> (\<exists>c. \<forall>bs. read_msg (m @ bs) = Some (c, bs))"

definition msg_of :: "byte list \<Rightarrow> control_msg" where
  "msg_of m = fst (the (read_msg m))"

lemma is_msgD: "is_msg m \<Longrightarrow> read_msg (m @ bs) = Some (msg_of m, bs)"
  unfolding is_msg_def msg_of_def by (metis append_Nil2 fst_conv option.sel)

lemma read_all_msgs: "list_all is_msg ms \<Longrightarrow> read_all (concat ms) = Some (map msg_of ms)"
  by (induction ms) (auto simp: read_all.simps [of "[]"] read_all_step [OF is_msgD] is_msg_def)

lemma serialized_msgs:
  assumes "is_input ev" "length (ce_Text ev) < 2 ^ 32" "screen_size vw vh = (w, h)"
  shows "\<exists>msgs. SerializeControlEvent ev vw vh = Inr msgs \<and> list_all is_msg msgs \<and> map msg_of msgs = control_msgs w h ev"
proof -
  have one: "is_msg m \<and> msg_of m = c" if "\<And>bs. read_msg (m @ bs) = Some (c, bs)" "m \<noteq> []" for m c
    using that(1) [of "[]"] that by (auto simp: is_msg_def msg_of_def)
  note msg = one [OF read_touch] one [OF read_scroll] one [OF read_key] one [OF read_text [OF assms(2)]]
  from assms(1,3) msg show ?thesis
    by (auto simp: is_input_def SerializeControlEvent_def control_msgs_def msg_defs)
qed

interpretation control: lossy_channel enqueue "\<lambda>q. q" 64 "\<lambda>_. True" "\<lambda>m. m \<noteq> []"
  by unfold_locales (auto simp: enqueue_def)

text \<open>What the reading of a message leaves alone.\<close>

definition control_view :: "ws_state \<Rightarrow> bool \<times> 16 word \<times> 16 word" where
  "control_view w = (ss_controlConn (ws_stream w), ss_videoWidth (ws_stream w), ss_videoHeight (ws_stream w))"

definition on_android :: "'s ws_env \<Rightarrow> bool" where
  "on_android env \<longleftrightarrow> (\<forall>device. Get (we_reg env) (we_serial env) = Inr device \<longrightarrow> \<not> strings_EqualFold (dev_Platform device) ''ios'')"

definition quiet :: "ws_state \<Rightarrow> ws_state \<Rightarrow> bool" where
  "quiet w w' \<longleftrightarrow> control_view w' = control_view w \<and> ws_queue w' = ws_queue w \<and> ws_socket w' = ws_socket w"

lemmas quiet_defs = quiet_def control_view_def reply_with_def start_def with_gesture_def

lemma quiet_parts:
  "quiet w (fst (start_recording env now w s))" "quiet w (stop_recording env w)" "quiet w (record_event env now ev w)" "quiet w (start t w)"
  by (auto simp: start_recording_def stop_recording_def record_event_def record_touch_def quiet_defs Let_def split: prod.splits sum.splits)

lemma ws_message_android:
  assumes "on_android env"
  shows "\<exists>w1. quiet w w1 \<and> fst (ws_message env now frame w s) =
    (case input_of (Message now frame) of Some ev \<Rightarrow> android_event ev w1 | None \<Rightarrow> w1)"
proof -
  have refused: "android_event ev w1 = w1" if "\<not> is_input ev" for ev w1
    using that by (simp add: android_event_def SerializeControlEvent_def is_input_def Let_def split: prod.splits)
  have id: "quiet w w" by (simp add: quiet_def)
  have step: "fst (ws_message env now (TextFrame (Inr ev)) w s) = android_event ev (record_event env now ev w)"
    if "ce_Type ev \<notin> {''START_RECORDING'', ''STOP_RECORDING'', ''DUMP_UI'', ''GET_FOREGROUND_PACKAGE'', ''LIST_DIRECTORY''}" for ev
    using that assms by (auto simp: ws_message_def Let_def on_android_def split: sum.splits)
  consider "frame = OtherFrame" | e where "frame = TextFrame (Inl e)" | ev where "frame = TextFrame (Inr ev)"
    by (metis ws_frame.exhaust sum.exhaust)
  then show ?thesis
  proof cases
    case (3 ev)
    show ?thesis
    proof (cases "ce_Type ev \<in> {''START_RECORDING'', ''STOP_RECORDING'', ''DUMP_UI'', ''GET_FOREGROUND_PACKAGE'', ''LIST_DIRECTORY''}")
      case True
      then have "\<not> is_input ev" by (auto simp: is_input_def)
      then show ?thesis using 3 True quiet_parts by (auto simp: ws_message_def)
    next
      case False
      show ?thesis using step [OF False] refused [of ev] 3 quiet_parts(3) [of w env now ev]
        by (intro exI [of _ "record_event env now ev w"]) (simp split: option.splits)
    qed
  qed (use id in \<open>auto simp: ws_message_def\<close>)
qed

definition control_inv :: "bool \<times> 16 word \<times> 16 word \<Rightarrow> byte list list \<Rightarrow> ws_state \<Rightarrow> bool" where
  "control_inv view all w \<longleftrightarrow> control_view w = view \<and>
     (\<exists>sent. ws_socket w = concat sent \<and> delivered 64 (\<lambda>m. m \<noteq> []) sent (ws_queue w) all)"

lemma control_inv_event:
  assumes "control_inv (True, vw, vh) all w" "SerializeControlEvent ev vw vh = Inr msgs"
  shows "control_inv (True, vw, vh) (all @ msgs) (android_event ev w)"
proof -
  obtain sent where sent: "ws_socket w = concat sent" "delivered 64 (\<lambda>m. m \<noteq> []) sent (ws_queue w) all"
    and view: "control_view w = (True, vw, vh)" using assms(1) by (auto simp: control_inv_def)
  have ev: "android_event ev w = w\<lparr>ws_queue := fold enqueue msgs (ws_queue w)\<rparr>"
    using view assms(2) by (simp add: android_event_def control_view_def)
  from control.delivered_sends [OF TrueI sent(2), of msgs] view sent(1) show ?thesis
    unfolding control_inv_def ev by (auto simp: control_view_def)
qed

lemma control_inv_quiet: "control_inv view all w \<Longrightarrow> quiet w w' \<Longrightarrow> control_inv view all w'"
  by (simp add: control_inv_def quiet_def)

lemma control_inv_write:
  assumes "control_inv (True, vw, vh) all w"
  shows "control_inv (True, vw, vh) all (write_control None w)"
proof (cases "ws_queue w")
  case Nil
  with assms show ?thesis by (simp add: write_control_def)
next
  case (Cons m q)
  with assms obtain sent where "control_view w = (True, vw, vh)" "ws_socket w = concat sent"
    "delivered 64 (\<lambda>m. m \<noteq> []) (sent @ [m]) q all" by (auto simp: control_inv_def dest: delivered_take)
  then show ?thesis using Cons unfolding control_inv_def
    by (intro conjI exI [of _ "sent @ [m]"]) (simp_all add: write_control_def control_view_def)
qed

lemma ws_run_inv:
  assumes "on_android env" "screen_size vw vh = (sw, sh)" "list_all (\<lambda>ev. length (ce_Text ev) < 2 ^ 32) (List.map_filter input_of inputs)"
    "control_inv (True, vw, vh) all w"
  shows "\<exists>new. list_all is_msg new \<and> map msg_of new = concat (map (control_msgs sw sh) (List.map_filter input_of inputs)) \<and>
    control_inv (True, vw, vh) (all @ new) (fst (ws_run env inputs (w, s)))"
  using assms(3,4)
proof (induction inputs arbitrary: all w s)
  case Nil
  then show ?case by (simp add: ws_run_def map_filter_simps)
next
  case (Cons i rest)
  obtain w2 s2 where w2: "ws_step env i (w, s) = (w2, s2)" by (rule prod.exhaust)
  have "\<exists>new. list_all is_msg new \<and> map msg_of new = concat (map (control_msgs sw sh) (List.map_filter input_of [i])) \<and>
      control_inv (True, vw, vh) (all @ new) w2"
  proof (cases i)
    case Written
    with w2 control_inv_write [OF Cons.prems(2)] show ?thesis by (auto simp: map_filter_simps)
  next
    case (Message now frame)
    from ws_message_android [OF assms(1), of w now frame s] obtain w1 where w1: "quiet w w1"
      "w2 = (case input_of i of Some ev \<Rightarrow> android_event ev w1 | None \<Rightarrow> w1)" using w2 Message by auto
    note inv = control_inv_quiet [OF Cons.prems(2) w1(1)]
    show ?thesis
    proof (cases "input_of i")
      case None
      with w1 inv show ?thesis by (auto simp: map_filter_simps)
    next
      case (Some ev)
      with Message have "is_input ev" by (cases frame; cases i rule: input_of.cases) (auto split: if_splits)
      with serialized_msgs [OF this _ assms(2)] Cons.prems(1) Some obtain msgs where
        msgs: "SerializeControlEvent ev vw vh = Inr msgs" "list_all is_msg msgs" "map msg_of msgs = control_msgs sw sh ev"
        by (auto simp: map_filter_simps)
      from control_inv_event [OF inv msgs(1)] msgs Some w1 show ?thesis by (auto simp: map_filter_simps)
    qed
  qed
  then obtain new where new: "list_all is_msg new" "map msg_of new = concat (map (control_msgs sw sh) (List.map_filter input_of [i]))"
    "control_inv (True, vw, vh) (all @ new) w2" by blast
  from Cons.prems(1) have "list_all (\<lambda>ev. length (ce_Text ev) < 2 ^ 32) (List.map_filter input_of rest)"
    by (auto simp: map_filter_simps split: option.splits)
  from Cons.IH [OF this new(3), of s2] obtain new' where new': "list_all is_msg new'"
    "map msg_of new' = concat (map (control_msgs sw sh) (List.map_filter input_of rest))"
    "control_inv (True, vw, vh) ((all @ new) @ new') (fst (ws_run env rest (w2, s2)))" by blast
  have "List.map_filter input_of (i # rest) = List.map_filter input_of [i] @ List.map_filter input_of rest"
    by (simp add: map_filter_simps split: option.splits)
  with new new' w2 show ?case by (intro exI [of _ "new @ new'"]) (simp add: ws_run_def)
qed


definition ex_ws :: ws_state where
  "ex_ws = \<lparr>ws_stream = (new_stream ''d1'' 7400)\<lparr>ss_controlConn := True, ss_videoWidth := 720, ss_videoHeight := 1280\<rparr>,
     ws_recorder = NewRecorderManager, ws_queue = [], ws_socket = [], ws_replies = [], ws_tasks = []\<rparr>"

definition ex_ws_env :: "string \<Rightarrow> unit ws_env" where
  "ex_ws_env platform = \<lparr>we_serial = ''d1'', we_reg = \<lparr>reg_devices = [''d1'' \<mapsto> ex_device ''d1'' platform]\<rparr>, we_agentFn = (\<lambda>_. None),
     we_wdaFn = (\<lambda>_. Inr None), we_shell = (\<lambda>_ _ s. (Inl ''closed'', s)),
     we_compile = (\<lambda>_. \<lparr>scr_Variables = Map.empty, scr_Steps = []\<rparr>), we_yaml = (\<lambda>_. Inr '''')\<rparr>"


text \<open>
  The messages of one event are queued one by one.  When one place is left, the press of a key is queued and its release is
  dropped, so that the device sees a key that goes down and never up.
\<close>

theorem full_queue_leaves_key_down:
  assumes "control_view w = (True, vw, vh)" "length (ws_queue w) = 63" "ce_Type ev = ''key''"
  shows "ws_queue (android_event ev w) = ws_queue w @ [key_msg 0 (ce_Keycode ev)] \<and>
    read_all (key_msg 0 (ce_Keycode ev)) = Some [KeycodeMsg 0 (word_of_int (ce_Keycode ev)) 0 0]"
proof -
  have "ws_queue (android_event ev w) = ws_queue w @ [key_msg 0 (ce_Keycode ev)]"
    using assms by (simp add: android_event_def control_view_def SerializeControlEvent_def enqueue_def key_msg_def Let_def split: prod.splits)
  moreover have "read_all (key_msg 0 (ce_Keycode ev) @ []) = map_option ((@) [KeycodeMsg 0 (word_of_int (ce_Keycode ev)) 0 0]) (read_all [])"
    by (rule read_all_step [OF read_key]) (simp add: key_msg_def)
  ultimately show ?thesis by (simp add: read_all.simps [of "[]"])
qed

theorem full_queue_leaves_key_down_witness:
  "ws_queue (android_event (ex_control ''key'') (ex_ws\<lparr>ws_queue := replicate 63 [0]\<rparr>)) = replicate 63 [0] @ [key_msg 0 4] \<and>
   read_all (key_msg 0 4) = Some [KeycodeMsg 0 4 0 0]"
proof -
  have "control_view (ex_ws\<lparr>ws_queue := replicate 63 [0]\<rparr>) = (True, 720, 1280)" "length (ws_queue (ex_ws\<lparr>ws_queue := replicate 63 [0]\<rparr>)) = 63"
    "ce_Type (ex_control ''key'') = ''key''" by (simp_all add: control_view_def ex_ws_def ex_control_def)
  from full_queue_leaves_key_down [OF this] show ?thesis by (simp add: ex_control_def)
qed

section \<open>What an iOS device performs, and what is recorded\<close>

definition on_ios :: "'s ws_env \<Rightarrow> bool" where
  "on_ios env \<longleftrightarrow> (\<exists>device. Get (we_reg env) (we_serial env) = Inr device \<and> strings_EqualFold (dev_Platform device) ''ios'')"

definition touch_event :: "int \<Rightarrow> ControlEvent \<Rightarrow> bool" where
  "touch_event action ev \<longleftrightarrow> ce_Type ev = ''touch'' \<and> ce_Action ev = action"

text \<open>The gesture that is under way: its start and its time, the client, the size of the screen and the recorder.\<close>

definition under_way :: "instant \<Rightarrow> ControlEvent \<Rightarrow> int \<Rightarrow> ws_state \<Rightarrow> ws_state \<Rightarrow> bool" where
  "under_way t d c w w' \<longleftrightarrow>
     gs_startX (ss_gesture (ws_stream w')) = ce_X d \<and> gs_startY (ss_gesture (ws_stream w')) = ce_Y d \<and>
     gs_startTime (ss_gesture (ws_stream w')) = t \<and> ss_wdaClient (ws_stream w') = Some c \<and>
     ss_logicalWidth (ws_stream w') = ss_logicalWidth (ws_stream w) \<and> ss_logicalHeight (ws_stream w') = ss_logicalHeight (ws_stream w) \<and>
     ws_recorder w' = ws_recorder w \<and> ws_tasks w' = ws_tasks w"

lemma ws_message_ios_touch:
  "on_ios env \<Longrightarrow> touch_event a ev \<Longrightarrow> ws_message env now (TextFrame (Inr ev)) w s = (ios_event env now ev (record_event env now ev w), s)"
  by (auto simp: ws_message_def on_ios_def touch_event_def Let_def)

lemmas gesture_defs = ios_event_def record_event_def record_touch_def with_gesture_def start_def touch_event_def under_way_def
  touch_down_def touch_move_def ios_client_def Let_def

lemma under_way_down:
  "touch_event 0 d \<Longrightarrow> under_way t d (ios_client env (ws_stream w)) w (ios_event env t d (record_event env t d w))"
  by (simp add: gesture_defs split: option.splits sum.splits)

lemma under_way_move:
  "touch_event 2 m \<Longrightarrow> under_way t d c w w1 \<Longrightarrow> under_way t d c w (ios_event env t' m (record_event env t' m w1))"
  by (simp add: gesture_defs)

lemma under_way_moves:
  assumes "on_ios env" "list_all (\<lambda>(t, m). touch_event 2 m) ms" "under_way t d c w w1"
  shows "under_way t d c w (fst (ws_run env (map (\<lambda>(t, m). Message t (TextFrame (Inr m))) ms) (w1, s)))"
  using assms(2,3)
proof (induction ms arbitrary: w1 s)
  case Nil
  then show ?case by (simp add: ws_run_def)
next
  case (Cons m ms)
  obtain t' ev where m: "m = (t', ev)" by (rule prod.exhaust)
  with Cons.prems have ev: "touch_event 2 ev" and ms: "list_all (\<lambda>(t, m). touch_event 2 m) ms" by auto
  from Cons.IH [OF ms under_way_move [OF ev Cons.prems(2)]] show ?case
    by (simp add: ws_run_def m ws_message_ios_touch [OF assms(1) ev])
qed

definition gesture_ms :: "instant \<Rightarrow> instant \<Rightarrow> int" where
  "gesture_ms t t' = (if (t' - t) div 1000000 \<le> 0 then 100 else (t' - t) div 1000000)"

lemma under_way_up:
  assumes "touch_event 1 u" "under_way t d c w w1"
  shows "ws_tasks (ios_event env t' u (record_event env t' u w1)) = ws_tasks w @
    (if IsRecording (we_serial env) (ws_recorder w) then
       [if far (ce_X u - ce_X d) (ce_Y u - ce_Y d) then RecordSwipeTask (ce_X d) (ce_Y d) (ce_X u) (ce_Y u) (gesture_ms t t')
        else RecordClickTask (ce_X d) (ce_Y d)] else []) @
    [IosTouchTask c (ce_X d) (ce_Y d) (ce_X u) (ce_Y u) (gesture_ms t t') (far (ce_X u - ce_X d) (ce_Y u - ce_Y d))
       (ss_logicalWidth (ws_stream w)) (ss_logicalHeight (ws_stream w))]"
  using assms by (simp add: gesture_defs duration_ms_def gesture_ms_def swiped_def)

lemma run_ios_touch_active:
  assumes "\<not> wc_locked c" "wc_sessionID c \<noteq> ''''" "0 < lw" "0 < lh"
  shows "run_ios_touch lib srv x1 y1 x2 y2 ms isSwipe lw lh c s =
    wda_bind (if isSwipe then Wda.Swipe srv (x1 * lw) (y1 * lh) (x2 * lw) (y2 * lh) (if ms \<le> 0 then 1 / 2 else real_of_int ms / 1000)
              else Wda.Tap srv (x1 * lw) (y1 * lh)) (\<lambda>_. wda_ret None) c s"
  using assms by (simp add: run_ios_touch_def when_ensured_def logical_size_def wda_bind_def EnsureSession_def wda_ret_def)


definition ex_touch :: "int \<Rightarrow> float64 \<Rightarrow> ControlEvent" where
  "ex_touch action x = (ex_control ''touch'')\<lparr>ce_Action := action, ce_X := x\<rparr>"


section \<open>The application in the foreground\<close>

lemma isPkgChar_simps: "isPkgChar c \<Longrightarrow> c \<noteq> CHR ''/'' \<and> c \<notin> set [CHR '' '', CHR 0x09, CHR 0x0A, CHR 0x0D, CHR ''{'', CHR ''}'', CHR ''('', CHR '')'', CHR ''='']"
  by (auto simp: isPkgChar_def of_char_def)

lemma dropWhile_none: "\<forall>c \<in> set s. \<not> P c \<Longrightarrow> dropWhile P s = s"
  by (cases s) auto

lemma trim_none: "\<forall>c \<in> set s. c \<notin> set cutset \<Longrightarrow> strings_Trim s cutset = s"
  by (simp add: strings_Trim_def trim_right_def dropWhile_none)

lemma package_suffix_exact:
  assumes "list_all isPkgChar pkg" "pre = [] \<or> \<not> isPkgChar (last pre)"
  shows "package_suffix (pre @ pkg) = pkg"
proof -
  have pkg: "takeWhile isPkgChar (rev pkg @ ys) = rev pkg @ takeWhile isPkgChar ys" for ys
    using assms(1) by (intro takeWhile_append2) (simp add: list_all_iff)
  have "takeWhile isPkgChar (rev pre) = []" using assms(2) by (cases pre rule: rev_cases) simp_all
  with pkg [of "rev pre"] show ?thesis by (simp add: package_suffix_def)
qed

lemma package_of_focus_line:
  assumes "focus_line (pre @ pkg @ CHR ''/'' # rest)" "CHR ''/'' \<notin> set pre" "pre = [] \<or> \<not> isPkgChar (last pre)"
    "list_all isPkgChar pkg" "strings_Contains pkg ''.''"
  shows "package_of_line True (pre @ pkg @ CHR ''/'' # rest) = Some pkg"
proof -
  have "CHR ''/'' \<notin> set (pre @ pkg)" using assms(2,4) isPkgChar_simps by (auto simp: list_all_iff)
  then have "strings_Index ((pre @ pkg) @ CHR ''/'' # rest) (CHR ''/'') = Some (length (pre @ pkg))" by (rule strings_Index_append)
  moreover have "strings_Trim pkg [CHR '' '', CHR 0x09, CHR 0x0A, CHR 0x0D, CHR ''{'', CHR ''}'', CHR ''('', CHR '')'', CHR ''=''] = pkg"
    using assms(4) isPkgChar_simps by (intro trim_none) (auto simp: list_all_iff)
  moreover have "pkg \<noteq> ''''" using assms(5) by (auto simp: strings_Contains.simps)
  ultimately show ?thesis
    using assms(1,5) package_suffix_exact [OF assms(4,3)] by (simp add: package_of_line_def)
qed

text \<open>
  The package of the application in the foreground is read back exactly from what the device prints: from the first line that
  names the focus, the longest name that ends at the first slash, whatever comes before and after.
\<close>

theorem foreground_package_exact:
  assumes lines: "strings_Split output (CHR 0x0A) = before @ (pre @ pkg @ CHR ''/'' # rest) # after" "list_all (\<lambda>l. \<not> focus_line l) before"
    and line: "focus_line (pre @ pkg @ CHR ''/'' # rest)" "CHR ''/'' \<notin> set pre" "pre = [] \<or> \<not> isPkgChar (last pre)"
    and pkg: "list_all isPkgChar pkg" "strings_Contains pkg ''.''"
    and agent: "\<not> ag_stopped agt" "shell (ag_serial agt) ''dumpsys window windows'' s = (Inr output, s')"
  shows "getForegroundPackage shell agt True s = (pkg, s')"
proof -
  have "List.map_filter (package_of_line True) before = []"
    using lines(2) by (induction before) (simp_all add: map_filter_simps package_of_line_def)
  moreover have "List.map_filter f (xs @ ys) = List.map_filter f xs @ List.map_filter f ys" for f :: "string \<Rightarrow> string option" and xs ys
    by (simp add: map_filter_def)
  ultimately have "parsePackageFromDumpsys output True = pkg"
    by (simp add: parsePackageFromDumpsys_def lines(1) map_filter_simps package_of_focus_line [OF line pkg])
  moreover have "pkg \<noteq> ''''" using pkg(2) by (auto simp: strings_Contains.simps)
  ultimately show ?thesis using agent by (simp add: getForegroundPackage_def Shell_def package_in_def)
qed

definition ex_dumpsys :: string where
  "ex_dumpsys = ''WINDOW MANAGER'' @ [CHR 0x0A] @ ''  mCurrentFocus=Window{1f u0 org.app/org.app.Main}'' @ [CHR 0x0A]"

theorem foreground_package_exact_witness:
  "getForegroundPackage (\<lambda>_ _ s. (Inr ex_dumpsys, s)) (New_Agent (ex_device ''d1'' ''android'') 10400) True () = (''org.app'', ())"
proof -
  have "strings_Split ex_dumpsys (CHR 0x0A) = [''WINDOW MANAGER''] @ (''  mCurrentFocus=Window{1f u0 '' @ ''org.app'' @ CHR ''/'' # ''org.app.Main}'') # ['''']"
    "list_all (\<lambda>l. \<not> focus_line l) [''WINDOW MANAGER'']" "focus_line (''  mCurrentFocus=Window{1f u0 '' @ ''org.app'' @ CHR ''/'' # ''org.app.Main}'')"
    "CHR ''/'' \<notin> set ''  mCurrentFocus=Window{1f u0 ''" "''  mCurrentFocus=Window{1f u0 '' = [] \<or> \<not> isPkgChar (last ''  mCurrentFocus=Window{1f u0 '')"
    "list_all isPkgChar ''org.app''" "strings_Contains ''org.app'' ''.''" "\<not> ag_stopped (New_Agent (ex_device ''d1'' ''android'') 10400)"
    by (simp_all add: ex_dumpsys_def focus_line_def isPkgChar_def of_char_def New_Agent_def strings_HasPrefix_def)
  from foreground_package_exact [OF this, of "\<lambda>_ _ s. (Inr ex_dumpsys, s)" "()" "()"] show ?thesis by simp
qed

end
