(* ===== verification/Stream_Http.thy ===== *)
theory Stream_Http
  imports Ws_Control
begin

text \<open>
  \<^verbatim>\<open>src/internal/stream/handlers.go\<close> and \<^verbatim>\<open>upload.go\<close>: the HTTP side of a device's stream.  A handler gives its answer and what
  it changed.  \<^verbatim>\<open>/stream\<close> registers a viewer, writes the cached frames and then each frame it gets, until the viewer or the
  stream goes away.  An upload is written to a temporary file, and the answer is a list of progress lines.
\<close>

section \<open>handlers.go\<close>

datatype 'a http_reply = HttpError int string | NoContent | Body 'a

definition handleState :: "Registry \<Rightarrow> string \<Rightarrow> string \<Rightarrow> DeviceTelemetry http_reply" where
  "handleState reg httpMethod serial =
     (if httpMethod = ''OPTIONS'' then NoContent
      else if httpMethod \<noteq> ''GET'' then HttpError 405 ''method not allowed''
      else (case Get reg serial of
              Inl _ \<Rightarrow> HttpError 404 ''device not found''
            | Inr device \<Rightarrow> Body (dev_State device)))"

text \<open>
  What happens to a viewer of \<^verbatim>\<open>/stream\<close>: a frame is broadcast, its goroutine takes a frame from its channel and writes it,
  or one of the two other cases of the \<^verbatim>\<open>select\<close>.  The result has the bytes written, and whether the handler returned.
\<close>

datatype client_event = Broadcast "byte list" | Take bool | ClientGone | StreamDone

fun serve_client :: "chan_id \<Rightarrow> client_event list \<Rightarrow> streamState \<Rightarrow> byte list list \<Rightarrow> streamState \<times> byte list list \<times> bool" where
  "serve_client ch [] st out = (st, out, False)"
| "serve_client ch (Broadcast chunk # es) st out = serve_client ch es (broadcast st chunk) out"
| "serve_client ch (Take ok # es) st out =
     (case ss_clients st ch of
        None \<Rightarrow> serve_client ch es st out
      | Some v \<Rightarrow>
          (case vw_buf v of
             [] \<Rightarrow> serve_client ch es st out
           | chunk # rest \<Rightarrow>
               (let st = st\<lparr>ss_clients := (ss_clients st)(ch \<mapsto> v\<lparr>vw_buf := rest\<rparr>)\<rparr> in
                if ok then serve_client ch es st (out @ [chunk]) else (removeClient st ch, out, True))))"
| "serve_client ch (ClientGone # es) st out = (removeClient st ch, out, True)"
| "serve_client ch (StreamDone # es) st out = (removeClient st ch, out, True)"

definition handleStreamClient ::
  "Manager \<Rightarrow> string \<Rightarrow> string \<Rightarrow> chan_id \<Rightarrow> bool \<Rightarrow> bool \<Rightarrow> client_event list \<Rightarrow> (streamState \<times> byte list list \<times> bool) http_reply" where
  "handleStreamClient m httpMethod serial ch canFlush cacheWritten es =
     (if httpMethod = ''OPTIONS'' then NoContent
      else (case m_streams m serial of
              None \<Rightarrow> HttpError 404 ''no active stream''
            | Some st \<Rightarrow>
                if \<not> canFlush then HttpError 500 ''streaming not supported''
                else (case addClientAndGetCache st ch 60 of
                        (cachedGOP, st) \<Rightarrow>
                          if cachedGOP \<noteq> [] \<and> \<not> cacheWritten then Body (removeClient st ch, [], True)
                          else Body (serve_client ch es st cachedGOP))))"

text \<open>The messages are written one after the other; \<open>failed\<close> has for each the number of bytes after which it failed, if it did.\<close>

fun write_msgs :: "byte list list \<Rightarrow> nat option list \<Rightarrow> byte list \<Rightarrow> bool \<times> byte list" where
  "write_msgs [] failed out = (True, out)"
| "write_msgs (m # ms) (Some n # failed) out = (False, out @ take n m)"
| "write_msgs (m # ms) (None # failed) out = write_msgs ms failed (out @ m)"
| "write_msgs (m # ms) [] out = write_msgs ms [] (out @ m)"

text \<open>
  \<^verbatim>\<open>handleControl\<close> lets go of the lock while it encodes the event; \<open>connected\<close> is whether there is a control connection when it
  takes the lock again.  The bytes it wrote are the second part of the result.
\<close>

definition handleControl ::
  "Manager \<Rightarrow> string \<Rightarrow> string \<Rightarrow> string + ControlEvent \<Rightarrow> bool \<Rightarrow> nat option list \<Rightarrow> unit http_reply \<times> byte list" where
  "handleControl m httpMethod serial body conn failed =
     (if httpMethod = ''OPTIONS'' then (NoContent, [])
      else if httpMethod \<noteq> ''POST'' then (HttpError 405 ''method not allowed'', [])
      else (case m_streams m serial of
              None \<Rightarrow> (HttpError 404 ''no active stream'', [])
            | Some st \<Rightarrow>
                (case body of
                   Inl e \<Rightarrow> (HttpError 400 (''bad request: '' @ e), [])
                 | Inr ev \<Rightarrow>
                     if \<not> ss_controlConn st then (HttpError 503 ''control connection not ready'', [])
                     else (case SerializeControlEvent ev (ss_videoWidth st) (ss_videoHeight st) of
                             Inl e \<Rightarrow> (HttpError 400 (''bad request: '' @ e), [])
                           | Inr msgs \<Rightarrow>
                               if \<not> conn then (HttpError 503 ''control connection closed'', [])
                               else (case write_msgs msgs failed [] of
                                       (True, out) \<Rightarrow> (NoContent, out)
                                     | (False, out) \<Rightarrow> (HttpError 500 ''write failed'', out))))))"

section \<open>upload.go\<close>

record progressResponse =
  pr_Success :: bool
  pr_Stage :: string
  pr_Message :: string

definition sendProgress :: "string \<Rightarrow> string \<Rightarrow> bool \<Rightarrow> progressResponse" where
  "sendProgress stage message success = \<lparr>pr_Success = success, pr_Stage = stage, pr_Message = message\<rparr>"

text \<open>
  What the request and the operating system do: the error of parsing the form, the kind of upload, the name of the file or
  the error of finding it, the errors of creating and of filling the temporary file, the error and the output of \<^verbatim>\<open>adb\<close>,
  and whether the directory and the renaming fail.  \<open>join\<close> is \<^verbatim>\<open>filepath.Join\<close>.
\<close>

record upload_os =
  up_parse :: "string option"
  up_type :: string
  up_file :: "string + string"
  up_create :: "string option"
  up_copy :: "string option"
  up_adb :: "string option \<times> string"
  up_mkdirFails :: bool
  up_renameFails :: bool
  up_tempDir :: string
  up_join :: "string \<Rightarrow> string \<Rightarrow> string"

text \<open>The files of the host and the \<^verbatim>\<open>adb\<close> commands that were run.\<close>

record upload_host =
  uh_files :: "string set"
  uh_adb :: "string list list"

definition temp_path :: "upload_os \<Rightarrow> string \<Rightarrow> string" where
  "temp_path os name = up_join os (up_tempDir os) name"

definition perm_path :: "upload_os \<Rightarrow> string \<Rightarrow> string" where
  "perm_path os name = up_join os (up_join os (up_tempDir os) ''protean_uploads'') name"

definition run_adb :: "string list \<Rightarrow> upload_host \<Rightarrow> upload_host" where
  "run_adb cmd h = h\<lparr>uh_adb := uh_adb h @ [cmd]\<rparr>"

definition remove_file :: "string \<Rightarrow> upload_host \<Rightarrow> upload_host" where
  "remove_file path h = h\<lparr>uh_files := uh_files h - {path}\<rparr>"

definition upload_action :: "upload_os \<Rightarrow> string \<Rightarrow> string \<Rightarrow> upload_host \<Rightarrow> progressResponse list \<times> upload_host" where
  "upload_action os serial name h =
     (let tempFilePath = temp_path os name in
      if up_type os = ''app'' then
        (sendProgress ''installing'' ''Installing APK on device...'' True #
           (case up_adb os of
              (Some e, out) \<Rightarrow> [sendProgress ''error'' (''Installation failed: '' @ e @ [CHR 0x0A] @ out) False]
            | (None, _) \<Rightarrow> [sendProgress ''opening'' ''Opening installed app...'' True,
                            sendProgress ''done'' ''App installed and opened successfully!'' True]),
         run_adb [''-s'', serial, ''install'', ''-r'', tempFilePath] h)
      else if up_type os = ''file'' then
        (sendProgress ''installing'' ''Pushing file to device...'' True #
           (case up_adb os of
              (Some e, out) \<Rightarrow> [sendProgress ''error'' (''Push failed: '' @ e @ [CHR 0x0A] @ out) False]
            | (None, _) \<Rightarrow> [sendProgress ''done'' ''File pushed to /sdcard/Download/ successfully'' True]),
         run_adb [''-s'', serial, ''push'', tempFilePath, ''/sdcard/Download/'' @ name] h)
      else if up_type os = ''server'' then
        (let first = sendProgress ''installing'' ''Saving file to provider server...'' True in
         if up_mkdirFails os then ([first, sendProgress ''error'' ''Failed to create uploads directory on server'' False], h)
         else if up_renameFails os then ([first, sendProgress ''error'' ''Failed to move file to server destination'' False], h)
         else ([first, sendProgress ''done'' (''File saved on server: '' @ name) True],
               h\<lparr>uh_files := uh_files h - {tempFilePath} \<union> {perm_path os name}\<rparr>))
      else ([sendProgress ''error'' ''invalid upload type'' False], h))"

definition handleUpload :: "upload_os \<Rightarrow> string \<Rightarrow> string \<Rightarrow> upload_host \<Rightarrow> progressResponse list http_reply \<times> upload_host" where
  "handleUpload os httpMethod serial h =
     (if httpMethod = ''OPTIONS'' then (NoContent, h)
      else if httpMethod \<noteq> ''POST'' then (HttpError 405 ''method not allowed'', h)
      else
        (case up_parse os of
           Some e \<Rightarrow> (Body [sendProgress ''error'' (''failed to parse multipart form: '' @ e) False], h)
         | None \<Rightarrow>
             (case up_file os of
                Inl e \<Rightarrow> (Body [sendProgress ''error'' (''missing file in request: '' @ e) False], h)
              | Inr name \<Rightarrow>
                  (let tempFilePath = temp_path os name in
                   case up_create os of
                     Some e \<Rightarrow> (Body [sendProgress ''error'' (''failed to create temp file: '' @ e) False], h)
                   | None \<Rightarrow>
                       (let h = h\<lparr>uh_files := insert tempFilePath (uh_files h)\<rparr> in
                        case up_copy os of
                          Some e \<Rightarrow> (Body [sendProgress ''error'' (''failed to save uploaded file: '' @ e) False], remove_file tempFilePath h)
                        | None \<Rightarrow> (case upload_action os serial name h of (ps, h) \<Rightarrow> (Body ps, remove_file tempFilePath h)))))))"

section \<open>What a viewer receives\<close>

text \<open>A viewer's channel drops the frames for which it has no place.\<close>

interpretation video: lossy_channel try_send vw_buf 60 "\<lambda>v. vw_cap v = 60" "\<lambda>_. True"
  by unfold_locales (auto simp: try_send_def)

text \<open>The frames that are broadcast while the viewer is served.\<close>

fun frames_of :: "client_event list \<Rightarrow> byte list list" where
  "frames_of [] = []"
| "frames_of (Broadcast chunk # es) = chunk # frames_of es"
| "frames_of (Take ok # es) = frames_of es"
| "frames_of (ClientGone # es) = []"
| "frames_of (StreamDone # es) = []"

definition viewer_inv :: "chan_id \<Rightarrow> streamState \<Rightarrow> byte list list \<Rightarrow> byte list list \<Rightarrow> bool" where
  "viewer_inv ch st got sent \<longleftrightarrow> (\<exists>v. ss_clients st ch = Some v \<and> vw_cap v = 60 \<and> delivered 60 (\<lambda>_. True) got (vw_buf v) sent)"

lemma viewer_inv_broadcast: "viewer_inv ch st got sent \<Longrightarrow> viewer_inv ch (broadcast st chunk) got (sent @ [chunk])"
  unfolding viewer_inv_def
  by (auto simp: broadcast_def intro: video.send_usable video.delivered_send)

lemma serve_client_order:
  assumes "serve_client ch es st (pre @ got) = (st', out, finished)" "viewer_inv ch st got sent"
  shows "\<exists>got'. out = pre @ got' \<and> subseq got' (sent @ frames_of es) \<and> (finished \<longrightarrow> ss_clients st' ch = None) \<and>
    (\<not> finished \<longrightarrow> viewer_inv ch st' got' (sent @ frames_of es))"
  using assms
proof (induction es arbitrary: st got sent)
  case Nil
  then show ?case by (auto simp: viewer_inv_def dest: delivered_taken)
next
  case (Cons e es)
  obtain v where v: "ss_clients st ch = Some v" "vw_cap v = 60" "delivered 60 (\<lambda>_. True) got (vw_buf v) sent"
    using Cons.prems(2) by (auto simp: viewer_inv_def)
  have sub: "subseq got (sent @ xs)" for xs using delivered_taken [OF v(3)] by (rule subseq_rev_drop_many)
  show ?case
  proof (cases e)
    case (Broadcast chunk)
    with Cons.IH [OF _ viewer_inv_broadcast [OF Cons.prems(2)]] Cons.prems(1) show ?thesis by simp
  next
    case (Take ok)
    show ?thesis
    proof (cases "vw_buf v")
      case Nil
      with Take v(1) Cons.IH [OF _ Cons.prems(2)] Cons.prems(1) show ?thesis by simp
    next
      case (Cons chunk rest)
      let ?st = "st\<lparr>ss_clients := (ss_clients st)(ch \<mapsto> v\<lparr>vw_buf := rest\<rparr>)\<rparr>"
      have inv: "viewer_inv ch ?st (got @ [chunk]) sent" using v Cons by (auto simp: viewer_inv_def dest: delivered_take)
      show ?thesis
      proof (cases ok)
        case True
        with Take v(1) Cons Cons.prems(1) have "serve_client ch es ?st (pre @ got @ [chunk]) = (st', out, finished)" by simp
        from Cons.IH [OF this inv] Take show ?thesis by simp
      next
        case False
        with Take v(1) Cons Cons.prems(1) sub show ?thesis by (auto simp: removeClient_def)
      qed
    qed
  qed (use Cons.prems(1) sub [of "[]"] in \<open>auto simp: removeClient_def\<close>)
qed

text \<open>
  C26. A viewer of \<^verbatim>\<open>/stream\<close> gets the cached frames first and then frames that were broadcast after it joined, in their order and
  none twice.  While it is served and no more than 60 frames came, what it got and what waits for it are all of them;
  when it is no longer served it is no longer a client of the stream.
\<close>

theorem viewer_frames_in_order:
  assumes "m_streams m serial = Some st" "httpMethod \<noteq> ''OPTIONS''"
    and "handleStreamClient m httpMethod serial ch True True es = Body (st', out, finished)"
  shows "\<exists>got. out = ss_gopCache st @ got \<and> subseq got (frames_of es) \<and> (finished \<longrightarrow> ss_clients st' ch = None) \<and>
    (\<not> finished \<longrightarrow> (\<exists>v. ss_clients st' ch = Some v \<and> (length (frames_of es) \<le> 60 \<longrightarrow> got @ vw_buf v = frames_of es)))"
proof -
  let ?st = "st\<lparr>ss_clients := (ss_clients st)(ch \<mapsto> \<lparr>vw_cap = 60, vw_buf = []\<rparr>)\<rparr>"
  have run: "serve_client ch es ?st (ss_gopCache st @ []) = (st', out, finished)"
    using assms by (simp add: handleStreamClient_def addClientAndGetCache_def)
  have "viewer_inv ch ?st [] []" by (simp add: viewer_inv_def)
  from serve_client_order [OF run this] obtain got where got: "out = ss_gopCache st @ got" "subseq got (frames_of es)"
    "finished \<longrightarrow> ss_clients st' ch = None" "\<not> finished \<longrightarrow> viewer_inv ch st' got (frames_of es)" by auto
  have "\<exists>v. ss_clients st' ch = Some v \<and> (length (frames_of es) \<le> 60 \<longrightarrow> got @ vw_buf v = frames_of es)" if "\<not> finished"
  proof -
    from got(4) that obtain v where v: "ss_clients st' ch = Some v" "delivered 60 (\<lambda>_. True) got (vw_buf v) (frames_of es)"
      by (auto simp: viewer_inv_def)
    then show ?thesis using delivered_all [OF v(2)] by (auto simp: list_all_iff)
  qed
  with got show ?thesis by blast
qed

theorem viewer_frames_in_order_witness:
  "\<exists>st'. handleStreamClient \<lparr>m_streams = [''d1'' \<mapsto> (new_stream ''d1'' 7400)\<lparr>ss_gopCache := [[1], [2]]\<rparr>]\<rparr> ''GET'' ''d1'' 7 True True
      [Broadcast [3], Take True, Broadcast [4]] = Body (st', [[1], [2], [3]], False) \<and>
    (\<exists>v. ss_clients st' 7 = Some v \<and> [[3]] @ vw_buf v = [[3], [4]])"
proof -
  let ?m = "\<lparr>m_streams = [''d1'' \<mapsto> (new_stream ''d1'' 7400)\<lparr>ss_gopCache := [[1], [2]]\<rparr>]\<rparr>"
  have st: "m_streams ?m ''d1'' = Some ((new_stream ''d1'' 7400)\<lparr>ss_gopCache := [[1], [2]]\<rparr>)" by simp
  obtain st' where run: "handleStreamClient ?m ''GET'' ''d1'' 7 True True [Broadcast [3], Take True, Broadcast [4]] = Body (st', [[1], [2], [3]], False)"
    by (simp add: handleStreamClient_def addClientAndGetCache_def new_stream_def broadcast_def try_send_def)
  from viewer_frames_in_order [OF st _ run] have "\<exists>v. ss_clients st' 7 = Some v \<and> [[3]] @ vw_buf v = [[3], [4]]" by auto
  with run show ?thesis by blast
qed

section \<open>Uploads\<close>

definition is_final :: "progressResponse \<Rightarrow> bool" where
  "is_final p \<longleftrightarrow> pr_Stage p \<in> {''done'', ''error''}"

text \<open>The work that the kind of upload asks for succeeded.\<close>

definition upload_done :: "upload_os \<Rightarrow> bool" where
  "upload_done os \<longleftrightarrow> up_parse os = None \<and> (\<exists>name. up_file os = Inr name) \<and> up_create os = None \<and> up_copy os = None \<and>
     (up_type os \<in> {''app'', ''file''} \<and> fst (up_adb os) = None \<or> up_type os = ''server'' \<and> \<not> up_mkdirFails os \<and> \<not> up_renameFails os)"

lemma upload_action_progress:
  "\<exists>ps p. fst (upload_action os serial name h) = ps @ [p] \<and> is_final p \<and> list_all (\<lambda>q. \<not> is_final q \<and> pr_Success q) ps \<and>
    (pr_Success p \<longleftrightarrow> pr_Stage p = ''done'') \<and>
    (pr_Success p \<longleftrightarrow> up_type os \<in> {''app'', ''file''} \<and> fst (up_adb os) = None \<or> up_type os = ''server'' \<and> \<not> up_mkdirFails os \<and> \<not> up_renameFails os)"
proof -
  obtain e out where adb: "up_adb os = (e, out)" by (rule prod.exhaust)
  have split: "(\<exists>ps p. [a] = ps @ [p] \<and> P ps p) = P [] a" "(\<exists>ps p. [a, b] = ps @ [p] \<and> P ps p) = P [a] b"
    "(\<exists>ps p. [a, b, c] = ps @ [p] \<and> P ps p) = P [a, b] c" for a b c :: progressResponse and P
    by (auto simp: append_eq_Cons_conv Cons_eq_append_conv)
  show ?thesis
    by (cases e) (simp_all add: upload_action_def adb split is_final_def sendProgress_def Let_def)
qed

lemma upload_action_files:
  "uh_files (remove_file (temp_path os name) (snd (upload_action os serial name h))) =
     (uh_files h \<union> (if up_type os = ''server'' \<and> \<not> up_mkdirFails os \<and> \<not> up_renameFails os then {perm_path os name} else {})) - {temp_path os name}"
  by (auto simp: upload_action_def remove_file_def run_adb_def Let_def)

text \<open>
  An upload is answered with a list of progress lines, of which the last and only the last says done or error, and it says
  done exactly when the file was received and the installation, the push or the move succeeded.  The temporary file is gone
  afterwards, whatever failed, and with it a file of that name that was there before.
\<close>

theorem upload_reports_outcome:
  assumes "handleUpload os ''POST'' serial h = (r, h')"
  shows "(\<exists>ps p. r = Body (ps @ [p]) \<and> is_final p \<and> list_all (\<lambda>q. \<not> is_final q \<and> pr_Success q) ps \<and>
      (pr_Success p \<longleftrightarrow> pr_Stage p = ''done'') \<and> (pr_Success p \<longleftrightarrow> upload_done os)) \<and>
    (\<forall>name. up_parse os = None \<and> up_file os = Inr name \<and> up_create os = None \<longrightarrow>
       temp_path os name \<notin> uh_files h' \<and> uh_files h' \<subseteq> uh_files h \<union> {perm_path os name})"
proof -
  consider (fail) e where "r = Body [sendProgress ''error'' e False]" "\<not> upload_done os" "up_parse os \<noteq> None \<or> (\<exists>e. up_file os = Inl e) \<or> up_create os \<noteq> None"
    | (copy) e name where "r = Body [sendProgress ''error'' e False]" "\<not> upload_done os" "up_file os = Inr name"
        "h' = remove_file (temp_path os name) (h\<lparr>uh_files := insert (temp_path os name) (uh_files h)\<rparr>)"
    | (act) name where "r = Body (fst (upload_action os serial name (h\<lparr>uh_files := insert (temp_path os name) (uh_files h)\<rparr>)))"
        "h' = remove_file (temp_path os name) (snd (upload_action os serial name (h\<lparr>uh_files := insert (temp_path os name) (uh_files h)\<rparr>)))"
        "up_parse os = None" "up_file os = Inr name" "up_create os = None" "up_copy os = None"
    using assms by (auto simp: handleUpload_def upload_done_def Let_def case_prod_unfold split: option.splits sum.splits)
  then show ?thesis
  proof cases
    case fail
    then show ?thesis by (auto simp: is_final_def sendProgress_def)
  next
    case copy
    then show ?thesis by (auto simp: is_final_def sendProgress_def remove_file_def)
  next
    case (act name)
    from upload_action_progress [of os serial name "h\<lparr>uh_files := insert (temp_path os name) (uh_files h)\<rparr>"] act(1,3-6)
    have "\<exists>ps p. r = Body (ps @ [p]) \<and> is_final p \<and> list_all (\<lambda>q. \<not> is_final q \<and> pr_Success q) ps \<and>
      (pr_Success p \<longleftrightarrow> pr_Stage p = ''done'') \<and> (pr_Success p \<longleftrightarrow> upload_done os)" by (simp add: upload_done_def)
    moreover have "temp_path os name \<notin> uh_files h' \<and> uh_files h' \<subseteq> uh_files h \<union> {perm_path os name}"
      unfolding act(2) upload_action_files by auto
    ultimately show ?thesis using act(4) by auto
  qed
qed

definition ex_upload :: upload_os where
  "ex_upload = \<lparr>up_parse = None, up_type = ''app'', up_file = Inr ''a.apk'', up_create = None, up_copy = None, up_adb = (Some ''exit status 1'', ''no space''),
     up_mkdirFails = False, up_renameFails = False, up_tempDir = ''/tmp'', up_join = (\<lambda>d f. d @ ''/'' @ f)\<rparr>"

theorem upload_reports_outcome_witness:
  "\<exists>r h'. handleUpload ex_upload ''POST'' ''d1'' \<lparr>uh_files = {''/tmp/a.apk''}, uh_adb = []\<rparr> = (r, h') \<and>
    (\<exists>ps p. r = Body (ps @ [p]) \<and> pr_Stage p = ''error'' \<and> \<not> pr_Success p) \<and> ''/tmp/a.apk'' \<notin> uh_files h'"
proof -
  let ?h = "\<lparr>uh_files = {''/tmp/a.apk''}, uh_adb = []\<rparr>"
  obtain r h' where run: "handleUpload ex_upload ''POST'' ''d1'' ?h = (r, h')" by (rule prod.exhaust)
  have not: "\<not> upload_done ex_upload" and temp: "temp_path ex_upload ''a.apk'' = ''/tmp/a.apk''"
    and up: "up_parse ex_upload = None \<and> up_file ex_upload = Inr ''a.apk'' \<and> up_create ex_upload = None"
    by (simp_all add: upload_done_def ex_upload_def temp_path_def)
  from upload_reports_outcome [OF run, THEN conjunct1] not obtain ps p where
    p: "r = Body (ps @ [p])" "is_final p" "pr_Success p \<longleftrightarrow> pr_Stage p = ''done''" "\<not> pr_Success p" by blast
  from upload_reports_outcome [OF run, THEN conjunct2, THEN spec [of _ "''a.apk''"]] up temp have "''/tmp/a.apk'' \<notin> uh_files h'" by simp
  moreover from p have "pr_Stage p = ''error''" by (auto simp: is_final_def)
  ultimately show ?thesis using run p(1,4) by blast
qed

end
