(* ===== verification/Mjpeg_Relay.thy ===== *)
theory Mjpeg_Relay
  imports Stream_Http
begin

text \<open>
  The rest of \<^verbatim>\<open>src/internal/stream/stream.go\<close>: the goroutines of an iOS capture, which open a session of WebDriverAgent and
  relay its stream of JPEG images, and the scaler of images.  What the server and the network do is given attempt by
  attempt and part by part; the JPEG codec and \<^verbatim>\<open>mime.ParseMediaType\<close> are parameters.
\<close>

section \<open>startIOSCaptureLocked: the session\<close>

text \<open>Up to fifteen attempts; before each the context may have ended.  The result is whether a session was ensured.\<close>

fun ensure_startup :: "nat \<Rightarrow> (bool \<times> string option) list \<Rightarrow> bool" where
  "ensure_startup 0 as = False"
| "ensure_startup (Suc n) [] = False"
| "ensure_startup (Suc n) ((ctxDone, err) # as) =
     (if ctxDone then False else if err = None then True else ensure_startup n as)"

section \<open>startIOSCaptureLocked: the connection\<close>

datatype dial = CtxDone | BadRequest string | DialFailed string | Answered int

text \<open>
  At most sixty attempts.  The loop leaves with the response, with the context ended, with a request that could not be made,
  or with the last error; an answer with another status than 200 counts as an error.
\<close>

datatype dialled = Connected | Stopped | GaveUp "string option"

fun mjpeg_dial :: "nat \<Rightarrow> dial list \<Rightarrow> string option \<Rightarrow> dialled" where
  "mjpeg_dial 0 ds err = GaveUp err"
| "mjpeg_dial (Suc n) [] err = GaveUp err"
| "mjpeg_dial (Suc n) (CtxDone # ds) err = Stopped"
| "mjpeg_dial (Suc n) (BadRequest e # ds) err = Stopped"
| "mjpeg_dial (Suc n) (DialFailed e # ds) err = mjpeg_dial n ds (Some e)"
| "mjpeg_dial (Suc n) (Answered code # ds) err =
     (if code = 200 then Connected else mjpeg_dial n ds (Some (''bad status code: '' @ int_string code)))"

definition bprefix :: string where "bprefix = ''boundary=''"

definition mjpeg_boundary :: "(string \<Rightarrow> (string \<rightharpoonup> string) option) \<Rightarrow> string \<Rightarrow> string" where
  "mjpeg_boundary parse contentType =
     (let boundary = (case parse contentType of None \<Rightarrow> '''' | Some params \<Rightarrow> (case params ''boundary'' of None \<Rightarrow> '''' | Some b \<Rightarrow> b));
          boundary = (if boundary = '''' then
                        (case strings_IndexStr contentType bprefix of
                           None \<Rightarrow> boundary
                         | Some idx \<Rightarrow> strings_Trim (drop (idx + length bprefix) contentType) [CHR 0x0D, CHR 0x0A, CHR '' '', CHR 0x22])
                      else boundary);
          boundary = (if boundary = '''' then ''gmirendermjpegstream'' else boundary)
      in strings_TrimPrefix boundary ''--'')"

section \<open>startIOSCaptureLocked: the relay\<close>

definition frame_payload :: "64 word \<Rightarrow> 64 word \<Rightarrow> byte list \<Rightarrow> byte list" where
  "frame_payload t1 t2 imgBytes = bytes_of ''JPEG'' @ PutUint64 t1 @ PutUint64 t2 @ imgBytes"

text \<open>Under the lock the frame replaces the cache and is sent to every client that has room.\<close>

definition publish_jpeg :: "byte list \<Rightarrow> streamState \<Rightarrow> streamState" where
  "publish_jpeg payload st = broadcast (st\<lparr>ss_gopCache := [payload]\<rparr>) payload"

datatype part = RelayDone | NoNextPart string | ReadFailed string | JpegPart "64 word" "64 word" "byte list"

text \<open>The result has the number of frames, kept in 32 bits, and whether the goroutine returned.\<close>

fun mjpeg_relay :: "part list \<Rightarrow> 32 word \<Rightarrow> streamState \<Rightarrow> streamState \<times> 32 word \<times> bool" where
  "mjpeg_relay [] seqNum st = (st, seqNum, False)"
| "mjpeg_relay (RelayDone # ps) seqNum st = (st, seqNum, True)"
| "mjpeg_relay (NoNextPart e # ps) seqNum st = (st, seqNum, True)"
| "mjpeg_relay (ReadFailed e # ps) seqNum st = (st, seqNum, True)"
| "mjpeg_relay (JpegPart t1 t2 imgBytes # ps) seqNum st =
     (if imgBytes = [] then mjpeg_relay ps seqNum st
      else mjpeg_relay ps (seqNum + 1) (publish_jpeg (frame_payload t1 t2 imgBytes) st))"

section \<open>scaleAndCompressJPEG\<close>

definition scaled_size :: "int \<Rightarrow> int \<Rightarrow> int \<Rightarrow> int \<times> int" where
  "scaled_size srcW srcH maxPx =
     (let (dstW, dstH) =
            (if srcH > srcW then if srcH > maxPx then (srcW * maxPx div srcH, maxPx) else (srcW, srcH)
             else if srcW > maxPx then (maxPx, srcH * maxPx div srcW) else (srcW, srcH))
      in (if dstW < 1 then 1 else dstW, if dstH < 1 then 1 else dstH))"

record 'p image =
  im_minX :: int
  im_minY :: int
  im_width :: int
  im_height :: int
  im_at :: "int \<Rightarrow> int \<Rightarrow> 'p"

text \<open>The pixel of the source that is read for a pixel of the result.\<close>

definition sample :: "int \<Rightarrow> int \<Rightarrow> int \<Rightarrow> int" where
  "sample src dst i = i * src div dst"

definition scale_image :: "int \<Rightarrow> 'p image \<Rightarrow> 'p image" where
  "scale_image maxPx src =
     (let (dstW, dstH) = scaled_size (im_width src) (im_height src) maxPx
      in \<lparr>im_minX = 0, im_minY = 0, im_width = dstW, im_height = dstH,
          im_at = (\<lambda>x y. im_at src (im_minX src + sample (im_width src) dstW x) (im_minY src + sample (im_height src) dstH y))\<rparr>)"

definition scaleAndCompressJPEG ::
  "(byte list \<Rightarrow> 'p image option) \<Rightarrow> ('p image \<Rightarrow> int \<Rightarrow> byte list option) \<Rightarrow> byte list \<Rightarrow> int \<Rightarrow> int \<Rightarrow> byte list" where
  "scaleAndCompressJPEG decode encode bytes maxPx quality =
     (case decode bytes of
        None \<Rightarrow> bytes
      | Some src \<Rightarrow> (case encode (scale_image maxPx src) quality of None \<Rightarrow> bytes | Some out \<Rightarrow> out))"

section \<open>Properties\<close>

text \<open>What a viewer reads from a frame.\<close>

definition read_frame_header :: "byte list \<Rightarrow> (64 word \<times> 64 word \<times> byte list) option" where
  "read_frame_header bs =
     (if length bs < 20 \<or> take 4 bs \<noteq> bytes_of ''JPEG'' then None
      else Some (Uint64 (take 8 (drop 4 bs)), Uint64 (take 8 (drop 12 bs)), drop 20 bs))"

lemma read_frame_payload: "read_frame_header (frame_payload t1 t2 img) = Some (t1, t2, img)"
  by (simp add: read_frame_header_def frame_payload_def bytes_of_def)

text \<open>The images that the relay publishes before it returns.\<close>

fun relayed :: "part list \<Rightarrow> (64 word \<times> 64 word \<times> byte list) list" where
  "relayed (JpegPart t1 t2 img # ps) = (if img = [] then relayed ps else (t1, t2, img) # relayed ps)"
| "relayed _ = []"

lemma mjpeg_relay_broadcasts:
  "mjpeg_relay ps n st = (st', n', fin) \<Longrightarrow>
   n' = n + word_of_nat (length (relayed ps)) \<and>
   st' = fold (\<lambda>(t1, t2, img). publish_jpeg (frame_payload t1 t2 img)) (relayed ps) st"
  by (induction ps n st rule: mjpeg_relay.induct) (auto split: if_splits simp: algebra_simps)

lemma fold_publish_cache:
  "ss_gopCache (fold (\<lambda>(t1, t2, img). publish_jpeg (frame_payload t1 t2 img)) xs st) =
     (if xs = [] then ss_gopCache st else case last xs of (t1, t2, img) \<Rightarrow> [frame_payload t1 t2 img])"
  by (induction xs arbitrary: st) (auto simp: publish_jpeg_def broadcast_def split: prod.splits)

lemma fold_publish_viewer:
  assumes "viewer_inv ch st got sent"
  shows "viewer_inv ch (fold (\<lambda>(t1, t2, img). publish_jpeg (frame_payload t1 t2 img)) xs st) got
    (sent @ map (\<lambda>(t1, t2, img). frame_payload t1 t2 img) xs)"
  using assms
proof (induction xs arbitrary: st sent)
  case (Cons x xs)
  obtain t1 t2 img where x: "x = (t1, t2, img)" by (metis prod.exhaust)
  have "viewer_inv ch (st\<lparr>ss_gopCache := [frame_payload t1 t2 img]\<rparr>) got sent" using Cons.prems by (simp add: viewer_inv_def)
  from Cons.IH [OF viewer_inv_broadcast [OF this, of "frame_payload t1 t2 img"]] show ?case by (simp add: x publish_jpeg_def)
qed simp



lemma sample_range: "0 \<le> i \<Longrightarrow> i < dst \<Longrightarrow> 0 < src \<Longrightarrow> 0 \<le> sample src dst i \<and> sample src dst i < src"
proof -
  assume i: "0 \<le> i" "i < dst" "0 < src"
  then have "i * src div dst * dst \<le> i * src" by (simp add: minus_mod_eq_div_mult [symmetric])
  also have "i * src < dst * src" using i by simp
  finally have "i * src div dst * dst < src * dst" by (simp add: mult.commute)
  then show ?thesis using i by (simp add: sample_def pos_imp_zdiv_nonneg_iff mult_less_cancel_right)
qed

lemma sample_same: "0 < n \<Longrightarrow> sample n n i = i"
  by (simp add: sample_def)

lemma scaled_side:
  fixes a b m :: int
  assumes "1 \<le> a" "a \<le> b" "m < b" "1 \<le> m"
  shows "a * m div b \<le> m \<and> a * m div b \<le> a"
proof -
  have "a * m \<le> m * b" "a * m \<le> a * b" using assms by (simp_all add: mult.commute mult_left_mono)
  then have "a * m div b \<le> m * b div b" "a * m div b \<le> a * b div b" using assms by (intro zdiv_mono1; simp)+
  then show ?thesis using assms by simp
qed

text \<open>
  Scaling makes an image at least one and at most \<^verbatim>\<open>maxPx\<close> pixels wide and high and never larger than it was, reads only pixels
  that the source has, and leaves an image that already fits as it is.
\<close>

theorem scale_image_bounds:
  assumes "1 \<le> im_width src" "1 \<le> im_height src" "1 \<le> maxPx" and dst: "scale_image maxPx src = dst"
  shows "1 \<le> im_width dst \<and> im_width dst \<le> min maxPx (im_width src) \<and> 1 \<le> im_height dst \<and> im_height dst \<le> min maxPx (im_height src) \<and>
    (\<forall>x y. 0 \<le> x \<and> x < im_width dst \<and> 0 \<le> y \<and> y < im_height dst \<longrightarrow>
       (\<exists>i j. 0 \<le> i \<and> i < im_width src \<and> 0 \<le> j \<and> j < im_height src \<and> im_at dst x y = im_at src (im_minX src + i) (im_minY src + j))) \<and>
    (im_width src \<le> maxPx \<and> im_height src \<le> maxPx \<longrightarrow>
       im_width dst = im_width src \<and> im_height dst = im_height src \<and> im_at dst x y = im_at src (im_minX src + x) (im_minY src + y))"
proof -
  let ?W = "im_width src" and ?H = "im_height src"
  obtain w h where wh: "scaled_size ?W ?H maxPx = (w, h)" by (rule prod.exhaust)
  have d: "im_width dst = w" "im_height dst = h"
    "\<And>x y. im_at dst x y = im_at src (im_minX src + sample ?W w x) (im_minY src + sample ?H h y)"
    using dst wh by (auto simp: scale_image_def)
  have size: "1 \<le> w \<and> w \<le> min maxPx ?W \<and> 1 \<le> h \<and> h \<le> min maxPx ?H"
    using wh assms(1-3) scaled_side [of ?W ?H maxPx] scaled_side [of ?H ?W maxPx]
    by (auto simp: scaled_size_def split: if_splits)
  have same: "w = ?W \<and> h = ?H" if "?W \<le> maxPx" "?H \<le> maxPx"
    using wh that assms(1,2) by (auto simp: scaled_size_def split: if_splits)
  have "\<exists>i j. 0 \<le> i \<and> i < ?W \<and> 0 \<le> j \<and> j < ?H \<and> im_at dst x y = im_at src (im_minX src + i) (im_minY src + j)"
    if "0 \<le> x" "x < w" "0 \<le> y" "y < h" for x y
    using sample_range [OF that(1,2), of ?W] sample_range [OF that(3,4), of ?H] assms(1,2) d(3) by auto
  then show ?thesis using size same assms(1,2) d by (auto simp: sample_same)
qed

theorem scale_image_bounds_witness:
  "1 \<le> im_width (scale_image 1080 \<lparr>im_minX = 0, im_minY = 0, im_width = 1170, im_height = 2532, im_at = (\<lambda>x y. x + y)\<rparr>) \<and>
   im_height (scale_image 1080 \<lparr>im_minX = 0, im_minY = 0, im_width = 1170, im_height = 2532, im_at = (\<lambda>x y. x + y)\<rparr>) \<le> 1080"
  using scale_image_bounds [OF _ _ _ refl, of "\<lparr>im_minX = 0, im_minY = 0, im_width = 1170, im_height = 2532, im_at = (\<lambda>x y. x + y)\<rparr>" 1080]
  by simp

end
