(* ===== verification/Stream_Tools.thy ===== *)
theory Stream_Tools
  imports Stream_Http
begin

text \<open>
  \<^verbatim>\<open>src/internal/stream/fmp4.go\<close>, the builder of fragmented MP4, and the \<^verbatim>\<open>adb\<close> commands of \<^verbatim>\<open>src/internal/stream/adb.go\<close>.
  The library mp4ff is a parameter: what is modelled is which boxes and samples it is asked for.
\<close>

section \<open>fmp4.go\<close>

definition mp4Timescale :: int where "mp4Timescale = 90000"

text \<open>What \<^verbatim>\<open>BuildInitSegment\<close> asks for: the size of the picture, the decoder configuration, and the defaults of samples.\<close>

record 'c init_segment =
  is_width :: "16 word"
  is_height :: "16 word"
  is_avcC :: "'c option"
  is_DefaultSampleDuration :: "32 word"
  is_DefaultSampleFlags :: "32 word"

record Sample =
  sm_Flags :: "32 word"
  sm_Dur :: "32 word"
  sm_Size :: "32 word"

record FullSample =
  fs_Sample :: Sample
  fs_DecodeTime :: "64 word"
  fs_Data :: "byte list"

record ('c, 'f) mp4_lib =
  mp_ParseSPS :: "byte list \<Rightarrow> (64 word \<times> 64 word) option"
  mp_CreateAvcC :: "byte list \<Rightarrow> byte list \<Rightarrow> 'c option"
  mp_EncodeInit :: "'c init_segment \<Rightarrow> byte list"
  mp_CreateFragment :: "32 word \<Rightarrow> 'f option"
  mp_AddFullSample :: "FullSample \<Rightarrow> 'f \<Rightarrow> 'f"
  mp_EncodeFragment :: "'f \<Rightarrow> byte list"

definition BuildInitSegment :: "('c, 'f) mp4_lib \<Rightarrow> byte list \<Rightarrow> byte list \<Rightarrow> int \<Rightarrow> byte list" where
  "BuildInitSegment lib sps pps maxFPS =
     (let maxFPS = (if maxFPS \<le> 0 then 15 else maxFPS);
          (width, height) = (case mp_ParseSPS lib sps of None \<Rightarrow> (1080, 1920) | Some (w, h) \<Rightarrow> (ucast w, ucast h))
      in mp_EncodeInit lib \<lparr>is_width = width, is_height = height, is_avcC = mp_CreateAvcC lib sps pps,
           is_DefaultSampleDuration = word_of_int (mp4Timescale div maxFPS), is_DefaultSampleFlags = 0x01010000\<rparr>)"

record MediaSample =
  ms_Data :: "byte list"
  ms_IsKey :: bool
  ms_Duration :: "32 word"

definition sample_flags :: "nat \<Rightarrow> MediaSample \<Rightarrow> 32 word" where
  "sample_flags i s = (if i = 0 then if ms_IsKey s then 0x02000000 else 0x01010000 else 0x01010000)"

definition full_sample :: "nat \<Rightarrow> 64 word \<Rightarrow> MediaSample \<Rightarrow> FullSample" where
  "full_sample i baseDecodeTime s =
     \<lparr>fs_Sample = \<lparr>sm_Flags = sample_flags i s, sm_Dur = ms_Duration s, sm_Size = of_nat (length (ms_Data s))\<rparr>,
      fs_DecodeTime = baseDecodeTime, fs_Data = ms_Data s\<rparr>"

text \<open>An error of the library is logged and the loop goes on with the fragment as it is.\<close>

fun add_samples :: "('c, 'f) mp4_lib \<Rightarrow> nat \<Rightarrow> 64 word \<Rightarrow> MediaSample list \<Rightarrow> 'f \<Rightarrow> 'f" where
  "add_samples lib i baseDecodeTime [] frag = frag"
| "add_samples lib i baseDecodeTime (s # samples) frag =
     add_samples lib (Suc i) (baseDecodeTime + ucast (ms_Duration s)) samples (mp_AddFullSample lib (full_sample i baseDecodeTime s) frag)"

definition BuildMediaSegment :: "('c, 'f) mp4_lib \<Rightarrow> 32 word \<Rightarrow> 64 word \<Rightarrow> MediaSample list \<Rightarrow> byte list" where
  "BuildMediaSegment lib seqNum baseDecodeTime samples =
     (case mp_CreateFragment lib seqNum of
        None \<Rightarrow> []
      | Some frag \<Rightarrow> mp_EncodeFragment lib (add_samples lib 0 baseDecodeTime samples frag))"

section \<open>adb.go\<close>

definition ScrcpyServerJarOnDevice :: string where
  "ScrcpyServerJarOnDevice = ''/data/local/tmp/scrcpy-server.jar''"

text \<open>The name of the temporary file or why there is none, the error of writing it, and the error and output of the push.\<close>

record push_os =
  po_create :: "string + string"
  po_write :: "string option"
  po_push :: "string option \<times> string"

definition PushScrcpyServer :: "push_os \<Rightarrow> string \<Rightarrow> upload_host \<Rightarrow> string option \<times> upload_host" where
  "PushScrcpyServer os serial h =
     (case po_create os of
        Inl e \<Rightarrow> (Some (''create temp file: '' @ e), h)
      | Inr tmp \<Rightarrow>
          let h = h\<lparr>uh_files := insert tmp (uh_files h)\<rparr> in
          case po_write os of
            Some e \<Rightarrow> (Some (''write temp file: '' @ e), remove_file tmp h)
          | None \<Rightarrow>
              let h = run_adb [''-s'', serial, ''push'', tmp, ScrcpyServerJarOnDevice] h in
              case po_push os of
                (Some e, out) \<Rightarrow> (Some (''adb push: '' @ e @ '' (out: '' @ out @ '')''), remove_file tmp h)
              | (None, out) \<Rightarrow>
                  (None, remove_file tmp (run_adb [''-s'', serial, ''shell'', ''chmod'', ''644'', ScrcpyServerJarOnDevice] h)))"

definition adbForward :: "string option \<times> string \<Rightarrow> string \<Rightarrow> int \<Rightarrow> string \<Rightarrow> upload_host \<Rightarrow> string option \<times> upload_host" where
  "adbForward res serial local remote h =
     (let h = run_adb [''-s'', serial, ''forward'', ''tcp:'' @ int_string local, remote] h in
      case res of
        (Some e, out) \<Rightarrow>
          (Some (''adb forward tcp:'' @ int_string local @ [CHR 0xE2, CHR 0x86, CHR 0x92] @ remote @ '': '' @ e @ '' (out: '' @ out @ '')''), h)
      | (None, out) \<Rightarrow> (None, h))"

section \<open>Properties\<close>

text \<open>The time at which a sample is decoded, by its position: the start and the durations of all samples before it.\<close>

definition decode_time :: "64 word \<Rightarrow> MediaSample list \<Rightarrow> nat \<Rightarrow> 64 word" where
  "decode_time base samples i = base + (\<Sum>s\<leftarrow>take i samples. ucast (ms_Duration s))"

definition planned_samples :: "64 word \<Rightarrow> MediaSample list \<Rightarrow> FullSample list" where
  "planned_samples base samples = map (\<lambda>i. full_sample i (decode_time base samples i) (samples ! i)) [0..<length samples]"

lemma add_samples_planned:
  "add_samples lib k base samples frag =
     fold (\<lambda>i. mp_AddFullSample lib (full_sample (k + i) (decode_time base samples i) (samples ! i))) [0..<length samples] frag"
proof (induction samples arbitrary: k base frag)
  case (Cons s samples)
  have shift: "[0..<Suc (length samples)] = 0 # map Suc [0..<length samples]"
    by (simp add: upt_conv_Cons map_Suc_upt del: upt_Suc)
  show ?case
    by (simp add: shift Cons.IH fold_map comp_def decode_time_def add.assoc del: upt_Suc)
qed simp

text \<open>
  A media segment is the fragment to which the samples were added in order, each at the time given by the start and the
  durations of all samples before it, kept in 64 bits, so two segments whose start times follow each other are decoded
  like the samples of both in one row.
\<close>

theorem media_segment_timeline:
  "BuildMediaSegment lib seqNum base samples =
     (case mp_CreateFragment lib seqNum of
        None \<Rightarrow> []
      | Some frag \<Rightarrow> mp_EncodeFragment lib (fold (mp_AddFullSample lib) (planned_samples base samples) frag)) \<and>
   map fs_DecodeTime (planned_samples base (samples @ next_samples)) =
     map fs_DecodeTime (planned_samples base samples) @
     map fs_DecodeTime (planned_samples (decode_time base samples (length samples)) next_samples)"
proof
  show "BuildMediaSegment lib seqNum base samples =
     (case mp_CreateFragment lib seqNum of
        None \<Rightarrow> []
      | Some frag \<Rightarrow> mp_EncodeFragment lib (fold (mp_AddFullSample lib) (planned_samples base samples) frag))"
    by (simp add: BuildMediaSegment_def add_samples_planned planned_samples_def fold_map comp_def split: option.split)
  show "map fs_DecodeTime (planned_samples base (samples @ next_samples)) =
     map fs_DecodeTime (planned_samples base samples) @
     map fs_DecodeTime (planned_samples (decode_time base samples (length samples)) next_samples)"
    by (rule nth_equalityI) (auto simp: planned_samples_def full_sample_def decode_time_def nth_append add.assoc)
qed

text \<open>
  However the push of the server fails, no temporary file stays behind, and it is reported as done exactly when the file was
  written and the push succeeded; the file is then also made readable.
\<close>

theorem push_leaves_no_file:
  assumes "PushScrcpyServer os serial h = (r, h')" and "\<And>tmp. po_create os = Inr tmp \<Longrightarrow> tmp \<notin> uh_files h"
  shows "uh_files h' = uh_files h \<and> (r = None \<longleftrightarrow> (\<exists>tmp. po_create os = Inr tmp) \<and> po_write os = None \<and> fst (po_push os) = None) \<and>
    (r = None \<longrightarrow> last (uh_adb h') = [''-s'', serial, ''shell'', ''chmod'', ''644'', ScrcpyServerJarOnDevice])"
  using assms
  by (auto simp: PushScrcpyServer_def remove_file_def run_adb_def Let_def split: sum.splits option.splits prod.splits)

theorem push_leaves_no_file_witness:
  "let os = \<lparr>po_create = Inr ''/tmp/scrcpy-server-1.jar'', po_write = None, po_push = (Some ''exit status 1'', ''no device'')\<rparr>;
       h = \<lparr>uh_files = {}, uh_adb = []\<rparr>
   in fst (PushScrcpyServer os ''S1'' h) \<noteq> None \<and> uh_files (snd (PushScrcpyServer os ''S1'' h)) = {}"
  using push_leaves_no_file [of "\<lparr>po_create = Inr ''/tmp/scrcpy-server-1.jar'', po_write = None, po_push = (Some ''exit status 1'', ''no device'')\<rparr>"
      "''S1''" "\<lparr>uh_files = {}, uh_adb = []\<rparr>", OF surjective_pairing]
  by simp

end
